(* ===== verification/Prelude.thy ===== *)
theory Prelude
  imports
    Main
    "HOL-Library.Multiset"
    "HOL-Library.Finite_Map"
    "HOL-Library.List_Lexorder"
    "HOL-Library.Product_Lexorder"
    "HOL-Library.Char_ord"
begin

text \<open>
  What every component of the model shares: the errors of the Python code as values, the two
  shapes an operation has (a result, and a state transformer that may raise after it has already
  changed the state), the string and ordering functions of the Python standard library that the
  code calls, dynamically typed values, and finite dictionaries.

  A Python \<open>str\<close> is a \<^typ>\<open>string\<close>, a list of code points up to 255; the library functions
  below follow Python on that range.  A \<open>dict\<close> whose iteration order the code never observes is a
  finite map; one whose insertion order shows is an association list.
\<close>

section \<open>Errors and results\<close>

text \<open>
  \<open>pydantic.ValidationError\<close> is a subclass of \<open>ValueError\<close>, which \<open>is_value_error\<close> records for
  the handlers that catch \<open>ValueError\<close>.
\<close>

datatype py_error =
    ValueError string
  | ValidationError string
  | TypeError string
  | KeyError string
  | ForeignError string

fun is_value_error :: "py_error \<Rightarrow> bool" where
  "is_value_error (ValueError _) = True"
| "is_value_error (ValidationError _) = True"
| "is_value_error _ = False"

type_synonym 'a result = "py_error + 'a"

type_synonym ('s, 'a) io = "'s \<Rightarrow> 'a result \<times> 's"

named_theorems io_defs \<open>the combinators of state transformers\<close>
named_theorems model_defs \<open>definitions unfolded when a closed instance is evaluated\<close>

definition bindR :: "'a result \<Rightarrow> ('a \<Rightarrow> 'b result) \<Rightarrow> 'b result" where
  "bindR m f = (case m of Inl e \<Rightarrow> Inl e | Inr x \<Rightarrow> f x)"

definition raise_if :: "bool \<Rightarrow> string \<Rightarrow> 'a result \<Rightarrow> 'a result" where
  "raise_if c msg k = (if c then Inl (ValueError msg) else k)"

definition invalid_if :: "bool \<Rightarrow> string \<Rightarrow> 'a result \<Rightarrow> 'a result" where
  "invalid_if c msg k = (if c then Inl (ValidationError msg) else k)"

lemma bindR_simps [simp]:
  "bindR (Inl e) f = Inl e"
  "bindR (Inr x) f = f x"
  by (simp_all add: bindR_def)

lemma bindR_Inr [simp]: "bindR m f = Inr y \<longleftrightarrow> (\<exists>x. m = Inr x \<and> f x = Inr y)"
  by (cases m) simp_all

lemma raise_if_simps [simp]:
  "raise_if True msg k = Inl (ValueError msg)"
  "raise_if False msg k = k"
  by (simp_all add: raise_if_def)

lemma raise_if_Inr [simp]: "raise_if c msg k = Inr y \<longleftrightarrow> \<not> c \<and> k = Inr y"
  by (simp add: raise_if_def)

lemma invalid_if_simps [simp]:
  "invalid_if True msg k = Inl (ValidationError msg)"
  "invalid_if False msg k = k"
  by (simp_all add: invalid_if_def)

lemma invalid_if_Inr [simp]: "invalid_if c msg k = Inr y \<longleftrightarrow> \<not> c \<and> k = Inr y"
  by (simp add: invalid_if_def)

lemma invalid_if_Inl: "invalid_if c msg k = Inl e \<longleftrightarrow> (c \<and> e = ValidationError msg) \<or> (\<not> c \<and> k = Inl e)"
  by (auto simp: invalid_if_def)

section \<open>State transformers\<close>

text \<open>
  \<open>('s, 'a) io\<close> runs on a state and gives a result and the state it leaves.  An exception keeps
  the changes made before it was raised, as Python does; only a store transaction undoes them.
\<close>

definition retI :: "'a \<Rightarrow> ('s, 'a) io" where
  "retI x s = (Inr x, s)"

definition raiseI :: "py_error \<Rightarrow> ('s, 'a) io" where
  "raiseI e s = (Inl e, s)"

definition bindI :: "('s, 'a) io \<Rightarrow> ('a \<Rightarrow> ('s, 'b) io) \<Rightarrow> ('s, 'b) io" where
  "bindI m f s = (case m s of (Inl e, t) \<Rightarrow> (Inl e, t) | (Inr x, t) \<Rightarrow> f x t)"

definition readI :: "('s \<Rightarrow> 'a result) \<Rightarrow> ('s, 'a) io" where
  "readI f s = (f s, s)"

definition raise_ifI :: "bool \<Rightarrow> string \<Rightarrow> ('s, 'a) io \<Rightarrow> ('s, 'a) io" where
  "raise_ifI c msg k = (if c then raiseI (ValueError msg) else k)"

definition withI :: "('s \<Rightarrow> ('s, 'a) io) \<Rightarrow> ('s, 'a) io" where
  "withI f s = f s s"

declare withI_def [io_defs]
declare retI_def [io_defs] raiseI_def [io_defs] bindI_def [io_defs] readI_def [io_defs]
  raise_ifI_def [io_defs]

lemma retI_Inr [simp]: "retI x s = (Inr y, t) \<longleftrightarrow> y = x \<and> t = s"
  by (auto simp: retI_def)

lemma raiseI_Inr [simp]: "raiseI e s \<noteq> (Inr y, t)"
  by (simp add: raiseI_def)

lemma readI_Inr [simp]: "readI f s = (Inr y, t) \<longleftrightarrow> f s = Inr y \<and> t = s"
  by (auto simp: readI_def)

lemma raise_ifI_Inr [simp]: "raise_ifI c msg k s = (Inr y, t) \<longleftrightarrow> \<not> c \<and> k s = (Inr y, t)"
  by (simp add: raise_ifI_def)

lemma raise_ifI_Inl: "raise_ifI c msg k s = (Inl e, t)
    \<longleftrightarrow> (c \<and> e = ValueError msg \<and> t = s) \<or> (\<not> c \<and> k s = (Inl e, t))"
  by (auto simp: raise_ifI_def raiseI_def)

lemma withI_Inr [simp]: "withI f s = (Inr y, t) \<longleftrightarrow> f s s = (Inr y, t)"
  by (simp add: withI_def)

lemma bindI_Inr [simp]:
  "bindI m f s = (Inr y, u) \<longleftrightarrow> (\<exists>x t. m s = (Inr x, t) \<and> f x t = (Inr y, u))"
  by (auto simp: bindI_def split: prod.splits sum.splits)

text \<open>What a property of states needs to survive a composed operation, raising or not.\<close>

definition keeps :: "('s \<Rightarrow> 's \<Rightarrow> bool) \<Rightarrow> ('s, 'a) io \<Rightarrow> bool" where
  "keeps R m \<longleftrightarrow> (\<forall>s. R s (snd (m s)))"

lemma keepsD: "keeps R m \<Longrightarrow> m s = (r, t) \<Longrightarrow> R s t"
  by (auto simp: keeps_def dest: spec [of _ s])

lemma keeps_retI: "reflp R \<Longrightarrow> keeps R (retI x)"
  by (auto simp: keeps_def retI_def reflp_def)

lemma keeps_raiseI: "reflp R \<Longrightarrow> keeps R (raiseI e)"
  by (auto simp: keeps_def raiseI_def reflp_def)

lemma keeps_readI: "reflp R \<Longrightarrow> keeps R (readI f)"
  by (auto simp: keeps_def readI_def reflp_def)

lemma keeps_raise_ifI: "reflp R \<Longrightarrow> keeps R k \<Longrightarrow> keeps R (raise_ifI c msg k)"
  by (simp add: raise_ifI_def keeps_raiseI)

lemma keeps_bindI:
  assumes "transp R" "keeps R m" "\<And>x. keeps R (f x)"
  shows "keeps R (bindI m f)"
  unfolding keeps_def
proof
  fix s
  obtain r t where m: "m s = (r, t)" by fastforce
  with assms(2) have st: "R s t" by (rule keepsD)
  show "R s (snd (bindI m f s))"
  proof (cases r)
    case (Inl e)
    with m st show ?thesis by (simp add: bindI_def)
  next
    case (Inr x)
    have "R t (snd (f x t))"
      using assms(3) [of x] by (simp add: keeps_def)
    with st have "R s (snd (f x t))" by (rule transpD [OF assms(1)])
    with m Inr show ?thesis by (simp add: bindI_def)
  qed
qed

lemma keeps_withI: "(\<And>s. keeps R (f s)) \<Longrightarrow> keeps R (withI f)"
  by (simp add: keeps_def withI_def)

lemma keeps_option: "keeps R n \<Longrightarrow> (\<And>x. keeps R (f x)) \<Longrightarrow> keeps R (case_option n f x)"
  by (cases x) simp_all

lemma keeps_if: "keeps R m \<Longrightarrow> keeps R n \<Longrightarrow> keeps R (if b then m else n)"
  by simp

lemma keeps_prod: "(\<And>a b. keeps R (f a b)) \<Longrightarrow> keeps R (case_prod f p)"
  by (cases p) simp

lemmas keeps_intros = keeps_prod keeps_withI keeps_option keeps_if keeps_retI keeps_raiseI keeps_readI keeps_raise_ifI keeps_bindI

section \<open>Strings of the Python standard library\<close>

text \<open>\<open>str.isspace\<close>, \<open>str.strip\<close> and \<open>str.lower\<close> on code points up to 255.\<close>

definition py_isspace :: "char \<Rightarrow> bool" where
  "py_isspace c = (let n = of_char c :: nat
     in (9 \<le> n \<and> n \<le> 13) \<or> (28 \<le> n \<and> n \<le> 32) \<or> n = 133 \<or> n = 160)"

definition py_lstrip :: "string \<Rightarrow> string" where
  "py_lstrip s = dropWhile py_isspace s"

definition py_strip :: "string \<Rightarrow> string" where
  "py_strip s = rev (py_lstrip (rev (py_lstrip s)))"

definition is_blank :: "string \<Rightarrow> bool" where
  "is_blank s \<longleftrightarrow> list_all py_isspace s"

lemma py_lstrip_empty_iff: "py_lstrip s = [] \<longleftrightarrow> (\<forall>c \<in> set s. py_isspace c)"
  by (simp only: py_lstrip_def dropWhile_eq_Nil_conv)

lemma py_strip_empty_iff: "py_strip s = [] \<longleftrightarrow> is_blank s"
proof (cases "py_lstrip s")
  case Nil
  moreover from Nil have "is_blank s"
    by (simp add: py_lstrip_empty_iff is_blank_def list_all_iff)
  ultimately show ?thesis by (auto simp: py_strip_def py_lstrip_def is_blank_def list_all_iff dest: set_dropWhileD)
next
  case (Cons c t)
  have "\<not> py_isspace c"
    using Cons hd_dropWhile [of py_isspace s] by (simp add: py_lstrip_def)
  moreover have "\<not> is_blank s"
    using Cons by (metis is_blank_def list.distinct(1) list_all_iff py_lstrip_empty_iff)
  ultimately show ?thesis
    using Cons by (simp add: py_strip_def py_lstrip_empty_iff)
qed

lemma is_blank_Nil [simp]: "is_blank []"
  by (simp add: is_blank_def)

definition py_lower_char :: "char \<Rightarrow> char" where
  "py_lower_char c = (let n = of_char c :: nat
     in if (65 \<le> n \<and> n \<le> 90) \<or> (192 \<le> n \<and> n \<le> 222 \<and> n \<noteq> 215) then char_of (n + 32) else c)"

definition py_lower :: "string \<Rightarrow> string" where
  "py_lower s = map py_lower_char s"

lemma py_lower_char_idem [simp]: "py_lower_char (py_lower_char c) = py_lower_char c"
proof -
  have "of_char c < (256 :: nat)" by simp
  then show ?thesis by (auto simp: py_lower_char_def Let_def)
qed

lemma py_lower_idem [simp]: "py_lower (py_lower s) = py_lower s"
  by (simp add: py_lower_def)

definition py_startswith :: "string \<Rightarrow> string \<Rightarrow> bool" where
  "py_startswith s p \<longleftrightarrow> take (length p) s = p"

definition py_endswith :: "string \<Rightarrow> string \<Rightarrow> bool" where
  "py_endswith s p \<longleftrightarrow> length p \<le> length s \<and> drop (length s - length p) s = p"

fun py_contains :: "string \<Rightarrow> string \<Rightarrow> bool" where
  "py_contains [] p \<longleftrightarrow> p = []"
| "py_contains (c # s) p \<longleftrightarrow> py_startswith (c # s) p \<or> py_contains s p"

lemma py_startswith_iff: "py_startswith s p \<longleftrightarrow> (\<exists>t. s = p @ t)"
  by (metis append_eq_conv_conj py_startswith_def)

lemma py_endswith_iff: "py_endswith s p \<longleftrightarrow> (\<exists>t. s = t @ p)"
proof
  assume "py_endswith s p"
  then have "s = take (length s - length p) s @ p"
    by (metis append_take_drop_id py_endswith_def)
  then show "\<exists>t. s = t @ p" ..
qed (auto simp: py_endswith_def)

lemmas str_eval = py_strip_def py_lstrip_def py_isspace_def is_blank_def py_lower_def py_lower_char_def
  py_startswith_def py_endswith_def Let_def

text \<open>\<open>sep.join(parts)\<close>.\<close>

fun py_join :: "string \<Rightarrow> string list \<Rightarrow> string" where
  "py_join sep [] = []"
| "py_join sep [x] = x"
| "py_join sep (x # y # zs) = x @ sep @ py_join sep (y # zs)"

text \<open>\<open>str(n)\<close> of an integer.\<close>

definition digit_char :: "nat \<Rightarrow> char" where
  "digit_char d = char_of (48 + d)"

fun nat_digits :: "nat \<Rightarrow> string" where
  "nat_digits n = (if n < 10 then [digit_char n] else nat_digits (n div 10) @ [digit_char (n mod 10)])"

declare nat_digits.simps [simp del]

definition py_str_int :: "int \<Rightarrow> string" where
  "py_str_int i = (if i < 0 then ''-'' @ nat_digits (nat (- i)) else nat_digits (nat i))"

text \<open>\<open>repr(s)\<close> of a string: the quote is doubled only when the string has single quotes and no double ones.\<close>

definition hex_digit :: "nat \<Rightarrow> char" where
  "hex_digit d = (if d < 10 then char_of (48 + d) else char_of (87 + d))"

definition py_escape :: "char \<Rightarrow> char \<Rightarrow> string" where
  "py_escape q c = (let n = of_char c :: nat; b = char_of (92 :: nat) in
     if c = q \<or> c = b then [b, c]
     else if n = 10 then [b, CHR ''n''] else if n = 13 then [b, CHR ''r'']
     else if n = 9 then [b, CHR ''t'']
     else if n < 32 \<or> (127 \<le> n \<and> n \<le> 160) \<or> n = 173
       then [b, CHR ''x'', hex_digit (n div 16), hex_digit (n mod 16)]
     else [c])"

definition py_repr :: "string \<Rightarrow> string" where
  "py_repr s = (let sq = char_of (39 :: nat); dq = char_of (34 :: nat);
       q = (if sq \<in> set s \<and> dq \<notin> set s then dq else sq)
     in [q] @ concat (map (py_escape q) s) @ [q])"

section \<open>Ordering\<close>

text \<open>
  \<open>sorted(xs, key=k)\<close> is \<^term>\<open>sort_key k xs\<close>, which is stable like Python's.
  \<open>sorted(xs, key=k, reverse=True)\<close> keeps equal elements in their order, so for an integer key it
  is the stable sort by the negated key.  \<open>max(xs, key=k)\<close> gives the first of the maximal
  elements.
\<close>

fun py_max_by :: "('a \<Rightarrow> 'k::linorder) \<Rightarrow> 'a \<Rightarrow> 'a list \<Rightarrow> 'a" where
  "py_max_by k m [] = m"
| "py_max_by k m (x # xs) = py_max_by k (if k m < k x then x else m) xs"

lemma py_max_by_in: "py_max_by k m xs \<in> insert m (set xs)"
  by (induction k m xs rule: py_max_by.induct) (auto split: if_splits)

lemma py_max_by_ge: "x \<in> insert m (set xs) \<Longrightarrow> k x \<le> k (py_max_by k m xs)"
proof (induction k m xs arbitrary: x rule: py_max_by.induct)
  case (1 k m)
  then show ?case by simp
next
  case (2 k m y ys)
  let ?m = "if k m < k y then y else m"
  have m: "k ?m \<le> k (py_max_by k ?m ys)" using "2.IH" by simp
  show ?case
  proof (cases "x \<in> set ys")
    case True
    then show ?thesis using "2.IH" by simp
  next
    case False
    then have "k x \<le> k ?m" using "2.prems" by auto
    then show ?thesis using m by simp
  qed
qed

lemma py_max_by_unique:
  assumes "x \<in> insert m (set xs)" and "\<And>y. y \<in> insert m (set xs) \<Longrightarrow> y \<noteq> x \<Longrightarrow> k y < k x"
  shows "py_max_by k m xs = x"
  using py_max_by_in [of k m xs] py_max_by_ge [OF assms(1), of k] assms(2)
  by (meson leD)

section \<open>Dictionaries\<close>

definition fm_get :: "('k, 'v) fmap \<Rightarrow> 'k \<Rightarrow> 'v \<Rightarrow> 'v" where
  "fm_get m k d = (case fmlookup m k of None \<Rightarrow> d | Some v \<Rightarrow> v)"

lemma fm_get_empty [simp]: "fm_get fmempty k d = d"
  by (simp add: fm_get_def)

lemma fm_get_upd [simp]: "fm_get (fmupd k v m) k' d = (if k = k' then v else fm_get m k' d)"
  by (simp add: fm_get_def)

text \<open>An insertion-ordered dictionary: an assignment to a present key keeps its place.\<close>

fun dict_set :: "'k \<Rightarrow> 'v \<Rightarrow> ('k \<times> 'v) list \<Rightarrow> ('k \<times> 'v) list" where
  "dict_set k v [] = [(k, v)]"
| "dict_set k v (p # ps) = (if fst p = k then (k, v) # ps else p # dict_set k v ps)"

definition dict_del :: "'k \<Rightarrow> ('k \<times> 'v) list \<Rightarrow> ('k \<times> 'v) list" where
  "dict_del k ps = filter (\<lambda>p. fst p \<noteq> k) ps"

lemma map_of_dict_set [simp]: "map_of (dict_set k v ps) = (map_of ps)(k \<mapsto> v)"
  by (induction k v ps rule: dict_set.induct) auto

lemma map_of_dict_del [simp]: "map_of (dict_del k ps) = (map_of ps)(k := None)"
  by (rule ext) (induction ps, auto simp: dict_del_def)

lemma keys_dict_set: "set (map fst (dict_set k v ps)) = insert k (set (map fst ps))"
  by (induction k v ps rule: dict_set.induct) auto

lemma distinct_dict_set: "distinct (map fst ps) \<Longrightarrow> distinct (map fst (dict_set k v ps))"
proof (induction k v ps rule: dict_set.induct)
  case (1 k v)
  then show ?case by simp
next
  case (2 k v p ps)
  then show ?case using keys_dict_set [of k v ps] by auto
qed

lemma distinct_dict_del: "distinct (map fst ps) \<Longrightarrow> distinct (map fst (dict_del k ps))"
  by (simp add: dict_del_def distinct_map_filter)

lemma dict_set_new: "map_of ps k = None \<Longrightarrow> dict_set k v ps = ps @ [(k, v)]"
  by (induction k v ps rule: dict_set.induct) (auto split: if_splits)

section \<open>Dynamically typed values\<close>

text \<open>
  The values a field of type \<open>Any\<close> holds after JSON serialisation.  Floating point numbers are
  not among them: no modelled operation computes with one that comes from such a field.
\<close>

datatype json =
    JNull
  | JBool bool
  | JInt int
  | JStr string
  | JList "json list"
  | JObj "(string, json) fmap"

fun json_truthy :: "json \<Rightarrow> bool" where
  "json_truthy JNull = False"
| "json_truthy (JBool b) = b"
| "json_truthy (JInt i) = (i \<noteq> 0)"
| "json_truthy (JStr s) = (s \<noteq> [])"
| "json_truthy (JList xs) = (xs \<noteq> [])"
| "json_truthy (JObj m) = (m \<noteq> fmempty)"

section \<open>Traversals\<close>

text \<open>A list comprehension whose body may raise: it stops at the first error.\<close>

fun traverse :: "('a \<Rightarrow> 'b result) \<Rightarrow> 'a list \<Rightarrow> 'b list result" where
  "traverse f [] = Inr []"
| "traverse f (x # xs) = bindR (f x) (\<lambda>y. bindR (traverse f xs) (\<lambda>ys. Inr (y # ys)))"

lemma traverse_total: "(\<And>x. x \<in> set xs \<Longrightarrow> f x = Inr (g x)) \<Longrightarrow> traverse f xs = Inr (map g xs)"
  by (induction xs) auto

lemma traverse_cong_set: "(\<And>x. x \<in> set xs \<Longrightarrow> f x = g x) \<Longrightarrow> traverse f xs = traverse g xs"
  by (induction xs) auto

lemma sort_key_mset_eq:
  assumes "mset xs = mset ys" and "inj_on k (set xs)"
  shows "sort_key k xs = sort_key k ys"
  by (rule sort_key_inj_key_eq) (use assms in auto)

lemma sort_key_snoc_last:
  assumes "mset ys = add_mset x (mset xs)" and "inj_on k (set xs)"
    and "\<And>y. y \<in> set xs \<Longrightarrow> k y < (k x :: 'k::linorder)"
  shows "sort_key k ys = sort_key k xs @ [x]"
proof (rule sort_key_inj_key_eq)
  show "mset ys = mset (sort_key k xs @ [x])" using assms(1) by simp
  have ys: "set ys = insert x (set xs)" using assms(1) by (metis set_mset_add_mset_insert set_mset_mset)
  have "k x \<notin> k ` set xs" using assms(3) by (metis imageE less_irrefl)
  then show "inj_on k (set ys)" unfolding ys using assms(2) by (auto simp: inj_on_insert)
  show "sorted (map k (sort_key k xs @ [x]))"
    using assms(3) by (simp add: sorted_append less_imp_le)
qed

end
