(* ===== verification/Core_Models.thy ===== *)
theory Core_Models
  imports Prelude
begin

text \<open>
  The runtime models that the modelled components read or write: \<open>Work\<close>, \<open>Run\<close>
  (\<open>core/models.py\<close>), \<open>CapabilityRequest\<close> and \<open>CapabilityResult\<close> (\<open>core/capabilities.py\<close>),
  and the parts of the surroundings that the code reads and that are not under \<open>src/\<close>: the wall
  clock, \<open>uuid4\<close>, SHA-256 and \<open>datetime.isoformat\<close>.

  A \<open>datetime\<close> is the number of microseconds of its UTC instant.
\<close>

type_synonym time = int

section \<open>Surroundings\<close>

text \<open>
  The \<open>n\<close>-th reading of the clock and of \<open>uuid4().hex\<close> in a run, the hexadecimal SHA-256 digest of
  a string's UTF-8 encoding, and the ISO rendering of an instant.
\<close>

record env =
  env_clock :: "nat \<Rightarrow> time"
  env_uuid_hex :: "nat \<Rightarrow> string"
  env_sha256_hex :: "string \<Rightarrow> string"
  env_isoformat :: "time \<Rightarrow> string"

definition is_hex_char :: "char \<Rightarrow> bool" where
  "is_hex_char c \<longleftrightarrow> c \<in> set ''0123456789abcdef''"

text \<open>What the code relies on of \<open>uuid4\<close>: no repetition, and only hexadecimal digits.\<close>

definition uuid_ok :: "env \<Rightarrow> bool" where
  "uuid_ok E \<longleftrightarrow> inj (env_uuid_hex E) \<and> (\<forall>n. list_all is_hex_char (env_uuid_hex E n))"

definition new_id_at :: "env \<Rightarrow> nat \<Rightarrow> string \<Rightarrow> string" where
  "new_id_at E n pre = pre @ ''_'' @ env_uuid_hex E n"

lemma new_id_at_inj: "uuid_ok E \<Longrightarrow> new_id_at E m pre = new_id_at E n pre \<longleftrightarrow> m = n"
  by (auto simp: new_id_at_def uuid_ok_def dest: injD)

lemma new_id_at_not_Nil [simp]: "new_id_at E n pre \<noteq> []"
  by (simp add: new_id_at_def)

section \<open>Work and Run\<close>

datatype work_status =
    Work_Open | Work_Ready | Work_Running | Work_Blocked | Work_Waiting
  | Work_Completed | Work_Failed | Work_Cancelled | Work_Archived

record work =
  wk_id :: string
  wk_created_at :: time
  wk_metadata :: "(string, json) fmap"
  wk_kind :: string
  wk_title :: string
  wk_description :: string
  wk_status :: work_status
  wk_priority :: int
  wk_inputs :: "string list"
  wk_artifact_refs :: "string list"
  wk_constraints :: "(string, json) fmap"
  wk_acceptance_criteria :: "string list"
  wk_requested_capabilities :: "string list"
  wk_parent_work_id :: "string option"
  wk_updated_at :: time

datatype run_status =
    Run_Queued | Run_Running | Run_Waiting | Run_Blocked
  | Run_Succeeded | Run_Failed | Run_Cancelled | Run_Interrupted

record run =
  rn_id :: string
  rn_created_at :: time
  rn_metadata :: "(string, json) fmap"
  rn_work_id :: string
  rn_status :: run_status
  rn_workflow_id :: string
  rn_started_at :: "time option"
  rn_ended_at :: "time option"
  rn_current_step :: "string option"
  rn_provider_invocation_refs :: "string list"
  rn_lease_owner :: "string option"
  rn_lease_generation :: int
  rn_lease_expires_at :: "time option"
  rn_heartbeat_at :: "time option"

datatype step_status =
    Step_Pending | Step_Ready | Step_Running | Step_Waiting | Step_Succeeded | Step_Failed
  | Step_Cancelled | Step_Compensating | Step_Compensated | Step_Unknown

datatype side_effect_class = Pure | Idempotent | Deduplicatable | Reconcilable | Irreversible_Opaque

datatype reversibility = Reversible | Compensatable | Not_Reversible | Unknown_Reversibility

record step =
  sp_id :: string
  sp_created_at :: time
  sp_metadata :: "(string, json) fmap"
  sp_run_id :: string
  sp_step_key :: string
  sp_kind :: string
  sp_status :: step_status
  sp_input_digest :: "string option"
  sp_side_effect_class :: side_effect_class
  sp_effect_semantics :: side_effect_class
  sp_reversibility :: reversibility
  sp_current_attempt :: int
  sp_version :: int
  sp_updated_at :: time
  sp_lease_owner :: "string option"
  sp_lease_generation :: int
  sp_lease_expires_at :: "time option"

section \<open>Capability requests and results\<close>

text \<open>\<open>timeout_seconds\<close>, a floating point number that only providers read, is left out.\<close>

datatype invocation_effect =
    Eff_Read | Eff_Write_Local | Eff_Write_Remote | Eff_Deploy | Eff_Admin | Eff_Irreversible

record capability_request =
  cq_id :: string
  cq_capability :: string
  cq_work_id :: "string option"
  cq_run_id :: "string option"
  cq_instruction :: "string option"
  cq_input_artifact_refs :: "string list"
  cq_parameters :: "(string, json) fmap"
  cq_constraints :: "(string, json) fmap"
  cq_preferred_provider_ids :: "string list"
  cq_excluded_provider_ids :: "string list"
  cq_metadata :: "(string, json) fmap"
  cq_idempotency_key :: "string option"
  cq_step_key :: "string option"
  cq_actor_ref :: "string option"
  cq_resource_ref :: "string option"
  cq_subject_version_refs :: "string list"
  cq_effect_class :: invocation_effect
  cq_lease_generation :: int
  cq_lease_owner :: "string option"

datatype capability_status =
    Cap_Succeeded | Cap_Failed | Cap_Unavailable | Cap_Needs_Input | Cap_Cancelled | Cap_Unknown

record capability_result =
  cr_request_id :: string
  cr_provider_id :: string
  cr_status :: capability_status
  cr_output_artifact_refs :: "string list"
  cr_evidence_refs :: "string list"
  cr_message :: "string option"
  cr_error :: "json option"
  cr_metadata :: "(string, json) fmap"
  cr_verification_result :: "json option"
  cr_external_operation_ref :: "string option"
  cr_reconciled :: bool

end
