(* ===== verification/Responsibility_Models.thy ===== *)
theory Responsibility_Models
  imports Core_Models
begin

text \<open>
  The append-only objects of the persistent-responsibility contract
  (\<open>responsibility/models.py\<close>), each with its validators, and their union.  A pydantic model is
  checked when it is constructed and again when it is read back from an event: the validator of
  an object is the function \<open>validate_object\<close>, which gives the object or the message of the first
  check that fails.  Values are records whatever their contents; \<open>valid_object\<close> is what construction guarantees.
\<close>

datatype responsibility_status = Active | Suspended | Discharged

datatype effect_class = Read_Only | Internal_Reversible | External_Effect

fun effect_class_str :: "effect_class \<Rightarrow> string" where
  "effect_class_str Read_Only = ''read-only''"
| "effect_class_str Internal_Reversible = ''internal-reversible''"
| "effect_class_str External_Effect = ''external-effect''"

text \<open>\<open>EffectClass(s)\<close>, which raises \<open>ValueError\<close> for any other string.\<close>

definition parse_effect_class :: "string \<Rightarrow> effect_class result" where
  "parse_effect_class s =
     (if s = ''read-only'' then Inr Read_Only
      else if s = ''internal-reversible'' then Inr Internal_Reversible
      else if s = ''external-effect'' then Inr External_Effect
      else Inl (ValueError (s @ '' is not a valid EffectClass'')))"

lemma parse_effect_class_str [simp]: "parse_effect_class (effect_class_str e) = Inr e"
  by (cases e) (simp_all add: parse_effect_class_def)

lemma parse_effect_class_Inr: "parse_effect_class s = Inr e \<longleftrightarrow> s = effect_class_str e"
proof
  assume "parse_effect_class s = Inr e"
  then show "s = effect_class_str e" by (auto simp: parse_effect_class_def split: if_splits)
qed simp

datatype release_kind = Released | Expired | Preempted

datatype expectation_resolution = Satisfied | Resolution_Cancelled

section \<open>Identity, admission, revision and lifecycle\<close>

record standing_responsibility =
  sr_id :: string
  sr_created_at :: time
  sr_responsibility_kind :: string
  sr_statement :: string
  sr_scope :: "(string, string) fmap"
  sr_schema_version :: string

record responsibility_admission =
  ra_id :: string
  ra_created_at :: time
  ra_responsibility_ref :: string
  ra_responsibility_version :: int
  ra_principal_ref :: string
  ra_basis_refs :: "string list"
  ra_admitted_at :: time

record responsibility_revision =
  rr_id :: string
  rr_created_at :: time
  rr_responsibility_ref :: string
  rr_from_version :: int
  rr_to_version :: int
  rr_statement :: string
  rr_scope :: "(string, string) fmap"
  rr_basis_refs :: "string list"
  rr_reason :: string

record lifecycle_transition =
  lt_id :: string
  lt_created_at :: time
  lt_responsibility_ref :: string
  lt_responsibility_version :: int
  lt_from_status :: responsibility_status
  lt_to_status :: responsibility_status
  lt_basis_refs :: "string list"
  lt_decision_ref :: "string option"
  lt_authority_ref :: "string option"
  lt_applied_at :: time
  lt_reason :: string

section \<open>Expectations and assessments\<close>

record responsibility_expectation =
  ex_id :: string
  ex_created_at :: time
  ex_responsibility_ref :: string
  ex_responsibility_version :: int
  ex_subject_ref :: string
  ex_expected_signal_kind :: string
  ex_due_at :: time
  ex_recurrence_seconds :: "int option"
  ex_freshness_window_seconds :: "int option"
  ex_source_requirement :: "string option"

record expectation_resolution_object =
  er_id :: string
  er_created_at :: time
  er_expectation_ref :: string
  er_responsibility_ref :: string
  er_resolution :: expectation_resolution
  er_basis_refs :: "string list"
  er_resolved_at :: time

record responsibility_assessment =
  as_id :: string
  as_created_at :: time
  as_responsibility_ref :: string
  as_responsibility_version :: int
  as_subject_ref :: string
  as_assessment_kind :: string
  as_basis_refs :: "string list"
  as_assessed_at :: time
  as_fresh_until :: "time option"
  as_rationale :: string

section \<open>Resource vectors\<close>

record resource_vector =
  rv_compute_units :: int
  rv_api_calls :: int
  rv_money_minor :: int
  rv_human_attention_units :: int
  rv_concurrency_slots :: int
  rv_domain_quota :: "(string, int) fmap"

definition rv_zero :: resource_vector where
  "rv_zero = \<lparr>rv_compute_units = 0, rv_api_calls = 0, rv_money_minor = 0,
     rv_human_attention_units = 0, rv_concurrency_slots = 0, rv_domain_quota = fmempty\<rparr>"

definition rv_valid :: "resource_vector \<Rightarrow> bool" where
  "rv_valid r \<longleftrightarrow> \<not> (rv_compute_units r < 0 \<or> rv_api_calls r < 0 \<or> rv_money_minor r < 0
     \<or> rv_human_attention_units r < 0 \<or> rv_concurrency_slots r < 0
     \<or> \<not> fmpred (\<lambda>_ v. 0 \<le> v) (rv_domain_quota r))"

definition rv_error :: "resource_vector \<Rightarrow> string option" where
  "rv_error r = (if rv_valid r then None else Some ''resource values cannot be negative'')"

lemma rv_error_None [simp]: "rv_error r = None \<longleftrightarrow> rv_valid r"
  by (simp add: rv_error_def)

definition fits_within :: "resource_vector \<Rightarrow> resource_vector \<Rightarrow> bool" where
  "fits_within a b =
     (if rv_compute_units a > rv_compute_units b
         \<or> rv_api_calls a > rv_api_calls b
         \<or> rv_money_minor a > rv_money_minor b
         \<or> rv_human_attention_units a > rv_human_attention_units b
         \<or> rv_concurrency_slots a > rv_concurrency_slots b
      then False
      else fmpred (\<lambda>k v. v \<le> fm_get (rv_domain_quota b) k 0) (rv_domain_quota a))"

definition quota_plus :: "(string, int) fmap \<Rightarrow> (string, int) fmap \<Rightarrow> (string, int) fmap" where
  "quota_plus p q = fmmap_keys (\<lambda>k _. fm_get p k 0 + fm_get q k 0) (p ++\<^sub>f q)"

definition rv_plus :: "resource_vector \<Rightarrow> resource_vector \<Rightarrow> resource_vector" where
  "rv_plus a b =
     \<lparr>rv_compute_units = rv_compute_units a + rv_compute_units b,
      rv_api_calls = rv_api_calls a + rv_api_calls b,
      rv_money_minor = rv_money_minor a + rv_money_minor b,
      rv_human_attention_units = rv_human_attention_units a + rv_human_attention_units b,
      rv_concurrency_slots = rv_concurrency_slots a + rv_concurrency_slots b,
      rv_domain_quota = quota_plus (rv_domain_quota a) (rv_domain_quota b)\<rparr>"

text \<open>
  The order the vectors are meant to have: every base dimension and every domain quota, a missing
  quota counting as zero.  Below a valid vector it is what \<open>fits_within\<close> decides.
\<close>

definition quota :: "resource_vector \<Rightarrow> string \<Rightarrow> int" where
  "quota r k = fm_get (rv_domain_quota r) k 0"

definition rv_le :: "resource_vector \<Rightarrow> resource_vector \<Rightarrow> bool" where
  "rv_le a b \<longleftrightarrow> rv_compute_units a \<le> rv_compute_units b \<and> rv_api_calls a \<le> rv_api_calls b
     \<and> rv_money_minor a \<le> rv_money_minor b
     \<and> rv_human_attention_units a \<le> rv_human_attention_units b
     \<and> rv_concurrency_slots a \<le> rv_concurrency_slots b
     \<and> (\<forall>k. quota a k \<le> quota b k)"

lemma quota_valid: "rv_valid r \<Longrightarrow> 0 \<le> quota r k"
  by (auto simp: rv_valid_def quota_def fm_get_def fmpred_iff split: option.splits)

lemma fits_within_iff:
  assumes "rv_valid b"
  shows "fits_within a b \<longleftrightarrow> rv_le a b"
proof -
  have "(\<forall>v. fmlookup (rv_domain_quota a) k = Some v \<longrightarrow> v \<le> quota b k) \<longleftrightarrow> quota a k \<le> quota b k" for k
    using quota_valid [OF assms, of k]
    by (cases "fmlookup (rv_domain_quota a) k") (simp_all add: quota_def [of a] fm_get_def)
  then have "fmpred (\<lambda>k v. v \<le> quota b k) (rv_domain_quota a) \<longleftrightarrow> (\<forall>k. quota a k \<le> quota b k)"
    by (simp add: fmpred_iff)
  then show ?thesis by (auto simp: fits_within_def rv_le_def quota_def)
qed

lemma quota_rv_plus [simp]: "quota (rv_plus a b) k = quota a k + quota b k"
  by (auto simp: quota_def rv_plus_def quota_plus_def fm_get_def split: option.splits)

lemma quota_rv_zero [simp]: "quota rv_zero k = 0"
  by (simp add: quota_def rv_zero_def)

lemma rv_valid_zero [simp]: "rv_valid rv_zero"
  by (simp add: rv_valid_def rv_zero_def)

lemma rv_valid_plus:
  assumes "rv_valid a" "rv_valid b"
  shows "rv_valid (rv_plus a b)"
proof -
  have "0 \<le> fm_get (rv_domain_quota a) k 0 + fm_get (rv_domain_quota b) k 0" for k
    using quota_valid [OF assms(1), of k] quota_valid [OF assms(2), of k] by (simp add: quota_def)
  then show ?thesis
    using assms by (auto simp: rv_valid_def rv_plus_def quota_plus_def fmpred_iff)
qed

lemma rv_le_refl [simp]: "rv_le a a"
  by (simp add: rv_le_def)

lemma rv_le_trans: "rv_le a b \<Longrightarrow> rv_le b c \<Longrightarrow> rv_le a c"
  by (auto simp: rv_le_def intro: order_trans)

record priority_dimensions =
  pd_urgency :: int
  pd_impact :: int
  pd_risk :: int
  pd_reversibility :: int
  pd_confidence :: int
  pd_resource_cost :: int
  pd_human_attention_cost :: int

definition pd_valid :: "priority_dimensions \<Rightarrow> bool" where
  "pd_valid d \<longleftrightarrow> list_all (\<lambda>v. 0 \<le> v \<and> v \<le> 5)
     [pd_urgency d, pd_impact d, pd_risk d, pd_reversibility d, pd_confidence d,
      pd_resource_cost d, pd_human_attention_cost d]"

section \<open>Proposals, admission decisions, reservations and commitments\<close>

record work_proposal =
  wp_id :: string
  wp_created_at :: time
  wp_responsibility_ref :: string
  wp_responsibility_version :: int
  wp_assessment_ref :: string
  wp_subject_ref :: string
  wp_work_kind :: string
  wp_title :: string
  wp_description :: string
  wp_requested_resources :: resource_vector
  wp_requested_capabilities :: "string list"
  wp_expected_result :: string
  wp_stop_conditions :: "string list"
  wp_escalation_conditions :: "string list"
  wp_effect_class :: effect_class
  wp_fresh_until :: "time option"

record priority_judgment =
  pj_id :: string
  pj_created_at :: time
  pj_proposal_ref :: string
  pj_dimensions :: priority_dimensions
  pj_policy_ref :: string
  pj_admitted :: bool
  pj_rationale :: string

record resource_pool =
  rp_id :: string
  rp_created_at :: time
  rp_pool_key :: string
  rp_capacity :: resource_vector
  rp_policy_ref :: string

record portfolio_admission =
  pa_id :: string
  pa_created_at :: time
  pa_proposal_ref :: string
  pa_resource_pool_ref :: string
  pa_policy_ref :: string
  pa_admitted :: bool
  pa_rationale :: string

record resource_reservation =
  rs_id :: string
  rs_created_at :: time
  rs_responsibility_ref :: string
  rs_proposal_ref :: string
  rs_resource_pool_ref :: string
  rs_resources :: resource_vector
  rs_reserved_at :: time
  rs_expires_at :: "time option"

record reservation_release =
  rl_id :: string
  rl_created_at :: time
  rl_reservation_ref :: string
  rl_responsibility_ref :: string
  rl_release_kind :: release_kind
  rl_released_at :: time
  rl_reason :: string

record commitment =
  cm_id :: string
  cm_created_at :: time
  cm_responsibility_ref :: string
  cm_responsibility_version :: int
  cm_proposal_ref :: string
  cm_priority_judgment_ref :: string
  cm_portfolio_admission_ref :: string
  cm_reservation_ref :: string
  cm_resources :: resource_vector
  cm_committed_at :: time
  cm_stop_conditions :: "string list"
  cm_escalation_conditions :: "string list"

section \<open>Sessions and continuity\<close>

record session_binding =
  sb_id :: string
  sb_created_at :: time
  sb_responsibility_ref :: string
  sb_responsibility_version :: int
  sb_provider :: string
  sb_model :: string
  sb_session_ref :: string
  sb_started_at :: time
  sb_ended_at :: "time option"

record context_snapshot =
  sn_id :: string
  sn_created_at :: time
  sn_responsibility_ref :: string
  sn_responsibility_version :: int
  sn_scope :: "(string, string) fmap"
  sn_open_expectation_refs :: "string list"
  sn_open_assessment_refs :: "string list"
  sn_unresolved_unknowns :: "string list"
  sn_active_proposal_refs :: "string list"
  sn_commitment_refs :: "string list"
  sn_work_refs :: "string list"
  sn_reservation_refs :: "string list"
  sn_evidence_refs :: "string list"
  sn_qualification_dependency_refs :: "string list"
  sn_reopen_conditions :: "string list"
  sn_stop_conditions :: "string list"
  sn_escalation_conditions :: "string list"

record responsibility_handoff =
  ho_id :: string
  ho_created_at :: time
  ho_responsibility_ref :: string
  ho_responsibility_version :: int
  ho_from_session_ref :: string
  ho_to_session_ref :: string
  ho_context_snapshot_ref :: string
  ho_handed_off_at :: time

record continuity_validation =
  cv_id :: string
  cv_created_at :: time
  cv_responsibility_ref :: string
  cv_responsibility_version :: int
  cv_handoff_ref :: string
  cv_responsibility_active :: bool
  cv_scope_current :: bool
  cv_assessment_current :: bool
  cv_expectations_current :: bool
  cv_proposals_current :: bool
  cv_reservations_current :: bool
  cv_authorization_revalidation_required :: bool
  cv_validated_at :: time
  cv_rationale :: string

definition continuity_ok :: "continuity_validation \<Rightarrow> bool" where
  "continuity_ok v \<longleftrightarrow> list_all id
     [cv_responsibility_active v, cv_scope_current v, cv_assessment_current v,
      cv_expectations_current v, cv_proposals_current v, cv_reservations_current v]"

section \<open>The union of the responsibility objects\<close>

datatype responsibility_object =
    Standing standing_responsibility
  | Admission responsibility_admission
  | Revision responsibility_revision
  | Lifecycle lifecycle_transition
  | Expectation responsibility_expectation
  | Resolution expectation_resolution_object
  | Assessment responsibility_assessment
  | Proposal work_proposal
  | Judgment priority_judgment
  | Pool resource_pool
  | Portfolio portfolio_admission
  | Reservation resource_reservation
  | Release reservation_release
  | Commit commitment
  | Session session_binding
  | Snapshot context_snapshot
  | Handoff responsibility_handoff
  | Continuity continuity_validation

fun object_type :: "responsibility_object \<Rightarrow> string" where
  "object_type (Standing _) = ''StandingResponsibility''"
| "object_type (Admission _) = ''ResponsibilityAdmission''"
| "object_type (Revision _) = ''ResponsibilityRevision''"
| "object_type (Lifecycle _) = ''ResponsibilityLifecycleTransition''"
| "object_type (Expectation _) = ''ResponsibilityExpectation''"
| "object_type (Resolution _) = ''ResponsibilityExpectationResolution''"
| "object_type (Assessment _) = ''ResponsibilityAssessment''"
| "object_type (Proposal _) = ''WorkProposal''"
| "object_type (Judgment _) = ''PriorityJudgment''"
| "object_type (Pool _) = ''ResourcePool''"
| "object_type (Portfolio _) = ''PortfolioAdmissionDecision''"
| "object_type (Reservation _) = ''ResourceReservation''"
| "object_type (Release _) = ''ResourceReservationRelease''"
| "object_type (Commit _) = ''Commitment''"
| "object_type (Session _) = ''ReasoningSessionBinding''"
| "object_type (Snapshot _) = ''ResponsibilityContextSnapshot''"
| "object_type (Handoff _) = ''ResponsibilityHandoff''"
| "object_type (Continuity _) = ''ContinuityValidation''"

fun object_id :: "responsibility_object \<Rightarrow> string" where
  "object_id (Standing x) = sr_id x"
| "object_id (Admission x) = ra_id x"
| "object_id (Revision x) = rr_id x"
| "object_id (Lifecycle x) = lt_id x"
| "object_id (Expectation x) = ex_id x"
| "object_id (Resolution x) = er_id x"
| "object_id (Assessment x) = as_id x"
| "object_id (Proposal x) = wp_id x"
| "object_id (Judgment x) = pj_id x"
| "object_id (Pool x) = rp_id x"
| "object_id (Portfolio x) = pa_id x"
| "object_id (Reservation x) = rs_id x"
| "object_id (Release x) = rl_id x"
| "object_id (Commit x) = cm_id x"
| "object_id (Session x) = sb_id x"
| "object_id (Snapshot x) = sn_id x"
| "object_id (Handoff x) = ho_id x"
| "object_id (Continuity x) = cv_id x"

fun object_created_at :: "responsibility_object \<Rightarrow> time" where
  "object_created_at (Standing x) = sr_created_at x"
| "object_created_at (Admission x) = ra_created_at x"
| "object_created_at (Revision x) = rr_created_at x"
| "object_created_at (Lifecycle x) = lt_created_at x"
| "object_created_at (Expectation x) = ex_created_at x"
| "object_created_at (Resolution x) = er_created_at x"
| "object_created_at (Assessment x) = as_created_at x"
| "object_created_at (Proposal x) = wp_created_at x"
| "object_created_at (Judgment x) = pj_created_at x"
| "object_created_at (Pool x) = rp_created_at x"
| "object_created_at (Portfolio x) = pa_created_at x"
| "object_created_at (Reservation x) = rs_created_at x"
| "object_created_at (Release x) = rl_created_at x"
| "object_created_at (Commit x) = cm_created_at x"
| "object_created_at (Session x) = sb_created_at x"
| "object_created_at (Snapshot x) = sn_created_at x"
| "object_created_at (Handoff x) = ho_created_at x"
| "object_created_at (Continuity x) = cv_created_at x"

text \<open>The semantic part of an object: everything but \<open>created_at\<close> (\<open>_semantic_dump\<close>).\<close>

fun semantic_dump :: "responsibility_object \<Rightarrow> responsibility_object" where
  "semantic_dump (Standing x) = Standing (x\<lparr>sr_created_at := 0\<rparr>)"
| "semantic_dump (Admission x) = Admission (x\<lparr>ra_created_at := 0\<rparr>)"
| "semantic_dump (Revision x) = Revision (x\<lparr>rr_created_at := 0\<rparr>)"
| "semantic_dump (Lifecycle x) = Lifecycle (x\<lparr>lt_created_at := 0\<rparr>)"
| "semantic_dump (Expectation x) = Expectation (x\<lparr>ex_created_at := 0\<rparr>)"
| "semantic_dump (Resolution x) = Resolution (x\<lparr>er_created_at := 0\<rparr>)"
| "semantic_dump (Assessment x) = Assessment (x\<lparr>as_created_at := 0\<rparr>)"
| "semantic_dump (Proposal x) = Proposal (x\<lparr>wp_created_at := 0\<rparr>)"
| "semantic_dump (Judgment x) = Judgment (x\<lparr>pj_created_at := 0\<rparr>)"
| "semantic_dump (Pool x) = Pool (x\<lparr>rp_created_at := 0\<rparr>)"
| "semantic_dump (Portfolio x) = Portfolio (x\<lparr>pa_created_at := 0\<rparr>)"
| "semantic_dump (Reservation x) = Reservation (x\<lparr>rs_created_at := 0\<rparr>)"
| "semantic_dump (Release x) = Release (x\<lparr>rl_created_at := 0\<rparr>)"
| "semantic_dump (Commit x) = Commit (x\<lparr>cm_created_at := 0\<rparr>)"
| "semantic_dump (Session x) = Session (x\<lparr>sb_created_at := 0\<rparr>)"
| "semantic_dump (Snapshot x) = Snapshot (x\<lparr>sn_created_at := 0\<rparr>)"
| "semantic_dump (Handoff x) = Handoff (x\<lparr>ho_created_at := 0\<rparr>)"
| "semantic_dump (Continuity x) = Continuity (x\<lparr>cv_created_at := 0\<rparr>)"

text \<open>\<open>getattr(value, "responsibility_ref", None)\<close>.\<close>

fun object_responsibility_ref :: "responsibility_object \<Rightarrow> string option" where
  "object_responsibility_ref (Standing x) = None"
| "object_responsibility_ref (Admission x) = Some (ra_responsibility_ref x)"
| "object_responsibility_ref (Revision x) = Some (rr_responsibility_ref x)"
| "object_responsibility_ref (Lifecycle x) = Some (lt_responsibility_ref x)"
| "object_responsibility_ref (Expectation x) = Some (ex_responsibility_ref x)"
| "object_responsibility_ref (Resolution x) = Some (er_responsibility_ref x)"
| "object_responsibility_ref (Assessment x) = Some (as_responsibility_ref x)"
| "object_responsibility_ref (Proposal x) = Some (wp_responsibility_ref x)"
| "object_responsibility_ref (Judgment x) = None"
| "object_responsibility_ref (Pool x) = None"
| "object_responsibility_ref (Portfolio x) = None"
| "object_responsibility_ref (Reservation x) = Some (rs_responsibility_ref x)"
| "object_responsibility_ref (Release x) = Some (rl_responsibility_ref x)"
| "object_responsibility_ref (Commit x) = Some (cm_responsibility_ref x)"
| "object_responsibility_ref (Session x) = Some (sb_responsibility_ref x)"
| "object_responsibility_ref (Snapshot x) = Some (sn_responsibility_ref x)"
| "object_responsibility_ref (Handoff x) = Some (ho_responsibility_ref x)"
| "object_responsibility_ref (Continuity x) = Some (cv_responsibility_ref x)"

section \<open>Validators\<close>

text \<open>
  The nested models validate first, then the base class, then the model's own checks, as pydantic
  runs them.  \<open>not ref\<close> of an optional string holds for \<open>None\<close> and for the empty string.
\<close>

definition missing_ref :: "string option \<Rightarrow> bool" where
  "missing_ref r \<longleftrightarrow> r = None \<or> r = Some []"

fun object_nested_error :: "responsibility_object \<Rightarrow> string option" where
  "object_nested_error (Proposal x) = rv_error (wp_requested_resources x)"
| "object_nested_error (Judgment x) =
     (if pd_valid (pj_dimensions x) then None else Some ''priority dimensions must be in [0, 5]'')"
| "object_nested_error (Pool x) = rv_error (rp_capacity x)"
| "object_nested_error (Reservation x) = rv_error (rs_resources x)"
| "object_nested_error (Commit x) = rv_error (cm_resources x)"
| "object_nested_error _ = None"

fun object_checks :: "responsibility_object \<Rightarrow> responsibility_object result" where
  "object_checks (Standing x) =
     invalid_if (is_blank (sr_responsibility_kind x)) ''responsibility_kind must not be empty''
    (invalid_if (is_blank (sr_statement x)) ''standing responsibility statement must not be empty''
    (Inr (Standing x)))"
| "object_checks (Revision x) =
     invalid_if (rr_to_version x \<noteq> rr_from_version x + 1)
       ''responsibility revision must advance version by exactly one''
    (invalid_if (is_blank (rr_statement x)) ''revised responsibility statement must not be empty''
    (Inr (Revision x)))"
| "object_checks (Lifecycle x) =
     invalid_if (lt_from_status x = lt_to_status x)
       ''responsibility lifecycle transition must change status''
    (invalid_if (lt_to_status x = Discharged \<and> missing_ref (lt_decision_ref x))
       ''responsibility discharge requires an explicit decision_ref''
    (invalid_if (lt_from_status x = Discharged \<and> lt_to_status x = Active
         \<and> missing_ref (lt_decision_ref x))
       ''reopening a discharged responsibility requires decision_ref''
    (Inr (Lifecycle x))))"
| "object_checks (Expectation x) =
     invalid_if (case ex_recurrence_seconds x of None \<Rightarrow> False | Some n \<Rightarrow> n \<le> 0)
       ''recurrence_seconds must be positive''
    (invalid_if (case ex_freshness_window_seconds x of None \<Rightarrow> False | Some n \<Rightarrow> n \<le> 0)
       ''freshness_window_seconds must be positive''
    (Inr (Expectation x)))"
| "object_checks x = Inr x"

definition validate_object :: "responsibility_object \<Rightarrow> responsibility_object result" where
  "validate_object x =
     (case object_nested_error x of
        Some msg \<Rightarrow> Inl (ValidationError msg)
      | None \<Rightarrow>
          invalid_if (is_blank (object_id x)) ''responsibility object id must not be empty''
            (object_checks x))"

definition valid_object :: "responsibility_object \<Rightarrow> bool" where
  "valid_object x \<longleftrightarrow> validate_object x = Inr x"

lemma object_checks_Inr: "object_checks x = Inr y \<Longrightarrow> y = x"
  by (induction x rule: object_checks.induct) auto

lemma validate_object_Inr: "validate_object x = Inr y \<longleftrightarrow> valid_object x \<and> y = x"
  by (auto simp: validate_object_def valid_object_def dest: object_checks_Inr split: option.splits)

lemma valid_revision:
  "valid_object (Revision x) \<Longrightarrow> rr_to_version x = rr_from_version x + 1"
  by (auto simp: valid_object_def validate_object_def split: option.splits)

lemma valid_lifecycle:
  "valid_object (Lifecycle x) \<Longrightarrow> lt_from_status x \<noteq> lt_to_status x
     \<and> (lt_to_status x = Discharged \<longrightarrow> \<not> missing_ref (lt_decision_ref x))"
  by (auto simp: valid_object_def validate_object_def split: option.splits)

lemma valid_reservation: "valid_object (Reservation x) \<Longrightarrow> rv_valid (rs_resources x)"
  by (auto simp: valid_object_def validate_object_def split: option.splits)

lemma valid_pool: "valid_object (Pool x) \<Longrightarrow> rv_valid (rp_capacity x)"
  by (auto simp: valid_object_def validate_object_def split: option.splits)

lemma semantic_dump_id [simp]: "object_id (semantic_dump x) = object_id x"
  by (cases x) simp_all

lemma semantic_dump_ref [simp]: "object_responsibility_ref (semantic_dump x) = object_responsibility_ref x"
  by (cases x) simp_all

lemma semantic_dump_type [simp]: "object_type (semantic_dump x) = object_type x"
  by (cases x) simp_all

lemma semantic_dump_eqD:
  assumes "semantic_dump x = semantic_dump y"
  shows "object_id x = object_id y" and "object_responsibility_ref x = object_responsibility_ref y"
    and "object_type x = object_type y"
  using assms by (metis semantic_dump_id, metis semantic_dump_ref, metis semantic_dump_type)

end
