(* ===== verification/Controller_Models.thy ===== *)
theory Controller_Models
  imports Responsibility_Models
begin

text \<open>
  The cognitive controller's data (\<open>controller/handoff.py\<close>, \<open>closure.py\<close>, \<open>revision.py\<close>,
  \<open>models.py\<close>) with their validators.  Each \<open>validate_\<dots>\<close> function gives the value, or the message
  of the first check that fails; the corresponding \<open>valid_\<dots>\<close> predicate is what construction and
  reading back from the journal guarantee.
\<close>

section \<open>Handoff envelope and closure\<close>

datatype handoff_disposition =
    Carry_Forward | Reconsider | Invalidated | Unresolved | Context_Only

record handoff_envelope =
  he_subject_refs :: "string list"
  he_goal_refs :: "string list"
  he_constraint_refs :: "string list"
  he_assumption_refs :: "string list"
  he_evidence_refs :: "string list"
  he_observation_refs :: "string list"
  he_assertion_refs :: "string list"
  he_unknown_refs :: "string list"
  he_counterevidence_refs :: "string list"
  he_selected_candidate_refs :: "string list"
  he_deferred_candidate_refs :: "string list"
  he_rejected_candidate_refs :: "string list"
  he_authorization_refs :: "string list"
  he_closure_refs :: "string list"
  he_invalidation_refs :: "string list"
  he_reopen_condition_refs :: "string list"
  he_dispositions :: "(string, handoff_disposition) fmap"

record cognitive_closure =
  cl_id :: string
  cl_controller_ref :: string
  cl_controller_state_version :: int
  cl_responsibility_ref :: "string option"
  cl_subject_ref :: "string option"
  cl_problem_ref :: "string option"
  cl_scope :: "(string, string) fmap"
  cl_basis_refs :: "string list"
  cl_selected_candidate_refs :: "string list"
  cl_deferred_candidate_refs :: "string list"
  cl_rejected_candidate_refs :: "string list"
  cl_deferred_issue_refs :: "string list"
  cl_selected_direction :: string
  cl_rationale :: string
  cl_acceptance_criteria :: "string list"
  cl_verification_plan :: "string list"
  cl_stop_conditions :: "string list"
  cl_escalation_conditions :: "string list"
  cl_reopen_conditions :: "string list"
  cl_requested_capabilities :: "string list"
  cl_effect_class :: effect_class
  cl_policy_ref :: "string option"
  cl_handoff :: handoff_envelope
  cl_created_at :: time

definition validate_closure :: "cognitive_closure \<Rightarrow> cognitive_closure result" where
  "validate_closure c =
     invalid_if (cl_controller_state_version c < 0)
       ''closure controller_state_version cannot be negative''
    (invalid_if (is_blank (cl_selected_direction c)) ''closure requires selected_direction''
    (invalid_if (cl_basis_refs c = []) ''closure requires at least one basis_ref''
    (invalid_if (cl_acceptance_criteria c = []) ''closure requires acceptance_criteria''
    (invalid_if (cl_verification_plan c = []) ''closure requires a verification_plan''
    (invalid_if (cl_reopen_conditions c = []) ''closure requires reopen_conditions''
    (Inr c))))))"

definition valid_closure :: "cognitive_closure \<Rightarrow> bool" where
  "valid_closure c \<longleftrightarrow> validate_closure c = Inr c"

lemma validate_closure_Inr: "validate_closure c = Inr d \<longleftrightarrow> valid_closure c \<and> d = c"
  by (auto simp: valid_closure_def validate_closure_def)

section \<open>Revision assessment\<close>

datatype revision_scope =
    Sc_Execution | Sc_Work_Spec | Sc_Decision | Sc_Representation | Sc_Inputs
  | Sc_Evidence_Acquisition | Sc_Verification | Sc_Goal | Sc_Authorization | Sc_Problem_Definition

datatype revision_disposition =
    Retry_Run | Revise_Work | Reopen_Cognition | Acquire_Evidence
  | Request_Authorization | Reconcile_Effect | Disp_Wait | Disp_Close

record revision_assessment =
  rev_id :: string
  rev_controller_ref :: string
  rev_controller_state_version :: int
  rev_work_ref :: string
  rev_closure_ref :: string
  rev_run_ref :: "string option"
  rev_outcome_refs :: "string list"
  rev_verification_refs :: "string list"
  rev_reason_refs :: "string list"
  rev_failure_class :: string
  rev_revision_scope :: revision_scope
  rev_recommended_disposition :: revision_disposition
  rev_reason :: string
  rev_carry_forward_refs :: "string list"
  rev_reconsider_refs :: "string list"
  rev_invalidated_refs :: "string list"
  rev_unresolved_refs :: "string list"
  rev_policy_ref :: "string option"
  rev_handoff :: handoff_envelope
  rev_created_at :: time

definition validate_revision :: "revision_assessment \<Rightarrow> revision_assessment result" where
  "validate_revision r =
     invalid_if (rev_controller_state_version r < 0)
       ''revision controller_state_version cannot be negative''
    (invalid_if (is_blank (rev_work_ref r)) ''revision requires work_ref''
    (invalid_if (is_blank (rev_closure_ref r)) ''revision requires closure_ref''
    (invalid_if (is_blank (rev_reason r)) ''revision requires reason''
    (invalid_if (\<not> (rev_outcome_refs r \<noteq> [] \<or> rev_verification_refs r \<noteq> []))
       ''revision requires outcome_refs or verification_refs''
    (invalid_if (rev_recommended_disposition r = Disp_Close \<and> rev_verification_refs r = [])
       ''close disposition requires verification_refs''
    (invalid_if (rev_recommended_disposition r = Reconcile_Effect
        \<and> rev_revision_scope r \<noteq> Sc_Execution)
       ''reconcile-effect requires execution revision_scope''
    (invalid_if (rev_recommended_disposition r = Request_Authorization
        \<and> rev_revision_scope r \<noteq> Sc_Authorization)
       ''request-authorization requires authorization revision_scope''
    (invalid_if (rev_recommended_disposition r = Retry_Run
        \<and> rev_revision_scope r \<notin> {Sc_Execution, Sc_Work_Spec, Sc_Decision})
       ''retry-run is incompatible with deep revision_scope''
    (Inr r)))))))))"

definition valid_revision_assessment :: "revision_assessment \<Rightarrow> bool" where
  "valid_revision_assessment r \<longleftrightarrow> validate_revision r = Inr r"

lemma validate_revision_Inr: "validate_revision r = Inr q \<longleftrightarrow> valid_revision_assessment r \<and> q = r"
  by (auto simp: valid_revision_assessment_def validate_revision_def)

section \<open>Controller state\<close>

datatype controller_status = Open | Waiting | Closed | Reopen_Required

fun controller_status_str :: "controller_status \<Rightarrow> string" where
  "controller_status_str Open = ''open''"
| "controller_status_str Waiting = ''waiting''"
| "controller_status_str Closed = ''closed''"
| "controller_status_str Reopen_Required = ''reopen-required''"

datatype decision_kind =
    Invoke_Capability | Form_Closure | Propose_Work | Assess_Revision | Close | Reopen | Wait

fun decision_kind_str :: "decision_kind \<Rightarrow> string" where
  "decision_kind_str Invoke_Capability = ''invoke-capability''"
| "decision_kind_str Form_Closure = ''form-closure''"
| "decision_kind_str Propose_Work = ''propose-work''"
| "decision_kind_str Assess_Revision = ''assess-revision''"
| "decision_kind_str Close = ''close''"
| "decision_kind_str Reopen = ''reopen''"
| "decision_kind_str Wait = ''wait''"

record controller_state =
  ct_id :: string
  ct_responsibility_ref :: "string option"
  ct_subject_ref :: "string option"
  ct_context_refs :: "string list"
  ct_candidate_refs :: "string list"
  ct_open_issue_refs :: "string list"
  ct_status :: controller_status
  ct_version :: int
  ct_pending_ref :: "string option"
  ct_active_closure_ref :: "string option"
  ct_work_proposal_ref :: "string option"
  ct_last_revision_ref :: "string option"
  ct_last_decision_ref :: "string option"
  ct_last_result_ref :: "string option"
  ct_created_at :: time
  ct_updated_at :: time

definition validate_state :: "controller_state \<Rightarrow> controller_state result" where
  "validate_state s =
     invalid_if (ct_version s < 0) ''controller state version cannot be negative''
    (invalid_if (ct_status s = Waiting \<and> missing_ref (ct_pending_ref s))
       ''waiting controller state requires pending_ref''
    (invalid_if (ct_status s \<noteq> Waiting \<and> ct_pending_ref s \<noteq> None)
       ''only waiting controller state may carry pending_ref''
    (Inr s)))"

definition valid_state :: "controller_state \<Rightarrow> bool" where
  "valid_state s \<longleftrightarrow> validate_state s = Inr s"

lemma validate_state_Inr: "validate_state s = Inr t \<longleftrightarrow> valid_state s \<and> t = s"
  by (auto simp: valid_state_def validate_state_def)

lemma valid_state_iff:
  "valid_state s \<longleftrightarrow> 0 \<le> ct_version s
     \<and> (if ct_status s = Waiting then \<not> missing_ref (ct_pending_ref s) else ct_pending_ref s = None)"
  by (auto simp: valid_state_def validate_state_def)

lemma invalid_state_error:
  "\<not> valid_state s \<Longrightarrow> \<exists>m. validate_state s = Inl (ValidationError m)"
  by (cases "validate_state s")
    (auto simp: validate_state_Inr, auto simp: validate_state_def invalid_if_Inl)

section \<open>Controller decision\<close>

record controller_decision =
  cd_id :: string
  cd_controller_ref :: string
  cd_state_version :: int
  cd_kind :: decision_kind
  cd_reason :: string
  cd_policy_ref :: "string option"
  cd_capability :: "string option"
  cd_instruction :: "string option"
  cd_parameters :: "(string, json) fmap"
  cd_constraints :: "(string, json) fmap"
  cd_closure :: "cognitive_closure option"
  cd_closure_ref :: "string option"
  cd_assessment_ref :: "string option"
  cd_work_kind :: string
  cd_work_title :: "string option"
  cd_work_description :: string
  cd_requested_capabilities :: "string list"
  cd_expected_result :: string
  cd_stop_conditions :: "string list"
  cd_escalation_conditions :: "string list"
  cd_effect_class :: string
  cd_revision :: "revision_assessment option"

text \<open>\<open>not ref or not ref.strip()\<close>.\<close>

definition blank_ref :: "string option \<Rightarrow> bool" where
  "blank_ref r \<longleftrightarrow> (case r of None \<Rightarrow> True | Some s \<Rightarrow> is_blank s)"

definition check_nested :: "('a \<Rightarrow> 'a result) \<Rightarrow> 'a option \<Rightarrow> unit result" where
  "check_nested v x = (case x of None \<Rightarrow> Inr () | Some y \<Rightarrow> bindR (v y) (\<lambda>_. Inr ()))"

fun check_closure_payload :: "controller_decision \<Rightarrow> cognitive_closure option \<Rightarrow> unit result" where
  "check_closure_payload d None = Inl (ValidationError ''form-closure requires closure'')"
| "check_closure_payload d (Some c) =
     invalid_if (cl_controller_ref c \<noteq> cd_controller_ref d) ''closure belongs to another controller''
    (invalid_if (cl_controller_state_version c \<noteq> cd_state_version d)
       ''closure is not bound to decision state_version''
    (Inr ()))"

fun check_revision_payload :: "controller_decision \<Rightarrow> revision_assessment option \<Rightarrow> unit result" where
  "check_revision_payload d None = Inl (ValidationError ''assess-revision requires revision'')"
| "check_revision_payload d (Some r) =
     invalid_if (rev_controller_ref r \<noteq> cd_controller_ref d) ''revision belongs to another controller''
    (invalid_if (rev_controller_state_version r \<noteq> cd_state_version d)
       ''revision is not bound to decision state_version''
    (Inr ()))"

definition check_kind_payload :: "controller_decision \<Rightarrow> unit result" where
  "check_kind_payload d =
     invalid_if (cd_state_version d < 0) ''controller decision state_version cannot be negative''
    (invalid_if (cd_policy_ref d \<noteq> None \<and> blank_ref (cd_policy_ref d))
       ''controller decision policy_ref cannot be blank''
    (case cd_kind d of
       Invoke_Capability \<Rightarrow>
         invalid_if (blank_ref (cd_capability d)) ''invoke-capability requires capability'' (Inr ())
     | Form_Closure \<Rightarrow> check_closure_payload d (cd_closure d)
     | Propose_Work \<Rightarrow>
         invalid_if (blank_ref (cd_closure_ref d)) ''propose-work requires closure_ref''
        (invalid_if (blank_ref (cd_assessment_ref d)) ''propose-work requires assessment_ref''
        (invalid_if (blank_ref (cd_work_title d)) ''propose-work requires work_title''
        (invalid_if (cd_effect_class d
            \<notin> set [''read-only'', ''internal-reversible'', ''external-effect''])
           ''invalid work proposal effect_class''
        (Inr ()))))
     | Assess_Revision \<Rightarrow> check_revision_payload d (cd_revision d)
     | Close \<Rightarrow> Inr ()
     | Reopen \<Rightarrow> Inr ()
     | Wait \<Rightarrow> Inr ()))"

definition validate_decision :: "controller_decision \<Rightarrow> controller_decision result" where
  "validate_decision d =
     bindR (check_nested validate_closure (cd_closure d)) (\<lambda>_.
     bindR (check_nested validate_revision (cd_revision d)) (\<lambda>_.
     bindR (check_kind_payload d) (\<lambda>_. Inr d)))"

definition valid_decision :: "controller_decision \<Rightarrow> bool" where
  "valid_decision d \<longleftrightarrow> validate_decision d = Inr d"

lemma validate_decision_Inr: "validate_decision d = Inr e \<longleftrightarrow> valid_decision d \<and> e = d"
  by (auto simp: valid_decision_def validate_decision_def)

lemma check_nested_Inr: "check_nested v x = Inr u \<longleftrightarrow> (\<forall>y. x = Some y \<longrightarrow> (\<exists>z. v y = Inr z))"
  by (auto simp: check_nested_def split: option.splits)

lemma valid_decision_closure:
  assumes "valid_decision d" "cd_kind d = Form_Closure"
  obtains c where "cd_closure d = Some c" "valid_closure c"
    "cl_controller_ref c = cd_controller_ref d" "cl_controller_state_version c = cd_state_version d"
  using assms
  by (cases "cd_closure d")
    (auto simp: valid_decision_def validate_decision_def check_kind_payload_def check_nested_Inr
      validate_closure_Inr)

lemma valid_decision_revision:
  assumes "valid_decision d" "cd_kind d = Assess_Revision"
  obtains r where "cd_revision d = Some r" "valid_revision_assessment r"
    "rev_controller_ref r = cd_controller_ref d"
    "rev_controller_state_version r = cd_state_version d"
  using assms
  by (cases "cd_revision d")
    (auto simp: valid_decision_def validate_decision_def check_kind_payload_def check_nested_Inr
      validate_revision_Inr)

end
