(* ===== verification/Authorization.thy ===== *)
theory Authorization
  imports Core_Models
begin

text \<open>
  Authorization grants and the durable proof of their use (\<open>records/authorization.py\<close>): the
  capability, resource and effect matching, the live check \<open>is_authorized_for\<close>, the historical
  check \<open>authorization_use_covers_request\<close>, and the validators of grants and uses.

  The instant \<open>now\<close> is an argument, as in the code; a caller that leaves it out reads the clock.
  The compatibility decoder \<open>_legacy_is_authorized_for\<close> and its action shapes are not modelled.
\<close>

section \<open>Data\<close>

record typed_condition =
  tc_kind :: string
  tc_params :: "(string, json) fmap"
  tc_satisfied :: bool
  tc_authority_ref :: "string option"

record canonical_request =
  ar_capability :: string
  ar_actor_ref :: string
  ar_resource_ref :: "string option"
  ar_subject_version_refs :: "string list"
  ar_effect_class :: invocation_effect
  ar_lease_generation :: "int option"

record authorization_grant =
  ag_id :: string
  ag_created_at :: time
  ag_principal_ref :: string
  ag_grantee_ref :: string
  ag_allowed_capabilities :: "string list"
  ag_resource_scope :: "string list"
  ag_effect_ceiling :: "string option"
  ag_valid_from :: time
  ag_expires_at :: "time option"
  ag_conditions :: "string list"
  ag_typed_conditions :: "typed_condition list"
  ag_revocable :: bool
  ag_revoked_at :: "time option"
  ag_source_decision_ref :: "string option"
  ag_subject_version_refs :: "string list"
  ag_metadata :: "(string, json) fmap"

definition check_grant_time :: "authorization_grant \<Rightarrow> authorization_grant result" where
  "check_grant_time g =
     invalid_if (case ag_expires_at g of None \<Rightarrow> False | Some e \<Rightarrow> e < ag_valid_from g)
       ''expires_at must be >= valid_from'' (Inr g)"

record authorization_use =
  au_id :: string
  au_created_at :: time
  au_authorization_ref :: string
  au_capability :: string
  au_actor_ref :: string
  au_resource_ref :: string
  au_effect_class :: invocation_effect
  au_subject_version_refs :: "string list"
  au_authorized_at :: time

definition validate_use_shape :: "authorization_use \<Rightarrow> authorization_use result" where
  "validate_use_shape u =
     invalid_if (is_blank (au_authorization_ref u)) ''authorization_ref required''
    (invalid_if (is_blank (au_capability u) \<or> is_blank (au_actor_ref u) \<or> is_blank (au_resource_ref u))
       ''authorization use requires capability, actor_ref and resource_ref''
    (invalid_if (au_subject_version_refs u = [])
       ''authorization use requires subject_version_refs''
    (Inr u)))"

section \<open>Matching\<close>

definition norm_cap :: "string \<Rightarrow> string" where
  "norm_cap cap = py_lower (py_strip cap)"

fun capability_pattern_loop :: "string \<Rightarrow> string list \<Rightarrow> bool" where
  "capability_pattern_loop req [] = False"
| "capability_pattern_loop req (pat # pats) =
     (let p = norm_cap pat in
      if p = ''*'' \<or> p = req then True
      else if py_endswith p ''.*'' then
        (let prefix = take (length p - 2) p in
         if req = prefix \<or> py_startswith req (prefix @ ''.'') then True
         else capability_pattern_loop req pats)
      else capability_pattern_loop req pats)"

definition capability_matches :: "string list \<Rightarrow> string \<Rightarrow> bool" where
  "capability_matches allowed requested =
     (if allowed = [] then False else capability_pattern_loop (norm_cap requested) allowed)"

fun resource_pattern_loop :: "string \<Rightarrow> string list \<Rightarrow> bool" where
  "resource_pattern_loop resource [] = False"
| "resource_pattern_loop resource (pat # pats) =
     (if pat = ''*'' then True
      else if py_endswith pat ''*'' then
        (if py_startswith resource (take (length pat - 1) pat) then True
         else resource_pattern_loop resource pats)
      else if resource = pat then True
      else if py_startswith resource (pat @ ''/'') then True
      else resource_pattern_loop resource pats)"

definition resource_matches :: "string list \<Rightarrow> string option \<Rightarrow> bool" where
  "resource_matches scope resource =
     (if scope = [] then True
      else case resource of
        None \<Rightarrow> False
      | Some r \<Rightarrow> if r = [] then False else resource_pattern_loop r scope)"

text \<open>The names of the effects and their order (\<open>EFFECT_ORDER\<close>).\<close>

fun invocation_effect_str :: "invocation_effect \<Rightarrow> string" where
  "invocation_effect_str Eff_Read = ''read''"
| "invocation_effect_str Eff_Write_Local = ''write-local''"
| "invocation_effect_str Eff_Write_Remote = ''write-remote''"
| "invocation_effect_str Eff_Deploy = ''deploy''"
| "invocation_effect_str Eff_Admin = ''admin''"
| "invocation_effect_str Eff_Irreversible = ''irreversible''"

definition effect_order :: "(string \<times> int) list" where
  "effect_order = [(''read'', 0), (''write-local'', 1), (''write-remote'', 2), (''deploy'', 3),
     (''admin'', 4), (''irreversible'', 5)]"

definition effect_level :: "string option \<Rightarrow> int option" where
  "effect_level effect = (case effect of None \<Rightarrow> None | Some e \<Rightarrow> map_of effect_order (py_lower (py_strip e)))"

definition effect_allows :: "string option \<Rightarrow> string option \<Rightarrow> bool \<Rightarrow> bool \<Rightarrow> bool" where
  "effect_allows ceil requested is_legacy_dict has_effect_key =
     (if ceil = None then True
      else if requested = None \<and> is_legacy_dict \<and> \<not> has_effect_key then True
      else
        (let req_level = (if requested \<noteq> None then effect_level requested else Some 5);
             ceil_level = effect_level ceil
         in case (req_level, ceil_level) of
              (Some r, Some c) \<Rightarrow> r \<le> c
            | _ \<Rightarrow> False))"

definition conditions_satisfied :: "authorization_grant \<Rightarrow> bool" where
  "conditions_satisfied g =
     (if ag_conditions g \<noteq> [] then False else list_all tc_satisfied (ag_typed_conditions g))"

section \<open>Grant validation\<close>

definition validate_grant :: "env \<Rightarrow> authorization_grant \<Rightarrow> time \<Rightarrow> string list" where
  "validate_grant E g ts =
     (case ag_revoked_at g of
        Some r \<Rightarrow> if r \<le> ts
          then [''grant '' @ ag_id g @ '' has been revoked at '' @ env_isoformat E r] else []
      | None \<Rightarrow> [])
     @ (case ag_expires_at g of
        Some x \<Rightarrow> if x \<le> ts then [''grant '' @ ag_id g @ '' expired at '' @ env_isoformat E x] else []
      | None \<Rightarrow> [])
     @ (if ts < ag_valid_from g
        then [''grant '' @ ag_id g @ '' not yet valid until '' @ env_isoformat E (ag_valid_from g)]
        else [])
     @ (if ag_principal_ref g = [] then [''principal_ref required''] else [])
     @ (if ag_grantee_ref g = [] then [''grantee_ref required''] else [])
     @ (if ag_allowed_capabilities g = [] then [''allowed_capabilities must not be empty''] else [])
     @ (if ag_conditions g \<noteq> []
        then [''grant '' @ ag_id g
              @ '' has free-form conditions which are not satisfied (must be typed)'']
        else [])
     @ map (\<lambda>tc. ''grant '' @ ag_id g @ '' typed condition '' @ tc_kind tc @ '' not satisfied'')
         (filter (\<lambda>tc. \<not> tc_satisfied tc) (ag_typed_conditions g))
     @ (case ag_effect_ceiling g of
          Some c \<Rightarrow> if effect_level (Some c) = None
            then [''grant '' @ ag_id g @ '' has unknown effect_ceiling '' @ py_repr c] else []
        | None \<Rightarrow> [])"

definition is_grant_valid :: "env \<Rightarrow> authorization_grant \<Rightarrow> time \<Rightarrow> bool" where
  "is_grant_valid E g ts \<longleftrightarrow> validate_grant E g ts = []"

section \<open>The authorization check\<close>

definition is_authorized_for :: "canonical_request \<Rightarrow> authorization_grant \<Rightarrow> time \<Rightarrow> bool" where
  "is_authorized_for a g ts =
     (if (case ag_revoked_at g of None \<Rightarrow> False | Some r \<Rightarrow> r \<le> ts)
         \<or> (case ag_expires_at g of None \<Rightarrow> False | Some e \<Rightarrow> ts \<ge> e)
         \<or> ts < ag_valid_from g
      then False
      else if \<not> conditions_satisfied g then False
      else if is_blank (ar_capability a) \<or> is_blank (ar_actor_ref a) then False
      else if \<not> capability_matches (ag_allowed_capabilities g) (ar_capability a) then False
      else if ag_resource_scope g \<noteq> [] \<and> \<not> resource_matches (ag_resource_scope g) (ar_resource_ref a)
        then False
      else if ar_actor_ref a \<noteq> ag_grantee_ref g then False
      else if \<not> effect_allows (ag_effect_ceiling g)
                (Some (invocation_effect_str (ar_effect_class a))) False True
        then False
      else if ag_subject_version_refs g \<noteq> [] then
        (if ar_subject_version_refs a = [] then False
         else if \<not> list_ex (\<lambda>v. v \<in> set (ag_subject_version_refs g)) (ar_subject_version_refs a)
           then False
         else True)
      else if ar_subject_version_refs a \<noteq> [] then False
      else True)"

definition is_authorized_for_any :: "canonical_request \<Rightarrow> authorization_grant list \<Rightarrow> time \<Rightarrow> bool" where
  "is_authorized_for_any a gs ts = list_ex (\<lambda>g. is_authorized_for a g ts) gs"

text \<open>\<open>astimezone(UTC)\<close> keeps the instant.  The identity and creation time come from the clock.\<close>

definition create_authorization_use ::
    "string \<Rightarrow> time \<Rightarrow> authorization_grant \<Rightarrow> canonical_request \<Rightarrow> time \<Rightarrow> authorization_use result" where
  "create_authorization_use uid created g a at =
     raise_if (\<not> is_authorized_for a g at)
       ''authorization use request is not authorized at action time''
    (validate_use_shape
      \<lparr>au_id = uid, au_created_at = created, au_authorization_ref = ag_id g,
       au_capability = ar_capability a, au_actor_ref = ar_actor_ref a,
       au_resource_ref = (case ar_resource_ref a of None \<Rightarrow> [] | Some r \<Rightarrow> r),
       au_effect_class = ar_effect_class a,
       au_subject_version_refs = ar_subject_version_refs a, au_authorized_at = at\<rparr>)"

definition authorization_use_covers_request ::
    "authorization_use \<Rightarrow> authorization_grant \<Rightarrow> canonical_request \<Rightarrow> bool" where
  "authorization_use_covers_request u g a =
     (if au_authorization_ref u \<noteq> ag_id g then False
      else if au_capability u \<noteq> ar_capability a then False
      else if au_actor_ref u \<noteq> ar_actor_ref a then False
      else if au_resource_ref u \<noteq> (case ar_resource_ref a of None \<Rightarrow> [] | Some r \<Rightarrow> r) then False
      else if au_effect_class u \<noteq> ar_effect_class a then False
      else if \<not> set (ar_subject_version_refs a) \<subseteq> set (au_subject_version_refs u) then False
      else is_authorized_for a g (au_authorized_at u))"

definition create_grant_for_approval ::
    "string \<Rightarrow> time \<Rightarrow> time \<Rightarrow> string \<Rightarrow> string \<Rightarrow> string list \<Rightarrow> string list \<Rightarrow> string option
     \<Rightarrow> string list \<Rightarrow> string option \<Rightarrow> int option \<Rightarrow> string list \<Rightarrow> typed_condition list
     \<Rightarrow> (string, json) fmap \<Rightarrow> authorization_grant result" where
  "create_grant_for_approval gid created now grantor grantee caps versions decision scope ceil
       ttl conds tcs md =
     check_grant_time
       \<lparr>ag_id = gid, ag_created_at = created, ag_principal_ref = grantor, ag_grantee_ref = grantee,
        ag_allowed_capabilities = caps, ag_resource_scope = scope, ag_effect_ceiling = ceil,
        ag_valid_from = now, ag_expires_at = map_option (\<lambda>s. now + s * 1000000) ttl,
        ag_conditions = conds, ag_typed_conditions = tcs, ag_revocable = True,
        ag_revoked_at = None, ag_source_decision_ref = decision,
        ag_subject_version_refs = versions, ag_metadata = md\<rparr>"

section \<open>What matching decides\<close>

text \<open>
  A capability pattern covers a request when, after trimming and lowering both, it is the star,
  the request itself, or a dotted prefix followed by a star.  A resource pattern covers a
  resource when it is the star, a prefix followed by a star, the resource, or an ancestor of it.
\<close>

definition capability_covered :: "string \<Rightarrow> string \<Rightarrow> bool" where
  "capability_covered pat requested \<longleftrightarrow>
     norm_cap pat = ''*'' \<or> norm_cap pat = norm_cap requested
     \<or> (\<exists>p. norm_cap pat = p @ ''.*''
          \<and> (norm_cap requested = p \<or> (\<exists>rest. norm_cap requested = p @ ''.'' @ rest)))"

definition resource_covered :: "string \<Rightarrow> string \<Rightarrow> bool" where
  "resource_covered pat r \<longleftrightarrow>
     (\<exists>p rest. pat = p @ ''*'' \<and> r = p @ rest)
     \<or> (\<not> py_endswith pat ''*'' \<and> (r = pat \<or> (\<exists>rest. r = pat @ ''/'' @ rest)))"

lemma capability_pattern_loop_iff:
  "capability_pattern_loop (norm_cap requested) pats
     \<longleftrightarrow> (\<exists>pat \<in> set pats. capability_covered pat requested)"
proof (induction pats)
  case Nil
  then show ?case by simp
next
  case (Cons pat pats)
  let ?p = "norm_cap pat" and ?r = "norm_cap requested"
  show ?case
  proof (cases "py_endswith ?p ''.*''")
    case True
    then obtain q where q: "?p = q @ ''.*''" by (auto simp: py_endswith_iff)
    then have "take (length ?p - 2) ?p = q" by simp
    moreover have "capability_covered pat requested \<longleftrightarrow>
        ?p = ''*'' \<or> ?p = ?r \<or> ?r = q \<or> py_startswith ?r (q @ ''.'')"
      using q by (auto simp: capability_covered_def py_startswith_iff)
    ultimately show ?thesis using True Cons.IH by (auto simp: Let_def)
  next
    case False
    then have "capability_covered pat requested \<longleftrightarrow> ?p = ''*'' \<or> ?p = ?r"
      by (auto simp: capability_covered_def py_endswith_iff)
    then show ?thesis using False Cons.IH by (auto simp: Let_def)
  qed
qed

lemma capability_matches_iff:
  "capability_matches allowed requested \<longleftrightarrow> (\<exists>pat \<in> set allowed. capability_covered pat requested)"
  by (auto simp: capability_matches_def capability_pattern_loop_iff)

lemma resource_covered_step:
  "resource_covered pat r \<longleftrightarrow> pat = ''*''
     \<or> (if py_endswith pat ''*'' then py_startswith r (take (length pat - 1) pat)
        else r = pat \<or> py_startswith r (pat @ ''/''))"
proof (cases "py_endswith pat ''*''")
  case True
  then obtain q where q: "pat = q @ ''*''" by (auto simp: py_endswith_iff)
  then show ?thesis using True by (auto simp: resource_covered_def py_startswith_iff)
next
  case False
  then have no: "pat \<noteq> p @ ''*''" for p by (auto simp: py_endswith_iff)
  from no [of "[]"] have "pat \<noteq> ''*''" by simp
  then show ?thesis
    using False by (simp add: resource_covered_def no py_startswith_iff)
qed

lemma resource_pattern_loop_iff:
  "resource_pattern_loop r pats \<longleftrightarrow> (\<exists>pat \<in> set pats. resource_covered pat r)"
proof (induction pats)
  case Nil
  then show ?case by simp
next
  case (Cons pat pats)
  have "resource_pattern_loop r (pat # pats) \<longleftrightarrow> resource_covered pat r \<or> resource_pattern_loop r pats"
    unfolding resource_covered_step resource_pattern_loop.simps by argo
  then show ?case using Cons.IH by simp
qed

lemma resource_matches_iff:
  "scope \<noteq> [] \<Longrightarrow> resource_matches scope res
     \<longleftrightarrow> (\<exists>r. res = Some r \<and> r \<noteq> [] \<and> (\<exists>pat \<in> set scope. resource_covered pat r))"
  by (auto simp: resource_matches_def resource_pattern_loop_iff split: option.splits)

section \<open>Effects\<close>

instantiation invocation_effect :: linorder
begin

definition effect_rank :: "invocation_effect \<Rightarrow> nat" where
  "effect_rank e = (case e of Eff_Read \<Rightarrow> 0 | Eff_Write_Local \<Rightarrow> 1 | Eff_Write_Remote \<Rightarrow> 2
     | Eff_Deploy \<Rightarrow> 3 | Eff_Admin \<Rightarrow> 4 | Eff_Irreversible \<Rightarrow> 5)"

definition less_eq_invocation_effect :: "invocation_effect \<Rightarrow> invocation_effect \<Rightarrow> bool" where
  "less_eq_invocation_effect a b \<longleftrightarrow> effect_rank a \<le> effect_rank b"

definition less_invocation_effect :: "invocation_effect \<Rightarrow> invocation_effect \<Rightarrow> bool" where
  "less_invocation_effect a b \<longleftrightarrow> effect_rank a < effect_rank b"

instance
proof
  fix x y :: invocation_effect
  assume "x \<le> y" "y \<le> x"
  then show "x = y"
    by (cases x; cases y) (simp_all add: less_eq_invocation_effect_def effect_rank_def)
qed (auto simp: less_eq_invocation_effect_def less_invocation_effect_def)

end

lemma effect_level_str [simp]:
  "effect_level (Some (invocation_effect_str e)) = Some (int (effect_rank e))"
  by (cases e) (simp_all add: effect_level_def effect_order_def effect_rank_def str_eval)

lemma effect_allows_canonical:
  "effect_allows ceil (Some (invocation_effect_str e)) b k \<longleftrightarrow>
     (case ceil of None \<Rightarrow> True
      | Some _ \<Rightarrow> (case effect_level ceil of None \<Rightarrow> False | Some c \<Rightarrow> int (effect_rank e) \<le> c))"
  by (auto simp: effect_allows_def split: option.splits)

lemma effect_allows_antimono:
  assumes "e \<le> f" "effect_allows ceil (Some (invocation_effect_str f)) b k"
  shows "effect_allows ceil (Some (invocation_effect_str e)) b k"
  using assms by (auto simp: effect_allows_canonical less_eq_invocation_effect_def split: option.splits)

section \<open>What a positive check means\<close>

definition in_force :: "authorization_grant \<Rightarrow> time \<Rightarrow> bool" where
  "in_force g ts \<longleftrightarrow> ag_valid_from g \<le> ts
     \<and> (\<forall>e. ag_expires_at g = Some e \<longrightarrow> ts < e) \<and> (\<forall>r. ag_revoked_at g = Some r \<longrightarrow> ts < r)"

definition versions_bound :: "string list \<Rightarrow> string list \<Rightarrow> bool" where
  "versions_bound granted requested \<longleftrightarrow>
     (granted = [] \<and> requested = []) \<or> set granted \<inter> set requested \<noteq> {}"

lemma versions_bound_code:
  "(if gv \<noteq> [] then (if av = [] then False else if \<not> list_ex (\<lambda>v. v \<in> set gv) av then False else True)
    else if av \<noteq> [] then False else True) \<longleftrightarrow> versions_bound gv av"
  by (auto simp: versions_bound_def list_ex_iff)

lemma is_authorized_for_iff:
  "is_authorized_for a g ts \<longleftrightarrow>
     in_force g ts
     \<and> ag_conditions g = [] \<and> list_all tc_satisfied (ag_typed_conditions g)
     \<and> \<not> is_blank (ar_capability a) \<and> \<not> is_blank (ar_actor_ref a)
     \<and> (\<exists>pat \<in> set (ag_allowed_capabilities g). capability_covered pat (ar_capability a))
     \<and> (ag_resource_scope g = []
        \<or> (\<exists>r. ar_resource_ref a = Some r \<and> r \<noteq> []
             \<and> (\<exists>pat \<in> set (ag_resource_scope g). resource_covered pat r)))
     \<and> ar_actor_ref a = ag_grantee_ref g
     \<and> effect_allows (ag_effect_ceiling g) (Some (invocation_effect_str (ar_effect_class a))) False True
     \<and> versions_bound (ag_subject_version_refs g) (ar_subject_version_refs a)"
proof -
  have force: "\<not> ((case ag_revoked_at g of None \<Rightarrow> False | Some r \<Rightarrow> r \<le> ts)
         \<or> (case ag_expires_at g of None \<Rightarrow> False | Some e \<Rightarrow> ts \<ge> e)
         \<or> ts < ag_valid_from g) \<longleftrightarrow> in_force g ts"
    by (auto simp: in_force_def split: option.splits)
  have res: "\<not> (ag_resource_scope g \<noteq> [] \<and> \<not> resource_matches (ag_resource_scope g) (ar_resource_ref a))
     \<longleftrightarrow> ag_resource_scope g = []
        \<or> (\<exists>r. ar_resource_ref a = Some r \<and> r \<noteq> []
             \<and> (\<exists>pat \<in> set (ag_resource_scope g). resource_covered pat r))"
    using resource_matches_iff [of "ag_resource_scope g" "ar_resource_ref a"] by blast
  show ?thesis
    unfolding is_authorized_for_def versions_bound_code res [symmetric] force [symmetric]
      capability_matches_iff [symmetric]
    by (auto simp: conditions_satisfied_def)
qed

section \<open>An authority, and what its clients rely on\<close>

text \<open>
  The contract of a check: it holds only while the grant is in force, for the grantee, and for
  subject versions that meet the granted ones; a smaller effect is never refused where a larger
  one is allowed.  \<open>create_authorization_use\<close> and the historical check are its clients.
\<close>

locale authority =
  fixes check :: "canonical_request \<Rightarrow> authorization_grant \<Rightarrow> time \<Rightarrow> bool"
  assumes check_in_force: "check a g ts \<Longrightarrow> in_force g ts"
    and check_grantee: "check a g ts \<Longrightarrow> ar_actor_ref a = ag_grantee_ref g"
    and check_versions: "check a g ts \<Longrightarrow> versions_bound (ag_subject_version_refs g) (ar_subject_version_refs a)"
    and check_effect: "check a g ts \<Longrightarrow> e \<le> ar_effect_class a \<Longrightarrow> check (a\<lparr>ar_effect_class := e\<rparr>) g ts"
    and check_revoked: "check a (g\<lparr>ag_revoked_at := r\<rparr>) ts
       \<longleftrightarrow> (\<forall>x. r = Some x \<longrightarrow> ts < x) \<and> check a (g\<lparr>ag_revoked_at := None\<rparr>) ts"
begin

lemma refuses_other_versions:
  assumes "ag_subject_version_refs g \<noteq> []"
    and "set (ag_subject_version_refs g) \<inter> set (ar_subject_version_refs a) = {}"
  shows "\<not> check a g ts"
  using assms check_versions by (auto simp: versions_bound_def)

lemma refuses_revoked: "ag_revoked_at g = Some r \<Longrightarrow> r \<le> ts \<Longrightarrow> \<not> check a g ts"
  using check_in_force [of a g ts] by (auto simp: in_force_def)

lemma later_revocation:
  assumes "ag_revoked_at g = None" "ts < r"
  shows "check a (g\<lparr>ag_revoked_at := Some r\<rparr>) ts = check a g ts"
proof -
  have "g\<lparr>ag_revoked_at := None\<rparr> = g" using assms(1) by simp
  then show ?thesis using check_revoked [where a = a and g = g and r = "Some r" and ts = ts] assms(2) by simp
qed

end

interpretation live: authority is_authorized_for
proof
  fix a g ts and e :: invocation_effect
  assume "is_authorized_for a g ts" and "e \<le> ar_effect_class a"
  then show "is_authorized_for (a\<lparr>ar_effect_class := e\<rparr>) g ts"
    using effect_allows_antimono [of e "ar_effect_class a" "ag_effect_ceiling g" False True]
    by (auto simp: is_authorized_for_iff)
next
  fix a g r ts
  show "is_authorized_for a (g\<lparr>ag_revoked_at := r\<rparr>) ts
     \<longleftrightarrow> (\<forall>x. r = Some x \<longrightarrow> ts < x) \<and> is_authorized_for a (g\<lparr>ag_revoked_at := None\<rparr>) ts"
    by (auto simp: is_authorized_for_iff in_force_def)
qed (simp_all add: is_authorized_for_iff)

lemma validate_use_shape_Inr:
  "validate_use_shape u = Inr v \<longleftrightarrow>
     v = u \<and> \<not> is_blank (au_authorization_ref u) \<and> \<not> is_blank (au_capability u)
     \<and> \<not> is_blank (au_actor_ref u) \<and> \<not> is_blank (au_resource_ref u) \<and> au_subject_version_refs u \<noteq> []"
  by (auto simp: validate_use_shape_def)

section \<open>Properties\<close>

text \<open>C17: The authorization check, a chain of early returns over trimmed and lowered capability
  patterns, resource patterns, effect levels and version lists, decides exactly this: the grant is
  in force, all its conditions are typed and satisfied, some capability pattern and (when the
  grant is scoped) some resource pattern covers the request, the actor is the grantee, the effect
  is within the ceiling, and the subject versions meet the granted ones.\<close>

theorem is_authorized_for_decides:
  "is_authorized_for a g ts \<longleftrightarrow>
     in_force g ts
     \<and> ag_conditions g = [] \<and> list_all tc_satisfied (ag_typed_conditions g)
     \<and> \<not> is_blank (ar_capability a) \<and> \<not> is_blank (ar_actor_ref a)
     \<and> (\<exists>pat \<in> set (ag_allowed_capabilities g). capability_covered pat (ar_capability a))
     \<and> (ag_resource_scope g = []
        \<or> (\<exists>r. ar_resource_ref a = Some r \<and> r \<noteq> []
             \<and> (\<exists>pat \<in> set (ag_resource_scope g). resource_covered pat r)))
     \<and> ar_actor_ref a = ag_grantee_ref g
     \<and> effect_allows (ag_effect_ceiling g) (Some (invocation_effect_str (ar_effect_class a))) False True
     \<and> versions_bound (ag_subject_version_refs g) (ar_subject_version_refs a)"
  by (rule is_authorized_for_iff)

definition sample_grant :: authorization_grant where
  "sample_grant = \<lparr>ag_id = ''g'', ag_created_at = 0, ag_principal_ref = ''owner'',
     ag_grantee_ref = ''agent'', ag_allowed_capabilities = [''code.*''],
     ag_resource_scope = [''repo/a''], ag_effect_ceiling = Some ''write-local'',
     ag_valid_from = 10, ag_expires_at = Some 100, ag_conditions = [], ag_typed_conditions = [],
     ag_revocable = True, ag_revoked_at = None, ag_source_decision_ref = None,
     ag_subject_version_refs = [''patch-v1''], ag_metadata = fmempty\<rparr>"

definition sample_request :: canonical_request where
  "sample_request = \<lparr>ar_capability = ''code.edit'', ar_actor_ref = ''agent'',
     ar_resource_ref = Some ''repo/a/x'', ar_subject_version_refs = [''patch-v1''],
     ar_effect_class = Eff_Write_Local, ar_lease_generation = None\<rparr>"

declare sample_grant_def [model_defs] sample_request_def [model_defs]

lemmas check_eval = is_authorized_for_def conditions_satisfied_def capability_matches_def norm_cap_def
  resource_matches_def effect_allows_def effect_level_def effect_order_def effect_rank_def str_eval

lemma sample_authorized: "is_authorized_for sample_request sample_grant 20"
  by (simp add: model_defs check_eval)

text \<open>A grant for some versions of a subject authorizes no request about other versions: an
  approval of patch v1 cannot be used for patch v2.\<close>

theorem authorization_not_transferable_across_versions:
  assumes "ag_subject_version_refs g \<noteq> []"
    and "set (ag_subject_version_refs g) \<inter> set (ar_subject_version_refs a) = {}"
  shows "\<not> is_authorized_for a g ts"
  using assms by (rule live.refuses_other_versions)

theorem authorization_not_transferable_across_versions_witness:
  "\<not> is_authorized_for (sample_request\<lparr>ar_subject_version_refs := [''patch-v2'']\<rparr>) sample_grant 20"
  by (rule authorization_not_transferable_across_versions) (simp_all add: model_defs)

text \<open>Recording a use is sound and lasting: when the live check lets \<open>create_authorization_use\<close>
  produce a use, that use covers its request, and keeps covering it after the grant is revoked at
  any later instant, although the live check then refuses the request.\<close>

theorem authorization_use_survives_revocation:
  assumes "create_authorization_use uid created g a at = Inr u"
    and "ag_revoked_at g = None" and "at < r"
  shows "authorization_use_covers_request u g a
     \<and> authorization_use_covers_request u (g\<lparr>ag_revoked_at := Some r\<rparr>) a
     \<and> \<not> is_authorized_for a (g\<lparr>ag_revoked_at := Some r\<rparr>) r"
proof -
  have ok: "is_authorized_for a g at"
    and u: "au_authorized_at u = at" "au_authorization_ref u = ag_id g" "au_capability u = ar_capability a"
      "au_actor_ref u = ar_actor_ref a" "au_effect_class u = ar_effect_class a"
      "au_resource_ref u = (case ar_resource_ref a of None \<Rightarrow> [] | Some r \<Rightarrow> r)"
      "au_subject_version_refs u = ar_subject_version_refs a"
    using assms(1) by (auto simp: create_authorization_use_def validate_use_shape_Inr)
  have "is_authorized_for a (g\<lparr>ag_revoked_at := Some r\<rparr>) at"
    using ok live.later_revocation [OF assms(2,3)] by simp
  moreover have "\<not> is_authorized_for a (g\<lparr>ag_revoked_at := Some r\<rparr>) r"
    by (rule live.refuses_revoked [where r = r]) simp_all
  ultimately show ?thesis using ok u by (simp add: authorization_use_covers_request_def)
qed

theorem authorization_use_survives_revocation_witness:
  "\<exists>u. create_authorization_use ''u'' 20 sample_grant sample_request 20 = Inr u
     \<and> authorization_use_covers_request u (sample_grant\<lparr>ag_revoked_at := Some 30\<rparr>) sample_request"
proof -
  have "\<exists>u. create_authorization_use ''u'' 20 sample_grant sample_request 20 = Inr u"
    by (simp add: create_authorization_use_def sample_authorized validate_use_shape_Inr)
      (simp add: model_defs str_eval)
  then obtain u where u: "create_authorization_use ''u'' 20 sample_grant sample_request 20 = Inr u" ..
  have "ag_revoked_at sample_grant = None" by (simp add: model_defs)
  from authorization_use_survives_revocation [OF u this, of 30] u show ?thesis by auto
qed

text \<open>Authorization is downward closed in the effect: whoever may act with an effect may act
  with every smaller one, whatever string the ceiling is.\<close>

theorem authorization_effect_downward:
  assumes "is_authorized_for a g ts" and "e \<le> ar_effect_class a"
  shows "is_authorized_for (a\<lparr>ar_effect_class := e\<rparr>) g ts"
  using assms by (rule live.check_effect)

theorem authorization_effect_downward_witness:
  "is_authorized_for (sample_request\<lparr>ar_effect_class := Eff_Read\<rparr>) sample_grant 20"
  by (rule authorization_effect_downward [OF sample_authorized])
    (simp add: model_defs less_eq_invocation_effect_def effect_rank_def)

text \<open>One covered version is enough: a grant for patch v1 authorizes a request that also names
  patch v2, and the use recorded for it then covers a request about patch v2 alone only if the
  grant itself does.\<close>

theorem mixed_version_request_authorized:
  "is_authorized_for (sample_request\<lparr>ar_subject_version_refs := [''patch-v1'', ''patch-v2'']\<rparr>) sample_grant 20
   \<and> \<not> is_authorized_for (sample_request\<lparr>ar_subject_version_refs := [''patch-v2'']\<rparr>) sample_grant 20"
  by (simp add: model_defs check_eval)

end
