(* ===== verification/Memory_Store.thy ===== *)
theory Memory_Store
  imports Controller_Models Authorization
begin

text \<open>
  The deterministic state store (\<open>stores/memory.py\<close>, class \<open>InMemoryStateStore\<close>) and the event
  model it journals (\<open>Event\<close> of \<open>core/models.py\<close>): the append-only event journal with its authority
  gates, the checked writes of work, runs, steps, grants and authorization uses, compare-and-swap,
  and the transaction that undoes a failed commit.

  A bucket is an insertion-ordered dictionary.  The buckets of the record kinds that no modelled
  operation touches are left out.  The graph validator \<open>validate_state_graph\<close> of
  \<open>protocol/validation.py\<close>, which decides whether a complete candidate state is acceptable, is a
  parameter \<open>graph_errors\<close> of the operations that call it: nothing here depends on what it checks.
  A store is used by one thread at a time: its lock serialises the operations.
\<close>

section \<open>Events\<close>

text \<open>
  The payload of an event is a JSON document.  The documents that the modelled components write
  and read back are values of the models they are dumped from (a dump parses back to the value,
  and its validators run again on reading); any other document is \<open>PDict\<close>.
\<close>

datatype payload =
    PResponsibility string responsibility_object
  | PControllerState controller_state
  | PControllerDecision controller_decision
  | PControllerResult string string int capability_result
  | PControllerClosure string cognitive_closure
  | PControllerProposal string string string string
  | PControllerRevision string revision_assessment
  | PReopenRequired string int
  | PDict "(string, json) fmap"

record event =
  ev_id :: string
  ev_created_at :: time
  ev_metadata :: "(string, json) fmap"
  ev_type :: string
  ev_subject_ref :: string
  ev_payload :: payload

definition event_dump :: "event \<Rightarrow> event" where
  "event_dump e = e\<lparr>ev_created_at := 0\<rparr>"

fun payload_has_key :: "payload \<Rightarrow> string \<Rightarrow> bool" where
  "payload_has_key (PDict m) k = (fmlookup m k \<noteq> None)"
| "payload_has_key _ k = False"

definition dispatch_has_provider_execution_binding_authority :: "event \<Rightarrow> bool" where
  "dispatch_has_provider_execution_binding_authority e =
     (if ev_type e \<noteq> ''InvocationDispatchCommitted'' then False
      else payload_has_key (ev_payload e) ''provider_execution_binding_ref''
         \<or> payload_has_key (ev_payload e) ''provider_execution_binding'')"

definition outcome_impact_authority_event_types :: "string set" where
  "outcome_impact_authority_event_types =
     {''OutcomeImpactJudgmentRecorded'', ''OutcomeRevalidationDispositionRecorded''}"

section \<open>State\<close>

record lease =
  ls_owner :: string
  ls_expires_at :: time
  ls_generation :: int

record store =
  st_work :: "(string \<times> work) list"
  st_run :: "(string \<times> run) list"
  st_step :: "(string \<times> step) list"
  st_event :: "(string \<times> event) list"
  st_authorization :: "(string \<times> authorization_grant) list"
  st_authorization_use :: "(string \<times> authorization_use) list"
  st_leases :: "(string \<times> lease) list"
  st_terminal_depth :: int
  st_outcome_impact_depth :: int
  st_recovery_observation_depth :: int
  st_recovery_disposition_depth :: int
  st_recovery_application_depth :: int
  st_historical_use_depth :: int
  st_binding_dispatch_depth :: int

definition empty_store :: store where
  "empty_store = \<lparr>st_work = [], st_run = [], st_step = [], st_event = [], st_authorization = [],
     st_authorization_use = [], st_leases = [], st_terminal_depth = 0, st_outcome_impact_depth = 0,
     st_recovery_observation_depth = 0, st_recovery_disposition_depth = 0,
     st_recovery_application_depth = 0, st_historical_use_depth = 0, st_binding_dispatch_depth = 0\<rparr>"

text \<open>\<open>_records[kind][identifier]\<close>: a record of any kind, and the bucket it is in.\<close>

datatype stored =
    RWork work
  | RRun run
  | RStep step
  | RGrant authorization_grant
  | RUse authorization_use

fun store_put :: "stored \<Rightarrow> store \<Rightarrow> store" where
  "store_put (RWork v) s = s\<lparr>st_work := dict_set (wk_id v) v (st_work s)\<rparr>"
| "store_put (RRun v) s = s\<lparr>st_run := dict_set (rn_id v) v (st_run s)\<rparr>"
| "store_put (RStep v) s = s\<lparr>st_step := dict_set (sp_id v) v (st_step s)\<rparr>"
| "store_put (RGrant v) s = s\<lparr>st_authorization := dict_set (ag_id v) v (st_authorization s)\<rparr>"
| "store_put (RUse v) s = s\<lparr>st_authorization_use := dict_set (au_id v) v (st_authorization_use s)\<rparr>"

section \<open>Checked writes\<close>

text \<open>The candidate state of a write: the new value goes to the end of its bucket.\<close>

fun candidate_state :: "stored \<Rightarrow> store \<Rightarrow> store" where
  "candidate_state (RWork v) s = s\<lparr>st_work := dict_del (wk_id v) (st_work s) @ [(wk_id v, v)]\<rparr>"
| "candidate_state (RRun v) s = s\<lparr>st_run := dict_del (rn_id v) (st_run s) @ [(rn_id v, v)]\<rparr>"
| "candidate_state (RStep v) s = s\<lparr>st_step := dict_del (sp_id v) (st_step s) @ [(sp_id v, v)]\<rparr>"
| "candidate_state (RGrant v) s =
     s\<lparr>st_authorization := dict_del (ag_id v) (st_authorization s) @ [(ag_id v, v)]\<rparr>"
| "candidate_state (RUse v) s =
     s\<lparr>st_authorization_use := dict_del (au_id v) (st_authorization_use s) @ [(au_id v, v)]\<rparr>"

type_synonym graph_check = "store \<Rightarrow> string list"

definition validate_candidate_write :: "graph_check \<Rightarrow> stored \<Rightarrow> (store, unit) io" where
  "validate_candidate_write graph_errors v s =
     (let errors = graph_errors (candidate_state v s)
      in raise_ifI (errors \<noteq> []) (''state graph validation failed: '' @ py_join ''; '' errors)
           (retI ()) s)"

fun terminal_value :: "stored \<Rightarrow> bool" where
  "terminal_value (RWork v) = (wk_status v = Work_Completed)"
| "terminal_value (RRun v) = (rn_status v = Run_Succeeded)"
| "terminal_value _ = False"

definition reject_unproven_terminal_write :: "stored \<Rightarrow> (store, unit) io" where
  "reject_unproven_terminal_write v s =
     raise_ifI (terminal_value v \<and> st_terminal_depth s \<le> 0)
       ''terminal completion requires CompletionAuthority proof commit'' (retI ()) s"

definition save_raw :: "stored \<Rightarrow> (store, unit) io" where
  "save_raw v s = (Inr (), store_put v s)"

definition save_checked :: "graph_check \<Rightarrow> stored \<Rightarrow> (store, unit) io" where
  "save_checked G v =
     bindI (reject_unproven_terminal_write v) (\<lambda>_.
     bindI (validate_candidate_write G v) (\<lambda>_.
     save_raw v))"

definition save_work :: "graph_check \<Rightarrow> work \<Rightarrow> (store, unit) io" where
  "save_work G v = save_checked G (RWork v)"

definition save_run :: "graph_check \<Rightarrow> run \<Rightarrow> (store, unit) io" where
  "save_run G v = save_checked G (RRun v)"

definition save_step :: "graph_check \<Rightarrow> step \<Rightarrow> (store, unit) io" where
  "save_step G v = save_checked G (RStep v)"

text \<open>
  \<open>save_authorization\<close> validates the grant at the current instant but refuses only on a message
  that names the principal, the grantee or the capabilities.
\<close>

definition blocking_grant_error :: "string \<Rightarrow> bool" where
  "blocking_grant_error e \<longleftrightarrow> py_contains e ''principal_ref required''
     \<or> py_contains e ''grantee_ref required'' \<or> py_contains e ''allowed_capabilities''"

definition save_authorization :: "env \<Rightarrow> graph_check \<Rightarrow> time \<Rightarrow> authorization_grant \<Rightarrow> (store, unit) io" where
  "save_authorization E G now g =
     (let errs = validate_grant E g now
      in raise_ifI (list_ex blocking_grant_error errs) (py_join ''; '' errs)
        (bindI (validate_candidate_write G (RGrant g)) (\<lambda>_. save_raw (RGrant g))))"

definition get_authorization :: "store \<Rightarrow> string \<Rightarrow> authorization_grant option" where
  "get_authorization s i = map_of (st_authorization s) i"

definition request_of_use :: "authorization_use \<Rightarrow> canonical_request" where
  "request_of_use u =
     \<lparr>ar_capability = au_capability u, ar_actor_ref = au_actor_ref u,
      ar_resource_ref = Some (au_resource_ref u),
      ar_subject_version_refs = au_subject_version_refs u, ar_effect_class = au_effect_class u,
      ar_lease_generation = None\<rparr>"

definition save_authorization_use :: "graph_check \<Rightarrow> authorization_use \<Rightarrow> (store, unit) io" where
  "save_authorization_use G u = withI (\<lambda>s.
     raise_ifI (case map_of (st_authorization_use s) (au_id u) of None \<Rightarrow> False | Some old \<Rightarrow> old \<noteq> u)
       (''authorization use '' @ py_repr (au_id u) @ '' is immutable'')
    (case get_authorization s (au_authorization_ref u) of
       None \<Rightarrow> raiseI (ValueError ''authorization use references unknown grant'')
     | Some g \<Rightarrow>
         raise_ifI (\<not> is_authorized_for (request_of_use u) g (au_authorized_at u))
           ''authorization use is not valid at authorized_at''
        (bindI (validate_candidate_write G (RUse u)) (\<lambda>_. save_raw (RUse u)))))"

section \<open>Reads\<close>

text \<open>\<open>_list\<close>: the newest first, equal creation times in insertion order.\<close>

definition newest_first :: "('a \<Rightarrow> time) \<Rightarrow> (string \<times> 'a) list \<Rightarrow> 'a list" where
  "newest_first created bucket = sort_key (\<lambda>v. - created v) (map snd bucket)"

definition get_work :: "store \<Rightarrow> string \<Rightarrow> work option" where
  "get_work s i = map_of (st_work s) i"

definition list_work :: "store \<Rightarrow> work_status option \<Rightarrow> work list" where
  "list_work s status =
     filter (\<lambda>v. status = None \<or> status = Some (wk_status v)) (newest_first wk_created_at (st_work s))"

definition get_run :: "store \<Rightarrow> string \<Rightarrow> run option" where
  "get_run s i = map_of (st_run s) i"

definition list_runs :: "store \<Rightarrow> string option \<Rightarrow> run list" where
  "list_runs s work_id =
     filter (\<lambda>v. work_id = None \<or> work_id = Some (rn_work_id v)) (newest_first rn_created_at (st_run s))"

definition get_step :: "store \<Rightarrow> string \<Rightarrow> step option" where
  "get_step s i = map_of (st_step s) i"

definition list_steps :: "store \<Rightarrow> string option \<Rightarrow> step list" where
  "list_steps s run_id =
     filter (\<lambda>v. run_id = None \<or> run_id = Some (sp_run_id v)) (newest_first sp_created_at (st_step s))"

definition list_stale_steps :: "store \<Rightarrow> time \<Rightarrow> int \<Rightarrow> step list" where
  "list_stale_steps s now before_us =
     filter (\<lambda>v. sp_status v = Step_Running \<and> sp_updated_at v < now - before_us)
       (newest_first sp_created_at (st_step s))"

definition get_event :: "store \<Rightarrow> string \<Rightarrow> event option" where
  "get_event s i = map_of (st_event s) i"

definition list_events :: "store \<Rightarrow> string option \<Rightarrow> event list" where
  "list_events s subject_ref =
     filter (\<lambda>v. subject_ref = None \<or> subject_ref = Some (ev_subject_ref v))
       (newest_first ev_created_at (st_event s))"

section \<open>The event journal\<close>

definition event_gate :: "event \<Rightarrow> store \<Rightarrow> string option" where
  "event_gate e s =
     (if ev_type e \<in> outcome_impact_authority_event_types \<and> st_outcome_impact_depth s \<le> 0
        then Some ''Outcome impact authority events require commit_outcome_impact_judgment''
      else if ev_type e = ''RecoveryObservationRecorded'' \<and> st_recovery_observation_depth s \<le> 0
        then Some ''RecoveryObservation events require commit_recovery_observation''
      else if ev_type e = ''RecoveryDispositionRecorded'' \<and> st_recovery_disposition_depth s \<le> 0
        then Some ''RecoveryDisposition events require commit_recovery_disposition''
      else if ev_type e = ''RecoveryApplicationRecorded'' \<and> st_recovery_application_depth s \<le> 0
        then Some ''RecoveryApplication events require commit_recovery_application''
      else if ev_type e = ''HistoricalExperienceUseRecorded'' \<and> st_historical_use_depth s \<le> 0
        then Some ''HistoricalExperienceUse events require commit_historical_experience_use''
      else if dispatch_has_provider_execution_binding_authority e \<and> st_binding_dispatch_depth s \<le> 0
        then Some ''provider execution-binding dispatch events require governed dispatch commit''
      else None)"

definition append_event :: "event \<Rightarrow> (store, unit) io" where
  "append_event e s =
     (case event_gate e s of
        Some msg \<Rightarrow> (Inl (ValueError msg), s)
      | None \<Rightarrow>
          (case get_event s (ev_id e) of
             Some old \<Rightarrow>
               if event_dump old = event_dump e then (Inr (), s)
               else (Inl (ValueError (''event journal is append-only: refusing to overwrite event ''
                        @ py_repr (ev_id e))), s)
           | None \<Rightarrow> (Inr (), s\<lparr>st_event := dict_set (ev_id e) e (st_event s)\<rparr>)))"

section \<open>Compare-and-swap and rollback\<close>

text \<open>The version attribute: only steps have one among the modelled records.\<close>

fun stored_version :: "stored \<Rightarrow> int" where
  "stored_version (RStep v) = sp_version v"
| "stored_version _ = 0"

fun store_lookup :: "stored \<Rightarrow> string \<Rightarrow> store \<Rightarrow> stored option" where
  "store_lookup (RWork _) i s = map_option RWork (map_of (st_work s) i)"
| "store_lookup (RRun _) i s = map_option RRun (map_of (st_run s) i)"
| "store_lookup (RStep _) i s = map_option RStep (map_of (st_step s) i)"
| "store_lookup (RGrant _) i s = map_option RGrant (map_of (st_authorization s) i)"
| "store_lookup (RUse _) i s = map_option RUse (map_of (st_authorization_use s) i)"

text \<open>The new value is put under the given identifier, whatever its own.\<close>

fun store_put_at :: "string \<Rightarrow> stored \<Rightarrow> store \<Rightarrow> store" where
  "store_put_at i (RWork v) s = s\<lparr>st_work := dict_set i v (st_work s)\<rparr>"
| "store_put_at i (RRun v) s = s\<lparr>st_run := dict_set i v (st_run s)\<rparr>"
| "store_put_at i (RStep v) s = s\<lparr>st_step := dict_set i v (st_step s)\<rparr>"
| "store_put_at i (RGrant v) s = s\<lparr>st_authorization := dict_set i v (st_authorization s)\<rparr>"
| "store_put_at i (RUse v) s = s\<lparr>st_authorization_use := dict_set i v (st_authorization_use s)\<rparr>"

definition compare_and_swap :: "graph_check \<Rightarrow> string \<Rightarrow> int \<Rightarrow> stored \<Rightarrow> (store, bool) io" where
  "compare_and_swap G i expected v = withI (\<lambda>s.
     case store_lookup v i s of
       None \<Rightarrow> retI False
     | Some old \<Rightarrow>
         if stored_version old \<noteq> expected then retI False
         else bindI (reject_unproven_terminal_write v) (\<lambda>_.
              bindI (validate_candidate_write G v) (\<lambda>_.
              (\<lambda>s. (Inr True, store_put_at i v s)))))"

text \<open>An exception restores the records and the leases; the commit depths are not part of them.\<close>

definition rollback :: "store \<Rightarrow> store \<Rightarrow> store" where
  "rollback s t = t\<lparr>st_work := st_work s, st_run := st_run s, st_step := st_step s,
     st_event := st_event s, st_authorization := st_authorization s,
     st_authorization_use := st_authorization_use s, st_leases := st_leases s\<rparr>"

section \<open>The world of a run\<close>

text \<open>
  The store, and how many readings of the clock and of \<open>uuid4\<close> the run has made.  Operations of
  one store are lifted to it.
\<close>

record world =
  wd_store :: store
  wd_tick :: nat

definition on_store :: "(store, 'a) io \<Rightarrow> (world, 'a) io" where
  "on_store m w = (case m (wd_store w) of (r, t) \<Rightarrow> (r, w\<lparr>wd_store := t\<rparr>))"

definition transaction :: "(world, 'a) io \<Rightarrow> (world, 'a) io" where
  "transaction m w = (case m w of
     (Inl e, v) \<Rightarrow> (Inl e, v\<lparr>wd_store := rollback (wd_store w) (wd_store v)\<rparr>)
   | (Inr x, v) \<Rightarrow> (Inr x, v))"

text \<open>A read of the store that may raise.\<close>

definition readS :: "(store \<Rightarrow> 'a result) \<Rightarrow> (world, 'a) io" where
  "readS f w = (f (wd_store w), w)"

definition utcnow :: "env \<Rightarrow> (world, time) io" where
  "utcnow E w = (Inr (env_clock E (wd_tick w)), w\<lparr>wd_tick := wd_tick w + 1\<rparr>)"

definition new_id :: "env \<Rightarrow> string \<Rightarrow> (world, string) io" where
  "new_id E pre w = (Inr (new_id_at E (wd_tick w) pre), w\<lparr>wd_tick := wd_tick w + 1\<rparr>)"

text \<open>\<open>Event(id=new_id("event"), type=\<dots>, subject_ref=\<dots>, payload=\<dots>)\<close>, then \<open>append_event\<close>.\<close>

definition make_event :: "string \<Rightarrow> time \<Rightarrow> string \<Rightarrow> string \<Rightarrow> payload \<Rightarrow> event" where
  "make_event i t ty subject p = \<lparr>ev_id = i, ev_created_at = t, ev_metadata = fmempty,
     ev_type = ty, ev_subject_ref = subject, ev_payload = p\<rparr>"

definition append_new_event :: "env \<Rightarrow> string \<Rightarrow> string \<Rightarrow> payload \<Rightarrow> (world, string) io" where
  "append_new_event E ty subject p =
     bindI (new_id E ''event'') (\<lambda>i.
     bindI (utcnow E) (\<lambda>t.
     bindI (on_store (append_event (make_event i t ty subject p))) (\<lambda>_.
     retI i)))"

lemma on_store_Inr [simp]:
  "on_store m w = (Inr x, w') \<longleftrightarrow> (\<exists>t. m (wd_store w) = (Inr x, t) \<and> w' = w\<lparr>wd_store := t\<rparr>)"
  by (auto simp: on_store_def split: prod.splits)

lemma utcnow_Inr [simp]:
  "utcnow E w = (Inr t, w') \<longleftrightarrow> t = env_clock E (wd_tick w) \<and> w' = w\<lparr>wd_tick := wd_tick w + 1\<rparr>"
  by (auto simp: utcnow_def)

lemma new_id_Inr [simp]:
  "new_id E pre w = (Inr i, w') \<longleftrightarrow> i = new_id_at E (wd_tick w) pre \<and> w' = w\<lparr>wd_tick := wd_tick w + 1\<rparr>"
  by (auto simp: new_id_def)

lemma make_event_sel [simp]:
  "ev_id (make_event i t ty sr p) = i" "ev_created_at (make_event i t ty sr p) = t"
  "ev_type (make_event i t ty sr p) = ty" "ev_subject_ref (make_event i t ty sr p) = sr"
  "ev_payload (make_event i t ty sr p) = p"
  by (simp_all add: make_event_def)

section \<open>How a store grows\<close>

text \<open>Only the journal changes, and it only gets longer.\<close>

definition journal_grows :: "store \<Rightarrow> store \<Rightarrow> bool" where
  "journal_grows s t \<longleftrightarrow> (\<exists>es. t = s\<lparr>st_event := st_event s @ es\<rparr>)"

definition world_grows :: "world \<Rightarrow> world \<Rightarrow> bool" where
  "world_grows w v \<longleftrightarrow> journal_grows (wd_store w) (wd_store v) \<and> wd_tick w \<le> wd_tick v"

lemma journal_grows_refl [simp]: "journal_grows s s"
  by (auto simp: journal_grows_def intro: exI [of _ "[]"])

lemma journal_grows_trans: "journal_grows s t \<Longrightarrow> journal_grows t u \<Longrightarrow> journal_grows s u"
  by (auto simp: journal_grows_def)

lemma reflp_journal_grows [simp, intro]: "reflp journal_grows"
  by (simp add: reflp_def)

lemma transp_journal_grows [simp, intro]: "transp journal_grows"
  by (blast intro: transpI journal_grows_trans)

lemma reflp_world_grows [simp, intro]: "reflp world_grows"
  by (simp add: reflp_def world_grows_def)

lemma transp_world_grows [simp, intro]: "transp world_grows"
  by (auto intro!: transpI simp: world_grows_def intro: journal_grows_trans order_trans)

lemma journal_grows_get: "journal_grows s t \<Longrightarrow> get_event s i = Some e \<Longrightarrow> get_event t i = Some e"
  by (auto simp: journal_grows_def get_event_def map_add_Some_iff)

lemma append_event_cases:
  obtains (gated) msg where "event_gate e s = Some msg" "append_event e s = (Inl (ValueError msg), s)"
  | (replay) old where "event_gate e s = None" "get_event s (ev_id e) = Some old"
      "event_dump old = event_dump e" "append_event e s = (Inr (), s)"
  | (clash) old msg where "event_gate e s = None" "get_event s (ev_id e) = Some old"
      "event_dump old \<noteq> event_dump e" "append_event e s = (Inl (ValueError msg), s)"
  | (new) "event_gate e s = None" "get_event s (ev_id e) = None"
      "append_event e s = (Inr (), s\<lparr>st_event := st_event s @ [(ev_id e, e)]\<rparr>)"
  unfolding append_event_def get_event_def
  by (cases "event_gate e s"; cases "map_of (st_event s) (ev_id e)")
    (auto simp: dict_set_new split: if_splits)

lemma keeps_append_event: "keeps journal_grows (append_event e)"
  unfolding keeps_def
proof
  fix s
  show "journal_grows s (snd (append_event e s))"
    by (cases rule: append_event_cases [of e s]) (simp_all, auto simp: journal_grows_def)
qed

lemma keeps_on_store: "keeps journal_grows m \<Longrightarrow> keeps world_grows (on_store m)"
  by (auto simp: keeps_def on_store_def world_grows_def split: prod.splits) (metis snd_conv)

lemma keeps_utcnow: "keeps world_grows (utcnow E)"
  by (simp add: keeps_def utcnow_def world_grows_def)

lemma keeps_new_id: "keeps world_grows (new_id E pre)"
  by (simp add: keeps_def new_id_def world_grows_def)

lemma keeps_append_new_event: "keeps world_grows (append_new_event E ty sr p)"
  unfolding append_new_event_def
  by (intro keeps_intros keeps_utcnow keeps_new_id keeps_on_store keeps_append_event
      reflp_world_grows transp_world_grows)

lemma rollback_journal_grows: "journal_grows s t \<Longrightarrow> rollback s t = s"
  by (auto simp: journal_grows_def rollback_def)

lemma keeps_readS: "keeps world_grows (readS f)"
  by (simp add: keeps_def readS_def world_grows_def)

lemma keeps_transaction:
  assumes "keeps world_grows m"
  shows "keeps world_grows (transaction m)"
  unfolding keeps_def
proof
  fix w
  obtain r v where m: "m w = (r, v)" by fastforce
  with assms have g: "world_grows w v" by (rule keepsD)
  then have "rollback (wd_store w) (wd_store v) = wd_store w"
    by (simp add: world_grows_def rollback_journal_grows)
  with m g show "world_grows w (snd (transaction m w))"
    by (cases r) (simp_all add: transaction_def world_grows_def)
qed

lemma transaction_Inr [simp]: "transaction m w = (Inr x, v) \<longleftrightarrow> m w = (Inr x, v)"
  by (auto simp: transaction_def split: prod.splits sum.splits)

lemma transaction_Inl:
  assumes "keeps world_grows m" "transaction m w = (Inl e, v)"
  shows "wd_store v = wd_store w"
proof -
  obtain u where u: "m w = (Inl e, u)" "v = u\<lparr>wd_store := rollback (wd_store w) (wd_store u)\<rparr>"
    using assms(2) by (auto simp: transaction_def split: prod.splits sum.splits)
  then show ?thesis
    using keepsD [OF assms(1) u(1)] by (simp add: world_grows_def rollback_journal_grows)
qed

lemma readS_Inr [simp]: "readS f w = (Inr x, v) \<longleftrightarrow> f (wd_store w) = Inr x \<and> v = w"
  by (auto simp: readS_def)

lemmas keeps_world = keeps_readS keeps_transaction keeps_utcnow keeps_new_id keeps_append_new_event
  keeps_on_store keeps_append_event keeps_intros reflp_world_grows transp_world_grows

lemma event_gate_plain:
  assumes "ev_type e \<notin> outcome_impact_authority_event_types
     \<union> {''RecoveryObservationRecorded'', ''RecoveryDispositionRecorded'',
        ''RecoveryApplicationRecorded'', ''HistoricalExperienceUseRecorded'',
        ''InvocationDispatchCommitted''}"
  shows "event_gate e s = None"
  using assms by (auto simp: event_gate_def dispatch_has_provider_execution_binding_authority_def)

section \<open>The journal as an append-only log\<close>

text \<open>
  The contract that the clients of the journal rely on: what can be looked up stays as it is under
  every append, a successful append can be looked up, repeating it changes nothing, and another
  entry under the same key is refused.
\<close>

locale append_only_log =
  fixes app :: "'e \<Rightarrow> ('s, unit) io" and look :: "'s \<Rightarrow> 'k \<Rightarrow> 'e option"
    and key :: "'e \<Rightarrow> 'k" and same :: "'e \<Rightarrow> 'e \<Rightarrow> bool"
  assumes same_equiv: "equivp same"
    and look_stable: "look s k = Some e \<Longrightarrow> look (snd (app f s)) k = Some e"
    and append_look: "app e s = (Inr (), t) \<Longrightarrow> \<exists>f. look t (key e) = Some f \<and> same f e"
    and append_replay: "app e s = (Inr (), t) \<Longrightarrow> look s (key e) = Some f \<Longrightarrow> t = s"
    and append_clash: "look s (key e) = Some f \<Longrightarrow> \<not> same f e \<Longrightarrow> \<exists>err. app e s = (Inl err, s)"
begin

lemma look_run: "look s k = Some e \<Longrightarrow> look (fold (\<lambda>f t. snd (app f t)) fs s) k = Some e"
  by (induction fs arbitrary: s) (auto intro: look_stable)

lemma no_rebinding:
  assumes "app e s = (Inr (), t)" and "key f = key e" and "\<not> same f e"
  shows "\<exists>err u. app f (fold (\<lambda>f t. snd (app f t)) fs t) = (Inl err, u)
           \<and> u = fold (\<lambda>f t. snd (app f t)) fs t"
proof -
  obtain g where g: "look t (key e) = Some g" "same g e" using append_look [OF assms(1)] by blast
  have "\<not> same g f"
    using g(2) assms(3) same_equiv by (metis equivp_symp equivp_transp)
  moreover have "look (fold (\<lambda>f t. snd (app f t)) fs t) (key f) = Some g"
    using look_run [OF g(1)] assms(2) by simp
  ultimately show ?thesis using append_clash by blast
qed

end

interpretation journal: append_only_log append_event get_event ev_id "\<lambda>a b. event_dump a = event_dump b"
proof
  show "equivp (\<lambda>a b. event_dump a = event_dump b)" by (rule equivpI) (auto intro: reflpI sympI transpI)
next
  fix s k e f
  assume "get_event s k = Some e"
  moreover have "journal_grows s (snd (append_event f s))"
    using keeps_append_event by (simp add: keeps_def)
  ultimately show "get_event (snd (append_event f s)) k = Some e" by (rule journal_grows_get [rotated])
next
  fix e s t
  assume "append_event e s = (Inr (), t)"
  then show "\<exists>f. get_event t (ev_id e) = Some f \<and> event_dump f = event_dump e"
    by (cases rule: append_event_cases [of e s]) (auto simp: get_event_def map_add_Some_iff)
next
  fix e s t f
  assume "append_event e s = (Inr (), t)" "get_event s (ev_id e) = Some f"
  then show "t = s" by (cases rule: append_event_cases [of e s]) auto
next
  fix s e f
  assume "get_event s (ev_id e) = Some f" "event_dump f \<noteq> event_dump e"
  then show "\<exists>err. append_event e s = (Inl err, s)"
    by (cases rule: append_event_cases [of e s]) auto
qed

section \<open>Properties\<close>

text \<open>C18: The journal is append-only: once an event has been appended, then after any further
  attempts to append events, successful or refused, its identity still resolves to its content, and
  every attempt to append other content under the same identity raises and changes nothing.\<close>

theorem event_history_immutable:
  assumes "append_event e s = (Inr (), t)"
  shows "(\<exists>f. get_event (fold (\<lambda>f t. snd (append_event f t)) fs t) (ev_id e) = Some f
            \<and> event_dump f = event_dump e)
     \<and> (\<forall>f. ev_id f \<noteq> ev_id e \<or> event_dump f = event_dump e
          \<or> (\<exists>err. append_event f (fold (\<lambda>f t. snd (append_event f t)) fs t)
               = (Inl err, fold (\<lambda>f t. snd (append_event f t)) fs t)))"
proof -
  obtain f where f: "get_event t (ev_id e) = Some f" "event_dump f = event_dump e"
    using journal.append_look [OF assms] by blast
  with journal.look_run [OF f(1)] journal.no_rebinding [OF assms] show ?thesis by metis
qed

definition sample_event :: "string \<Rightarrow> time \<Rightarrow> event" where
  "sample_event ty t = make_event ''e1'' t ty ''subject'' (PDict fmempty)"

theorem event_history_immutable_witness:
  "\<exists>err. append_event (sample_event ''B'' 5) (empty_store\<lparr>st_event := [(''e1'', sample_event ''A'' 4)]\<rparr>)
     = (Inl err, empty_store\<lparr>st_event := [(''e1'', sample_event ''A'' 4)]\<rparr>)"
proof -
  have "append_event (sample_event ''A'' 4) empty_store
      = (Inr (), empty_store\<lparr>st_event := [(''e1'', sample_event ''A'' 4)]\<rparr>)"
    by (simp add: append_event_def event_gate_def get_event_def empty_store_def sample_event_def
        outcome_impact_authority_event_types_def
        dispatch_has_provider_execution_binding_authority_def)
  from event_history_immutable [OF this, of "[]", THEN conjunct2, THEN spec, of "sample_event ''B'' 5"]
  show ?thesis by (simp add: sample_event_def make_event_def event_dump_def)
qed

end
