(* ===== verification/Runtime_Leases.thy ===== *)
theory Runtime_Leases
  imports Memory_Store
begin

text \<open>
  Leases with fencing generations (\<open>acquire_lease\<close>, \<open>renew_lease\<close>, \<open>release_lease\<close> of
  \<open>stores/memory.py\<close>) and the runtime facade over them and over runs (\<open>core/runtime.py\<close>).

  A lease expires on the monotonic clock, whose readings are arguments \<open>mt\<close>; the run records
  the wall clock, read as \<open>utc\<close>.  Durations are microseconds.  The facade's metrics counters are
  left out.  In the code a run that is read and one that is stored are the same object; the model
  has values, which agrees with it here because every operation stores the object it changed.
\<close>

section \<open>Leases of the store\<close>

definition with_lease :: "string option \<Rightarrow> int \<Rightarrow> time \<Rightarrow> run \<Rightarrow> run" where
  "with_lease owner generation until r = r\<lparr>rn_lease_owner := owner, rn_lease_generation := generation,
     rn_lease_expires_at := Some until, rn_heartbeat_at := Some until\<rparr>"

definition next_generation :: "lease option \<Rightarrow> run option \<Rightarrow> int" where
  "next_generation existing r =
     (let generation = (case existing of Some l \<Rightarrow> ls_generation l + 1 | None \<Rightarrow> 1);
          held = (case existing of Some l \<Rightarrow> ls_generation l | None \<Rightarrow> 0)
      in case r of
           None \<Rightarrow> generation
         | Some r \<Rightarrow>
             if rn_lease_generation r \<noteq> 0 \<and> rn_lease_generation r \<noteq> held
             then max generation (rn_lease_generation r + 1) else generation)"

definition store_acquire_lease :: "time \<Rightarrow> time \<Rightarrow> string \<Rightarrow> string \<Rightarrow> int \<Rightarrow> store \<Rightarrow> bool \<times> store" where
  "store_acquire_lease mt utc run_id owner ttl s =
     (let existing = map_of (st_leases s) run_id in
      if (case existing of Some l \<Rightarrow> ls_expires_at l > mt \<and> ls_owner l \<noteq> owner | None \<Rightarrow> False)
      then (False, s)
      else
        (let generation = next_generation existing (get_run s run_id);
             s = s\<lparr>st_leases := dict_set run_id
                   \<lparr>ls_owner = owner, ls_expires_at = mt + ttl, ls_generation = generation\<rparr>
                   (st_leases s)\<rparr>
         in case get_run s run_id of
              None \<Rightarrow> (True, s)
            | Some r \<Rightarrow>
                (True, s\<lparr>st_run := dict_set run_id
                   (with_lease (Some owner) generation (utc + ttl) r) (st_run s)\<rparr>)))"

definition store_renew_lease ::
    "time \<Rightarrow> time \<Rightarrow> time \<Rightarrow> string \<Rightarrow> string \<Rightarrow> int \<Rightarrow> store \<Rightarrow> bool \<times> store" where
  "store_renew_lease mt mt' utc run_id owner ttl s =
     (case map_of (st_leases s) run_id of
        None \<Rightarrow> (False, s)
      | Some l \<Rightarrow>
          if ls_owner l \<noteq> owner then (False, s)
          else if ls_expires_at l \<le> mt then (False, s)
          else
            (let s = s\<lparr>st_leases := dict_set run_id (l\<lparr>ls_expires_at := mt' + ttl\<rparr>) (st_leases s)\<rparr>
             in case get_run s run_id of
                  None \<Rightarrow> (True, s)
                | Some r \<Rightarrow>
                    if rn_lease_owner r \<noteq> Some owner then (False, s)
                    else (True, s\<lparr>st_run := dict_set run_id
                      (r\<lparr>rn_lease_expires_at := Some (utc + ttl), rn_heartbeat_at := Some (utc + ttl)\<rparr>)
                      (st_run s)\<rparr>)))"

definition store_release_lease :: "string \<Rightarrow> string \<Rightarrow> store \<Rightarrow> bool \<times> store" where
  "store_release_lease run_id owner s =
     (case map_of (st_leases s) run_id of
        None \<Rightarrow> (False, s)
      | Some l \<Rightarrow>
          if ls_owner l \<noteq> owner then (False, s)
          else
            (let s = s\<lparr>st_leases := dict_del run_id (st_leases s)\<rparr>
             in case get_run s run_id of
                  None \<Rightarrow> (True, s)
                | Some r \<Rightarrow>
                    if rn_lease_owner r = Some owner
                    then (True, s\<lparr>st_run := dict_set run_id (r\<lparr>rn_lease_owner := None\<rparr>) (st_run s)\<rparr>)
                    else (True, s)))"

section \<open>The runtime facade\<close>

text \<open>A lease operation never raises; what it reports is recorded as an event.\<close>

definition lease_op :: "(store \<Rightarrow> bool \<times> store) \<Rightarrow> (world, bool) io" where
  "lease_op f w = (case f (wd_store w) of (b, t) \<Rightarrow> (Inr b, w\<lparr>wd_store := t\<rparr>))"

definition json_opt_str :: "string option \<Rightarrow> json" where
  "json_opt_str x = (case x of None \<Rightarrow> JNull | Some s \<Rightarrow> JStr s)"

definition runtime_acquire_lease ::
    "env \<Rightarrow> time \<Rightarrow> string \<Rightarrow> string \<Rightarrow> int \<Rightarrow> (world, bool) io" where
  "runtime_acquire_lease E mt run_id owner ttl = withI (\<lambda>w.
     let previous_owner = (case get_run (wd_store w) run_id of None \<Rightarrow> None | Some r \<Rightarrow> rn_lease_owner r) in
     bindI (utcnow E) (\<lambda>utc.
     bindI (lease_op (store_acquire_lease mt utc run_id owner ttl)) (\<lambda>acquired.
     let event_type = (if acquired \<and> previous_owner \<notin> {None, Some owner} then ''LeaseTakenOver''
                       else ''LeaseAcquired'');
         event_type = (if \<not> acquired then ''FencingRejected'' else event_type) in
     bindI (append_new_event E event_type run_id
       (PDict (fmap_of_list [(''owner'', JStr owner), (''previous_owner'', json_opt_str previous_owner),
          (''acquired'', JBool acquired)]))) (\<lambda>_.
     retI acquired))))"

definition runtime_renew_lease ::
    "env \<Rightarrow> time \<Rightarrow> time \<Rightarrow> string \<Rightarrow> string \<Rightarrow> int \<Rightarrow> (world, bool) io" where
  "runtime_renew_lease E mt mt' run_id owner ttl =
     bindI (utcnow E) (\<lambda>utc.
     bindI (lease_op (store_renew_lease mt mt' utc run_id owner ttl)) (\<lambda>renewed.
     bindI (append_new_event E (if renewed then ''LeaseRenewed'' else ''FencingRejected'') run_id
       (PDict (fmap_of_list [(''owner'', JStr owner), (''renewed'', JBool renewed)]))) (\<lambda>_.
     retI renewed)))"

definition runtime_release_lease :: "env \<Rightarrow> string \<Rightarrow> string \<Rightarrow> (world, bool) io" where
  "runtime_release_lease E run_id owner =
     bindI (lease_op (store_release_lease run_id owner)) (\<lambda>released.
     bindI (append_new_event E (if released then ''LeaseReleased'' else ''FencingRejected'') run_id
       (PDict (fmap_of_list [(''owner'', JStr owner), (''released'', JBool released)]))) (\<lambda>_.
     retI released))"

text \<open>Work and runs.  \<open>create_work\<close> takes no further fields here: they would only be stored.\<close>

definition runtime_create_work :: "env \<Rightarrow> graph_check \<Rightarrow> string \<Rightarrow> string \<Rightarrow> string \<Rightarrow> (world, work) io" where
  "runtime_create_work E G title description kind =
     bindI (new_id E ''work'') (\<lambda>i.
     bindI (utcnow E) (\<lambda>created.
     bindI (utcnow E) (\<lambda>updated.
     let w = \<lparr>wk_id = i, wk_created_at = created, wk_metadata = fmempty, wk_kind = kind,
       wk_title = title, wk_description = description, wk_status = Work_Open, wk_priority = 0,
       wk_inputs = [], wk_artifact_refs = [], wk_constraints = fmempty, wk_acceptance_criteria = [],
       wk_requested_capabilities = [], wk_parent_work_id = None, wk_updated_at = updated\<rparr> in
     bindI (on_store (save_work G w)) (\<lambda>_. retI w))))"

definition runtime_start_run :: "env \<Rightarrow> graph_check \<Rightarrow> string \<Rightarrow> string \<Rightarrow> (world, run) io" where
  "runtime_start_run E G work_id workflow_id = withI (\<lambda>w.
     case get_work (wd_store w) work_id of
       None \<Rightarrow> raiseI (KeyError (''unknown work: '' @ work_id))
     | Some work \<Rightarrow>
         bindI (utcnow E) (\<lambda>now.
         bindI (new_id E ''run'') (\<lambda>i.
         bindI (utcnow E) (\<lambda>created.
         let r = \<lparr>rn_id = i, rn_created_at = created, rn_metadata = fmempty, rn_work_id = work_id,
           rn_status = Run_Running, rn_workflow_id = workflow_id, rn_started_at = Some now,
           rn_ended_at = None, rn_current_step = None, rn_provider_invocation_refs = [],
           rn_lease_owner = None, rn_lease_generation = 0, rn_lease_expires_at = None,
           rn_heartbeat_at = None\<rparr> in
         bindI (on_store (save_run G r)) (\<lambda>_.
         bindI (on_store (save_work G (work\<lparr>wk_status := Work_Running, wk_updated_at := now\<rparr>))) (\<lambda>_.
         retI r))))))"

definition runtime_resume :: "graph_check \<Rightarrow> string \<Rightarrow> (world, run) io" where
  "runtime_resume G run_id = withI (\<lambda>w.
     case get_run (wd_store w) run_id of
       None \<Rightarrow> raiseI (KeyError (''unknown run: '' @ run_id))
     | Some r \<Rightarrow>
         if rn_status r \<in> {Run_Waiting, Run_Blocked, Run_Interrupted} then
           (let r = r\<lparr>rn_status := Run_Running\<rparr> in bindI (on_store (save_run G r)) (\<lambda>_. retI r))
         else retI r)"

definition runtime_recover :: "env \<Rightarrow> int \<Rightarrow> (world, step list) io" where
  "runtime_recover E before_us =
     bindI (utcnow E) (\<lambda>now. readI (\<lambda>w. Inr (list_stale_steps (wd_store w) now before_us)))"

definition runtime_interrupt :: "graph_check \<Rightarrow> string \<Rightarrow> (world, run) io" where
  "runtime_interrupt G run_id = withI (\<lambda>w.
     case get_run (wd_store w) run_id of
       None \<Rightarrow> raiseI (KeyError (''unknown run: '' @ run_id))
     | Some r \<Rightarrow>
         (let r = r\<lparr>rn_status := Run_Interrupted\<rparr> in
          bindI (on_store (save_run G r)) (\<lambda>_. retI r)))"

definition runtime_cancel :: "env \<Rightarrow> graph_check \<Rightarrow> string \<Rightarrow> (world, run) io" where
  "runtime_cancel E G run_id = withI (\<lambda>w.
     case get_run (wd_store w) run_id of
       None \<Rightarrow> raiseI (KeyError (''unknown run: '' @ run_id))
     | Some r \<Rightarrow>
         bindI (utcnow E) (\<lambda>now.
         let r = r\<lparr>rn_status := Run_Cancelled, rn_ended_at := Some now\<rparr> in
         bindI (on_store (save_run G r)) (\<lambda>_. retI r)))"

section \<open>Histories of lease operations\<close>

text \<open>The operations on the lease of one run, and what a sequence of them issues.\<close>

datatype lease_action =
    Acquire (action_owner: string) time time int
  | Renew (action_owner: string) time time time int
  | Drop (action_owner: string)

fun action_time :: "lease_action \<Rightarrow> time \<Rightarrow> bool" where
  "action_time (Acquire _ mt _ _) t = (mt < t)"
| "action_time (Renew _ mt _ _ _) t = (mt < t)"
| "action_time (Drop _) t = True"

fun lease_exec :: "string \<Rightarrow> lease_action \<Rightarrow> store \<Rightarrow> bool \<times> store" where
  "lease_exec rid (Acquire owner mt utc ttl) s = store_acquire_lease mt utc rid owner ttl s"
| "lease_exec rid (Renew owner mt mt' utc ttl) s = store_renew_lease mt mt' utc rid owner ttl s"
| "lease_exec rid (Drop owner) s = store_release_lease rid owner s"

fun is_acquire :: "lease_action \<Rightarrow> bool" where
  "is_acquire (Acquire _ _ _ _) = True"
| "is_acquire _ = False"

fun lease_history :: "string \<Rightarrow> lease_action list \<Rightarrow> store \<Rightarrow> store" where
  "lease_history rid [] s = s"
| "lease_history rid (a # as) s = lease_history rid as (snd (lease_exec rid a s))"

text \<open>The generations that the successful acquisitions of a history hand out, in order.\<close>

definition current_generation :: "string \<Rightarrow> store \<Rightarrow> int" where
  "current_generation rid s = (case map_of (st_leases s) rid of None \<Rightarrow> 0 | Some l \<Rightarrow> ls_generation l)"

fun issued_generations :: "string \<Rightarrow> lease_action list \<Rightarrow> store \<Rightarrow> int list" where
  "issued_generations rid [] s = []"
| "issued_generations rid (a # as) s =
     (case lease_exec rid a s of (b, t) \<Rightarrow>
       (if b \<and> is_acquire a then [current_generation rid t] else []) @ issued_generations rid as t)"

definition run_generation :: "string \<Rightarrow> store \<Rightarrow> int" where
  "run_generation rid s = (case get_run s rid of None \<Rightarrow> 0 | Some r \<Rightarrow> rn_lease_generation r)"

text \<open>
  Every generation in the lease table is positive, and a run that a lease refers to carries at
  least its generation.
\<close>

definition lease_wf :: "string \<Rightarrow> store \<Rightarrow> bool" where
  "lease_wf rid s \<longleftrightarrow> get_run s rid \<noteq> None
     \<and> (\<forall>l. map_of (st_leases s) rid = Some l \<longrightarrow> 0 \<le> ls_generation l)"

lemma get_run_leases [simp]: "get_run (s\<lparr>st_leases := ls\<rparr>) i = get_run s i"
  by (simp add: get_run_def)

lemma next_generation_run: "(\<forall>l. e = Some l \<longrightarrow> 0 \<le> ls_generation l) \<Longrightarrow>
    rn_lease_generation r < next_generation e (Some r)"
  by (auto simp: next_generation_def Let_def split: option.splits)

lemma next_generation_lease: "e = Some l \<Longrightarrow> ls_generation l < next_generation e r"
  by (auto simp: next_generation_def Let_def split: option.splits)

lemma next_generation_nonneg: "(\<forall>l. e = Some l \<longrightarrow> 0 \<le> ls_generation l) \<Longrightarrow> 0 \<le> next_generation e r"
  by (auto simp: next_generation_def Let_def split: option.splits)

lemma acquire_step:
  assumes wf: "lease_wf rid s" and ex: "store_acquire_lease mt utc rid owner ttl s = (b, t)"
  shows "lease_wf rid t \<and> (if b then run_generation rid s < run_generation rid t
            \<and> current_generation rid t = run_generation rid t else t = s)"
proof (cases b)
  case False
  then have "t = s" using ex
    by (auto simp: store_acquire_lease_def Let_def split: if_splits option.splits)
  then show ?thesis using wf False by simp
next
  case True
  let ?e = "map_of (st_leases s) rid"
  obtain r where r: "get_run s rid = Some r" using wf by (auto simp: lease_wf_def)
  let ?g = "next_generation ?e (Some r)"
  have nonneg: "\<forall>l. ?e = Some l \<longrightarrow> 0 \<le> ls_generation l" using wf by (simp add: lease_wf_def)
  have t: "map_of (st_leases t) rid = Some \<lparr>ls_owner = owner, ls_expires_at = mt + ttl, ls_generation = ?g\<rparr>"
    "get_run t rid = Some (with_lease (Some owner) ?g (utc + ttl) r)"
    using ex True r
    by (auto simp: store_acquire_lease_def Let_def get_run_def split: if_splits option.splits)
  show ?thesis
    using True r t next_generation_run [OF nonneg, of r] next_generation_nonneg [OF nonneg, of "Some r"]
    by (simp add: lease_wf_def run_generation_def current_generation_def with_lease_def)
qed

lemma renew_step:
  assumes wf: "lease_wf rid s" and ex: "store_renew_lease mt mt' utc rid owner ttl s = (b, t)"
  shows "lease_wf rid t \<and> run_generation rid t = run_generation rid s"
  using assms
  by (auto simp: store_renew_lease_def lease_wf_def run_generation_def get_run_def Let_def
      split: if_splits option.splits)

lemma release_step:
  assumes wf: "lease_wf rid s" and ex: "store_release_lease rid owner s = (b, t)"
  shows "lease_wf rid t \<and> run_generation rid t = run_generation rid s"
  using assms
  by (auto simp: store_release_lease_def lease_wf_def run_generation_def get_run_def Let_def
      split: if_splits option.splits)

lemma lease_exec_step:
  assumes "lease_wf rid s" "lease_exec rid a s = (b, t)"
  shows "lease_wf rid t \<and>
    (if b \<and> is_acquire a then run_generation rid s < current_generation rid t
         \<and> current_generation rid t = run_generation rid t
     else run_generation rid t = run_generation rid s)"
proof (cases a)
  case (Acquire owner mt utc ttl)
  then show ?thesis
    using assms acquire_step [of rid s mt utc owner ttl b t] by (cases b) (auto simp: run_generation_def)
next
  case (Renew owner mt mt' utc ttl)
  then show ?thesis using assms renew_step [of rid s mt mt' utc owner ttl b t] by simp
next
  case (Drop owner)
  then show ?thesis using assms release_step [of rid s owner b t] by simp
qed

lemma issued_above:
  "lease_wf rid s \<Longrightarrow> sorted_wrt (<) (run_generation rid s # issued_generations rid as s)"
proof (induction rid as s rule: issued_generations.induct)
  case (1 rid s)
  then show ?case by simp
next
  case (2 rid a as s)
  obtain b t where ex: "lease_exec rid a s = (b, t)" by fastforce
  note step = lease_exec_step [OF "2.prems" ex]
  have IH: "sorted_wrt (<) (run_generation rid t # issued_generations rid as t)"
    using "2.IH" [OF ex [symmetric]] step by simp
  show ?case
  proof (cases "b \<and> is_acquire a")
    case True
    then show ?thesis using step IH ex by auto
  next
    case False
    then show ?thesis using step IH ex by auto
  qed
qed

lemma other_owner_refused:
  assumes "map_of (st_leases s) rid = Some l" "action_owner a \<noteq> ls_owner l" "action_time a (ls_expires_at l)"
  shows "lease_exec rid a s = (False, s)"
  using assms
  by (cases a) (auto simp: store_acquire_lease_def store_renew_lease_def store_release_lease_def Let_def)

section \<open>Terminal states\<close>

text \<open>
  Every public operation of the store, as one relation between states; a transaction that fails
  after any number of them goes back.
\<close>

inductive store_step :: "store \<Rightarrow> store \<Rightarrow> bool" where
  Save: "store_step s (snd (save_checked G v s))"
| Cas: "store_step s (snd (compare_and_swap G i n v s))"
| Event: "store_step s (snd (append_event e s))"
| Grant: "store_step s (snd (save_authorization E G now g s))"
| Use: "store_step s (snd (save_authorization_use G u s))"
| Lease: "store_step s (snd (lease_exec rid a s))"
| Abort: "store_step\<^sup>*\<^sup>* s t \<Longrightarrow> store_step s (rollback s t)"

text \<open>What is terminal was so before, and no commit depth changes.\<close>

definition no_new_terminal :: "store \<Rightarrow> store \<Rightarrow> bool" where
  "no_new_terminal s t \<longleftrightarrow> st_terminal_depth t = st_terminal_depth s
     \<and> (\<forall>i w. get_work t i = Some w \<longrightarrow> wk_status w = Work_Completed \<longrightarrow> get_work s i = Some w)
     \<and> (\<forall>i r. get_run t i = Some r \<longrightarrow> rn_status r = Run_Succeeded \<longrightarrow>
          (\<exists>r'. get_run s i = Some r' \<and> rn_status r' = Run_Succeeded))"

lemma no_new_terminal_refl [simp]: "no_new_terminal s s"
  by (simp add: no_new_terminal_def)

lemma no_new_terminal_trans: "no_new_terminal s t \<Longrightarrow> no_new_terminal t u \<Longrightarrow> no_new_terminal s u"
  unfolding no_new_terminal_def by (metis (no_types, lifting))

lemma no_new_terminal_put:
  assumes "\<not> terminal_value v"
  shows "no_new_terminal s (store_put_at i v s)"
  using assms by (cases v) (auto simp: no_new_terminal_def get_work_def get_run_def split: if_splits)

lemma store_put_at: "store_put v s = store_put_at (case v of RWork w \<Rightarrow> wk_id w | RRun r \<Rightarrow> rn_id r
    | RStep p \<Rightarrow> sp_id p | RGrant g \<Rightarrow> ag_id g | RUse u \<Rightarrow> au_id u) v s"
  by (cases v) simp_all

lemma validate_candidate_Inr [simp]:
  "validate_candidate_write G v s = (Inr x, t) \<longleftrightarrow> G (candidate_state v s) = [] \<and> t = s"
  by (auto simp: validate_candidate_write_def Let_def)

lemma validate_candidate_Inl: "validate_candidate_write G v s = (Inl e, t) \<Longrightarrow> t = s"
  by (auto simp: validate_candidate_write_def Let_def io_defs split: if_splits)

lemma reject_terminal_Inr [simp]:
  "reject_unproven_terminal_write v s = (Inr x, t)
     \<longleftrightarrow> \<not> (terminal_value v \<and> st_terminal_depth s \<le> 0) \<and> t = s"
  by (auto simp: reject_unproven_terminal_write_def)

lemma reject_terminal_Inl: "reject_unproven_terminal_write v s = (Inl e, t) \<Longrightarrow> t = s"
  by (auto simp: reject_unproven_terminal_write_def io_defs split: if_splits)

lemma checked_bind_Inl:
  assumes "bindI (reject_unproven_terminal_write v) (\<lambda>_. bindI (validate_candidate_write G v) (\<lambda>_. k)) s = (Inl e, t)"
    and "\<And>s. \<exists>y u. k s = (Inr y, u)"
  shows "t = s"
proof -
  obtain y u where "k s = (Inr y, u)" using assms(2) by blast
  with assms(1) show ?thesis
    by (auto simp: bindI_def split: prod.splits sum.splits
        dest: reject_terminal_Inl validate_candidate_Inl)
qed

lemma save_checked_Inr [simp]:
  "save_checked G v s = (Inr u, t) \<longleftrightarrow> \<not> (terminal_value v \<and> st_terminal_depth s \<le> 0)
     \<and> G (candidate_state v s) = [] \<and> t = store_put v s"
  by (auto simp: save_checked_def save_raw_def)

lemma save_checked_Inl: "save_checked G v s = (Inl e, t) \<Longrightarrow> t = s"
  unfolding save_checked_def by (erule checked_bind_Inl) (simp add: save_raw_def)

lemma save_checked_terminal:
  assumes "st_terminal_depth s \<le> 0"
  shows "no_new_terminal s (snd (save_checked G v s))"
proof (cases "save_checked G v s")
  case (Pair r t)
  then have "t = s \<or> (t = store_put v s \<and> \<not> terminal_value v)" using assms
    by (cases r) (auto dest: save_checked_Inl)
  then show ?thesis using Pair by (auto simp: store_put_at intro: no_new_terminal_put)
qed

lemma compare_and_swap_cases:
  assumes "compare_and_swap G i n v s = (r, t)"
  shows "(t = s \<and> r \<noteq> Inr True)
     \<or> (r = Inr True \<and> t = store_put_at i v s \<and> \<not> (terminal_value v \<and> st_terminal_depth s \<le> 0)
        \<and> G (candidate_state v s) = []
        \<and> (\<exists>old. store_lookup v i s = Some old \<and> stored_version old = n))"
proof (cases "\<exists>old. store_lookup v i s = Some old \<and> stored_version old = n")
  case False
  then show ?thesis using assms
    by (auto simp: compare_and_swap_def withI_def retI_def split: option.splits if_splits)
next
  case True
  then have b: "bindI (reject_unproven_terminal_write v) (\<lambda>_. bindI (validate_candidate_write G v)
      (\<lambda>_ s. (Inr True, store_put_at i v s))) s = (r, t)"
    using assms by (auto simp: compare_and_swap_def withI_def)
  show ?thesis
  proof (cases r)
    case (Inl e)
    have "t = s" by (rule checked_bind_Inl [OF b [unfolded Inl]]) auto
    then show ?thesis using Inl by simp
  next
    case (Inr x)
    then show ?thesis using b True by auto
  qed
qed

lemma compare_and_swap_terminal:
  "st_terminal_depth s \<le> 0 \<Longrightarrow> no_new_terminal s (snd (compare_and_swap G i n v s))"
  using compare_and_swap_cases [of G i n v s "fst (compare_and_swap G i n v s)" "snd (compare_and_swap G i n v s)"]
  by (auto simp: no_new_terminal_put)

lemma journal_grows_terminal: "journal_grows s t \<Longrightarrow> no_new_terminal s t"
  by (auto simp: journal_grows_def no_new_terminal_def get_work_def get_run_def)

lemma validate_then_save: "snd (bindI (validate_candidate_write G v) (\<lambda>_. save_raw v) s) \<in> {s, store_put v s}"
  by (simp add: validate_candidate_write_def save_raw_def Let_def io_defs)

lemma save_authorization_state:
  "snd (save_authorization E G now g s) \<in> {s, store_put (RGrant g) s}"
  using validate_then_save [of G "RGrant g" s]
  by (simp only: save_authorization_def Let_def raise_ifI_def raiseI_def split: if_split) simp

lemma save_authorization_use_state:
  "snd (save_authorization_use G u s) \<in> {s, store_put (RUse u) s}"
  using validate_then_save [of G "RUse u" s]
  by (simp only: save_authorization_use_def withI_def raise_ifI_def raiseI_def split: if_split option.split) simp

lemma no_new_terminal_lease:
  "get_run s i = Some r \<Longrightarrow> rn_status r' = rn_status r \<Longrightarrow>
     no_new_terminal s (s\<lparr>st_leases := ls, st_run := dict_set i r' (st_run s)\<rparr>)"
  by (auto simp: no_new_terminal_def get_work_def get_run_def)

lemma no_new_terminal_leases: "no_new_terminal s (s\<lparr>st_leases := ls\<rparr>)"
  by (simp add: no_new_terminal_def get_work_def get_run_def)

lemma lease_exec_terminal: "no_new_terminal s (snd (lease_exec rid a s))"
  using no_new_terminal_lease [of s rid] no_new_terminal_leases [of s]
  by (cases a; simp add: store_acquire_lease_def store_renew_lease_def store_release_lease_def Let_def
      with_lease_def split: option.split)

lemma rollback_terminal: "no_new_terminal s t \<Longrightarrow> no_new_terminal s (rollback s t)"
  by (simp add: no_new_terminal_def rollback_def get_work_def get_run_def)

lemma store_step_terminal: "store_step s t \<Longrightarrow> st_terminal_depth s \<le> 0 \<Longrightarrow> no_new_terminal s t"
proof (induction rule: store_step.induct)
  case (Save s G v)
  then show ?case by (rule save_checked_terminal)
next
  case (Cas s G i n v)
  then show ?case by (rule compare_and_swap_terminal)
next
  case (Event s e)
  then show ?case using keeps_append_event by (simp add: keeps_def journal_grows_terminal)
next
  case (Grant s E G now g)
  then show ?case using save_authorization_state [of E G now g s] no_new_terminal_put [of "RGrant g" s]
    by (auto simp: store_put_at)
next
  case (Use s G u)
  then show ?case using save_authorization_use_state [of G u s] no_new_terminal_put [of "RUse u" s]
    by (auto simp: store_put_at)
next
  case (Lease s rid a)
  then show ?case by (intro lease_exec_terminal)
next
  case (Abort s t)
  have "no_new_terminal s t"
    using Abort.IH Abort.prems
  proof (induction rule: rtranclp_induct)
    case base
    then show ?case by simp
  next
    case (step y z)
    then have sy: "no_new_terminal s y" by blast
    then have "st_terminal_depth y \<le> 0" using step.prems by (simp add: no_new_terminal_def)
    with step.hyps(2) have "no_new_terminal y z" by blast
    with sy show ?case by (rule no_new_terminal_trans)
  qed
  then show ?case by (rule rollback_terminal)
qed

lemma store_steps_terminal:
  "store_step\<^sup>*\<^sup>* s t \<Longrightarrow> st_terminal_depth s \<le> 0 \<Longrightarrow> no_new_terminal s t"
proof (induction rule: rtranclp_induct)
  case base
  then show ?case by simp
next
  case (step y z)
  then have sy: "no_new_terminal s y" by simp
  then have "st_terminal_depth y \<le> 0" using step.prems by (simp add: no_new_terminal_def)
  with step.hyps(2) have "no_new_terminal y z" by (rule store_step_terminal)
  with sy show ?case by (rule no_new_terminal_trans)
qed

section \<open>Properties\<close>

definition sample_run :: "string \<Rightarrow> run" where
  "sample_run i = \<lparr>rn_id = i, rn_created_at = 0, rn_metadata = fmempty, rn_work_id = ''w'',
     rn_status = Run_Running, rn_workflow_id = ''generic-task'', rn_started_at = None,
     rn_ended_at = None, rn_current_step = None, rn_provider_invocation_refs = [],
     rn_lease_owner = None, rn_lease_generation = 0, rn_lease_expires_at = None,
     rn_heartbeat_at = None\<rparr>"

definition leased_store :: store where
  "leased_store = empty_store\<lparr>st_run := [(''r'', sample_run ''r'')]\<rparr>"

lemmas lease_eval = leased_store_def empty_store_def sample_run_def store_acquire_lease_def
  store_renew_lease_def store_release_lease_def next_generation_def with_lease_def get_run_def Let_def

text \<open>C19: Fencing generations never repeat: in every history of acquisitions, renewals and releases
  of one run's lease, by any owners and at any instants, the generations handed out are strictly
  increasing and above the run's own, across expiry, take-over and release.\<close>

theorem fencing_generations_increase:
  assumes "lease_wf rid s"
  shows "sorted_wrt (<) (run_generation rid s # issued_generations rid as s)"
  using assms by (rule issued_above)

theorem fencing_generations_increase_witness:
  "sorted_wrt (<) (run_generation ''r'' leased_store
     # issued_generations ''r'' [Acquire ''a'' 0 0 10, Drop ''a'', Acquire ''b'' 5 5 10] leased_store)
   \<and> issued_generations ''r'' [Acquire ''a'' 0 0 10, Drop ''a'', Acquire ''b'' 5 5 10] leased_store = [1, 2]"
proof -
  have "lease_wf ''r'' leased_store" by (simp add: lease_wf_def lease_eval)
  from fencing_generations_increase [OF this, of "[Acquire ''a'' 0 0 10, Drop ''a'', Acquire ''b'' 5 5 10]"]
  have "sorted_wrt (<) (run_generation ''r'' leased_store
     # issued_generations ''r'' [Acquire ''a'' 0 0 10, Drop ''a'', Acquire ''b'' 5 5 10] leased_store)" .
  moreover have "issued_generations ''r'' [Acquire ''a'' 0 0 10, Drop ''a'', Acquire ''b'' 5 5 10] leased_store = [1, 2]"
    by (simp add: lease_eval current_generation_def dict_del_def)
  ultimately show ?thesis by blast
qed

text \<open>C20: A lease excludes: from a successful acquisition until its expiry, nothing the other owners
  try, in any order and number, succeeds or changes the store.\<close>

theorem lease_excludes_other_owners:
  assumes "store_acquire_lease mt utc rid owner ttl s = (True, t)"
    and "\<forall>a \<in> set as. action_owner a \<noteq> owner \<and> action_time a (mt + ttl)"
  shows "lease_history rid as t = t \<and> issued_generations rid as t = []"
proof -
  obtain g where t: "map_of (st_leases t) rid
      = Some \<lparr>ls_owner = owner, ls_expires_at = mt + ttl, ls_generation = g\<rparr>"
    using assms(1)
    by (auto simp: store_acquire_lease_def Let_def get_run_def split: if_splits option.splits)
  show ?thesis
    using assms(2) by (induction as) (auto simp: other_owner_refused [OF t])
qed

theorem lease_excludes_other_owners_witness:
  "issued_generations ''r'' [Acquire ''b'' 5 5 100, Drop ''b'']
     (snd (store_acquire_lease 0 0 ''r'' ''a'' 10 leased_store)) = []"
proof -
  have "fst (store_acquire_lease 0 0 ''r'' ''a'' 10 leased_store)" by (simp add: lease_eval)
  then have "store_acquire_lease 0 0 ''r'' ''a'' 10 leased_store
      = (True, snd (store_acquire_lease 0 0 ''r'' ''a'' 10 leased_store))" by (simp add: prod_eq_iff)
  from lease_excludes_other_owners [OF this, of "[Acquire ''b'' 5 5 100, Drop ''b'']"]
  show ?thesis by simp
qed



text \<open>Compare-and-swap is atomic: it either leaves the store as it is, or the stored value had
  the expected version, the complete candidate graph was accepted, and exactly that entry is
  replaced.\<close>

theorem compare_and_swap_atomic:
  "(snd (compare_and_swap G i n v s) = s \<and> fst (compare_and_swap G i n v s) \<noteq> Inr True)
   \<or> (fst (compare_and_swap G i n v s) = Inr True \<and> snd (compare_and_swap G i n v s) = store_put_at i v s
      \<and> G (candidate_state v s) = []
      \<and> (\<exists>old. store_lookup v i s = Some old \<and> stored_version old = n))"
  using compare_and_swap_cases [of G i n v s "fst (compare_and_swap G i n v s)"
      "snd (compare_and_swap G i n v s)"]
  by (metis prod.collapse)

text \<open>A renewal that reports failure may have extended the lease: when the run's recorded owner
  differs from the lease's, \<open>renew_lease\<close> answers False after it has moved the expiry.\<close>

theorem failed_renewal_extends_lease:
  "let s = leased_store\<lparr>st_leases := [(''r'', \<lparr>ls_owner = ''a'', ls_expires_at = 10, ls_generation = 1\<rparr>)]\<rparr>;
       (renewed, t) = store_renew_lease 5 5 5 ''r'' ''a'' 30 s
   in \<not> renewed \<and> map_option ls_expires_at (map_of (st_leases t) ''r'') = Some 35"
  by (simp add: lease_eval)

end
