(* ===== verification/Responsibility_Journal.thy ===== *)
theory Responsibility_Journal
  imports Memory_Store
begin

text \<open>
  The append-only persistence of responsibility objects over the event journal
  (\<open>responsibility/persistence.py\<close>): the deterministic event of an object, parsing it back, and
  \<open>save\<close>, \<open>get\<close> and \<open>list\<close> of \<open>ResponsibilityJournal\<close>.

  An object's event id is a prefix of a digest of its identity, so two identities may share one;
  nothing here assumes that they never do.
\<close>

section \<open>Events of objects\<close>

definition responsibility_event_type :: string where
  "responsibility_event_type = ''persistent-responsibility.object-recorded''"

definition responsibility_event_schema :: string where
  "responsibility_event_schema = ''persistent-responsibility-event-v1''"

definition responsibility_event_id :: "env \<Rightarrow> string \<Rightarrow> string" where
  "responsibility_event_id E oid = ''event_responsibility_'' @ take 32 (env_sha256_hex E oid)"

definition responsibility_subject_ref :: "responsibility_object \<Rightarrow> string" where
  "responsibility_subject_ref v =
     (case object_responsibility_ref v of
        Some r \<Rightarrow> if r \<noteq> [] then r else object_id v
      | None \<Rightarrow> object_id v)"

definition responsibility_event :: "env \<Rightarrow> time \<Rightarrow> responsibility_object \<Rightarrow> event" where
  "responsibility_event E t v =
     make_event (responsibility_event_id E (object_id v)) t responsibility_event_type
       (responsibility_subject_ref v) (PResponsibility responsibility_event_schema v)"

definition responsibility_object_from_event :: "event \<Rightarrow> responsibility_object result" where
  "responsibility_object_from_event e =
     raise_if (ev_type e \<noteq> responsibility_event_type)
       ''event is not a persistent-responsibility object event''
    (case ev_payload e of
       PResponsibility schema v \<Rightarrow>
         raise_if (schema \<noteq> responsibility_event_schema)
           ''unsupported persistent-responsibility event schema'' (validate_object v)
     | _ \<Rightarrow> Inl (ValueError ''unsupported persistent-responsibility event schema''))"

section \<open>The journal\<close>

definition journal_save :: "env \<Rightarrow> responsibility_object \<Rightarrow> (world, responsibility_object) io" where
  "journal_save E v =
     bindI (utcnow E) (\<lambda>t.
     let event = responsibility_event E t v in
     withI (\<lambda>w.
       case get_event (wd_store w) (ev_id event) of
         Some existing \<Rightarrow>
           raise_ifI (event_dump existing \<noteq> event_dump event)
             (''responsibility object '' @ py_repr (object_id v) @ '' is append-only'')
           (readI (\<lambda>_. responsibility_object_from_event existing))
       | None \<Rightarrow> bindI (on_store (append_event event)) (\<lambda>_. retI v)))"

definition journal_get :: "env \<Rightarrow> store \<Rightarrow> string \<Rightarrow> responsibility_object option result" where
  "journal_get E s oid =
     (case get_event s (responsibility_event_id E oid) of
        None \<Rightarrow> Inr None
      | Some e \<Rightarrow> bindR (responsibility_object_from_event e) (\<lambda>v. Inr (Some v)))"

definition object_order :: "responsibility_object \<Rightarrow> time \<times> string" where
  "object_order v = (object_created_at v, object_id v)"

definition journal_list :: "store \<Rightarrow> string option \<Rightarrow> string option \<Rightarrow> responsibility_object list result" where
  "journal_list s ty responsibility_ref =
     bindR (traverse responsibility_object_from_event
        (filter (\<lambda>e. ev_type e = responsibility_event_type) (list_events s responsibility_ref)))
     (\<lambda>vs. Inr (sort_key object_order (filter (\<lambda>v. ty = None \<or> ty = Some (object_type v)) vs)))"

section \<open>Well-formed journals\<close>

text \<open>
  An event of the responsibility type is the event of a valid object, and an event is found under
  its identity only.  The journal's objects, in the order they were recorded:
\<close>

definition is_object_event :: "event \<Rightarrow> bool" where
  "is_object_event e \<longleftrightarrow> ev_type e = responsibility_event_type"

definition event_object :: "event \<Rightarrow> responsibility_object" where
  "event_object e = (case ev_payload e of PResponsibility _ v \<Rightarrow> v | _ \<Rightarrow> undefined)"

definition object_event_ok :: "env \<Rightarrow> event \<Rightarrow> bool" where
  "object_event_ok E e \<longleftrightarrow> (\<exists>t v. valid_object v \<and> e = responsibility_event E t v)"

definition journal_ok :: "env \<Rightarrow> store \<Rightarrow> bool" where
  "journal_ok E s \<longleftrightarrow> distinct (map fst (st_event s))
     \<and> (\<forall>(i, e) \<in> set (st_event s). ev_id e = i \<and> (is_object_event e \<longrightarrow> object_event_ok E e))"

definition objects :: "store \<Rightarrow> responsibility_object list" where
  "objects s = map event_object (filter is_object_event (map snd (st_event s)))"

lemma responsibility_event_sel [simp]:
  "ev_id (responsibility_event E t v) = responsibility_event_id E (object_id v)"
  "ev_type (responsibility_event E t v) = responsibility_event_type"
  "ev_subject_ref (responsibility_event E t v) = responsibility_subject_ref v"
  "is_object_event (responsibility_event E t v)"
  "event_object (responsibility_event E t v) = v"
  by (simp_all add: responsibility_event_def is_object_event_def event_object_def)

lemma object_from_own_event [simp]:
  "valid_object v \<Longrightarrow> responsibility_object_from_event (responsibility_event E t v) = Inr v"
  by (simp add: responsibility_object_from_event_def responsibility_event_def validate_object_Inr)

lemma object_from_event_ok:
  "object_event_ok E e \<Longrightarrow> responsibility_object_from_event e = Inr (event_object e)"
  by (auto simp: object_event_ok_def)

lemma event_gate_responsibility [simp]: "event_gate (responsibility_event E t v) s = None"
  by (rule event_gate_plain)
    (simp add: responsibility_event_type_def outcome_impact_authority_event_types_def)

lemma dump_responsibility_event:
  "event_dump (responsibility_event E t v) = event_dump (responsibility_event E t' v') \<longleftrightarrow> v = v'"
  by (auto simp: event_dump_def responsibility_event_def make_event_def)

lemma journal_ok_entry:
  assumes "journal_ok E s" "(i, e) \<in> set (st_event s)"
  shows "ev_id e = i" and "is_object_event e \<Longrightarrow> object_event_ok E e"
  using assms by (auto simp: journal_ok_def)

lemma journal_ok_event:
  assumes "journal_ok E s" "e \<in> set (map snd (st_event s))" "is_object_event e"
  shows "object_event_ok E e"
  using assms(2,3) journal_ok_entry(2) [OF assms(1)] by auto

lemma journal_okD:
  assumes "journal_ok E s" "get_event s i = Some e"
  shows "ev_id e = i" and "is_object_event e \<Longrightarrow> object_event_ok E e"
proof -
  have "(i, e) \<in> set (st_event s)" using assms(2) by (simp add: get_event_def map_of_SomeD)
  then show "ev_id e = i" "is_object_event e \<Longrightarrow> object_event_ok E e"
    using journal_ok_entry [OF assms(1)] by blast+
qed

lemma journal_ok_get:
  assumes "journal_ok E s" "(i, e) \<in> set (st_event s)"
  shows "get_event s i = Some e"
  using assms by (simp add: journal_ok_def get_event_def)

lemma objects_iff:
  assumes "journal_ok E s"
  shows "v \<in> set (objects s) \<longleftrightarrow>
     (\<exists>t. get_event s (responsibility_event_id E (object_id v)) = Some (responsibility_event E t v)
        \<and> valid_object v)"
proof
  assume "v \<in> set (objects s)"
  then obtain i e where e: "(i, e) \<in> set (st_event s)" "is_object_event e" "v = event_object e"
    by (auto simp: objects_def)
  then have g: "get_event s i = Some e" using assms journal_ok_get by blast
  obtain t u where u: "valid_object u" "e = responsibility_event E t u"
    using journal_okD(2) [OF assms g e(2)] unfolding object_event_ok_def by blast
  then have "v = u" "i = responsibility_event_id E (object_id u)"
    using e(3) journal_okD(1) [OF assms g] by simp_all
  with g u show "\<exists>t. get_event s (responsibility_event_id E (object_id v)) = Some (responsibility_event E t v)
        \<and> valid_object v"
    by blast
next
  assume "\<exists>t. get_event s (responsibility_event_id E (object_id v)) = Some (responsibility_event E t v)
        \<and> valid_object v"
  then obtain t i where "(i, responsibility_event E t v) \<in> set (st_event s)"
    by (auto simp: get_event_def dest: map_of_SomeD)
  then have "responsibility_event E t v \<in> set (filter is_object_event (map snd (st_event s)))"
    by force
  then have "event_object (responsibility_event E t v) \<in> set (objects s)"
    unfolding objects_def set_map by (rule imageI)
  then show "v \<in> set (objects s)" by simp
qed

lemma objects_valid: "journal_ok E s \<Longrightarrow> v \<in> set (objects s) \<Longrightarrow> valid_object v"
  by (simp add: objects_iff)

text \<open>Objects of a well-formed journal are told apart by their event identity, hence by their identity.\<close>

lemma objects_unique:
  assumes "journal_ok E s" "v \<in> set (objects s)" "v' \<in> set (objects s)"
    and "responsibility_event_id E (object_id v) = responsibility_event_id E (object_id v')"
  shows "v = v'"
proof -
  from assms(2) obtain t where
    "get_event s (responsibility_event_id E (object_id v)) = Some (responsibility_event E t v)"
    unfolding objects_iff [OF assms(1)] by blast
  moreover from assms(3) obtain t' where
    "get_event s (responsibility_event_id E (object_id v')) = Some (responsibility_event E t' v')"
    unfolding objects_iff [OF assms(1)] by blast
  ultimately have "responsibility_event E t v = responsibility_event E t' v'"
    unfolding assms(4) by simp
  then show ?thesis using responsibility_event_sel(5) by metis
qed

lemma objects_inj_id: "journal_ok E s \<Longrightarrow> inj_on object_id (set (objects s))"
  by (rule inj_onI) (simp add: objects_unique)

lemma distinct_objects:
  assumes "journal_ok E s"
  shows "distinct (objects s)"
proof -
  let ?es = "filter is_object_event (map snd (st_event s))"
  have ids: "map fst (st_event s) = map (ev_id \<circ> snd) (st_event s)"
    using assms by (auto simp: journal_ok_def)
  have "distinct (map ev_id (map snd (st_event s)))"
    using assms ids by (simp add: journal_ok_def)
  then have d: "distinct (map snd (st_event s))" "inj_on ev_id (set (map snd (st_event s)))"
    by (simp_all only: distinct_map)
  have "inj_on event_object (set ?es)"
  proof (rule inj_onI)
    fix x y
    assume xy: "x \<in> set ?es" "y \<in> set ?es" "event_object x = event_object y"
    have ok: "object_event_ok E z" if "z \<in> set ?es" for z
      using that journal_ok_event [OF assms, of z] by auto
    have "ev_id x = ev_id y"
      using ok [OF xy(1)] ok [OF xy(2)] xy(3) by (auto simp: object_event_ok_def)
    then show "x = y" using d(2) xy(1,2) by (auto dest: inj_onD)
  qed
  then show ?thesis using d(1) by (simp add: objects_def distinct_map)
qed

section \<open>Reading a well-formed journal\<close>

definition object_selected :: "string option \<Rightarrow> string option \<Rightarrow> responsibility_object \<Rightarrow> bool" where
  "object_selected ty ref v \<longleftrightarrow>
     (ref = None \<or> ref = Some (responsibility_subject_ref v)) \<and> (ty = None \<or> ty = Some (object_type v))"

lemma journal_list_ok:
  assumes "journal_ok E s"
  shows "journal_list s ty ref = Inr (sort_key object_order (filter (object_selected ty ref) (objects s)))"
proof -
  let ?es = "filter is_object_event (list_events s ref)"
  let ?vs = "map event_object ?es"
  have set_es: "set (list_events s ref) \<subseteq> set (map snd (st_event s))"
    by (auto simp: list_events_def newest_first_def)
  have ok: "object_event_ok E e" if "e \<in> set ?es" for e
    using that set_es journal_ok_event [OF assms, of e] by auto
  have "traverse responsibility_object_from_event ?es = Inr ?vs"
    by (rule traverse_total) (rule object_from_event_ok, rule ok)
  then have list: "journal_list s ty ref
      = Inr (sort_key object_order (filter (\<lambda>v. ty = None \<or> ty = Some (object_type v)) ?vs))"
    unfolding journal_list_def is_object_event_def [symmetric] by (simp del: bindR_Inr)
  have sub: "ev_subject_ref e = responsibility_subject_ref (event_object e)"
    if "e \<in> set (map snd (st_event s))" "is_object_event e" for e
    using journal_ok_event [OF assms that] by (auto simp: object_event_ok_def)
  have ms: "mset (filter (\<lambda>v. ty = None \<or> ty = Some (object_type v)) ?vs)
      = mset (filter (object_selected ty ref) (objects s))"
  proof -
    have "mset ?vs = image_mset event_object (filter_mset is_object_event
        (filter_mset (\<lambda>v. ref = None \<or> ref = Some (ev_subject_ref v)) (mset (map snd (st_event s)))))"
      by (simp add: list_events_def newest_first_def mset_filter filter_filter_mset)
    also have "\<dots> = image_mset event_object (filter_mset
        (\<lambda>e. ref = None \<or> ref = Some (responsibility_subject_ref (event_object e)))
        (filter_mset is_object_event (mset (map snd (st_event s)))))"
    proof -
      have "filter_mset is_object_event
          (filter_mset (\<lambda>v. ref = None \<or> ref = Some (ev_subject_ref v)) (mset (map snd (st_event s))))
        = filter_mset (\<lambda>e. ref = None \<or> ref = Some (responsibility_subject_ref (event_object e)))
          (filter_mset is_object_event (mset (map snd (st_event s))))"
        unfolding filter_filter_mset
        by (rule filter_mset_cong [OF refl]) (metis sub set_mset_mset)
      then show ?thesis by simp
    qed
    finally show ?thesis
      by (simp add: objects_def mset_filter filter_mset_image_mset filter_filter_mset
          object_selected_def comp_def conj_ac)
  qed
  have inj: "inj_on object_order (set (objects s))"
    using objects_inj_id [OF assms] by (auto simp: inj_on_def object_order_def)
  have "set (filter (\<lambda>v. ty = None \<or> ty = Some (object_type v)) ?vs) \<subseteq> set (objects s)"
    using ms by (metis filter_is_subset set_mset_mset)
  then have "inj_on object_order (set (filter (\<lambda>v. ty = None \<or> ty = Some (object_type v)) ?vs))"
    using inj inj_on_subset by blast
  from sort_key_mset_eq [OF ms this] list show ?thesis by simp
qed

lemma journal_get_Some:
  assumes "journal_ok E s"
  shows "journal_get E s oid = Inr (Some v)
     \<longleftrightarrow> v \<in> set (objects s) \<and> responsibility_event_id E (object_id v) = responsibility_event_id E oid
        \<or> (\<exists>e. get_event s (responsibility_event_id E oid) = Some e \<and> \<not> is_object_event e
             \<and> responsibility_object_from_event e = Inr v)"
proof (cases "get_event s (responsibility_event_id E oid)")
  case None
  then show ?thesis using objects_iff [OF assms, of v] by (auto simp: journal_get_def)
next
  case (Some e)
  show ?thesis
  proof (cases "is_object_event e")
    case True
    then obtain t u where u: "valid_object u" "e = responsibility_event E t u"
      using journal_okD(2) [OF assms Some] by (auto simp: object_event_ok_def)
    then have i: "responsibility_event_id E (object_id u) = responsibility_event_id E oid"
      using journal_okD(1) [OF assms Some] by simp
    have "journal_get E s oid = Inr (Some u)" using Some u by (simp add: journal_get_def del: bindR_Inr)
    moreover have "u \<in> set (objects s)" using objects_iff [OF assms, of u] u i Some by auto
    ultimately show ?thesis
      using True Some i objects_unique [OF assms, of u v] by auto
  next
    case False
    then show ?thesis
      using Some objects_iff [OF assms, of v] by (auto simp: journal_get_def)
  qed
qed

lemma not_object_event_error:
  "\<not> is_object_event e \<Longrightarrow> responsibility_object_from_event e \<noteq> Inr v"
  by (simp add: responsibility_object_from_event_def is_object_event_def)

lemma journal_get_iff:
  assumes "journal_ok E s"
  shows "journal_get E s oid = Inr (Some v)
     \<longleftrightarrow> v \<in> set (objects s) \<and> responsibility_event_id E (object_id v) = responsibility_event_id E oid"
  using journal_get_Some [OF assms] not_object_event_error by blast

lemma journal_get_self: "journal_ok E s \<Longrightarrow> v \<in> set (objects s) \<Longrightarrow> journal_get E s (object_id v) = Inr (Some v)"
  by (simp add: journal_get_iff)

lemma journal_get_None:
  "journal_get E s oid = Inr None \<longleftrightarrow> get_event s (responsibility_event_id E oid) = None"
  by (auto simp: journal_get_def split: option.splits)

section \<open>Growth\<close>

text \<open>
  An append that is no object event, or is the event of a valid object, keeps the journal
  well-formed; a well-formed journal only gets new objects at its end.
\<close>

lemma journal_ok_empty [simp]: "journal_ok E empty_store"
  by (simp add: journal_ok_def empty_store_def)

lemma objects_empty [simp]: "objects empty_store = []"
  by (simp add: objects_def empty_store_def)

lemma append_event_new:
  "append_event e s = (Inr (), t) \<Longrightarrow> get_event s (ev_id e) = None \<Longrightarrow>
     t = s\<lparr>st_event := st_event s @ [(ev_id e, e)]\<rparr>"
  by (cases rule: append_event_cases [of e s]) auto

lemma journal_ok_snoc:
  assumes "journal_ok E s" "get_event s (ev_id e) = None" "is_object_event e \<Longrightarrow> object_event_ok E e"
  shows "journal_ok E (s\<lparr>st_event := st_event s @ [(ev_id e, e)]\<rparr>)"
proof -
  have "ev_id e \<notin> fst ` set (st_event s)"
    using assms(2) by (simp add: get_event_def map_of_eq_None_iff)
  then show ?thesis using assms(1,3) by (auto simp: journal_ok_def)
qed

lemma journal_ok_append:
  assumes "journal_ok E s" "is_object_event e \<Longrightarrow> object_event_ok E e"
  shows "journal_ok E (snd (append_event e s))"
  using assms journal_ok_snoc [OF assms(1), of e]
  by (cases rule: append_event_cases [of e s]) auto

lemma objects_snoc [simp]:
  "objects (s\<lparr>st_event := st_event s @ [(i, e)]\<rparr>)
     = objects s @ (if is_object_event e then [event_object e] else [])"
  by (simp add: objects_def)

lemma objects_append_other:
  "\<not> is_object_event e \<Longrightarrow> objects (snd (append_event e s)) = objects s"
  by (cases rule: append_event_cases [of e s]) auto

lemma journal_ok_store [simp]:
  "journal_ok E (s\<lparr>st_work := x\<rparr>) = journal_ok E s"
  "objects (s\<lparr>st_work := x\<rparr>) = objects s"
  "get_event (s\<lparr>st_work := x\<rparr>) = get_event s"
  by (simp_all add: journal_ok_def objects_def get_event_def fun_eq_iff)

text \<open>What \<open>save\<close> does to a well-formed journal.\<close>

lemma journal_save_cases:
  assumes ok: "journal_ok E (wd_store w)" and v: "valid_object v" and ex: "journal_save E v w = (r, w')"
  obtains (raised) e where "r = Inl e" "wd_store w' = wd_store w"
  | (present) "r = Inr v" "wd_store w' = wd_store w" "v \<in> set (objects (wd_store w))"
  | (recorded) t where "r = Inr v" "get_event (wd_store w) (responsibility_event_id E (object_id v)) = None"
      "wd_store w' = (wd_store w)\<lparr>st_event := st_event (wd_store w)
         @ [(responsibility_event_id E (object_id v), responsibility_event E t v)]\<rparr>"
      "journal_ok E (wd_store w')" "objects (wd_store w') = objects (wd_store w) @ [v]"
proof (cases "get_event (wd_store w) (responsibility_event_id E (object_id v))")
  case None
  let ?t = "env_clock E (wd_tick w)"
  have "append_event (responsibility_event E ?t v) (wd_store w) = (Inr (), (wd_store w)\<lparr>st_event :=
      st_event (wd_store w) @ [(responsibility_event_id E (object_id v), responsibility_event E ?t v)]\<rparr>)"
    using None by (simp add: append_event_def get_event_def dict_set_new)
  with ex None have "r = Inr v" "wd_store w' = (wd_store w)\<lparr>st_event := st_event (wd_store w)
       @ [(responsibility_event_id E (object_id v), responsibility_event E ?t v)]\<rparr>"
    by (auto simp: journal_save_def bindI_def utcnow_def withI_def on_store_def retI_def Let_def)
  moreover have "object_event_ok E (responsibility_event E ?t v)"
    using v by (auto simp: object_event_ok_def)
  ultimately show thesis
    using recorded [of ?t] None journal_ok_snoc [OF ok, of "responsibility_event E ?t v"] by simp
next
  case (Some e)
  show thesis
  proof (cases "event_dump e = event_dump (responsibility_event E (env_clock E (wd_tick w)) v)")
    case True
    then have "is_object_event e" by (simp add: event_dump_def is_object_event_def) (metis event.select_convs(4) event.surjective event.update_convs(2) responsibility_event_sel(2))
    then obtain t u where u: "valid_object u" "e = responsibility_event E t u"
      using journal_okD(2) [OF ok Some] by (auto simp: object_event_ok_def)
    then have "u = v" using True by (simp add: dump_responsibility_event)
    then have "r = Inr v" "wd_store w' = wd_store w"
      using ex Some True u
      by (auto simp: journal_save_def bindI_def utcnow_def withI_def raise_ifI_def readI_def Let_def)
    moreover have "v \<in> set (objects (wd_store w))"
      using objects_iff [OF ok, of v] Some u \<open>u = v\<close> by auto
    ultimately show thesis by (rule present)
  next
    case False
    then show thesis
      using ex Some raised
      by (auto simp: journal_save_def bindI_def utcnow_def withI_def raise_ifI_def raiseI_def Let_def)
  qed
qed

lemma keeps_journal_save: "keeps world_grows (journal_save E v)"
  unfolding journal_save_def Let_def by (intro keeps_world)

end
