(* ===== verification/Responsibility_Kernel.thy ===== *)
theory Responsibility_Kernel
  imports Responsibility_Journal
begin

text \<open>
  The coordination kernel of persistent responsibilities (\<open>responsibility/service.py\<close>, class
  \<open>ResponsibilityKernel\<close>, up to \<open>propose\<close>, and \<open>responsibility/domain.py\<close>): identities and
  their admission, the contiguous revision and lifecycle histories, expectations, assessments and
  proposals.  What an operation reads is a function of the store that may raise; what it does is a
  state transformer of the world.
\<close>

section \<open>Typed access\<close>

definition as_standing :: "responsibility_object \<Rightarrow> standing_responsibility option" where
  "as_standing v = (case v of Standing x \<Rightarrow> Some x | _ \<Rightarrow> None)"

definition as_admission :: "responsibility_object \<Rightarrow> responsibility_admission option" where
  "as_admission v = (case v of Admission x \<Rightarrow> Some x | _ \<Rightarrow> None)"

definition as_revision :: "responsibility_object \<Rightarrow> responsibility_revision option" where
  "as_revision v = (case v of Revision x \<Rightarrow> Some x | _ \<Rightarrow> None)"

definition as_lifecycle :: "responsibility_object \<Rightarrow> lifecycle_transition option" where
  "as_lifecycle v = (case v of Lifecycle x \<Rightarrow> Some x | _ \<Rightarrow> None)"

definition as_expectation :: "responsibility_object \<Rightarrow> responsibility_expectation option" where
  "as_expectation v = (case v of Expectation x \<Rightarrow> Some x | _ \<Rightarrow> None)"

definition as_resolution :: "responsibility_object \<Rightarrow> expectation_resolution_object option" where
  "as_resolution v = (case v of Resolution x \<Rightarrow> Some x | _ \<Rightarrow> None)"

definition as_assessment :: "responsibility_object \<Rightarrow> responsibility_assessment option" where
  "as_assessment v = (case v of Assessment x \<Rightarrow> Some x | _ \<Rightarrow> None)"

definition as_proposal :: "responsibility_object \<Rightarrow> work_proposal option" where
  "as_proposal v = (case v of Proposal x \<Rightarrow> Some x | _ \<Rightarrow> None)"

lemma as_object_iff [simp]:
  "as_standing v = Some a \<longleftrightarrow> v = Standing a"
  "as_admission v = Some b \<longleftrightarrow> v = Admission b"
  "as_revision v = Some c \<longleftrightarrow> v = Revision c"
  "as_lifecycle v = Some d \<longleftrightarrow> v = Lifecycle d"
  "as_expectation v = Some e \<longleftrightarrow> v = Expectation e"
  "as_resolution v = Some f \<longleftrightarrow> v = Resolution f"
  "as_assessment v = Some g \<longleftrightarrow> v = Assessment g"
  "as_proposal v = Some h \<longleftrightarrow> v = Proposal h"
  by (auto simp: as_standing_def as_admission_def as_revision_def as_lifecycle_def as_expectation_def
      as_resolution_def as_assessment_def as_proposal_def split: responsibility_object.splits)

text \<open>\<open>_get\<close> with an expected type and \<open>_list\<close> followed by an \<open>isinstance\<close> filter.\<close>

definition kernel_get ::
    "env \<Rightarrow> string \<Rightarrow> (responsibility_object \<Rightarrow> 'a option) \<Rightarrow> store \<Rightarrow> string \<Rightarrow> 'a result" where
  "kernel_get E expected sel s oid =
     bindR (journal_get E s oid) (\<lambda>found.
     case found of
       None \<Rightarrow> Inl (ValueError (''unknown responsibility object: '' @ oid))
     | Some v \<Rightarrow>
         (case sel v of
            None \<Rightarrow> Inl (ValueError (''responsibility object '' @ py_repr oid @ '' must be '' @ expected
                     @ '', got '' @ object_type v))
          | Some x \<Rightarrow> Inr x))"

definition kernel_list ::
    "string \<Rightarrow> (responsibility_object \<Rightarrow> 'a option) \<Rightarrow> store \<Rightarrow> string option \<Rightarrow> 'a list result" where
  "kernel_list ty sel s ref = bindR (journal_list s (Some ty) ref) (\<lambda>vs. Inr (List.map_filter sel vs))"

definition save_append_only :: "env \<Rightarrow> responsibility_object \<Rightarrow> (world, responsibility_object) io" where
  "save_append_only E v =
     bindI (readS (\<lambda>s. journal_get E s (object_id v))) (\<lambda>existing.
     case existing of
       Some old \<Rightarrow>
         if semantic_dump old = semantic_dump v then retI old
         else raiseI (ValueError (''responsibility object '' @ py_repr (object_id v) @ '' is append-only''))
     | None \<Rightarrow> journal_save E v)"

section \<open>Definition and status\<close>

definition get_responsibility :: "env \<Rightarrow> store \<Rightarrow> string \<Rightarrow> standing_responsibility result" where
  "get_responsibility E s rid = kernel_get E ''StandingResponsibility'' as_standing s rid"

type_synonym responsibility_definition = "int \<times> string \<times> (string, string) fmap"

fun apply_revisions ::
    "responsibility_revision list \<Rightarrow> responsibility_definition \<Rightarrow> responsibility_definition result" where
  "apply_revisions [] d = Inr d"
| "apply_revisions (r # rs) (version, statement, scope) =
     raise_if (rr_from_version r \<noteq> version) ''responsibility revision history is not contiguous''
       (apply_revisions rs (rr_to_version r, rr_statement r, rr_scope r))"

definition current_definition :: "env \<Rightarrow> store \<Rightarrow> string \<Rightarrow> responsibility_definition result" where
  "current_definition E s rid =
     bindR (get_responsibility E s rid) (\<lambda>identity.
     bindR (kernel_list ''ResponsibilityRevision'' as_revision s (Some rid)) (\<lambda>revisions.
     apply_revisions (sort_key rr_to_version revisions) (1, sr_statement identity, sr_scope identity)))"

fun apply_transitions :: "lifecycle_transition list \<Rightarrow> responsibility_status \<Rightarrow> responsibility_status result" where
  "apply_transitions [] status = Inr status"
| "apply_transitions (t # ts) status =
     raise_if (lt_from_status t \<noteq> status) ''responsibility lifecycle history is not contiguous''
       (apply_transitions ts (lt_to_status t))"

definition current_status :: "env \<Rightarrow> store \<Rightarrow> string \<Rightarrow> responsibility_status result" where
  "current_status E s rid =
     bindR (get_responsibility E s rid) (\<lambda>_.
     bindR (kernel_list ''ResponsibilityAdmission'' as_admission s (Some rid)) (\<lambda>admissions.
     raise_if (admissions = []) ''standing responsibility is not admitted''
    (bindR (kernel_list ''ResponsibilityLifecycleTransition'' as_lifecycle s (Some rid)) (\<lambda>transitions.
     apply_transitions (sort_key (\<lambda>t. (lt_applied_at t, lt_id t)) transitions) Active))))"

section \<open>Registration, revision and lifecycle\<close>

definition register ::
    "env \<Rightarrow> standing_responsibility \<Rightarrow> responsibility_admission \<Rightarrow> (world, standing_responsibility) io" where
  "register E identity admission =
     raise_ifI (ra_responsibility_ref admission \<noteq> sr_id identity)
       ''admission must bind the standing responsibility identity''
    (raise_ifI (ra_responsibility_version admission \<noteq> 1)
       ''initial responsibility admission must bind version 1''
    (raise_ifI (is_blank (ra_principal_ref admission))
       ''responsibility admission requires principal_ref''
    (transaction
      (bindI (readS (\<lambda>s. journal_get E s (sr_id identity))) (\<lambda>existing.
       raise_ifI (existing \<noteq> None) (''standing responsibility already exists: '' @ sr_id identity)
      (bindI (journal_save E (Standing identity)) (\<lambda>_.
       bindI (save_append_only E (Admission admission)) (\<lambda>_.
       retI identity))))))))"

definition revise :: "env \<Rightarrow> responsibility_revision \<Rightarrow> (world, responsibility_object) io" where
  "revise E r =
     bindI (readS (\<lambda>s. current_definition E s (rr_responsibility_ref r))) (\<lambda>(version, _, _).
     raise_ifI (rr_from_version r \<noteq> version) ''responsibility revision is stale''
    (bindI (readS (\<lambda>s. current_status E s (rr_responsibility_ref r))) (\<lambda>status.
     raise_ifI (status = Discharged)
       ''discharged responsibility must be explicitly reopened before revision''
    (save_append_only E (Revision r)))))"

definition transition :: "env \<Rightarrow> lifecycle_transition \<Rightarrow> (world, responsibility_object) io" where
  "transition E t =
     bindI (readS (\<lambda>s. current_definition E s (lt_responsibility_ref t))) (\<lambda>(version, _, _).
     raise_ifI (lt_responsibility_version t \<noteq> version) ''responsibility lifecycle transition is stale''
    (bindI (readS (\<lambda>s. current_status E s (lt_responsibility_ref t))) (\<lambda>status.
     raise_ifI (lt_from_status t \<noteq> status) ''responsibility lifecycle transition has stale from_status''
    (save_append_only E (Lifecycle t)))))"

section \<open>Expectations\<close>

definition create_expectation :: "env \<Rightarrow> responsibility_expectation \<Rightarrow> (world, responsibility_object) io" where
  "create_expectation E x =
     bindI (readS (\<lambda>s. current_definition E s (ex_responsibility_ref x))) (\<lambda>(version, _, _).
     bindI (readS (\<lambda>s. current_status E s (ex_responsibility_ref x))) (\<lambda>status.
     raise_ifI (status \<noteq> Active) ''expectation requires an active standing responsibility''
    (raise_ifI (ex_responsibility_version x \<noteq> version)
       ''expectation is bound to a stale responsibility version''
    (save_append_only E (Expectation x)))))"

definition resolutions_of :: "store \<Rightarrow> responsibility_expectation \<Rightarrow> string \<Rightarrow> expectation_resolution_object list result" where
  "resolutions_of s x expectation_id =
     bindR (kernel_list ''ResponsibilityExpectationResolution'' as_resolution s (Some (ex_responsibility_ref x)))
       (\<lambda>rs. Inr (filter (\<lambda>r. er_expectation_ref r = expectation_id) rs))"

definition expectation_open :: "env \<Rightarrow> store \<Rightarrow> string \<Rightarrow> bool result" where
  "expectation_open E s expectation_id =
     bindR (kernel_get E ''ResponsibilityExpectation'' as_expectation s expectation_id) (\<lambda>x.
     bindR (resolutions_of s x expectation_id) (\<lambda>rs. Inr (rs = [])))"

definition resolve_expectation :: "env \<Rightarrow> expectation_resolution_object \<Rightarrow> (world, responsibility_object) io" where
  "resolve_expectation E r =
     bindI (readS (\<lambda>s. kernel_get E ''ResponsibilityExpectation'' as_expectation s (er_expectation_ref r))) (\<lambda>x.
     raise_ifI (ex_responsibility_ref x \<noteq> er_responsibility_ref r)
       ''expectation resolution responsibility mismatch''
    (bindI (readS (\<lambda>s. expectation_open E s (ex_id x))) (\<lambda>is_open.
     if \<not> is_open then
       bindI (readS (\<lambda>s. resolutions_of s x (ex_id x))) (\<lambda>existing.
       case existing of
         [old] \<Rightarrow>
           if semantic_dump (Resolution old) = semantic_dump (Resolution r) then retI (Resolution old)
           else raiseI (ValueError ''expectation is already resolved'')
       | _ \<Rightarrow> raiseI (ValueError ''expectation is already resolved''))
     else save_append_only E (Resolution r))))"

text \<open>\<open>_stable_id\<close>: the parts joined by the unit separator.\<close>

definition stable_id :: "env \<Rightarrow> string \<Rightarrow> string list \<Rightarrow> string" where
  "stable_id E pre parts = pre @ ''_'' @ take 32 (env_sha256_hex E (py_join [char_of (31 :: nat)] parts))"

text \<open>Constructing a model: its validators run.\<close>

definition construct :: "responsibility_object \<Rightarrow> (world, unit) io" where
  "construct v = readI (\<lambda>_. bindR (validate_object v) (\<lambda>_. Inr ()))"

definition seconds :: "int \<Rightarrow> int" where
  "seconds n = n * 1000000"

definition missing_assessment ::
    "string \<Rightarrow> time \<Rightarrow> responsibility_expectation \<Rightarrow> int \<Rightarrow> time \<Rightarrow> responsibility_assessment" where
  "missing_assessment aid created x version now =
     \<lparr>as_id = aid, as_created_at = created, as_responsibility_ref = ex_responsibility_ref x,
      as_responsibility_version = version, as_subject_ref = ex_subject_ref x,
      as_assessment_kind = ''expected-signal-missing'', as_basis_refs = [ex_id x],
      as_assessed_at = now,
      as_fresh_until = map_option (\<lambda>n. now + seconds n) (ex_freshness_window_seconds x),
      as_rationale = ''expected '' @ ex_expected_signal_kind x @ '' evidence is absent after due_at''\<rparr>"

definition assess_due_expectation ::
    "env \<Rightarrow> string \<Rightarrow> time \<Rightarrow> string list \<Rightarrow> (world, responsibility_object option) io" where
  "assess_due_expectation E expectation_id now observed_evidence_refs =
     bindI (readS (\<lambda>s. kernel_get E ''ResponsibilityExpectation'' as_expectation s expectation_id)) (\<lambda>x.
     bindI (readS (\<lambda>s. expectation_open E s (ex_id x))) (\<lambda>is_open.
     if \<not> is_open then retI None else
     bindI (readS (\<lambda>s. current_definition E s (ex_responsibility_ref x))) (\<lambda>(version, _, _).
     raise_ifI (ex_responsibility_version x \<noteq> version)
       ''stale expectation requires revalidation before assessment''
    (bindI (readS (\<lambda>s. current_status E s (ex_responsibility_ref x))) (\<lambda>status.
     if status \<noteq> Active then retI None else
     let observed = filter (\<lambda>ref. \<not> is_blank ref) observed_evidence_refs in
     if observed \<noteq> [] then
       bindI (utcnow E) (\<lambda>created.
       let r = \<lparr>er_id = stable_id E ''expectation_resolution'' [ex_id x, ''satisfied''],
         er_created_at = created, er_expectation_ref = ex_id x,
         er_responsibility_ref = ex_responsibility_ref x, er_resolution = Satisfied,
         er_basis_refs = observed, er_resolved_at = now\<rparr> in
       bindI (construct (Resolution r)) (\<lambda>_.
       bindI (resolve_expectation E r) (\<lambda>_.
       retI None)))
     else if now < ex_due_at x then retI None else
     let aid = stable_id E ''assessment'' [ex_id x, env_isoformat E (ex_due_at x), ''missing''] in
     bindI (readS (\<lambda>s. journal_get E s aid)) (\<lambda>existing.
     case existing of
       Some v \<Rightarrow>
         if as_assessment v = None
         then raiseI (ValueError ''deterministic assessment identity rebound'') else retI (Some v)
     | None \<Rightarrow>
         bindI (utcnow E) (\<lambda>created.
         let a = missing_assessment aid created x version now in
         bindI (construct (Assessment a)) (\<lambda>_.
         bindI (save_append_only E (Assessment a)) (\<lambda>v.
         retI (Some v))))))))))"

section \<open>Assessments and proposals\<close>

definition stale_at :: "time option \<Rightarrow> time \<Rightarrow> bool" where
  "stale_at fresh_until now = (case fresh_until of None \<Rightarrow> False | Some u \<Rightarrow> now > u)"

definition propose :: "env \<Rightarrow> work_proposal \<Rightarrow> time \<Rightarrow> (world, responsibility_object) io" where
  "propose E p now =
     bindI (readS (\<lambda>s. current_definition E s (wp_responsibility_ref p))) (\<lambda>(version, _, _).
     bindI (readS (\<lambda>s. current_status E s (wp_responsibility_ref p))) (\<lambda>status.
     raise_ifI (status \<noteq> Active) ''work proposal requires an active standing responsibility''
    (raise_ifI (wp_responsibility_version p \<noteq> version)
       ''historical proposal cannot enter current admission''
    (bindI (readS (\<lambda>s. kernel_get E ''ResponsibilityAssessment'' as_assessment s (wp_assessment_ref p))) (\<lambda>a.
     raise_ifI (as_responsibility_ref a \<noteq> wp_responsibility_ref p)
       ''proposal assessment belongs to another responsibility''
    (raise_ifI (as_responsibility_version a \<noteq> version) ''proposal assessment is stale''
    (raise_ifI (stale_at (as_fresh_until a) now) ''proposal assessment is no longer fresh''
    (raise_ifI (stale_at (wp_fresh_until p) now) ''proposal is already stale''
    (save_append_only E (Proposal p))))))))))"

definition record_domain_assessment ::
    "env \<Rightarrow> responsibility_assessment \<Rightarrow> time \<Rightarrow> (world, responsibility_assessment) io" where
  "record_domain_assessment E a now =
     bindI (readS (\<lambda>s. current_definition E s (as_responsibility_ref a))) (\<lambda>(version, _, _).
     bindI (readS (\<lambda>s. current_status E s (as_responsibility_ref a))) (\<lambda>status.
     raise_ifI (status \<noteq> Active) ''domain assessment requires an active standing responsibility''
    (raise_ifI (as_responsibility_version a \<noteq> version)
       ''domain assessment is bound to a stale responsibility version''
    (raise_ifI (stale_at (as_fresh_until a) now) ''domain assessment is already stale''
    (bindI (readS (\<lambda>s. journal_get E s (as_id a))) (\<lambda>existing.
     case existing of
       Some v \<Rightarrow>
         if v = Assessment a then retI a
         else raiseI (ValueError (''assessment identity rebound: '' @ as_id a))
     | None \<Rightarrow> bindI (journal_save E (Assessment a)) (\<lambda>_. retI a)))))))"

text \<open>
  The scheduler's projection: every expectation whose definition and status can be read, that is
  due, current and open.  An error of \<open>expectation_open\<close> is not caught.
\<close>

definition expectation_due :: "env \<Rightarrow> store \<Rightarrow> time \<Rightarrow> responsibility_expectation \<Rightarrow> (time \<times> string) option result" where
  "expectation_due E s now x =
     (if ex_due_at x > now then Inr None else
      case bindR (current_definition E s (ex_responsibility_ref x)) (\<lambda>d.
           bindR (current_status E s (ex_responsibility_ref x)) (\<lambda>st. Inr (d, st))) of
        Inl e \<Rightarrow> if is_value_error e then Inr None else Inl e
      | Inr ((version, _, _), status) \<Rightarrow>
          if status \<noteq> Active then Inr None
          else if ex_responsibility_version x \<noteq> version then Inr None
          else bindR (expectation_open E s (ex_id x)) (\<lambda>is_open.
               Inr (if is_open then Some (ex_due_at x, ex_id x) else None)))"

definition due_expectations :: "env \<Rightarrow> store \<Rightarrow> time \<Rightarrow> string list result" where
  "due_expectations E s now =
     bindR (kernel_list ''ResponsibilityExpectation'' as_expectation s None) (\<lambda>xs.
     bindR (traverse (expectation_due E s now) xs) (\<lambda>due.
     Inr (map snd (sort (List.map_filter id due)))))"

section \<open>Reading the kernel's lists\<close>

text \<open>The objects of one type about one subject, in journal order.\<close>

definition typed :: "(responsibility_object \<Rightarrow> 'a option) \<Rightarrow> string \<Rightarrow> string option \<Rightarrow> store \<Rightarrow> 'a list" where
  "typed sel ty ref s =
     List.map_filter sel (sort_key object_order (filter (object_selected (Some ty) ref) (objects s)))"

lemma mset_map_filter: "mset (List.map_filter f xs) = image_mset (\<lambda>x. the (f x)) (filter_mset (\<lambda>x. f x \<noteq> None) (mset xs))"
  by (induction xs) (auto simp: map_filter_simps split: option.splits)

lemma map_filter_append: "List.map_filter f (xs @ ys) = List.map_filter f xs @ List.map_filter f ys"
  by (induction xs) (simp_all add: map_filter_simps split: option.splits)

lemma mset_typed:
  "mset (typed sel ty ref s) = mset (List.map_filter sel (filter (object_selected (Some ty) ref) (objects s)))"
  by (simp add: typed_def mset_map_filter)

lemma set_map_filter: "x \<in> set (List.map_filter f xs) \<longleftrightarrow> (\<exists>y \<in> set xs. f y = Some x)"
  by (induction xs) (auto simp: map_filter_simps split: option.splits)

lemma set_typed: "x \<in> set (typed sel ty ref s)
    \<longleftrightarrow> (\<exists>v \<in> set (objects s). object_selected (Some ty) ref v \<and> sel v = Some x)"
  by (auto simp: typed_def set_map_filter)

lemma kernel_list_ok: "journal_ok E s \<Longrightarrow> kernel_list ty sel s ref = Inr (typed sel ty ref s)"
  by (simp add: kernel_list_def journal_list_ok typed_def del: bindR_Inr)

lemma kernel_get_found:
  "kernel_get E ty sel s oid = Inr x \<longleftrightarrow> (\<exists>v. journal_get E s oid = Inr (Some v) \<and> sel v = Some x)"
  by (cases "journal_get E s oid") (auto simp: kernel_get_def split: option.splits)

lemma kernel_get_iff:
  assumes "journal_ok E s" and sel: "\<And>v x. sel v = Some x \<longleftrightarrow> v = C x"
  shows "kernel_get E ty sel s oid = Inr x \<longleftrightarrow>
     C x \<in> set (objects s) \<and> responsibility_event_id E (object_id (C x)) = responsibility_event_id E oid"
  using journal_get_iff [OF assms(1), of oid "C x"] by (simp add: kernel_get_found sel)

lemmas kernel_get_objects =
  kernel_get_iff [where sel = as_standing and C = Standing, OF _ as_object_iff(1)]
  kernel_get_iff [where sel = as_expectation and C = Expectation, OF _ as_object_iff(5)]
  kernel_get_iff [where sel = as_assessment and C = Assessment, OF _ as_object_iff(7)]
  kernel_get_iff [where sel = as_proposal and C = Proposal, OF _ as_object_iff(8)]

text \<open>A new object that a list does not select leaves it as it is; a selected one is added to it.\<close>

lemma typed_other:
  assumes "objects t = objects s @ [v]" "sel v = None \<or> \<not> object_selected (Some ty) ref v"
  shows "mset (typed sel ty ref t) = mset (typed sel ty ref s)"
  using assms by (auto simp: mset_typed map_filter_append map_filter_simps)

lemma typed_snoc:
  assumes "objects t = objects s @ [v]" "sel v = Some x" "object_selected (Some ty) ref v"
  shows "mset (typed sel ty ref t) = add_mset x (mset (typed sel ty ref s))"
  using assms by (simp add: mset_typed map_filter_append map_filter_simps)

lemma typed_same: "objects t = objects s \<Longrightarrow> typed sel ty ref t = typed sel ty ref s"
  by (simp add: typed_def)

lemma kernel_get_grows:
  assumes "journal_ok E s" "journal_ok E t" "set (objects s) \<subseteq> set (objects t)"
    "kernel_get E ty sel s oid = Inr x"
  shows "kernel_get E ty sel t oid = Inr x"
proof -
  obtain v where v: "journal_get E s oid = Inr (Some v)" "sel v = Some x"
    using assms(4) by (auto simp: kernel_get_found)
  then have "journal_get E t oid = Inr (Some v)"
    using assms(1-3) by (auto simp: journal_get_iff)
  then show ?thesis using v(2) by (auto simp: kernel_get_found)
qed

section \<open>Saving\<close>

lemma save_append_only_cases:
  assumes ok: "journal_ok E (wd_store w)" and v: "valid_object v" and ex: "save_append_only E v w = (r, w')"
  obtains (raised) e where "r = Inl e" "wd_store w' = wd_store w"
  | (present) u where "r = Inr u" "wd_store w' = wd_store w" "u \<in> set (objects (wd_store w))"
      "semantic_dump u = semantic_dump v"
  | (recorded) "r = Inr v" "journal_ok E (wd_store w')" "objects (wd_store w') = objects (wd_store w) @ [v]"
      "world_grows w w'"
proof (cases "journal_get E (wd_store w) (object_id v)")
  case (Inl e)
  then show thesis using ex raised by (auto simp: save_append_only_def bindI_def readS_def)
next
  case (Inr found)
  show thesis
  proof (cases found)
    case None
    then have js: "journal_save E v w = (r, w')"
      using ex Inr by (simp add: save_append_only_def bindI_def readS_def)
    have g: "get_event (wd_store w) (responsibility_event_id E (object_id v)) = None"
      using Inr None by (simp add: journal_get_None)
    from ok v js show thesis
    proof (cases rule: journal_save_cases)
      case (raised e)
      then show ?thesis by (rule that(1))
    next
      case present
      then show ?thesis using g objects_iff [OF ok, of v] by simp
    next
      case (recorded t)
      then show ?thesis using that(3) keepsD [OF keeps_journal_save js] by simp
    qed
  next
    case (Some u)
    then have u: "u \<in> set (objects (wd_store w))" using Inr journal_get_iff [OF ok] by simp
    show thesis
    proof (cases "semantic_dump u = semantic_dump v")
      case True
      then show thesis using ex Inr Some u present
        by (auto simp: save_append_only_def bindI_def readS_def retI_def)
    next
      case False
      then show thesis using ex Inr Some raised
        by (auto simp: save_append_only_def bindI_def readS_def raiseI_def)
    qed
  qed
qed

lemma keeps_save_append_only: "keeps world_grows (save_append_only E v)"
  unfolding save_append_only_def by (intro keeps_world keeps_journal_save)

text \<open>
  The contract of a store of immutable objects: a put raises and changes nothing, finds the object
  already there, or adds it at the end; every later put keeps it.
\<close>

locale object_log =
  fixes put :: "'v \<Rightarrow> 'w \<Rightarrow> 'r result \<times> 'w" and objs :: "'w \<Rightarrow> 'v list"
    and wf :: "'w \<Rightarrow> bool" and good :: "'v \<Rightarrow> bool" and same :: "'v \<Rightarrow> 'v \<Rightarrow> bool"
  assumes same_equiv: "equivp same"
    and put_wf: "wf w \<Longrightarrow> good v \<Longrightarrow> wf (snd (put v w))"
    and put_objs: "wf w \<Longrightarrow> good v \<Longrightarrow>
       objs (snd (put v w)) = objs w \<or> objs (snd (put v w)) = objs w @ [v]"
    and put_found: "wf w \<Longrightarrow> good v \<Longrightarrow> put v w = (Inr r, w') \<Longrightarrow> \<exists>u \<in> set (objs w'). same u v"
    and put_present: "wf w \<Longrightarrow> good v \<Longrightarrow> u \<in> set (objs w) \<Longrightarrow> same u v \<Longrightarrow> objs (snd (put v w)) = objs w"
begin

lemma puts_wf: "wf w \<Longrightarrow> (\<forall>v \<in> set vs. good v) \<Longrightarrow> wf (fold (\<lambda>v w. snd (put v w)) vs w)"
  by (induction vs arbitrary: w) (auto intro: put_wf)

lemma puts_extend:
  "wf w \<Longrightarrow> (\<forall>v \<in> set vs. good v) \<Longrightarrow>
     \<exists>us. objs (fold (\<lambda>v w. snd (put v w)) vs w) = objs w @ us \<and> set us \<subseteq> set vs"
proof (induction vs arbitrary: w)
  case Nil
  then show ?case by simp
next
  case (Cons v vs)
  then obtain us where "objs (fold (\<lambda>v w. snd (put v w)) vs (snd (put v w))) = objs (snd (put v w)) @ us"
      "set us \<subseteq> set vs"
    using put_wf by fastforce
  with put_objs [of w v] Cons.prems show ?case by fastforce
qed

lemma put_idempotent:
  assumes "wf w" "good v" "put v w = (Inr r, w')" "\<forall>u \<in> set vs. good u"
  shows "objs (snd (put v (fold (\<lambda>v w. snd (put v w)) vs w'))) = objs (fold (\<lambda>v w. snd (put v w)) vs w')"
proof -
  obtain u where u: "u \<in> set (objs w')" "same u v" using put_found [OF assms(1-3)] by blast
  have "wf w'" using put_wf [OF assms(1,2)] assms(3) by simp
  with assms(4) obtain us where "objs (fold (\<lambda>v w. snd (put v w)) vs w') = objs w' @ us"
    using puts_extend by blast
  moreover have "wf (fold (\<lambda>v w. snd (put v w)) vs w')" using puts_wf [OF \<open>wf w'\<close> assms(4)] .
  ultimately show ?thesis using put_present [OF _ assms(2) _ u(2)] u(1) by simp
qed

end

interpretation kernel_log: object_log "save_append_only E" "\<lambda>w :: world. objects (wd_store w)"
  "\<lambda>w :: world. journal_ok E (wd_store w)" valid_object "\<lambda>u v. semantic_dump u = semantic_dump v" for E
proof
  show "equivp (\<lambda>u v. semantic_dump u = semantic_dump v)" by (rule equivpI) (auto intro: reflpI sympI transpI)
next
  fix w :: world and v
  assume ok: "journal_ok E (wd_store w)" and v: "valid_object v"
  obtain r w' where ex: "save_append_only E v w = (r, w')" by fastforce
  from ok v ex show "journal_ok E (wd_store (snd (save_append_only E v w)))"
    by (cases rule: save_append_only_cases) (simp_all add: ok ex)
  from ok v ex show "objects (wd_store (snd (save_append_only E v w))) = objects (wd_store w)
      \<or> objects (wd_store (snd (save_append_only E v w))) = objects (wd_store w) @ [v]"
    by (cases rule: save_append_only_cases) (simp_all add: ok ex)
next
  fix w w' :: world and v r
  assume ok: "journal_ok E (wd_store w)" and v: "valid_object v" and ex: "save_append_only E v w = (Inr r, w')"
  from ok v ex show "\<exists>u \<in> set (objects (wd_store w')). semantic_dump u = semantic_dump v"
    by (cases rule: save_append_only_cases) auto
next
  fix w :: world and v u
  assume ok: "journal_ok E (wd_store w)" and v: "valid_object v"
    and u: "u \<in> set (objects (wd_store w))" "semantic_dump u = semantic_dump v"
  have "journal_get E (wd_store w) (object_id v) = Inr (Some u)"
    using u semantic_dump_eqD(1) [OF u(2)] by (simp add: journal_get_iff [OF ok])
  then show "objects (wd_store (snd (save_append_only E v w))) = objects (wd_store w)"
    using u(2) by (simp add: save_append_only_def bindI_def readS_def retI_def)
qed

end
