(* ===== verification/Responsibility_Histories.thy ===== *)
theory Responsibility_Histories
  imports Responsibility_Kernel
begin

text \<open>
  What the kernel's operations of \<open>Responsibility_Kernel\<close> do to a responsibility's definition, its
  status, its expectations and its assessments, on well-formed journals.
\<close>

section \<open>Histories read from the journal\<close>

lemma object_selected_type: "object_selected (Some ty) ref v \<Longrightarrow> object_type v = ty"
  by (simp add: object_selected_def)

lemma typed_unselected:
  assumes "objects t = objects s @ [v]" "\<not> object_selected (Some ty) ref v"
  shows "typed sel ty ref t = typed sel ty ref s"
  using assms by (simp add: typed_def)

lemma current_definition_ok:
  "journal_ok E s \<Longrightarrow> current_definition E s rid =
     bindR (get_responsibility E s rid) (\<lambda>i. apply_revisions
       (sort_key rr_to_version (typed as_revision ''ResponsibilityRevision'' (Some rid) s))
       (1, sr_statement i, sr_scope i))"
  by (simp add: current_definition_def kernel_list_ok del: bindR_Inr)

lemma current_status_ok:
  "journal_ok E s \<Longrightarrow> current_status E s rid =
     bindR (get_responsibility E s rid) (\<lambda>_.
     raise_if (typed as_admission ''ResponsibilityAdmission'' (Some rid) s = [])
       ''standing responsibility is not admitted''
       (apply_transitions (sort_key (\<lambda>t. (lt_applied_at t, lt_id t))
          (typed as_lifecycle ''ResponsibilityLifecycleTransition'' (Some rid) s)) Active))"
  by (simp add: current_status_def kernel_list_ok del: bindR_Inr)

text \<open>A recorded object of another type changes neither definition nor status.\<close>

lemma kernel_get_snoc:
  assumes "journal_ok E s" "journal_ok E t" "objects t = objects s @ [v]" "kernel_get E ty sel s oid = Inr x"
  shows "kernel_get E ty sel t oid = Inr x"
  by (rule kernel_get_grows [OF assms(1,2) _ assms(4)]) (auto simp: assms(3))

lemma get_responsibility_snoc:
  assumes "journal_ok E s" "journal_ok E t" "objects t = objects s @ [v]" "get_responsibility E s rid = Inr i"
  shows "get_responsibility E t rid = Inr i"
  using assms(4) kernel_get_snoc [OF assms(1-3)] by (simp add: get_responsibility_def)

lemma current_definition_snoc:
  assumes "journal_ok E s" "journal_ok E t" "objects t = objects s @ [v]"
    and "object_type v \<noteq> ''ResponsibilityRevision''" "current_definition E s rid = Inr d"
  shows "current_definition E t rid = Inr d"
proof -
  have "typed as_revision ''ResponsibilityRevision'' (Some rid) t
      = typed as_revision ''ResponsibilityRevision'' (Some rid) s"
    by (rule typed_unselected [OF assms(3)]) (use assms(4) object_selected_type in blast)
  moreover obtain i where "get_responsibility E s rid = Inr i"
    using assms(5) by (auto simp: current_definition_ok assms(1))
  ultimately show ?thesis
    using assms(5) get_responsibility_snoc [OF assms(1-3)] by (auto simp: current_definition_ok assms(1,2))
qed

lemma current_status_snoc:
  assumes "journal_ok E s" "journal_ok E t" "objects t = objects s @ [v]"
    and "object_type v \<noteq> ''ResponsibilityLifecycleTransition''" "current_status E s rid = Inr st"
  shows "current_status E t rid = Inr st"
proof -
  have "typed as_lifecycle ''ResponsibilityLifecycleTransition'' (Some rid) t
      = typed as_lifecycle ''ResponsibilityLifecycleTransition'' (Some rid) s"
    by (rule typed_unselected [OF assms(3)]) (use assms(4) object_selected_type in blast)
  moreover have "typed as_admission ''ResponsibilityAdmission'' (Some rid) t \<noteq> []"
    if "typed as_admission ''ResponsibilityAdmission'' (Some rid) s \<noteq> []"
  proof -
    from that obtain a where "a \<in> set (typed as_admission ''ResponsibilityAdmission'' (Some rid) s)"
      using hd_in_set by blast
    then have "a \<in> set (typed as_admission ''ResponsibilityAdmission'' (Some rid) t)"
      using assms(3) by (auto simp: set_typed)
    then show ?thesis by auto
  qed
  moreover obtain i where i: "get_responsibility E s rid = Inr i"
    and "typed as_admission ''ResponsibilityAdmission'' (Some rid) s \<noteq> []"
    and "apply_transitions (sort_key (\<lambda>t. (lt_applied_at t, lt_id t))
       (typed as_lifecycle ''ResponsibilityLifecycleTransition'' (Some rid) s)) Active = Inr st"
    using assms(5) unfolding current_status_ok [OF assms(1)] by auto
  ultimately show ?thesis
    unfolding current_status_ok [OF assms(2)] get_responsibility_snoc [OF assms(1-3) i] by simp
qed

section \<open>Contiguous revisions\<close>

lemma apply_revisions_chain:
  assumes "\<forall>r \<in> set rs. rr_to_version r = rr_from_version r + 1"
    and "apply_revisions rs (v, st, sc) = Inr (v', st', sc')"
  shows "v \<le> v' \<and> map rr_to_version rs = [v + 1..v']"
  using assms
proof (induction rs arbitrary: v st sc)
  case Nil
  then show ?case by simp
next
  case (Cons r rs)
  then have "rr_to_version r = v + 1" "apply_revisions rs (v + 1, rr_statement r, rr_scope r) = Inr (v', st', sc')"
    by auto
  moreover from this(2) Cons have "v + 1 \<le> v' \<and> map rr_to_version rs = [v + 1 + 1..v']" by simp
  ultimately show ?case by (simp add: upto_rec1)
qed

lemma apply_revisions_snoc:
  "apply_revisions (rs @ [r]) d = bindR (apply_revisions rs d) (\<lambda>(v, _, _).
     raise_if (rr_from_version r \<noteq> v) ''responsibility revision history is not contiguous''
       (Inr (rr_to_version r, rr_statement r, rr_scope r)))"
proof (induction rs arbitrary: d)
  case Nil
  then show ?case by (cases d) (simp del: bindR_Inr)
next
  case (Cons a rs)
  then show ?case by (cases d) (simp add: raise_if_def del: bindR_Inr)
qed

lemma semantic_dump_Revision:
  "semantic_dump u = semantic_dump (Revision r) \<longleftrightarrow>
     (\<exists>r'. u = Revision r' \<and> r'\<lparr>rr_created_at := 0\<rparr> = r\<lparr>rr_created_at := 0\<rparr>)"
  by (cases u) auto

lemma revision_typed:
  assumes "rr_responsibility_ref r \<noteq> []"
  shows "r \<in> set (typed as_revision ''ResponsibilityRevision'' (Some (rr_responsibility_ref r)) s)
     \<longleftrightarrow> Revision r \<in> set (objects s)"
  using assms by (auto simp: set_typed object_selected_def responsibility_subject_ref_def)

lemma revise_Inr:
  "revise E r w = (Inr x, w') \<longleftrightarrow>
     (\<exists>st sc status. current_definition E (wd_store w) (rr_responsibility_ref r) = Inr (rr_from_version r, st, sc)
        \<and> current_status E (wd_store w) (rr_responsibility_ref r) = Inr status \<and> status \<noteq> Discharged
        \<and> save_append_only E (Revision r) w = (Inr x, w'))"
  by (auto simp: revise_def)

lemma revision_appended:
  assumes ok: "journal_ok E (wd_store w)" and v: "valid_object (Revision r)" and ref: "rr_responsibility_ref r \<noteq> []"
    and ex: "revise E r w = (Inr x, w')"
  shows "journal_ok E (wd_store w') \<and> objects (wd_store w') = objects (wd_store w) @ [Revision r]
     \<and> current_definition E (wd_store w') (rr_responsibility_ref r)
         = Inr (rr_from_version r + 1, rr_statement r, rr_scope r)"
proof -
  let ?rid = "rr_responsibility_ref r"
  let ?revs = "\<lambda>s. typed as_revision ''ResponsibilityRevision'' (Some ?rid) s"
  obtain st sc status where def: "current_definition E (wd_store w) ?rid = Inr (rr_from_version r, st, sc)"
    and save: "save_append_only E (Revision r) w = (Inr x, w')"
    using ex by (auto simp: revise_Inr)
  obtain i where i: "get_responsibility E (wd_store w) ?rid = Inr i"
    and run: "apply_revisions (sort_key rr_to_version (?revs (wd_store w))) (1, sr_statement i, sr_scope i)
       = Inr (rr_from_version r, st, sc)"
    using def by (auto simp: current_definition_ok ok)
  have "\<forall>q \<in> set (?revs (wd_store w)). rr_to_version q = rr_from_version q + 1"
    using valid_revision [OF objects_valid [OF ok]] by (auto simp: set_typed)
  with run have chain: "map rr_to_version (sort_key rr_to_version (?revs (wd_store w)))
      = [1 + 1..rr_from_version r]"
    using apply_revisions_chain by simp
  have to: "rr_to_version r = rr_from_version r + 1" using v by (rule valid_revision)
  have less: "rr_to_version q < rr_to_version r" if "q \<in> set (?revs (wd_store w))" for q
  proof -
    have "rr_to_version q \<in> set (map rr_to_version (sort_key rr_to_version (?revs (wd_store w))))"
      using that by simp
    then show ?thesis unfolding chain using to by simp
  qed
  have "distinct (map rr_to_version (sort_key rr_to_version (?revs (wd_store w))))"
    unfolding chain by simp
  then have inj: "inj_on rr_to_version (set (?revs (wd_store w)))"
    by (simp add: distinct_map)
  from ok v save show ?thesis
  proof (cases rule: save_append_only_cases)
    case (raised e)
    then show ?thesis by simp
  next
    case (present u)
    obtain q where q: "u = Revision q" "q\<lparr>rr_created_at := 0\<rparr> = r\<lparr>rr_created_at := 0\<rparr>"
      using present(4) unfolding semantic_dump_Revision by blast
    then have "rr_responsibility_ref q = ?rid" "rr_to_version q = rr_to_version r"
      by (metis responsibility_revision.ext_inject responsibility_revision.surjective
          responsibility_revision.update_convs(2))+
    then have "q \<in> set (?revs (wd_store w))"
      using present(3) q(1) ref revision_typed [of q] by simp
    with less \<open>rr_to_version q = rr_to_version r\<close> show ?thesis by fastforce
  next
    case recorded
    let ?t = "wd_store w'"
    have "object_selected (Some ''ResponsibilityRevision'') (Some ?rid) (Revision r)"
      using ref by (simp add: object_selected_def responsibility_subject_ref_def)
    then have "mset (?revs ?t) = add_mset r (mset (?revs (wd_store w)))"
      by (intro typed_snoc [OF recorded(3)]) simp_all
    then have "sort_key rr_to_version (?revs ?t) = sort_key rr_to_version (?revs (wd_store w)) @ [r]"
      using inj less by (rule sort_key_snoc_last)
    then have "apply_revisions (sort_key rr_to_version (?revs ?t)) (1, sr_statement i, sr_scope i)
        = Inr (rr_to_version r, rr_statement r, rr_scope r)"
      by (simp add: apply_revisions_snoc run del: bindR_Inr)
    then show ?thesis
      using recorded get_responsibility_snoc [OF ok recorded(2,3) i] to
      by (simp add: current_definition_ok del: bindR_Inr)
  qed
qed

section \<open>Lifecycle\<close>

lemma apply_transitions_append:
  "apply_transitions (ts @ us) st = bindR (apply_transitions ts st) (apply_transitions us)"
  by (induction ts arbitrary: st) (simp_all add: raise_if_def)

lemma insort_key_split:
  obtains xs ys where "zs = xs @ ys" "insort_key k x zs = xs @ x # ys"
    "\<forall>y \<in> set xs. k y < k x" "\<forall>y ys'. ys = y # ys' \<longrightarrow> k x \<le> (k y :: 'k::linorder)"
proof (induction zs arbitrary: thesis)
  case Nil
  then show ?case by simp
next
  case (Cons z zs)
  show ?case
  proof (cases "k x \<le> k z")
    case True
    then show ?thesis using Cons.prems [of "[]" "z # zs"] by simp
  next
    case False
    obtain xs ys where "zs = xs @ ys" "insort_key k x zs = xs @ x # ys" "\<forall>y \<in> set xs. k y < k x"
      "\<forall>y ys'. ys = y # ys' \<longrightarrow> k x \<le> k y"
      using Cons.IH by blast
    then show ?thesis using Cons.prems [of "z # xs" ys] False by auto
  qed
qed

lemma sort_key_insert:
  assumes "mset ys = add_mset x (mset xs)" "inj_on k (set ys)"
  shows "sort_key k ys = insort_key k x (sort_key k xs)"
  by (rule sort_key_inj_key_eq) (use assms in \<open>simp_all add: sorted_insort_key\<close>)

text \<open>A step inserted anywhere but at the end of a contiguous history breaks it.\<close>

lemma apply_transitions_broken:
  assumes "apply_transitions (xs @ y # ys) st = Inr cur" "lt_from_status t = cur" "lt_to_status t \<noteq> cur"
  shows "\<exists>msg. apply_transitions (xs @ t # y # ys) st = Inl (ValueError msg)"
proof -
  obtain m where m: "apply_transitions xs st = Inr m" "lt_from_status y = m"
    using assms(1) by (auto simp: apply_transitions_append)
  show ?thesis
  proof (cases "m = cur")
    case True
    then show ?thesis using m assms(2,3) by (simp add: apply_transitions_append raise_if_def)
  next
    case False
    then show ?thesis using m assms(2) by (simp add: apply_transitions_append raise_if_def)
  qed
qed

lemma transition_Inr:
  "transition E t w = (Inr x, w') \<longleftrightarrow>
     (\<exists>st sc. current_definition E (wd_store w) (lt_responsibility_ref t) = Inr (lt_responsibility_version t, st, sc)
        \<and> current_status E (wd_store w) (lt_responsibility_ref t) = Inr (lt_from_status t)
        \<and> save_append_only E (Lifecycle t) w = (Inr x, w'))"
  by (auto simp: transition_def)

definition lifecycle_order :: "lifecycle_transition \<Rightarrow> time \<times> string" where
  "lifecycle_order t = (lt_applied_at t, lt_id t)"

definition latest_transition :: "store \<Rightarrow> lifecycle_transition \<Rightarrow> bool" where
  "latest_transition s t \<longleftrightarrow> (\<forall>u. Lifecycle u \<in> set (objects s)
     \<longrightarrow> responsibility_subject_ref (Lifecycle u) = lt_responsibility_ref t
     \<longrightarrow> lifecycle_order u < lifecycle_order t)"

lemma transition_recorded:
  assumes ok: "journal_ok E (wd_store w)" and v: "valid_object (Lifecycle t)" and ref: "lt_responsibility_ref t \<noteq> []"
    and fresh: "\<forall>u \<in> set (objects (wd_store w)). object_id u \<noteq> lt_id t"
    and ex: "transition E t w = (Inr x, w')"
  shows "if latest_transition (wd_store w) t
    then current_status E (wd_store w') (lt_responsibility_ref t) = Inr (lt_to_status t)
    else \<exists>msg. current_status E (wd_store w') (lt_responsibility_ref t) = Inl (ValueError msg)"
proof -
  let ?rid = "lt_responsibility_ref t" and ?s = "wd_store w" and ?s' = "wd_store w'"
  let ?ts = "\<lambda>s. typed as_lifecycle ''ResponsibilityLifecycleTransition'' (Some ?rid) s"
  let ?ads = "\<lambda>s. typed as_admission ''ResponsibilityAdmission'' (Some ?rid) s"
  let ?zs = "sort_key lifecycle_order (?ts ?s)"
  have ord: "(\<lambda>t. (lt_applied_at t, lt_id t)) = lifecycle_order" by (simp add: fun_eq_iff lifecycle_order_def)
  obtain i where i: "get_responsibility E ?s ?rid = Inr i" and ad: "?ads ?s \<noteq> []"
    and run: "apply_transitions ?zs Active = Inr (lt_from_status t)"
    and save: "save_append_only E (Lifecycle t) w = (Inr x, w')"
    using ex by (auto simp: transition_Inr current_status_ok [OF ok] ord)
  have ne: "lt_to_status t \<noteq> lt_from_status t" using valid_lifecycle [OF v] by auto
  have rec: "journal_ok E ?s'" "objects ?s' = objects ?s @ [Lifecycle t]"
    using save_append_only_cases [OF ok v save] semantic_dump_eqD(1) fresh
    by (metis Inl_Inr_False object_id.simps(4))+
  have "object_selected (Some ''ResponsibilityLifecycleTransition'') (Some ?rid) (Lifecycle t)"
    using ref by (simp add: object_selected_def responsibility_subject_ref_def)
  then have ms: "mset (?ts ?s') = add_mset t (mset (?ts ?s))"
    by (intro typed_snoc [OF rec(2)]) simp_all
  have "inj_on lifecycle_order (set (?ts ?s'))"
  proof (rule inj_onI)
    fix a b
    assume "a \<in> set (?ts ?s')" "b \<in> set (?ts ?s')" "lifecycle_order a = lifecycle_order b"
    then show "a = b"
      using inj_onD [OF objects_inj_id [OF rec(1)], of "Lifecycle a" "Lifecycle b"]
      by (auto simp: set_typed lifecycle_order_def)
  qed
  then have ins: "sort_key lifecycle_order (?ts ?s') = insort_key lifecycle_order t ?zs"
    by (rule sort_key_insert [OF ms])
  obtain xs ys where split: "?zs = xs @ ys"
      "insort_key lifecycle_order t ?zs = xs @ t # ys"
      "\<forall>y \<in> set xs. lifecycle_order y < lifecycle_order t"
      "\<forall>y ys'. ys = y # ys' \<longrightarrow> lifecycle_order t \<le> lifecycle_order y"
    by (rule insort_key_split [of ?zs lifecycle_order t])
  have latest: "latest_transition ?s t \<longleftrightarrow> (\<forall>u \<in> set ?zs. lifecycle_order u < lifecycle_order t)"
    by (auto simp: latest_transition_def set_typed object_selected_def)
  have status': "current_status E ?s' ?rid = apply_transitions (xs @ t # ys) Active"
  proof -
    have "?ads ?s' = ?ads ?s" by (rule typed_unselected [OF rec(2)]) (simp add: object_selected_def)
    then show ?thesis
      using get_responsibility_snoc [OF ok rec i] ad
      by (simp add: current_status_ok [OF rec(1)] ord ins split(2) del: bindR_Inr)
  qed
  show ?thesis
  proof (cases ys)
    case Nil
    then have "latest_transition ?s t" using latest split by simp
    moreover have "apply_transitions (xs @ [t]) Active = Inr (lt_to_status t)"
      using run split(1) Nil by (simp add: apply_transitions_append)
    ultimately show ?thesis using status' Nil by simp
  next
    case (Cons y ys')
    then have "\<not> latest_transition ?s t" using latest split by fastforce
    moreover have "\<exists>msg. apply_transitions (xs @ t # y # ys') Active = Inl (ValueError msg)"
      by (rule apply_transitions_broken) (use run split(1) Cons ne in simp_all)
    ultimately show ?thesis using status' Cons by simp
  qed
qed

section \<open>Registration\<close>

lemma keeps_register: "keeps world_grows (register E i a)"
  unfolding register_def by (intro keeps_world keeps_save_append_only keeps_journal_save)

lemma register_Inr:
  "register E i a w = (Inr x, w') \<Longrightarrow>
     ra_responsibility_ref a = sr_id i \<and> ra_responsibility_version a = 1 \<and> \<not> is_blank (ra_principal_ref a)
     \<and> x = i \<and> journal_get E (wd_store w) (sr_id i) = Inr None
     \<and> (\<exists>y z w1. journal_save E (Standing i) w = (Inr y, w1) \<and> save_append_only E (Admission a) w1 = (Inr z, w'))"
  by (auto simp: register_def)

lemma semantic_dump_Admission:
  "semantic_dump u = semantic_dump (Admission a) \<Longrightarrow> \<exists>b. u = Admission b \<and> ra_responsibility_ref b = ra_responsibility_ref a"
  using semantic_dump_eqD(2) [of u "Admission a"] by (cases u) auto

lemma register_failed: "register E i a w = (Inl e, w') \<Longrightarrow> wd_store w' = wd_store w"
proof -
  assume ex: "register E i a w = (Inl e, w')"
  let ?m = "bindI (readS (\<lambda>s. journal_get E s (sr_id i))) (\<lambda>existing.
       raise_ifI (existing \<noteq> None) (''standing responsibility already exists: '' @ sr_id i)
      (bindI (journal_save E (Standing i)) (\<lambda>_.
       bindI (save_append_only E (Admission a)) (\<lambda>_. retI i))))"
  have "keeps world_grows ?m" by (intro keeps_world keeps_save_append_only keeps_journal_save)
  from transaction_Inl [OF this] have "transaction ?m w = (Inl e, w') \<Longrightarrow> wd_store w' = wd_store w" .
  with ex show ?thesis unfolding register_def raise_ifI_Inl by blast
qed

lemma register_recorded:
  assumes ok: "journal_ok E (wd_store w)" and vi: "valid_object (Standing i)" and va: "valid_object (Admission a)"
    and fresh: "\<forall>v \<in> set (objects (wd_store w)). responsibility_subject_ref v \<noteq> sr_id i"
    and ex: "register E i a w = (Inr x, w')"
  shows "journal_ok E (wd_store w') \<and> objects (wd_store w') = objects (wd_store w) @ [Standing i, Admission a]
     \<and> current_definition E (wd_store w') (sr_id i) = Inr (1, sr_statement i, sr_scope i)
     \<and> current_status E (wd_store w') (sr_id i) = Inr Active"
proof -
  obtain y z w1 where js: "journal_save E (Standing i) w = (Inr y, w1)"
    and sv: "save_append_only E (Admission a) w1 = (Inr z, w')"
    and a: "ra_responsibility_ref a = sr_id i" and none: "journal_get E (wd_store w) (sr_id i) = Inr None"
    using register_Inr [OF ex] by blast
  have id: "sr_id i \<noteq> []" using vi
    by (auto simp: valid_object_def validate_object_def split: option.splits)
  have w1: "journal_ok E (wd_store w1) \<and> objects (wd_store w1) = objects (wd_store w) @ [Standing i]"
    using ok vi js
  proof (cases rule: journal_save_cases)
    case present
    then have "journal_get E (wd_store w) (sr_id i) = Inr (Some (Standing i))"
      using journal_get_self [OF ok, of "Standing i"] by simp
    then show ?thesis using none by simp
  qed simp_all
  have sub_a: "responsibility_subject_ref (Admission a) = sr_id i"
    using a id by (simp add: responsibility_subject_ref_def)
  have w': "journal_ok E (wd_store w') \<and> objects (wd_store w') = objects (wd_store w1) @ [Admission a]"
    using conjunct1 [OF w1] va sv
  proof (cases rule: save_append_only_cases)
    case (present u)
    then obtain b where b: "u = Admission b" "ra_responsibility_ref b = sr_id i"
      using semantic_dump_Admission a by metis
    then have "responsibility_subject_ref u = sr_id i" using id by (simp add: responsibility_subject_ref_def)
    moreover have "u \<in> set (objects (wd_store w))" using present(3) w1 b(1) by simp
    ultimately show ?thesis using fresh by blast
  qed simp_all
  have objs: "objects (wd_store w') = objects (wd_store w) @ [Standing i, Admission a]" using w1 w' by simp
  have fresh_list: "typed sel ty (Some (sr_id i)) (wd_store w') = []"
    if "ty = ''ResponsibilityRevision'' \<or> ty = ''ResponsibilityLifecycleTransition''"
    for sel :: "responsibility_object \<Rightarrow> 'b option" and ty
  proof -
    have "filter (object_selected (Some ty) (Some (sr_id i))) (objects (wd_store w)) = []"
      using fresh by (auto simp: object_selected_def filter_empty_conv)
    then show ?thesis using that by (auto simp: typed_def objs object_selected_def map_filter_simps)
  qed
  have get: "get_responsibility E (wd_store w') (sr_id i) = Inr i"
    using w' objs by (simp add: get_responsibility_def kernel_get_objects)
  have "a \<in> set (typed as_admission ''ResponsibilityAdmission'' (Some (sr_id i)) (wd_store w'))"
    using sub_a by (simp add: set_typed objs object_selected_def)
  then have ad: "typed as_admission ''ResponsibilityAdmission'' (Some (sr_id i)) (wd_store w') \<noteq> []" by auto
  have "typed as_revision ''ResponsibilityRevision'' (Some (sr_id i)) (wd_store w') = []"
    "typed as_lifecycle ''ResponsibilityLifecycleTransition'' (Some (sr_id i)) (wd_store w') = []"
    by (rule fresh_list, simp)+
  then show ?thesis
    using w' objs get ad
    by (simp add: current_definition_ok current_status_ok del: bindR_Inr)
qed

section \<open>Expectations\<close>

lemma expectation_open_ok:
  assumes "journal_ok E s" "kernel_get E ''ResponsibilityExpectation'' as_expectation s xid = Inr x"
  shows "expectation_open E s xid = Inr (\<not> (\<exists>r. Resolution r \<in> set (objects s) \<and> er_expectation_ref r = xid
           \<and> responsibility_subject_ref (Resolution r) = ex_responsibility_ref x))"
proof -
  have "expectation_open E s xid = Inr (filter (\<lambda>r. er_expectation_ref r = xid)
      (typed as_resolution ''ResponsibilityExpectationResolution'' (Some (ex_responsibility_ref x)) s) = [])"
    using assms by (simp add: expectation_open_def resolutions_of_def kernel_list_ok del: bindR_Inr)
  also have "\<dots> = Inr (\<not> (\<exists>r. Resolution r \<in> set (objects s) \<and> er_expectation_ref r = xid
           \<and> responsibility_subject_ref (Resolution r) = ex_responsibility_ref x))"
    by (auto simp: filter_empty_conv set_typed object_selected_def)
  finally show ?thesis .
qed

text \<open>What the overdue branch has checked when it produces an assessment.\<close>

lemma assess_due_Some:
  assumes "assess_due_expectation E xid now obs w = (Inr (Some v), w')"
  obtains x version st sc where
    "kernel_get E ''ResponsibilityExpectation'' as_expectation (wd_store w) xid = Inr x"
    "expectation_open E (wd_store w) (ex_id x) = Inr True"
    "current_definition E (wd_store w) (ex_responsibility_ref x) = Inr (version, st, sc)"
    "ex_responsibility_version x = version"
    "current_status E (wd_store w) (ex_responsibility_ref x) = Inr Active"
    "list_all is_blank obs" "ex_due_at x \<le> now"
    "(journal_get E (wd_store w) (stable_id E ''assessment''
        [ex_id x, env_isoformat E (ex_due_at x), ''missing'']) = Inr (Some v) \<and> (\<exists>a. v = Assessment a) \<and> w' = w)
     \<or> (journal_get E (wd_store w) (stable_id E ''assessment''
        [ex_id x, env_isoformat E (ex_due_at x), ''missing'']) = Inr None
       \<and> (\<exists>c. let a = missing_assessment (stable_id E ''assessment''
             [ex_id x, env_isoformat E (ex_due_at x), ''missing'']) c x version now
           in valid_object (Assessment a)
             \<and> save_append_only E (Assessment a) (w\<lparr>wd_tick := wd_tick w + 1\<rparr>) = (Inr v, w')))"
proof -
  note obtained = that
  from assms obtain x where x: "kernel_get E ''ResponsibilityExpectation'' as_expectation (wd_store w) xid = Inr x"
    by (auto simp: assess_due_expectation_def)
  from assms x have op: "expectation_open E (wd_store w) (ex_id x) = Inr True"
    by (cases "expectation_open E (wd_store w) (ex_id x)") (auto simp: assess_due_expectation_def split: if_splits)
  from assms x op obtain version st sc where
    d: "current_definition E (wd_store w) (ex_responsibility_ref x) = Inr (version, st, sc)"
    by (cases "current_definition E (wd_store w) (ex_responsibility_ref x)")
      (auto simp: assess_due_expectation_def)
  from assms x op d have st: "ex_responsibility_version x = version"
      "current_status E (wd_store w) (ex_responsibility_ref x) = Inr Active"
    by (cases "current_status E (wd_store w) (ex_responsibility_ref x)";
        auto simp: assess_due_expectation_def Let_def split: if_splits)+
  let ?aid = "stable_id E ''assessment'' [ex_id x, env_isoformat E (ex_due_at x), ''missing'']"
  from assms x op d st have blank: "filter (\<lambda>ref. \<not> is_blank ref) obs = []"
    by (auto simp: assess_due_expectation_def Let_def construct_def split: if_splits)
  from assms x op d st blank have due: "\<not> now < ex_due_at x"
    by (auto simp: assess_due_expectation_def Let_def)
  from assms x op d st blank due have last: "bindI (readS (\<lambda>s. journal_get E s ?aid)) (\<lambda>existing.
     case existing of
       Some v \<Rightarrow>
         if as_assessment v = None
         then raiseI (ValueError ''deterministic assessment identity rebound'') else retI (Some v)
     | None \<Rightarrow>
         bindI (utcnow E) (\<lambda>created.
         let a = missing_assessment ?aid created x version now in
         bindI (construct (Assessment a)) (\<lambda>_.
         bindI (save_append_only E (Assessment a)) (\<lambda>v.
         retI (Some v))))) w = (Inr (Some v), w')"
    unfolding assess_due_expectation_def Let_def by (simp add: bindI_def readS_def raise_ifI_def)
  show thesis
  proof (rule obtained [OF x op d st _ _])
    show "list_all is_blank obs" using blank by (simp add: filter_empty_conv list_all_iff)
    show "ex_due_at x \<le> now" using due by simp
    show "(journal_get E (wd_store w) ?aid = Inr (Some v) \<and> (\<exists>a. v = Assessment a) \<and> w' = w)
      \<or> (journal_get E (wd_store w) ?aid = Inr None \<and> (\<exists>c. let a = missing_assessment ?aid c x version now
           in valid_object (Assessment a)
             \<and> save_append_only E (Assessment a) (w\<lparr>wd_tick := wd_tick w + 1\<rparr>) = (Inr v, w')))"
    proof (cases "journal_get E (wd_store w) ?aid")
      case (Inl e)
      then show ?thesis using last by (simp add: bindI_def readS_def)
    next
      case (Inr found)
      show ?thesis
      proof (cases found)
        case None
        with last Inr have "bindI (construct (Assessment (missing_assessment ?aid (env_clock E (wd_tick w)) x version now)))
            (\<lambda>_. bindI (save_append_only E (Assessment (missing_assessment ?aid (env_clock E (wd_tick w)) x version now)))
               (\<lambda>v. retI (Some v))) (w\<lparr>wd_tick := wd_tick w + 1\<rparr>) = (Inr (Some v), w')"
          by (simp add: bindI_def readS_def utcnow_def Let_def)
        then have "valid_object (Assessment (missing_assessment ?aid (env_clock E (wd_tick w)) x version now))
          \<and> save_append_only E (Assessment (missing_assessment ?aid (env_clock E (wd_tick w)) x version now))
              (w\<lparr>wd_tick := wd_tick w + 1\<rparr>) = (Inr v, w')"
          by (auto simp: construct_def validate_object_Inr)
        with Inr None show ?thesis unfolding Let_def by blast
      next
        case (Some u)
        with last Inr show ?thesis
          by (cases "as_assessment u") (auto simp: bindI_def readS_def retI_def raiseI_def)
      qed
    qed
  qed
qed

section \<open>Idempotence of the overdue assessment\<close>

lemma save_append_only_fresh:
  assumes "get_event (wd_store w) (responsibility_event_id E (object_id v)) = None"
  shows "save_append_only E v w = (Inr v, w\<lparr>wd_store := (wd_store w)\<lparr>st_event := st_event (wd_store w)
      @ [(responsibility_event_id E (object_id v), responsibility_event E (env_clock E (wd_tick w)) v)]\<rparr>,
      wd_tick := wd_tick w + 1\<rparr>)"
  using assms
  by (simp add: save_append_only_def journal_get_def journal_save_def append_event_def get_event_def
      bindI_def readS_def utcnow_def withI_def on_store_def retI_def Let_def dict_set_new)

text \<open>The branch that finds the assessment already recorded.\<close>

lemma assess_due_again:
  assumes "kernel_get E ''ResponsibilityExpectation'' as_expectation (wd_store w) xid = Inr x"
    and "expectation_open E (wd_store w) (ex_id x) = Inr True"
    and "current_definition E (wd_store w) (ex_responsibility_ref x) = Inr (ex_responsibility_version x, st, sc)"
    and "current_status E (wd_store w) (ex_responsibility_ref x) = Inr Active"
    and "list_all is_blank obs" and "ex_due_at x \<le> now"
    and "journal_get E (wd_store w) (stable_id E ''assessment''
        [ex_id x, env_isoformat E (ex_due_at x), ''missing'']) = Inr (Some (Assessment a))"
  shows "assess_due_expectation E xid now obs w = (Inr (Some (Assessment a)), w)"
proof -
  have "filter (\<lambda>ref. \<not> is_blank ref) obs = []" using assms(5) by (simp add: filter_empty_conv list_all_iff)
  moreover have "as_assessment (Assessment a) = Some a" by simp
  ultimately show ?thesis
    using assms unfolding assess_due_expectation_def Let_def
    by (simp add: bindI_def readS_def raise_ifI_def retI_def)
qed

lemma assess_due_repeats:
  assumes ok: "journal_ok E (wd_store w)"
    and ex: "assess_due_expectation E xid now obs w = (Inr (Some v), w')"
    and later: "now \<le> now'" and blank: "list_all is_blank obs'"
  shows "assess_due_expectation E xid now' obs' w' = (Inr (Some v), w')"
proof -
  obtain x version st sc where
    x: "kernel_get E ''ResponsibilityExpectation'' as_expectation (wd_store w) xid = Inr x"
    and op: "expectation_open E (wd_store w) (ex_id x) = Inr True"
    and d: "current_definition E (wd_store w) (ex_responsibility_ref x) = Inr (version, st, sc)"
    and ver: "ex_responsibility_version x = version"
    and stat: "current_status E (wd_store w) (ex_responsibility_ref x) = Inr Active"
    and due: "ex_due_at x \<le> now"
    and br: "(journal_get E (wd_store w) (stable_id E ''assessment''
        [ex_id x, env_isoformat E (ex_due_at x), ''missing'']) = Inr (Some v) \<and> (\<exists>a. v = Assessment a) \<and> w' = w)
     \<or> (journal_get E (wd_store w) (stable_id E ''assessment''
        [ex_id x, env_isoformat E (ex_due_at x), ''missing'']) = Inr None
       \<and> (\<exists>c. let a = missing_assessment (stable_id E ''assessment''
             [ex_id x, env_isoformat E (ex_due_at x), ''missing'']) c x version now
           in valid_object (Assessment a)
             \<and> save_append_only E (Assessment a) (w\<lparr>wd_tick := wd_tick w + 1\<rparr>) = (Inr v, w')))"
    by (rule assess_due_Some [OF ex]) auto
  let ?aid = "stable_id E ''assessment'' [ex_id x, env_isoformat E (ex_due_at x), ''missing'']"
  from br show ?thesis
  proof (elim disjE)
    assume a: "journal_get E (wd_store w) ?aid = Inr (Some v) \<and> (\<exists>a. v = Assessment a) \<and> w' = w"
    then obtain a where "v = Assessment a" by blast
    with a x op d ver stat due later blank show ?thesis
      by (auto intro!: assess_due_again [where x = x and st = st and sc = sc])
  next
    assume b: "journal_get E (wd_store w) ?aid = Inr None \<and> (\<exists>c. let a = missing_assessment ?aid c x version now
           in valid_object (Assessment a)
             \<and> save_append_only E (Assessment a) (w\<lparr>wd_tick := wd_tick w + 1\<rparr>) = (Inr v, w'))"
    then obtain c where c: "valid_object (Assessment (missing_assessment ?aid c x version now))"
      "save_append_only E (Assessment (missing_assessment ?aid c x version now)) (w\<lparr>wd_tick := wd_tick w + 1\<rparr>) = (Inr v, w')"
      unfolding Let_def by blast
    let ?a = "missing_assessment ?aid c x version now"
    have id: "object_id (Assessment ?a) = ?aid" by (simp add: missing_assessment_def)
    have none: "get_event (wd_store w) (responsibility_event_id E (object_id (Assessment ?a))) = None"
      using b unfolding id by (simp add: journal_get_None)
    have ok': "journal_ok E (wd_store (w\<lparr>wd_tick := wd_tick w + 1\<rparr>))" using ok by simp
    have rec: "v = Assessment ?a \<and> journal_ok E (wd_store w') \<and> objects (wd_store w') = objects (wd_store w) @ [Assessment ?a]"
      using ok' c
    proof (cases rule: save_append_only_cases)
      case (present u)
      have "object_id u = object_id (Assessment ?a)" by (rule semantic_dump_eqD(1) [OF present(4)])
      then show ?thesis using none objects_iff [OF ok, of u] present(3) by simp
    qed simp_all
    have get: "journal_get E (wd_store w') ?aid = Inr (Some (Assessment ?a))"
      using rec id by (simp add: journal_get_iff)
    note grown = ok conjunct1 [OF conjunct2 [OF rec]] conjunct2 [OF conjunct2 [OF rec]]
    have own: "kernel_get E ''ResponsibilityExpectation'' as_expectation (wd_store w) (ex_id x) = Inr x"
      using x ok by (simp add: kernel_get_objects)
    note own' = kernel_get_snoc [OF grown own] and x' = kernel_get_snoc [OF grown x]
    have op': "expectation_open E (wd_store w') (ex_id x) = Inr True"
      using op rec unfolding expectation_open_ok [OF ok own] expectation_open_ok [OF grown(2) own'] by auto
    have d': "current_definition E (wd_store w') (ex_responsibility_ref x) = Inr (ex_responsibility_version x, st, sc)"
      unfolding ver by (rule current_definition_snoc [OF grown _ d]) simp
    have s': "current_status E (wd_store w') (ex_responsibility_ref x) = Inr Active"
      by (rule current_status_snoc [OF grown _ stat]) simp
    show ?thesis
      using assess_due_again [OF x' op' d' s' blank _ get] due later rec by simp
  qed
qed

section \<open>A concrete journal\<close>

definition sample_env :: env where
  "sample_env = \<lparr>env_clock = int, env_uuid_hex = (\<lambda>n. replicate n CHR ''a''),
     env_sha256_hex = (\<lambda>s. s), env_isoformat = py_str_int\<rparr>"

definition empty_world :: world where
  "empty_world = \<lparr>wd_store = empty_store, wd_tick = 0\<rparr>"

definition sample_identity :: standing_responsibility where
  "sample_identity = \<lparr>sr_id = ''r1'', sr_created_at = 0, sr_responsibility_kind = ''k'',
     sr_statement = ''watch'', sr_scope = fmempty, sr_schema_version = ''v1''\<rparr>"

definition sample_admission :: responsibility_admission where
  "sample_admission = \<lparr>ra_id = ''a1'', ra_created_at = 0, ra_responsibility_ref = ''r1'',
     ra_responsibility_version = 1, ra_principal_ref = ''owner'', ra_basis_refs = [], ra_admitted_at = 0\<rparr>"

definition registered_world :: world where
  "registered_world = empty_world\<lparr>wd_tick := 2, wd_store := empty_store\<lparr>st_event :=
     [(''event_responsibility_r1'', responsibility_event sample_env 0 (Standing sample_identity)),
      (''event_responsibility_a1'', responsibility_event sample_env 1 (Admission sample_admission))]\<rparr>\<rparr>"

lemma sample_event_id [simp]:
  "length i \<le> 32 \<Longrightarrow> responsibility_event_id sample_env i = ''event_responsibility_'' @ i"
  by (simp add: responsibility_event_id_def sample_env_def)

lemma sample_clock [simp]: "env_clock sample_env n = int n"
  by (simp add: sample_env_def)

lemma sample_valid [simp]:
  "valid_object (Standing sample_identity)" "valid_object (Admission sample_admission)"
  by (simp_all add: valid_object_def validate_object_def sample_identity_def sample_admission_def
      is_blank_def py_isspace_def)

lemma sample_registers: "register sample_env sample_identity sample_admission empty_world = (Inr sample_identity, registered_world)"
proof -
  have id: "sr_id sample_identity = ''r1''" "ra_id sample_admission = ''a1''" "ra_responsibility_ref sample_admission = ''r1''"
    "ra_responsibility_version sample_admission = 1" "\<not> is_blank (ra_principal_ref sample_admission)"
    by (simp_all add: sample_identity_def sample_admission_def is_blank_def py_isspace_def)
  let ?w1 = "empty_world\<lparr>wd_tick := 1, wd_store := empty_store\<lparr>st_event :=
     [(''event_responsibility_r1'', responsibility_event sample_env 0 (Standing sample_identity))]\<rparr>\<rparr>"
  have s: "journal_save sample_env (Standing sample_identity) empty_world = (Inr (Standing sample_identity), ?w1)"
    by (simp add: journal_save_def empty_world_def append_event_def get_event_def id
      bindI_def utcnow_def withI_def on_store_def retI_def Let_def empty_store_def)
  have a: "save_append_only sample_env (Admission sample_admission) ?w1 = (Inr (Admission sample_admission), registered_world)"
    by (subst save_append_only_fresh)
      (simp_all add: get_event_def id registered_world_def empty_world_def empty_store_def)
  have j: "journal_get sample_env empty_store ''r1'' = Inr None"
    by (simp add: journal_get_def get_event_def empty_store_def)
  have e: "wd_store empty_world = empty_store" by (simp add: empty_world_def)
  show ?thesis using a by (simp add: register_def id s j e)
qed

lemma registered_world_facts:
  "journal_ok sample_env (wd_store registered_world)"
  "objects (wd_store registered_world) = [Standing sample_identity, Admission sample_admission]"
  "current_definition sample_env (wd_store registered_world) ''r1'' = Inr (1, ''watch'', fmempty)"
  "current_status sample_env (wd_store registered_world) ''r1'' = Inr Active"
  using register_recorded [OF _ sample_valid _ sample_registers]
  by (simp_all add: empty_world_def sample_identity_def)

section \<open>Properties\<close>

text \<open>Registration is atomic: on a subject that no object mentions yet it either raises and
  leaves the store exactly as it was, or records the identity and its admission, and then the
  responsibility is at version 1 with the identity's statement and scope, and active.\<close>

theorem register_atomic:
  assumes "journal_ok E (wd_store w)" "valid_object (Standing i)" "valid_object (Admission a)"
    and "\<forall>v \<in> set (objects (wd_store w)). responsibility_subject_ref v \<noteq> sr_id i"
  shows "case register E i a w of
      (Inl e, w') \<Rightarrow> wd_store w' = wd_store w
    | (Inr x, w') \<Rightarrow> x = i \<and> objects (wd_store w') = objects (wd_store w) @ [Standing i, Admission a]
        \<and> current_definition E (wd_store w') (sr_id i) = Inr (1, sr_statement i, sr_scope i)
        \<and> current_status E (wd_store w') (sr_id i) = Inr Active"
  using register_recorded [OF assms] register_failed register_Inr
  by (auto split: prod.split sum.split)

theorem register_atomic_witness:
  "current_status sample_env (wd_store (snd (register sample_env sample_identity sample_admission empty_world))) ''r1''
     = Inr Active"
  using register_atomic [of sample_env empty_world sample_identity sample_admission]
  by (simp add: sample_registers) (simp add: empty_world_def sample_identity_def)

text \<open>C22: Optimistic concurrency of revisions: a revision that is accepted was made against the
  current version, becomes the current definition one version later, leaves the status alone, and
  makes every other revision against the same version stale.\<close>

theorem revise_optimistic_concurrency:
  assumes "journal_ok E (wd_store w)" "valid_object (Revision r)" "rr_responsibility_ref r \<noteq> []"
    and "revise E r w = (Inr x, w')"
  shows "(\<exists>st sc. current_definition E (wd_store w) (rr_responsibility_ref r) = Inr (rr_from_version r, st, sc))
    \<and> current_definition E (wd_store w') (rr_responsibility_ref r)
        = Inr (rr_from_version r + 1, rr_statement r, rr_scope r)
    \<and> current_status E (wd_store w') (rr_responsibility_ref r) = current_status E (wd_store w) (rr_responsibility_ref r)
    \<and> (\<forall>q. rr_responsibility_ref q \<noteq> rr_responsibility_ref r \<or> rr_from_version q \<noteq> rr_from_version r
         \<or> revise E q w' = (Inl (ValueError ''responsibility revision is stale''), w'))"
proof -
  note app = revision_appended [OF assms]
  obtain st sc status where before: "current_definition E (wd_store w) (rr_responsibility_ref r) = Inr (rr_from_version r, st, sc)"
    "current_status E (wd_store w) (rr_responsibility_ref r) = Inr status"
    using assms(4) by (auto simp: revise_Inr)
  have "current_status E (wd_store w') (rr_responsibility_ref r) = Inr status"
    by (rule current_status_snoc [OF assms(1) _ _ _ before(2)]) (use app in auto)
  moreover have "revise E q w' = (Inl (ValueError ''responsibility revision is stale''), w')"
    if "rr_responsibility_ref q = rr_responsibility_ref r" "rr_from_version q = rr_from_version r" for q
    using that app by (simp add: revise_def bindI_def readS_def raise_ifI_def raiseI_def)
  ultimately show ?thesis using before app by auto
qed

definition sample_revision :: responsibility_revision where
  "sample_revision = \<lparr>rr_id = ''v2'', rr_created_at = 3, rr_responsibility_ref = ''r1'', rr_from_version = 1,
     rr_to_version = 2, rr_statement = ''watch more'', rr_scope = fmempty, rr_basis_refs = [], rr_reason = []\<rparr>"

lemma sample_save:
  "length (object_id v) \<le> 32 \<Longrightarrow> object_id v \<noteq> ''r1'' \<Longrightarrow> object_id v \<noteq> ''a1'' \<Longrightarrow>
    \<exists>w'. save_append_only sample_env v registered_world = (Inr v, w')"
  by (subst save_append_only_fresh) (auto simp: registered_world_def get_event_def)

theorem revise_optimistic_concurrency_witness:
  "\<exists>w'. current_definition sample_env (wd_store w') ''r1'' = Inr (2, ''watch more'', fmempty)
     \<and> revise sample_env sample_revision w' = (Inl (ValueError ''responsibility revision is stale''), w')"
proof -
  have v: "valid_object (Revision sample_revision)"
    by (simp add: valid_object_def validate_object_def sample_revision_def is_blank_def py_isspace_def)
  obtain w' where "save_append_only sample_env (Revision sample_revision) registered_world
      = (Inr (Revision sample_revision), w')"
    using sample_save [of "Revision sample_revision"] by (auto simp: sample_revision_def)
  then have "revise sample_env sample_revision registered_world = (Inr (Revision sample_revision), w')"
    by (simp add: revise_Inr) (simp add: sample_revision_def registered_world_facts)
  from revise_optimistic_concurrency [OF registered_world_facts(1) v _ this] show ?thesis
    by (auto simp: sample_revision_def)
qed

text \<open>A lifecycle transition that is accepted becomes the status only if it is applied after
  every recorded transition of the responsibility: history is replayed in the order of
  application, so a transition applied earlier is accepted too, and from then on the status can
  no longer be read.\<close>

theorem transition_status:
  assumes "journal_ok E (wd_store w)" "valid_object (Lifecycle t)" "lt_responsibility_ref t \<noteq> []"
    and "\<forall>u \<in> set (objects (wd_store w)). object_id u \<noteq> lt_id t"
    and "transition E t w = (Inr x, w')"
  shows "if latest_transition (wd_store w) t
    then current_status E (wd_store w') (lt_responsibility_ref t) = Inr (lt_to_status t)
    else \<exists>msg. current_status E (wd_store w') (lt_responsibility_ref t) = Inl (ValueError msg)"
  using assms by (rule transition_recorded)

definition sample_suspend :: lifecycle_transition where
  "sample_suspend = \<lparr>lt_id = ''t1'', lt_created_at = 3, lt_responsibility_ref = ''r1'',
     lt_responsibility_version = 1, lt_from_status = Active, lt_to_status = Suspended,
     lt_basis_refs = [], lt_decision_ref = None, lt_authority_ref = None, lt_applied_at = 10, lt_reason = []\<rparr>"

definition sample_resume :: lifecycle_transition where
  "sample_resume = sample_suspend\<lparr>lt_id := ''t2'', lt_from_status := Suspended, lt_to_status := Active,
     lt_applied_at := 5\<rparr>"

lemma sample_transition_valid:
  "valid_object (Lifecycle sample_suspend)" "valid_object (Lifecycle sample_resume)"
  by (simp_all add: valid_object_def validate_object_def sample_suspend_def sample_resume_def is_blank_def py_isspace_def)

lemma sample_suspended:
  obtains w' where "transition sample_env sample_suspend registered_world = (Inr (Lifecycle sample_suspend), w')"
    "journal_ok sample_env (wd_store w')" "objects (wd_store w') = objects (wd_store registered_world) @ [Lifecycle sample_suspend]"
    "get_event (wd_store w') ''event_responsibility_t2'' = None"
proof -
  have f: "get_event (wd_store registered_world) (responsibility_event_id sample_env (object_id (Lifecycle sample_suspend))) = None"
    by (simp add: registered_world_def get_event_def sample_suspend_def)
  obtain w' where sv: "save_append_only sample_env (Lifecycle sample_suspend) registered_world = (Inr (Lifecycle sample_suspend), w')"
    and n: "get_event (wd_store w') ''event_responsibility_t2'' = None"
    unfolding save_append_only_fresh [OF f] by (auto simp: registered_world_def get_event_def sample_suspend_def)
  have "transition sample_env sample_suspend registered_world = (Inr (Lifecycle sample_suspend), w')"
    using sv by (simp add: transition_Inr) (simp add: sample_suspend_def registered_world_facts)
  moreover have "journal_ok sample_env (wd_store w')
      \<and> objects (wd_store w') = objects (wd_store registered_world) @ [Lifecycle sample_suspend]"
    using registered_world_facts(1) sample_transition_valid(1) sv
    by (cases rule: save_append_only_cases) (auto simp: registered_world_facts)
  ultimately show thesis using that n by blast
qed

theorem transition_status_witness:
  "\<exists>w w'. current_status sample_env (wd_store w) ''r1'' = Inr Suspended
     \<and> transition sample_env sample_resume w = (Inr (Lifecycle sample_resume), w')
     \<and> (\<exists>msg. current_status sample_env (wd_store w') ''r1'' = Inl (ValueError msg))"
proof -
  obtain w' where w': "transition sample_env sample_suspend registered_world = (Inr (Lifecycle sample_suspend), w')"
    "journal_ok sample_env (wd_store w')" "objects (wd_store w') = objects (wd_store registered_world) @ [Lifecycle sample_suspend]"
    "get_event (wd_store w') ''event_responsibility_t2'' = None"
    by (rule sample_suspended)
  have st: "current_status sample_env (wd_store w') ''r1'' = Inr Suspended"
    using transition_status [OF registered_world_facts(1) sample_transition_valid(1) _ _ w'(1)]
    by (simp add: registered_world_facts latest_transition_def sample_suspend_def sample_identity_def
        sample_admission_def)
  have d: "current_definition sample_env (wd_store w') ''r1'' = Inr (1, ''watch'', fmempty)"
    by (rule current_definition_snoc [OF registered_world_facts(1) w'(2,3) _ registered_world_facts(3)]) simp
  have "get_event (wd_store w') (responsibility_event_id sample_env (object_id (Lifecycle sample_resume))) = None"
    using w'(4) by (simp add: sample_resume_def)
  from save_append_only_fresh [OF this] obtain w'' where
    tr: "transition sample_env sample_resume w' = (Inr (Lifecycle sample_resume), w'')"
    using st d by (simp add: transition_Inr) (simp add: sample_resume_def sample_suspend_def)
  from transition_status [OF w'(2) sample_transition_valid(2) _ _ tr]
  have "\<exists>msg. current_status sample_env (wd_store w'') ''r1'' = Inl (ValueError msg)"
    by (simp add: w'(3) registered_world_facts latest_transition_def sample_resume_def sample_suspend_def
        sample_identity_def sample_admission_def responsibility_subject_ref_def lifecycle_order_def)
  with st tr show ?thesis by blast
qed

text \<open>Assessing an overdue expectation is idempotent: once it has produced an assessment, asking
  again at any later instant with no usable evidence gives the same assessment and records
  nothing.\<close>

theorem overdue_assessment_idempotent:
  assumes "journal_ok E (wd_store w)" "assess_due_expectation E xid now obs w = (Inr (Some v), w')"
    and "now \<le> now'" "list_all is_blank obs'"
  shows "assess_due_expectation E xid now' obs' w' = (Inr (Some v), w')"
  using assms by (rule assess_due_repeats)

lemma assess_due_first:
  assumes "kernel_get E ''ResponsibilityExpectation'' as_expectation (wd_store w) xid = Inr x"
    and "expectation_open E (wd_store w) (ex_id x) = Inr True"
    and "current_definition E (wd_store w) (ex_responsibility_ref x) = Inr (ex_responsibility_version x, st, sc)"
    and "current_status E (wd_store w) (ex_responsibility_ref x) = Inr Active"
    and "list_all is_blank obs" and "ex_due_at x \<le> now"
    and aid: "aid = stable_id E ''assessment'' [ex_id x, env_isoformat E (ex_due_at x), ''missing'']"
    and "get_event (wd_store w) (responsibility_event_id E aid) = None"
    and "valid_object (Assessment (missing_assessment aid (env_clock E (wd_tick w)) x (ex_responsibility_version x) now))"
  shows "\<exists>v w'. assess_due_expectation E xid now obs w = (Inr (Some v), w')"
proof -
  have "filter (\<lambda>ref. \<not> is_blank ref) obs = []" using assms(5) by (simp add: filter_empty_conv list_all_iff)
  moreover have "journal_get E (wd_store w) aid = Inr None" using assms(8) by (simp add: journal_get_None)
  moreover let ?a = "Assessment (missing_assessment aid (env_clock E (wd_tick w)) x (ex_responsibility_version x) now)"
  have "object_id ?a = aid" by (simp add: missing_assessment_def)
  with assms(8) have "get_event (wd_store (w\<lparr>wd_tick := wd_tick w + 1\<rparr>)) (responsibility_event_id E (object_id ?a)) = None"
    by simp
  from save_append_only_fresh [OF this] obtain w' where
    "save_append_only E ?a (w\<lparr>wd_tick := wd_tick w + 1\<rparr>) = (Inr ?a, w')" by blast
  moreover have "construct ?a w1 = (Inr (), w1)" for w1 :: world
    using assms(9) by (simp add: construct_def readI_def valid_object_def)
  ultimately show ?thesis
    using assms unfolding assess_due_expectation_def Let_def
    by (simp add: bindI_def readS_def raise_ifI_def retI_def utcnow_def)
qed

definition sample_expectation :: responsibility_expectation where
  "sample_expectation = \<lparr>ex_id = ''x1'', ex_created_at = 0, ex_responsibility_ref = ''r1'',
     ex_responsibility_version = 1, ex_subject_ref = ''s'', ex_expected_signal_kind = ''heartbeat'',
     ex_due_at = 5, ex_recurrence_seconds = None, ex_freshness_window_seconds = None,
     ex_source_requirement = None\<rparr>"

theorem overdue_assessment_idempotent_witness:
  "\<exists>v w'. assess_due_expectation sample_env ''x1'' 20 ['' ''] w' = (Inr (Some v), w')"
proof -
  let ?X = "Expectation sample_expectation"
  have vx: "valid_object ?X"
    by (simp add: valid_object_def validate_object_def sample_expectation_def is_blank_def py_isspace_def)
  have f: "get_event (wd_store registered_world) (responsibility_event_id sample_env (object_id ?X)) = None"
    by (simp add: registered_world_def get_event_def sample_expectation_def)
  obtain w where sv: "save_append_only sample_env ?X registered_world = (Inr ?X, w)"
    and n: "get_event (wd_store w) (''event_responsibility_'' @ take 32 (''assessment_'' @ ''x1'' @ [char_of (31 :: nat)] @ ''5'' @ [char_of (31 :: nat)] @ ''missing'')) = None"
    unfolding save_append_only_fresh [OF f] by (auto simp: registered_world_def get_event_def sample_expectation_def)
  have w: "journal_ok sample_env (wd_store w) \<and> objects (wd_store w) = objects (wd_store registered_world) @ [?X]"
    using registered_world_facts(1) vx sv
    by (cases rule: save_append_only_cases) (auto simp: registered_world_facts)
  note grown = registered_world_facts(1) conjunct1 [OF w] conjunct2 [OF w]
  have x: "kernel_get sample_env ''ResponsibilityExpectation'' as_expectation (wd_store w) ''x1'' = Inr sample_expectation"
    using w by (simp add: kernel_get_objects sample_expectation_def)
  have op: "expectation_open sample_env (wd_store w) (ex_id sample_expectation) = Inr True"
    using expectation_open_ok [OF grown(2) x] w by (simp add: sample_expectation_def registered_world_facts)
  have aid: "stable_id sample_env ''assessment'' [ex_id sample_expectation,
      env_isoformat sample_env (ex_due_at sample_expectation), ''missing'']
    = ''assessment_'' @ ''x1'' @ [char_of (31 :: nat)] @ ''5'' @ [char_of (31 :: nat)] @ ''missing''"
  proof -
    have "char_of (53 :: nat) = CHR ''5''" by code_simp
    then show ?thesis
      by (simp add: stable_id_def sample_env_def sample_expectation_def py_str_int_def nat_digits.simps digit_char_def)
  qed
  have d: "current_definition sample_env (wd_store w) ''r1'' = Inr (1, ''watch'', fmempty)"
    by (rule current_definition_snoc [OF grown _ registered_world_facts(3)]) simp
  have s: "current_status sample_env (wd_store w) ''r1'' = Inr Active"
    by (rule current_status_snoc [OF grown _ registered_world_facts(4)]) simp
  have "\<exists>v w'. assess_due_expectation sample_env ''x1'' 10 [] w = (Inr (Some v), w')"
    by (rule assess_due_first [OF x op _ _ _ _ aid [symmetric]])
      (use n in \<open>simp_all add: d s sample_expectation_def missing_assessment_def valid_object_def
        validate_object_def is_blank_def py_isspace_def\<close>)
  then obtain v w' where "assess_due_expectation sample_env ''x1'' 10 [] w = (Inr (Some v), w')" by blast
  from overdue_assessment_idempotent [OF grown(2) this, of 20 "['' '']"] show ?thesis
    by (auto simp: is_blank_def py_isspace_def)
qed

end
