(* ===== verification/Responsibility_Resources.thy ===== *)
theory Responsibility_Resources
  imports Responsibility_Histories
begin

text \<open>
  Admission and allocation in the responsibility kernel (\<open>responsibility/service.py\<close>): priority
  judgments, resource pools, portfolio admissions, reservations and their release, commitments, and
  the Work that a commitment materializes.
\<close>

section \<open>Typed access\<close>

definition as_judgment :: "responsibility_object \<Rightarrow> priority_judgment option" where
  "as_judgment v = (case v of Judgment x \<Rightarrow> Some x | _ \<Rightarrow> None)"

definition as_pool :: "responsibility_object \<Rightarrow> resource_pool option" where
  "as_pool v = (case v of Pool x \<Rightarrow> Some x | _ \<Rightarrow> None)"

definition as_portfolio :: "responsibility_object \<Rightarrow> portfolio_admission option" where
  "as_portfolio v = (case v of Portfolio x \<Rightarrow> Some x | _ \<Rightarrow> None)"

definition as_reservation :: "responsibility_object \<Rightarrow> resource_reservation option" where
  "as_reservation v = (case v of Reservation x \<Rightarrow> Some x | _ \<Rightarrow> None)"

definition as_release :: "responsibility_object \<Rightarrow> reservation_release option" where
  "as_release v = (case v of Release x \<Rightarrow> Some x | _ \<Rightarrow> None)"

definition as_commitment :: "responsibility_object \<Rightarrow> commitment option" where
  "as_commitment v = (case v of Commit x \<Rightarrow> Some x | _ \<Rightarrow> None)"

lemma as_resource_iff [simp]:
  "as_judgment v = Some a \<longleftrightarrow> v = Judgment a"
  "as_pool v = Some b \<longleftrightarrow> v = Pool b"
  "as_portfolio v = Some c \<longleftrightarrow> v = Portfolio c"
  "as_reservation v = Some d \<longleftrightarrow> v = Reservation d"
  "as_release v = Some e \<longleftrightarrow> v = Release e"
  "as_commitment v = Some f \<longleftrightarrow> v = Commit f"
  by (auto simp: as_judgment_def as_pool_def as_portfolio_def as_reservation_def as_release_def
      as_commitment_def split: responsibility_object.splits)

abbreviation get_proposal :: "env \<Rightarrow> store \<Rightarrow> string \<Rightarrow> work_proposal result" where
  "get_proposal E \<equiv> kernel_get E ''WorkProposal'' as_proposal"

abbreviation get_pool :: "env \<Rightarrow> store \<Rightarrow> string \<Rightarrow> resource_pool result" where
  "get_pool E \<equiv> kernel_get E ''ResourcePool'' as_pool"

abbreviation get_reservation :: "env \<Rightarrow> store \<Rightarrow> string \<Rightarrow> resource_reservation result" where
  "get_reservation E \<equiv> kernel_get E ''ResourceReservation'' as_reservation"

section \<open>Judgments, pools and portfolio admission\<close>

definition record_priority_judgment :: "env \<Rightarrow> priority_judgment \<Rightarrow> (world, responsibility_object) io" where
  "record_priority_judgment E j =
     bindI (readS (\<lambda>s. get_proposal E s (pj_proposal_ref j))) (\<lambda>_.
     raise_ifI (is_blank (pj_policy_ref j)) ''priority judgment requires explicit versioned policy_ref''
    (save_append_only E (Judgment j)))"

definition create_resource_pool :: "env \<Rightarrow> resource_pool \<Rightarrow> (world, responsibility_object) io" where
  "create_resource_pool E p =
     raise_ifI (is_blank (rp_policy_ref p)) ''resource pool requires explicit versioned policy_ref''
    (save_append_only E (Pool p))"

definition record_portfolio_admission :: "env \<Rightarrow> portfolio_admission \<Rightarrow> (world, responsibility_object) io" where
  "record_portfolio_admission E d =
     bindI (readS (\<lambda>s. get_proposal E s (pa_proposal_ref d))) (\<lambda>proposal.
     bindI (readS (\<lambda>s. get_pool E s (pa_resource_pool_ref d))) (\<lambda>pool.
     raise_ifI (pa_policy_ref d \<noteq> rp_policy_ref pool)
       ''portfolio admission policy must match resource pool policy''
    (raise_ifI (pa_admitted d \<and> \<not> fits_within (wp_requested_resources proposal) (rp_capacity pool))
       ''portfolio admission cannot admit a request larger than pool capacity''
    (save_append_only E (Portfolio d)))))"

section \<open>Reservations\<close>

definition releases_of :: "store \<Rightarrow> string \<Rightarrow> string \<Rightarrow> reservation_release list result" where
  "releases_of s responsibility_ref reservation_id =
     bindR (kernel_list ''ResourceReservationRelease'' as_release s (Some responsibility_ref))
       (\<lambda>rs. Inr (filter (\<lambda>r. rl_reservation_ref r = reservation_id) rs))"

definition reservation_expired :: "resource_reservation \<Rightarrow> time \<Rightarrow> bool" where
  "reservation_expired r now = (case rs_expires_at r of None \<Rightarrow> False | Some e \<Rightarrow> e \<le> now)"

definition reservation_released :: "store \<Rightarrow> time \<Rightarrow> resource_reservation \<Rightarrow> bool result" where
  "reservation_released s now r =
     bindR (releases_of s (rs_responsibility_ref r) (rs_id r)) (\<lambda>releases.
     if releases \<noteq> [] then Inr True else Inr (reservation_expired r now))"

text \<open>The loop of \<open>available_resources\<close> over all reservations, and the clamped differences.\<close>

fun sum_used ::
    "store \<Rightarrow> time \<Rightarrow> string \<Rightarrow> resource_reservation list \<Rightarrow> resource_vector \<Rightarrow> resource_vector result" where
  "sum_used s now pool_id [] used = Inr used"
| "sum_used s now pool_id (r # rs) used =
     (if rs_resource_pool_ref r \<noteq> pool_id then sum_used s now pool_id rs used
      else bindR (reservation_released s now r) (\<lambda>released.
        if released then sum_used s now pool_id rs used
        else sum_used s now pool_id rs (rv_plus used (rs_resources r))))"

definition remaining :: "resource_vector \<Rightarrow> resource_vector \<Rightarrow> resource_vector" where
  "remaining capacity used =
     \<lparr>rv_compute_units = max 0 (rv_compute_units capacity - rv_compute_units used),
      rv_api_calls = max 0 (rv_api_calls capacity - rv_api_calls used),
      rv_money_minor = max 0 (rv_money_minor capacity - rv_money_minor used),
      rv_human_attention_units = max 0 (rv_human_attention_units capacity - rv_human_attention_units used),
      rv_concurrency_slots = max 0 (rv_concurrency_slots capacity - rv_concurrency_slots used),
      rv_domain_quota = fmmap_keys (\<lambda>k v. max 0 (v - fm_get (rv_domain_quota used) k 0))
        (rv_domain_quota capacity)\<rparr>"

definition available_resources :: "env \<Rightarrow> store \<Rightarrow> string \<Rightarrow> time \<Rightarrow> resource_vector result" where
  "available_resources E s pool_ref now =
     bindR (get_pool E s pool_ref) (\<lambda>pool.
     bindR (kernel_list ''ResourceReservation'' as_reservation s None) (\<lambda>reservations.
     bindR (sum_used s now (rp_id pool) reservations rv_zero) (\<lambda>used.
     Inr (remaining (rp_capacity pool) used))))"

definition reserve :: "env \<Rightarrow> resource_reservation \<Rightarrow> time \<Rightarrow> (world, responsibility_object) io" where
  "reserve E r now =
     bindI (readS (\<lambda>s. get_proposal E s (rs_proposal_ref r))) (\<lambda>proposal.
     raise_ifI (wp_responsibility_ref proposal \<noteq> rs_responsibility_ref r)
       ''reservation/proposal responsibility mismatch''
    (raise_ifI (wp_requested_resources proposal \<noteq> rs_resources r)
       ''reservation must exactly bind proposal resource request''
    (transaction
      (bindI (readS (\<lambda>s. available_resources E s (rs_resource_pool_ref r) now)) (\<lambda>available.
       raise_ifI (\<not> fits_within (rs_resources r) available)
         ''resource reservation would overcommit the pool''
      (save_append_only E (Reservation r)))))))"

definition release_reservation :: "env \<Rightarrow> reservation_release \<Rightarrow> (world, responsibility_object) io" where
  "release_reservation E r =
     bindI (readS (\<lambda>s. get_reservation E s (rl_reservation_ref r))) (\<lambda>reservation.
     raise_ifI (rs_responsibility_ref reservation \<noteq> rl_responsibility_ref r)
       ''reservation release responsibility mismatch''
    (bindI (readS (\<lambda>s. releases_of s (rl_responsibility_ref r) (rs_id reservation))) (\<lambda>existing.
     case existing of
       [] \<Rightarrow> save_append_only E (Release r)
     | [old] \<Rightarrow>
         if semantic_dump (Release old) = semantic_dump (Release r) then retI (Release old)
         else raiseI (ValueError ''reservation already released'')
     | _ \<Rightarrow> raiseI (ValueError ''reservation already released''))))"

section \<open>Commitment\<close>

definition commit :: "env \<Rightarrow> commitment \<Rightarrow> time \<Rightarrow> (world, responsibility_object) io" where
  "commit E c now =
     bindI (readS (\<lambda>s. get_proposal E s (cm_proposal_ref c))) (\<lambda>proposal.
     bindI (readS (\<lambda>s. kernel_get E ''PriorityJudgment'' as_judgment s (cm_priority_judgment_ref c))) (\<lambda>priority.
     bindI (readS (\<lambda>s. kernel_get E ''PortfolioAdmissionDecision'' as_portfolio s
         (cm_portfolio_admission_ref c))) (\<lambda>portfolio.
     bindI (readS (\<lambda>s. get_reservation E s (cm_reservation_ref c))) (\<lambda>reservation.
     bindI (readS (\<lambda>s. current_definition E s (cm_responsibility_ref c))) (\<lambda>(version, _, _).
     bindI (readS (\<lambda>s. current_status E s (cm_responsibility_ref c))) (\<lambda>status.
     raise_ifI (status \<noteq> Active) ''commitment requires active standing responsibility''
    (raise_ifI (cm_responsibility_version c \<noteq> version)
       ''commitment is bound to stale responsibility version''
    (raise_ifI (wp_responsibility_ref proposal \<noteq> cm_responsibility_ref c)
       ''proposal/commitment responsibility mismatch''
    (raise_ifI (wp_responsibility_version proposal \<noteq> version)
       ''historical proposal cannot be committed''
    (raise_ifI (stale_at (wp_fresh_until proposal) now) ''stale proposal cannot be committed''
    (bindI (readS (\<lambda>s. kernel_get E ''ResponsibilityAssessment'' as_assessment s
         (wp_assessment_ref proposal))) (\<lambda>assessment.
     raise_ifI (stale_at (as_fresh_until assessment) now) ''stale assessment cannot be committed''
    (raise_ifI (pj_proposal_ref priority \<noteq> wp_id proposal \<or> \<not> pj_admitted priority)
       ''commitment requires an admitted priority judgment''
    (raise_ifI (pa_proposal_ref portfolio \<noteq> wp_id proposal \<or> \<not> pa_admitted portfolio)
       ''commitment requires portfolio admission''
    (raise_ifI (rs_proposal_ref reservation \<noteq> wp_id proposal)
       ''commitment reservation must bind the proposal''
    (bindI (readS (\<lambda>s. reservation_released s now reservation)) (\<lambda>released.
     raise_ifI released ''commitment reservation is not current''
    (raise_ifI (cm_resources c \<noteq> wp_requested_resources proposal \<or> cm_resources c \<noteq> rs_resources reservation)
       ''commitment resources must exactly bind proposal and reservation''
    (save_append_only E (Commit c))))))))))))))))))))"

section \<open>Materializing work\<close>

definition work_dump :: "work \<Rightarrow> work" where
  "work_dump w = w\<lparr>wk_created_at := 0\<rparr>"

definition json_strs :: "string list \<Rightarrow> json" where
  "json_strs xs = JList (map JStr xs)"

definition work_of_commitment :: "string \<Rightarrow> time \<Rightarrow> time \<Rightarrow> commitment \<Rightarrow> work_proposal \<Rightarrow> work" where
  "work_of_commitment wid created updated c p =
     \<lparr>wk_id = wid, wk_created_at = created,
      wk_metadata = fmap_of_list
        [(''standing_responsibility_ref'', JStr (cm_responsibility_ref c)),
         (''standing_responsibility_version'', JInt (cm_responsibility_version c)),
         (''responsibility_proposal_ref'', JStr (wp_id p)),
         (''responsibility_commitment_ref'', JStr (cm_id c)),
         (''responsibility_reservation_ref'', JStr (cm_reservation_ref c)),
         (''persistent_responsibility_contract'', JStr ''persistent-responsibility-v1''),
         (''effect_class'', JStr (effect_class_str (wp_effect_class p))),
         (''external_effect_authority'', JStr ''required-separately'')],
      wk_kind = wp_work_kind p, wk_title = wp_title p, wk_description = wp_description p,
      wk_status = Work_Open, wk_priority = 0, wk_inputs = [], wk_artifact_refs = [],
      wk_constraints = fmap_of_list
        [(''responsibility_stop_conditions'', json_strs (wp_stop_conditions p)),
         (''responsibility_escalation_conditions'', json_strs (wp_escalation_conditions p))],
      wk_acceptance_criteria = (if wp_expected_result p \<noteq> [] then [wp_expected_result p] else []),
      wk_requested_capabilities = wp_requested_capabilities p, wk_parent_work_id = None,
      wk_updated_at = updated\<rparr>"

definition materialize_work :: "env \<Rightarrow> graph_check \<Rightarrow> string \<Rightarrow> (world, work) io" where
  "materialize_work E G commitment_id =
     bindI (readS (\<lambda>s. kernel_get E ''Commitment'' as_commitment s commitment_id)) (\<lambda>c.
     bindI (readS (\<lambda>s. get_proposal E s (cm_proposal_ref c))) (\<lambda>p.
     let wid = stable_id E ''work'' [cm_id c, wp_id p] in
     bindI (readS (\<lambda>s. Inr (get_work s wid))) (\<lambda>existing.
     bindI (utcnow E) (\<lambda>created.
     bindI (utcnow E) (\<lambda>updated.
     let w = work_of_commitment wid created updated c p in
     case existing of
       Some old \<Rightarrow>
         raise_ifI (work_dump old \<noteq> work_dump w) ''deterministic responsibility Work identity rebound''
           (retI old)
     | None \<Rightarrow> bindI (on_store (save_work G w)) (\<lambda>_. retI w))))))"

section \<open>Dimensions\<close>

text \<open>Every number a resource vector holds, a missing domain quota being zero.\<close>

datatype dimension = Compute | Api_Calls | Money | Attention | Slots | Quota string

fun rv_dim :: "dimension \<Rightarrow> resource_vector \<Rightarrow> int" where
  "rv_dim Compute r = rv_compute_units r"
| "rv_dim Api_Calls r = rv_api_calls r"
| "rv_dim Money r = rv_money_minor r"
| "rv_dim Attention r = rv_human_attention_units r"
| "rv_dim Slots r = rv_concurrency_slots r"
| "rv_dim (Quota k) r = quota r k"

lemma rv_le_dim: "rv_le a b \<longleftrightarrow> (\<forall>d. rv_dim d a \<le> rv_dim d b)"
proof
  assume "rv_le a b"
  then have "rv_dim d a \<le> rv_dim d b" for d by (cases d) (simp_all add: rv_le_def)
  then show "\<forall>d. rv_dim d a \<le> rv_dim d b" ..
next
  assume all: "\<forall>d. rv_dim d a \<le> rv_dim d b"
  show "rv_le a b"
    using all [rule_format, of Compute] all [rule_format, of Api_Calls] all [rule_format, of Money]
      all [rule_format, of Attention] all [rule_format, of Slots] all [rule_format, of "Quota k" for k]
    by (simp add: rv_le_def)
qed

lemma rv_dim_plus [simp]: "rv_dim d (rv_plus a b) = rv_dim d a + rv_dim d b"
  by (cases d) (simp_all, simp_all add: rv_plus_def)

lemma rv_dim_zero [simp]: "rv_dim d rv_zero = 0"
  by (cases d) (simp_all, simp_all add: rv_zero_def)

lemma rv_dim_nonneg: "rv_valid r \<Longrightarrow> 0 \<le> rv_dim d r"
  by (cases d) (simp_all add: quota_valid, simp_all add: rv_valid_def)

lemma remaining_valid: "rv_valid (remaining c u)"
  by (auto simp: remaining_def rv_valid_def fmpred_iff)

lemma remaining_dim:
  assumes "0 \<le> rv_dim d u" "rv_dim d u \<le> rv_dim d c"
  shows "rv_dim d (remaining c u) = rv_dim d c - rv_dim d u"
  using assms by (cases d) (auto simp: remaining_def quota_def fm_get_def split: option.splits)

section \<open>Usage of a pool\<close>

definition released_at :: "store \<Rightarrow> time \<Rightarrow> resource_reservation \<Rightarrow> bool" where
  "released_at s t r \<longleftrightarrow> (\<exists>l. Release l \<in> set (objects s)
       \<and> responsibility_subject_ref (Release l) = rs_responsibility_ref r \<and> rl_reservation_ref l = rs_id r)
     \<or> reservation_expired r t"

definition holds_at :: "store \<Rightarrow> time \<Rightarrow> string \<Rightarrow> resource_reservation \<Rightarrow> bool" where
  "holds_at s t pool_id r \<longleftrightarrow> rs_resource_pool_ref r = pool_id \<and> \<not> released_at s t r"

abbreviation reservations_in :: "store \<Rightarrow> resource_reservation list" where
  "reservations_in s \<equiv> typed as_reservation ''ResourceReservation'' None s"

definition usage :: "store \<Rightarrow> time \<Rightarrow> string \<Rightarrow> dimension \<Rightarrow> int" where
  "usage s t pool_id d =
     (\<Sum>r \<in># filter_mset (holds_at s t pool_id) (mset (reservations_in s)). rv_dim d (rs_resources r))"

lemma reservation_released_ok:
  assumes "journal_ok E s"
  shows "reservation_released s t r = Inr (released_at s t r)"
proof -
  have "releases_of s (rs_responsibility_ref r) (rs_id r) = Inr (filter (\<lambda>l. rl_reservation_ref l = rs_id r)
      (typed as_release ''ResourceReservationRelease'' (Some (rs_responsibility_ref r)) s))"
    using assms by (simp add: releases_of_def kernel_list_ok del: bindR_Inr)
  moreover have "filter (\<lambda>l. rl_reservation_ref l = rs_id r)
      (typed as_release ''ResourceReservationRelease'' (Some (rs_responsibility_ref r)) s) \<noteq> []
    \<longleftrightarrow> (\<exists>l. Release l \<in> set (objects s)
       \<and> responsibility_subject_ref (Release l) = rs_responsibility_ref r \<and> rl_reservation_ref l = rs_id r)"
    by (auto simp: filter_empty_conv set_typed object_selected_def)
  ultimately show ?thesis
    by (auto simp: reservation_released_def released_at_def simp del: bindR_Inr)
qed

lemma sum_used_ok:
  assumes ok: "journal_ok E s"
  shows "\<exists>u. sum_used s t pool_id rs used = Inr u
    \<and> (\<forall>d. rv_dim d u = rv_dim d used + (\<Sum>r \<in># filter_mset (holds_at s t pool_id) (mset rs). rv_dim d (rs_resources r)))"
proof (induction rs arbitrary: used)
  case Nil
  then show ?case by simp
next
  case (Cons r rs)
  show ?case
  proof (cases "holds_at s t pool_id r")
    case True
    then have "sum_used s t pool_id (r # rs) used = sum_used s t pool_id rs (rv_plus used (rs_resources r))"
      by (simp add: holds_at_def reservation_released_ok [OF ok] del: bindR_Inr)
    with Cons.IH [of "rv_plus used (rs_resources r)"] True show ?thesis by (auto simp: algebra_simps)
  next
    case False
    then have "sum_used s t pool_id (r # rs) used = sum_used s t pool_id rs used"
      by (auto simp: holds_at_def reservation_released_ok [OF ok] simp del: bindR_Inr)
    with Cons.IH [of used] False show ?thesis by auto
  qed
qed

lemma available_resources_ok:
  assumes "journal_ok E s" "get_pool E s pool_ref = Inr p"
  obtains u where "available_resources E s pool_ref t = Inr (remaining (rp_capacity p) u)"
    "\<forall>d. rv_dim d u = usage s t (rp_id p) d"
proof -
  obtain u where "sum_used s t (rp_id p) (reservations_in s) rv_zero = Inr u"
    "\<forall>d. rv_dim d u = usage s t (rp_id p) d"
    using sum_used_ok [OF assms(1), of t "rp_id p" "reservations_in s" rv_zero] by (auto simp: usage_def)
  then show thesis
    using that assms by (simp add: available_resources_def kernel_list_ok del: bindR_Inr)
qed

lemma reservation_valid:
  assumes "journal_ok E s" "r \<in> set (reservations_in s)"
  shows "rv_valid (rs_resources r)"
proof -
  have "Reservation r \<in> set (objects s)" using assms(2) by (auto simp: set_typed)
  then show ?thesis using objects_valid [OF assms(1)] valid_reservation by blast
qed

lemma sum_mset_filter_mono:
  assumes "\<And>x. x \<in># M \<Longrightarrow> 0 \<le> (f x :: int)" "\<And>x. x \<in># M \<Longrightarrow> Q x \<Longrightarrow> P x"
  shows "(\<Sum>x \<in># filter_mset Q M. f x) \<le> (\<Sum>x \<in># filter_mset P M. f x)"
  using assms
proof (induction M)
  case empty
  then show ?case by simp
next
  case (add x M)
  then have "(\<Sum>x \<in># filter_mset Q M. f x) \<le> (\<Sum>x \<in># filter_mset P M. f x)" by simp
  moreover have "0 \<le> f x" "Q x \<Longrightarrow> P x" using add.prems by simp_all
  ultimately show ?case by auto
qed

lemma usage_nonneg:
  assumes "journal_ok E s"
  shows "0 \<le> usage s t pid d"
proof -
  have "(\<Sum>r \<in># filter_mset (\<lambda>_. False) (mset (reservations_in s)). rv_dim d (rs_resources r)) \<le> usage s t pid d"
    unfolding usage_def
    by (rule sum_mset_filter_mono) (use reservation_valid [OF assms] rv_dim_nonneg in auto)
  then show ?thesis by simp
qed

text \<open>What holds a reservation only lets go of it: later instants and more objects use no more.\<close>

lemma released_at_mono:
  "set (objects s) \<subseteq> set (objects s') \<Longrightarrow> t \<le> t' \<Longrightarrow> released_at s t r \<Longrightarrow> released_at s' t' r"
  by (auto simp: released_at_def reservation_expired_def split: option.splits)

lemma usage_mono:
  assumes "journal_ok E s" "mset (reservations_in s') = mset (reservations_in s)"
    and "set (objects s) \<subseteq> set (objects s')" "t \<le> t'"
  shows "usage s' t' pid d \<le> usage s t pid d"
  unfolding usage_def assms(2)
proof (rule sum_mset_filter_mono)
  fix r
  assume "r \<in># mset (reservations_in s)"
  then show "0 \<le> rv_dim d (rs_resources r)"
    using reservation_valid [OF assms(1)] rv_dim_nonneg by simp
next
  fix r
  assume "holds_at s' t' pid r"
  then show "holds_at s t pid r"
    using released_at_mono [OF assms(3,4)] by (auto simp: holds_at_def)
qed

end
