(* ===== verification/Responsibility_Continuity.thy ===== *)
theory Responsibility_Continuity
  imports Responsibility_Resources
begin

text \<open>
  Reasoning continuity in the responsibility kernel (\<open>responsibility/service.py\<close>): session
  bindings, context snapshots, hand-offs between sessions, and the validation of a hand-off against
  the current state.
\<close>

section \<open>Operations\<close>

definition as_session :: "responsibility_object \<Rightarrow> session_binding option" where
  "as_session v = (case v of Session x \<Rightarrow> Some x | _ \<Rightarrow> None)"

definition as_snapshot :: "responsibility_object \<Rightarrow> context_snapshot option" where
  "as_snapshot v = (case v of Snapshot x \<Rightarrow> Some x | _ \<Rightarrow> None)"

definition as_handoff :: "responsibility_object \<Rightarrow> responsibility_handoff option" where
  "as_handoff v = (case v of Handoff x \<Rightarrow> Some x | _ \<Rightarrow> None)"

lemma as_continuity_iff [simp]:
  "as_session v = Some a \<longleftrightarrow> v = Session a"
  "as_snapshot v = Some b \<longleftrightarrow> v = Snapshot b"
  "as_handoff v = Some c \<longleftrightarrow> v = Handoff c"
  by (auto simp: as_session_def as_snapshot_def as_handoff_def split: responsibility_object.splits)

definition bind_reasoning_session :: "env \<Rightarrow> session_binding \<Rightarrow> (world, responsibility_object) io" where
  "bind_reasoning_session E b =
     bindI (readS (\<lambda>s. current_definition E s (sb_responsibility_ref b))) (\<lambda>(version, _, _).
     raise_ifI (sb_responsibility_version b \<noteq> version) ''reasoning session binding is stale''
    (save_append_only E (Session b)))"

text \<open>A comprehension whose condition may raise.\<close>

definition filterR :: "('a \<Rightarrow> bool result) \<Rightarrow> 'a list \<Rightarrow> 'a list result" where
  "filterR p xs = bindR (traverse (\<lambda>x. bindR (p x) (\<lambda>b. Inr (x, b))) xs)
     (\<lambda>ys. Inr (map fst (filter snd ys)))"

definition work_names_responsibility :: "string \<Rightarrow> work \<Rightarrow> bool" where
  "work_names_responsibility rid w \<longleftrightarrow> fmlookup (wk_metadata w) ''standing_responsibility_ref'' = Some (JStr rid)"

definition snapshot_of ::
    "env \<Rightarrow> store \<Rightarrow> time \<Rightarrow> string \<Rightarrow> string list \<Rightarrow> string list \<Rightarrow> string list \<Rightarrow> string list \<Rightarrow> string list
      \<Rightarrow> string list \<Rightarrow> context_snapshot result" where
  "snapshot_of E s created rid unknowns evidence qualification reopens stops escalations =
     bindR (current_definition E s rid) (\<lambda>(version, _, scope).
     bindR (kernel_list ''ResponsibilityExpectation'' as_expectation s (Some rid)) (\<lambda>xs.
     bindR (filterR (\<lambda>x. expectation_open E s (ex_id x)) xs) (\<lambda>expectations.
     bindR (kernel_list ''ResponsibilityAssessment'' as_assessment s (Some rid)) (\<lambda>assessments.
     bindR (kernel_list ''WorkProposal'' as_proposal s (Some rid)) (\<lambda>all_proposals.
     let proposals = filter (\<lambda>p. wp_responsibility_version p = version) all_proposals in
     bindR (kernel_list ''Commitment'' as_commitment s (Some rid)) (\<lambda>all_commitments.
     let commitments = filter (\<lambda>c. cm_responsibility_version c = version) all_commitments in
     bindR (kernel_list ''ResourceReservation'' as_reservation s (Some rid)) (\<lambda>reservations.
     let work_refs = map wk_id (filter (work_names_responsibility rid) (list_work s None)) in
     Inr \<lparr>sn_id = stable_id E ''responsibility_context''
            [rid, py_str_int version, py_str_int (int (length expectations)),
             py_str_int (int (length assessments)), py_str_int (int (length proposals)),
             py_str_int (int (length commitments)), py_str_int (int (length work_refs))],
          sn_created_at = created, sn_responsibility_ref = rid, sn_responsibility_version = version,
          sn_scope = scope, sn_open_expectation_refs = map ex_id expectations,
          sn_open_assessment_refs = map as_id assessments, sn_unresolved_unknowns = unknowns,
          sn_active_proposal_refs = map wp_id proposals, sn_commitment_refs = map cm_id commitments,
          sn_work_refs = work_refs, sn_reservation_refs = map rs_id reservations,
          sn_evidence_refs = evidence, sn_qualification_dependency_refs = qualification,
          sn_reopen_conditions = reopens, sn_stop_conditions = stops,
          sn_escalation_conditions = escalations\<rparr>)))))))"

definition create_context_snapshot ::
    "env \<Rightarrow> string \<Rightarrow> string list \<Rightarrow> string list \<Rightarrow> string list \<Rightarrow> string list \<Rightarrow> string list \<Rightarrow> string list
      \<Rightarrow> (world, responsibility_object) io" where
  "create_context_snapshot E rid unknowns evidence qualification reopens stops escalations =
     withI (\<lambda>w. bindI (readS (\<lambda>s. snapshot_of E s (env_clock E (wd_tick w)) rid unknowns evidence
         qualification reopens stops escalations)) (\<lambda>snapshot.
     bindI (utcnow E) (\<lambda>_.
     bindI (construct (Snapshot snapshot)) (\<lambda>_.
     save_append_only E (Snapshot snapshot)))))"

definition kernel_handoff :: "env \<Rightarrow> responsibility_handoff \<Rightarrow> (world, responsibility_object) io" where
  "kernel_handoff E h =
     bindI (readS (\<lambda>s. kernel_get E ''ResponsibilityContextSnapshot'' as_snapshot s (ho_context_snapshot_ref h))) (\<lambda>snapshot.
     raise_ifI (sn_responsibility_ref snapshot \<noteq> ho_responsibility_ref h)
       ''handoff context snapshot belongs to another responsibility''
    (raise_ifI (sn_responsibility_version snapshot \<noteq> ho_responsibility_version h)
       ''handoff context snapshot version mismatch''
    (bindI (readS (\<lambda>s. kernel_get E ''ReasoningSessionBinding'' as_session s (ho_from_session_ref h))) (\<lambda>from_binding.
     bindI (readS (\<lambda>s. kernel_get E ''ReasoningSessionBinding'' as_session s (ho_to_session_ref h))) (\<lambda>to_binding.
     raise_ifI (sb_responsibility_ref from_binding \<noteq> ho_responsibility_ref h
         \<or> sb_responsibility_ref to_binding \<noteq> ho_responsibility_ref h)
       ''handoff session responsibility mismatch''
    (save_append_only E (Handoff h)))))))"

text \<open>The loops of \<open>validate_handoff\<close>: they stop at the first reference that is not current.\<close>

fun all_current :: "(string \<Rightarrow> bool result) \<Rightarrow> string list \<Rightarrow> bool result" where
  "all_current f [] = Inr True"
| "all_current f (ref # refs) = bindR (f ref) (\<lambda>ok. if ok then all_current f refs else Inr False)"

definition assessment_current :: "env \<Rightarrow> store \<Rightarrow> time \<Rightarrow> int \<Rightarrow> string \<Rightarrow> bool result" where
  "assessment_current E s now version ref =
     bindR (kernel_get E ''ResponsibilityAssessment'' as_assessment s ref) (\<lambda>a.
     Inr (\<not> (as_responsibility_version a \<noteq> version \<or> stale_at (as_fresh_until a) now)))"

definition expectation_current :: "env \<Rightarrow> store \<Rightarrow> int \<Rightarrow> string \<Rightarrow> bool result" where
  "expectation_current E s version ref =
     bindR (kernel_get E ''ResponsibilityExpectation'' as_expectation s ref) (\<lambda>x.
     if ex_responsibility_version x \<noteq> version then Inr False else expectation_open E s ref)"

definition proposal_current :: "env \<Rightarrow> store \<Rightarrow> time \<Rightarrow> int \<Rightarrow> string \<Rightarrow> bool result" where
  "proposal_current E s now version ref =
     bindR (get_proposal E s ref) (\<lambda>p.
     Inr (\<not> (wp_responsibility_version p \<noteq> version \<or> stale_at (wp_fresh_until p) now)))"

definition reservation_current :: "env \<Rightarrow> store \<Rightarrow> time \<Rightarrow> string \<Rightarrow> bool result" where
  "reservation_current E s now ref =
     bindR (get_reservation E s ref) (\<lambda>r. bindR (reservation_released s now r) (\<lambda>b. Inr (\<not> b)))"

definition continuity_of :: "env \<Rightarrow> store \<Rightarrow> time \<Rightarrow> string \<Rightarrow> time \<Rightarrow> continuity_validation result" where
  "continuity_of E s created handoff_id now =
     bindR (kernel_get E ''ResponsibilityHandoff'' as_handoff s handoff_id) (\<lambda>h.
     bindR (kernel_get E ''ResponsibilityContextSnapshot'' as_snapshot s (ho_context_snapshot_ref h)) (\<lambda>snapshot.
     bindR (current_definition E s (ho_responsibility_ref h)) (\<lambda>(version, _, scope).
     bindR (current_status E s (ho_responsibility_ref h)) (\<lambda>status.
     bindR (all_current (assessment_current E s now version) (sn_open_assessment_refs snapshot)) (\<lambda>assessments.
     bindR (all_current (expectation_current E s version) (sn_open_expectation_refs snapshot)) (\<lambda>expectations.
     bindR (all_current (proposal_current E s now version) (sn_active_proposal_refs snapshot)) (\<lambda>proposals.
     bindR (all_current (reservation_current E s now) (sn_reservation_refs snapshot)) (\<lambda>reservations.
     Inr \<lparr>cv_id = stable_id E ''continuity'' [ho_id h, py_str_int version, env_isoformat E now],
          cv_created_at = created, cv_responsibility_ref = ho_responsibility_ref h,
          cv_responsibility_version = version, cv_handoff_ref = ho_id h,
          cv_responsibility_active = (status = Active),
          cv_scope_current = (version = sn_responsibility_version snapshot \<and> scope = sn_scope snapshot),
          cv_assessment_current = assessments, cv_expectations_current = expectations,
          cv_proposals_current = proposals, cv_reservations_current = reservations,
          cv_authorization_revalidation_required = True, cv_validated_at = now,
          cv_rationale = ''handoff preserves durable responsibility history but never transfers ''
            @ ''or extends execution authority''\<rparr>))))))))"

definition validate_handoff :: "env \<Rightarrow> string \<Rightarrow> time \<Rightarrow> (world, responsibility_object) io" where
  "validate_handoff E handoff_id now =
     withI (\<lambda>w. bindI (readS (\<lambda>s. continuity_of E s (env_clock E (wd_tick w)) handoff_id now)) (\<lambda>v.
     bindI (utcnow E) (\<lambda>_.
     bindI (construct (Continuity v)) (\<lambda>_.
     save_append_only E (Continuity v)))))"

end
