(* ===== verification/Responsibility_Samples.thy ===== *)
theory Responsibility_Samples
  imports Responsibility_Continuity
begin

text \<open>
  Concrete journals, on which the properties of the responsibility kernel are instantiated: one
  responsibility that is registered, assessed, has a proposal admitted and resources reserved, and
  is handed to another session.
\<close>

section \<open>Concrete journals\<close>

text \<open>A store that holds the events of given objects, for the properties' instances.\<close>

definition seeded :: "responsibility_object list \<Rightarrow> world" where
  "seeded vs = \<lparr>wd_store = empty_store\<lparr>st_event := map (\<lambda>v. (responsibility_event_id sample_env (object_id v),
     responsibility_event sample_env 0 v)) vs\<rparr>, wd_tick = 0\<rparr>"

lemma seeded_ok:
  assumes "distinct (map (\<lambda>v. responsibility_event_id sample_env (object_id v)) vs)" "list_all valid_object vs"
  shows "journal_ok sample_env (wd_store (seeded vs))" "objects (wd_store (seeded vs)) = vs"
proof -
  have "map fst (st_event (wd_store (seeded vs))) = map (\<lambda>v. responsibility_event_id sample_env (object_id v)) vs"
    by (simp add: seeded_def comp_def)
  moreover have "\<forall>(i, e) \<in> set (st_event (wd_store (seeded vs))). ev_id e = i \<and> (is_object_event e \<longrightarrow> object_event_ok sample_env e)"
    using assms(2) by (auto simp: seeded_def list_all_iff object_event_ok_def)
  ultimately show "journal_ok sample_env (wd_store (seeded vs))"
    using assms(1) by (simp add: journal_ok_def)
  have "filter is_object_event (map (responsibility_event sample_env 0) vs) = map (responsibility_event sample_env 0) vs"
    by (simp add: filter_True)
  then show "objects (wd_store (seeded vs)) = vs"
    by (simp add: objects_def seeded_def comp_def)
qed

definition sample_request :: resource_vector where
  "sample_request = rv_zero\<lparr>rv_compute_units := 3\<rparr>"

definition sample_assessment :: responsibility_assessment where
  "sample_assessment = \<lparr>as_id = ''s1'', as_created_at = 0, as_responsibility_ref = ''r1'', as_responsibility_version = 1,
     as_subject_ref = ''subject'', as_assessment_kind = ''domain'', as_basis_refs = [], as_assessed_at = 0,
     as_fresh_until = None, as_rationale = []\<rparr>"

definition sample_proposal :: work_proposal where
  "sample_proposal = \<lparr>wp_id = ''w1'', wp_created_at = 0, wp_responsibility_ref = ''r1'', wp_responsibility_version = 1,
     wp_assessment_ref = ''s1'', wp_subject_ref = ''subject'', wp_work_kind = ''check'', wp_title = ''check it'',
     wp_description = [], wp_requested_resources = sample_request, wp_requested_capabilities = [''read''],
     wp_expected_result = [], wp_stop_conditions = [], wp_escalation_conditions = [],
     wp_effect_class = Read_Only, wp_fresh_until = Some 9\<rparr>"

definition sample_judgment :: priority_judgment where
  "sample_judgment = \<lparr>pj_id = ''j1'', pj_created_at = 0, pj_proposal_ref = ''w1'',
     pj_dimensions = \<lparr>pd_urgency = 1, pd_impact = 1, pd_risk = 1, pd_reversibility = 1, pd_confidence = 1,
       pd_resource_cost = 1, pd_human_attention_cost = 1\<rparr>,
     pj_policy_ref = ''policy'', pj_admitted = True, pj_rationale = []\<rparr>"

definition sample_pool :: resource_pool where
  "sample_pool = \<lparr>rp_id = ''p1'', rp_created_at = 0, rp_pool_key = ''k'',
     rp_capacity = rv_zero\<lparr>rv_compute_units := 5\<rparr>, rp_policy_ref = ''policy''\<rparr>"

definition sample_portfolio :: portfolio_admission where
  "sample_portfolio = \<lparr>pa_id = ''d1'', pa_created_at = 0, pa_proposal_ref = ''w1'', pa_resource_pool_ref = ''p1'',
     pa_policy_ref = ''policy'', pa_admitted = True, pa_rationale = []\<rparr>"

definition sample_reservation :: resource_reservation where
  "sample_reservation = \<lparr>rs_id = ''v1'', rs_created_at = 0, rs_responsibility_ref = ''r1'', rs_proposal_ref = ''w1'',
     rs_resource_pool_ref = ''p1'', rs_resources = sample_request, rs_reserved_at = 0, rs_expires_at = Some 8\<rparr>"

definition sample_commitment :: commitment where
  "sample_commitment = \<lparr>cm_id = ''c1'', cm_created_at = 0, cm_responsibility_ref = ''r1'', cm_responsibility_version = 1,
     cm_proposal_ref = ''w1'', cm_priority_judgment_ref = ''j1'', cm_portfolio_admission_ref = ''d1'',
     cm_reservation_ref = ''v1'', cm_resources = sample_request, cm_committed_at = 0,
     cm_stop_conditions = [], cm_escalation_conditions = []\<rparr>"

definition sample_snapshot :: context_snapshot where
  "sample_snapshot = \<lparr>sn_id = ''n1'', sn_created_at = 0, sn_responsibility_ref = ''r1'', sn_responsibility_version = 1,
     sn_scope = fmempty, sn_open_expectation_refs = [], sn_open_assessment_refs = [''s1''], sn_unresolved_unknowns = [],
     sn_active_proposal_refs = [''w1''], sn_commitment_refs = [], sn_work_refs = [], sn_reservation_refs = [''v1''],
     sn_evidence_refs = [], sn_qualification_dependency_refs = [], sn_reopen_conditions = [], sn_stop_conditions = [],
     sn_escalation_conditions = []\<rparr>"

definition sample_handoff :: responsibility_handoff where
  "sample_handoff = \<lparr>ho_id = ''h1'', ho_created_at = 0, ho_responsibility_ref = ''r1'', ho_responsibility_version = 1,
     ho_from_session_ref = ''b1'', ho_to_session_ref = ''b2'', ho_context_snapshot_ref = ''n1'', ho_handed_off_at = 0\<rparr>"

definition sample_objects :: "responsibility_object list" where
  "sample_objects = [Standing sample_identity, Admission sample_admission, Assessment sample_assessment,
     Proposal sample_proposal, Judgment sample_judgment, Pool sample_pool, Portfolio sample_portfolio,
     Reservation sample_reservation, Snapshot sample_snapshot, Handoff sample_handoff]"

lemmas sample_defs = sample_identity_def sample_admission_def sample_assessment_def sample_proposal_def
  sample_judgment_def sample_pool_def sample_portfolio_def sample_reservation_def sample_commitment_def
  sample_snapshot_def sample_handoff_def sample_request_def

lemma sample_vector_valid [simp]: "0 \<le> n \<Longrightarrow> rv_error (rv_zero\<lparr>rv_compute_units := n\<rparr>) = None"
  by (simp add: rv_valid_def rv_zero_def)

lemma sample_objects_valid: "list_all valid_object sample_objects"
  by (simp add: sample_objects_def valid_object_def validate_object_def sample_assessment_def sample_proposal_def
      sample_judgment_def sample_pool_def sample_portfolio_def sample_reservation_def sample_snapshot_def
      sample_handoff_def sample_request_def sample_identity_def sample_admission_def pd_valid_def
      is_blank_def py_isspace_def del: rv_error_None)

definition sample_journal :: world where
  "sample_journal = seeded sample_objects"

lemma sample_world:
  "journal_ok sample_env (wd_store sample_journal)"
  "objects (wd_store sample_journal) = sample_objects"
proof -
  have "map (\<lambda>v. responsibility_event_id sample_env (object_id v)) sample_objects
      = map (\<lambda>i. ''event_responsibility_'' @ i) [''r1'', ''a1'', ''s1'', ''w1'', ''j1'', ''p1'', ''d1'', ''v1'', ''n1'', ''h1'']"
    by (simp add: sample_objects_def sample_defs)
  then have "distinct (map (\<lambda>v. responsibility_event_id sample_env (object_id v)) sample_objects)" by simp
  then show "journal_ok sample_env (wd_store sample_journal)"
    "objects (wd_store sample_journal) = sample_objects"
    using seeded_ok [OF _ sample_objects_valid] by (simp_all add: sample_journal_def)
qed

lemma sample_typed:
  "typed as_revision ''ResponsibilityRevision'' (Some ''r1'') (wd_store sample_journal) = []"
  "typed as_lifecycle ''ResponsibilityLifecycleTransition'' (Some ''r1'') (wd_store sample_journal) = []"
  "typed as_admission ''ResponsibilityAdmission'' (Some ''r1'') (wd_store sample_journal) = [sample_admission]"
  "typed as_release ''ResourceReservationRelease'' (Some ''r1'') (wd_store sample_journal) = []"
  by (simp_all add: typed_def sample_world sample_objects_def object_selected_def map_filter_simps
      responsibility_subject_ref_def as_admission_def sample_admission_def)

lemma sample_gets:
  "kernel_get sample_env ''StandingResponsibility'' as_standing (wd_store sample_journal) ''r1'' = Inr sample_identity"
  "kernel_get sample_env ''ResponsibilityAssessment'' as_assessment (wd_store sample_journal) ''s1'' = Inr sample_assessment"
  "get_proposal sample_env (wd_store sample_journal) ''w1'' = Inr sample_proposal"
  "kernel_get sample_env ''PriorityJudgment'' as_judgment (wd_store sample_journal) ''j1'' = Inr sample_judgment"
  "kernel_get sample_env ''PortfolioAdmissionDecision'' as_portfolio (wd_store sample_journal) ''d1'' = Inr sample_portfolio"
  "get_reservation sample_env (wd_store sample_journal) ''v1'' = Inr sample_reservation"
  "kernel_get sample_env ''ResponsibilityContextSnapshot'' as_snapshot (wd_store sample_journal) ''n1'' = Inr sample_snapshot"
  "kernel_get sample_env ''ResponsibilityHandoff'' as_handoff (wd_store sample_journal) ''h1'' = Inr sample_handoff"
  using kernel_get_iff [OF sample_world(1) as_object_iff(1)] kernel_get_iff [OF sample_world(1) as_object_iff(7)]
    kernel_get_iff [OF sample_world(1) as_object_iff(8)] kernel_get_iff [OF sample_world(1) as_resource_iff(1)]
    kernel_get_iff [OF sample_world(1) as_resource_iff(3)] kernel_get_iff [OF sample_world(1) as_resource_iff(4)]
    kernel_get_iff [OF sample_world(1) as_continuity_iff(2)] kernel_get_iff [OF sample_world(1) as_continuity_iff(3)]
  by (simp_all add: sample_world sample_objects_def) (simp_all add: sample_defs)

lemma sample_current:
  "current_definition sample_env (wd_store sample_journal) ''r1'' = Inr (1, ''watch'', fmempty)"
  "current_status sample_env (wd_store sample_journal) ''r1'' = Inr Active"
  by (simp_all add: current_definition_ok current_status_ok sample_world get_responsibility_def sample_gets sample_typed)
    (simp add: sample_identity_def)

lemma sample_reservation_held:
  "reservation_released (wd_store sample_journal) 5 sample_reservation = Inr False"
  by (simp add: reservation_released_def releases_of_def sample_reservation_def reservation_expired_def
      kernel_list_ok [OF sample_world(1)] sample_typed)

end
