(* ===== verification/Responsibility_Invariants.thy ===== *)
theory Responsibility_Invariants
  imports Responsibility_Samples
begin

text \<open>
  What the whole responsibility kernel guarantees: which objects each operation can record, that no
  history of operations overcommits a resource pool, what a commitment has passed, and what the
  Work and the continuity validation it leads to say.
\<close>

section \<open>What an operation records\<close>

definition grows_by :: "env \<Rightarrow> (responsibility_object \<Rightarrow> bool) \<Rightarrow> world \<Rightarrow> world \<Rightarrow> bool" where
  "grows_by E P w v \<longleftrightarrow> (journal_ok E (wd_store w) \<longrightarrow>
     journal_ok E (wd_store v) \<and> (\<exists>vs. objects (wd_store v) = objects (wd_store w) @ vs \<and> (\<forall>x \<in> set vs. P x)))"

lemma reflp_grows_by [simp, intro]: "reflp (grows_by E P)"
  by (auto simp: reflp_def grows_by_def)

lemma transp_grows_by [simp, intro]: "transp (grows_by E P)"
proof (rule transpI)
  fix u v w
  assume "grows_by E P u v" "grows_by E P v w"
  then show "grows_by E P u w" unfolding grows_by_def by (metis UnE append.assoc set_append)
qed

lemma grows_by_same_store: "wd_store v = wd_store w \<Longrightarrow> grows_by E P w v"
  by (simp add: grows_by_def)

lemma keeps_readS_any: "reflp R \<Longrightarrow> keeps R (readS f)"
  by (simp add: keeps_def readS_def reflp_def)

lemma keeps_utcnow_objects: "keeps (grows_by E P) (utcnow E')"
  by (simp add: keeps_def utcnow_def grows_by_same_store)

lemma keeps_construct:
  "reflp R \<Longrightarrow> (valid_object v \<Longrightarrow> keeps R m) \<Longrightarrow> keeps R (bindI (construct v) (\<lambda>_. m))"
  by (cases "validate_object v")
    (auto simp: keeps_def bindI_def construct_def readI_def reflp_def validate_object_Inr split: sum.splits)

lemma keeps_list: "keeps R m \<Longrightarrow> (\<And>x xs. keeps R (f x xs)) \<Longrightarrow> keeps R (case_list m f ys)"
  by (cases ys) simp_all

lemma keeps_save_objects:
  assumes "valid_object v" "P v"
  shows "keeps (grows_by E P) (save_append_only E v)"
  unfolding keeps_def
proof
  fix w
  obtain r w' where ex: "save_append_only E v w = (r, w')" by fastforce
  show "grows_by E P w (snd (save_append_only E v w))"
  proof (cases "journal_ok E (wd_store w)")
    case False
    then show ?thesis by (simp add: grows_by_def)
  next
    case True
    from True assms(1) ex show ?thesis
      by (cases rule: save_append_only_cases) (auto simp: ex grows_by_def True assms(2))
  qed
qed

lemma keeps_journal_save_objects:
  assumes "valid_object v" "P v"
  shows "keeps (grows_by E P) (journal_save E v)"
  unfolding keeps_def
proof
  fix w
  obtain r w' where ex: "journal_save E v w = (r, w')" by fastforce
  show "grows_by E P w (snd (journal_save E v w))"
  proof (cases "journal_ok E (wd_store w)")
    case False
    then show ?thesis by (simp add: grows_by_def)
  next
    case True
    from True assms(1) ex show ?thesis
      by (cases rule: journal_save_cases) (auto simp: ex grows_by_def True assms(2))
  qed
qed

lemma keeps_transaction_objects:
  assumes "keeps world_grows m" "keeps (grows_by E P) m"
  shows "keeps (grows_by E P) (transaction m)"
  unfolding keeps_def
proof
  fix w
  obtain r v where tr: "transaction m w = (r, v)" by fastforce
  show "grows_by E P w (snd (transaction m w))"
  proof (cases r)
    case (Inl e)
    then have "wd_store v = wd_store w" using transaction_Inl [OF assms(1)] tr by blast
    then show ?thesis using tr by (simp add: grows_by_same_store)
  next
    case (Inr x)
    then have "m w = (Inr x, v)" using tr by simp
    then show ?thesis using keepsD [OF assms(2)] tr by simp
  qed
qed

lemmas keeps_objects = keeps_construct keeps_readS_any keeps_utcnow_objects keeps_prod keeps_list
  keeps_save_objects keeps_journal_save_objects keeps_intros reflp_grows_by transp_grows_by

section \<open>The operations of the kernel\<close>

datatype kernel_op =
    Op_Register standing_responsibility responsibility_admission
  | Op_Revise responsibility_revision
  | Op_Transition lifecycle_transition
  | Op_Expect responsibility_expectation
  | Op_Resolve expectation_resolution_object
  | Op_Assess string time "string list"
  | Op_Domain responsibility_assessment time
  | Op_Propose work_proposal time
  | Op_Judge priority_judgment
  | Op_Pool resource_pool
  | Op_Portfolio portfolio_admission
  | Op_Reserve resource_reservation time
  | Op_Release reservation_release
  | Op_Commit commitment time
  | Op_Session session_binding
  | Op_Snapshot string "string list" "string list" "string list" "string list" "string list" "string list"
  | Op_Handoff responsibility_handoff
  | Op_Validate string time

fun exec_op :: "env \<Rightarrow> kernel_op \<Rightarrow> world \<Rightarrow> world" where
  "exec_op E (Op_Register i a) w = snd (register E i a w)"
| "exec_op E (Op_Revise r) w = snd (revise E r w)"
| "exec_op E (Op_Transition t) w = snd (transition E t w)"
| "exec_op E (Op_Expect x) w = snd (create_expectation E x w)"
| "exec_op E (Op_Resolve r) w = snd (resolve_expectation E r w)"
| "exec_op E (Op_Assess i now obs) w = snd (assess_due_expectation E i now obs w)"
| "exec_op E (Op_Domain a now) w = snd (record_domain_assessment E a now w)"
| "exec_op E (Op_Propose p now) w = snd (propose E p now w)"
| "exec_op E (Op_Judge j) w = snd (record_priority_judgment E j w)"
| "exec_op E (Op_Pool p) w = snd (create_resource_pool E p w)"
| "exec_op E (Op_Portfolio d) w = snd (record_portfolio_admission E d w)"
| "exec_op E (Op_Reserve r now) w = snd (reserve E r now w)"
| "exec_op E (Op_Release r) w = snd (release_reservation E r w)"
| "exec_op E (Op_Commit c now) w = snd (commit E c now w)"
| "exec_op E (Op_Session b) w = snd (bind_reasoning_session E b w)"
| "exec_op E (Op_Snapshot i a b c d e f) w = snd (create_context_snapshot E i a b c d e f w)"
| "exec_op E (Op_Handoff h) w = snd (kernel_handoff E h w)"
| "exec_op E (Op_Validate i now) w = snd (validate_handoff E i now w)"

text \<open>The objects a caller hands in have been constructed, so their validators have passed.\<close>

fun op_arguments :: "kernel_op \<Rightarrow> responsibility_object list" where
  "op_arguments (Op_Register i a) = [Standing i, Admission a]"
| "op_arguments (Op_Revise r) = [Revision r]"
| "op_arguments (Op_Transition t) = [Lifecycle t]"
| "op_arguments (Op_Expect x) = [Expectation x]"
| "op_arguments (Op_Resolve r) = [Resolution r]"
| "op_arguments (Op_Assess i now obs) = []"
| "op_arguments (Op_Domain a now) = [Assessment a]"
| "op_arguments (Op_Propose p now) = [Proposal p]"
| "op_arguments (Op_Judge j) = [Judgment j]"
| "op_arguments (Op_Pool p) = [Pool p]"
| "op_arguments (Op_Portfolio d) = [Portfolio d]"
| "op_arguments (Op_Reserve r now) = [Reservation r]"
| "op_arguments (Op_Release r) = [Release r]"
| "op_arguments (Op_Commit c now) = [Commit c]"
| "op_arguments (Op_Session b) = [Session b]"
| "op_arguments (Op_Snapshot i a b c d e f) = []"
| "op_arguments (Op_Handoff h) = [Handoff h]"
| "op_arguments (Op_Validate i now) = []"

definition valid_op :: "kernel_op \<Rightarrow> bool" where
  "valid_op op \<longleftrightarrow> list_all valid_object (op_arguments op)"

fun run_ops :: "env \<Rightarrow> kernel_op list \<Rightarrow> world \<Rightarrow> world" where
  "run_ops E [] w = w"
| "run_ops E (op # ops) w = run_ops E ops (exec_op E op w)"

text \<open>The instants at which reservations are made do not go back.\<close>

fun times_from :: "time \<Rightarrow> kernel_op list \<Rightarrow> bool" where
  "times_from T [] = True"
| "times_from T (op # ops) =
     (case op of Op_Reserve r now \<Rightarrow> T \<le> now \<and> times_from now ops | _ \<Rightarrow> times_from T ops)"

fun last_time :: "time \<Rightarrow> kernel_op list \<Rightarrow> time" where
  "last_time T [] = T"
| "last_time T (op # ops) = (case op of Op_Reserve r now \<Rightarrow> last_time now ops | _ \<Rightarrow> last_time T ops)"

definition not_reservation :: "responsibility_object \<Rightarrow> bool" where
  "not_reservation v \<longleftrightarrow> as_reservation v = None"

lemma not_reservation_simps [simp]:
  "not_reservation (Standing a1)" "not_reservation (Admission a2)" "not_reservation (Revision a3)"
  "not_reservation (Lifecycle a4)" "not_reservation (Expectation a5)" "not_reservation (Resolution a6)"
  "not_reservation (Assessment a7)" "not_reservation (Proposal a8)" "not_reservation (Judgment a9)"
  "not_reservation (Pool b1)" "not_reservation (Portfolio b2)" "not_reservation (Release b3)"
  "not_reservation (Commit b4)" "not_reservation (Session b5)" "not_reservation (Snapshot b6)"
  "not_reservation (Handoff b7)" "not_reservation (Continuity b8)" "\<not> not_reservation (Reservation b9)"
  by (simp_all add: not_reservation_def as_reservation_def)

text \<open>Only \<open>reserve\<close> records reservations.\<close>

lemma keeps_register_objects:
  assumes "valid_object (Standing i)" "valid_object (Admission a)"
  shows "keeps (grows_by E not_reservation) (register E i a)"
  unfolding register_def
  by (intro keeps_raise_ifI reflp_grows_by keeps_transaction_objects)
    (intro keeps_world keeps_save_append_only keeps_journal_save,
     intro keeps_objects assms not_reservation_simps)

lemma keeps_resolve_objects:
  "valid_object (Resolution r) \<Longrightarrow> keeps (grows_by E not_reservation) (resolve_expectation E r)"
  unfolding resolve_expectation_def by (intro keeps_objects not_reservation_simps)

lemma keeps_assess_objects: "keeps (grows_by E not_reservation) (assess_due_expectation E i now obs)"
  unfolding assess_due_expectation_def Let_def
  by (intro keeps_resolve_objects keeps_objects not_reservation_simps; assumption)

lemma keeps_release_objects:
  "valid_object (Release r) \<Longrightarrow> keeps (grows_by E not_reservation) (release_reservation E r)"
  unfolding release_reservation_def by (intro keeps_objects not_reservation_simps)

lemma keeps_commit_objects:
  "valid_object (Commit c) \<Longrightarrow> keeps (grows_by E not_reservation) (commit E c now)"
  unfolding commit_def by (intro keeps_objects not_reservation_simps)

lemma keeps_plain_objects:
  "valid_object (Revision r1) \<Longrightarrow> keeps (grows_by E not_reservation) (revise E r1)"
  "valid_object (Lifecycle t) \<Longrightarrow> keeps (grows_by E not_reservation) (transition E t)"
  "valid_object (Expectation x) \<Longrightarrow> keeps (grows_by E not_reservation) (create_expectation E x)"
  "valid_object (Assessment a) \<Longrightarrow> keeps (grows_by E not_reservation) (record_domain_assessment E a now)"
  "valid_object (Proposal p) \<Longrightarrow> keeps (grows_by E not_reservation) (propose E p now)"
  "valid_object (Judgment j) \<Longrightarrow> keeps (grows_by E not_reservation) (record_priority_judgment E j)"
  "valid_object (Pool q) \<Longrightarrow> keeps (grows_by E not_reservation) (create_resource_pool E q)"
  "valid_object (Portfolio d) \<Longrightarrow> keeps (grows_by E not_reservation) (record_portfolio_admission E d)"
  "valid_object (Session b) \<Longrightarrow> keeps (grows_by E not_reservation) (bind_reasoning_session E b)"
  "valid_object (Handoff h) \<Longrightarrow> keeps (grows_by E not_reservation) (kernel_handoff E h)"
  unfolding revise_def transition_def create_expectation_def record_domain_assessment_def propose_def
    record_priority_judgment_def create_resource_pool_def record_portfolio_admission_def
    bind_reasoning_session_def kernel_handoff_def
  by (intro keeps_objects not_reservation_simps; assumption)+

lemma keeps_continuity_objects:
  "keeps (grows_by E not_reservation) (create_context_snapshot E i k1 k2 k3 k4 k5 k6)"
  "keeps (grows_by E not_reservation) (validate_handoff E i now)"
  unfolding create_context_snapshot_def validate_handoff_def
  by (intro keeps_objects not_reservation_simps; assumption)+

lemma exec_op_objects:
  assumes "valid_op op" "\<forall>r now. op \<noteq> Op_Reserve r now"
  shows "grows_by E not_reservation w (exec_op E op w)"
  using assms keeps_register_objects keeps_resolve_objects keeps_assess_objects keeps_release_objects
    keeps_commit_objects keeps_plain_objects keeps_continuity_objects
  unfolding keeps_def by (cases op) (simp_all add: valid_op_def)

section \<open>Pools are never overcommitted\<close>

definition within_capacity :: "store \<Rightarrow> time \<Rightarrow> bool" where
  "within_capacity s T \<longleftrightarrow> (\<forall>p. Pool p \<in> set (objects s) \<longrightarrow>
     (\<forall>t \<ge> T. \<forall>d. usage s t (rp_id p) d \<le> rv_dim d (rp_capacity p)))"

text \<open>The pool a reservation names had been recorded, up to the identity of its event.\<close>

definition pools_recorded :: "env \<Rightarrow> store \<Rightarrow> bool" where
  "pools_recorded E s \<longleftrightarrow> (\<forall>r. Reservation r \<in> set (objects s) \<longrightarrow>
     (\<exists>v \<in> set (objects s). responsibility_event_id E (object_id v)
        = responsibility_event_id E (rs_resource_pool_ref r)))"

definition capacity_ok :: "env \<Rightarrow> time \<Rightarrow> world \<Rightarrow> bool" where
  "capacity_ok E T w \<longleftrightarrow> journal_ok E (wd_store w) \<and> pools_recorded E (wd_store w)
     \<and> within_capacity (wd_store w) T"

lemma capacity_ok_later: "capacity_ok E T w \<Longrightarrow> T \<le> T' \<Longrightarrow> capacity_ok E T' w"
  by (auto simp: capacity_ok_def within_capacity_def)

lemma usage_unreserved:
  assumes "\<forall>r. Reservation r \<in> set (objects s) \<longrightarrow> rs_resource_pool_ref r \<noteq> pid"
  shows "usage s t pid d = 0"
proof -
  have "filter_mset (holds_at s t pid) (mset (reservations_in s)) = filter_mset (\<lambda>_. False) (mset (reservations_in s))"
    by (rule filter_mset_cong [OF refl]) (use assms in \<open>auto simp: holds_at_def set_typed\<close>)
  then show ?thesis unfolding usage_def by (simp only: filter_mset_False image_mset_empty sum_mset.empty)
qed

lemma typed_reservations_unchanged:
  assumes "objects s' = objects s @ vs" "\<forall>v \<in> set vs. not_reservation v"
  shows "reservations_in s' = reservations_in s"
proof -
  have "\<not> object_selected (Some ''ResourceReservation'') None v" if "v \<in> set vs" for v
    using assms(2) that by (cases v) (auto simp: object_selected_def)
  then have "filter (object_selected (Some ''ResourceReservation'') None) vs = []"
    by (simp add: filter_empty_conv)
  then show ?thesis by (simp add: typed_def assms(1))
qed

lemma capacity_ok_grows:
  assumes "capacity_ok E T w" "grows_by E not_reservation w w'"
  shows "capacity_ok E T w'"
proof -
  let ?s = "wd_store w" and ?s' = "wd_store w'"
  have ok: "journal_ok E ?s" using assms(1) by (simp add: capacity_ok_def)
  obtain vs where ok': "journal_ok E ?s'" and vs: "objects ?s' = objects ?s @ vs" "\<forall>v \<in> set vs. not_reservation v"
    using assms(2) ok by (auto simp: grows_by_def)
  have old: "Reservation r \<in> set (objects ?s') \<Longrightarrow> Reservation r \<in> set (objects ?s)" for r
    using vs by auto
  have pools: "pools_recorded E ?s'"
    using assms(1) old vs(1) by (fastforce simp: capacity_ok_def pools_recorded_def)
  have ms: "mset (reservations_in ?s') = mset (reservations_in ?s)"
    using typed_reservations_unchanged [OF vs] by simp
  have "usage ?s' t (rp_id p) d \<le> rv_dim d (rp_capacity p)"
    if p: "Pool p \<in> set (objects ?s')" and t: "T \<le> t" for p t d
  proof (cases "Pool p \<in> set (objects ?s)")
    case True
    have "usage ?s' t (rp_id p) d \<le> usage ?s t (rp_id p) d"
      by (rule usage_mono [OF ok ms]) (simp_all add: vs(1))
    also have "\<dots> \<le> rv_dim d (rp_capacity p)"
      using assms(1) True t by (simp add: capacity_ok_def within_capacity_def)
    finally show ?thesis .
  next
    case False
    have "rs_resource_pool_ref r \<noteq> rp_id p" if res: "Reservation r \<in> set (objects ?s')" for r
    proof
      assume "rs_resource_pool_ref r = rp_id p"
      then obtain v where "v \<in> set (objects ?s)"
          "responsibility_event_id E (object_id v) = responsibility_event_id E (object_id (Pool p))"
        using assms(1) old [OF res] by (auto simp: capacity_ok_def pools_recorded_def)
      then show False using objects_unique [OF ok', of v "Pool p"] p vs(1) False by auto
    qed
    then have "usage ?s' t (rp_id p) d = 0" by (intro usage_unreserved) blast
    then show ?thesis
      using rv_dim_nonneg valid_pool objects_valid [OF ok' p] by simp
  qed
  then show ?thesis using ok' pools by (simp add: capacity_ok_def within_capacity_def)
qed

lemma keeps_reserve: "keeps world_grows (reserve E r now)"
  unfolding reserve_def by (intro keeps_world keeps_save_append_only)

text \<open>What a reservation has passed when it is recorded.\<close>

lemma reserve_cases:
  assumes ok: "journal_ok E (wd_store w)" and v: "valid_object (Reservation r)"
  obtains (same) "wd_store (snd (reserve E r now w)) = wd_store w"
  | (recorded) p av where "get_pool E (wd_store w) (rs_resource_pool_ref r) = Inr p"
      "available_resources E (wd_store w) (rs_resource_pool_ref r) now = Inr av"
      "fits_within (rs_resources r) av" "journal_ok E (wd_store (snd (reserve E r now w)))"
      "objects (wd_store (snd (reserve E r now w))) = objects (wd_store w) @ [Reservation r]"
proof -
  note casesplit = that
  obtain res w' where ex: "reserve E r now w = (res, w')" by fastforce
  let ?m = "bindI (readS (\<lambda>s. available_resources E s (rs_resource_pool_ref r) now)) (\<lambda>available.
       raise_ifI (\<not> fits_within (rs_resources r) available)
         ''resource reservation would overcommit the pool''
      (save_append_only E (Reservation r)))"
  have km: "keeps world_grows ?m" by (intro keeps_world keeps_save_append_only)
  show thesis
  proof (cases res)
    case (Inl e)
    have "wd_store w' = wd_store w"
    proof (cases "transaction ?m w = (Inl e, w')")
      case True
      then show ?thesis using transaction_Inl [OF km] by blast
    next
      case False
      then show ?thesis using ex Inl
        unfolding reserve_def
        by (cases "get_proposal E (wd_store w) (rs_proposal_ref r)")
          (auto simp: bindI_def [of "readS (\<lambda>s. get_proposal E s (rs_proposal_ref r))"] readS_def raise_ifI_Inl)
    qed
    then show thesis using casesplit(1) ex by simp
  next
    case (Inr x)
    then obtain av where av: "available_resources E (wd_store w) (rs_resource_pool_ref r) now = Inr av"
      "fits_within (rs_resources r) av" "save_append_only E (Reservation r) w = (Inr x, w')"
      using ex by (auto simp: reserve_def)
    then obtain p where p: "get_pool E (wd_store w) (rs_resource_pool_ref r) = Inr p"
      by (auto simp: available_resources_def)
    from ok v av(3) show thesis
    proof (cases rule: save_append_only_cases)
      case (raised e)
      then show ?thesis by simp
    next
      case (present u)
      then show ?thesis using casesplit(1) ex by simp
    next
      case recorded
      then show ?thesis using casesplit(2) [OF p av(1,2)] ex by simp
    qed
  qed
qed

lemma capacity_ok_reserve:
  assumes cap: "capacity_ok E T w" and now: "T \<le> now" and v: "valid_object (Reservation r)"
  shows "capacity_ok E now (snd (reserve E r now w))"
proof -
  let ?s = "wd_store w" and ?s' = "wd_store (snd (reserve E r now w))"
  have ok: "journal_ok E ?s" and pools: "pools_recorded E ?s" and within: "within_capacity ?s T"
    using cap by (simp_all add: capacity_ok_def)
  from ok v show ?thesis
  proof (cases rule: reserve_cases [where now = now])
    case same
    then show ?thesis using capacity_ok_later [OF cap now] by (simp add: capacity_ok_def)
  next
    case (recorded p0 av)
    note ok' = recorded(4) and objs = recorded(5)
    have p0: "Pool p0 \<in> set (objects ?s)"
      "responsibility_event_id E (rp_id p0) = responsibility_event_id E (rs_resource_pool_ref r)"
      using recorded(1) kernel_get_iff [where sel = as_pool and C = Pool, OF ok as_resource_iff(2)] by simp_all
    have pools': "pools_recorded E ?s'"
      using pools p0 objs by (fastforce simp: pools_recorded_def)
    have ms: "mset (reservations_in ?s') = add_mset r (mset (reservations_in ?s))"
      by (rule typed_snoc [OF objs]) (simp_all add: object_selected_def)
    have released: "released_at ?s' t q = released_at ?s t q" for t q
      by (auto simp: released_at_def objs)
    have step: "usage ?s' t pid d = usage ?s t pid d
        + (if holds_at ?s t pid r then rv_dim d (rs_resources r) else 0)" for t pid d
      unfolding usage_def ms by (simp add: holds_at_def released cong: filter_mset_cong)
    have "usage ?s' t (rp_id p) d \<le> rv_dim d (rp_capacity p)"
      if p: "Pool p \<in> set (objects ?s')" and t: "now \<le> t" for p t d
    proof -
      have p': "Pool p \<in> set (objects ?s)" using p objs by simp
      have old: "usage ?s now (rp_id p) d \<le> rv_dim d (rp_capacity p)"
        using within p' now by (simp add: within_capacity_def)
      have later: "usage ?s t (rp_id p) d \<le> usage ?s now (rp_id p) d"
        by (rule usage_mono [OF ok refl _ t]) simp
      show ?thesis
      proof (cases "holds_at ?s t (rp_id p) r")
        case False
        then show ?thesis using step later old by simp
      next
        case True
        then have "rs_resource_pool_ref r = rp_id p" by (simp add: holds_at_def)
        then have "Pool p0 = Pool p" using objects_unique [OF ok p0(1) p'] p0(2) by simp
        then have "p0 = p" by simp
        then obtain u where u: "av = remaining (rp_capacity p) u" "\<forall>d. rv_dim d u = usage ?s now (rp_id p) d"
          using available_resources_ok [OF ok recorded(1), of now] recorded(2) by auto
        have "rv_dim d (rs_resources r) \<le> rv_dim d av"
          using recorded(3) fits_within_iff [OF remaining_valid] u(1) rv_le_dim by blast
        also have "\<dots> = rv_dim d (rp_capacity p) - usage ?s now (rp_id p) d"
          using u old usage_nonneg [OF ok] by (simp add: remaining_dim)
        finally show ?thesis using step [of t "rp_id p" d] later True by simp
      qed
    qed
    then show ?thesis using ok' pools' by (simp add: capacity_ok_def within_capacity_def)
  qed
qed

lemma capacity_ok_exec:
  assumes "capacity_ok E T w" "valid_op op" "times_from T [op]"
  shows "capacity_ok E (last_time T [op]) (exec_op E op w)"
proof (cases "\<exists>r now. op = Op_Reserve r now")
  case True
  then show ?thesis using assms capacity_ok_reserve by (auto simp: valid_op_def)
next
  case False
  then have "last_time T [op] = T" by (cases op) auto
  then show ?thesis
    using capacity_ok_grows [OF assms(1) exec_op_objects [OF assms(2)]] False by auto
qed

lemma capacity_ok_run:
  "capacity_ok E T w \<Longrightarrow> \<forall>op \<in> set ops. valid_op op \<Longrightarrow> times_from T ops
     \<Longrightarrow> capacity_ok E (last_time T ops) (run_ops E ops w)"
proof (induction ops arbitrary: T w)
  case Nil
  then show ?case by simp
next
  case (Cons op ops)
  have "capacity_ok E (last_time T [op]) (exec_op E op w)"
    using Cons.prems by (intro capacity_ok_exec) (auto split: kernel_op.splits)
  moreover have "times_from (last_time T [op]) ops" "last_time (last_time T [op]) ops = last_time T (op # ops)"
    using Cons.prems by (auto split: kernel_op.splits)
  ultimately show ?case using Cons.IH Cons.prems(2) by fastforce
qed

lemma capacity_ok_empty: "capacity_ok E T empty_world"
  by (simp add: capacity_ok_def pools_recorded_def within_capacity_def empty_world_def)

lemma run_ops_journal:
  "capacity_ok E T w \<Longrightarrow> \<forall>op \<in> set ops. valid_op op \<Longrightarrow> times_from T ops
     \<Longrightarrow> journal_ok E (wd_store (run_ops E ops w))"
  by (drule (2) capacity_ok_run) (simp add: capacity_ok_def)

section \<open>Commitment, materialization and continuity\<close>

lemma commit_Inr:
  assumes "commit E c now w = (Inr x, w')"
  obtains p j a r v st sc where
    "get_proposal E (wd_store w) (cm_proposal_ref c) = Inr p"
    "kernel_get E ''PriorityJudgment'' as_judgment (wd_store w) (cm_priority_judgment_ref c) = Inr j"
    "kernel_get E ''PortfolioAdmissionDecision'' as_portfolio (wd_store w) (cm_portfolio_admission_ref c) = Inr a"
    "get_reservation E (wd_store w) (cm_reservation_ref c) = Inr r"
    "current_definition E (wd_store w) (cm_responsibility_ref c) = Inr (cm_responsibility_version c, st, sc)"
    "current_status E (wd_store w) (cm_responsibility_ref c) = Inr Active"
    "wp_responsibility_ref p = cm_responsibility_ref c" "wp_responsibility_version p = cm_responsibility_version c"
    "\<not> stale_at (wp_fresh_until p) now"
    "kernel_get E ''ResponsibilityAssessment'' as_assessment (wd_store w) (wp_assessment_ref p) = Inr v"
    "\<not> stale_at (as_fresh_until v) now"
    "pj_proposal_ref j = wp_id p" "pj_admitted j" "pa_proposal_ref a = wp_id p" "pa_admitted a"
    "rs_proposal_ref r = wp_id p" "reservation_released (wd_store w) now r = Inr False"
    "cm_resources c = wp_requested_resources p" "cm_resources c = rs_resources r"
    "save_append_only E (Commit c) w = (Inr x, w')"
  using assms by (auto simp: commit_def)

lemma holds_at_usage:
  assumes "journal_ok E s" "r \<in> set (reservations_in s)" "holds_at s t pid r"
  shows "rv_dim d (rs_resources r) \<le> usage s t pid d"
proof -
  have "(\<Sum>q \<in># filter_mset (\<lambda>q. q = r) (mset (reservations_in s)). rv_dim d (rs_resources q)) \<le> usage s t pid d"
    unfolding usage_def
    by (rule sum_mset_filter_mono) (use reservation_valid [OF assms(1)] rv_dim_nonneg assms(3) in auto)
  moreover obtain n where n: "count (mset (reservations_in s)) r = Suc n"
    using assms(2) by (metis count_greater_zero_iff gr0_implies_Suc set_mset_mset)
  have "0 \<le> int n * rv_dim d (rs_resources r)"
    using reservation_valid [OF assms(1,2)] rv_dim_nonneg by simp
  with n have "rv_dim d (rs_resources r)
      \<le> (\<Sum>q \<in># filter_mset (\<lambda>q. q = r) (mset (reservations_in s)). rv_dim d (rs_resources q))"
    by (simp add: filter_eq_replicate_mset algebra_simps)
  ultimately show ?thesis by simp
qed

lemma all_current_Inr: "all_current f refs = Inr b \<Longrightarrow> b \<longleftrightarrow> (\<forall>ref \<in> set refs. f ref = Inr True)"
  by (induction refs) (auto split: if_splits)

lemma semantic_dump_Continuity:
  "semantic_dump u = semantic_dump (Continuity v) \<Longrightarrow>
     \<exists>v'. u = Continuity v' \<and> v'\<lparr>cv_created_at := 0\<rparr> = v\<lparr>cv_created_at := 0\<rparr>"
  by (cases u) auto

lemma continuity_same_fields:
  assumes "v'\<lparr>cv_created_at := 0\<rparr> = v\<lparr>cv_created_at := 0\<rparr>"
  shows "continuity_ok v' = continuity_ok v"
    and "cv_authorization_revalidation_required v' = cv_authorization_revalidation_required v"
    and "cv_handoff_ref v' = cv_handoff_ref v"
  using assms by (cases v; cases v'; simp add: continuity_ok_def)+

lemma materialize_Inr:
  assumes "materialize_work E G cid w = (Inr wk, w')"
  obtains c p where
    "kernel_get E ''Commitment'' as_commitment (wd_store w) cid = Inr c"
    "get_proposal E (wd_store w) (cm_proposal_ref c) = Inr p"
    "st_event (wd_store w') = st_event (wd_store w)" "wd_tick w' = wd_tick w + 2"
    "get_work (wd_store w') (stable_id E ''work'' [cm_id c, wp_id p]) = Some wk"
    "work_dump wk = work_dump (work_of_commitment (stable_id E ''work'' [cm_id c, wp_id p])
        (env_clock E (wd_tick w)) (env_clock E (wd_tick w + 1)) c p)"
proof -
  note obtained = that
  obtain c p where cp: "kernel_get E ''Commitment'' as_commitment (wd_store w) cid = Inr c"
    "get_proposal E (wd_store w) (cm_proposal_ref c) = Inr p"
    using assms by (auto simp: materialize_work_def)
  let ?wid = "stable_id E ''work'' [cm_id c, wp_id p]"
  let ?new = "work_of_commitment ?wid (env_clock E (wd_tick w)) (env_clock E (wd_tick w + 1)) c p"
  let ?w2 = "w\<lparr>wd_tick := wd_tick w + 2\<rparr>"
  have run: "(case get_work (wd_store w) ?wid of
       Some old \<Rightarrow> raise_ifI (work_dump old \<noteq> work_dump ?new) ''deterministic responsibility Work identity rebound''
           (retI old)
     | None \<Rightarrow> bindI (on_store (save_work G ?new)) (\<lambda>_. retI ?new)) ?w2 = (Inr wk, w')"
    using assms cp unfolding materialize_work_def Let_def
    by (simp add: bindI_def readS_def utcnow_def cong del: option.case_cong_weak)
  show thesis
  proof (cases "get_work (wd_store w) ?wid")
    case None
    then have "wk = ?new" "wd_store w' = store_put (RWork ?new) (wd_store w)" "wd_tick w' = wd_tick w + 2"
      using run by (auto simp: save_work_def save_checked_def save_raw_def
          reject_unproven_terminal_write_def validate_candidate_write_def Let_def)
    moreover have "wk_id ?new = ?wid" by (simp add: work_of_commitment_def)
    ultimately show thesis using obtained [OF cp] by (simp add: get_work_def)
  next
    case (Some old)
    then show thesis using run obtained [OF cp] by auto
  qed
qed

section \<open>Properties\<close>

text \<open>C23: No history overcommits a pool: after any sequence of kernel operations on constructed
  objects, successful or refused, whose reservation instants do not go back, the reservations that
  hold a pool at any instant from the last one on use at most its capacity, in every dimension and
  domain quota.\<close>

theorem no_history_overcommits:
  assumes "\<forall>op \<in> set ops. valid_op op" "times_from T ops"
    and "Pool p \<in> set (objects (wd_store (run_ops E ops empty_world)))" "last_time T ops \<le> t"
  shows "usage (wd_store (run_ops E ops empty_world)) t (rp_id p) d \<le> rv_dim d (rp_capacity p)"
  using capacity_ok_run [OF capacity_ok_empty assms(1,2)] assms(3,4)
  by (simp add: capacity_ok_def within_capacity_def)

theorem no_history_overcommits_witness:
  "usage (wd_store (run_ops sample_env [Op_Pool sample_pool] empty_world)) 7 ''p1'' Compute \<le> 5"
proof -
  have v: "valid_object (Pool sample_pool)" using sample_objects_valid by (simp add: sample_objects_def)
  have f: "get_event (wd_store empty_world) (responsibility_event_id sample_env (object_id (Pool sample_pool))) = None"
    by (simp add: empty_world_def empty_store_def get_event_def)
  obtain w' where sv: "save_append_only sample_env (Pool sample_pool) empty_world = (Inr (Pool sample_pool), w')"
    using save_append_only_fresh [OF f] by blast
  have ok: "journal_ok sample_env (wd_store empty_world)" "objects (wd_store empty_world) = []"
    by (simp_all add: empty_world_def)
  from ok(1) v sv have "Pool sample_pool \<in> set (objects (wd_store w'))"
    by (cases rule: save_append_only_cases) (simp_all add: ok(2))
  moreover have "\<not> is_blank (rp_policy_ref sample_pool)" by (simp add: sample_pool_def is_blank_def py_isspace_def)
  ultimately have "Pool sample_pool \<in> set (objects (wd_store (run_ops sample_env [Op_Pool sample_pool] empty_world)))"
    by (simp add: create_resource_pool_def raise_ifI_def sv)
  from no_history_overcommits [OF _ _ this, of 0 7 Compute] v show ?thesis
    by (simp add: valid_op_def) (simp add: sample_pool_def rv_zero_def)
qed


lemma sample_commit:
  "\<exists>w'. commit sample_env sample_commitment 5 sample_journal = (Inr (Commit sample_commitment), w')"
proof -
  have f: "get_event (wd_store sample_journal) (responsibility_event_id sample_env (object_id (Commit sample_commitment))) = None"
    by (simp add: sample_journal_def seeded_def get_event_def sample_objects_def)
      (simp add: sample_defs empty_store_def)
  have "cm_proposal_ref sample_commitment = ''w1''" "cm_priority_judgment_ref sample_commitment = ''j1''"
    "cm_portfolio_admission_ref sample_commitment = ''d1''" "cm_reservation_ref sample_commitment = ''v1''"
    "cm_responsibility_ref sample_commitment = ''r1''" "wp_assessment_ref sample_proposal = ''s1''"
    by (simp_all add: sample_commitment_def sample_proposal_def)
  then show ?thesis
    by (simp add: commit_def sample_gets sample_current sample_reservation_held save_append_only_fresh [OF f])
      (simp add: sample_commitment_def sample_proposal_def sample_judgment_def sample_portfolio_def
        sample_reservation_def sample_assessment_def stale_at_def, rule exI [of _ False], simp)
qed


text \<open>Materialized work carries its provenance and no authority: it is an open work under the
  deterministic identity of the commitment and the proposal, names both, states that external
  effects need separate authority, asks for the proposal's capabilities, and records no event.\<close>

theorem materialized_work_provenance:
  assumes "materialize_work E G cid w = (Inr wk, w')"
  shows "\<exists>c p. kernel_get E ''Commitment'' as_commitment (wd_store w) cid = Inr c
     \<and> get_proposal E (wd_store w) (cm_proposal_ref c) = Inr p
     \<and> get_work (wd_store w') (stable_id E ''work'' [cm_id c, wp_id p]) = Some wk
     \<and> wk_status wk = Work_Open
     \<and> fmlookup (wk_metadata wk) ''responsibility_proposal_ref'' = Some (JStr (wp_id p))
     \<and> fmlookup (wk_metadata wk) ''responsibility_commitment_ref'' = Some (JStr (cm_id c))
     \<and> fmlookup (wk_metadata wk) ''external_effect_authority'' = Some (JStr ''required-separately'')
     \<and> wk_requested_capabilities wk = wp_requested_capabilities p
     \<and> st_event (wd_store w') = st_event (wd_store w)"
  using assms
proof (cases rule: materialize_Inr)
  case (1 c p)
  have f: "wk_status wk = wk_status (work_dump wk)" "wk_metadata wk = wk_metadata (work_dump wk)"
    "wk_requested_capabilities wk = wk_requested_capabilities (work_dump wk)"
    by (simp_all add: work_dump_def)
  have "wk_status wk = Work_Open" "wk_requested_capabilities wk = wp_requested_capabilities p"
    unfolding f 1(6) by (simp_all add: work_dump_def work_of_commitment_def)
  moreover have "fmlookup (wk_metadata wk) ''responsibility_proposal_ref'' = Some (JStr (wp_id p))"
    "fmlookup (wk_metadata wk) ''responsibility_commitment_ref'' = Some (JStr (cm_id c))"
    "fmlookup (wk_metadata wk) ''external_effect_authority'' = Some (JStr ''required-separately'')"
    unfolding f 1(6) by (simp_all add: work_dump_def work_of_commitment_def)
  ultimately show ?thesis using 1 by metis
qed

definition committed_journal :: world where
  "committed_journal = seeded [Proposal sample_proposal, Commit sample_commitment]"

lemma committed_world:
  "kernel_get sample_env ''Commitment'' as_commitment (wd_store committed_journal) ''c1'' = Inr sample_commitment"
  "get_proposal sample_env (wd_store committed_journal) ''w1'' = Inr sample_proposal"
proof -
  let ?vs = "[Proposal sample_proposal, Commit sample_commitment]"
  have d: "distinct (map (\<lambda>v. responsibility_event_id sample_env (object_id v)) ?vs)"
    by (simp add: sample_proposal_def sample_commitment_def)
  have v: "list_all valid_object ?vs"
    by (simp add: valid_object_def validate_object_def sample_proposal_def sample_commitment_def
        sample_request_def is_blank_def py_isspace_def del: rv_error_None)
  note ok = seeded_ok [OF d v, folded committed_journal_def]
  show "kernel_get sample_env ''Commitment'' as_commitment (wd_store committed_journal) ''c1'' = Inr sample_commitment"
    "get_proposal sample_env (wd_store committed_journal) ''w1'' = Inr sample_proposal"
    using kernel_get_iff [OF ok(1) as_resource_iff(6)] kernel_get_iff [OF ok(1) as_object_iff(8)]
    by (simp_all add: ok(2)) (simp_all add: sample_proposal_def sample_commitment_def)
qed

lemma sample_materialize:
  obtains wk w' where "materialize_work sample_env (\<lambda>_. []) ''c1'' committed_journal = (Inr wk, w')"
proof -
  have "\<exists>wk w'. materialize_work sample_env (\<lambda>_. []) ''c1'' committed_journal = (Inr wk, w')"
  proof -
    have "cm_proposal_ref sample_commitment = ''w1''" by (simp add: sample_commitment_def)
    moreover have "get_work (wd_store committed_journal) i = None" for i
      by (simp add: committed_journal_def seeded_def get_work_def empty_store_def)
    ultimately show ?thesis
      unfolding materialize_work_def Let_def
      by (simp add: committed_world bindI_def readS_def utcnow_def on_store_def save_work_def save_checked_def
        save_raw_def reject_unproven_terminal_write_def validate_candidate_write_def Let_def work_of_commitment_def
        raise_ifI_def retI_def)
  qed
  then show thesis using that by blast
qed

theorem materialized_work_provenance_witness:
  "\<exists>wk w'. materialize_work sample_env (\<lambda>_. []) ''c1'' committed_journal = (Inr wk, w')
     \<and> fmlookup (wk_metadata wk) ''responsibility_commitment_ref'' = Some (JStr ''c1'')
     \<and> wk_requested_capabilities wk = [''read'']"
proof -
  obtain wk w' where m: "materialize_work sample_env (\<lambda>_. []) ''c1'' committed_journal = (Inr wk, w')"
    by (rule sample_materialize)
  from materialized_work_provenance [OF m] have
    "fmlookup (wk_metadata wk) ''responsibility_commitment_ref'' = Some (JStr (cm_id sample_commitment))"
    "wk_requested_capabilities wk = wp_requested_capabilities sample_proposal"
    using committed_world by (auto simp: sample_commitment_def)
  with m show ?thesis by (simp add: sample_commitment_def sample_proposal_def)
qed

text \<open>Materializing the same commitment again fails: the comparison that should make the call
  replay-safe keeps the time of the last update, which every call reads from the clock, so with a
  clock that moves the second call raises that the identity is rebound.\<close>

theorem materialize_replay_raises:
  assumes "materialize_work E G cid w = (Inr wk, w')" and clock: "strict_mono (env_clock E)"
  shows "fst (materialize_work E G cid w') = Inl (ValueError ''deterministic responsibility Work identity rebound'')"
  using assms(1)
proof (cases rule: materialize_Inr)
  case (1 c p)
  let ?wid = "stable_id E ''work'' [cm_id c, wp_id p]"
  let ?new = "\<lambda>n. work_of_commitment ?wid (env_clock E n) (env_clock E (n + 1)) c p"
  have get: "get_event (wd_store w') = get_event (wd_store w)"
    using 1(3) by (simp add: get_event_def fun_eq_iff)
  have cp: "kernel_get E ''Commitment'' as_commitment (wd_store w') cid = Inr c"
    "get_proposal E (wd_store w') (cm_proposal_ref c) = Inr p"
    using 1(1,2) by (simp_all add: kernel_get_found journal_get_def get)
  have "env_clock E (wd_tick w + 1) < env_clock E (wd_tick w' + 1)"
    using clock 1(4) by (simp add: strict_mono_def)
  moreover have "wk_updated_at (work_dump wk) = env_clock E (wd_tick w + 1)"
    unfolding 1(6) by (simp add: work_dump_def work_of_commitment_def)
  moreover have "wk_updated_at (work_dump (?new (wd_tick w'))) = env_clock E (wd_tick w' + 1)"
    by (simp add: work_dump_def work_of_commitment_def)
  ultimately have "work_dump wk \<noteq> work_dump (?new (wd_tick w'))" by fastforce
  then show ?thesis
    using cp 1(5) unfolding materialize_work_def Let_def
    by (simp add: bindI_def readS_def utcnow_def raise_ifI_def raiseI_def)
qed

theorem materialize_replay_raises_witness:
  "fst (materialize_work sample_env (\<lambda>_. []) ''c1''
      (snd (materialize_work sample_env (\<lambda>_. []) ''c1'' committed_journal)))
     = Inl (ValueError ''deterministic responsibility Work identity rebound'')"
proof -
  obtain wk w' where m: "materialize_work sample_env (\<lambda>_. []) ''c1'' committed_journal = (Inr wk, w')"
    by (rule sample_materialize)
  have "strict_mono (env_clock sample_env)" by (simp add: strict_mono_def)
  from materialize_replay_raises [OF m this] m show ?thesis by simp
qed

text \<open>A continuity validation tells whether a hand-off is current and never carries authority:
  its verdict is positive exactly when the responsibility is active at the snapshot's version and
  scope, every assessment and proposal of the snapshot is of the current version and fresh, every
  expectation open and every reservation held; whatever the verdict, authorization has to be
  validated again.\<close>

theorem handoff_validation_verdict:
  assumes "validate_handoff E hid now w = (Inr x, w')"
    and "journal_ok E (wd_store w)"
  shows "\<exists>v h sn version st sc status. x = Continuity v
     \<and> kernel_get E ''ResponsibilityHandoff'' as_handoff (wd_store w) hid = Inr h
     \<and> kernel_get E ''ResponsibilityContextSnapshot'' as_snapshot (wd_store w) (ho_context_snapshot_ref h) = Inr sn
     \<and> current_definition E (wd_store w) (ho_responsibility_ref h) = Inr (version, st, sc)
     \<and> current_status E (wd_store w) (ho_responsibility_ref h) = Inr status
     \<and> cv_handoff_ref v = ho_id h
     \<and> cv_authorization_revalidation_required v
     \<and> (continuity_ok v \<longleftrightarrow> status = Active
        \<and> version = sn_responsibility_version sn \<and> sc = sn_scope sn
        \<and> list_all (\<lambda>ref. assessment_current E (wd_store w) now version ref = Inr True) (sn_open_assessment_refs sn)
        \<and> list_all (\<lambda>ref. expectation_current E (wd_store w) version ref = Inr True) (sn_open_expectation_refs sn)
        \<and> list_all (\<lambda>ref. proposal_current E (wd_store w) now version ref = Inr True) (sn_active_proposal_refs sn)
        \<and> list_all (\<lambda>ref. reservation_current E (wd_store w) now ref = Inr True) (sn_reservation_refs sn))"
proof -
  let ?s = "wd_store w"
  obtain v where v: "continuity_of E ?s (env_clock E (wd_tick w)) hid now = Inr v"
    and sv: "save_append_only E (Continuity v) (w\<lparr>wd_tick := wd_tick w + 1\<rparr>) = (Inr x, w')"
    and valid: "valid_object (Continuity v)"
    using assms(1) by (auto simp: validate_handoff_def construct_def validate_object_Inr)
  obtain h sn version st sc status as xs ps rs where parts:
    "kernel_get E ''ResponsibilityHandoff'' as_handoff ?s hid = Inr h"
    "kernel_get E ''ResponsibilityContextSnapshot'' as_snapshot ?s (ho_context_snapshot_ref h) = Inr sn"
    "current_definition E ?s (ho_responsibility_ref h) = Inr (version, st, sc)"
    "current_status E ?s (ho_responsibility_ref h) = Inr status"
    "all_current (assessment_current E ?s now version) (sn_open_assessment_refs sn) = Inr as"
    "all_current (expectation_current E ?s version) (sn_open_expectation_refs sn) = Inr xs"
    "all_current (proposal_current E ?s now version) (sn_active_proposal_refs sn) = Inr ps"
    "all_current (reservation_current E ?s now) (sn_reservation_refs sn) = Inr rs"
    and fields: "cv_handoff_ref v = ho_id h" "cv_authorization_revalidation_required v"
    "continuity_ok v \<longleftrightarrow> status = Active \<and> (version = sn_responsibility_version sn \<and> sc = sn_scope sn) \<and> as \<and> xs \<and> ps \<and> rs"
    using v by (auto simp: continuity_of_def continuity_ok_def)
  have ok: "journal_ok E (wd_store (w\<lparr>wd_tick := wd_tick w + 1\<rparr>))" using assms(2) by simp
  have "semantic_dump x = semantic_dump (Continuity v)"
    by (rule save_append_only_cases [OF ok valid sv]) simp_all
  from semantic_dump_Continuity [OF this] obtain v' where v': "x = Continuity v'"
    and same: "v'\<lparr>cv_created_at := 0\<rparr> = v\<lparr>cv_created_at := 0\<rparr>" by blast
  note eq = continuity_same_fields [OF same]
  have cur: "as \<longleftrightarrow> list_all (\<lambda>ref. assessment_current E ?s now version ref = Inr True) (sn_open_assessment_refs sn)"
    "xs \<longleftrightarrow> list_all (\<lambda>ref. expectation_current E ?s version ref = Inr True) (sn_open_expectation_refs sn)"
    "ps \<longleftrightarrow> list_all (\<lambda>ref. proposal_current E ?s now version ref = Inr True) (sn_active_proposal_refs sn)"
    "rs \<longleftrightarrow> list_all (\<lambda>ref. reservation_current E ?s now ref = Inr True) (sn_reservation_refs sn)"
    using parts(5-8) [THEN all_current_Inr] by (simp_all add: list_all_iff)
  show ?thesis
    by (rule exI [of _ v'], rule exI [of _ h], rule exI [of _ sn], rule exI [of _ version], rule exI [of _ st],
        rule exI [of _ sc], rule exI [of _ status]) (simp add: v' parts(1-4) eq fields cur [symmetric])
qed

theorem handoff_validation_verdict_witness:
  "\<exists>v w'. validate_handoff sample_env ''h1'' 5 sample_journal = (Inr (Continuity v), w') \<and> continuity_ok v"
proof -
  have refs: "ho_context_snapshot_ref sample_handoff = ''n1''" "ho_responsibility_ref sample_handoff = ''r1''"
    "ho_id sample_handoff = ''h1''"
    "sn_open_assessment_refs sample_snapshot = [''s1'']" "sn_open_expectation_refs sample_snapshot = []"
    "sn_active_proposal_refs sample_snapshot = [''w1'']" "sn_reservation_refs sample_snapshot = [''v1'']"
    "sn_responsibility_version sample_snapshot = 1" "sn_scope sample_snapshot = fmempty"
    by (simp_all add: sample_handoff_def sample_snapshot_def)
  have cur: "assessment_current sample_env (wd_store sample_journal) 5 1 ''s1'' = Inr True"
    "proposal_current sample_env (wd_store sample_journal) 5 1 ''w1'' = Inr True"
    "reservation_current sample_env (wd_store sample_journal) 5 ''v1'' = Inr True"
    by (simp_all add: assessment_current_def proposal_current_def reservation_current_def sample_gets
        sample_reservation_held) (simp_all add: sample_assessment_def sample_proposal_def stale_at_def)
  obtain v where v: "continuity_of sample_env (wd_store sample_journal) 0 ''h1'' 5 = Inr v"
    by (simp add: continuity_of_def sample_gets sample_current refs cur)
  have "env_isoformat sample_env t = py_str_int t" for t by (simp add: sample_env_def)
  then have id: "cv_id v = stable_id sample_env ''continuity'' [''h1'', py_str_int 1, py_str_int 5]"
    using v by (auto simp: continuity_of_def sample_gets sample_current refs cur)
  have valid: "validate_object (Continuity v) = Inr (Continuity v)"
    by (simp add: validate_object_def id stable_id_def is_blank_def py_isspace_def)
  have f: "get_event (wd_store (sample_journal\<lparr>wd_tick := 1\<rparr>)) (responsibility_event_id sample_env (object_id (Continuity v))) = None"
    by (simp add: sample_journal_def seeded_def get_event_def sample_objects_def id stable_id_def)
      (simp add: sample_defs empty_store_def responsibility_event_id_def sample_env_def)
  have t: "wd_tick sample_journal = 0" by (simp add: sample_journal_def seeded_def)
  obtain w' where run: "validate_handoff sample_env ''h1'' 5 sample_journal = (Inr (Continuity v), w')"
    using v valid save_append_only_fresh [OF f]
    by (simp add: validate_handoff_def withI_def t construct_def bindI_def readS_def utcnow_def readI_def)
  from handoff_validation_verdict [OF run sample_world(1)] have "continuity_ok v"
    by (auto simp: sample_gets sample_current refs cur)
  with run show ?thesis by blast
qed

end
