(* ===== verification/Cognitive_Controller.thy ===== *)
theory Cognitive_Controller
  imports Responsibility_Kernel
begin

text \<open>
  The cognitive controller (\<open>controller/service.py\<close>): a state machine whose states and decisions are
  events of the journal, and the read projections that external policies use
  (\<open>controller/plugins.py\<close>).

  \<open>runtime.invoke\<close>, which runs a capability on a provider, and the policy's \<open>select\<close> are code
  outside the controller: parameters that may do anything to the world.  A state or decision is read
  back through its validators; \<open>model_copy\<close> does not run them.
\<close>

section \<open>The controller's events\<close>

definition controller_state_event :: string where
  "controller_state_event = ''ControllerStateRecorded''"

definition controller_decision_event :: string where
  "controller_decision_event = ''ControllerDecisionSelected''"

definition controller_result_event :: string where
  "controller_result_event = ''ControllerCapabilityResultObserved''"

definition controller_closure_event :: string where
  "controller_closure_event = ''ControllerCognitiveClosureFormed''"

definition controller_work_proposal_event :: string where
  "controller_work_proposal_event = ''ControllerWorkProposalHandedOff''"

definition controller_revision_event :: string where
  "controller_revision_event = ''ControllerRevisionAssessed''"

definition controller_reopen_required_event :: string where
  "controller_reopen_required_event = ''ControllerReopenRequired''"

lemmas controller_event_defs = controller_state_event_def controller_decision_event_def
  controller_result_event_def controller_closure_event_def controller_work_proposal_event_def
  controller_revision_event_def controller_reopen_required_event_def

definition as_state_payload :: "payload \<Rightarrow> controller_state option" where
  "as_state_payload p = (case p of PControllerState s \<Rightarrow> Some s | _ \<Rightarrow> None)"

definition as_decision_payload :: "payload \<Rightarrow> controller_decision option" where
  "as_decision_payload p = (case p of PControllerDecision d \<Rightarrow> Some d | _ \<Rightarrow> None)"

definition as_closure_payload :: "payload \<Rightarrow> cognitive_closure option" where
  "as_closure_payload p = (case p of PControllerClosure _ c \<Rightarrow> Some c | _ \<Rightarrow> None)"

definition as_revision_payload :: "payload \<Rightarrow> revision_assessment option" where
  "as_revision_payload p = (case p of PControllerRevision _ r \<Rightarrow> Some r | _ \<Rightarrow> None)"

lemma as_payload_iff [simp]:
  "as_state_payload p = Some s \<longleftrightarrow> p = PControllerState s"
  "as_decision_payload p = Some d \<longleftrightarrow> p = PControllerDecision d"
  "as_closure_payload p = Some c \<longleftrightarrow> (\<exists>ref. p = PControllerClosure ref c)"
  "as_revision_payload p = Some r \<longleftrightarrow> (\<exists>ref. p = PControllerRevision ref r)"
  by (auto simp: as_state_payload_def as_decision_payload_def as_closure_payload_def as_revision_payload_def
      split: payload.splits)

section \<open>Reading the journal\<close>

text \<open>The events of one type about a controller whose payload holds the expected document, newest first.\<close>

definition documents :: "string \<Rightarrow> (payload \<Rightarrow> 'a option) \<Rightarrow> store \<Rightarrow> string \<Rightarrow> 'a list" where
  "documents ty sel s cid =
     List.map_filter (\<lambda>e. if ev_type e \<noteq> ty then None else sel (ev_payload e)) (list_events s (Some cid))"

definition controller_get :: "store \<Rightarrow> string \<Rightarrow> controller_state option result" where
  "controller_get s cid =
     bindR (traverse validate_state (documents controller_state_event as_state_payload s cid)) (\<lambda>states.
     Inr (case states of
        [] \<Rightarrow> None
      | m # rest \<Rightarrow> Some (py_max_by (\<lambda>c. (ct_version c, ct_updated_at c)) m rest)))"

definition controller_decisions :: "store \<Rightarrow> string \<Rightarrow> controller_decision list result" where
  "controller_decisions s cid =
     traverse validate_decision (documents controller_decision_event as_decision_payload s cid)"

definition controller_closures :: "store \<Rightarrow> string \<Rightarrow> cognitive_closure list result" where
  "controller_closures s cid =
     traverse validate_closure (documents controller_closure_event as_closure_payload s cid)"

definition get_closure :: "store \<Rightarrow> string \<Rightarrow> string \<Rightarrow> cognitive_closure option result" where
  "get_closure s cid closure_id =
     bindR (controller_closures s cid) (\<lambda>cs. Inr (find (\<lambda>c. cl_id c = closure_id) cs))"

definition controller_revisions :: "store \<Rightarrow> string \<Rightarrow> revision_assessment list result" where
  "controller_revisions s cid =
     traverse validate_revision (documents controller_revision_event as_revision_payload s cid)"

section \<open>Recording\<close>

definition record_state :: "env \<Rightarrow> controller_state \<Rightarrow> (world, unit) io" where
  "record_state E c =
     bindI (append_new_event E controller_state_event (ct_id c) (PControllerState c)) (\<lambda>_. retI ())"

definition record_decision :: "env \<Rightarrow> controller_decision \<Rightarrow> (world, unit) io" where
  "record_decision E d =
     bindI (append_new_event E controller_decision_event (cd_controller_ref d) (PControllerDecision d))
       (\<lambda>_. retI ())"

definition controller_create ::
    "env \<Rightarrow> string option \<Rightarrow> string option \<Rightarrow> string list \<Rightarrow> string list \<Rightarrow> string list \<Rightarrow> string option
      \<Rightarrow> (world, controller_state) io" where
  "controller_create E responsibility_ref subject_ref context candidates issues controller_id =
     bindI (case controller_id of
         None \<Rightarrow> new_id E ''controller''
       | Some i \<Rightarrow> if i = [] then new_id E ''controller'' else retI i) (\<lambda>cid.
     bindI (utcnow E) (\<lambda>created.
     bindI (utcnow E) (\<lambda>updated.
     let state = \<lparr>ct_id = cid, ct_responsibility_ref = responsibility_ref, ct_subject_ref = subject_ref,
           ct_context_refs = context, ct_candidate_refs = candidates, ct_open_issue_refs = issues,
           ct_status = Open, ct_version = 0, ct_pending_ref = None, ct_active_closure_ref = None,
           ct_work_proposal_ref = None, ct_last_revision_ref = None, ct_last_decision_ref = None,
           ct_last_result_ref = None, ct_created_at = created, ct_updated_at = updated\<rparr> in
     bindI (readS (\<lambda>s. controller_get s cid)) (\<lambda>existing.
     raise_ifI (existing \<noteq> None) (''controller state already exists: '' @ cid)
    (bindI (record_state E state) (\<lambda>_.
     retI state))))))"

text \<open>A reference to set by \<open>_transition\<close>; \<open>Unchanged\<close> is the sentinel \<open>_UNCHANGED\<close>.\<close>

datatype ref_update = Unchanged | To "string option"

fun updated_ref :: "ref_update \<Rightarrow> string option \<Rightarrow> string option" where
  "updated_ref Unchanged r = r"
| "updated_ref (To q) r = q"

definition transition_state ::
    "env \<Rightarrow> controller_state \<Rightarrow> controller_decision \<Rightarrow> controller_status \<Rightarrow> string option
      \<Rightarrow> ref_update \<Rightarrow> ref_update \<Rightarrow> ref_update \<Rightarrow> ref_update \<Rightarrow> (world, controller_state) io" where
  "transition_state E c d status pending closure proposal revision res =
     bindI (utcnow E) (\<lambda>t.
     let c' = c\<lparr>ct_status := status, ct_version := ct_version c + 1, ct_pending_ref := pending,
           ct_last_decision_ref := Some (cd_id d), ct_updated_at := t,
           ct_active_closure_ref := updated_ref closure (ct_active_closure_ref c),
           ct_work_proposal_ref := updated_ref proposal (ct_work_proposal_ref c),
           ct_last_revision_ref := updated_ref revision (ct_last_revision_ref c),
           ct_last_result_ref := updated_ref res (ct_last_result_ref c)\<rparr> in
     bindI (record_state E c') (\<lambda>_. retI c'))"

section \<open>Admission of decisions\<close>

fun admitted_kinds :: "controller_status \<Rightarrow> string option \<Rightarrow> string option \<Rightarrow> decision_kind list" where
  "admitted_kinds Open None _ = [Invoke_Capability, Form_Closure, Close, Wait]"
| "admitted_kinds Open (Some _) _ = [Propose_Work, Close, Wait]"
| "admitted_kinds Waiting (Some _) (Some _) = [Assess_Revision]"
| "admitted_kinds Waiting _ _ = [Reopen]"
| "admitted_kinds Closed _ _ = [Reopen]"
| "admitted_kinds Reopen_Required _ _ = [Reopen]"

definition admits :: "controller_state \<Rightarrow> decision_kind \<Rightarrow> bool" where
  "admits c k \<longleftrightarrow> k \<in> set (admitted_kinds (ct_status c) (ct_active_closure_ref c) (ct_work_proposal_ref c))"

definition refusal :: "controller_state \<Rightarrow> decision_kind \<Rightarrow> string" where
  "refusal c k =
     (if ct_status c = Open \<and> ct_active_closure_ref c \<noteq> None
        then ''active cognitive closure admits only propose-work, close, or wait; ''
          @ ''explicit reopen is required before further exploration''
      else if ct_status c = Waiting \<and> ct_work_proposal_ref c \<noteq> None
        then ''handed-off Work requires RevisionAssessment before retry, reopen, or close''
      else if ct_status c = Open
        then ''open controller state does not admit '' @ decision_kind_str k
      else controller_status_str (ct_status c) @ '' controller state does not admit '' @ decision_kind_str k)"

definition require_current :: "store \<Rightarrow> controller_decision \<Rightarrow> controller_state result" where
  "require_current s d =
     bindR (controller_get s (cd_controller_ref d)) (\<lambda>found.
     case found of
       None \<Rightarrow> Inl (ValueError (''unknown controller state: '' @ cd_controller_ref d))
     | Some c \<Rightarrow>
         raise_if (cd_state_version d \<noteq> ct_version c)
           (''stale controller decision: expected state version '' @ py_str_int (ct_version c)
             @ '', got '' @ py_str_int (cd_state_version d))
        (raise_if (\<not> admits c (cd_kind d)) (refusal c (cd_kind d)) (Inr c)))"

section \<open>Applying a decision\<close>

text \<open>\<open>await runtime.invoke(request)\<close>.\<close>

type_synonym invoker = "capability_request \<Rightarrow> (world, capability_result) io"

definition request_of_decision ::
    "string \<Rightarrow> string \<Rightarrow> controller_state \<Rightarrow> controller_decision \<Rightarrow> capability_request" where
  "request_of_decision rid cap c d =
     \<lparr>cq_id = rid, cq_capability = cap, cq_work_id = None, cq_run_id = None,
      cq_instruction = cd_instruction d, cq_input_artifact_refs = [], cq_parameters = cd_parameters d,
      cq_constraints = cd_constraints d, cq_preferred_provider_ids = [], cq_excluded_provider_ids = [],
      cq_metadata = fmap_of_list
        [(''controller_ref'', JStr (ct_id c)), (''controller_decision_ref'', JStr (cd_id d)),
         (''controller_state_version'', JInt (ct_version c))],
      cq_idempotency_key = None, cq_step_key = None, cq_actor_ref = None, cq_resource_ref = None,
      cq_subject_version_refs = [], cq_effect_class = Eff_Read, cq_lease_generation = 0,
      cq_lease_owner = None\<rparr>"

definition waiting_for_result :: "string \<Rightarrow> time \<Rightarrow> controller_state \<Rightarrow> controller_decision \<Rightarrow> controller_state" where
  "waiting_for_result rid t c d = c\<lparr>ct_status := Waiting, ct_version := ct_version c + 1,
     ct_pending_ref := Some rid, ct_last_decision_ref := Some (cd_id d), ct_updated_at := t\<rparr>"

definition resumed_with :: "string \<Rightarrow> time \<Rightarrow> controller_state \<Rightarrow> controller_state" where
  "resumed_with event_id t waiting = waiting\<lparr>ct_status := Open, ct_version := ct_version waiting + 1,
     ct_pending_ref := None, ct_last_result_ref := Some event_id, ct_updated_at := t\<rparr>"

definition invoke_capability ::
    "env \<Rightarrow> invoker \<Rightarrow> controller_state \<Rightarrow> controller_decision \<Rightarrow> (world, controller_state) io" where
  "invoke_capability E run_cap c d =
     (case cd_capability d of
        None \<Rightarrow> raiseI (ValueError ''invoke-capability decision has no capability'')
      | Some cap \<Rightarrow>
          bindI (new_id E ''request'') (\<lambda>rid.
          bindI (utcnow E) (\<lambda>t1.
          bindI (record_state E (waiting_for_result rid t1 c d)) (\<lambda>_.
          bindI (run_cap (request_of_decision rid cap c d)) (\<lambda>result.
          bindI (append_new_event E controller_result_event (ct_id c)
              (PControllerResult (cd_id d) rid (ct_version c) result)) (\<lambda>event_id.
          bindI (utcnow E) (\<lambda>t2.
          bindI (record_state E (resumed_with event_id t2 (waiting_for_result rid t1 c d))) (\<lambda>_.
          retI (resumed_with event_id t2 (waiting_for_result rid t1 c d))))))))))"

definition missing_issues :: "controller_state \<Rightarrow> cognitive_closure \<Rightarrow> string list" where
  "missing_issues c cl = sort (remdups (filter (\<lambda>i. i \<notin> set (cl_deferred_issue_refs cl)) (ct_open_issue_refs c)))"

definition form_closure :: "env \<Rightarrow> controller_state \<Rightarrow> controller_decision \<Rightarrow> (world, controller_state) io" where
  "form_closure E c d =
     (case cd_closure d of
        None \<Rightarrow> raiseI (ValueError ''form-closure decision has no closure'')
      | Some cl \<Rightarrow>
          raise_ifI (ct_responsibility_ref c \<noteq> cl_responsibility_ref cl)
            ''closure responsibility_ref does not match controller state''
         (raise_ifI (ct_subject_ref c \<noteq> cl_subject_ref cl)
            ''closure subject_ref does not match controller state''
         (raise_ifI (ct_candidate_refs c \<noteq> []
              \<and> \<not> set (cl_selected_candidate_refs cl) \<subseteq> set (ct_candidate_refs c))
            ''closure selected_candidate_refs are not current controller candidates''
         (raise_ifI (missing_issues c cl \<noteq> [])
            (''closure must explicitly defer every unresolved controller issue: ''
              @ py_join '', '' (missing_issues c cl))
         (raise_ifI (cd_policy_ref d \<noteq> None \<and> cl_policy_ref cl \<noteq> None \<and> cl_policy_ref cl \<noteq> cd_policy_ref d)
            ''closure policy_ref conflicts with controller decision''
         (let cl' = (if cd_policy_ref d \<noteq> None then cl\<lparr>cl_policy_ref := cd_policy_ref d\<rparr> else cl) in
          bindI (append_new_event E controller_closure_event (ct_id c) (PControllerClosure (cd_id d) cl')) (\<lambda>event_id.
          transition_state E c d Open None (To (Some (cl_id cl'))) Unchanged Unchanged (To (Some event_id)))))))))"

definition proposal_of :: "string \<Rightarrow> time \<Rightarrow> string \<Rightarrow> string \<Rightarrow> int \<Rightarrow> string \<Rightarrow> string
    \<Rightarrow> controller_decision \<Rightarrow> cognitive_closure \<Rightarrow> work_proposal" where
  "proposal_of pid created rid subject version assessment title d cl =
     \<lparr>wp_id = pid, wp_created_at = created, wp_responsibility_ref = rid, wp_responsibility_version = version,
      wp_assessment_ref = assessment, wp_subject_ref = subject, wp_work_kind = cd_work_kind d,
      wp_title = title, wp_description = cd_work_description d, wp_requested_resources = rv_zero,
      wp_requested_capabilities =
        (if cd_requested_capabilities d \<noteq> [] then cd_requested_capabilities d else cl_requested_capabilities cl),
      wp_expected_result =
        (if cd_expected_result d \<noteq> [] then cd_expected_result d else py_join ''; '' (cl_acceptance_criteria cl)),
      wp_stop_conditions =
        (if cd_stop_conditions d \<noteq> [] then cd_stop_conditions d else cl_stop_conditions cl),
      wp_escalation_conditions =
        (if cd_escalation_conditions d \<noteq> [] then cd_escalation_conditions d else cl_escalation_conditions cl),
      wp_effect_class = cl_effect_class cl, wp_fresh_until = None\<rparr>"

text \<open>The guards of \<open>_propose_work\<close> up to the closure, which give what the proposal is built from.\<close>

definition proposal_basis :: "store \<Rightarrow> controller_state \<Rightarrow> controller_decision
    \<Rightarrow> (string \<times> string \<times> string \<times> string \<times> cognitive_closure) result" where
  "proposal_basis s c d =
     (case ct_responsibility_ref c of
        None \<Rightarrow> Inl (ValueError ''propose-work requires controller responsibility_ref'')
      | Some rid \<Rightarrow>
     (case ct_subject_ref c of
        None \<Rightarrow> Inl (ValueError ''propose-work requires controller subject_ref'')
      | Some subject \<Rightarrow>
     (case (cd_assessment_ref d, cd_work_title d) of
        (Some assessment, Some title) \<Rightarrow>
          (case cd_closure_ref d of
             None \<Rightarrow> Inl (ValueError ''propose-work must reference the active cognitive closure'')
           | Some closure_ref \<Rightarrow>
               raise_if (Some closure_ref \<noteq> ct_active_closure_ref c)
                 ''propose-work must reference the active cognitive closure''
              (bindR (get_closure s (ct_id c) closure_ref) (\<lambda>found.
               case found of
                 None \<Rightarrow> Inl (ValueError ''active cognitive closure is unavailable'')
               | Some cl \<Rightarrow>
                   bindR (parse_effect_class (cd_effect_class d)) (\<lambda>eff.
                   raise_if (eff \<noteq> cl_effect_class cl)
                     ''work effect_class exceeds or differs from cognitive closure''
                  (raise_if (\<not> set (cd_requested_capabilities d) \<subseteq> set (cl_requested_capabilities cl))
                     ''work requests capabilities outside cognitive closure''
                  (Inr (rid, subject, assessment, title, cl)))))))
      | _ \<Rightarrow> Inl (ValueError ''propose-work decision is incomplete''))))"

definition propose_work :: "env \<Rightarrow> controller_state \<Rightarrow> controller_decision \<Rightarrow> (world, controller_state) io" where
  "propose_work E c d =
     bindI (readS (\<lambda>s. proposal_basis s c d)) (\<lambda>(rid, subject, assessment, title, cl).
     bindI (readS (\<lambda>s. current_definition E s rid)) (\<lambda>(version, _, _).
     bindI (new_id E ''resp'') (\<lambda>pid.
     bindI (utcnow E) (\<lambda>created.
     let p = proposal_of pid created rid subject version assessment title d cl in
     bindI (construct (Proposal p)) (\<lambda>_.
     bindI (utcnow E) (\<lambda>now.
     bindI (propose E p now) (\<lambda>proposal.
     bindI (append_new_event E controller_work_proposal_event (ct_id c)
         (PControllerProposal (cd_id d) (cl_id cl) (object_id proposal) rid)) (\<lambda>_.
     transition_state E c d Waiting (Some (object_id proposal)) Unchanged
       (To (Some (object_id proposal))) Unchanged (To (Some (object_id proposal)))))))))))"

text \<open>Where a revision assessment leads.\<close>

fun revision_outcome :: "revision_assessment \<Rightarrow> controller_status \<times> string option" where
  "revision_outcome r =
     (case rev_recommended_disposition r of
        Disp_Close \<Rightarrow> (Closed, None)
      | Revise_Work \<Rightarrow> (Reopen_Required, None)
      | Reopen_Cognition \<Rightarrow> (Reopen_Required, None)
      | Acquire_Evidence \<Rightarrow> (Reopen_Required, None)
      | _ \<Rightarrow> (Waiting, Some (rev_id r)))"

definition revision_guard :: "store \<Rightarrow> controller_state \<Rightarrow> controller_decision \<Rightarrow> revision_assessment result" where
  "revision_guard s c d =
     (case cd_revision d of
        None \<Rightarrow> Inl (ValueError ''assess-revision decision has no revision'')
      | Some r \<Rightarrow>
          raise_if (ct_active_closure_ref c = None) ''revision requires an active cognitive closure''
         (raise_if (ct_work_proposal_ref c = None) ''revision requires a handed-off WorkProposal''
         (raise_if (Some (rev_closure_ref r) \<noteq> ct_active_closure_ref c)
            ''revision does not refer to the active cognitive closure''
         (case get_work s (rev_work_ref r) of
            None \<Rightarrow> Inl (ValueError ''revision work_ref does not identify a durable Work'')
          | Some w \<Rightarrow>
              raise_if (fmlookup (wk_metadata w) ''responsibility_proposal_ref''
                  \<noteq> map_option JStr (ct_work_proposal_ref c))
                ''revision Work does not descend from the current WorkProposal''
             (raise_if (cd_policy_ref d \<noteq> None \<and> rev_policy_ref r \<noteq> None \<and> rev_policy_ref r \<noteq> cd_policy_ref d)
                ''revision policy_ref conflicts with controller decision''
             (Inr (if cd_policy_ref d \<noteq> None then r\<lparr>rev_policy_ref := cd_policy_ref d\<rparr> else r)))))))"

definition assess_revision :: "env \<Rightarrow> controller_state \<Rightarrow> controller_decision \<Rightarrow> (world, controller_state) io" where
  "assess_revision E c d =
     bindI (readS (\<lambda>s. revision_guard s c d)) (\<lambda>r.
     bindI (append_new_event E controller_revision_event (ct_id c) (PControllerRevision (cd_id d) r)) (\<lambda>_.
     case revision_outcome r of (status, pending) \<Rightarrow>
       transition_state E c d status pending Unchanged Unchanged (To (Some (rev_id r))) (To (Some (rev_id r)))))"

definition controller_apply :: "env \<Rightarrow> invoker \<Rightarrow> controller_decision \<Rightarrow> (world, controller_state) io" where
  "controller_apply E run_cap d =
     bindI (readS (\<lambda>s. require_current s d)) (\<lambda>c.
     bindI (record_decision E d) (\<lambda>_.
     case cd_kind d of
       Invoke_Capability \<Rightarrow> invoke_capability E run_cap c d
     | Form_Closure \<Rightarrow> form_closure E c d
     | Propose_Work \<Rightarrow> propose_work E c d
     | Assess_Revision \<Rightarrow> assess_revision E c d
     | Close \<Rightarrow> transition_state E c d Closed None Unchanged Unchanged Unchanged Unchanged
     | Reopen \<Rightarrow> transition_state E c d Open None (To None) (To None) Unchanged Unchanged
     | Wait \<Rightarrow> transition_state E c d Waiting (Some (cd_id d)) Unchanged Unchanged Unchanged Unchanged))"

section \<open>Stepping a policy, and reopening\<close>

record controller_policy =
  po_ref :: string
  po_select :: "controller_state \<Rightarrow> (world, controller_decision) io"

definition controller_step :: "env \<Rightarrow> invoker \<Rightarrow> string \<Rightarrow> controller_policy \<Rightarrow> (world, controller_state) io" where
  "controller_step E run_cap cid policy =
     bindI (readS (\<lambda>s. controller_get s cid)) (\<lambda>found.
     case found of
       None \<Rightarrow> raiseI (ValueError (''unknown controller state: '' @ cid))
     | Some c \<Rightarrow>
         raise_ifI (py_strip (po_ref policy) = []) ''controller policy_ref cannot be blank''
        (bindI (po_select policy c) (\<lambda>d.
         raise_ifI (cd_controller_ref d \<noteq> ct_id c)
           ''controller policy selected a decision for another controller''
        (raise_ifI (cd_state_version d \<noteq> ct_version c)
           (''controller policy selected stale state version '' @ py_str_int (cd_state_version d)
             @ ''; current version is '' @ py_str_int (ct_version c))
        (controller_apply E run_cap (d\<lparr>cd_policy_ref := Some (py_strip (po_ref policy))\<rparr>))))))"

definition reopen_required :: "env \<Rightarrow> string \<Rightarrow> string \<Rightarrow> (world, controller_state) io" where
  "reopen_required E cid reason =
     bindI (readS (\<lambda>s. controller_get s cid)) (\<lambda>found.
     case found of
       None \<Rightarrow> raiseI (ValueError (''unknown controller state: '' @ cid))
     | Some c \<Rightarrow>
         bindI (append_new_event E controller_reopen_required_event (ct_id c)
             (PReopenRequired reason (ct_version c))) (\<lambda>_.
         bindI (utcnow E) (\<lambda>t.
         let c' = c\<lparr>ct_status := Reopen_Required, ct_version := ct_version c + 1,
               ct_pending_ref := None, ct_updated_at := t\<rparr> in
         bindI (record_state E c') (\<lambda>_. retI c'))))"

section \<open>Projections for policy plugins\<close>

text \<open>The integer under a key, where a boolean is not one.\<close>

fun version_value :: "json option \<Rightarrow> int option" where
  "version_value (Some (JInt n)) = Some n"
| "version_value _ = None"

fun first_version :: "int option list \<Rightarrow> int option" where
  "first_version [] = None"
| "first_version (Some n # vs) = Some n"
| "first_version (None # vs) = first_version vs"

fun payload_versions :: "payload \<Rightarrow> int option list" where
  "payload_versions (PControllerResult _ _ n _) = [Some n]"
| "payload_versions (PControllerDecision d) = [Some (cd_state_version d)]"
| "payload_versions (PDict m) =
     [version_value (fmlookup m ''controller_state_version''), version_value (fmlookup m ''state_version'')]
     @ (case fmlookup m ''decision'' of
          Some (JObj d) \<Rightarrow>
            [version_value (fmlookup d ''controller_state_version''), version_value (fmlookup d ''state_version'')]
        | _ \<Rightarrow> [])"
| "payload_versions _ = []"

definition event_state_version :: "event \<Rightarrow> int option" where
  "event_state_version e = first_version
     (version_value (fmlookup (ev_metadata e) ''controller_state_version'')
      # version_value (fmlookup (ev_metadata e) ''state_version'') # payload_versions (ev_payload e))"

definition chronology_key :: "event \<Rightarrow> int \<times> time \<times> string" where
  "chronology_key e = (case event_state_version e of None \<Rightarrow> -1 | Some n \<Rightarrow> n, ev_created_at e, ev_id e)"

definition latest :: "(event \<times> 'a) list \<Rightarrow> 'a option" where
  "latest xs = (case xs of [] \<Rightarrow> None | x # ys \<Rightarrow> Some (snd (py_max_by (\<lambda>(e, _). chronology_key e) x ys)))"

definition latest_controller_decision :: "store \<Rightarrow> string \<Rightarrow> controller_decision option result" where
  "latest_controller_decision s cid =
     bindR (traverse (\<lambda>(e, d). bindR (validate_decision d) (\<lambda>_. Inr (e, d)))
        (List.map_filter (\<lambda>e. if ev_type e \<noteq> controller_decision_event then None
             else map_option (\<lambda>d. (e, d)) (as_decision_payload (ev_payload e))) (list_events s (Some cid))))
       (\<lambda>xs. Inr (latest xs))"

definition controller_capability_result :: "store \<Rightarrow> string \<Rightarrow> string \<Rightarrow> capability_result option" where
  "controller_capability_result s cid decision_ref =
     latest (List.map_filter (\<lambda>e. if ev_type e \<noteq> controller_result_event then None
        else (case ev_payload e of
            PControllerResult ref _ _ r \<Rightarrow> if ref \<noteq> decision_ref then None else Some (e, r)
          | _ \<Rightarrow> None)) (list_events s (Some cid)))"

end
