(* ===== verification/Controller_Histories.thy ===== *)
theory Controller_Histories
  imports Cognitive_Controller
begin

text \<open>
  What a controller's history guarantees: the abstract phases of cognitive work that the controller
  of \<open>Cognitive_Controller\<close> refines, which states are on record after each operation, and what a
  refused decision leaves unchanged.
\<close>

section \<open>The states on record\<close>

definition recorded_states :: "store \<Rightarrow> string \<Rightarrow> controller_state set" where
  "recorded_states s cid = {c. \<exists>e \<in> snd ` set (st_event s).
     ev_subject_ref e = cid \<and> ev_type e = controller_state_event \<and> ev_payload e = PControllerState c}"

lemma set_list_events: "set (list_events s (Some cid)) = {e \<in> snd ` set (st_event s). ev_subject_ref e = cid}"
  by (auto simp: list_events_def newest_first_def)

lemma set_documents:
  "set (documents ty sel s cid) = {x. \<exists>e \<in> snd ` set (st_event s).
     ev_subject_ref e = cid \<and> ev_type e = ty \<and> sel (ev_payload e) = Some x}"
  by (force simp: documents_def List.map_filter_def set_list_events split: if_splits)

lemma set_state_documents:
  "set (documents controller_state_event as_state_payload s cid) = recorded_states s cid"
  by (simp add: set_documents recorded_states_def)

definition state_key :: "controller_state \<Rightarrow> int \<times> time" where
  "state_key c = (ct_version c, ct_updated_at c)"

lemma traverse_Inr: "traverse f xs = Inr ys \<Longrightarrow> list_all2 (\<lambda>x y. f x = Inr y) xs ys"
  by (induction xs arbitrary: ys) auto

lemma traverse_validate_state:
  "traverse validate_state xs = Inr ys \<longleftrightarrow> (\<forall>c \<in> set xs. valid_state c) \<and> ys = xs"
proof
  assume "traverse validate_state xs = Inr ys"
  then have "list_all2 (\<lambda>x y. valid_state x \<and> y = x) xs ys"
    using traverse_Inr by (fastforce simp: validate_state_Inr)
  then show "(\<forall>c \<in> set xs. valid_state c) \<and> ys = xs"
    by (induction rule: list_all2_induct) auto
next
  assume "(\<forall>c \<in> set xs. valid_state c) \<and> ys = xs"
  then show "traverse validate_state xs = Inr ys"
    using traverse_total [of xs validate_state id] by (simp add: valid_state_def)
qed

lemma controller_get_None: "controller_get s cid = Inr None \<longleftrightarrow> recorded_states s cid = {}"
proof -
  let ?xs = "documents controller_state_event as_state_payload s cid"
  have "controller_get s cid = Inr None \<longleftrightarrow> ?xs = []"
    by (auto simp: controller_get_def traverse_validate_state split: list.splits)
  also have "\<dots> \<longleftrightarrow> recorded_states s cid = {}"
    using set_state_documents [of s cid] by (metis set_empty)
  finally show ?thesis .
qed

lemma controller_get_Some:
  assumes "controller_get s cid = Inr (Some c)"
  shows "c \<in> recorded_states s cid" and "\<forall>d \<in> recorded_states s cid. valid_state d \<and> state_key d \<le> state_key c"
proof -
  let ?xs = "documents controller_state_event as_state_payload s cid"
  from assms obtain m rest where xs: "?xs = m # rest" and valid: "\<forall>d \<in> set ?xs. valid_state d"
    and c: "c = py_max_by state_key m rest"
    by (auto simp: controller_get_def traverse_validate_state state_key_def [abs_def] split: list.splits)
  have rec: "recorded_states s cid = insert m (set rest)"
    using set_state_documents [of s cid] xs by simp
  show "c \<in> recorded_states s cid" unfolding rec c by (rule py_max_by_in)
  show "\<forall>d \<in> recorded_states s cid. valid_state d \<and> state_key d \<le> state_key c"
    using valid xs rec py_max_by_ge [of _ m rest state_key] c by auto
qed

lemma controller_get_latest:
  assumes "\<forall>d \<in> recorded_states s cid. valid_state d" "c \<in> recorded_states s cid"
    and "\<forall>d \<in> recorded_states s cid. d \<noteq> c \<longrightarrow> state_key d < state_key c"
  shows "controller_get s cid = Inr (Some c)"
proof -
  let ?xs = "documents controller_state_event as_state_payload s cid"
  obtain m rest where xs: "?xs = m # rest"
    using assms(2) set_state_documents [of s cid] by (cases ?xs) auto
  then have rec: "recorded_states s cid = insert m (set rest)"
    using set_state_documents [of s cid] by simp
  have "py_max_by state_key m rest = c"
    by (rule py_max_by_unique) (use assms rec in auto)
  moreover have "traverse validate_state ?xs = Inr ?xs"
    using assms(1) set_state_documents [of s cid] by (simp add: traverse_validate_state)
  ultimately show ?thesis
    by (simp add: controller_get_def xs state_key_def [abs_def])
qed

lemma controller_get_invalid:
  assumes "c \<in> recorded_states s cid" "\<not> valid_state c"
  shows "\<exists>e. controller_get s cid = Inl e"
proof (cases "controller_get s cid")
  case (Inr found)
  then show ?thesis
    using assms controller_get_None controller_get_Some(2) by (cases found) fastforce+
qed simp

lemma controller_get_total:
  assumes "\<forall>d \<in> recorded_states s cid. valid_state d"
  obtains found where "controller_get s cid = Inr found"
  using assms set_state_documents [of s cid] traverse_validate_state [THEN iffD2]
  by (simp add: controller_get_def)

lemma controller_get_cong:
  assumes "st_event s = st_event t"
  shows "controller_get s cid = controller_get t cid"
  using assms by (simp add: controller_get_def documents_def list_events_def)

section \<open>Which operations record states\<close>

definition silent :: "world \<Rightarrow> world \<Rightarrow> bool" where
  "silent w v \<longleftrightarrow> world_grows w v \<and> recorded_states (wd_store v) = recorded_states (wd_store w)"

lemma reflp_silent [simp, intro]: "reflp silent"
  by (simp add: reflp_def silent_def world_grows_def)

lemma transp_silent [simp, intro]: "transp silent"
proof (rule transpI)
  fix u v w
  assume "silent u v" "silent v w"
  then show "silent u w" using transpD [OF transp_world_grows] by (auto simp: silent_def)
qed

lemma recorded_snoc:
  "recorded_states (s\<lparr>st_event := st_event s @ [(i, e)]\<rparr>) cid = recorded_states s cid
     \<union> {c. ev_subject_ref e = cid \<and> ev_type e = controller_state_event \<and> ev_payload e = PControllerState c}"
  by (auto simp: recorded_states_def)

lemma append_event_recorded:
  assumes "append_event e s = (r, t)"
  shows "recorded_states t cid = (if r = Inr () then recorded_states s cid
     \<union> {c. ev_subject_ref e = cid \<and> ev_type e = controller_state_event \<and> ev_payload e = PControllerState c}
     else recorded_states s cid)"
proof (cases rule: append_event_cases [of e s])
  case (replay old)
  then have same: "ev_subject_ref old = ev_subject_ref e" "ev_type old = ev_type e" "ev_payload old = ev_payload e"
    by (cases old; cases e; simp add: event_dump_def)+
  have "old \<in> snd ` set (st_event s)"
    using replay(2) by (force simp: get_event_def dest: map_of_SomeD)
  then have "{c. ev_subject_ref e = cid \<and> ev_type e = controller_state_event \<and> ev_payload e = PControllerState c}
      \<subseteq> recorded_states s cid"
    unfolding same [symmetric] recorded_states_def by auto
  then show ?thesis using assms replay(4) by auto
next
  case new
  then show ?thesis using assms recorded_snoc by auto
qed (use assms in auto)

lemma keeps_silent_append_new:
  assumes "ty \<noteq> controller_state_event"
  shows "keeps silent (append_new_event E ty sr p)"
  unfolding keeps_def
proof
  fix w
  obtain r v where ex: "append_new_event E ty sr p w = (r, v)" by fastforce
  let ?e = "make_event (new_id_at E (wd_tick w) ''event'') (env_clock E (wd_tick w + 1)) ty sr p"
  obtain q t where a: "append_event ?e (wd_store w) = (q, t)" by fastforce
  have t: "wd_store v = t"
    using ex a by (auto simp: append_new_event_def bindI_def new_id_def utcnow_def on_store_def retI_def split: sum.splits)
  have "recorded_states (wd_store v) = recorded_states (wd_store w)"
    using append_event_recorded [OF a] assms unfolding t by (auto simp: fun_eq_iff)
  with keepsD [OF keeps_append_new_event ex] show "silent w (snd (append_new_event E ty sr p w))"
    by (simp add: silent_def ex)
qed

lemma keeps_silent_readS: "keeps silent (readS f)"
  by (simp add: keeps_def readS_def silent_def world_grows_def)

lemma keeps_silent_utcnow: "keeps silent (utcnow E)"
  by (simp add: keeps_def utcnow_def silent_def world_grows_def)

lemma keeps_silent_new_id: "keeps silent (new_id E pre)"
  by (simp add: keeps_def new_id_def silent_def world_grows_def)

lemma keeps_silent_journal_save: "keeps silent (journal_save E v)"
  unfolding keeps_def
proof
  fix w
  obtain r u where ex: "journal_save E v w = (r, u)" by fastforce
  let ?e = "responsibility_event E (env_clock E (wd_tick w)) v"
  obtain q t where a: "append_event ?e (wd_store w) = (q, t)" by fastforce
  have "wd_store u = wd_store w \<or> wd_store u = t"
    using ex a by (auto simp: journal_save_def bindI_def utcnow_def withI_def on_store_def retI_def raise_ifI_def
        raiseI_def readI_def Let_def split: sum.splits option.splits if_splits)
  moreover have "recorded_states t = recorded_states (wd_store w)"
    using append_event_recorded [OF a]
    by (auto simp: fun_eq_iff responsibility_event_type_def controller_state_event_def)
  ultimately have "recorded_states (wd_store u) = recorded_states (wd_store w)" by auto
  with keepsD [OF keeps_journal_save ex] show "silent w (snd (journal_save E v w))"
    by (simp add: silent_def ex)
qed

lemma keeps_silent_save: "keeps silent (save_append_only E v)"
  unfolding save_append_only_def
  by (intro keeps_intros keeps_silent_readS keeps_silent_journal_save reflp_silent transp_silent)

lemma keeps_silent_propose: "keeps silent (propose E p now)"
  unfolding propose_def
  by (intro keeps_intros keeps_silent_readS keeps_silent_save reflp_silent transp_silent) 

text \<open>Recording a state adds exactly that state to its controller's, or raises and adds nothing.\<close>

lemma record_state_recorded:
  assumes "record_state E c w = (r, v)"
  shows "world_grows w v"
    and "recorded_states (wd_store v) cid = (if r = Inr () \<and> cid = ct_id c
       then insert c (recorded_states (wd_store w) cid) else recorded_states (wd_store w) cid)"
proof -
  have "keeps world_grows (record_state E c)" unfolding record_state_def by (intro keeps_world)
  from keepsD [OF this assms] show "world_grows w v" .
  let ?e = "make_event (new_id_at E (wd_tick w) ''event'') (env_clock E (wd_tick w + 1)) controller_state_event
    (ct_id c) (PControllerState c)"
  obtain q t where a: "append_event ?e (wd_store w) = (q, t)" by fastforce
  have "wd_store v = t" "r = Inr () \<longleftrightarrow> q = Inr ()"
    using assms a by (auto simp: record_state_def append_new_event_def bindI_def new_id_def utcnow_def on_store_def
        retI_def split: sum.splits)
  then show "recorded_states (wd_store v) cid = (if r = Inr () \<and> cid = ct_id c
       then insert c (recorded_states (wd_store w) cid) else recorded_states (wd_store w) cid)"
    using append_event_recorded [OF a, of cid] by auto
qed

lemma silentD: "keeps silent m \<Longrightarrow> m w = (r, v) \<Longrightarrow> recorded_states (wd_store v) = recorded_states (wd_store w)"
  using keepsD [of silent m w r v] by (simp add: silent_def)

lemma keeps_silent_record_decision: "keeps silent (record_decision E d)"
  unfolding record_decision_def
  by (intro keeps_intros keeps_silent_append_new reflp_silent transp_silent) (simp add: controller_event_defs)

section \<open>Phases of cognitive work\<close>

text \<open>
  The abstract machine: a controller explores until it decides on a closure, hands the decided work
  off, and from there is led by revision assessments.  Whatever has stopped or is paused goes on only
  by reopening, which forgets the closure and the work.
\<close>

datatype phase =
    Exploring
  | Decided string
  | Handed_Off string string
  | Paused "string option"
  | Stopped
  | Reopening

inductive phase_step :: "phase \<Rightarrow> decision_kind \<Rightarrow> phase \<Rightarrow> bool" where
  explore: "phase_step Exploring Invoke_Capability Exploring"
| decide: "phase_step Exploring Form_Closure (Decided k)"
| hand_off: "phase_step (Decided k) Propose_Work (Handed_Off k p)"
| retry: "phase_step (Handed_Off k p) Assess_Revision (Handed_Off k p)"
| accept_work: "phase_step (Handed_Off k p) Assess_Revision Stopped"
| reconsider: "phase_step (Handed_Off k p) Assess_Revision Reopening"
| close_exploring: "phase_step Exploring Close Stopped"
| close_decided: "phase_step (Decided k) Close Stopped"
| pause_exploring: "phase_step Exploring Wait (Paused None)"
| pause_decided: "phase_step (Decided k) Wait (Paused (Some k))"
| reopen_paused: "phase_step (Paused k) Reopen Exploring"
| reopen_stopped: "phase_step Stopped Reopen Exploring"
| reopen_required: "phase_step Reopening Reopen Exploring"

inductive_cases phase_stepE: "phase_step p k q"

definition consistent :: "controller_state \<Rightarrow> bool" where
  "consistent c \<longleftrightarrow> (ct_work_proposal_ref c \<noteq> None \<longrightarrow> ct_active_closure_ref c \<noteq> None \<and> ct_status c \<noteq> Open)"

definition phase_of :: "controller_state \<Rightarrow> phase" where
  "phase_of c = (case ct_status c of
       Open \<Rightarrow> (case ct_active_closure_ref c of None \<Rightarrow> Exploring | Some k \<Rightarrow> Decided k)
     | Waiting \<Rightarrow> (case (ct_active_closure_ref c, ct_work_proposal_ref c) of
         (Some k, Some p) \<Rightarrow> Handed_Off k p | (k, _) \<Rightarrow> Paused k)
     | Closed \<Rightarrow> Stopped
     | Reopen_Required \<Rightarrow> Reopening)"

text \<open>The code's table of admitted kinds is the abstract machine's.\<close>

lemma admits_iff_phase_step: "admits c k \<longleftrightarrow> (\<exists>q. phase_step (phase_of c) k q)"
  by (cases "ct_status c"; cases "ct_active_closure_ref c"; cases "ct_work_proposal_ref c"; cases k)
    (simp_all add: admits_def phase_of_def, auto intro: phase_step.intros elim: phase_stepE)

section \<open>Well-formed controller histories\<close>

definition controller_ok :: "store \<Rightarrow> string \<Rightarrow> bool" where
  "controller_ok s cid \<longleftrightarrow> (\<forall>c \<in> recorded_states s cid. ct_id c = cid \<and> valid_state c \<and> consistent c)"

lemma require_current_Inr:
  "require_current s d = Inr c \<longleftrightarrow> controller_get s (cd_controller_ref d) = Inr (Some c)
     \<and> cd_state_version d = ct_version c \<and> admits c (cd_kind d)"
  by (cases "controller_get s (cd_controller_ref d)") (auto simp: require_current_def split: option.splits)

text \<open>The state \<open>c\<close> is on record and no state of its controller has a greater version.\<close>

definition current_at :: "store \<Rightarrow> controller_state \<Rightarrow> bool" where
  "current_at s c \<longleftrightarrow> controller_ok s (ct_id c) \<and> c \<in> recorded_states s (ct_id c)
     \<and> (\<forall>d \<in> recorded_states s (ct_id c). ct_version d \<le> ct_version c)"

lemma current_at_get:
  assumes "controller_ok s cid" "controller_get s cid = Inr (Some c)"
  shows "ct_id c = cid" "current_at s c"
proof -
  from controller_get_Some [OF assms(2)]
  show "ct_id c = cid" using assms(1) by (simp add: controller_ok_def)
  then show "current_at s c"
    using controller_get_Some [OF assms(2)] assms(1) by (fastforce simp: current_at_def state_key_def)
qed

lemma current_at_silent:
  assumes "current_at (wd_store w) c" and same: "recorded_states (wd_store v) = recorded_states (wd_store w)"
  shows "current_at (wd_store v) c"
  using assms(1) unfolding current_at_def controller_ok_def same .

lemma current_at_run: "current_at (wd_store w) c \<Longrightarrow> keeps silent m \<Longrightarrow> m w = (r, v) \<Longrightarrow> current_at (wd_store v) c"
  using current_at_silent silentD by blast

lemma current_at_tick [simp]: "current_at (wd_store (w\<lparr>wd_tick := n\<rparr>)) c = current_at (wd_store w) c"
  by simp

lemma current_at_state: "current_at s c \<Longrightarrow> valid_state c \<and> consistent c"
  unfolding current_at_def controller_ok_def by blast

text \<open>Recording a state with a greater version makes it current, and it is what is read back.\<close>

lemma record_successor:
  assumes cur: "current_at (wd_store w) c" and run: "record_state E c' w = (Inr (), v)"
    and c': "ct_id c' = ct_id c" "ct_version c < ct_version c'" "valid_state c'" "consistent c'"
  shows "current_at (wd_store v) c'" "controller_get (wd_store v) (ct_id c) = Inr (Some c')"
    "\<forall>x \<in> recorded_states (wd_store v) (ct_id c). x \<noteq> c' \<longrightarrow> ct_version x < ct_version c'"
proof -
  have rec: "recorded_states (wd_store v) (ct_id c) = insert c' (recorded_states (wd_store w) (ct_id c))"
    using record_state_recorded(2) [OF run, of "ct_id c"] c'(1) by simp
  have le: "\<forall>d \<in> recorded_states (wd_store w) (ct_id c). ct_version d < ct_version c'"
    using cur c'(2) unfolding current_at_def by fastforce
  have ok: "controller_ok (wd_store v) (ct_id c)"
    using cur c' unfolding controller_ok_def current_at_def rec by blast
  have "\<forall>d \<in> recorded_states (wd_store v) (ct_id c). d \<noteq> c' \<longrightarrow> state_key d < state_key c'"
    using le unfolding rec by (auto simp: state_key_def)
  then show "controller_get (wd_store v) (ct_id c) = Inr (Some c')"
    by (rule controller_get_latest [rotated 2]) (use ok rec in \<open>auto simp: controller_ok_def\<close>)
  show "current_at (wd_store v) c'"
    using ok le unfolding current_at_def c'(1) rec by auto
  show "\<forall>x \<in> recorded_states (wd_store v) (ct_id c). x \<noteq> c' \<longrightarrow> ct_version x < ct_version c'"
    using le unfolding rec by blast
qed

lemma transition_state_Inr:
  "transition_state E c d st pend cl pr rr res w = (Inr c', w') \<longleftrightarrow>
     c' = c\<lparr>ct_status := st, ct_version := ct_version c + 1, ct_pending_ref := pend,
           ct_last_decision_ref := Some (cd_id d), ct_updated_at := env_clock E (wd_tick w),
           ct_active_closure_ref := updated_ref cl (ct_active_closure_ref c),
           ct_work_proposal_ref := updated_ref pr (ct_work_proposal_ref c),
           ct_last_revision_ref := updated_ref rr (ct_last_revision_ref c),
           ct_last_result_ref := updated_ref res (ct_last_result_ref c)\<rparr>
     \<and> record_state E c' (w\<lparr>wd_tick := wd_tick w + 1\<rparr>) = (Inr (), w')"
  by (auto simp: transition_state_def Let_def)

lemma transition_successor:
  assumes "current_at (wd_store w) c" "transition_state E c d st pend cl pr rr res w = (Inr c', w')"
    and "if st = Waiting then \<not> missing_ref pend else pend = None"
    and "updated_ref pr (ct_work_proposal_ref c) \<noteq> None
      \<longrightarrow> updated_ref cl (ct_active_closure_ref c) \<noteq> None \<and> st \<noteq> Open"
  shows "current_at (wd_store w') c'" "controller_get (wd_store w') (ct_id c) = Inr (Some c')"
    "\<forall>x \<in> recorded_states (wd_store w') (ct_id c). x \<noteq> c' \<longrightarrow> ct_version x < ct_version c'"
    "ct_id c' = ct_id c" "ct_version c' = ct_version c + 1" "ct_last_decision_ref c' = Some (cd_id d)" "ct_status c' = st"
    "ct_active_closure_ref c' = updated_ref cl (ct_active_closure_ref c)"
    "ct_work_proposal_ref c' = updated_ref pr (ct_work_proposal_ref c)"
proof -
  note t = assms(2) [unfolded transition_state_Inr]
  have "valid_state c'" "consistent c'"
    using t assms(3,4) current_at_state [OF assms(1)] by (auto simp: valid_state_iff consistent_def)
  moreover have "ct_id c' = ct_id c" "ct_version c < ct_version c'" using t by simp_all
  moreover have "current_at (wd_store (w\<lparr>wd_tick := wd_tick w + 1\<rparr>)) c" using assms(1) by simp
  ultimately show "current_at (wd_store w') c'" "controller_get (wd_store w') (ct_id c) = Inr (Some c')"
    "\<forall>x \<in> recorded_states (wd_store w') (ct_id c). x \<noteq> c' \<longrightarrow> ct_version x < ct_version c'"
    using record_successor [where c = c and c' = c'] t by blast+
  show "ct_id c' = ct_id c" "ct_version c' = ct_version c + 1" "ct_last_decision_ref c' = Some (cd_id d)" "ct_status c' = st"
    "ct_active_closure_ref c' = updated_ref cl (ct_active_closure_ref c)"
    "ct_work_proposal_ref c' = updated_ref pr (ct_work_proposal_ref c)"
    using t by simp_all
qed

text \<open>What holds after an operation that moved controller \<open>c\<close> on to \<open>c'\<close> by the decision \<open>d\<close>.\<close>

definition advanced :: "controller_decision \<Rightarrow> controller_state \<Rightarrow> controller_state \<Rightarrow> world \<Rightarrow> bool" where
  "advanced d c c' w' \<longleftrightarrow> current_at (wd_store w') c' \<and> ct_id c' = ct_id c \<and> controller_get (wd_store w') (ct_id c) = Inr (Some c')
     \<and> (\<forall>x \<in> recorded_states (wd_store w') (ct_id c). x \<noteq> c' \<longrightarrow> ct_version x < ct_version c')
     \<and> ct_version c < ct_version c' \<and> ct_last_decision_ref c' = Some (cd_id d)
     \<and> phase_step (phase_of c) (cd_kind d) (phase_of c')"

definition proper_ids :: "controller_decision \<Rightarrow> bool" where
  "proper_ids d \<longleftrightarrow> cd_id d \<noteq> [] \<and> (\<forall>r. cd_revision d = Some r \<longrightarrow> rev_id r \<noteq> [])"

lemma admits_cases:
  assumes "admits c k" "consistent c"
  obtains (exploring) "ct_status c = Open" "ct_active_closure_ref c = None" "ct_work_proposal_ref c = None"
      "k \<in> {Invoke_Capability, Form_Closure, Close, Wait}"
  | (decided) cl where "ct_status c = Open" "ct_active_closure_ref c = Some cl" "ct_work_proposal_ref c = None"
      "k \<in> {Propose_Work, Close, Wait}"
  | (handed_off) cl p where "ct_status c = Waiting" "ct_active_closure_ref c = Some cl"
      "ct_work_proposal_ref c = Some p" "k = Assess_Revision"
  | (stopped) "phase_of c \<in> {Stopped, Reopening} \<union> range Paused" "k = Reopen"
  using assms
  by (cases "ct_status c"; cases "ct_active_closure_ref c"; cases "ct_work_proposal_ref c")
    (auto simp: admits_def consistent_def phase_of_def)

lemma direct_advanced:
  assumes "current_at (wd_store w) c" "admits c (cd_kind d)" "proper_ids d"
    and "cd_kind d = Close \<and> transition_state E c d Closed None Unchanged Unchanged Unchanged Unchanged w = (Inr c', w')
      \<or> cd_kind d = Wait \<and> transition_state E c d Waiting (Some (cd_id d)) Unchanged Unchanged Unchanged Unchanged w = (Inr c', w')
      \<or> cd_kind d = Reopen \<and> transition_state E c d Open None (To None) (To None) Unchanged Unchanged w = (Inr c', w')"
  shows "advanced d c c' w'"
proof -
  note con = current_at_state [OF assms(1)]
  from assms(4) consider
    (close) "cd_kind d = Close" "transition_state E c d Closed None Unchanged Unchanged Unchanged Unchanged w = (Inr c', w')"
  | (wait) "cd_kind d = Wait" "transition_state E c d Waiting (Some (cd_id d)) Unchanged Unchanged Unchanged Unchanged w = (Inr c', w')"
  | (reopen) "cd_kind d = Reopen" "transition_state E c d Open None (To None) (To None) Unchanged Unchanged w = (Inr c', w')"
    by blast
  then show ?thesis
  proof cases
    case close
    with assms(2) con have "ct_work_proposal_ref c = None" "ct_status c = Open"
      by (auto elim!: admits_cases)
    then show ?thesis
      using transition_successor [OF assms(1) close(2)] close(1)
      by (auto simp: advanced_def phase_of_def intro: phase_step.intros split: option.splits)
  next
    case wait
    with assms(2) con have "ct_work_proposal_ref c = None" "ct_status c = Open"
      by (auto elim!: admits_cases)
    moreover have "\<not> missing_ref (Some (cd_id d))" using assms(3) by (simp add: proper_ids_def missing_ref_def)
    ultimately show ?thesis
      using transition_successor [OF assms(1) wait(2)] wait(1)
      by (auto simp: advanced_def phase_of_def intro: phase_step.intros split: option.splits)
  next
    case reopen
    with assms(2) con have "phase_of c \<in> {Stopped, Reopening} \<union> range Paused"
      by (auto elim!: admits_cases)
    then show ?thesis
      using transition_successor [OF assms(1) reopen(2)] reopen(1)
      by (auto simp: advanced_def phase_of_def [of c'] intro: phase_step.intros)
  qed
qed

lemma form_closure_advanced:
  assumes "current_at (wd_store w) c" "admits c (cd_kind d)" "cd_kind d = Form_Closure"
    and run: "form_closure E c d w = (Inr c', w')"
  shows "advanced d c c' w'"
proof -
  obtain cl e v where cl: "append_new_event E controller_closure_event (ct_id c) (PControllerClosure (cd_id d) cl) w = (Inr e, v)"
    and t: "transition_state E c d Open None (To (Some (cl_id cl))) Unchanged Unchanged (To (Some e)) v = (Inr c', w')"
    using run by (auto simp: form_closure_def Let_def split: option.splits)
  have "keeps silent (append_new_event E controller_closure_event (ct_id c) (PControllerClosure (cd_id d) cl))"
    by (rule keeps_silent_append_new) (simp add: controller_event_defs)
  from current_at_run [OF assms(1) this cl] have cur: "current_at (wd_store v) c" .
  have "phase_of c = Exploring" "ct_work_proposal_ref c = None"
    using assms(2,3) current_at_state [OF assms(1)] by (auto elim!: admits_cases simp: phase_of_def)
  then show ?thesis
    using transition_successor [OF cur t] assms(3) by (auto simp: advanced_def phase_of_def [of c'] intro: phase_step.intros)
qed

lemma keeps_silent_construct: "keeps silent (construct v)"
  by (simp add: keeps_def construct_def readI_def bindI_def retI_def silent_def world_grows_def split: sum.splits)

lemma keeps_propose: "keeps world_grows (propose E p now)"
  unfolding propose_def by (intro keeps_world keeps_save_append_only)

text \<open>The steps of an accepted work proposal.\<close>

lemma propose_work_Inr:
  assumes "propose_work E c d w = (Inr c', w')"
  obtains rid subject assessment title cl version st sc v p obj x u where
    "proposal_basis (wd_store w) c d = Inr (rid, subject, assessment, title, cl)"
    "current_definition E (wd_store w) rid = Inr (version, st, sc)"
    "p = proposal_of (new_id_at E (wd_tick w) ''resp'') (env_clock E (wd_tick w + 1)) rid subject version assessment title d cl"
    "valid_object (Proposal p)"
    "propose E p (env_clock E (wd_tick w + 2)) (w\<lparr>wd_tick := wd_tick w + 3\<rparr>) = (Inr obj, v)"
    "append_new_event E controller_work_proposal_event (ct_id c)
         (PControllerProposal (cd_id d) (cl_id cl) (object_id obj) rid) v = (Inr x, u)"
    "transition_state E c d Waiting (Some (object_id obj)) Unchanged
       (To (Some (object_id obj))) Unchanged (To (Some (object_id obj))) u = (Inr c', w')"
proof -
  have tick: "w\<lparr>wd_tick := wd_tick w + 1, wd_tick := wd_tick w + 1 + 1, wd_tick := wd_tick w + 1 + 1 + 1\<rparr>
     = w\<lparr>wd_tick := wd_tick w + 3\<rparr>" by simp
  from assms obtain rid subject assessment title cl version st sc obj v x u where
    "proposal_basis (wd_store w) c d = Inr (rid, subject, assessment, title, cl)"
    "current_definition E (wd_store w) rid = Inr (version, st, sc)"
    "construct (Proposal (proposal_of (new_id_at E (wd_tick w) ''resp'') (env_clock E (wd_tick w + 1)) rid subject
        version assessment title d cl)) (w\<lparr>wd_tick := wd_tick w + 2\<rparr>) = (Inr (), w\<lparr>wd_tick := wd_tick w + 2\<rparr>)"
    "propose E (proposal_of (new_id_at E (wd_tick w) ''resp'') (env_clock E (wd_tick w + 1)) rid subject
        version assessment title d cl) (env_clock E (wd_tick w + 2)) (w\<lparr>wd_tick := wd_tick w + 3\<rparr>) = (Inr obj, v)"
    "append_new_event E controller_work_proposal_event (ct_id c)
         (PControllerProposal (cd_id d) (cl_id cl) (object_id obj) rid) v = (Inr x, u)"
    "transition_state E c d Waiting (Some (object_id obj)) Unchanged
       (To (Some (object_id obj))) Unchanged (To (Some (object_id obj))) u = (Inr c', w')"
    by (auto simp: propose_work_def Let_def readS_def construct_def numeral_3_eq_3 numeral_2_eq_2)
  then show thesis
    using that by (auto simp: construct_def validate_object_Inr)
qed

lemma propose_Inr_object:
  assumes "propose E p now w = (Inr obj, v)"
  shows "save_append_only E (Proposal p) w = (Inr obj, v)"
  using assms by (auto simp: propose_def readS_def)

lemma save_append_only_id:
  assumes "save_append_only E x w = (Inr obj, v)"
  shows "object_id obj = object_id x"
proof -
  have same: "obj = x" if "responsibility_object_from_event e = Inr obj"
    "event_dump e = event_dump (responsibility_event E t x)" for e t
  proof -
    have "ev_payload e = ev_payload (responsibility_event E t x)" "ev_type e = responsibility_event_type"
      using that(2) by (cases e; simp add: event_dump_def responsibility_event_def make_event_def)+
    then show ?thesis
      using that(1) by (simp add: responsibility_object_from_event_def responsibility_event_def validate_object_Inr)
  qed
  show ?thesis
    using assms
    by (auto simp: save_append_only_def readS_def journal_save_def Let_def withI_def
        split: option.splits if_splits dest: semantic_dump_eqD same)
qed

lemma propose_work_advanced:
  assumes "current_at (wd_store w) c" "admits c (cd_kind d)" "cd_kind d = Propose_Work"
    and run: "propose_work E c d w = (Inr c', w')"
  shows "advanced d c c' w'"
  using run
proof (cases rule: propose_work_Inr)
  case (1 rid subject assessment title cl version st sc v p obj x u)
  have "current_at (wd_store (w\<lparr>wd_tick := wd_tick w + 3\<rparr>)) c" using assms(1) by simp
  from current_at_run [OF this keeps_silent_propose 1(5)] have "current_at (wd_store v) c" .
  moreover have "keeps silent (append_new_event E controller_work_proposal_event (ct_id c)
         (PControllerProposal (cd_id d) (cl_id cl) (object_id obj) rid))"
    by (rule keeps_silent_append_new) (simp add: controller_event_defs)
  ultimately have cur: "current_at (wd_store u) c" using 1(6) by (rule current_at_run)
  obtain k where k: "ct_active_closure_ref c = Some k" "phase_of c = Decided k"
    using assms(2,3) current_at_state [OF assms(1)] by (auto elim!: admits_cases simp: phase_of_def)
  have "object_id obj = wp_id p" using save_append_only_id [OF propose_Inr_object [OF 1(5)]] by simp
  then have "\<not> missing_ref (Some (object_id obj))" by (simp add: missing_ref_def 1(3) proposal_of_def)
  then show ?thesis
    using transition_successor [OF cur 1(7)] assms(3) k
    by (auto simp: advanced_def phase_of_def [of c'] intro: phase_step.intros)
qed

lemma revision_guard_Inr:
  assumes "revision_guard s c d = Inr r"
  obtains r0 w k where "cd_revision d = Some r0" "rev_id r = rev_id r0"
    "rev_recommended_disposition r = rev_recommended_disposition r0" "rev_verification_refs r = rev_verification_refs r0"
    "ct_active_closure_ref c = Some (rev_closure_ref r0)" "rev_closure_ref r = rev_closure_ref r0" "rev_work_ref r = rev_work_ref r0"
    "ct_work_proposal_ref c = Some k" "get_work s (rev_work_ref r0) = Some w"
    "fmlookup (wk_metadata w) ''responsibility_proposal_ref'' = Some (JStr k)"
  using assms by (auto simp: revision_guard_def split: option.splits if_splits)

lemma assess_revision_advanced:
  assumes "current_at (wd_store w) c" "admits c (cd_kind d)" "cd_kind d = Assess_Revision" "proper_ids d"
    and run: "assess_revision E c d w = (Inr c', w')"
  shows "advanced d c c' w'"
proof -
  obtain r e v where g: "revision_guard (wd_store w) c d = Inr r"
    and ev: "append_new_event E controller_revision_event (ct_id c) (PControllerRevision (cd_id d) r) w = (Inr e, v)"
    and case_t: "(case revision_outcome r of (status, pending) \<Rightarrow> transition_state E c d status pending Unchanged Unchanged
       (To (Some (rev_id r))) (To (Some (rev_id r)))) v = (Inr c', w')"
    using run by (auto simp: assess_revision_def readS_def simp del: revision_outcome.simps)
  obtain st pend where out: "revision_outcome r = (st, pend)" by fastforce
  with case_t have t: "transition_state E c d st pend Unchanged Unchanged (To (Some (rev_id r))) (To (Some (rev_id r))) v
      = (Inr c', w')" by simp
  have "keeps silent (append_new_event E controller_revision_event (ct_id c) (PControllerRevision (cd_id d) r))"
    by (rule keeps_silent_append_new) (simp add: controller_event_defs)
  from current_at_run [OF assms(1) this ev] have cur: "current_at (wd_store v) c" .
  obtain k p where k: "ct_active_closure_ref c = Some k" "ct_work_proposal_ref c = Some p" "ct_status c = Waiting"
    using assms(2,3) current_at_state [OF assms(1)] by (auto elim!: admits_cases)
  have "rev_id r \<noteq> []" using g assms(4) by (elim revision_guard_Inr) (auto simp: proper_ids_def)
  then have out': "st = Waiting \<and> \<not> missing_ref pend \<or> st \<in> {Closed, Reopen_Required} \<and> pend = None"
    using out by (auto simp: missing_ref_def split: revision_disposition.splits)
  then have "if st = Waiting then \<not> missing_ref pend else pend = None"
    "updated_ref Unchanged (ct_work_proposal_ref c) \<noteq> None
      \<longrightarrow> updated_ref Unchanged (ct_active_closure_ref c) \<noteq> None \<and> st \<noteq> Open"
    using k by auto
  from transition_successor [OF cur t this] show ?thesis
    using assms(3) k out' by (auto simp: advanced_def phase_of_def intro: phase_step.intros)
qed

lemma invoke_capability_advanced:
  assumes "current_at (wd_store w) c" "admits c (cd_kind d)" "cd_kind d = Invoke_Capability"
    and quiet: "\<And>q. keeps silent (run_cap q)"
    and run: "invoke_capability E run_cap c d w = (Inr c', w')"
  shows "advanced d c c' w'"
proof -
  obtain cap u v x result y event_id where cap: "cd_capability d = Some cap" and
    wait: "record_state E (waiting_for_result (new_id_at E (wd_tick w) ''request'') (env_clock E (wd_tick w + 1)) c d)
       (w\<lparr>wd_tick := wd_tick w + 2\<rparr>) = (Inr (), u)" and
    call: "run_cap (request_of_decision (new_id_at E (wd_tick w) ''request'') cap c d) u = (Inr result, v)" and
    obs: "append_new_event E controller_result_event (ct_id c)
       (PControllerResult (cd_id d) (new_id_at E (wd_tick w) ''request'') (ct_version c) result) v = (Inr event_id, y)" and
    c': "c' = resumed_with event_id (env_clock E (wd_tick y))
       (waiting_for_result (new_id_at E (wd_tick w) ''request'') (env_clock E (wd_tick w + 1)) c d)" and
    resume: "record_state E c' (y\<lparr>wd_tick := wd_tick y + 1\<rparr>) = (Inr (), w')"
    using run by (auto simp: invoke_capability_def numeral_2_eq_2 split: option.splits)
  let ?wait = "waiting_for_result (new_id_at E (wd_tick w) ''request'') (env_clock E (wd_tick w + 1)) c d"
  note con = current_at_state [OF assms(1)]
  have opened: "ct_status c = Open" "ct_active_closure_ref c = None" "ct_work_proposal_ref c = None"
    using assms(2,3) con by (auto elim!: admits_cases)
  have "current_at (wd_store (w\<lparr>wd_tick := wd_tick w + 2\<rparr>)) c" using assms(1) by simp
  moreover have "ct_id ?wait = ct_id c" "ct_version c < ct_version ?wait" "valid_state ?wait" "consistent ?wait"
    using con opened by (simp_all add: waiting_for_result_def valid_state_iff missing_ref_def consistent_def)
  ultimately have "current_at (wd_store u) ?wait" using record_successor(1) wait by blast
  from current_at_run [OF this quiet call] have "current_at (wd_store v) ?wait" .
  moreover have "keeps silent (append_new_event E controller_result_event (ct_id c)
       (PControllerResult (cd_id d) (new_id_at E (wd_tick w) ''request'') (ct_version c) result))"
    by (rule keeps_silent_append_new) (simp add: controller_event_defs)
  ultimately have "current_at (wd_store y) ?wait" using obs by (rule current_at_run)
  then have "current_at (wd_store (y\<lparr>wd_tick := wd_tick y + 1\<rparr>)) ?wait" by simp
  moreover have "ct_id c' = ct_id ?wait" "ct_version ?wait < ct_version c'" "valid_state c'" "consistent c'"
    using con opened by (simp_all add: c' waiting_for_result_def resumed_with_def valid_state_iff consistent_def)
  ultimately have "current_at (wd_store w') c'" "controller_get (wd_store w') (ct_id ?wait) = Inr (Some c')"
    "\<forall>x \<in> recorded_states (wd_store w') (ct_id ?wait). x \<noteq> c' \<longrightarrow> ct_version x < ct_version c'"
    using record_successor resume by blast+
  then show ?thesis
    using opened assms(3) by (auto simp: advanced_def c' waiting_for_result_def resumed_with_def phase_of_def
        intro: phase_step.intros)
qed

theorem apply_advanced:
  assumes "controller_ok (wd_store w) (cd_controller_ref d)" "proper_ids d"
    and quiet: "\<And>q. keeps silent (run_cap q)"
    and run: "controller_apply E run_cap d w = (Inr c', w')"
  obtains c where "controller_get (wd_store w) (cd_controller_ref d) = Inr (Some c)" "ct_id c = cd_controller_ref d"
    "cd_state_version d = ct_version c" "admits c (cd_kind d)" "advanced d c c' w'"
proof -
  obtain c v where c: "require_current (wd_store w) d = Inr c" and dec: "record_decision E d w = (Inr (), v)"
    and rest: "(case cd_kind d of
       Invoke_Capability \<Rightarrow> invoke_capability E run_cap c d
     | Form_Closure \<Rightarrow> form_closure E c d
     | Propose_Work \<Rightarrow> propose_work E c d
     | Assess_Revision \<Rightarrow> assess_revision E c d
     | Close \<Rightarrow> transition_state E c d Closed None Unchanged Unchanged Unchanged Unchanged
     | Reopen \<Rightarrow> transition_state E c d Open None (To None) (To None) Unchanged Unchanged
     | Wait \<Rightarrow> transition_state E c d Waiting (Some (cd_id d)) Unchanged Unchanged Unchanged Unchanged) v = (Inr c', w')"
    using run by (auto simp: controller_apply_def readS_def)
  note req = c [unfolded require_current_Inr]
  note cur = current_at_get [OF assms(1) conjunct1 [OF req]]
  have at: "current_at (wd_store v) c" by (rule current_at_run [OF cur(2) keeps_silent_record_decision dec])
  have ad: "admits c (cd_kind d)" using req by simp
  have "advanced d c c' w'"
  proof (cases "cd_kind d")
    case Invoke_Capability
    with rest invoke_capability_advanced [OF at ad _ quiet] show ?thesis by simp
  next
    case Form_Closure
    with rest form_closure_advanced [OF at ad] show ?thesis by simp
  next
    case Propose_Work
    with rest propose_work_advanced [OF at ad] show ?thesis by simp
  next
    case Assess_Revision
    with rest assess_revision_advanced [OF at ad _ assms(2)] show ?thesis by simp
  qed (use rest direct_advanced [OF at ad assms(2)] in simp_all)
  with req cur(1) that show thesis by simp
qed

section \<open>Decisions that raise\<close>

definition raise_silent :: "(world, 'a) io \<Rightarrow> bool" where
  "raise_silent m \<longleftrightarrow> (\<forall>w e v. m w = (Inl e, v) \<longrightarrow> silent w v)"

lemma raise_silent_bind:
  assumes "keeps silent m" "\<And>x. raise_silent (f x)"
  shows "raise_silent (bindI m f)"
  unfolding raise_silent_def
proof (intro allI impI)
  fix w e v
  assume run: "bindI m f w = (Inl e, v)"
  obtain r u where m: "m w = (r, u)" by fastforce
  have wu: "silent w u" using keepsD [OF assms(1) m] .
  show "silent w v"
  proof (cases r)
    case (Inl e')
    then show ?thesis using run m wu by (simp add: bindI_def)
  next
    case (Inr x)
    then have "silent u v" using run m assms(2) by (auto simp: bindI_def raise_silent_def)
    with wu show ?thesis by (rule transpD [OF transp_silent])
  qed
qed

lemma raise_silent_last: "raise_silent m \<Longrightarrow> raise_silent (bindI m (\<lambda>x. retI (f x)))"
  by (auto simp: raise_silent_def bindI_def retI_def split: prod.splits sum.splits)

lemma raise_silent_keeps: "keeps silent m \<Longrightarrow> raise_silent m"
  by (auto simp: raise_silent_def dest: keepsD)

lemma raise_silent_raise_if: "raise_silent k \<Longrightarrow> raise_silent (raise_ifI b msg k)"
  by (auto simp: raise_silent_def raise_ifI_Inl silent_def world_grows_def)

lemma raise_silent_raise: "raise_silent (raiseI e)"
  by (rule raise_silent_keeps) (intro keeps_intros reflp_silent)

lemma raise_silent_option: "raise_silent n \<Longrightarrow> (\<And>x. raise_silent (f x)) \<Longrightarrow> raise_silent (case_option n f x)"
  by (cases x) simp_all

lemma raise_silent_prod: "(\<And>a b. raise_silent (f a b)) \<Longrightarrow> raise_silent (case_prod f p)"
  by (cases p) simp

lemma raise_silent_record: "raise_silent (record_state E c)"
  unfolding raise_silent_def silent_def using record_state_recorded by fastforce

lemma raise_silent_transition: "raise_silent (transition_state E c d st pend cl pr rr res)"
  unfolding transition_state_def Let_def
  by (intro raise_silent_bind raise_silent_last raise_silent_record keeps_silent_utcnow)

lemma keeps_silent_controller_event [simp]:
  "keeps silent (append_new_event E controller_closure_event sr p)"
  "keeps silent (append_new_event E controller_revision_event sr p)"
  "keeps silent (append_new_event E controller_result_event sr p)"
  "keeps silent (append_new_event E controller_work_proposal_event sr p)"
  "keeps silent (append_new_event E controller_reopen_required_event sr p)"
  by (simp_all add: keeps_silent_append_new controller_event_defs)

lemmas raise_silent_intros = raise_silent_prod raise_silent_option raise_silent_raise raise_silent_raise_if
  raise_silent_transition raise_silent_bind

lemma raise_silent_form_closure: "raise_silent (form_closure E c d)"
  unfolding form_closure_def Let_def by (intro raise_silent_intros keeps_silent_controller_event)

lemma raise_silent_propose_work: "raise_silent (propose_work E c d)"
  unfolding propose_work_def Let_def
  by (intro raise_silent_intros keeps_silent_controller_event keeps_silent_readS keeps_silent_new_id
      keeps_silent_utcnow keeps_silent_construct keeps_silent_propose)

lemma raise_silent_assess_revision: "raise_silent (assess_revision E c d)"
  unfolding assess_revision_def
  by (intro raise_silent_intros keeps_silent_controller_event keeps_silent_readS)

lemma raise_silent_apply:
  assumes "cd_kind d \<noteq> Invoke_Capability"
  shows "raise_silent (controller_apply E run_cap d)"
proof -
  have "raise_silent (case cd_kind d of
       Invoke_Capability \<Rightarrow> invoke_capability E run_cap c d
     | Form_Closure \<Rightarrow> form_closure E c d
     | Propose_Work \<Rightarrow> propose_work E c d
     | Assess_Revision \<Rightarrow> assess_revision E c d
     | Close \<Rightarrow> transition_state E c d Closed None Unchanged Unchanged Unchanged Unchanged
     | Reopen \<Rightarrow> transition_state E c d Open None (To None) (To None) Unchanged Unchanged
     | Wait \<Rightarrow> transition_state E c d Waiting (Some (cd_id d)) Unchanged Unchanged Unchanged Unchanged)" for c
    using assms raise_silent_form_closure raise_silent_propose_work raise_silent_assess_revision
      raise_silent_transition by (cases "cd_kind d") simp_all
  then show ?thesis
    unfolding controller_apply_def
    by (intro raise_silent_bind keeps_silent_readS keeps_silent_record_decision)
qed

text \<open>An invocation that raises has recorded no state, or only the waiting one.\<close>

lemma invoke_capability_Inl:
  assumes "invoke_capability E run_cap c d w = (Inl e, v)" and quiet: "\<And>q. keeps silent (run_cap q)"
  shows "world_grows w v \<and> (recorded_states (wd_store v) = recorded_states (wd_store w)
    \<or> (\<exists>rid t. rid \<noteq> [] \<and> recorded_states (wd_store v) = (recorded_states (wd_store w))
         (ct_id c := insert (waiting_for_result rid t c d) (recorded_states (wd_store w) (ct_id c)))))"
proof (cases "cd_capability d")
  case None
  then show ?thesis using assms(1) by (simp add: invoke_capability_def raiseI_def world_grows_def)
next
  case (Some cap)
  let ?rid = "new_id_at E (wd_tick w) ''request''" and ?t = "env_clock E (wd_tick w + 1)"
  let ?wait = "waiting_for_result ?rid ?t c d"
  let ?w = "w\<lparr>wd_tick := wd_tick w + 2\<rparr>"
  let ?rest = "bindI (run_cap (request_of_decision ?rid cap c d)) (\<lambda>result.
          bindI (append_new_event E controller_result_event (ct_id c)
              (PControllerResult (cd_id d) ?rid (ct_version c) result)) (\<lambda>event_id.
          bindI (utcnow E) (\<lambda>t2.
          bindI (record_state E (resumed_with event_id t2 ?wait)) (\<lambda>_.
          retI (resumed_with event_id t2 ?wait)))))"
  have run: "bindI (record_state E ?wait) (\<lambda>_. ?rest) ?w = (Inl e, v)"
    using assms(1) Some
    by (simp add: invoke_capability_def bindI_def [of "new_id E ''request''"] bindI_def [of "utcnow E"] new_id_def
        utcnow_def numeral_2_eq_2)
  have grow: "world_grows w ?w" by (simp add: world_grows_def)
  obtain r u where rec: "record_state E ?wait ?w = (r, u)" by fastforce
  note u = record_state_recorded [OF rec]
  have gu: "world_grows w u" using transpD [OF transp_world_grows grow u(1)] .
  have ru: "recorded_states (wd_store u) = (if r = Inr () then (recorded_states (wd_store w))
      (ct_id c := insert ?wait (recorded_states (wd_store w) (ct_id c))) else recorded_states (wd_store w))"
    by (auto simp: fun_eq_iff u(2) waiting_for_result_def)
  show ?thesis
  proof (cases r)
    case (Inl e')
    then show ?thesis using run rec gu ru by (simp add: bindI_def)
  next
    case (Inr x)
    have "raise_silent ?rest"
      by (intro raise_silent_bind raise_silent_last raise_silent_record quiet keeps_silent_controller_event keeps_silent_utcnow)
    then have "silent u v" using run rec Inr by (auto simp: bindI_def raise_silent_def)
    then show ?thesis
      using ru Inr transpD [OF transp_world_grows gu] new_id_at_not_Nil unfolding silent_def by (metis (full_types))
  qed
qed

section \<open>One controller at a time\<close>

definition only :: "string \<Rightarrow> world \<Rightarrow> world \<Rightarrow> bool" where
  "only cid w v \<longleftrightarrow> (\<forall>i. i \<noteq> cid \<longrightarrow> recorded_states (wd_store v) i = recorded_states (wd_store w) i)"

lemma reflp_only [simp, intro]: "reflp (only cid)"
  by (simp add: reflp_def only_def)

lemma transp_only [simp, intro]: "transp (only cid)"
  by (auto intro!: transpI simp: only_def)

lemma keeps_only_silent: "keeps silent m \<Longrightarrow> keeps (only cid) m"
  by (auto simp: keeps_def silent_def only_def)

lemma keeps_only_record: "ct_id c = cid \<Longrightarrow> keeps (only cid) (record_state E c)"
  unfolding keeps_def only_def using record_state_recorded(2) by (metis prod.collapse)

lemma keeps_only_transition: "keeps (only (ct_id c)) (transition_state E c d st pend cl pr rr res)"
  unfolding transition_state_def Let_def
  by (intro keeps_intros keeps_only_silent keeps_silent_utcnow keeps_only_record reflp_only transp_only) simp

lemmas keeps_only_intros = keeps_only_transition keeps_intros keeps_silent_controller_event keeps_silent_readS
  keeps_silent_new_id keeps_silent_utcnow keeps_silent_construct keeps_silent_propose reflp_only transp_only
  keeps_silent_record_decision

lemma keeps_only_ops:
  assumes quiet: "\<And>q. keeps silent (run_cap q)"
  shows "keeps (only (ct_id c)) (form_closure E c d)" "keeps (only (ct_id c)) (propose_work E c d)"
    "keeps (only (ct_id c)) (assess_revision E c d)" "keeps (only (ct_id c)) (invoke_capability E run_cap c d)"
proof -
  show "keeps (only (ct_id c)) (form_closure E c d)"
    unfolding form_closure_def Let_def
    by (intro keeps_only_transition keeps_intros reflp_only transp_only keeps_only_silent keeps_silent_controller_event)
  show "keeps (only (ct_id c)) (propose_work E c d)"
    unfolding propose_work_def Let_def
    by (intro keeps_only_transition keeps_prod keeps_bindI reflp_only transp_only;
        rule keeps_only_silent keeps_only_transition; intro keeps_only_intros)
  show "keeps (only (ct_id c)) (assess_revision E c d)"
    unfolding assess_revision_def
    by (intro keeps_only_transition keeps_prod keeps_bindI reflp_only transp_only;
        rule keeps_only_silent; intro keeps_only_intros)
  show "keeps (only (ct_id c)) (invoke_capability E run_cap c d)"
    unfolding invoke_capability_def
    by (intro keeps_option keeps_raiseI keeps_retI keeps_bindI reflp_only transp_only;
        (rule keeps_only_record keeps_only_silent)?; (intro keeps_only_intros quiet)?)
      (simp_all add: waiting_for_result_def resumed_with_def)
qed

lemma keeps_only_apply_from:
  assumes quiet: "\<And>q. keeps silent (run_cap q)" and c: "require_current (wd_store w) d = Inr c"
    and run: "controller_apply E run_cap d w = (r, v)"
  shows "only (ct_id c) w v"
proof -
  have "keeps (only (ct_id c)) (bindI (record_decision E d) (\<lambda>_.
     case cd_kind d of
       Invoke_Capability \<Rightarrow> invoke_capability E run_cap c d
     | Form_Closure \<Rightarrow> form_closure E c d
     | Propose_Work \<Rightarrow> propose_work E c d
     | Assess_Revision \<Rightarrow> assess_revision E c d
     | Close \<Rightarrow> transition_state E c d Closed None Unchanged Unchanged Unchanged Unchanged
     | Reopen \<Rightarrow> transition_state E c d Open None (To None) (To None) Unchanged Unchanged
     | Wait \<Rightarrow> transition_state E c d Waiting (Some (cd_id d)) Unchanged Unchanged Unchanged Unchanged))"
    by (rule keeps_bindI [OF transp_only keeps_only_silent [OF keeps_silent_record_decision]], cases "cd_kind d")
      (simp_all add: keeps_only_ops [OF quiet] keeps_only_transition)
  from keepsD [OF this] show ?thesis
    using run c by (simp add: controller_apply_def bindI_def [of "readS f" for f] readS_def)
qed

section \<open>Histories of operations\<close>

definition controllers_ok :: "store \<Rightarrow> bool" where
  "controllers_ok s \<longleftrightarrow> (\<forall>cid. controller_ok s cid)"

lemma waiting_ok:
  assumes "valid_state c" "consistent c" "admits c Invoke_Capability" "rid \<noteq> []"
  shows "valid_state (waiting_for_result rid t c d)" "consistent (waiting_for_result rid t c d)"
proof -
  from assms(3,2) have "ct_work_proposal_ref c = None" by (auto elim!: admits_cases)
  then show "valid_state (waiting_for_result rid t c d)" "consistent (waiting_for_result rid t c d)"
    using assms(1,4) by (simp_all add: waiting_for_result_def valid_state_iff missing_ref_def consistent_def)
qed

lemma controller_ok_cong:
  "recorded_states t i = recorded_states s i \<Longrightarrow> controller_ok s i \<Longrightarrow> controller_ok t i"
  unfolding controller_ok_def by (drule sym) simp

lemma controller_ok_insert:
  assumes "recorded_states t i = insert c (recorded_states s i)" "controller_ok s i"
    and "ct_id c = i" "valid_state c" "consistent c"
  shows "controller_ok t i"
  using assms(2-) unfolding controller_ok_def assms(1) by blast

lemma controllers_ok_silent: "silent w v \<Longrightarrow> controllers_ok (wd_store w) \<Longrightarrow> controllers_ok (wd_store v)"
  unfolding controllers_ok_def silent_def using controller_ok_cong by metis

lemma controllers_ok_apply:
  assumes ok: "controllers_ok (wd_store w)" and quiet: "\<And>q. keeps silent (run_cap q)" and "proper_ids d"
    and run: "controller_apply E run_cap d w = (r, v)"
  shows "controllers_ok (wd_store v)"
proof (cases r)
  case (Inr c')
  have "controller_ok (wd_store w) (cd_controller_ref d)" using ok by (simp add: controllers_ok_def)
  from apply_advanced [OF this assms(3) quiet run [unfolded Inr]]
  obtain c where c: "ct_id c = cd_controller_ref d" "advanced d c c' v"
    "controller_get (wd_store w) (cd_controller_ref d) = Inr (Some c)" "cd_state_version d = ct_version c" "admits c (cd_kind d)"
    by blast
  then have "require_current (wd_store w) d = Inr c" by (simp add: require_current_Inr)
  from keeps_only_apply_from [OF quiet this run] have others: "only (ct_id c) w v" .
  have "controller_ok (wd_store v) (ct_id c)"
    using c(2) unfolding advanced_def current_at_def by metis
  moreover have "controller_ok (wd_store v) i" if "i \<noteq> ct_id c" for i
  proof (rule controller_ok_cong)
    show "recorded_states (wd_store v) i = recorded_states (wd_store w) i" using others that by (simp add: only_def)
    show "controller_ok (wd_store w) i" using ok by (simp add: controllers_ok_def)
  qed
  ultimately have "controller_ok (wd_store v) i" for i by (cases "i = ct_id c") simp_all
  then show ?thesis by (simp add: controllers_ok_def)
next
  case (Inl e)
  show ?thesis
  proof (cases "cd_kind d = Invoke_Capability")
    case False
    then have "silent w v" using raise_silent_apply run Inl by (auto simp: raise_silent_def)
    then show ?thesis using ok by (rule controllers_ok_silent)
  next
    case True
    show ?thesis
    proof (cases "require_current (wd_store w) d")
      case (Inl err)
      then show ?thesis using run ok by (simp add: controller_apply_def bindI_def readS_def)
    next
      case (Inr c)
      note req = Inr [unfolded require_current_Inr]
      obtain q u where dec: "record_decision E d w = (q, u)" by fastforce
      have silent: "silent w u" using keepsD [OF keeps_silent_record_decision dec] .
      note oku = controllers_ok_silent [OF silent ok]
      show ?thesis
      proof (cases q)
        case (Inl err)
        then show ?thesis using run Inr dec oku by (simp add: controller_apply_def bindI_def readS_def)
      next
        case (Inr x)
        then have inv: "invoke_capability E run_cap c d u = (Inl e, v)"
          using run \<open>require_current (wd_store w) d = Inr c\<close> dec True \<open>r = Inl e\<close>
          by (simp add: controller_apply_def bindI_def readS_def)
        have "controller_ok (wd_store w) (cd_controller_ref d)" using ok by (simp add: controllers_ok_def)
        note cur = current_at_get [OF this conjunct1 [OF req]]
        note con = current_at_state [OF cur(2)]
        from invoke_capability_Inl [OF inv quiet]
        show ?thesis
        proof (elim conjE disjE exE)
          assume "recorded_states (wd_store v) = recorded_states (wd_store u)"
          then show ?thesis using oku controller_ok_cong unfolding controllers_ok_def by metis
        next
          fix rid t
          assume rid: "rid \<noteq> []" and rec: "recorded_states (wd_store v) = (recorded_states (wd_store u))
             (ct_id c := insert (waiting_for_result rid t c d) (recorded_states (wd_store u) (ct_id c)))"
          have wait: "valid_state (waiting_for_result rid t c d)" "consistent (waiting_for_result rid t c d)"
            "ct_id (waiting_for_result rid t c d) = ct_id c"
            using waiting_ok con rid req True by (simp_all add: waiting_for_result_def)
          show ?thesis
            unfolding controllers_ok_def
          proof
            fix i
            have "controller_ok (wd_store u) i" using oku by (simp add: controllers_ok_def)
            then show "controller_ok (wd_store v) i"
              using wait controller_ok_insert controller_ok_cong rec by (metis fun_upd_apply)
          qed
        qed
      qed
    qed
  qed
qed

end
