(* ===== verification/Controller_Samples.thy ===== *)
theory Controller_Samples
  imports Responsibility_Samples Controller_Histories
begin

text \<open>
  When the controller's events can always be recorded, and concrete controllers on which the
  properties of \<open>Controller_Properties\<close> are instantiated.
\<close>

section \<open>Fresh identities\<close>

text \<open>No event on record has an identity that \<open>uuid4\<close> is still to give.\<close>

definition ids_fresh :: "env \<Rightarrow> world \<Rightarrow> bool" where
  "ids_fresh E w \<longleftrightarrow> (\<forall>n \<ge> wd_tick w. get_event (wd_store w) (new_id_at E n ''event'') = None)"

definition controller_event_types :: "string set" where
  "controller_event_types = {controller_state_event, controller_decision_event, controller_result_event,
     controller_closure_event, controller_work_proposal_event, controller_revision_event,
     controller_reopen_required_event}"

lemma controller_event_gate:
  "ty \<in> controller_event_types \<Longrightarrow> event_gate (make_event i t ty sr p) s = None"
  by (rule event_gate_plain)
    (auto simp: controller_event_types_def controller_event_defs outcome_impact_authority_event_types_def)

lemma append_new_event_fresh:
  assumes "inj (env_uuid_hex E)" "ids_fresh E w" "ty \<in> controller_event_types"
  obtains v where "append_new_event E ty sr p w = (Inr (new_id_at E (wd_tick w) ''event''), v)" "ids_fresh E v"
    "v = w\<lparr>wd_store := (wd_store w)\<lparr>st_event := st_event (wd_store w) @ [(new_id_at E (wd_tick w) ''event'',
       make_event (new_id_at E (wd_tick w) ''event'') (env_clock E (wd_tick w + 1)) ty sr p)]\<rparr>, wd_tick := wd_tick w + 2\<rparr>"
proof -
  let ?i = "new_id_at E (wd_tick w) ''event''"
  let ?e = "make_event ?i (env_clock E (wd_tick w + 1)) ty sr p"
  let ?v = "w\<lparr>wd_store := (wd_store w)\<lparr>st_event := st_event (wd_store w) @ [(?i, ?e)]\<rparr>, wd_tick := wd_tick w + 2\<rparr>"
  have "get_event (wd_store w) ?i = None" using assms(2) by (simp add: ids_fresh_def)
  then have "append_new_event E ty sr p w = (Inr ?i, ?v)"
    by (simp add: append_new_event_def bindI_def new_id_def utcnow_def on_store_def retI_def append_event_def
        controller_event_gate [OF assms(3)] get_event_def dict_set_new)
  moreover have "new_id_at E n ''event'' \<noteq> ?i" if "wd_tick w + 2 \<le> n" for n
    using that assms(1) by (auto simp: new_id_at_def dest: injD)
  then have "ids_fresh E ?v"
    using assms(2) by (auto simp: ids_fresh_def get_event_def map_add_def split: option.splits)
  ultimately show thesis using that by blast
qed

lemma ids_fresh_tick [simp]: "ids_fresh E w \<Longrightarrow> ids_fresh E (w\<lparr>wd_tick := wd_tick w + n\<rparr>)"
  by (auto simp: ids_fresh_def)

lemma record_state_fresh:
  assumes "inj (env_uuid_hex E)" "ids_fresh E w"
  obtains v where "record_state E c w = (Inr (), v)" "ids_fresh E v"
proof -
  obtain v where "append_new_event E controller_state_event (ct_id c) (PControllerState c) w
      = (Inr (new_id_at E (wd_tick w) ''event''), v)" "ids_fresh E v"
    by (rule append_new_event_fresh [OF assms, where ty = controller_state_event]) (auto simp: controller_event_types_def)
  then show thesis using that by (simp add: record_state_def bindI_def retI_def)
qed

lemma record_decision_fresh:
  assumes "inj (env_uuid_hex E)" "ids_fresh E w"
  obtains v where "record_decision E d w = (Inr (), v)" "ids_fresh E v"
proof -
  obtain v where "append_new_event E controller_decision_event (cd_controller_ref d) (PControllerDecision d) w
      = (Inr (new_id_at E (wd_tick w) ''event''), v)" "ids_fresh E v"
    by (rule append_new_event_fresh [OF assms, where ty = controller_decision_event]) (auto simp: controller_event_types_def)
  then show thesis using that by (simp add: record_decision_def bindI_def retI_def)
qed

lemma transition_state_fresh:
  assumes "inj (env_uuid_hex E)" "ids_fresh E w"
  obtains c' v where "transition_state E c d st pend cl pr rr res w = (Inr c', v)" "ids_fresh E v"
proof -
  let ?c = "c\<lparr>ct_status := st, ct_version := ct_version c + 1, ct_pending_ref := pend,
           ct_last_decision_ref := Some (cd_id d), ct_updated_at := env_clock E (wd_tick w),
           ct_active_closure_ref := updated_ref cl (ct_active_closure_ref c),
           ct_work_proposal_ref := updated_ref pr (ct_work_proposal_ref c),
           ct_last_revision_ref := updated_ref rr (ct_last_revision_ref c),
           ct_last_result_ref := updated_ref res (ct_last_result_ref c)\<rparr>"
  have "ids_fresh E (w\<lparr>wd_tick := wd_tick w + 1\<rparr>)" by (rule ids_fresh_tick [OF assms(2)])
  from record_state_fresh [OF assms(1) this, of ?c] obtain v where
    "record_state E ?c (w\<lparr>wd_tick := wd_tick w + 1\<rparr>) = (Inr (), v)" "ids_fresh E v" by metis
  then show thesis using that [of ?c v] by (simp add: transition_state_Inr)
qed

text \<open>An admissible decision that needs nothing but the transition is accepted.\<close>

lemma apply_direct_fresh:
  assumes "inj (env_uuid_hex E)" "ids_fresh E w" "require_current (wd_store w) d = Inr c"
    and "cd_kind d \<in> {Close, Wait, Reopen}"
  obtains c' v where "controller_apply E run_cap d w = (Inr c', v)" "ids_fresh E v"
proof -
  obtain u where dec: "record_decision E d w = (Inr (), u)" "ids_fresh E u"
    by (rule record_decision_fresh [OF assms(1,2)])
  note step = transition_state_fresh [OF assms(1) dec(2), where c = c and d = d]
  show thesis
  proof (cases "cd_kind d")
    case Close
    with dec assms(3) that show thesis
      by (auto simp: controller_apply_def bindI_def readS_def
          intro: step [where st = Closed and pend = None and cl = Unchanged and pr = Unchanged and rr = Unchanged and res = Unchanged])
  next
    case Wait
    with dec assms(3) that show thesis
      by (auto simp: controller_apply_def bindI_def readS_def
          intro: step [where st = Waiting and pend = "Some (cd_id d)" and cl = Unchanged and pr = Unchanged and rr = Unchanged and res = Unchanged])
  next
    case Reopen
    with dec assms(3) that show thesis
      by (auto simp: controller_apply_def bindI_def readS_def
          intro: step [where st = Open and pend = None and cl = "To None" and pr = "To None" and rr = Unchanged and res = Unchanged])
  qed (use assms(4) in simp_all)
qed

section \<open>A concrete controller\<close>

definition seeded_events :: "event list \<Rightarrow> world" where
  "seeded_events es = \<lparr>wd_store = empty_store\<lparr>st_event := map (\<lambda>e. (ev_id e, e)) es\<rparr>, wd_tick = 0\<rparr>"

definition sample_controller :: controller_state where
  "sample_controller = \<lparr>ct_id = ''c1'', ct_responsibility_ref = Some ''r1'', ct_subject_ref = Some ''subject'',
     ct_context_refs = [], ct_candidate_refs = [], ct_open_issue_refs = [], ct_status = Open, ct_version = 0,
     ct_pending_ref = None, ct_active_closure_ref = None, ct_work_proposal_ref = None, ct_last_revision_ref = None,
     ct_last_decision_ref = None, ct_last_result_ref = None, ct_created_at = 0, ct_updated_at = 0\<rparr>"

definition sample_decision :: "decision_kind \<Rightarrow> int \<Rightarrow> controller_decision" where
  "sample_decision k n = \<lparr>cd_id = ''d1'', cd_controller_ref = ''c1'', cd_state_version = n, cd_kind = k,
     cd_reason = [], cd_policy_ref = None, cd_capability = Some ''search'', cd_instruction = None,
     cd_parameters = fmempty, cd_constraints = fmempty, cd_closure = None, cd_closure_ref = Some ''k1'',
     cd_assessment_ref = Some ''s1'', cd_work_kind = ''check'', cd_work_title = Some ''check it'',
     cd_work_description = [], cd_requested_capabilities = [], cd_expected_result = [], cd_stop_conditions = [],
     cd_escalation_conditions = [], cd_effect_class = ''read-only'', cd_revision = None\<rparr>"

definition state_event :: "controller_state \<Rightarrow> event" where
  "state_event c = make_event ''e0'' 0 controller_state_event (ct_id c) (PControllerState c)"

definition sample_result :: capability_result where
  "sample_result = \<lparr>cr_request_id = ''q'', cr_provider_id = ''p'', cr_status = Cap_Succeeded,
     cr_output_artifact_refs = [], cr_evidence_refs = [], cr_message = None, cr_error = None,
     cr_metadata = fmempty, cr_verification_result = None, cr_external_operation_ref = None, cr_reconciled = False\<rparr>"

definition quiet_invoker :: invoker where
  "quiet_invoker q = retI sample_result"

lemma quiet_invoker_silent: "keeps silent (quiet_invoker q)"
  unfolding quiet_invoker_def by (intro keeps_retI reflp_silent)

lemma sample_uuid_inj: "inj (env_uuid_hex sample_env)"
  by (rule injI) (simp add: sample_env_def)

lemma recorded_single:
  "recorded_states (wd_store (seeded_events [state_event c])) i = (if i = ct_id c then {c} else {})"
  by (auto simp: recorded_states_def seeded_events_def state_event_def)

lemma seeded_single:
  assumes "valid_state c" "consistent c"
  shows "controllers_ok (wd_store (seeded_events [state_event c]))"
    and "controller_get (wd_store (seeded_events [state_event c])) (ct_id c) = Inr (Some c)"
    and "ids_fresh sample_env (seeded_events [state_event c])"
proof -
  show "controllers_ok (wd_store (seeded_events [state_event c]))"
    using assms by (simp add: controllers_ok_def controller_ok_def recorded_single)
  show "controller_get (wd_store (seeded_events [state_event c])) (ct_id c) = Inr (Some c)"
    by (rule controller_get_latest) (use assms in \<open>simp_all add: recorded_single\<close>)
  show "ids_fresh sample_env (seeded_events [state_event c])"
    by (simp add: ids_fresh_def get_event_def seeded_events_def state_event_def new_id_at_def)
qed

lemma sample_controller_ok: "valid_state sample_controller" "consistent sample_controller"
  by (simp_all add: sample_controller_def valid_state_iff consistent_def)

abbreviation sample_world :: world where
  "sample_world \<equiv> seeded_events [state_event sample_controller]"

lemma sample_require:
  assumes "k \<in> {Invoke_Capability, Form_Closure, Close, Wait}"
  shows "require_current (wd_store sample_world) (sample_decision k 0) = Inr sample_controller"
  using assms seeded_single(2) [OF sample_controller_ok]
  by (auto simp: require_current_Inr sample_decision_def admits_def) (auto simp: sample_controller_def)

lemma sample_proper: "proper_ids (sample_decision k n)"
  by (simp add: proper_ids_def sample_decision_def)

section \<open>Runs of the concrete controller\<close>

lemma invoke_fresh:
  assumes E: "inj (env_uuid_hex E)" "ids_fresh E w" and "current_at (wd_store w) c" "admits c Invoke_Capability"
    and cap: "cd_capability d = Some cap"
    and call: "\<And>rid t u. ids_fresh E u \<Longrightarrow> current_at (wd_store u) (waiting_for_result rid t c d)
        \<Longrightarrow> controller_get (wd_store u) (ct_id c) = Inr (Some (waiting_for_result rid t c d))
        \<Longrightarrow> \<exists>r v. run_cap (request_of_decision rid cap c d) u = (Inr r, v) \<and> ids_fresh E v"
  obtains c' v where "invoke_capability E run_cap c d w = (Inr c', v)" "ids_fresh E v"
proof -
  let ?rid = "new_id_at E (wd_tick w) ''request''" and ?t = "env_clock E (wd_tick w + 1)"
  let ?wait = "waiting_for_result ?rid ?t c d"
  let ?w = "w\<lparr>wd_tick := wd_tick w + 2\<rparr>"
  have "ids_fresh E ?w" by (rule ids_fresh_tick [OF E(2)])
  from record_state_fresh [OF E(1) this] obtain u where u: "record_state E ?wait ?w = (Inr (), u)" "ids_fresh E u" by metis
  have "current_at (wd_store ?w) c" using assms(3) by simp
  moreover have "ct_id ?wait = ct_id c" "ct_version c < ct_version ?wait" by (simp_all add: waiting_for_result_def)
  moreover have "valid_state ?wait" "consistent ?wait"
    using waiting_ok assms(4) current_at_state [OF assms(3)] by simp_all
  ultimately have "current_at (wd_store u) ?wait" "controller_get (wd_store u) (ct_id c) = Inr (Some ?wait)"
    using record_successor u(1) by blast+
  from call [OF u(2) this] obtain r v where v: "run_cap (request_of_decision ?rid cap c d) u = (Inr r, v)" "ids_fresh E v"
    by blast
  obtain y where y: "append_new_event E controller_result_event (ct_id c) (PControllerResult (cd_id d) ?rid (ct_version c) r) v
      = (Inr (new_id_at E (wd_tick v) ''event''), y)" "ids_fresh E y"
    by (rule append_new_event_fresh [OF E(1) v(2), where ty = controller_result_event]) (auto simp: controller_event_types_def)
  let ?c = "resumed_with (new_id_at E (wd_tick v) ''event'') (env_clock E (wd_tick y)) ?wait"
  have "ids_fresh E (y\<lparr>wd_tick := wd_tick y + 1\<rparr>)" by (rule ids_fresh_tick [OF y(2)])
  from record_state_fresh [OF E(1) this] obtain z where z: "record_state E ?c (y\<lparr>wd_tick := wd_tick y + 1\<rparr>) = (Inr (), z)"
    "ids_fresh E z" by metis
  have "invoke_capability E run_cap c d w = (Inr ?c, z)"
    using cap u(1) v(1) y(1) z(1) by (simp add: invoke_capability_def numeral_2_eq_2)
  then show thesis using z(2) that by blast
qed

definition sample_closure :: cognitive_closure where
  "sample_closure = \<lparr>cl_id = ''k1'', cl_controller_ref = ''c1'', cl_controller_state_version = 0,
     cl_responsibility_ref = Some ''r1'', cl_subject_ref = Some ''subject'', cl_problem_ref = None, cl_scope = fmempty,
     cl_basis_refs = [''b''], cl_selected_candidate_refs = [], cl_deferred_candidate_refs = [],
     cl_rejected_candidate_refs = [], cl_deferred_issue_refs = [], cl_selected_direction = ''go'', cl_rationale = [],
     cl_acceptance_criteria = [''done''], cl_verification_plan = [''look''], cl_stop_conditions = [],
     cl_escalation_conditions = [], cl_reopen_conditions = [''broken''], cl_requested_capabilities = [''read''],
     cl_effect_class = Read_Only, cl_policy_ref = None,
     cl_handoff = \<lparr>he_subject_refs = [], he_goal_refs = [], he_constraint_refs = [], he_assumption_refs = [],
       he_evidence_refs = [], he_observation_refs = [], he_assertion_refs = [], he_unknown_refs = [],
       he_counterevidence_refs = [], he_selected_candidate_refs = [], he_deferred_candidate_refs = [],
       he_rejected_candidate_refs = [], he_authorization_refs = [], he_closure_refs = [], he_invalidation_refs = [],
       he_reopen_condition_refs = [], he_dispositions = fmempty\<rparr>, cl_created_at = 0\<rparr>"

definition closing_decision :: controller_decision where
  "closing_decision = (sample_decision Form_Closure 0)\<lparr>cd_closure := Some sample_closure\<rparr>"

lemma sample_form_closure:
  obtains c' v where "controller_apply sample_env run_cap closing_decision sample_world = (Inr c', v)" "ids_fresh sample_env v"
proof -
  note fresh = seeded_single(3) [OF sample_controller_ok]
  obtain u where u: "record_decision sample_env closing_decision sample_world = (Inr (), u)" "ids_fresh sample_env u"
    by (rule record_decision_fresh [OF sample_uuid_inj fresh])
  obtain x where x: "append_new_event sample_env controller_closure_event ''c1'' (PControllerClosure ''d1'' sample_closure) u
      = (Inr (new_id_at sample_env (wd_tick u) ''event''), x)" "ids_fresh sample_env x"
    by (rule append_new_event_fresh [OF sample_uuid_inj u(2), where ty = controller_closure_event])
      (auto simp: controller_event_types_def)
  obtain c' v where v: "transition_state sample_env sample_controller closing_decision Open None (To (Some ''k1'')) Unchanged
      Unchanged (To (Some (new_id_at sample_env (wd_tick u) ''event''))) x = (Inr c', v)" "ids_fresh sample_env v"
    by (rule transition_state_fresh [OF sample_uuid_inj x(2)])
  have req: "require_current (wd_store sample_world) closing_decision = Inr sample_controller"
    using sample_require [of Form_Closure]
    by (simp add: require_current_Inr closing_decision_def sample_decision_def)
  have sels: "cd_kind closing_decision = Form_Closure" "cd_closure closing_decision = Some sample_closure"
    "cd_policy_ref closing_decision = None" "cd_id closing_decision = ''d1''" "ct_id sample_controller = ''c1''"
    "ct_responsibility_ref sample_controller = cl_responsibility_ref sample_closure"
    "ct_subject_ref sample_controller = cl_subject_ref sample_closure" "ct_candidate_refs sample_controller = []"
    "missing_issues sample_controller sample_closure = []" "cl_id sample_closure = ''k1''"
    by (simp_all add: closing_decision_def sample_decision_def sample_controller_def sample_closure_def missing_issues_def)
  have "controller_apply sample_env run_cap closing_decision sample_world = (Inr c', v)"
    using u(1) x(1) v(1) req by (simp add: controller_apply_def readS_def sels form_closure_def Let_def)
  then show thesis using v(2) that by blast
qed

text \<open>The next decision on the controller, made for its current version.\<close>

lemma next_decision:
  assumes ok: "controllers_ok (wd_store w)" and fresh: "ids_fresh sample_env w"
    and get: "controller_get (wd_store w) ''c1'' = Inr (Some c)"
    and k: "k \<in> {Close, Wait, Reopen} \<or> k = Invoke_Capability" "admits c k"
  obtains d c' v where "controller_apply sample_env quiet_invoker d w = (Inr c', v)" "cd_controller_ref d = ''c1''"
    "cd_kind d = k" "proper_ids d" "ids_fresh sample_env v" "controllers_ok (wd_store v)"
    "controller_get (wd_store v) ''c1'' = Inr (Some c')" "phase_step (phase_of c) k (phase_of c')"
proof -
  let ?d = "sample_decision k (ct_version c)"
  have sels: "cd_controller_ref ?d = ''c1''" "cd_kind ?d = k" "cd_state_version ?d = ct_version c"
    "cd_capability ?d = Some ''search''"
    by (simp_all add: sample_decision_def)
  have req: "require_current (wd_store w) ?d = Inr c" using get k(2) by (simp add: require_current_Inr sels)
  have "\<exists>c' v. controller_apply sample_env quiet_invoker ?d w = (Inr c', v) \<and> ids_fresh sample_env v"
  proof (cases "k = Invoke_Capability")
    case False
    then have "cd_kind ?d \<in> {Close, Wait, Reopen}" using k(1) sels by blast
    from apply_direct_fresh [OF sample_uuid_inj fresh req this] show ?thesis by blast
  next
    case True
    obtain u where dec: "record_decision sample_env ?d w = (Inr (), u)" "ids_fresh sample_env u"
      by (rule record_decision_fresh [OF sample_uuid_inj fresh])
    have "controller_ok (wd_store w) ''c1''" using ok by (simp add: controllers_ok_def)
    from current_at_run [OF current_at_get(2) [OF this get] keeps_silent_record_decision dec(1)]
    have at: "current_at (wd_store u) c" .
    have call: "\<exists>r v. quiet_invoker q x = (Inr r, v) \<and> ids_fresh sample_env v" if "ids_fresh sample_env x" for q x
      unfolding quiet_invoker_def retI_def using that by blast
    obtain c' v where "invoke_capability sample_env quiet_invoker c ?d u = (Inr c', v)" "ids_fresh sample_env v"
      by (rule invoke_fresh [OF sample_uuid_inj dec(2) at _ sels(4) call]) (use k(2) True in simp_all)
    then show ?thesis using req dec(1) True sels by (auto simp: controller_apply_def readS_def)
  qed
  then obtain c' v where run: "controller_apply sample_env quiet_invoker ?d w = (Inr c', v)" and v: "ids_fresh sample_env v"
    by blast
  have "controller_ok (wd_store w) (cd_controller_ref ?d)" using ok by (simp add: controllers_ok_def)
  from apply_advanced [OF this sample_proper quiet_invoker_silent run]
  have "controller_get (wd_store v) ''c1'' = Inr (Some c')" "phase_step (phase_of c) k (phase_of c')"
    using get sels by (auto simp: advanced_def)
  then show thesis
    using that [OF run sels(1,2) sample_proper v controllers_ok_apply [OF ok quiet_invoker_silent sample_proper run]]
    by blast
qed

end
