(* ===== verification/Controller_Properties.thy ===== *)
theory Controller_Properties
  imports Controller_Samples
begin

text \<open>
  Histories of the cognitive controller: every operation keeps the states on record well formed, work
  stays within the closure it was decided by, exploration resumes only by reopening, and what is lost
  when a decision or a reopening meets a corner the code does not guard.
\<close>

section \<open>Operations\<close>

datatype controller_op =
    Op_Create "string option" "string option" "string list" "string list" "string list" "string option"
  | Op_Apply controller_decision
  | Op_Step string controller_policy
  | Op_Reopen_Required string string
  | Op_Elsewhere "world \<Rightarrow> world"

fun exec_controller :: "env \<Rightarrow> invoker \<Rightarrow> controller_op \<Rightarrow> world \<Rightarrow> world" where
  "exec_controller E run_cap (Op_Create r s cs ks is i) w = snd (controller_create E r s cs ks is i w)"
| "exec_controller E run_cap (Op_Apply d) w = snd (controller_apply E run_cap d w)"
| "exec_controller E run_cap (Op_Step cid p) w = snd (controller_step E run_cap cid p w)"
| "exec_controller E run_cap (Op_Reopen_Required cid reason) w = snd (reopen_required E cid reason w)"
| "exec_controller E run_cap (Op_Elsewhere f) w = f w"

definition run_controller :: "env \<Rightarrow> invoker \<Rightarrow> controller_op list \<Rightarrow> world \<Rightarrow> world" where
  "run_controller E run_cap ops w = fold (exec_controller E run_cap) ops w"

text \<open>
  What the rest of the program does records no controller state, policies select decisions that have
  identities, and every applied decision has one.
\<close>

fun proper_op :: "controller_op \<Rightarrow> bool" where
  "proper_op (Op_Apply d) \<longleftrightarrow> proper_ids d"
| "proper_op (Op_Step cid p) \<longleftrightarrow> (\<forall>c. keeps silent (po_select p c))
     \<and> (\<forall>c w d v. po_select p c w = (Inr d, v) \<longrightarrow> proper_ids d)"
| "proper_op (Op_Elsewhere f) \<longleftrightarrow> (\<forall>w. silent w (f w))"
| "proper_op _ \<longleftrightarrow> True"

lemma controllers_ok_record:
  assumes "controllers_ok (wd_store w)" "valid_state c" "consistent c" "record_state E c w = (r, v)"
  shows "controllers_ok (wd_store v)"
  unfolding controllers_ok_def
proof
  fix i
  have "controller_ok (wd_store w) i" using assms(1) by (simp add: controllers_ok_def)
  then show "controller_ok (wd_store v) i"
    using record_state_recorded(2) [OF assms(4), of i] assms(2,3)
    by (cases "r = Inr () \<and> i = ct_id c") (auto intro: controller_ok_insert controller_ok_cong)
qed

lemma controllers_ok_run:
  assumes "controllers_ok (wd_store w)" "keeps silent m" "m w = (r, v)"
  shows "controllers_ok (wd_store v)"
  using controllers_ok_silent [OF keepsD [OF assms(2,3)] assms(1)] .

lemma controllers_ok_create:
  assumes ok: "controllers_ok (wd_store w)" and run: "controller_create E rr sr cs ks is i w = (r, v)"
  shows "controllers_ok (wd_store v)"
proof -
  let ?ident = "case i of None \<Rightarrow> new_id E ''controller''
       | Some i \<Rightarrow> if i = [] then new_id E ''controller'' else retI i"
  have "keeps silent ?ident"
    by (intro keeps_intros keeps_silent_new_id reflp_silent)
  obtain q u where id: "?ident w = (q, u)" by fastforce
  have oku: "controllers_ok (wd_store u)" by (rule controllers_ok_run [OF ok \<open>keeps silent ?ident\<close> id])
  show ?thesis
  proof (cases q)
    case (Inl e)
    then show ?thesis using run id oku by (simp add: controller_create_def bindI_def [of ?ident])
  next
    case (Inr cid)
    let ?c = "\<lparr>ct_id = cid, ct_responsibility_ref = rr, ct_subject_ref = sr,
           ct_context_refs = cs, ct_candidate_refs = ks, ct_open_issue_refs = is,
           ct_status = Open, ct_version = 0, ct_pending_ref = None, ct_active_closure_ref = None,
           ct_work_proposal_ref = None, ct_last_revision_ref = None, ct_last_decision_ref = None,
           ct_last_result_ref = None, ct_created_at = env_clock E (wd_tick u), ct_updated_at = env_clock E (wd_tick u + 1)\<rparr>"
    let ?u = "u\<lparr>wd_tick := wd_tick u + 2\<rparr>"
    have "wd_store v = wd_store u \<or> (\<exists>q. record_state E ?c ?u = (q, v))"
    proof (cases "controller_get (wd_store u) cid")
      case (Inl e)
      then show ?thesis
        using run id Inr by (auto simp: controller_create_def Let_def bindI_def readS_def utcnow_def)
    next
      case found: (Inr found)
      show ?thesis
      proof (cases "found = None")
        case True
        then have "bindI (record_state E ?c) (\<lambda>_. retI ?c) ?u = (r, v)"
          using run id Inr found
          by (simp add: controller_create_def Let_def bindI_def [of ?ident] bindI_def [of "utcnow E"]
              bindI_def [of "readS f" for f] readS_def utcnow_def numeral_2_eq_2 raise_ifI_def)
        then show ?thesis by (auto simp: bindI_def retI_def split: prod.splits sum.splits)
      next
        case False
        then show ?thesis
          using run id Inr found by (auto simp: controller_create_def Let_def bindI_def readS_def utcnow_def raise_ifI_def raiseI_def)
      qed
    qed
    then show ?thesis
    proof
      assume "\<exists>q. record_state E ?c ?u = (q, v)"
      then obtain q where "record_state E ?c ?u = (q, v)" ..
      moreover have "valid_state ?c" "consistent ?c" by (simp_all add: valid_state_iff consistent_def)
      moreover have "controllers_ok (wd_store ?u)" using oku by simp
      ultimately show ?thesis using controllers_ok_record by blast
    qed (use oku in simp)
  qed
qed

text \<open>What requiring a reopening records.\<close>

definition reopening_state :: "time \<Rightarrow> controller_state \<Rightarrow> controller_state" where
  "reopening_state t c = c\<lparr>ct_status := Reopen_Required, ct_version := ct_version c + 1,
     ct_pending_ref := None, ct_updated_at := t\<rparr>"

lemma reopen_required_run:
  assumes "reopen_required E cid reason w = (r, v)" "controller_get (wd_store w) cid = Inr (Some c)"
  obtains (failed) "silent w v" "\<exists>e. r = Inl e"
  | (recorded) u t where "silent w u" "wd_tick w \<le> wd_tick u" "wd_tick u < wd_tick v" "t = env_clock E (wd_tick u)"
      "record_state E (reopening_state t c) (u\<lparr>wd_tick := wd_tick u + 1\<rparr>) = (Inr (), v)" "r = Inr (reopening_state t c)"
proof -
  let ?ev = "append_new_event E controller_reopen_required_event (ct_id c) (PReopenRequired reason (ct_version c))"
  obtain q u where ev: "?ev w = (q, u)" by fastforce
  have u: "silent w u" using keepsD [OF keeps_silent_controller_event(5) ev] .
  have run: "bindI ?ev (\<lambda>_. bindI (utcnow E) (\<lambda>t. bindI (record_state E (reopening_state t c))
      (\<lambda>_. retI (reopening_state t c)))) w = (r, v)"
    using assms by (simp add: reopen_required_def bindI_def [of "readS f" for f] readS_def Let_def reopening_state_def)
  show thesis
  proof (cases q)
    case (Inl e)
    then show thesis using failed run ev u by (auto simp: bindI_def)
  next
    case (Inr x)
    let ?t = "env_clock E (wd_tick u)" and ?u = "u\<lparr>wd_tick := wd_tick u + 1\<rparr>"
    obtain s y where rec: "record_state E (reopening_state ?t c) ?u = (s, y)" by fastforce
    have res: "(r, v) = (case s of Inl e \<Rightarrow> (Inl e, y) | Inr _ \<Rightarrow> (Inr (reopening_state ?t c), y))"
      using run ev Inr rec by (simp add: bindI_def utcnow_def retI_def split: sum.splits)
    have g: "world_grows ?u y" by (rule record_state_recorded(1) [OF rec])
    show thesis
    proof (cases s)
      case (Inl e)
      then have "silent ?u y" using raise_silent_record rec by (auto simp: raise_silent_def)
      moreover have "silent u ?u" by (simp add: silent_def world_grows_def)
      ultimately have "silent w y" using u transpD [OF transp_silent] by blast
      then show thesis using failed res Inl by simp
    next
      case (Inr x)
      then show thesis
        using recorded [OF u _ _ refl] res rec u g by (simp add: silent_def world_grows_def)
    qed
  qed
qed

lemma controllers_ok_reopen:
  assumes ok: "controllers_ok (wd_store w)" and run: "reopen_required E cid reason w = (r, v)"
  shows "controllers_ok (wd_store v)"
proof (cases "controller_get (wd_store w) cid")
  case (Inl e)
  then show ?thesis using ok run by (simp add: reopen_required_def bindI_def readS_def)
next
  case (Inr found)
  show ?thesis
  proof (cases found)
    case None
    then show ?thesis using ok run Inr by (simp add: reopen_required_def bindI_def readS_def raiseI_def)
  next
    case (Some c)
    have "controller_ok (wd_store w) cid" using ok by (simp add: controllers_ok_def)
    note cur = current_at_state [OF current_at_get(2) [OF this Inr [unfolded Some]]]
    from run Inr [unfolded Some] show ?thesis
    proof (cases rule: reopen_required_run)
      case failed
      then show ?thesis using ok controllers_ok_silent by blast
    next
      case (recorded u t)
      have "controllers_ok (wd_store (u\<lparr>wd_tick := wd_tick u + 1\<rparr>))"
        using controllers_ok_silent [OF recorded(1) ok] by simp
      then show ?thesis
        by (rule controllers_ok_record [OF _ _ _ recorded(5)])
          (use cur in \<open>simp_all add: reopening_state_def valid_state_iff consistent_def\<close>)
    qed
  qed
qed

lemma controllers_ok_step:
  assumes ok: "controllers_ok (wd_store w)" and quiet: "\<And>q. keeps silent (run_cap q)"
    and p: "proper_op (Op_Step cid p)" and run: "controller_step E run_cap cid p w = (r, v)"
  shows "controllers_ok (wd_store v)"
proof (cases "controller_get (wd_store w) cid")
  case (Inl e)
  then show ?thesis using ok run by (simp add: controller_step_def bindI_def readS_def)
next
  case (Inr found)
  show ?thesis
  proof (cases "found = None \<or> py_strip (po_ref p) = []")
    case True
    then show ?thesis using ok run Inr
      by (cases found) (auto simp: controller_step_def bindI_def readS_def raiseI_def raise_ifI_def)
  next
    case False
    then obtain c where c: "found = Some c" by (cases found) auto
    obtain q u where sel: "po_select p c w = (q, u)" by fastforce
    have "keeps silent (po_select p c)" using p by simp
    then have oku: "controllers_ok (wd_store u)" using controllers_ok_run [where m = "po_select p c", OF ok _ sel] by simp
    show ?thesis
    proof (cases q)
      case (Inl e)
      then show ?thesis using run Inr c False sel oku
        by (simp add: controller_step_def bindI_def readS_def raise_ifI_def)
    next
      case dec: (Inr d)
      let ?d = "d\<lparr>cd_policy_ref := Some (py_strip (po_ref p))\<rparr>"
      have "proper_ids d" using p sel dec proper_op.simps(2) by metis
      then have d: "proper_ids ?d" by (simp add: proper_ids_def)
      have "wd_store v = wd_store u \<or> controller_apply E run_cap ?d u = (r, v)"
        using run Inr c False sel dec by (auto simp: controller_step_def bindI_def readS_def raise_ifI_def raiseI_def split: if_splits)
      then show ?thesis using oku controllers_ok_apply [OF oku quiet d] by auto
    qed
  qed
qed

lemma controllers_ok_exec:
  assumes "controllers_ok (wd_store w)" "\<And>q. keeps silent (run_cap q)" "proper_op op"
  shows "controllers_ok (wd_store (exec_controller E run_cap op w))"
proof (cases op)
  case (Op_Create r s cs ks js i)
  then show ?thesis using controllers_ok_create [OF assms(1)] by (simp add: prod_eq_iff)
next
  case (Op_Apply d)
  then show ?thesis using controllers_ok_apply [OF assms(1,2)] assms(3) by (simp add: prod_eq_iff)
next
  case (Op_Step cid p)
  then show ?thesis using controllers_ok_step [OF assms(1,2)] assms(3) by (simp add: prod_eq_iff)
next
  case (Op_Reopen_Required cid reason)
  then show ?thesis using controllers_ok_reopen [OF assms(1)] by (simp add: prod_eq_iff)
next
  case (Op_Elsewhere f)
  then have "silent w (f w)" using assms(3) by simp
  then show ?thesis using controllers_ok_silent assms(1) Op_Elsewhere by simp
qed

lemma controllers_ok_history:
  assumes "\<And>q. keeps silent (run_cap q)" "\<forall>op \<in> set ops. proper_op op" "controllers_ok (wd_store w)"
  shows "controllers_ok (wd_store (run_controller E run_cap ops w))"
  using assms(2,3) by (induction ops arbitrary: w) (simp_all add: run_controller_def controllers_ok_exec [OF _ assms(1)])

section \<open>Exploration after a closure\<close>

text \<open>
  The kinds of the decisions that a controller accepted, in order, while decisions are refused,
  reopenings are required and the rest of the program runs.
\<close>

inductive controller_trace :: "env \<Rightarrow> invoker \<Rightarrow> string \<Rightarrow> world \<Rightarrow> decision_kind list \<Rightarrow> world \<Rightarrow> bool"
  for E run_cap cid w where
  start: "controller_trace E run_cap cid w [] w"
| accepted: "controller_trace E run_cap cid w ks u \<Longrightarrow> cd_controller_ref d = cid \<Longrightarrow> proper_ids d \<Longrightarrow>
     controller_apply E run_cap d u = (Inr c, v) \<Longrightarrow> controller_trace E run_cap cid w (ks @ [cd_kind d]) v"
| refused: "controller_trace E run_cap cid w ks u \<Longrightarrow> cd_controller_ref d = cid \<Longrightarrow> proper_ids d \<Longrightarrow>
     controller_apply E run_cap d u = (Inl e, v) \<Longrightarrow> controller_trace E run_cap cid w ks v"
| required: "controller_trace E run_cap cid w ks u \<Longrightarrow> reopen_required E cid reason u = (r, v) \<Longrightarrow>
     controller_trace E run_cap cid w ks v"
| elsewhere: "controller_trace E run_cap cid w ks u \<Longrightarrow> silent u v \<Longrightarrow> controller_trace E run_cap cid w ks v"

definition closed_since_opening :: "decision_kind list \<Rightarrow> bool" where
  "closed_since_opening ks \<longleftrightarrow> (\<exists>pre mid. ks = pre @ Form_Closure # mid \<and> Reopen \<notin> set mid)"

lemma closed_since_snoc:
  "closed_since_opening (ks @ [k]) \<longleftrightarrow> k = Form_Closure \<or> closed_since_opening ks \<and> k \<noteq> Reopen"
proof
  assume "closed_since_opening (ks @ [k])"
  then obtain pre mid where *: "ks @ [k] = pre @ Form_Closure # mid" "Reopen \<notin> set mid"
    by (auto simp: closed_since_opening_def)
  show "k = Form_Closure \<or> closed_since_opening ks \<and> k \<noteq> Reopen"
  proof (cases mid rule: rev_cases)
    case Nil
    then show ?thesis using * by simp
  next
    case (snoc m x)
    then show ?thesis using * by (auto simp: closed_since_opening_def)
  qed
next
  assume "k = Form_Closure \<or> closed_since_opening ks \<and> k \<noteq> Reopen"
  then show "closed_since_opening (ks @ [k])"
  proof
    assume "k = Form_Closure"
    then show ?thesis unfolding closed_since_opening_def by (intro exI [of _ ks] exI [of _ "[]"]) simp
  next
    assume "closed_since_opening ks \<and> k \<noteq> Reopen"
    then obtain pre mid where "ks = pre @ Form_Closure # mid" "Reopen \<notin> set mid" "k \<noteq> Reopen"
      by (auto simp: closed_since_opening_def)
    then show ?thesis unfolding closed_since_opening_def by (intro exI [of _ pre] exI [of _ "mid @ [k]"]) simp
  qed
qed

text \<open>No state with the greatest version is exploring.\<close>

definition not_exploring :: "store \<Rightarrow> string \<Rightarrow> bool" where
  "not_exploring s cid \<longleftrightarrow> (\<forall>c \<in> recorded_states s cid.
     (\<forall>d \<in> recorded_states s cid. ct_version d \<le> ct_version c) \<longrightarrow> phase_of c \<noteq> Exploring)"

lemma not_exploring_cong:
  "recorded_states t cid = recorded_states s cid \<Longrightarrow> not_exploring s cid \<Longrightarrow> not_exploring t cid"
  unfolding not_exploring_def by (drule sym) simp

lemma not_exploring_insert:
  assumes "recorded_states t cid = insert c (recorded_states s cid)" "phase_of c \<noteq> Exploring"
    and "\<forall>d \<in> recorded_states s cid. ct_version d < ct_version c"
  shows "not_exploring t cid"
  using assms unfolding not_exploring_def by fastforce

lemma current_not_exploring:
  "current_at s c \<Longrightarrow> not_exploring s (ct_id c) \<Longrightarrow> phase_of c \<noteq> Exploring"
  unfolding current_at_def not_exploring_def by blast

lemma phase_step_not_exploring: "phase_step p k q \<Longrightarrow> p \<noteq> Exploring \<Longrightarrow> k \<noteq> Reopen \<Longrightarrow> q \<noteq> Exploring"
  by (auto elim: phase_stepE)

lemma trace_invariant:
  assumes "controller_trace E run_cap cid w ks v" "controllers_ok (wd_store w)" "\<And>q. keeps silent (run_cap q)"
  shows "controllers_ok (wd_store v) \<and> (closed_since_opening ks \<longrightarrow> not_exploring (wd_store v) cid)"
  using assms(1)
proof (induction rule: controller_trace.induct)
  case start
  then show ?case using assms(2) by (simp add: closed_since_opening_def)
next
  case (accepted ks u d c' v)
  then have ok: "controllers_ok (wd_store u)" "controller_ok (wd_store u) (cd_controller_ref d)"
    by (simp_all add: controllers_ok_def)
  obtain c where c: "controller_get (wd_store u) (cd_controller_ref d) = Inr (Some c)" "ct_id c = cd_controller_ref d"
    "advanced d c c' v"
    by (rule apply_advanced [OF ok(2) accepted(3) assms(3) accepted(4)])
  have "not_exploring (wd_store v) cid" if "closed_since_opening (ks @ [cd_kind d])"
  proof -
    have "phase_of c' \<noteq> Exploring"
    proof (cases "cd_kind d = Form_Closure")
      case True
      then show ?thesis using c(3) by (auto simp: advanced_def elim: phase_stepE)
    next
      case False
      with that have "cd_kind d \<noteq> Reopen" "not_exploring (wd_store u) cid"
        using accepted.IH by (auto simp: closed_since_snoc)
      then show ?thesis
        using c accepted(2) current_at_get [OF ok(2) c(1)] current_not_exploring phase_step_not_exploring
        by (metis advanced_def)
    qed
    then show ?thesis
      using c accepted(2) unfolding not_exploring_def advanced_def current_at_def by (metis leD)
  qed
  then show ?case using controllers_ok_apply [OF ok(1) assms(3) accepted(3,4)] by blast
next
  case (refused ks u d e v)
  then have ok: "controllers_ok (wd_store u)" "controller_ok (wd_store u) (cd_controller_ref d)"
    by (simp_all add: controllers_ok_def)
  have "not_exploring (wd_store v) cid" if closed: "closed_since_opening ks"
  proof -
    have ne: "not_exploring (wd_store u) cid" using refused.IH closed by simp
    show ?thesis
    proof (cases "\<exists>c. require_current (wd_store u) d = Inr c \<and> cd_kind d = Invoke_Capability")
      case True
      then obtain c where c: "controller_get (wd_store u) (cd_controller_ref d) = Inr (Some c)" "admits c Invoke_Capability"
        by (auto simp: require_current_Inr)
      note cur = current_at_get [OF ok(2) c(1)]
      have "phase_of c \<noteq> Exploring" using current_not_exploring [OF cur(2)] ne cur(1) refused(2) by simp
      moreover have "phase_of c = Exploring"
        using c(2) current_at_state [OF cur(2)] by (auto elim!: admits_cases simp: phase_of_def)
      ultimately show ?thesis by simp
    next
      case False
      have "silent u v"
      proof (cases "require_current (wd_store u) d")
        case (Inl x)
        then show ?thesis using refused(4) by (simp add: controller_apply_def bindI_def readS_def silent_def world_grows_def)
      next
        case (Inr c)
        then show ?thesis using False raise_silent_apply refused(4) by (auto simp: raise_silent_def)
      qed
      then show ?thesis using ne not_exploring_cong by (auto simp: silent_def)
    qed
  qed
  then show ?case using controllers_ok_apply [OF ok(1) assms(3) refused(3,4)] by blast
next
  case (required ks u reason r v)
  then have ok: "controllers_ok (wd_store u)" "controller_ok (wd_store u) cid" by (simp_all add: controllers_ok_def)
  have "not_exploring (wd_store v) cid" if closed: "closed_since_opening ks"
  proof -
    have ne: "not_exploring (wd_store u) cid" using required.IH closed by simp
    show ?thesis
    proof (cases "\<exists>c. controller_get (wd_store u) cid = Inr (Some c)")
      case False
      then have "wd_store v = wd_store u"
        using required(2) by (cases "controller_get (wd_store u) cid")
          (auto simp: reopen_required_def bindI_def readS_def raiseI_def split: option.splits)
      then show ?thesis using ne by simp
    next
      case True
      then obtain c where c: "controller_get (wd_store u) cid = Inr (Some c)" ..
      note cur = current_at_get [OF ok(2) c]
      from required(2) c show ?thesis
      proof (cases rule: reopen_required_run)
        case failed
        then show ?thesis using ne not_exploring_cong by (auto simp: silent_def)
      next
        case (recorded x t)
        have rec: "recorded_states (wd_store v) cid = insert (reopening_state t c) (recorded_states (wd_store u) cid)"
          using record_state_recorded(2) [OF recorded(5), of cid] recorded(1) cur(1)
          by (simp add: reopening_state_def silent_def)
        have "phase_of (reopening_state t c) \<noteq> Exploring" by (simp add: reopening_state_def phase_of_def)
        moreover have "\<forall>d \<in> recorded_states (wd_store u) cid. ct_version d < ct_version (reopening_state t c)"
          using cur unfolding current_at_def by (fastforce simp: reopening_state_def)
        ultimately show ?thesis by (rule not_exploring_insert [OF rec])
      qed
    qed
  qed
  then show ?case using controllers_ok_reopen [OF ok(1) required(2)] by blast
next
  case (elsewhere ks u v)
  then show ?case using controllers_ok_silent not_exploring_cong by (auto simp: silent_def)
qed

section \<open>Handing work off\<close>

lemma save_append_only_get:
  assumes "save_append_only E x w = (Inr obj, v)" "valid_object x"
  shows "journal_get E (wd_store v) (object_id x) = Inr (Some obj) \<and> semantic_dump obj = semantic_dump x"
proof (cases "journal_get E (wd_store w) (object_id x)")
  case (Inl e)
  then show ?thesis using assms(1) by (simp add: save_append_only_def readS_def)
next
  case (Inr found)
  show ?thesis
  proof (cases found)
    case (Some u)
    then show ?thesis using assms(1) Inr by (auto simp: save_append_only_def readS_def split: if_splits)
  next
    case None
    then have "get_event (wd_store w) (responsibility_event_id E (object_id x)) = None"
      using Inr journal_get_None by blast
    then show ?thesis
      using assms Inr None
      by (auto simp: save_append_only_def readS_def journal_save_def withI_def Let_def journal_get_def
          append_event_def get_event_def)
  qed
qed

lemma journal_get_grows:
  "world_grows v u \<Longrightarrow> journal_get E (wd_store v) i = Inr (Some x) \<Longrightarrow> journal_get E (wd_store u) i = Inr (Some x)"
  by (auto simp: journal_get_def world_grows_def journal_grows_get split: option.splits)

definition recorded_closures :: "store \<Rightarrow> string \<Rightarrow> cognitive_closure set" where
  "recorded_closures s cid = {cl. \<exists>e \<in> snd ` set (st_event s). \<exists>ref. ev_subject_ref e = cid
     \<and> ev_type e = controller_closure_event \<and> ev_payload e = PControllerClosure ref cl}"

lemma recorded_closures_grows: "world_grows v u \<Longrightarrow> recorded_closures (wd_store v) cid \<subseteq> recorded_closures (wd_store u) cid"
  by (auto simp: recorded_closures_def world_grows_def journal_grows_def)

lemma recorded_states_grows: "world_grows v u \<Longrightarrow> recorded_states (wd_store v) cid \<subseteq> recorded_states (wd_store u) cid"
  by (auto simp: recorded_states_def world_grows_def journal_grows_def)

lemma get_closure_Some:
  assumes "get_closure s cid k = Inr (Some cl)"
  shows "cl \<in> recorded_closures s cid" "cl_id cl = k"
proof -
  obtain cs where cs: "traverse validate_closure (documents controller_closure_event as_closure_payload s cid) = Inr cs"
    and f: "find (\<lambda>c. cl_id c = k) cs = Some cl"
    using assms by (auto simp: get_closure_def controller_closures_def)
  have "list_all2 (\<lambda>x y. y = x) (documents controller_closure_event as_closure_payload s cid) cs"
    using traverse_Inr [OF cs] by (rule list_all2_mono) (simp add: validate_closure_Inr)
  then have "cs = documents controller_closure_event as_closure_payload s cid"
    by (induction rule: list_all2_induct) simp_all
  moreover have "cl \<in> set cs" "cl_id cl = k" using f by (auto simp: find_Some_iff in_set_conv_nth)
  ultimately show "cl \<in> recorded_closures s cid" "cl_id cl = k"
    by (auto simp: set_documents recorded_closures_def)
qed

lemma get_closure_found:
  "get_closure s cid k = Inr (Some cl) \<Longrightarrow> cl \<in> recorded_closures s cid \<and> k = cl_id cl"
  using get_closure_Some by blast

lemma proposal_basis_Inr:
  assumes "proposal_basis s c d = Inr (rid, subject, assessment, title, cl)"
  shows "ct_responsibility_ref c = Some rid" "ct_subject_ref c = Some subject"
    "ct_active_closure_ref c = Some (cl_id cl)" "cl \<in> recorded_closures s (ct_id c)"
    "set (cd_requested_capabilities d) \<subseteq> set (cl_requested_capabilities cl)"
    "cd_effect_class d = effect_class_str (cl_effect_class cl)"
  using assms
  by (auto simp: proposal_basis_def parse_effect_class_Inr dest!: get_closure_found split: option.splits if_splits)

lemma semantic_dump_Proposal:
  "semantic_dump u = semantic_dump (Proposal p) \<Longrightarrow> \<exists>q. u = Proposal q \<and> q\<lparr>wp_created_at := 0\<rparr> = p\<lparr>wp_created_at := 0\<rparr>"
  by (cases u) auto

lemma proposal_same_fields:
  assumes "q\<lparr>wp_created_at := 0\<rparr> = p\<lparr>wp_created_at := 0\<rparr>"
  shows "wp_id q = wp_id p" "wp_requested_capabilities q = wp_requested_capabilities p"
    "wp_effect_class q = wp_effect_class p" "wp_responsibility_ref q = wp_responsibility_ref p"
    "wp_responsibility_version q = wp_responsibility_version p" "wp_subject_ref q = wp_subject_ref p"
  using assms by (cases p; cases q; simp)+

lemma keeps_transition: "keeps world_grows (transition_state E c d st pend cl pr rr res)"
  unfolding transition_state_def Let_def record_state_def by (intro keeps_world)

section \<open>Projections\<close>

lemma py_max_by_cong_set:
  assumes "insert m (set xs) = insert n (set ys)" "inj_on k (insert m (set xs))"
  shows "py_max_by k m xs = py_max_by k n ys"
proof (rule py_max_by_unique)
  show mem: "py_max_by k n ys \<in> insert m (set xs)" unfolding assms(1) by (rule py_max_by_in)
  fix y
  assume y: "y \<in> insert m (set xs)" "y \<noteq> py_max_by k n ys"
  then have "k y \<le> k (py_max_by k n ys)" using py_max_by_ge [of y n ys k] assms(1) by simp
  moreover have "k y \<noteq> k (py_max_by k n ys)" using y mem inj_onD [OF assms(2)] by metis
  ultimately show "k y < k (py_max_by k n ys)" by simp
qed

lemma latest_cong_set:
  assumes "set xs = set ys" "inj_on (\<lambda>(e, _). chronology_key e) (set xs)"
  shows "latest xs = latest ys"
proof (cases xs)
  case Nil
  then show ?thesis using assms(1) by (simp add: latest_def)
next
  case (Cons x xs')
  then obtain y ys' where ys: "ys = y # ys'" using assms(1) by (cases ys) auto
  have "py_max_by (\<lambda>(e, _). chronology_key e) x xs' = py_max_by (\<lambda>(e, _). chronology_key e) y ys'"
    by (rule py_max_by_cong_set) (use assms Cons ys in auto)
  then show ?thesis by (simp add: latest_def Cons ys)
qed

definition decision_events :: "store \<Rightarrow> string \<Rightarrow> (event \<times> controller_decision) list" where
  "decision_events s cid = List.map_filter (\<lambda>e. if ev_type e \<noteq> controller_decision_event then None
     else map_option (\<lambda>d. (e, d)) (as_decision_payload (ev_payload e))) (list_events s (Some cid))"

lemma set_decision_events:
  "set (decision_events s cid) = {(e, d). e \<in> snd ` set (st_event s) \<and> ev_subject_ref e = cid
     \<and> ev_type e = controller_decision_event \<and> ev_payload e = PControllerDecision d}"
proof (rule set_eqI, clarify)
  fix e d
  have "(e, d) \<in> set (decision_events s cid) \<longleftrightarrow> (\<exists>f \<in> {f \<in> snd ` set (st_event s). ev_subject_ref f = cid}.
      f = e \<and> ev_type e = controller_decision_event \<and> ev_payload e = PControllerDecision d)"
    unfolding decision_events_def set_map_filter set_list_events by (rule bex_cong) auto
  then show "(e, d) \<in> set (decision_events s cid) \<longleftrightarrow> (e, d) \<in> {(e, d). e \<in> snd ` set (st_event s)
      \<and> ev_subject_ref e = cid \<and> ev_type e = controller_decision_event \<and> ev_payload e = PControllerDecision d}"
    by blast
qed

lemma latest_controller_decision_Inr:
  "latest_controller_decision s cid = Inr x \<longleftrightarrow>
     (\<forall>(e, d) \<in> set (decision_events s cid). valid_decision d) \<and> x = latest (decision_events s cid)"
proof -
  let ?f = "\<lambda>(e, d). bindR (validate_decision d) (\<lambda>_. Inr (e :: event, d))"
  have "traverse ?f xs = Inr ys \<longleftrightarrow> (\<forall>(e, d) \<in> set xs. valid_decision d) \<and> ys = xs" for xs ys
    by (induction xs arbitrary: ys) (auto simp: validate_decision_Inr)
  then show ?thesis
    by (auto simp: latest_controller_decision_def decision_events_def)
qed

section \<open>Properties\<close>



text \<open>A decision for another version than the current one, or of a kind that the abstract machine
  has no step for in the current phase, raises and changes nothing at all.\<close>

theorem inadmissible_decision_refused:
  assumes "controller_get (wd_store w) (cd_controller_ref d) = Inr (Some c)"
    and "cd_state_version d \<noteq> ct_version c \<or> \<not> (\<exists>p. phase_step (phase_of c) (cd_kind d) p)"
  shows "\<exists>msg. controller_apply E run_cap d w = (Inl (ValueError msg), w)"
  using assms
  by (auto simp: controller_apply_def bindI_def readS_def require_current_def raise_if_def admits_iff_phase_step)

theorem inadmissible_decision_refused_witness:
  "\<exists>msg. controller_apply sample_env quiet_invoker (sample_decision Close 3) sample_world = (Inl (ValueError msg), sample_world)"
proof (rule inadmissible_decision_refused)
  show "controller_get (wd_store sample_world) (cd_controller_ref (sample_decision Close 3)) = Inr (Some sample_controller)"
    using seeded_single(2) [OF sample_controller_ok] by (simp add: sample_decision_def) (simp add: sample_controller_def)
qed (simp add: sample_decision_def sample_controller_def)

text \<open>A decision that raises, whatever the reason, records no controller state; only an
  invocation may leave the state that waits for its result.\<close>

theorem failed_decision_records_no_state:
  "case controller_apply E run_cap d w of
     (Inl e, w') \<Rightarrow> cd_kind d = Invoke_Capability \<or> recorded_states (wd_store w') = recorded_states (wd_store w)
   | (Inr c', w') \<Rightarrow> True"
  using raise_silent_apply [of d E run_cap]
  by (auto simp: raise_silent_def silent_def split: prod.splits sum.splits)



text \<open>C27: Exploration does not resume behind a closure: between an accepted closure and the next
  accepted invocation there is an accepted reopening.\<close>

theorem exploration_needs_reopening:
  assumes "controller_trace E run_cap cid w (pre @ Form_Closure # mid @ [Invoke_Capability]) v"
    and "controllers_ok (wd_store w)" "\<forall>q. keeps silent (run_cap q)"
  shows "Reopen \<in> set mid"
proof (rule ccontr)
  assume no: "Reopen \<notin> set mid"
  have "\<exists>ks'. ks = ks' @ [Invoke_Capability] \<and> closed_since_opening ks' \<Longrightarrow> False"
    if "controller_trace E run_cap cid w ks v" for ks v
    using that
  proof (induction rule: controller_trace.induct)
    case (accepted ks u d c' v)
    then have d: "cd_kind d = Invoke_Capability" "closed_since_opening ks" by auto
    have inv: "controllers_ok (wd_store u)" "not_exploring (wd_store u) cid"
      using trace_invariant [OF accepted(1) assms(2)] assms(3) d by auto
    then have ok: "controller_ok (wd_store u) (cd_controller_ref d)" by (simp add: controllers_ok_def)
    obtain c where c: "controller_get (wd_store u) (cd_controller_ref d) = Inr (Some c)" "advanced d c c' v"
      by (rule apply_advanced [OF ok accepted(3) _ accepted(4)]) (use assms(3) in simp_all)
    have "phase_of c \<noteq> Exploring"
      using current_at_get [OF ok c(1)] inv(2) accepted(2) current_not_exploring by metis
    then show ?case using c(2) d(1) by (auto simp: advanced_def elim: phase_stepE)
  qed auto
  moreover have "closed_since_opening (pre @ Form_Closure # mid)"
    using no by (auto simp: closed_since_opening_def)
  ultimately show False using assms(1) by (metis append.assoc append_Cons)
qed

theorem exploration_needs_reopening_witness:
  "\<exists>v. controller_trace sample_env quiet_invoker ''c1'' sample_world
       ([] @ Form_Closure # [Close, Reopen] @ [Invoke_Capability]) v \<and> Reopen \<in> set [Close, Reopen]"
proof -
  note w = seeded_single [OF sample_controller_ok]
  have d: "cd_controller_ref closing_decision = ''c1''" "cd_kind closing_decision = Form_Closure" "proper_ids closing_decision"
    by (simp_all add: closing_decision_def sample_decision_def proper_ids_def)
  obtain c1 v1 where run1: "controller_apply sample_env quiet_invoker closing_decision sample_world = (Inr c1, v1)"
    and f1: "ids_fresh sample_env v1" by (rule sample_form_closure)
  have "controller_ok (wd_store sample_world) (cd_controller_ref closing_decision)"
    using w(1) unfolding controllers_ok_def by blast
  then obtain c where "ct_id c = cd_controller_ref closing_decision" "advanced closing_decision c c1 v1"
    by (rule apply_advanced [OF _ d(3) quiet_invoker_silent run1])
  then have g1: "controller_get (wd_store v1) ''c1'' = Inr (Some c1)" "\<exists>k. phase_of c1 = Decided k"
    using d by (auto simp: advanced_def elim: phase_stepE)
  have ok1: "controllers_ok (wd_store v1)" by (rule controllers_ok_apply [OF w(1) quiet_invoker_silent d(3) run1])
  have t1: "controller_trace sample_env quiet_invoker ''c1'' sample_world ([] @ [Form_Closure]) v1"
    using accepted [OF start d(1,3) run1] d(2) by simp
  have a1: "admits c1 Close" unfolding admits_iff_phase_step using g1(2) close_decided by metis
  obtain d2 c2 v2 where s2: "controller_apply sample_env quiet_invoker d2 v1 = (Inr c2, v2)" "cd_controller_ref d2 = ''c1''"
    "cd_kind d2 = Close" "proper_ids d2" "ids_fresh sample_env v2" "controllers_ok (wd_store v2)"
    "controller_get (wd_store v2) ''c1'' = Inr (Some c2)" "phase_step (phase_of c1) Close (phase_of c2)"
    by (rule next_decision [OF ok1 f1 g1(1) _ a1]) simp
  have t2: "controller_trace sample_env quiet_invoker ''c1'' sample_world [Form_Closure, Close] v2"
    using accepted [OF t1 s2(2,4,1)] s2(3) by simp
  have "phase_of c2 = Stopped" using s2(8) by (auto elim: phase_stepE)
  then have a2: "admits c2 Reopen" unfolding admits_iff_phase_step using reopen_stopped by metis
  obtain d3 c3 v3 where s3: "controller_apply sample_env quiet_invoker d3 v2 = (Inr c3, v3)" "cd_controller_ref d3 = ''c1''"
    "cd_kind d3 = Reopen" "proper_ids d3" "ids_fresh sample_env v3" "controllers_ok (wd_store v3)"
    "controller_get (wd_store v3) ''c1'' = Inr (Some c3)" "phase_step (phase_of c2) Reopen (phase_of c3)"
    by (rule next_decision [OF s2(6,5,7) _ a2]) simp
  have t3: "controller_trace sample_env quiet_invoker ''c1'' sample_world [Form_Closure, Close, Reopen] v3"
    using accepted [OF t2 s3(2,4,1)] s3(3) by simp
  have "phase_of c3 = Exploring" using s3(8) by (auto elim: phase_stepE)
  then have a3: "admits c3 Invoke_Capability" unfolding admits_iff_phase_step using explore by metis
  obtain d4 c4 v4 where s4: "controller_apply sample_env quiet_invoker d4 v3 = (Inr c4, v4)" "cd_controller_ref d4 = ''c1''"
    "cd_kind d4 = Invoke_Capability" "proper_ids d4"
    by (rule next_decision [OF s3(6,5,7) _ a3]) simp
  have t4: "controller_trace sample_env quiet_invoker ''c1'' sample_world
      ([] @ Form_Closure # [Close, Reopen] @ [Invoke_Capability]) v4"
    using accepted [OF t3 s4(2,4,1)] s4(3) by simp
  from exploration_needs_reopening [OF t4 w(1)] quiet_invoker_silent t4 show ?thesis by blast
qed

text \<open>C28: Work handed off stays within the closure: the proposal that the new state refers to is on
  record, and its capabilities and its effect class are those of the active closure, which is itself
  on record for the controller.\<close>

theorem work_proposal_within_closure:
  assumes "controllers_ok (wd_store w)" "proper_ids d" "\<forall>q. keeps silent (run_cap q)"
    and "controller_apply E run_cap d w = (Inr c', w')" "cd_kind d = Propose_Work"
  shows "\<exists>p cl. ct_work_proposal_ref c' = Some (wp_id p)
     \<and> journal_get E (wd_store w') (wp_id p) = Inr (Some (Proposal p))
     \<and> cl \<in> recorded_closures (wd_store w') (cd_controller_ref d) \<and> ct_active_closure_ref c' = Some (cl_id cl)
     \<and> set (wp_requested_capabilities p) \<subseteq> set (cl_requested_capabilities cl)
     \<and> wp_effect_class p = cl_effect_class cl
     \<and> ct_responsibility_ref c' = Some (wp_responsibility_ref p)"
proof -
  obtain c u where req: "require_current (wd_store w) d = Inr c" and run: "propose_work E c d u = (Inr c', w')"
    using assms(4,5) by (auto simp: controller_apply_def readS_def)
  have cid: "ct_id c = cd_controller_ref d"
    using current_at_get(1) [of "wd_store w" "cd_controller_ref d" c] req assms(1)
    by (simp add: require_current_Inr controllers_ok_def)
  from run show ?thesis
  proof (cases rule: propose_work_Inr)
    case (1 rid subject assessment title cl version st sc v p obj x y)
    note basis = proposal_basis_Inr [OF 1(1)]
    have sv: "journal_get E (wd_store v) (wp_id p) = Inr (Some obj) \<and> semantic_dump obj = semantic_dump (Proposal p)"
      using save_append_only_get [OF propose_Inr_object [OF 1(5)] 1(4)] by simp
    then obtain q where q: "obj = Proposal q" "q\<lparr>wp_created_at := 0\<rparr> = p\<lparr>wp_created_at := 0\<rparr>"
      using semantic_dump_Proposal by blast
    note same = proposal_same_fields [OF q(2)]
    have grow: "world_grows u w'"
    proof -
      have "world_grows u (u\<lparr>wd_tick := wd_tick u + 3\<rparr>)" by (simp add: world_grows_def)
      moreover have "world_grows (u\<lparr>wd_tick := wd_tick u + 3\<rparr>) v" by (rule keepsD [OF keeps_propose 1(5)])
      moreover have "world_grows v y" by (rule keepsD [OF keeps_append_new_event 1(6)])
      moreover have "world_grows y w'" by (rule keepsD [OF keeps_transition 1(7)])
      ultimately show ?thesis using transpD [OF transp_world_grows] by blast
    qed
    have "world_grows v w'"
      using keepsD [OF keeps_append_new_event 1(6)] keepsD [OF keeps_transition 1(7)] transpD [OF transp_world_grows] by blast
    then have get: "journal_get E (wd_store w') (wp_id q) = Inr (Some (Proposal q))"
      using sv q(1) same(1) journal_get_grows by simp
    have "ct_work_proposal_ref c' = Some (wp_id q)" "ct_active_closure_ref c' = Some (cl_id cl)"
      "ct_responsibility_ref c' = Some (wp_responsibility_ref q)"
      using 1(7) [unfolded transition_state_Inr] q(1) basis(1,3) same by (auto simp: 1(3) proposal_of_def)
    moreover have "set (wp_requested_capabilities q) \<subseteq> set (cl_requested_capabilities cl)"
      "wp_effect_class q = cl_effect_class cl"
      using basis(5) same by (auto simp: 1(3) proposal_of_def)
    moreover have "cl \<in> recorded_closures (wd_store w') (cd_controller_ref d)"
      using basis(4) recorded_closures_grows [OF grow] cid by auto
    ultimately show ?thesis using get by blast
  qed
qed

definition decided_controller :: controller_state where
  "decided_controller = sample_controller\<lparr>ct_active_closure_ref := Some ''k1'', ct_version := 1\<rparr>"

definition handoff_world :: world where
  "handoff_world = seeded_events
     [responsibility_event sample_env 0 (Standing sample_identity), responsibility_event sample_env 0 (Admission sample_admission),
      responsibility_event sample_env 0 (Assessment sample_assessment), state_event decided_controller,
      make_event ''e1'' 0 controller_closure_event ''c1'' (PControllerClosure ''d0'' sample_closure)]"

definition handoff_objects :: "responsibility_object list" where
  "handoff_objects = [Standing sample_identity, Admission sample_admission, Assessment sample_assessment]"

lemma handoff_ids:
  "responsibility_event_id sample_env (sr_id sample_identity) = ''event_responsibility_r1''"
  "responsibility_event_id sample_env (ra_id sample_admission) = ''event_responsibility_a1''"
  "responsibility_event_id sample_env (as_id sample_assessment) = ''event_responsibility_s1''"
  by (simp_all add: sample_identity_def sample_admission_def sample_assessment_def)

lemma sample_uuid_not_object: "new_id_at sample_env n ''event'' \<noteq> ''event_responsibility_'' @ i"
  by (cases n) (simp_all add: new_id_at_def sample_env_def)

lemma ids_fresh_object:
  assumes "ids_fresh sample_env u" "wd_tick u \<le> n"
  shows "ids_fresh sample_env (u\<lparr>wd_store := (wd_store u)\<lparr>st_event := st_event (wd_store u)
     @ [(''event_responsibility_'' @ i, e)]\<rparr>, wd_tick := n\<rparr>)"
  using assms sample_uuid_not_object [of _ i]
  by (auto simp: ids_fresh_def get_event_def map_add_def split: option.splits)

lemma handoff_objects_valid: "list_all valid_object handoff_objects"
  using sample_objects_valid by (simp add: handoff_objects_def sample_objects_def)

lemma handoff_world_facts:
  "journal_ok sample_env (wd_store handoff_world)" "objects (wd_store handoff_world) = handoff_objects"
  "recorded_closures (wd_store handoff_world) ''c1'' = {sample_closure}" "ids_fresh sample_env handoff_world"
  "controllers_ok (wd_store handoff_world)" "controller_get (wd_store handoff_world) ''c1'' = Inr (Some decided_controller)"
proof -
  have not: "\<not> is_object_event (state_event c)" "\<not> is_object_event (make_event i t controller_closure_event sr q)" for c i t sr q
    by (simp_all add: is_object_event_def state_event_def controller_event_defs responsibility_event_type_def)
  have "object_event_ok sample_env (responsibility_event sample_env 0 v)" if "valid_object v" for v
    using that unfolding object_event_ok_def by blast
  then show "journal_ok sample_env (wd_store handoff_world)"
    using handoff_objects_valid not
    by (simp add: journal_ok_def handoff_world_def seeded_events_def handoff_ids state_event_def handoff_objects_def)
  show "objects (wd_store handoff_world) = handoff_objects"
    by (simp add: objects_def handoff_world_def seeded_events_def not handoff_objects_def)
  show "recorded_closures (wd_store handoff_world) ''c1'' = {sample_closure}"
    by (auto simp: recorded_closures_def handoff_world_def seeded_events_def state_event_def controller_event_defs
        responsibility_event_type_def)
  show "ids_fresh sample_env handoff_world"
    using sample_uuid_not_object [of _ "''r1''"] sample_uuid_not_object [of _ "''a1''"] sample_uuid_not_object [of _ "''s1''"]
    by (auto simp: ids_fresh_def get_event_def handoff_world_def seeded_events_def handoff_ids state_event_def new_id_at_def)
  have rec: "recorded_states (wd_store handoff_world) i = (if i = ''c1'' then {decided_controller} else {})" for i
    by (auto simp: recorded_states_def handoff_world_def seeded_events_def state_event_def controller_event_defs
        responsibility_event_type_def decided_controller_def sample_controller_def)
  have ok: "valid_state decided_controller" "consistent decided_controller" "ct_id decided_controller = ''c1''"
    by (simp_all add: decided_controller_def sample_controller_def valid_state_iff consistent_def)
  show "controllers_ok (wd_store handoff_world)" by (simp add: controllers_ok_def controller_ok_def rec ok)
  show "controller_get (wd_store handoff_world) ''c1'' = Inr (Some decided_controller)"
    by (rule controller_get_latest) (simp_all add: rec ok)
qed

lemma get_closure_single:
  assumes "recorded_closures s cid = {cl}" "valid_closure cl"
  shows "get_closure s cid (cl_id cl) = Inr (Some cl)"
proof -
  let ?xs = "documents controller_closure_event as_closure_payload s cid"
  have set: "set ?xs = {cl}" using assms(1) by (simp add: set_documents recorded_closures_def)
  have "traverse validate_closure ?xs = Inr (map (\<lambda>x. x) ?xs)"
    by (rule traverse_total) (use set assms(2) in \<open>simp add: valid_closure_def\<close>)
  moreover obtain xs where "?xs = cl # xs" using set by (cases ?xs) auto
  ultimately show ?thesis by (simp add: get_closure_def controller_closures_def)
qed

lemma handoff_apply:
  obtains c' v where "controller_apply sample_env quiet_invoker (sample_decision Propose_Work 1) handoff_world = (Inr c', v)"
proof -
  note w = handoff_world_facts
  let ?d = "sample_decision Propose_Work 1"
  let ?e = "make_event (new_id_at sample_env 0 ''event'') 1 controller_decision_event ''c1'' (PControllerDecision ?d)"
  let ?u = "handoff_world\<lparr>wd_store := (wd_store handoff_world)\<lparr>st_event := st_event (wd_store handoff_world)
     @ [(new_id_at sample_env 0 ''event'', ?e)]\<rparr>, wd_tick := 2\<rparr>"
  have t0: "wd_tick handoff_world = 0" by (simp add: handoff_world_def seeded_events_def)
  have cid: "cd_controller_ref ?d = ''c1''" by (simp add: sample_decision_def)
  have ty: "controller_decision_event \<in> controller_event_types" by (simp add: controller_event_types_def)
  have "append_new_event sample_env controller_decision_event ''c1'' (PControllerDecision ?d) handoff_world
      = (Inr (new_id_at sample_env 0 ''event''), ?u) \<and> ids_fresh sample_env ?u"
    by (rule append_new_event_fresh [OF sample_uuid_inj w(4) ty, where sr = "''c1''" and p = "PControllerDecision ?d"])
      (simp add: t0 numeral_2_eq_2)
  then have dec: "record_decision sample_env ?d handoff_world = (Inr (), ?u)" and fu: "ids_fresh sample_env ?u"
    by (simp_all add: record_decision_def cid)
  have plain: "\<not> is_object_event ?e" by (simp add: is_object_event_def controller_event_defs responsibility_event_type_def)
  have "get_event (wd_store handoff_world) (ev_id ?e) = None" using w(4) t0 by (simp add: ids_fresh_def)
  from journal_ok_snoc [OF w(1) this] plain have okj: "journal_ok sample_env (wd_store ?u)" by simp
  have objs: "objects (wd_store ?u) = handoff_objects" using w(2) plain by simp
  have "recorded_closures (wd_store ?u) ''c1'' = {sample_closure}"
    using w(3) by (auto simp: recorded_closures_def controller_event_defs)
  moreover have "valid_closure sample_closure"
    by (simp add: valid_closure_def validate_closure_def sample_closure_def is_blank_def py_isspace_def)
  ultimately have closure: "get_closure (wd_store ?u) ''c1'' ''k1'' = Inr (Some sample_closure)"
    using get_closure_single by (fastforce simp: sample_closure_def)
  have basis: "proposal_basis (wd_store ?u) decided_controller ?d = Inr (''r1'', ''subject'', ''s1'', ''check it'', sample_closure)"
    using closure by (simp add: proposal_basis_def decided_controller_def sample_controller_def sample_decision_def
        parse_effect_class_def) (simp add: sample_closure_def)
  have sel: "typed as_revision ''ResponsibilityRevision'' (Some ''r1'') (wd_store ?u) = []"
    "typed as_lifecycle ''ResponsibilityLifecycleTransition'' (Some ''r1'') (wd_store ?u) = []"
    "typed as_admission ''ResponsibilityAdmission'' (Some ''r1'') (wd_store ?u) = [sample_admission]"
    unfolding typed_def objs
    by (simp_all add: handoff_objects_def object_selected_def map_filter_simps responsibility_subject_ref_def
        as_admission_def sample_admission_def)
  have gets: "kernel_get sample_env ''StandingResponsibility'' as_standing (wd_store ?u) ''r1'' = Inr sample_identity"
    "kernel_get sample_env ''ResponsibilityAssessment'' as_assessment (wd_store ?u) ''s1'' = Inr sample_assessment"
    using kernel_get_iff [OF okj as_object_iff(1)] kernel_get_iff [OF okj as_object_iff(7)] unfolding objs
    by (simp_all add: handoff_objects_def handoff_ids)
  have cur: "current_definition sample_env (wd_store ?u) ''r1'' = Inr (1, ''watch'', fmempty)"
    "current_status sample_env (wd_store ?u) ''r1'' = Inr Active"
    unfolding current_definition_ok [OF okj] current_status_ok [OF okj] get_responsibility_def gets sel
    by (simp_all add: sample_identity_def)
  let ?p = "proposal_of (new_id_at sample_env 2 ''resp'') 3 ''r1'' ''subject'' 1 ''s1'' ''check it'' ?d sample_closure"
  have valid: "valid_object (Proposal ?p)"
  proof -
    have "wp_requested_resources ?p = rv_zero" "\<not> is_blank (wp_id ?p)"
      by (simp_all add: proposal_of_def new_id_at_def is_blank_def py_isspace_def)
    moreover have "rv_error rv_zero = None" by simp
    ultimately show ?thesis
      by (simp add: valid_object_def validate_object_def del: rv_error_None)
  qed
  have pid: "responsibility_event_id sample_env (object_id (Proposal ?p)) = ''event_responsibility_resp_aa''"
    by (simp add: proposal_of_def new_id_at_def) (simp add: responsibility_event_id_def sample_env_def numeral_2_eq_2)
  have "get_event (wd_store (?u\<lparr>wd_tick := 5\<rparr>)) (responsibility_event_id sample_env (object_id (Proposal ?p))) = None"
    unfolding pid using sample_uuid_not_object [of 0 "''resp_aa''"]
    by (simp add: get_event_def handoff_world_def seeded_events_def handoff_ids state_event_def)
  from save_append_only_fresh [OF this] obtain v where
    sv: "save_append_only sample_env (Proposal ?p) (?u\<lparr>wd_tick := 5\<rparr>) = (Inr (Proposal ?p), v)"
    and v: "v = ?u\<lparr>wd_store := (wd_store ?u)\<lparr>st_event := st_event (wd_store ?u) @ [(''event_responsibility_resp_aa'',
        responsibility_event sample_env 5 (Proposal ?p))]\<rparr>, wd_tick := 6\<rparr>"
    unfolding pid by simp
  have fv: "ids_fresh sample_env v"
    using ids_fresh_object [OF fu, of 6 "''resp_aa''"] unfolding v by simp
  have proposed: "propose sample_env ?p 4 (?u\<lparr>wd_tick := 5\<rparr>) = (Inr (Proposal ?p), v)"
  proof -
    have "wp_responsibility_ref ?p = ''r1''" "wp_responsibility_version ?p = 1" "wp_assessment_ref ?p = ''s1''"
      "wp_fresh_until ?p = None" by (simp_all add: proposal_of_def)
    moreover have "as_responsibility_ref sample_assessment = ''r1''" "as_responsibility_version sample_assessment = 1"
      "as_fresh_until sample_assessment = None" by (simp_all add: sample_assessment_def)
    moreover have "wd_store (?u\<lparr>wd_tick := 5\<rparr>) = wd_store ?u" by simp
    ultimately show ?thesis using cur gets sv by (simp add: propose_def readS_def stale_at_def del: select_convs update_convs)
  qed
  obtain y where y: "append_new_event sample_env controller_work_proposal_event ''c1''
      (PControllerProposal ''d1'' ''k1'' (wp_id ?p) ''r1'') v = (Inr (new_id_at sample_env (wd_tick v) ''event''), y)" "ids_fresh sample_env y"
    by (rule append_new_event_fresh [OF sample_uuid_inj fv, where ty = controller_work_proposal_event])
      (auto simp: controller_event_types_def)
  obtain c' z where z: "transition_state sample_env decided_controller ?d Waiting (Some (wp_id ?p)) Unchanged
      (To (Some (wp_id ?p))) Unchanged (To (Some (wp_id ?p))) y = (Inr c', z)"
    by (rule transition_state_fresh [OF sample_uuid_inj y(2)])
  have ids: "ct_id decided_controller = ''c1''" "cd_id ?d = ''d1''" "cl_id sample_closure = ''k1''" "cd_kind ?d = Propose_Work"
    by (simp_all add: decided_controller_def sample_controller_def sample_decision_def sample_closure_def)
  have "propose_work sample_env decided_controller ?d ?u = (Inr c', z)"
    using basis cur valid proposed y(1) z ids
    by (simp add: propose_work_def readS_def Let_def construct_def validate_object_Inr)
  moreover have "require_current (wd_store handoff_world) ?d = Inr decided_controller"
    using w(6) by (simp add: require_current_Inr cid) (simp add: sample_decision_def decided_controller_def
        sample_controller_def admits_def)
  ultimately show thesis using that dec ids by (simp add: controller_apply_def readS_def)
qed

theorem work_proposal_within_closure_witness:
  "\<exists>c' v p. controller_apply sample_env quiet_invoker (sample_decision Propose_Work 1) handoff_world = (Inr c', v)
     \<and> ct_work_proposal_ref c' = Some (wp_id p) \<and> journal_get sample_env (wd_store v) (wp_id p) = Inr (Some (Proposal p))"
proof -
  obtain c' v where run: "controller_apply sample_env quiet_invoker (sample_decision Propose_Work 1) handoff_world = (Inr c', v)"
    by (rule handoff_apply)
  have "cd_kind (sample_decision Propose_Work 1) = Propose_Work" by (simp add: sample_decision_def)
  from work_proposal_within_closure [OF handoff_world_facts(5) sample_proper _ run this] run show ?thesis
    using quiet_invoker_silent by blast
qed

text \<open>C29: What has stopped can go on: as long as the identities that \<open>uuid4\<close> gives are new, every
  close, wait or reopen decision that the current phase has a step for and that is made for the
  current version is accepted.\<close>

theorem admissible_transition_accepted:
  assumes "uuid_ok E" "ids_fresh E w" "controller_get (wd_store w) (cd_controller_ref d) = Inr (Some c)"
    and "cd_state_version d = ct_version c" "phase_step (phase_of c) (cd_kind d) p" "cd_kind d \<in> {Close, Wait, Reopen}"
  shows "\<exists>c' v. controller_apply E run_cap d w = (Inr c', v)"
proof -
  have "require_current (wd_store w) d = Inr c" using assms(3-5) by (auto simp: require_current_Inr admits_iff_phase_step)
  moreover have "inj (env_uuid_hex E)" using assms(1) by (simp add: uuid_ok_def)
  ultimately show ?thesis using apply_direct_fresh assms(2,6) by metis
qed

theorem admissible_transition_accepted_witness:
  "\<exists>c' v. controller_apply sample_env quiet_invoker (sample_decision Wait 0) sample_world = (Inr c', v)"
proof (rule admissible_transition_accepted)
  show "uuid_ok sample_env" using sample_uuid_inj by (simp add: uuid_ok_def sample_env_def is_hex_char_def list_all_iff)
  show "ids_fresh sample_env sample_world" by (rule seeded_single(3) [OF sample_controller_ok])
  show "controller_get (wd_store sample_world) (cd_controller_ref (sample_decision Wait 0)) = Inr (Some sample_controller)"
    using seeded_single(2) [OF sample_controller_ok] by (simp add: sample_decision_def) (simp add: sample_controller_def)
  show "cd_state_version (sample_decision Wait 0) = ct_version sample_controller"
    "cd_kind (sample_decision Wait 0) \<in> {Close, Wait, Reopen}"
    by (simp_all add: sample_decision_def sample_controller_def)
  have "phase_of sample_controller = Exploring" "cd_kind (sample_decision Wait 0) = Wait"
    by (simp_all add: phase_of_def sample_controller_def sample_decision_def)
  then show "phase_step (phase_of sample_controller) (cd_kind (sample_decision Wait 0)) (Paused None)"
    by (simp add: pause_exploring)
qed

text \<open>The projection that policy plugins read does not depend on the order of the store: stores
  that hold the same events under their identities give the same latest decision.\<close>

theorem latest_decision_order_independent:
  assumes "mset (st_event s) = mset (st_event t)" "\<forall>(i, e) \<in> set (st_event s). ev_id e = i" "distinct (map fst (st_event s))"
    and "latest_controller_decision s cid = Inr x"
  shows "latest_controller_decision t cid = Inr x"
proof -
  have same: "set (decision_events s cid) = set (decision_events t cid)"
    unfolding set_decision_events by (simp add: mset_eq_setD [OF assms(1)])
  have "inj_on ev_id (snd ` set (st_event s))"
  proof (rule inj_onI)
    fix e f
    assume "e \<in> snd ` set (st_event s)" "f \<in> snd ` set (st_event s)" "ev_id e = ev_id f"
    then have "(ev_id e, e) \<in> set (st_event s)" "(ev_id e, f) \<in> set (st_event s)" using assms(2) by auto
    then show "e = f" using eq_key_imp_eq_value [OF assms(3)] by blast
  qed
  then have "inj_on (\<lambda>(e, _). chronology_key e) (set (decision_events s cid))"
  proof (intro inj_onI, clarify)
    fix e d f d'
    assume "(e, d) \<in> set (decision_events s cid)" "(f, d') \<in> set (decision_events s cid)" "chronology_key e = chronology_key f"
    moreover from this have "e = f"
      using inj_onD [OF \<open>inj_on ev_id (snd ` set (st_event s))\<close>, of e f] by (simp add: set_decision_events chronology_key_def)
    ultimately show "e = f \<and> d = d'" by (simp add: set_decision_events)
  qed
  from latest_cong_set [OF same this] show ?thesis
    using assms(4) same by (simp add: latest_controller_decision_Inr)
qed

theorem latest_decision_order_independent_witness:
  "latest_controller_decision (wd_store (seeded_events
       [make_event ''e1'' 1 controller_decision_event ''c1'' (PControllerDecision (sample_decision Wait 1)),
        make_event ''e0'' 0 controller_decision_event ''c1'' (PControllerDecision (sample_decision Close 0))])) ''c1''
   = Inr (latest (decision_events (wd_store (seeded_events
       [make_event ''e0'' 0 controller_decision_event ''c1'' (PControllerDecision (sample_decision Close 0)),
        make_event ''e1'' 1 controller_decision_event ''c1'' (PControllerDecision (sample_decision Wait 1))])) ''c1''))"
proof (rule latest_decision_order_independent)
  let ?s = "wd_store (seeded_events
       [make_event ''e0'' 0 controller_decision_event ''c1'' (PControllerDecision (sample_decision Close 0)),
        make_event ''e1'' 1 controller_decision_event ''c1'' (PControllerDecision (sample_decision Wait 1))])"
  let ?t = "wd_store (seeded_events
       [make_event ''e1'' 1 controller_decision_event ''c1'' (PControllerDecision (sample_decision Wait 1)),
        make_event ''e0'' 0 controller_decision_event ''c1'' (PControllerDecision (sample_decision Close 0))])"
  show "mset (st_event ?s) = mset (st_event ?t)" "\<forall>(i, e) \<in> set (st_event ?s). ev_id e = i" "distinct (map fst (st_event ?s))"
    by (simp_all add: seeded_events_def)
  have "valid_decision (sample_decision Close 0)" "valid_decision (sample_decision Wait 1)"
    by (simp_all add: valid_decision_def validate_decision_def check_nested_def check_kind_payload_def sample_decision_def)
  then show "latest_controller_decision ?s ''c1'' = Inr (latest (decision_events ?s ''c1''))"
    by (auto simp: latest_controller_decision_Inr set_decision_events seeded_events_def)
qed

text \<open>A wait decision with an empty identity makes its controller unreadable: it is accepted and
  recorded without validation, and every later read raises, whatever else is recorded.\<close>

theorem wait_without_identity_is_fatal:
  assumes "controller_apply E run_cap d w = (Inr c', v)" "cd_kind d = Wait" "cd_id d = []" "world_grows v u"
  shows "\<exists>e. controller_get (wd_store u) (ct_id c') = Inl e"
proof -
  obtain c x where t: "transition_state E c d Waiting (Some (cd_id d)) Unchanged Unchanged Unchanged Unchanged x = (Inr c', v)"
    using assms(1,2) by (auto simp: controller_apply_def)
  note c' = t [unfolded transition_state_Inr]
  have "c' \<in> recorded_states (wd_store v) (ct_id c')"
    using record_state_recorded(2) [OF conjunct2 [OF c'], of "ct_id c'"] by simp
  then have "c' \<in> recorded_states (wd_store u) (ct_id c')" using recorded_states_grows [OF assms(4)] by blast
  moreover have "\<not> valid_state c'" using c' assms(3) by (simp add: valid_state_iff missing_ref_def)
  ultimately show ?thesis by (rule controller_get_invalid)
qed

theorem wait_without_identity_is_fatal_witness:
  "\<exists>c' v e. controller_apply sample_env quiet_invoker ((sample_decision Wait 0)\<lparr>cd_id := []\<rparr>) sample_world = (Inr c', v)
     \<and> controller_get (wd_store v) (ct_id c') = Inl e"
proof -
  let ?d = "(sample_decision Wait 0)\<lparr>cd_id := []\<rparr>"
  have req: "require_current (wd_store sample_world) ?d = Inr sample_controller"
    using sample_require [of Wait] by (simp add: require_current_Inr sample_decision_def)
  obtain c' v where run: "controller_apply sample_env quiet_invoker ?d sample_world = (Inr c', v)"
    by (rule apply_direct_fresh [OF sample_uuid_inj seeded_single(3) [OF sample_controller_ok] req])
      (simp add: sample_decision_def)
  have "world_grows v v" by (simp add: world_grows_def)
  from wait_without_identity_is_fatal [OF run _ _ this] run show ?thesis by (simp add: sample_decision_def)
qed

text \<open>
  A waiting state, the reopening recorded over it, and the resumed state recorded over both: the
  resumed one has the version of the other and a later time.
\<close>

lemma resumed_over_reopening:
  assumes at: "current_at (wd_store u) wait" and rec: "recorded_states s cid = insert c' (insert r (recorded_states (wd_store u) cid))"
    and cid: "ct_id wait = cid" and waits: "valid_state wait"
    and c': "c' = resumed_with event_id t' wait" and r: "r = reopening_state t wait" and "t < t'"
  shows "controller_get s cid = Inr (Some c')"
proof (rule controller_get_latest)
  have old: "\<forall>x \<in> recorded_states (wd_store u) cid. valid_state x \<and> ct_version x \<le> ct_version wait"
    using at cid unfolding current_at_def controller_ok_def by metis
  have new: "valid_state c'" "valid_state r"
    using waits by (simp_all add: c' r resumed_with_def reopening_state_def valid_state_iff)
  show "\<forall>x \<in> recorded_states s cid. valid_state x" unfolding rec using old new by auto
  show "c' \<in> recorded_states s cid" using rec by simp
  have "ct_version c' = ct_version wait + 1" "ct_version r = ct_version wait + 1" "ct_updated_at r < ct_updated_at c'"
    using assms(7) by (simp_all add: c' r resumed_with_def reopening_state_def)
  then show "\<forall>x \<in> recorded_states s cid. x \<noteq> c' \<longrightarrow> state_key x < state_key c'"
    unfolding rec using old by (auto simp: state_key_def)
qed

text \<open>The steps of an invocation that returns.\<close>

lemma invoke_capability_Inr:
  assumes "invoke_capability E run_cap c d x = (Inr c', w')" "current_at (wd_store x) c" "admits c Invoke_Capability"
  obtains wait q result u v y event_id where
    "current_at (wd_store u) wait" "controller_get (wd_store u) (ct_id c) = Inr (Some wait)" "ct_id wait = ct_id c"
    "run_cap q u = (Inr result, v)" "silent v y" "c' = resumed_with event_id (env_clock E (wd_tick y)) wait"
    "record_state E c' (y\<lparr>wd_tick := wd_tick y + 1\<rparr>) = (Inr (), w')"
proof -
  let ?rid = "new_id_at E (wd_tick x) ''request''"
  let ?wait = "waiting_for_result ?rid (env_clock E (wd_tick x + 1)) c d"
  obtain cap u v result y event_id where
    wait: "record_state E ?wait (x\<lparr>wd_tick := wd_tick x + 2\<rparr>) = (Inr (), u)" and
    call: "run_cap (request_of_decision ?rid cap c d) u = (Inr result, v)" and
    obs: "append_new_event E controller_result_event (ct_id c) (PControllerResult (cd_id d) ?rid (ct_version c) result) v
       = (Inr event_id, y)" and
    c': "c' = resumed_with event_id (env_clock E (wd_tick y)) ?wait" and
    resume: "record_state E c' (y\<lparr>wd_tick := wd_tick y + 1\<rparr>) = (Inr (), w')"
    using assms(1) by (auto simp: invoke_capability_def numeral_2_eq_2 split: option.splits)
  have waits: "valid_state ?wait" "consistent ?wait" "ct_id ?wait = ct_id c" "ct_version c < ct_version ?wait"
    using waiting_ok current_at_state [OF assms(2)] assms(3) by (simp_all add: waiting_for_result_def)
  have "current_at (wd_store (x\<lparr>wd_tick := wd_tick x + 2\<rparr>)) c" using assms(2) by simp
  from record_successor [OF this wait waits(3,4,1,2)] keepsD [OF keeps_silent_controller_event(3) obs]
  show thesis using that waits(3) call c' resume by blast
qed

text \<open>A reopening required while a capability runs is lost: the state that resumes after the
  invocation is built from the state before it, takes the same version as the one that requires
  reopening, and is read back as the current, open state.\<close>

theorem reopening_required_during_invocation_lost:
  assumes "controllers_ok (wd_store w)" "strict_mono (env_clock E)"
    and "\<forall>q. run_cap q = bindI (reopen_required E (cd_controller_ref d) reason) (\<lambda>_. retI result)"
    and "controller_apply E run_cap d w = (Inr c', w')" "cd_kind d = Invoke_Capability"
  shows "controller_get (wd_store w') (cd_controller_ref d) = Inr (Some c') \<and> ct_status c' = Open
    \<and> (\<exists>r \<in> recorded_states (wd_store w') (cd_controller_ref d). ct_status r = Reopen_Required \<and> ct_version r = ct_version c')"
proof -
  let ?cid = "cd_controller_ref d"
  obtain c x where req: "require_current (wd_store w) d = Inr c" and dec: "record_decision E d w = (Inr (), x)"
    and run: "invoke_capability E run_cap c d x = (Inr c', w')"
    using assms(4,5) by (auto simp: controller_apply_def readS_def)
  have ok: "controller_ok (wd_store w) ?cid" using assms(1) by (simp add: controllers_ok_def)
  note cur = current_at_get [OF ok conjunct1 [OF req [unfolded require_current_Inr]]]
  have at: "current_at (wd_store x) c" by (rule current_at_run [OF cur(2) keeps_silent_record_decision dec])
  have ad: "admits c Invoke_Capability" using req assms(5) by (simp add: require_current_Inr)
  from run at ad show ?thesis
  proof (cases rule: invoke_capability_Inr)
    case (1 wait q res u v y event_id)
    have "\<exists>r. reopen_required E ?cid reason u = (Inr r, v)"
      using 1(4) assms(3) by (auto simp: retI_def)
    then obtain z t where z: "silent u z" "wd_tick z < wd_tick v" "t = env_clock E (wd_tick z)"
      "record_state E (reopening_state t wait) (z\<lparr>wd_tick := wd_tick z + 1\<rparr>) = (Inr (), v)"
      using 1(2) cur(1) by (auto elim!: reopen_required_run)
    have ids: "ct_id wait = ?cid" "ct_id c' = ?cid" using 1(3,6) cur(1) by (simp_all add: resumed_with_def)
    have rec: "recorded_states (wd_store w') ?cid = insert c' (insert (reopening_state t wait) (recorded_states (wd_store u) ?cid))"
      using record_state_recorded(2) [OF 1(7), of ?cid] record_state_recorded(2) [OF z(4), of ?cid] z(1) 1(5) ids
      by (simp add: silent_def reopening_state_def)
    have "wd_tick z < wd_tick y" using z(2) 1(5) by (simp add: silent_def world_grows_def)
    then have "t < env_clock E (wd_tick y)" using assms(2) z(3) by (simp add: strict_monoD)
    from resumed_over_reopening [OF 1(1) rec ids(1) conjunct1 [OF current_at_state [OF 1(1)]] 1(6) refl this] rec
    show ?thesis by (auto simp: 1(6) resumed_with_def reopening_state_def)
  qed
qed

theorem reopening_required_during_invocation_lost_witness:
  "\<exists>c' v. controller_apply sample_env (\<lambda>_. bindI (reopen_required sample_env ''c1'' ''stale'') (\<lambda>_. retI sample_result))
       (sample_decision Invoke_Capability 0) sample_world = (Inr c', v)
     \<and> ct_status c' = Open \<and> controller_get (wd_store v) ''c1'' = Inr (Some c')"
proof -
  let ?d = "sample_decision Invoke_Capability 0"
  let ?run = "\<lambda>_. bindI (reopen_required sample_env ''c1'' ''stale'') (\<lambda>_. retI sample_result)"
  note w = seeded_single [OF sample_controller_ok]
  note req = sample_require [of Invoke_Capability, simplified]
  obtain u where dec: "record_decision sample_env ?d sample_world = (Inr (), u)" "ids_fresh sample_env u"
    by (rule record_decision_fresh [OF sample_uuid_inj w(3)])
  have id: "ct_id sample_controller = ''c1''" "cd_capability ?d = Some ''search''"
    by (simp_all add: sample_controller_def sample_decision_def)
  have "controller_ok (wd_store sample_world) (ct_id sample_controller)" using w(1) by (simp add: controllers_ok_def)
  from current_at_run [OF current_at_get(2) [OF this w(2)] keeps_silent_record_decision dec(1)]
  have at: "current_at (wd_store u) sample_controller" .
  have ad: "admits sample_controller Invoke_Capability" by (simp add: sample_controller_def admits_def)
  have call: "\<exists>r v. ?run q x = (Inr r, v) \<and> ids_fresh sample_env v"
    if f: "ids_fresh sample_env x" and g: "controller_get (wd_store x) (ct_id sample_controller) = Inr (Some c)" for q x c
  proof -
    obtain y where y: "append_new_event sample_env controller_reopen_required_event (ct_id c) (PReopenRequired ''stale'' (ct_version c)) x
        = (Inr (new_id_at sample_env (wd_tick x) ''event''), y)" "ids_fresh sample_env y"
      by (rule append_new_event_fresh [OF sample_uuid_inj f, where ty = controller_reopen_required_event])
        (auto simp: controller_event_types_def)
    have "ids_fresh sample_env (y\<lparr>wd_tick := wd_tick y + 1\<rparr>)" by (rule ids_fresh_tick [OF y(2)])
    from record_state_fresh [OF sample_uuid_inj this, of "reopening_state (env_clock sample_env (wd_tick y)) c"]
    obtain z where "record_state sample_env (reopening_state (env_clock sample_env (wd_tick y)) c)
        (y\<lparr>wd_tick := wd_tick y + 1\<rparr>) = (Inr (), z)" "ids_fresh sample_env z" by metis
    then show ?thesis
      using y g id by (simp add: reopen_required_def bindI_def readS_def Let_def utcnow_def retI_def reopening_state_def)
  qed
  obtain c' v where inv: "invoke_capability sample_env ?run sample_controller ?d u = (Inr c', v)"
    by (rule invoke_fresh [OF sample_uuid_inj dec(2) at ad id(2) call])
  have run: "controller_apply sample_env ?run ?d sample_world = (Inr c', v)"
    using req dec(1) inv by (simp add: controller_apply_def readS_def) (simp add: sample_decision_def)
  have "strict_mono (env_clock sample_env)" by (simp add: strict_mono_def)
  from reopening_required_during_invocation_lost [OF w(1) this _ run] run show ?thesis
    by (simp add: sample_decision_def)
qed

end
