(* ===== verification/Python_Values.thy ===== *)
theory Python_Values
  imports Prelude
begin

text \<open>
  Python values whose rendering the code compares: a dictionary keeps its insertion order, and
  \<open>str\<close> and \<open>repr\<close> are computed as Python does.  Floating point numbers are not among them.
\<close>

datatype pyval =
    PNone
  | PBool bool
  | PInt int
  | PStr string
  | PList "pyval list"
  | PDict "(string \<times> pyval) list"

type_synonym pydict = "(string \<times> pyval) list"

fun pv_truthy :: "pyval \<Rightarrow> bool" where
  "pv_truthy PNone = False"
| "pv_truthy (PBool b) = b"
| "pv_truthy (PInt i) = (i \<noteq> 0)"
| "pv_truthy (PStr s) = (s \<noteq> [])"
| "pv_truthy (PList xs) = (xs \<noteq> [])"
| "pv_truthy (PDict ps) = (ps \<noteq> [])"

primrec pv_repr :: "pyval \<Rightarrow> string" where
  "pv_repr PNone = ''None''"
| "pv_repr (PBool b) = (if b then ''True'' else ''False'')"
| "pv_repr (PInt i) = py_str_int i"
| "pv_repr (PStr s) = py_repr s"
| "pv_repr (PList xs) = ''['' @ py_join '', '' (map pv_repr xs) @ '']''"
| "pv_repr (PDict ps) = ''{'' @ py_join '', ''
     (map (\<lambda>(k, r). py_repr k @ '': '' @ r) (map (map_prod (\<lambda>k. k) pv_repr) ps)) @ ''}''"

fun pv_str :: "pyval \<Rightarrow> string" where
  "pv_str (PStr s) = s"
| "pv_str v = pv_repr v"

text \<open>\<open>d.get(k)\<close>, \<open>d.get(k, dflt)\<close> and \<open>a or b\<close>.\<close>

definition pd_get :: "pydict \<Rightarrow> string \<Rightarrow> pyval" where
  "pd_get d k = (case map_of d k of None \<Rightarrow> PNone | Some v \<Rightarrow> v)"

definition pd_get_or :: "pydict \<Rightarrow> string \<Rightarrow> pyval \<Rightarrow> pyval" where
  "pd_get_or d k dflt = (case map_of d k of None \<Rightarrow> dflt | Some v \<Rightarrow> v)"

definition pv_or :: "pyval \<Rightarrow> pyval \<Rightarrow> pyval" where
  "pv_or a b = (if pv_truthy a then a else b)"

lemma pv_truthy_or [simp]: "pv_truthy (pv_or a b) \<longleftrightarrow> pv_truthy a \<or> pv_truthy b"
  by (simp add: pv_or_def)

text \<open>\<open>v if isinstance(v, dict) else {}\<close>, and the items of \<open>isinstance(v, dict)\<close>.\<close>

fun pv_dict :: "pyval \<Rightarrow> pydict option" where
  "pv_dict (PDict ps) = Some ps"
| "pv_dict _ = None"

section \<open>Canonical JSON\<close>

text \<open>
  \<open>json.dumps(v, sort_keys=True, separators=(",", ":"), ensure_ascii=False)\<close>: only quotes,
  backslashes and control characters below 32 are escaped.
\<close>

definition json_escape :: "char \<Rightarrow> string" where
  "json_escape c = (let n = of_char c :: nat; b = char_of (92 :: nat) in
     if n = 34 \<or> n = 92 then [b, c]
     else if n = 10 then [b, CHR ''n''] else if n = 13 then [b, CHR ''r'']
     else if n = 9 then [b, CHR ''t''] else if n = 12 then [b, CHR ''f''] else if n = 8 then [b, CHR ''b'']
     else if n < 32 then [b, CHR ''u'', CHR ''0'', CHR ''0'', hex_digit (n div 16), hex_digit (n mod 16)]
     else [c])"

definition json_string :: "string \<Rightarrow> string" where
  "json_string s = (let q = char_of (34 :: nat) in [q] @ concat (map json_escape s) @ [q])"

primrec json_dumps :: "pyval \<Rightarrow> string" where
  "json_dumps PNone = ''null''"
| "json_dumps (PBool b) = (if b then ''true'' else ''false'')"
| "json_dumps (PInt i) = py_str_int i"
| "json_dumps (PStr s) = json_string s"
| "json_dumps (PList xs) = ''['' @ py_join '','' (map json_dumps xs) @ '']''"
| "json_dumps (PDict ps) = ''{'' @ py_join '','' (map (\<lambda>(k, r). json_string k @ '':'' @ r)
     (sort_key fst (map (map_prod (\<lambda>k. k) json_dumps) ps))) @ ''}''"

text \<open>Escaped strings can be read back: no rendering is a proper prefix of another.\<close>

lemma hex_digit_inj: "m < 16 \<Longrightarrow> n < 16 \<Longrightarrow> hex_digit m = hex_digit n \<longleftrightarrow> m = n"
  by (auto simp: hex_digit_def char_of_eq_iff take_bit_eq_mod split: if_splits)

lemma hex_pair_inj:
  fixes m n :: nat
  assumes "m < 32" "n < 32" "hex_digit (m div 16) = hex_digit (n div 16)" "hex_digit (m mod 16) = hex_digit (n mod 16)"
  shows "m = n"
proof -
  have "m div 16 = n div 16" "m mod 16 = n mod 16"
    using assms hex_digit_inj [of "m div 16" "n div 16"] hex_digit_inj [of "m mod 16" "n mod 16"] by auto
  then show ?thesis by (metis div_mult_mod_eq)
qed

text \<open>The three shapes of an escaped character.\<close>

definition json_short :: "nat \<Rightarrow> char option" where
  "json_short n = (if n = 34 \<or> n = 92 then Some (char_of n) else if n = 10 then Some (CHR ''n'')
     else if n = 13 then Some (CHR ''r'') else if n = 9 then Some (CHR ''t'')
     else if n = 12 then Some (CHR ''f'') else if n = 8 then Some (CHR ''b'') else None)"

lemma json_escape_shape:
  "json_escape c = (case json_short (of_char c) of
     Some e \<Rightarrow> [char_of (92 :: nat), e]
   | None \<Rightarrow> if of_char c < (32 :: nat)
       then [char_of (92 :: nat), CHR ''u'', CHR ''0'', CHR ''0'',
         hex_digit (of_char c div 16), hex_digit (of_char c mod 16)]
       else [c])"
  by (simp add: json_escape_def json_short_def Let_def)

lemma json_short_inj: "json_short m = Some e \<Longrightarrow> json_short n = Some e \<Longrightarrow> m = n"
  by (auto simp: json_short_def char_of_eq_iff take_bit_eq_mod split: if_splits)

lemma json_short_not_u: "json_short n \<noteq> Some (CHR ''u'')"
  by (simp add: json_short_def char_of_eq_iff)

lemma json_short_backslash: "json_short (of_char c) = None \<Longrightarrow> c \<noteq> char_of (92 :: nat)"
  by (auto simp: json_short_def)

lemma json_escape_prefix:
  assumes eq: "json_escape c @ x = json_escape d @ y"
  shows "c = d \<and> x = y"
proof (cases "json_short (of_char c)")
  case (Some e)
  show ?thesis
  proof (cases "json_short (of_char d)")
    case (Some f)
    with \<open>json_short (of_char c) = Some e\<close> eq have "e = f" "x = y" by (simp_all add: json_escape_shape)
    then show ?thesis
      using json_short_inj [OF \<open>json_short (of_char c) = Some e\<close>] Some by (metis of_char_eq_iff)
  next
    case None
    then show ?thesis
      using \<open>json_short (of_char c) = Some e\<close> eq json_short_not_u [of "of_char c"] json_short_backslash [of d]
      by (auto simp: json_escape_shape split: if_splits)
  qed
next
  case None
  note c = this
  show ?thesis
  proof (cases "json_short (of_char d)")
    case (Some f)
    then show ?thesis
      using c eq json_short_not_u [of "of_char d"] json_short_backslash [of c]
      by (auto simp: json_escape_shape split: if_splits)
  next
    case None
    show ?thesis
    proof (cases "of_char c < (32 :: nat) \<and> of_char d < (32 :: nat)")
      case True
      with c None eq have "hex_digit (of_char c div 16) = hex_digit (of_char d div 16)"
        "hex_digit (of_char c mod 16) = hex_digit (of_char d mod 16)" "x = y"
        by (simp_all add: json_escape_shape)
      then show ?thesis using hex_pair_inj True by (metis of_char_eq_iff)
    next
      case False
      then show ?thesis
        using c None eq json_short_backslash [of c] json_short_backslash [of d]
        by (auto simp: json_escape_shape split: if_splits)
    qed
  qed
qed

lemma json_escape_no_quote: "\<exists>e r. json_escape c = e # r \<and> e \<noteq> char_of (34 :: nat)"
proof -
  have "of_char c = (34 :: nat)" if "c = char_of (34 :: nat)" using that by simp
  moreover have "char_of (92 :: nat) \<noteq> (char_of (34 :: nat) :: char)" by (simp add: char_of_eq_iff)
  ultimately show ?thesis by (auto simp: json_escape_def Let_def)
qed

lemma json_body_prefix:
  assumes "concat (map json_escape s) @ char_of (34 :: nat) # x = concat (map json_escape t) @ char_of (34 :: nat) # y"
  shows "s = t \<and> x = y"
  using assms
proof (induction s arbitrary: t)
  case Nil
  then show ?case
  proof (cases t)
    case (Cons d ds)
    then show ?thesis using Nil json_escape_no_quote [of d] by auto
  qed simp
next
  case (Cons c cs)
  show ?case
  proof (cases t)
    case Nil
    then show ?thesis using Cons.prems json_escape_no_quote [of c] by auto
  next
    case (Cons d ds)
    then have "json_escape c @ (concat (map json_escape cs) @ char_of (34 :: nat) # x)
        = json_escape d @ (concat (map json_escape ds) @ char_of (34 :: nat) # y)"
      using Cons.prems by simp
    from json_escape_prefix [OF this] Cons.IH [of ds] Cons show ?thesis by simp
  qed
qed

lemma json_string_prefix: "json_string s @ x = json_string t @ y \<longleftrightarrow> s = t \<and> x = y"
  by (auto simp: json_string_def Let_def dest: json_body_prefix)

lemma json_string_inj: "json_string s = json_string t \<longleftrightarrow> s = t"
  using json_string_prefix [of s "[]" t "[]"] by simp

lemma json_string_start: "\<exists>r. json_string s = char_of (34 :: nat) # r"
  by (simp add: json_string_def Let_def)

lemma json_quote_not: "CHR '']'' \<noteq> char_of (34 :: nat)" 
  by (simp add: char_of_def)

lemma json_strings_prefix:
  assumes "py_join '','' (map json_string s) @ CHR '']'' # x = py_join '','' (map json_string t) @ CHR '']'' # y"
  shows "s = t"
  using assms
proof (induction s arbitrary: t rule: induct_list012)
  case 1
  show ?case
  proof (cases t)
    case (Cons d ds)
    then show ?thesis using 1 json_quote_not json_string_start [of d] by (cases ds) auto
  qed simp
next
  case (2 a)
  show ?case
  proof (cases t)
    case Nil then show ?thesis using 2 json_quote_not json_string_start [of a] by auto
  next
    case (Cons d ds)
    then show ?thesis using 2 by (cases ds) (simp_all add: json_string_prefix)
  qed
next
  case (3 a b xs)
  show ?case
  proof (cases t)
    case Nil then show ?thesis using "3.prems" json_quote_not json_string_start [of a] by auto
  next
    case (Cons d ds)
    show ?thesis
    proof (cases ds)
      case Nil
      then show ?thesis using "3.prems" Cons by (simp add: json_string_prefix)
    next
      case (Cons e es)
      have "a = d" and rest: "py_join '','' (map json_string (b # xs)) @ CHR '']'' # x
          = py_join '','' (map json_string (e # es)) @ CHR '']'' # y"
        using "3.prems" \<open>t = d # ds\<close> Cons by (simp_all add: json_string_prefix)
      with "3.IH"(2) [OF rest] \<open>t = d # ds\<close> Cons show ?thesis by simp
    qed
  qed
qed

text \<open>A dictionary is rendered over its sorted keys.\<close>

lemma insort_key_map: "insort_key g (h x) (map h xs) = map h (insort_key (\<lambda>x. g (h x)) x xs)"
  by (induction xs) simp_all

lemma sort_key_map: "sort_key g (map h xs) = map h (sort_key (\<lambda>x. g (h x)) xs)"
  by (induction xs) (simp_all add: insort_key_map)

lemma json_dumps_fields:
  "json_dumps (PDict (map (\<lambda>k. (k, f k)) ks)) = ''{'' @ py_join '',''
     (map (\<lambda>k. json_string k @ '':'' @ json_dumps (f k)) (sort_key (\<lambda>k. k) ks)) @ ''}''"
  by (simp add: sort_key_map [where h = "\<lambda>k. (k, json_dumps (f k))"] comp_def)

lemma py_join_Cons: "py_join sep (x # xs) = x @ (if xs = [] then [] else sep @ py_join sep xs)"
  by (cases xs) simp_all

lemma json_strings_fields_prefix:
  assumes "py_join '','' (map (\<lambda>k. json_string k @ '':'' @ json_string (f k)) ks) @ x
      = py_join '','' (map (\<lambda>k. json_string k @ '':'' @ json_string (g k)) ks) @ x"
  shows "\<forall>k \<in> set ks. f k = g k"
  using assms
proof (induction ks)
  case (Cons k ks)
  then show ?case by (cases "ks = []") (simp_all add: py_join_Cons json_string_prefix json_string_inj)
qed simp

lemma json_string_fields_inj:
  assumes "json_dumps (PDict (map (\<lambda>k. (k, PStr (f k))) ks)) = json_dumps (PDict (map (\<lambda>k. (k, PStr (g k))) ks))"
  shows "\<forall>k \<in> set ks. f k = g k"
proof -
  have "py_join '','' (map (\<lambda>k. json_string k @ '':'' @ json_string (f k)) (sort_key (\<lambda>k. k) ks)) @ ''}''
      = py_join '','' (map (\<lambda>k. json_string k @ '':'' @ json_string (g k)) (sort_key (\<lambda>k. k) ks)) @ ''}''"
    using assms json_dumps_fields [of "\<lambda>k. PStr (f k)" ks] json_dumps_fields [of "\<lambda>k. PStr (g k)" ks] by simp
  from json_strings_fields_prefix [OF this] show ?thesis by simp
qed

text \<open>Two dictionaries that differ in one field only have different renderings if the field has.\<close>

lemma py_join_middle:
  "py_join sep (xs @ a # ys) = (if xs = [] then [] else py_join sep xs @ sep) @ a
     @ (if ys = [] then [] else sep @ py_join sep ys)"
proof (induction xs)
  case Nil
  then show ?case by (simp add: py_join_Cons)
next
  case (Cons x xs)
  then show ?case by (cases xs) (simp_all add: py_join_Cons)
qed

lemma json_one_field:
  assumes "k \<in> set ks" "distinct ks" "\<And>j. j \<noteq> k \<Longrightarrow> f j = g j"
    and "json_dumps (PDict (map (\<lambda>k. (k, f k)) ks)) = json_dumps (PDict (map (\<lambda>k. (k, g k)) ks))"
  shows "json_dumps (f k) = json_dumps (g k)"
proof -
  let ?r = "\<lambda>f k. json_string k @ '':'' @ json_dumps (f k)"
  have "k \<in> set (sort_key (\<lambda>k. k) ks)" using assms(1) by simp
  then obtain as bs where s: "sort_key (\<lambda>k. k) ks = as @ k # bs" by (meson split_list)
  then have "distinct (as @ k # bs)" using assms(2) by (metis distinct_sort)
  then have "j \<noteq> k" if "j \<in> set as \<union> set bs" for j using that by auto
  then have same: "map (?r f) as = map (?r g) as" "map (?r f) bs = map (?r g) bs"
    using assms(3) by simp_all
  have "py_join '','' (map (?r f) (as @ k # bs)) = py_join '','' (map (?r g) (as @ k # bs))"
    using assms(4) unfolding json_dumps_fields s by simp
  then have "py_join '','' (map (?r g) as @ ?r f k # map (?r g) bs)
      = py_join '','' (map (?r g) as @ ?r g k # map (?r g) bs)"
    unfolding map_append list.map same .
  then show ?thesis unfolding py_join_middle by simp
qed


section \<open>Renderings of sorted items\<close>

text \<open>
  The keys of a dictionary are distinct, so \<open>sorted(d.items())\<close> never compares two values.
  A tuple of one element is rendered with a trailing comma.
\<close>

definition item_repr :: "string \<times> pyval \<Rightarrow> string" where
  "item_repr p = ''('' @ py_repr (fst p) @ '', '' @ pv_repr (snd p) @ '')''"

definition sorted_items :: "pydict \<Rightarrow> string list" where
  "sorted_items d = map item_repr (sort_key fst d)"

definition repr_sorted_items :: "pydict \<Rightarrow> string" where
  "repr_sorted_items d = ''['' @ py_join '', '' (sorted_items d) @ '']''"

definition str_tuple_sorted_items :: "pydict \<Rightarrow> string" where
  "str_tuple_sorted_items d = ''('' @ py_join '', '' (sorted_items d)
     @ (if length d = 1 then '','' else []) @ '')''"

lemma py_join_last:
  "xs \<noteq> [] \<Longrightarrow> last xs \<noteq> [] \<Longrightarrow> py_join sep xs \<noteq> [] \<and> last (py_join sep xs) = last (last xs)"
  by (induction sep xs rule: py_join.induct) auto

lemma sorted_items_join_last:
  assumes "d \<noteq> []"
  shows "py_join '', '' (sorted_items d) \<noteq> [] \<and> last (py_join '', '' (sorted_items d)) = CHR '')''"
proof -
  have ne: "sorted_items d \<noteq> []"
    using assms by (metis length_0_conv length_map length_sort sorted_items_def)
  then have "last (sorted_items d) \<in> set (sorted_items d)" by simp
  then obtain p where "last (sorted_items d) = item_repr p"
    unfolding sorted_items_def by (metis imageE list.set_map)
  then have l: "last (sorted_items d) \<noteq> []" "last (last (sorted_items d)) = CHR '')''"
    by (simp_all add: item_repr_def)
  from py_join_last [OF ne l(1)] l(2) show ?thesis by simp
qed

text \<open>Dictionaries that the list rendering tells apart are told apart by the tuple rendering.\<close>

lemma tuple_render_eqD:
  assumes "str_tuple_sorted_items d = str_tuple_sorted_items e"
  shows "repr_sorted_items d = repr_sorted_items e"
proof -
  let ?j = "\<lambda>d. py_join '', '' (sorted_items d)"
  have no_comma: "?j d \<noteq> ?j e @ '',''" for d e :: pydict
  proof (cases "d = []")
    case True
    then show ?thesis by (simp add: sorted_items_def)
  next
    case False
    from sorted_items_join_last [OF this] show ?thesis by auto
  qed
  from assms have "?j d @ (if length d = 1 then '','' else []) = ?j e @ (if length e = 1 then '','' else [])"
    by (simp add: str_tuple_sorted_items_def flip: append_assoc)
  then have "?j d = ?j e"
    using no_comma [of d e] no_comma [of e d] by (auto split: if_splits)
  then show ?thesis by (simp add: repr_sorted_items_def)
qed

end
