(* ===== verification/Policy_Engine.thy ===== *)
theory Policy_Engine
  imports Python_Values
begin

text \<open>
  \<open>core/policies.py\<close>: obligations, policy decisions with the validator that keeps the current and
  the legacy fields in step, the policies the runtime ships, and the engine that composes the
  decisions of a list of policies.  A policy is a function from the context to a decision, or the
  exception it raises; an installed policy of a user is any such function.

  Extra fields of the two models (\<open>extra="allow"\<close>) are not modelled, nor is a policy that returns
  something other than a \<open>PolicyDecision\<close>.
\<close>

section \<open>Obligations\<close>

record obligation =
  ob_kind :: string
  ob_params :: pydict
  ob_waivable :: bool
  ob_description :: "string option"
  ob_reason_refs :: "string list"
  ob_policy_refs :: "string list"

definition new_obligation :: "string \<Rightarrow> pydict \<Rightarrow> bool \<Rightarrow> obligation" where
  "new_obligation kind params waivable =
    \<lparr>ob_kind = kind, ob_params = params, ob_waivable = waivable, ob_description = None,
     ob_reason_refs = [], ob_policy_refs = []\<rparr>"

definition approval_obligation :: "string \<Rightarrow> bool \<Rightarrow> obligation" where
  "approval_obligation required_role waivable =
    new_obligation ''approval'' [(''required_role'', PStr required_role)] waivable"

text \<open>\<open>independent_on or [...]\<close>: an empty list stands for the default too.\<close>

definition independent_verification_obligation :: "string list \<Rightarrow> bool \<Rightarrow> obligation" where
  "independent_verification_obligation independent_on waivable =
    new_obligation ''independent_verification''
      [(''independent_on'', PList (map PStr
          (if independent_on = [] then [''provider_family'', ''credential_domain''] else independent_on)))]
      waivable"

definition rollback_required_obligation :: "bool \<Rightarrow> obligation" where
  "rollback_required_obligation waivable = new_obligation ''rollback_required'' [] waivable"

definition scope_limit_obligation :: "int \<Rightarrow> bool \<Rightarrow> obligation" where
  "scope_limit_obligation max_targets waivable =
    new_obligation ''scope_limit'' [(''max_targets'', PInt max_targets)] waivable"

definition expiration_obligation :: "bool \<Rightarrow> bool \<Rightarrow> obligation" where
  "expiration_obligation required waivable =
    new_obligation ''expiration'' [(''required'', PBool required)] waivable"

definition evidence_required_obligation :: "string \<Rightarrow> bool \<Rightarrow> obligation" where
  "evidence_required_obligation kind waivable =
    new_obligation ''evidence_required'' [(''kind'', PStr kind)] waivable"

definition human_review_obligation :: "bool \<Rightarrow> obligation" where
  "human_review_obligation waivable = new_obligation ''human_review'' [] waivable"

definition revalidation_before_execution_obligation :: "bool \<Rightarrow> obligation" where
  "revalidation_before_execution_obligation waivable =
    new_obligation ''revalidation_before_execution'' [] waivable"

section \<open>Decisions\<close>

datatype disposition = Disp_Allow | Disp_Deny | Disp_Defer | Disp_Require

datatype policy_status = St_Allow | St_Deny | St_Require_Approval | St_Require_Verification

record policy_decision =
  pd_disposition :: "disposition option"
  pd_obligations :: "obligation list"
  pd_reason_refs :: "string list"
  pd_policy_refs :: "string list"
  pd_status :: "policy_status option"
  pd_reason :: "string option"
  pd_metadata :: pydict

definition blank_decision :: policy_decision where
  "blank_decision = \<lparr>pd_disposition = None, pd_obligations = [], pd_reason_refs = [],
     pd_policy_refs = [], pd_status = None, pd_reason = None, pd_metadata = []\<rparr>"

fun status_disposition :: "policy_status \<Rightarrow> disposition" where
  "status_disposition St_Allow = Disp_Allow"
| "status_disposition St_Deny = Disp_Deny"
| "status_disposition St_Require_Approval = Disp_Require"
| "status_disposition St_Require_Verification = Disp_Require"

definition has_kind :: "string \<Rightarrow> obligation list \<Rightarrow> bool" where
  "has_kind k obs \<longleftrightarrow> list_ex (\<lambda>o'. ob_kind o' = k) obs"

definition no_reason :: "string option \<Rightarrow> bool" where
  "no_reason r \<longleftrightarrow> r = None \<or> r = Some []"

text \<open>The three steps of \<open>PolicyDecision._sync\<close>.\<close>

definition sync_disposition :: "policy_decision \<Rightarrow> policy_decision" where
  "sync_disposition d = (case (pd_disposition d, pd_status d) of
     (None, Some st) \<Rightarrow>
       (let d1 = d\<lparr>pd_disposition := Some (status_disposition st)\<rparr> in
        if status_disposition st = Disp_Require \<and> pd_obligations d = [] then
          (let d2 = d1\<lparr>pd_obligations :=
                 (if st = St_Require_Approval then [approval_obligation ''owner'' True]
                  else [revalidation_before_execution_obligation True])\<rparr> in
           if no_reason (pd_reason d) then d2 else d2\<lparr>pd_reason_refs := [the (pd_reason d)]\<rparr>)
        else d1)
   | _ \<Rightarrow> d)"

definition require_status :: "obligation list \<Rightarrow> policy_status" where
  "require_status obs =
    (if (has_kind ''revalidation_before_execution'' obs \<or> has_kind ''independent_verification'' obs)
        \<and> \<not> has_kind ''approval'' obs \<and> has_kind ''revalidation_before_execution'' obs
     then St_Require_Verification else St_Require_Approval)"

fun disposition_status :: "obligation list \<Rightarrow> disposition \<Rightarrow> policy_status" where
  "disposition_status obs Disp_Require = require_status obs"
| "disposition_status obs Disp_Allow = St_Allow"
| "disposition_status obs Disp_Deny = St_Deny"
| "disposition_status obs Disp_Defer = St_Require_Approval"

definition sync_status :: "policy_decision \<Rightarrow> policy_decision" where
  "sync_status d = (case (pd_status d, pd_disposition d) of
     (None, Some disp) \<Rightarrow>
       (let d1 = d\<lparr>pd_status := Some (disposition_status (pd_obligations d) disp)\<rparr> in
        if no_reason (pd_reason d) \<and> pd_reason_refs d \<noteq> [] then
          d1\<lparr>pd_reason := Some (py_join '';'' (pd_reason_refs d))\<rparr>
        else if no_reason (pd_reason d) \<and> pd_obligations d \<noteq> [] then
          d1\<lparr>pd_reason := Some (''requires '' @ py_join '','' (map ob_kind (pd_obligations d)))\<rparr>
        else d1)
   | _ \<Rightarrow> d)"

definition sync_defaults :: "policy_decision \<Rightarrow> policy_decision" where
  "sync_defaults d =
    (let d1 = (if pd_disposition d = None then d\<lparr>pd_disposition := Some Disp_Allow\<rparr> else d);
         d2 = (if pd_status d1 = None then d1\<lparr>pd_status := Some St_Allow\<rparr> else d1) in
     if pd_reason d2 = None \<and> pd_reason_refs d2 \<noteq> []
     then d2\<lparr>pd_reason := Some (py_join '';'' (pd_reason_refs d2))\<rparr> else d2)"

definition sync_decision :: "policy_decision \<Rightarrow> policy_decision" where
  "sync_decision d = sync_defaults (sync_status (sync_disposition d))"

definition is_allow :: "policy_decision \<Rightarrow> bool" where
  "is_allow d \<longleftrightarrow> pd_disposition d = Some Disp_Allow"

definition is_deny :: "policy_decision \<Rightarrow> bool" where
  "is_deny d \<longleftrightarrow> pd_disposition d = Some Disp_Deny"

text \<open>\<open>PolicyDecision(status=st)\<close>, with a reason or without.\<close>

definition status_decision :: "policy_status \<Rightarrow> string option \<Rightarrow> policy_decision" where
  "status_decision st r = sync_decision (blank_decision\<lparr>pd_status := Some st, pd_reason := r\<rparr>)"

section \<open>Policies\<close>

record policy_context =
  pc_work_id :: "string option"
  pc_capability :: "string option"
  pc_provider_id :: "string option"
  pc_action :: "string option"
  pc_payload :: "pydict option"
  pc_metadata :: "pydict option"

type_synonym policy = "policy_context \<Rightarrow> policy_decision result"

definition payload_of :: "policy_context \<Rightarrow> pydict" where
  "payload_of ctx = (case pc_payload ctx of None \<Rightarrow> [] | Some p \<Rightarrow> p)"

definition allow_all_policy :: policy where
  "allow_all_policy ctx = Inr (status_decision St_Allow (Some ''allow-all''))"

definition default_blocked_paths :: "string list" where
  "default_blocked_paths =
    [''.env'', ''.ssh'', ''credentials'', ''secrets'', ''id_rsa'', ''.pem'', ''.key'', ''token'', ''password'']"

definition blocked_paths_of :: "string list option \<Rightarrow> string list" where
  "blocked_paths_of bs = (case bs of None \<Rightarrow> default_blocked_paths
     | Some b \<Rightarrow> if b = [] then default_blocked_paths else b)"

definition path_target :: "policy_context \<Rightarrow> string" where
  "path_target ctx = (let payload = payload_of ctx in
     py_lower (pv_str (pv_or (pv_or (pv_or (pd_get_or payload ''path'' (PStr []))
       (pd_get_or payload ''target'' (PStr []))) (pd_get_or payload ''file'' (PStr []))) (PStr []))))"

definition sensitive_denial :: "string \<Rightarrow> policy_decision" where
  "sensitive_denial blocked = (let r = ''blocked sensitive path pattern: '' @ blocked in
     sync_decision (blank_decision\<lparr>pd_disposition := Some Disp_Deny, pd_status := Some St_Deny,
       pd_reason := Some r, pd_reason_refs := [r], pd_policy_refs := [''sensitive-path''],
       pd_obligations := [(new_obligation ''scope_limit'' [(''blocked'', PStr blocked)] False)
          \<lparr>ob_description := Some ''hard boundary: sensitive path''\<rparr>]\<rparr>))"

definition sensitive_path_policy :: "string list option \<Rightarrow> policy" where
  "sensitive_path_policy bs ctx =
    (case find (\<lambda>b. py_contains (path_target ctx) (py_lower b)) (blocked_paths_of bs) of
       Some b \<Rightarrow> Inr (sensitive_denial b)
     | None \<Rightarrow> Inr (status_decision St_Allow None))"

definition require_decision_of ::
    "policy_status \<Rightarrow> string \<Rightarrow> string \<Rightarrow> obligation \<Rightarrow> policy_decision" where
  "require_decision_of st reason policy_id ob =
    sync_decision (blank_decision\<lparr>pd_disposition := Some Disp_Require, pd_status := Some st,
      pd_reason := Some reason, pd_reason_refs := [reason], pd_policy_refs := [policy_id],
      pd_obligations := [ob]\<rparr>)"

definition external_side_effect_policy :: "bool \<Rightarrow> policy" where
  "external_side_effect_policy require_approval ctx =
    (if \<not> require_approval then Inr (status_decision St_Allow None)
     else if (case pc_capability ctx of None \<Rightarrow> False | Some c \<Rightarrow> c \<noteq> [] \<and> py_startswith c ''verify.'')
     then Inr (status_decision St_Allow None)
     else Inr (require_decision_of St_Require_Approval ''external side effect requires approval''
       ''external-side-effect'' (approval_obligation ''owner'' True)))"

definition str_or :: "string option \<Rightarrow> string option \<Rightarrow> string option" where
  "str_or a b = (if a \<noteq> None \<and> a \<noteq> Some [] then a else b)"

definition candidate_merge_policy :: policy where
  "candidate_merge_policy ctx =
    (let action = py_lower (case str_or (pc_action ctx) (pc_capability ctx) of None \<Rightarrow> [] | Some a \<Rightarrow> a) in
     if py_contains action ''merge'' \<or> py_contains action ''push''
     then Inr (require_decision_of St_Require_Verification ''merge requires independent verification''
       ''candidate-merge'' (independent_verification_obligation [''provider_family''] True))
     else Inr (status_decision St_Allow None))"

section \<open>Workflow policy configuration\<close>

record workflow_policy_config =
  wp_requires_approval :: bool
  wp_strict_verify :: bool
  wp_sensitive_keywords :: "string list"
  wp_policy_metadata_key :: string

definition default_config :: workflow_policy_config where
  "default_config = \<lparr>wp_requires_approval = False, wp_strict_verify = False,
     wp_sensitive_keywords = [''sensitive'', ''secret'', ''credentials'', ''production''],
     wp_policy_metadata_key = ''policy''\<rparr>"

definition extract_policy_config :: "pydict \<Rightarrow> workflow_policy_config" where
  "extract_policy_config metadata =
    (if metadata = [] then default_config
     else let policy_block = (case pv_dict (pd_get metadata ''policy'') of None \<Rightarrow> [] | Some b \<Rightarrow> b);
              flag = (\<lambda>k. pv_truthy (pv_or (pd_get_or metadata k (PBool False))
                                          (pd_get_or policy_block k (PBool False))))
          in default_config\<lparr>wp_requires_approval := flag ''requires_approval'',
               wp_strict_verify := flag ''strict_verify''\<rparr>)"

definition work_title_lower :: "pydict \<Rightarrow> string" where
  "work_title_lower payload = (if payload = [] then [] else py_lower (pv_str (pd_get_or payload ''title'' (PStr []))))"

text \<open>The configuration a gate reads: the work's metadata when the payload carries it.\<close>

definition context_config :: "policy_context \<Rightarrow> workflow_policy_config" where
  "context_config ctx = (let payload = payload_of ctx in
     case pv_dict (pd_get payload ''_work_metadata'') of
       Some m \<Rightarrow> extract_policy_config m
     | None \<Rightarrow> extract_policy_config payload)"

definition needs_approval :: "workflow_policy_config \<Rightarrow> policy_context \<Rightarrow> bool" where
  "needs_approval cfg ctx \<longleftrightarrow> wp_requires_approval (context_config ctx) \<or> wp_requires_approval cfg"

definition sensitive_title :: "workflow_policy_config \<Rightarrow> policy_context \<Rightarrow> bool" where
  "sensitive_title cfg ctx \<longleftrightarrow> list_ex (\<lambda>kw. py_contains (work_title_lower (payload_of ctx)) (py_lower kw))
     (wp_sensitive_keywords cfg)"

definition approval_gate_policy :: "workflow_policy_config \<Rightarrow> policy" where
  "approval_gate_policy cfg ctx =
    (if needs_approval cfg ctx \<or> sensitive_title cfg ctx
     then Inr (require_decision_of St_Require_Approval
       (if needs_approval cfg ctx then ''explicit requires_approval flag''
        else ''title contains sensitive keyword'')
       ''approval-gate'' (approval_obligation ''owner'' True))
     else Inr (status_decision St_Allow (Some ''no approval required'')))"

definition strict_verification_policy :: "workflow_policy_config \<Rightarrow> policy" where
  "strict_verification_policy cfg ctx =
    (if wp_strict_verify (context_config ctx) \<or> wp_strict_verify cfg
     then Inr (require_decision_of St_Require_Verification ''strict_verify enabled''
       ''strict-verification'' (revalidation_before_execution_obligation True))
     else Inr (status_decision St_Allow (Some ''strict_verify disabled'')))"

section \<open>The engine\<close>

definition group_obligation ::
    "obligation \<Rightarrow> (string \<times> obligation list) list \<Rightarrow> (string \<times> obligation list) list" where
  "group_obligation o' d = dict_set (ob_kind o')
     ((case map_of d (ob_kind o') of None \<Rightarrow> [] | Some l \<Rightarrow> l) @ [o']) d"

definition detect_obligation_conflict :: "obligation list \<Rightarrow> bool" where
  "detect_obligation_conflict obs =
    list_ex (\<lambda>(kind, lst). 1 < length lst
        \<and> 1 < length (remdups (map (\<lambda>o'. str_tuple_sorted_items (ob_params o')) lst)))
      (fold group_obligation obs [])"

definition obligation_key :: "obligation \<Rightarrow> string" where
  "obligation_key o' = ob_kind o' @ '':'' @ repr_sorted_items (ob_params o')"

fun dedup_obligations :: "string set \<Rightarrow> obligation list \<Rightarrow> obligation list" where
  "dedup_obligations seen [] = []"
| "dedup_obligations seen (o' # os) =
    (if obligation_key o' \<in> seen then dedup_obligations seen os
     else o' # dedup_obligations (insert (obligation_key o') seen) os)"

definition requiring :: "policy_decision list \<Rightarrow> policy_decision list" where
  "requiring ds = filter (\<lambda>d. pd_disposition d = Some Disp_Require) ds"

definition required_obligations :: "policy_decision list \<Rightarrow> obligation list" where
  "required_obligations ds = concat (map pd_obligations (requiring ds))"

definition required_reasons :: "policy_decision list \<Rightarrow> string list" where
  "required_reasons ds = concat (map (\<lambda>d. if pd_reason_refs d \<noteq> [] then pd_reason_refs d
     else if no_reason (pd_reason d) then [] else [the (pd_reason d)]) (requiring ds))"

definition required_policies :: "policy_decision list \<Rightarrow> string list" where
  "required_policies ds = concat (map (\<lambda>d. if pd_policy_refs d \<noteq> [] then pd_policy_refs d else [[]])
     (requiring ds))"

definition union_decision :: "policy_decision list \<Rightarrow> policy_decision" where
  "union_decision ds = (let uniq = dedup_obligations {} (required_obligations ds) in
     if detect_obligation_conflict uniq then
       sync_decision \<lparr>pd_disposition = Some Disp_Deny, pd_obligations = uniq,
         pd_reason_refs = ''policy-conflict'' # required_reasons ds,
         pd_policy_refs = required_policies ds, pd_status = Some St_Deny,
         pd_reason = Some ''policy-conflict: conflicting obligations'',
         pd_metadata = [(''conflict'', PBool True), (''blocked'', PBool True)]\<rparr>
     else
       sync_decision \<lparr>pd_disposition = Some Disp_Require, pd_obligations = uniq,
         pd_reason_refs = required_reasons ds, pd_policy_refs = required_policies ds,
         pd_status = Some (if has_kind ''approval'' uniq then St_Require_Approval else St_Require_Verification),
         pd_reason = Some (if required_reasons ds \<noteq> [] then py_join '';'' (required_reasons ds)
           else ''requires obligations''),
         pd_metadata = []\<rparr>)"

definition compose_decisions :: "policy_decision list \<Rightarrow> policy_decision" where
  "compose_decisions ds =
    (case find (\<lambda>d. pd_disposition d = Some Disp_Deny \<or> pd_status d = Some St_Deny) ds of
       Some d \<Rightarrow> d
     | None \<Rightarrow> (case find (\<lambda>d. pd_disposition d = Some Disp_Defer) ds of
       Some d \<Rightarrow> d
     | None \<Rightarrow> if required_obligations ds \<noteq> [] then union_decision ds
       else (case find (\<lambda>d. pd_status d = Some St_Require_Approval
                 \<or> pd_status d = Some St_Require_Verification) ds of
         Some d \<Rightarrow> d
       | None \<Rightarrow> sync_decision (blank_decision\<lparr>pd_disposition := Some Disp_Allow,
           pd_status := Some St_Allow, pd_reason := Some ''all policies allow''\<rparr>))))"

text \<open>Every decision is validated again before it is composed.\<close>

definition policy_evaluate :: "policy list \<Rightarrow> policy_context \<Rightarrow> policy_decision result" where
  "policy_evaluate ps ctx =
    bindR (traverse (\<lambda>p. bindR (p ctx) (\<lambda>d. Inr (sync_decision d))) ps) (\<lambda>ds. Inr (compose_decisions ds))"

definition requires_approval :: "policy list \<Rightarrow> policy_context \<Rightarrow> bool result" where
  "requires_approval ps ctx = bindR (policy_evaluate ps ctx) (\<lambda>d. Inr
     (pd_status d = Some St_Require_Approval
      \<or> (pd_disposition d = Some Disp_Require \<and> has_kind ''approval'' (pd_obligations d))))"

definition requires_verification :: "policy list \<Rightarrow> policy_context \<Rightarrow> bool result" where
  "requires_verification ps ctx = bindR (policy_evaluate ps ctx) (\<lambda>d. Inr
     (pd_status d = Some St_Require_Verification
      \<or> (pd_disposition d = Some Disp_Require
         \<and> (has_kind ''revalidation_before_execution'' (pd_obligations d)
            \<or> has_kind ''independent_verification'' (pd_obligations d)))))"

definition with_policy :: "policy list \<Rightarrow> policy \<Rightarrow> policy list" where
  "with_policy ps p = ps @ [p]"

section \<open>The incident engine\<close>

definition copy_keys :: "string list \<Rightarrow> pydict \<Rightarrow> pydict \<Rightarrow> pydict" where
  "copy_keys ks src payload = fold (\<lambda>k acc. case map_of src k of None \<Rightarrow> acc
     | Some v \<Rightarrow> dict_set k v acc) ks payload"

definition build_incident_policy_context ::
    "string option \<Rightarrow> string option \<Rightarrow> pydict option \<Rightarrow> string option \<Rightarrow> policy_context" where
  "build_incident_policy_context work_id work_title work_metadata capability =
    (let p1 = (case work_title of None \<Rightarrow> [] | Some t \<Rightarrow> dict_set ''title'' (PStr t) []);
         p2 = (case work_metadata of None \<Rightarrow> p1
           | Some m \<Rightarrow> copy_keys [''requires_approval'', ''strict_verify'', ''policy''] m
               (dict_set ''_work_metadata'' (PDict m) p1))
     in \<lparr>pc_work_id = work_id, pc_capability = capability, pc_provider_id = None, pc_action = None,
         pc_payload = Some p2, pc_metadata = work_metadata\<rparr>)"

definition create_default_incident_policy_engine :: "workflow_policy_config option \<Rightarrow> policy list" where
  "create_default_incident_policy_engine config =
    (let cfg = (case config of None \<Rightarrow> default_config | Some c \<Rightarrow> c)
     in [approval_gate_policy cfg, strict_verification_policy cfg])"

section \<open>The validator\<close>

lemma sync_disposition_fields:
  "pd_disposition (sync_disposition d) = None \<longleftrightarrow> pd_disposition d = None \<and> pd_status d = None"
  "pd_status (sync_disposition d) = pd_status d"
  by (auto simp: sync_disposition_def Let_def split: option.splits)

lemma sync_status_fields:
  "pd_disposition (sync_status d) = pd_disposition d"
  "pd_status (sync_status d) = None \<longleftrightarrow> pd_disposition d = None \<and> pd_status d = None"
  by (auto simp: sync_status_def Let_def split: option.splits)

lemma sync_defaults_fields:
  "pd_disposition (sync_defaults d) = Some (case pd_disposition d of None \<Rightarrow> Disp_Allow | Some x \<Rightarrow> x)"
  "pd_status (sync_defaults d) = Some (case pd_status d of None \<Rightarrow> St_Allow | Some x \<Rightarrow> x)"
  by (auto simp: sync_defaults_def Let_def split: option.splits)

lemma sync_decision_complete [simp]:
  "pd_disposition (sync_decision d) \<noteq> None" "pd_status (sync_decision d) \<noteq> None"
  by (simp_all add: sync_decision_def sync_defaults_fields)

lemma sync_complete_decision:
  assumes "pd_disposition d \<noteq> None" "pd_status d \<noteq> None"
  shows "sync_decision d = (if pd_reason d = None \<and> pd_reason_refs d \<noteq> []
    then d\<lparr>pd_reason := Some (py_join '';'' (pd_reason_refs d))\<rparr> else d)"
  using assms by (auto simp: sync_decision_def sync_disposition_def sync_status_def sync_defaults_def)

lemma sync_decision_reason: "pd_reason (sync_decision d) \<noteq> None \<or> pd_reason_refs (sync_decision d) = []"
  unfolding sync_decision_def sync_defaults_def by (auto simp: Let_def)

lemma sync_decision_idem [simp]: "sync_decision (sync_decision d) = sync_decision d"
  using sync_decision_reason [of d] by (auto simp: sync_complete_decision)

lemma sync_decision_fix: "pd_disposition d \<noteq> None \<Longrightarrow> pd_status d \<noteq> None \<Longrightarrow> pd_reason d \<noteq> None \<Longrightarrow>
    sync_decision d = d"
  by (simp add: sync_complete_decision)

fun status_fits :: "disposition \<Rightarrow> policy_status \<Rightarrow> bool" where
  "status_fits Disp_Allow st \<longleftrightarrow> st = St_Allow"
| "status_fits Disp_Deny st \<longleftrightarrow> st = St_Deny"
| "status_fits Disp_Defer st \<longleftrightarrow> st = St_Require_Approval"
| "status_fits Disp_Require st \<longleftrightarrow> st = St_Require_Approval \<or> st = St_Require_Verification"

definition consistent_decision :: "policy_decision \<Rightarrow> bool" where
  "consistent_decision d \<longleftrightarrow> (case (pd_disposition d, pd_status d) of
     (Some disp, Some st) \<Rightarrow> status_fits disp st | _ \<Rightarrow> False)"

lemma consistent_decisionI:
  "pd_disposition d = Some disp \<Longrightarrow> pd_status d = Some st \<Longrightarrow> status_fits disp st \<Longrightarrow> consistent_decision d"
  by (simp add: consistent_decision_def)

lemma consistent_decisionE:
  assumes "consistent_decision d"
  obtains disp st where "pd_disposition d = Some disp" "pd_status d = Some st" "status_fits disp st"
  using assms by (auto simp: consistent_decision_def split: option.splits)

lemma require_status_cases: "require_status obs = St_Require_Approval \<or> require_status obs = St_Require_Verification"
  by (simp add: require_status_def)

lemma consistent_sync:
  assumes "pd_disposition d = None \<or> pd_status d = None"
  shows "consistent_decision (sync_decision d)"
proof (cases "pd_disposition d")
  case None
  then show ?thesis
    by (cases "pd_status d"; cases "the (pd_status d)")
      (auto simp: sync_decision_def sync_disposition_def sync_status_def sync_defaults_def
        consistent_decision_def Let_def)
next
  case (Some disp)
  with assms have "pd_status d = None" by simp
  with Some show ?thesis
    using require_status_cases [of "pd_obligations d"]
    by (cases disp) (auto simp: sync_decision_def sync_disposition_def sync_status_def sync_defaults_def
        consistent_decision_def Let_def)
qed

section \<open>Conflicting obligations\<close>

lemma group_fold_lookup:
  "map_of (fold group_obligation obs d) k =
    (if filter (\<lambda>o'. ob_kind o' = k) obs = [] then map_of d k
     else Some ((case map_of d k of None \<Rightarrow> [] | Some l \<Rightarrow> l) @ filter (\<lambda>o'. ob_kind o' = k) obs))"
  by (induction obs arbitrary: d) (auto simp: group_obligation_def split: option.splits)

lemma group_fold_distinct: "distinct (map fst d) \<Longrightarrow> distinct (map fst (fold group_obligation obs d))"
  by (induction obs arbitrary: d) (simp_all add: group_obligation_def distinct_dict_set)

lemma group_fold_member:
  "(k, l) \<in> set (fold group_obligation obs []) \<longleftrightarrow>
    l = filter (\<lambda>o'. ob_kind o' = k) obs \<and> l \<noteq> []"
proof -
  have "(k, l) \<in> set (fold group_obligation obs []) \<longleftrightarrow> map_of (fold group_obligation obs []) k = Some l"
    using group_fold_distinct [of "[]" obs] by simp
  then show ?thesis by (auto simp: group_fold_lookup)
qed

lemma length_remdups_gt_1: "Suc 0 < length (remdups xs) \<longleftrightarrow> (\<exists>x \<in> set xs. \<exists>y \<in> set xs. x \<noteq> y)"
proof -
  have "length (remdups xs) \<le> 1 \<longleftrightarrow> (\<forall>x \<in> set xs. \<forall>y \<in> set xs. x = y)"
    by (metis List.finite_set card_le_Suc0_iff_eq length_remdups_card_conv One_nat_def)
  then show ?thesis by (metis One_nat_def not_le)
qed

lemma detect_conflict_iff:
  "detect_obligation_conflict obs \<longleftrightarrow> (\<exists>a \<in> set obs. \<exists>b \<in> set obs. ob_kind a = ob_kind b
      \<and> str_tuple_sorted_items (ob_params a) \<noteq> str_tuple_sorted_items (ob_params b))"
  (is "_ \<longleftrightarrow> ?R")
proof
  assume "detect_obligation_conflict obs"
  then show ?R
    by (auto simp: detect_obligation_conflict_def list_ex_iff length_remdups_gt_1 group_fold_member) metis
next
  assume ?R
  then obtain a b where ab: "a \<in> set obs" "b \<in> set obs" "ob_kind a = ob_kind b"
    "str_tuple_sorted_items (ob_params a) \<noteq> str_tuple_sorted_items (ob_params b)" by blast
  let ?l = "filter (\<lambda>o'. ob_kind o' = ob_kind b) obs"
  let ?m = "map (\<lambda>o'. str_tuple_sorted_items (ob_params o')) ?l"
  have in_l: "a \<in> set ?l" "b \<in> set ?l" using ab by simp_all
  then have two: "Suc 0 < length (remdups ?m)"
    using ab(4) unfolding length_remdups_gt_1 by (metis (no_types, lifting) image_eqI list.set_map)
  then have "Suc 0 < length ?l"
    using length_remdups_leq [of ?m] by (simp del: set_filter)
  moreover have "(ob_kind b, ?l) \<in> set (fold group_obligation obs [])"
    unfolding group_fold_member using in_l by (metis list.set(1) empty_iff)
  ultimately show "detect_obligation_conflict obs"
    using two unfolding detect_obligation_conflict_def list_ex_iff by (intro bexI) auto
qed

text \<open>Deduplication keeps the first obligation of each key.\<close>

lemma dedup_subset: "set (dedup_obligations seen obs) \<subseteq> set obs"
  by (induction seen obs rule: dedup_obligations.induct) auto

lemma dedup_keys:
  "obligation_key ` set (dedup_obligations seen obs) = obligation_key ` set obs - seen"
  by (induction seen obs rule: dedup_obligations.induct) auto

lemma dedup_distinct: "distinct (map obligation_key (dedup_obligations seen obs))"
proof (induction seen obs rule: dedup_obligations.induct)
  case (2 seen o' os)
  then show ?case using dedup_keys [of "insert (obligation_key o') seen" os] by auto
qed simp

lemma dedup_empty_iff: "dedup_obligations {} obs = [] \<longleftrightarrow> obs = []"
  by (cases obs) simp_all

lemma obligation_key_same_kind:
  "ob_kind a = ob_kind b \<Longrightarrow>
    obligation_key a = obligation_key b \<longleftrightarrow> repr_sorted_items (ob_params a) = repr_sorted_items (ob_params b)"
  by (simp add: obligation_key_def)

text \<open>Once duplicates are gone, two obligations of one kind always conflict.\<close>

lemma dedup_conflict_iff:
  "detect_obligation_conflict (dedup_obligations {} obs) \<longleftrightarrow>
    \<not> distinct (map ob_kind (dedup_obligations {} obs))"
proof -
  let ?u = "dedup_obligations {} obs"
  have d: "distinct ?u" "inj_on obligation_key (set ?u)"
    using dedup_distinct [of "{}" obs] by (simp_all add: distinct_map)
  have differ: "str_tuple_sorted_items (ob_params a) \<noteq> str_tuple_sorted_items (ob_params b)"
    if "a \<in> set ?u" "b \<in> set ?u" "ob_kind a = ob_kind b" "a \<noteq> b" for a b
    using that d(2) obligation_key_same_kind [OF that(3)] tuple_render_eqD [of "ob_params a" "ob_params b"]
    by (meson inj_onD)
  have "distinct (map ob_kind ?u) \<longleftrightarrow> inj_on ob_kind (set ?u)"
    using d(1) by (simp add: distinct_map)
  then show ?thesis
    unfolding detect_conflict_iff inj_on_def using differ by blast
qed

end
