(* ===== verification/Policy_Properties.thy ===== *)
theory Policy_Properties
  imports Policy_Engine
begin

text \<open>
  What the policy engine promises: the verdict is the join of the single verdicts in the order
  allow, require, defer, deny, except that clashing requirements are a denial; the obligations
  of a composed decision; what adding a policy can change; and the verdicts of the policies the
  runtime ships.
\<close>

section \<open>The abstract verdict\<close>

fun severity :: "disposition \<Rightarrow> nat" where
  "severity Disp_Allow = 0"
| "severity Disp_Require = 1"
| "severity Disp_Defer = 2"
| "severity Disp_Deny = 3"

lemma severity_inj [simp]: "severity a = severity b \<longleftrightarrow> a = b"
  by (cases a; cases b) simp_all

lemma severity_le_3 [simp]: "severity a \<le> 3"
  by (cases a) simp_all

instantiation disposition :: linorder
begin

definition less_eq_disposition :: "disposition \<Rightarrow> disposition \<Rightarrow> bool" where
  "less_eq_disposition a b \<longleftrightarrow> severity a \<le> severity b"

definition less_disposition :: "disposition \<Rightarrow> disposition \<Rightarrow> bool" where
  "less_disposition a b \<longleftrightarrow> severity a < severity b"

instance
  by standard (auto simp: less_eq_disposition_def less_disposition_def)

end

lemma disposition_order:
  "v \<le> Disp_Deny" "Disp_Allow \<le> v"
  "v \<le> Disp_Defer \<longleftrightarrow> v \<noteq> Disp_Deny"
  "v \<le> Disp_Require \<longleftrightarrow> v \<noteq> Disp_Deny \<and> v \<noteq> Disp_Defer"
  "v \<le> Disp_Allow \<longleftrightarrow> v = Disp_Allow"
  by (cases v; simp add: less_eq_disposition_def)+

definition verdict :: "policy_decision \<Rightarrow> disposition" where
  "verdict d = (case pd_disposition d of None \<Rightarrow> Disp_Allow | Some x \<Rightarrow> x)"

definition joined :: "policy_decision list \<Rightarrow> disposition" where
  "joined ds = Max (insert Disp_Allow (verdict ` set ds))"

lemma joinedI:
  assumes "v = Disp_Allow \<or> v \<in> verdict ` set ds" "\<And>d. d \<in> set ds \<Longrightarrow> verdict d \<le> v"
  shows "joined ds = v"
  unfolding joined_def by (rule Max_eqI) (use assms disposition_order(2) in auto)

lemma joined_ge: "d \<in> set ds \<Longrightarrow> verdict d \<le> joined ds"
  by (simp add: joined_def)

lemma joined_mono: "set ds \<subseteq> set es \<Longrightarrow> joined ds \<le> joined es"
  unfolding joined_def by (rule Max_mono) auto

lemma consistent_verdict:
  assumes "consistent_decision d"
  shows "pd_disposition d = Some (verdict d)"
    "pd_status d = Some St_Deny \<longleftrightarrow> verdict d = Disp_Deny"
    "verdict d = Disp_Allow \<longleftrightarrow> pd_status d = Some St_Allow"
  using assms by (auto simp: verdict_def elim!: consistent_decisionE status_fits.elims)

lemma consistent_require:
  assumes "consistent_decision d" "verdict d \<le> Disp_Require"
  shows "pd_status d = Some St_Require_Approval \<or> pd_status d = Some St_Require_Verification
    \<longleftrightarrow> verdict d = Disp_Require"
  using assms(2) by (auto simp: verdict_def disposition_order intro: consistent_decisionE [OF assms(1)]
      elim!: status_fits.elims)

section \<open>Composing decisions\<close>

definition clashing :: "policy_decision list \<Rightarrow> bool" where
  "clashing ds \<longleftrightarrow> (\<exists>a \<in> set (required_obligations ds). \<exists>b \<in> set (required_obligations ds).
     ob_kind a = ob_kind b \<and> repr_sorted_items (ob_params a) \<noteq> repr_sorted_items (ob_params b))"

lemma clashing_mono: "set ds \<subseteq> set es \<Longrightarrow> clashing ds \<Longrightarrow> clashing es"
  unfolding clashing_def required_obligations_def requiring_def by fastforce

text \<open>
  The key under which duplicates are recognised is a rendering of kind and parameters.  It
  determines both when the kinds have no colon, as the kinds \<open>ObligationKind\<close> lists.
\<close>

definition plain_kinds :: "policy_decision list \<Rightarrow> bool" where
  "plain_kinds ds \<longleftrightarrow> (\<forall>d \<in> set ds. \<forall>o' \<in> set (pd_obligations d). CHR '':'' \<notin> set (ob_kind o'))"

lemma required_plain: "plain_kinds ds \<Longrightarrow> o' \<in> set (required_obligations ds) \<Longrightarrow> CHR '':'' \<notin> set (ob_kind o')"
  by (auto simp: plain_kinds_def required_obligations_def requiring_def)

lemma obligation_key_kind:
  assumes "CHR '':'' \<notin> set (ob_kind o')"
  shows "takeWhile (\<lambda>c. c \<noteq> CHR '':'') (obligation_key o') = ob_kind o'"
proof -
  have "\<And>c. c \<in> set (ob_kind o') \<Longrightarrow> c \<noteq> CHR '':''" using assms by blast
  then have "takeWhile (\<lambda>c. c \<noteq> CHR '':'') (ob_kind o' @ '':'' @ r) = ob_kind o'" for r
    by (subst takeWhile_append2) simp_all
  then show ?thesis by (simp only: obligation_key_def)
qed

lemma obligation_key_eq_iff:
  assumes "CHR '':'' \<notin> set (ob_kind a)" "CHR '':'' \<notin> set (ob_kind b)"
  shows "obligation_key a = obligation_key b \<longleftrightarrow>
    ob_kind a = ob_kind b \<and> repr_sorted_items (ob_params a) = repr_sorted_items (ob_params b)"
  using obligation_key_kind [OF assms(1)] obligation_key_kind [OF assms(2)] obligation_key_same_kind [of a b]
  by metis

definition union_obligations :: "policy_decision list \<Rightarrow> obligation list" where
  "union_obligations ds = dedup_obligations {} (required_obligations ds)"

lemma union_covers:
  assumes "plain_kinds ds" "o' \<in> set (required_obligations ds)"
  shows "\<exists>c \<in> set (union_obligations ds). ob_kind c = ob_kind o'
      \<and> repr_sorted_items (ob_params c) = repr_sorted_items (ob_params o')"
proof -
  let ?r = "required_obligations ds"
  from assms(2) obtain c where c: "c \<in> set (dedup_obligations {} ?r)" "obligation_key c = obligation_key o'"
    using dedup_keys [of "{}" ?r] by (metis (no_types, lifting) Diff_empty image_iff)
  then have "c \<in> set ?r" using dedup_subset by blast
  with c assms show ?thesis
    unfolding union_obligations_def using obligation_key_eq_iff [of c o'] required_plain by blast
qed

lemma clash_dedup:
  assumes "plain_kinds ds"
  shows "detect_obligation_conflict (dedup_obligations {} (required_obligations ds)) \<longleftrightarrow> clashing ds"
proof
  let ?r = "required_obligations ds" let ?u = "dedup_obligations {} ?r"
  assume "detect_obligation_conflict ?u"
  then obtain a b where "a \<in> set ?u" "b \<in> set ?u" "ob_kind a = ob_kind b" "obligation_key a \<noteq> obligation_key b"
    using dedup_distinct [of "{}" ?r] unfolding dedup_conflict_iff distinct_map inj_on_def by blast
  then show "clashing ds"
    unfolding clashing_def using dedup_subset [of "{}" ?r] obligation_key_same_kind by blast
next
  assume "clashing ds"
  then obtain a b where ab: "a \<in> set (required_obligations ds)" "b \<in> set (required_obligations ds)"
    "ob_kind a = ob_kind b" "repr_sorted_items (ob_params a) \<noteq> repr_sorted_items (ob_params b)"
    unfolding clashing_def by blast
  from union_covers [OF assms ab(1)] union_covers [OF assms ab(2)] ab(3,4)
  obtain c d where "c \<in> set (union_obligations ds)" "d \<in> set (union_obligations ds)"
    "ob_kind c = ob_kind d" "repr_sorted_items (ob_params c) \<noteq> repr_sorted_items (ob_params d)" by metis
  then show "detect_obligation_conflict (dedup_obligations {} (required_obligations ds))"
    unfolding detect_conflict_iff union_obligations_def using tuple_render_eqD by blast
qed

lemma sync_literal [simp]:
  "sync_decision (d\<lparr>pd_disposition := Some x, pd_status := Some st, pd_reason := Some r\<rparr>)
    = d\<lparr>pd_disposition := Some x, pd_status := Some st, pd_reason := Some r\<rparr>"
  by (rule sync_decision_fix) simp_all

lemma union_decision_facts:
  "verdict (union_decision ds) =
    (if detect_obligation_conflict (union_obligations ds) then Disp_Deny else Disp_Require)"
  "pd_obligations (union_decision ds) = union_obligations ds"
  by (simp_all add: union_decision_def union_obligations_def Let_def sync_decision_fix verdict_def)

lemma allow_decision_facts:
  "verdict (sync_decision (blank_decision\<lparr>pd_disposition := Some Disp_Allow,
      pd_status := Some St_Allow, pd_reason := Some r\<rparr>)) = Disp_Allow"
  by (simp add: verdict_def)

lemma find_SomeD: "find P xs = Some x \<Longrightarrow> x \<in> set xs \<and> P x"
  by (auto simp: find_Some_iff)

text \<open>The composition, by the joined verdict.\<close>

lemma joined_attained: "joined ds \<noteq> Disp_Allow \<Longrightarrow> \<exists>d \<in> set ds. verdict d = joined ds"
  using Max_in [of "insert Disp_Allow (verdict ` set ds)"] unfolding joined_def by fastforce

lemma compose_deny:
  assumes "\<forall>d \<in> set ds. consistent_decision d" "joined ds = Disp_Deny"
  shows "compose_decisions ds \<in> set ds \<and> verdict (compose_decisions ds) = Disp_Deny"
proof -
  note cv = consistent_verdict [OF bspec [OF assms(1)]]
  from joined_attained [of ds] assms(2) obtain d where "d \<in> set ds" "verdict d = Disp_Deny" by auto
  then have "find (\<lambda>d. pd_disposition d = Some Disp_Deny \<or> pd_status d = Some St_Deny) ds \<noteq> None"
    using cv by (auto simp: find_None_iff)
  then obtain x where x: "find (\<lambda>d. pd_disposition d = Some Disp_Deny \<or> pd_status d = Some St_Deny) ds = Some x"
    by blast
  with find_SomeD [OF x] cv show ?thesis by (auto simp: compose_decisions_def)
qed

lemma no_deny:
  assumes "\<forall>d \<in> set ds. consistent_decision d" "joined ds \<noteq> Disp_Deny"
  shows "find (\<lambda>d. pd_disposition d = Some Disp_Deny \<or> pd_status d = Some St_Deny) ds = None"
proof -
  note cv = consistent_verdict [OF bspec [OF assms(1)]]
  have "verdict d \<noteq> Disp_Deny" if "d \<in> set ds" for d
    using joined_ge [OF that] assms(2) disposition_order(1) by (metis antisym)
  then show ?thesis using cv by (auto simp: find_None_iff)
qed

lemma compose_defer:
  assumes "\<forall>d \<in> set ds. consistent_decision d" "joined ds = Disp_Defer"
  shows "compose_decisions ds \<in> set ds \<and> verdict (compose_decisions ds) = Disp_Defer"
proof -
  note cv = consistent_verdict [OF bspec [OF assms(1)]]
  from joined_attained [of ds] assms(2) obtain d where "d \<in> set ds" "verdict d = Disp_Defer" by auto
  then have "find (\<lambda>d. pd_disposition d = Some Disp_Defer) ds \<noteq> None"
    using cv by (auto simp: find_None_iff)
  then obtain x where x: "find (\<lambda>d. pd_disposition d = Some Disp_Defer) ds = Some x" by blast
  with find_SomeD [OF x] cv no_deny [OF assms(1)] assms(2) show ?thesis
    by (auto simp: compose_decisions_def)
qed

lemma no_defer:
  assumes "\<forall>d \<in> set ds. consistent_decision d" "joined ds \<le> Disp_Require"
  shows "find (\<lambda>d. pd_disposition d = Some Disp_Defer) ds = None"
proof -
  note cv = consistent_verdict [OF bspec [OF assms(1)]]
  have "verdict d \<noteq> Disp_Defer" if "d \<in> set ds" for d
    using order_trans [OF joined_ge [OF that] assms(2)] by (simp add: disposition_order)
  then show ?thesis using cv by (auto simp: find_None_iff)
qed

lemma compose_require:
  assumes "\<forall>d \<in> set ds. consistent_decision d" "joined ds = Disp_Require"
  shows "if required_obligations ds \<noteq> [] then compose_decisions ds = union_decision ds
    else compose_decisions ds \<in> set ds \<and> verdict (compose_decisions ds) = Disp_Require"
proof (cases "required_obligations ds = []")
  case False
  then show ?thesis
    using no_deny [OF assms(1)] no_defer [OF assms(1)] assms(2) by (simp add: compose_decisions_def)
next
  case True
  note cv = consistent_verdict [OF bspec [OF assms(1)]]
  let ?P = "\<lambda>d. pd_status d = Some St_Require_Approval \<or> pd_status d = Some St_Require_Verification"
  have P: "?P d \<longleftrightarrow> verdict d = Disp_Require" if "d \<in> set ds" for d
    using consistent_require [OF bspec [OF assms(1) that]] joined_ge [OF that] assms(2) by simp
  from joined_attained [of ds] assms(2) obtain d where "d \<in> set ds" "verdict d = Disp_Require" by auto
  then have "find ?P ds \<noteq> None" using P by (auto simp: find_None_iff)
  then obtain x where x: "find ?P ds = Some x" by blast
  with find_SomeD [OF x] P True no_deny [OF assms(1)] no_defer [OF assms(1)] assms(2) show ?thesis
    by (auto simp: compose_decisions_def)
qed

lemma compose_allow:
  assumes "\<forall>d \<in> set ds. consistent_decision d" "joined ds = Disp_Allow"
  shows "verdict (compose_decisions ds) = Disp_Allow" "pd_status (compose_decisions ds) = Some St_Allow"
proof -
  have allow: "verdict d = Disp_Allow" if "d \<in> set ds" for d
    using joined_ge [OF that] assms(2) by (simp add: disposition_order)
  then have "requiring ds = []"
    using consistent_verdict(1) [OF bspec [OF assms(1)]] by (auto simp: requiring_def filter_empty_conv)
  then have "required_obligations ds = []" by (simp add: required_obligations_def)
  moreover have "pd_status d = Some St_Allow" if "d \<in> set ds" for d
    using allow [OF that] consistent_verdict [OF bspec [OF assms(1) that]] by simp
  then have "find (\<lambda>d. pd_status d = Some St_Require_Approval \<or> pd_status d = Some St_Require_Verification) ds = None"
    by (auto simp: find_None_iff)
  ultimately have "compose_decisions ds = blank_decision\<lparr>pd_disposition := Some Disp_Allow,
           pd_status := Some St_Allow, pd_reason := Some ''all policies allow''\<rparr>"
    using no_deny [OF assms(1)] no_defer [OF assms(1)] assms(2)
    by (simp add: compose_decisions_def disposition_order)
  then show "verdict (compose_decisions ds) = Disp_Allow" "pd_status (compose_decisions ds) = Some St_Allow"
    by (simp_all add: verdict_def)
qed

lemma clashing_required: "clashing ds \<Longrightarrow> required_obligations ds \<noteq> []"
  by (auto simp: clashing_def)

lemma compose_verdict:
  assumes "\<forall>d \<in> set ds. consistent_decision d" "plain_kinds ds"
  shows "verdict (compose_decisions ds) =
    (if joined ds = Disp_Require \<and> clashing ds then Disp_Deny else joined ds)"
proof (cases "joined ds")
  case Disp_Require
  show ?thesis
    using compose_require [OF assms(1) Disp_Require] Disp_Require clash_dedup [OF assms(2)] clashing_required [of ds]
    by (auto simp: union_decision_facts union_obligations_def split: if_splits)
qed (use compose_deny [OF assms(1)] compose_defer [OF assms(1)] compose_allow [OF assms(1)] in simp_all)

section \<open>The engine\<close>

definition decisions_of :: "policy list \<Rightarrow> policy_context \<Rightarrow> policy_decision list result" where
  "decisions_of ps ctx = traverse (\<lambda>p. bindR (p ctx) (\<lambda>d. Inr (sync_decision d))) ps"

lemma policy_evaluate_Inr:
  "policy_evaluate ps ctx = Inr d \<longleftrightarrow> (\<exists>ds. decisions_of ps ctx = Inr ds \<and> d = compose_decisions ds)"
  by (auto simp: policy_evaluate_def decisions_of_def)

lemma traverse_append:
  "traverse f (xs @ ys) = bindR (traverse f xs) (\<lambda>as. bindR (traverse f ys) (\<lambda>bs. Inr (as @ bs)))"
proof (induction xs)
  case Nil
  then show ?case by (cases "traverse f ys") simp_all
next
  case (Cons x xs)
  show ?case
  proof (cases "f x")
    case (Inr y)
    then show ?thesis using Cons by (cases "traverse f xs"; cases "traverse f ys") simp_all
  qed simp
qed

lemma traverse_members: "traverse f xs = Inr ys \<Longrightarrow> set ys = {y. \<exists>x \<in> set xs. f x = Inr y}"
  by (induction xs arbitrary: ys) fastforce+

lemma decisions_members:
  assumes "decisions_of ps ctx = Inr ds"
  shows "d \<in> set ds \<longleftrightarrow> (\<exists>p \<in> set ps. \<exists>r. p ctx = Inr r \<and> d = sync_decision r)"
  using traverse_members [OF assms [unfolded decisions_of_def]] by auto

text \<open>What the theorems below ask of the policies that return: fields in step, kinds without a colon.\<close>

definition orderly :: "policy_decision \<Rightarrow> bool" where
  "orderly d \<longleftrightarrow> consistent_decision (sync_decision d)
     \<and> list_all (\<lambda>o'. CHR '':'' \<notin> set (ob_kind o')) (pd_obligations (sync_decision d))"

definition orderly_policies :: "policy list \<Rightarrow> policy_context \<Rightarrow> bool" where
  "orderly_policies ps ctx \<longleftrightarrow> list_all (\<lambda>p. case p ctx of Inl _ \<Rightarrow> True | Inr r \<Rightarrow> orderly r) ps"

lemma orderly_decisions:
  assumes "decisions_of ps ctx = Inr ds" "orderly_policies ps ctx"
  shows "\<forall>d \<in> set ds. consistent_decision d" "plain_kinds ds"
proof -
  have "orderly r" if "p \<in> set ps" "p ctx = Inr r" for p r
    using assms(2) that by (auto simp: orderly_policies_def list_all_iff dest: bspec)
  then show "\<forall>d \<in> set ds. consistent_decision d" "plain_kinds ds"
    using decisions_members [OF assms(1)] by (auto simp: orderly_def plain_kinds_def list_all_iff)
qed

lemma verdict_sync [simp]: "pd_disposition d = Some v \<Longrightarrow> verdict (sync_decision d) = v"
  by (simp add: verdict_def sync_decision_def sync_defaults_def sync_status_def sync_disposition_def
      Let_def split: option.splits)

text \<open>C30: The engine refines the precedence algebra it documents.  When every policy returns, the
  engine returns, and its verdict is the most severe of the policies' verdicts (allow < require <
  defer < deny), except that requirements of one kind with different parameters are a denial when
  nothing denies or defers.  The order of the policies does not matter to the verdict.\<close>

theorem engine_verdict:
  assumes "decisions_of ps ctx = Inr ds" "orderly_policies ps ctx"
  shows "\<exists>d. policy_evaluate ps ctx = Inr d
    \<and> verdict d = (if joined ds = Disp_Require \<and> clashing ds then Disp_Deny else joined ds)"
  using assms(1) compose_verdict [OF orderly_decisions [OF assms]] by (auto simp: policy_evaluate_Inr)

text \<open>Adding policies, anywhere in the list, never lowers the engine's verdict, with one
  exception: when the smaller engine denied because its requirements conflict, a policy that
  defers turns that denial into a deferral.\<close>

theorem more_policies_never_weaker:
  assumes "set ps \<subseteq> set qs" "orderly_policies qs ctx"
    and "policy_evaluate ps ctx = Inr d" "policy_evaluate qs ctx = Inr e"
  shows "verdict d \<le> verdict e
    \<or> (verdict d = Disp_Deny \<and> verdict e = Disp_Defer
       \<and> (\<exists>ds. decisions_of ps ctx = Inr ds \<and> joined ds = Disp_Require \<and> clashing ds))"
proof -
  from assms(3,4) obtain ds es where ds: "decisions_of ps ctx = Inr ds" "d = compose_decisions ds"
    and es: "decisions_of qs ctx = Inr es" "e = compose_decisions es"
    by (auto simp: policy_evaluate_Inr)
  have "orderly_policies ps ctx"
    using assms(1,2) by (auto simp: orderly_policies_def list_all_iff)
  note vd = compose_verdict [OF orderly_decisions [OF ds(1) this], folded ds(2)]
  note ve = compose_verdict [OF orderly_decisions [OF es(1) assms(2)], folded es(2)]
  have sub: "set ds \<subseteq> set es"
    using decisions_members [OF ds(1)] decisions_members [OF es(1)] assms(1) by blast
  show ?thesis
  proof (cases "joined ds = Disp_Require \<and> clashing ds")
    case True
    then have "clashing es" using clashing_mono [OF sub] by blast
    then have "verdict e = Disp_Deny \<or> verdict e = Disp_Defer"
      using ve joined_mono [OF sub] True
      by (cases "joined es") (auto simp: less_eq_disposition_def)
    then show ?thesis using True vd ds(1) by auto
  next
    case False
    then have "verdict d = joined ds" using vd by simp
    moreover have "joined es \<le> verdict e" using ve by (simp add: disposition_order)
    ultimately show ?thesis using joined_mono [OF sub] by (metis order_trans)
  qed
qed

text \<open>The obligations of a composed requirement.  When the policies' joint verdict is to
  require, some policy states an obligation and none clash, the decision carries exactly one
  obligation of every kind that a requiring policy asks for, each taken from one of them with the
  parameters all of them ask for, and it calls for approval exactly when an approval is among
  them.\<close>

theorem union_of_requirements:
  assumes "decisions_of ps ctx = Inr ds" "orderly_policies ps ctx"
    and "joined ds = Disp_Require" "required_obligations ds \<noteq> []" "\<not> clashing ds"
  shows "\<exists>d. policy_evaluate ps ctx = Inr d \<and> pd_disposition d = Some Disp_Require
    \<and> distinct (map ob_kind (pd_obligations d))
    \<and> set (pd_obligations d) \<subseteq> set (required_obligations ds)
    \<and> (\<forall>o' \<in> set (required_obligations ds). \<exists>c \<in> set (pd_obligations d). ob_kind c = ob_kind o'
         \<and> repr_sorted_items (ob_params c) = repr_sorted_items (ob_params o'))
    \<and> (pd_status d = Some St_Require_Approval \<longleftrightarrow> has_kind ''approval'' (required_obligations ds))"
proof -
  note od = orderly_decisions [OF assms(1,2)]
  have d: "compose_decisions ds = union_decision ds"
    using compose_require [OF od(1) assms(3)] assms(4) by simp
  have nc: "\<not> detect_obligation_conflict (union_obligations ds)"
    using clash_dedup [OF od(2)] assms(5) by (simp add: union_obligations_def)
  note cov = union_covers [OF od(2)]
  have sub: "set (union_obligations ds) \<subseteq> set (required_obligations ds)"
    by (simp add: union_obligations_def dedup_subset)
  have "has_kind ''approval'' (union_obligations ds) \<longleftrightarrow> has_kind ''approval'' (required_obligations ds)"
    using sub cov unfolding has_kind_def list_ex_iff by (metis subsetD)
  moreover have "pd_status (union_decision ds) = Some St_Require_Approval
      \<longleftrightarrow> has_kind ''approval'' (union_obligations ds)" "pd_disposition (union_decision ds) = Some Disp_Require"
    using nc by (simp_all add: union_decision_def union_obligations_def Let_def sync_decision_fix)
  moreover have "distinct (map ob_kind (union_obligations ds))"
    using nc dedup_conflict_iff by (simp add: union_obligations_def)
  ultimately show ?thesis
    using assms(1) d sub cov by (auto simp: policy_evaluate_Inr union_decision_facts)
qed

text \<open>Whether a boundary stays hard depends on the order of the policies.  Two policies require
  the same obligation, one of them as waivable, the other as a hard boundary that cannot be waived:
  the decision keeps the copy of whichever policy comes first, so the hard boundary is lost when the
  waivable copy comes first.\<close>

theorem waivable_copy_hides_hard_boundary:
  assumes "p ctx = Inr (require_decision_of st1 r1 i1 (ob\<lparr>ob_waivable := True\<rparr>))"
    and "q ctx = Inr (require_decision_of st2 r2 i2 (ob\<lparr>ob_waivable := False\<rparr>))"
    and "st1 \<noteq> St_Deny" "st2 \<noteq> St_Deny"
  shows "\<exists>d e. policy_evaluate [p, q] ctx = Inr d \<and> policy_evaluate [q, p] ctx = Inr e
    \<and> pd_disposition d = Some Disp_Require \<and> pd_disposition e = Some Disp_Require
    \<and> pd_obligations d = [ob\<lparr>ob_waivable := True\<rparr>]
    \<and> pd_obligations e = [ob\<lparr>ob_waivable := False\<rparr>]"
proof -
  let ?w = "ob\<lparr>ob_waivable := True\<rparr>" let ?h = "ob\<lparr>ob_waivable := False\<rparr>"
  have key: "obligation_key ?w = obligation_key ob" "obligation_key ?h = obligation_key ob"
    by (simp_all add: obligation_key_def)
  have dec: "pd_disposition (require_decision_of st r i x) = Some Disp_Require"
    "pd_status (require_decision_of st r i x) = Some st"
    "pd_obligations (require_decision_of st r i x) = [x]"
    "sync_decision (require_decision_of st r i x) = require_decision_of st r i x" for st r i x
    by (simp_all add: require_decision_of_def sync_decision_fix)
  have one: "\<not> detect_obligation_conflict [x]" for x
    by (simp add: detect_conflict_iff)
  show ?thesis
    using assms by (simp add: policy_evaluate_def compose_decisions_def dec required_obligations_def
        requiring_def union_decision_def key one Let_def sync_decision_fix)
qed

lemma sensitive_denial_facts:
  "pd_disposition (sensitive_denial b) = Some Disp_Deny" "pd_status (sensitive_denial b) = Some St_Deny"
  "sync_decision (sensitive_denial b) = sensitive_denial b"
  by (simp_all add: sensitive_denial_def Let_def sync_decision_fix)

text \<open>The sensitive-path policy is a hard boundary.  Whatever other policies are installed and
  wherever it stands among them, a request whose path contains one of its patterns, in any case, is
  never allowed, deferred or made conditional: the engine denies, or an exception escapes.\<close>

theorem sensitive_path_denied:
  assumes "sensitive_path_policy bs \<in> set ps" "b \<in> set (blocked_paths_of bs)"
    and "py_contains (path_target ctx) (py_lower b)"
    and "policy_evaluate ps ctx = Inr d"
  shows "pd_disposition d = Some Disp_Deny \<or> pd_status d = Some St_Deny"
proof -
  from assms(4) obtain ds where ds: "decisions_of ps ctx = Inr ds" "d = compose_decisions ds"
    by (auto simp: policy_evaluate_Inr)
  from assms(2,3) have "find (\<lambda>b. py_contains (path_target ctx) (py_lower b)) (blocked_paths_of bs) \<noteq> None"
    by (auto simp: find_None_iff)
  then obtain c where "sensitive_path_policy bs ctx = Inr (sensitive_denial c)"
    by (auto simp: sensitive_path_policy_def)
  with assms(1) have "sensitive_denial c \<in> set ds"
    using decisions_members [OF ds(1)] sensitive_denial_facts(3) by metis
  then have "find (\<lambda>d. pd_disposition d = Some Disp_Deny \<or> pd_status d = Some St_Deny) ds \<noteq> None"
    by (auto simp: find_None_iff sensitive_denial_facts)
  then obtain x where x: "find (\<lambda>d. pd_disposition d = Some Disp_Deny \<or> pd_status d = Some St_Deny) ds = Some x"
    by blast
  with find_SomeD [OF x] ds(2) show ?thesis by (simp add: compose_decisions_def)
qed

definition asks_approval :: "workflow_policy_config \<Rightarrow> policy_context \<Rightarrow> bool" where
  "asks_approval cfg ctx \<longleftrightarrow> needs_approval cfg ctx \<or> sensitive_title cfg ctx"

definition asks_revalidation :: "workflow_policy_config \<Rightarrow> policy_context \<Rightarrow> bool" where
  "asks_revalidation cfg ctx \<longleftrightarrow> wp_strict_verify (context_config ctx) \<or> wp_strict_verify cfg"

text \<open>The verdict of the incident engine.  Approval is required exactly when the work's policy
  flags, the configuration or a sensitive word of its title ask for it, revalidation exactly when
  strict verification is on; both are obligations of one decision when both are asked for, and
  the two predicates the callers use report exactly that.\<close>

theorem incident_engine_verdict:
  "\<exists>d. policy_evaluate (create_default_incident_policy_engine (Some cfg)) ctx = Inr d
    \<and> verdict d = (if asks_approval cfg ctx \<or> asks_revalidation cfg ctx then Disp_Require else Disp_Allow)
    \<and> pd_obligations d = (if asks_approval cfg ctx then [approval_obligation ''owner'' True] else [])
        @ (if asks_revalidation cfg ctx then [revalidation_before_execution_obligation True] else [])
    \<and> requires_approval (create_default_incident_policy_engine (Some cfg)) ctx = Inr (asks_approval cfg ctx)
    \<and> requires_verification (create_default_incident_policy_engine (Some cfg)) ctx
        = Inr (asks_revalidation cfg ctx)"
proof -
  let ?ps = "create_default_incident_policy_engine (Some cfg)"
  let ?a = "asks_approval cfg ctx" and ?v = "asks_revalidation cfg ctx"
  have dec: "sync_decision (require_decision_of st r i x) = require_decision_of st r i x"
    "pd_disposition (require_decision_of st r i x) = Some Disp_Require"
    "pd_status (require_decision_of st r i x) = Some st"
    "pd_obligations (require_decision_of st r i x) = [x]" for st r i x
    by (simp_all add: require_decision_of_def sync_decision_fix)
  have allow: "pd_disposition (status_decision St_Allow r) = Some Disp_Allow"
    "pd_status (status_decision St_Allow r) = Some St_Allow"
    "sync_decision (status_decision St_Allow r) = status_decision St_Allow r" for r
    by (simp_all add: status_decision_def sync_decision_def sync_disposition_def sync_status_def
        sync_defaults_def blank_decision_def)
  have kinds: "ob_kind (approval_obligation r w) = ''approval''"
    "ob_kind (revalidation_before_execution_obligation w) = ''revalidation_before_execution''" for r w
    by (simp_all add: approval_obligation_def revalidation_before_execution_obligation_def new_obligation_def)
  have keys: "obligation_key (approval_obligation r w)
      \<noteq> obligation_key (revalidation_before_execution_obligation w')" for r w w'
    by (simp add: obligation_key_def kinds)
  have "policy_evaluate ?ps ctx = Inr (compose_decisions
      [if ?a then require_decision_of St_Require_Approval
          (if needs_approval cfg ctx then ''explicit requires_approval flag'' else ''title contains sensitive keyword'')
          ''approval-gate'' (approval_obligation ''owner'' True)
        else status_decision St_Allow (Some ''no approval required''),
       if ?v then require_decision_of St_Require_Verification ''strict_verify enabled''
          ''strict-verification'' (revalidation_before_execution_obligation True)
        else status_decision St_Allow (Some ''strict_verify disabled'')])"
    by (auto simp: policy_evaluate_def create_default_incident_policy_engine_def Let_def
        approval_gate_policy_def strict_verification_policy_def asks_approval_def asks_revalidation_def dec allow)
  then show ?thesis
    unfolding requires_approval_def requires_verification_def
    by (cases ?a; cases ?v)
      (simp_all add: compose_decisions_def dec allow required_obligations_def requiring_def
        union_decision_def detect_conflict_iff kinds keys keys [symmetric] Let_def sync_decision_fix
        verdict_def has_kind_def blank_decision_def)
qed

text \<open>C31: Every decision the engine returns is in normal form: both the current and the legacy field
  are set, a decision with reasons has a reason, and validating it again changes nothing.\<close>

theorem evaluate_normalised:
  assumes "policy_evaluate ps ctx = Inr d"
  shows "sync_decision d = d \<and> pd_disposition d \<noteq> None \<and> pd_status d \<noteq> None"
proof -
  from assms obtain ds where ds: "decisions_of ps ctx = Inr ds" "d = compose_decisions ds"
    by (auto simp: policy_evaluate_Inr)
  have norm: "\<exists>r. x = sync_decision r" if "x \<in> set ds" for x
    using that decisions_members [OF ds(1)] by blast
  have "\<exists>r. d = sync_decision r"
  proof (cases "d \<in> set ds")
    case False
    then have "d = union_decision ds \<or> d = sync_decision (blank_decision\<lparr>pd_disposition := Some Disp_Allow,
           pd_status := Some St_Allow, pd_reason := Some ''all policies allow''\<rparr>)"
      unfolding ds(2) compose_decisions_def
      by (auto dest: find_SomeD split: option.splits if_splits)
    then show ?thesis unfolding union_decision_def Let_def by (metis (full_types))
  qed (rule norm)
  then show ?thesis by (metis sync_decision_complete sync_decision_idem)
qed

section \<open>Witnesses\<close>

definition sample_context :: policy_context where
  "sample_context = \<lparr>pc_work_id = Some ''w'', pc_capability = Some ''repo.merge'', pc_provider_id = None,
     pc_action = None, pc_payload = Some [(''path'', PStr ''A/.ENV'')], pc_metadata = None\<rparr>"

definition approval_by :: "string \<Rightarrow> policy" where
  "approval_by role ctx = Inr (require_decision_of St_Require_Approval ''asked'' role (approval_obligation role True))"

definition later_decision :: policy_decision where
  "later_decision = blank_decision\<lparr>pd_disposition := Some Disp_Defer, pd_reason := Some ''later''\<rparr>"

definition deferring :: policy where
  "deferring ctx = Inr later_decision"

lemma require_decision_eval:
  "sync_decision (require_decision_of st r i x) = require_decision_of st r i x"
  "pd_disposition (require_decision_of st r i x) = Some Disp_Require"
  "pd_status (require_decision_of st r i x) = Some st"
  "pd_obligations (require_decision_of st r i x) = [x]"
  "verdict (require_decision_of st r i x) = Disp_Require"
  by (simp_all add: require_decision_of_def sync_decision_fix verdict_def)

lemma deferring_eval:
  "pd_disposition (sync_decision later_decision) = Some Disp_Defer"
  "pd_status (sync_decision later_decision) = Some St_Require_Approval"
  "pd_obligations (sync_decision later_decision) = []"
  "verdict (sync_decision later_decision) = Disp_Defer"
  by (simp_all add: later_decision_def sync_decision_def sync_disposition_def sync_status_def sync_defaults_def
      blank_decision_def no_reason_def verdict_def)

lemma orderly_require:
  assumes "status_fits Disp_Require st" "CHR '':'' \<notin> set (ob_kind x)"
  shows "orderly (require_decision_of st r i x)"
  using assms consistent_decisionI [of "require_decision_of st r i x" Disp_Require st]
  by (simp add: orderly_def require_decision_eval)

lemma orderly_later: "orderly later_decision"
  using consistent_decisionI [of "sync_decision later_decision", OF deferring_eval(1,2)]
  by (simp add: orderly_def deferring_eval)

lemma sample_kinds:
  "ob_kind (approval_obligation r w) = ''approval''"
  "ob_kind (independent_verification_obligation l w) = ''independent_verification''"
  by (simp_all add: approval_obligation_def independent_verification_obligation_def new_obligation_def)

lemma sample_merge:
  "candidate_merge_policy sample_context = Inr (require_decision_of St_Require_Verification
     ''merge requires independent verification'' ''candidate-merge''
     (independent_verification_obligation [''provider_family''] True))"
proof -
  have "py_contains (py_lower ''repo.merge'') ''merge''" by (simp add: str_eval)
  then show ?thesis by (simp add: candidate_merge_policy_def sample_context_def str_or_def)
qed

lemma orderly_samples:
  "orderly_policies [approval_by ''owner'', approval_by ''auditor'', deferring] sample_context"
  "orderly_policies [approval_by ''owner'', approval_by ''auditor''] sample_context"
  "orderly_policies [approval_by ''owner'', candidate_merge_policy] sample_context"
  by (simp_all add: orderly_policies_def approval_by_def deferring_def orderly_later orderly_require
      sample_kinds sample_merge)

lemma approval_params:
  "repr_sorted_items (ob_params (approval_obligation ''owner'' True)) \<noteq>
    repr_sorted_items (ob_params (approval_obligation ''auditor'' True))"
proof -
  have "repr_sorted_items (ob_params (approval_obligation r w))
      = ''[('' @ py_repr ''required_role'' @ '', '' @ py_repr r @ '')]''" for r w
    by (simp add: approval_obligation_def new_obligation_def repr_sorted_items_def sorted_items_def item_repr_def)
  moreover have "py_repr ''owner'' \<noteq> py_repr ''auditor''" by code_simp
  ultimately show ?thesis by simp
qed

definition two_approvals :: "policy_decision list" where
  "two_approvals =
    [require_decision_of St_Require_Approval ''asked'' ''owner'' (approval_obligation ''owner'' True),
     require_decision_of St_Require_Approval ''asked'' ''auditor'' (approval_obligation ''auditor'' True)]"

lemma approvals_decide:
  "decisions_of [approval_by ''owner'', approval_by ''auditor''] ctx = Inr two_approvals"
  "joined two_approvals = Disp_Require" "clashing two_approvals"
proof -
  show "decisions_of [approval_by ''owner'', approval_by ''auditor''] ctx = Inr two_approvals"
    by (simp add: decisions_of_def approval_by_def require_decision_eval two_approvals_def)
  show "joined two_approvals = Disp_Require"
    by (rule joinedI) (auto simp: require_decision_eval two_approvals_def)
  show "clashing two_approvals"
    using approval_params by (auto simp: clashing_def required_obligations_def requiring_def require_decision_eval
        approval_obligation_def new_obligation_def two_approvals_def)
qed

definition approval_and_merge :: "policy_decision list" where
  "approval_and_merge =
    [require_decision_of St_Require_Approval ''asked'' ''owner'' (approval_obligation ''owner'' True),
     require_decision_of St_Require_Verification ''merge requires independent verification''
       ''candidate-merge'' (independent_verification_obligation [''provider_family''] True)]"

lemma approval_and_merge_decide:
  "decisions_of [approval_by ''owner'', candidate_merge_policy] sample_context = Inr approval_and_merge"
  "joined approval_and_merge = Disp_Require" "\<not> clashing approval_and_merge"
  "required_obligations approval_and_merge
    = [approval_obligation ''owner'' True, independent_verification_obligation [''provider_family''] True]"
proof -
  show "decisions_of [approval_by ''owner'', candidate_merge_policy] sample_context = Inr approval_and_merge"
    by (simp add: decisions_of_def approval_by_def require_decision_eval approval_and_merge_def sample_merge)
  show "joined approval_and_merge = Disp_Require"
    by (rule joinedI) (auto simp: require_decision_eval approval_and_merge_def)
  show r: "required_obligations approval_and_merge
    = [approval_obligation ''owner'' True, independent_verification_obligation [''provider_family''] True]"
    by (simp add: required_obligations_def requiring_def require_decision_eval approval_and_merge_def)
  show "\<not> clashing approval_and_merge"
    by (simp add: clashing_def r approval_obligation_def independent_verification_obligation_def new_obligation_def)
qed

theorem union_of_requirements_witness:
  "\<exists>d. policy_evaluate [approval_by ''owner'', candidate_merge_policy] sample_context = Inr d
    \<and> pd_status d = Some St_Require_Approval \<and> distinct (map ob_kind (pd_obligations d))"
proof -
  have "has_kind ''approval'' (required_obligations approval_and_merge)"
    by (simp add: approval_and_merge_decide has_kind_def approval_obligation_def new_obligation_def)
  with union_of_requirements [OF approval_and_merge_decide(1) orderly_samples(3) approval_and_merge_decide(2)
      _ approval_and_merge_decide(3)]
  show ?thesis by (auto simp: approval_and_merge_decide(4))
qed

text \<open>Two approvals by different roles are a denial.\<close>

theorem engine_verdict_witness:
  "\<exists>d. policy_evaluate [approval_by ''owner'', approval_by ''auditor''] sample_context = Inr d
    \<and> verdict d = Disp_Deny"
  using engine_verdict [OF approvals_decide(1) orderly_samples(2)] approvals_decide(2,3)
  by simp

text \<open>A deferring policy after them turns the denial into a deferral.\<close>

lemma approvals_then_deferral:
  "\<exists>d. policy_evaluate [approval_by ''owner'', approval_by ''auditor''] sample_context = Inr d \<and> verdict d = Disp_Deny"
  "\<exists>e. policy_evaluate [approval_by ''owner'', approval_by ''auditor'', deferring] sample_context = Inr e
    \<and> verdict e = Disp_Defer"
proof -
  show "\<exists>d. policy_evaluate [approval_by ''owner'', approval_by ''auditor''] sample_context = Inr d \<and> verdict d = Disp_Deny"
    using approvals_decide compose_verdict [OF orderly_decisions [OF approvals_decide(1) orderly_samples(2)]]
    by (auto simp: policy_evaluate_Inr)
  show "\<exists>e. policy_evaluate [approval_by ''owner'', approval_by ''auditor'', deferring] sample_context = Inr e
    \<and> verdict e = Disp_Defer"
    by (simp add: policy_evaluate_def approval_by_def deferring_def deferring_eval require_decision_eval
        compose_decisions_def)
qed

theorem more_policies_never_weaker_witness:
  "\<exists>d e. policy_evaluate [approval_by ''owner'', approval_by ''auditor''] sample_context = Inr d
    \<and> policy_evaluate [approval_by ''owner'', approval_by ''auditor'', deferring] sample_context = Inr e
    \<and> verdict d = Disp_Deny \<and> verdict e = Disp_Defer"
proof -
  obtain d where d: "policy_evaluate [approval_by ''owner'', approval_by ''auditor''] sample_context = Inr d"
    "verdict d = Disp_Deny" using approvals_then_deferral(1) by blast
  obtain e where e: "policy_evaluate [approval_by ''owner'', approval_by ''auditor'', deferring] sample_context = Inr e"
    "verdict e = Disp_Defer" using approvals_then_deferral(2) by blast
  have "verdict d \<le> verdict e \<or> (verdict d = Disp_Deny \<and> verdict e = Disp_Defer)"
    using more_policies_never_weaker [OF _ orderly_samples(1) d(1) e(1)] by auto
  with d e show ?thesis by auto
qed

theorem waivable_copy_hides_hard_boundary_witness:
  "\<exists>d. policy_evaluate [\<lambda>ctx. Inr (require_decision_of St_Require_Approval ''r'' ''a''
         ((human_review_obligation False)\<lparr>ob_waivable := True\<rparr>)),
       \<lambda>ctx. Inr (require_decision_of St_Require_Approval ''r'' ''b''
         ((human_review_obligation False)\<lparr>ob_waivable := False\<rparr>))] sample_context = Inr d
    \<and> pd_obligations d = [human_review_obligation True]"
proof -
  have "(human_review_obligation False)\<lparr>ob_waivable := True\<rparr> = human_review_obligation True"
    by (simp add: human_review_obligation_def new_obligation_def)
  moreover have "\<exists>d e. policy_evaluate [\<lambda>ctx. Inr (require_decision_of St_Require_Approval ''r'' ''a''
         ((human_review_obligation False)\<lparr>ob_waivable := True\<rparr>)),
       \<lambda>ctx. Inr (require_decision_of St_Require_Approval ''r'' ''b''
         ((human_review_obligation False)\<lparr>ob_waivable := False\<rparr>))] sample_context = Inr d
    \<and> pd_obligations d = [(human_review_obligation False)\<lparr>ob_waivable := True\<rparr>]"
    using waivable_copy_hides_hard_boundary [where ctx = sample_context and ob = "human_review_obligation False"
        and ?st1.0 = St_Require_Approval and ?st2.0 = St_Require_Approval and ?r1.0 = "''r''" and ?i1.0 = "''a''"
        and ?r2.0 = "''r''" and ?i2.0 = "''b''", OF refl refl] by auto
  ultimately show ?thesis by auto
qed

theorem sensitive_path_denied_witness:
  "\<exists>d. policy_evaluate [allow_all_policy, sensitive_path_policy None] sample_context = Inr d
    \<and> (pd_disposition d = Some Disp_Deny \<or> pd_status d = Some St_Deny)"
proof -
  have c: "py_contains (path_target sample_context) (py_lower ''.env'')" "''.env'' \<in> set (blocked_paths_of None)"
    by (simp_all add: path_target_def sample_context_def payload_of_def pd_get_or_def pv_or_def str_eval
        blocked_paths_of_def default_blocked_paths_def char_of_eq_iff)
  have "\<exists>d. policy_evaluate [allow_all_policy, sensitive_path_policy None] sample_context = Inr d"
    by (auto simp: policy_evaluate_def allow_all_policy_def sensitive_path_policy_def split: option.splits)
  with sensitive_path_denied [OF _ c(2,1), of "[allow_all_policy, sensitive_path_policy None]"]
  show ?thesis by auto
qed

theorem evaluate_normalised_witness:
  "\<exists>d. policy_evaluate [] sample_context = Inr d \<and> sync_decision d = d"
  using evaluate_normalised [of "[]" sample_context] by (auto simp: policy_evaluate_def)

end
