(* ===== verification/Reliability.thy ===== *)
theory Reliability
  imports Prelude Complex_Main
begin

text \<open>
  \<open>core/reliability.py\<close>: the circuit breaker, the risk evaluator, the local policy profile and
  the reliability controls that account for rate, parallelism, budgets and cooldown.

  Clock readings (\<open>time.monotonic()\<close>) and durations are rational numbers of seconds: the rounding
  of floating point arithmetic is not modelled.  The recovery timings come from outside, so they
  are floats with their infinities and NaN, compared as Python compares them.  \<open>float(s)\<close> of a
  string is a parameter of the model.
\<close>

section \<open>Floats\<close>

datatype flt = Fin rat | Pos_Inf | Neg_Inf | NaN

fun flt_add :: "flt \<Rightarrow> flt \<Rightarrow> flt" where
  "flt_add (Fin a) (Fin b) = Fin (a + b)"
| "flt_add NaN _ = NaN"
| "flt_add _ NaN = NaN"
| "flt_add Pos_Inf Neg_Inf = NaN"
| "flt_add Neg_Inf Pos_Inf = NaN"
| "flt_add Pos_Inf _ = Pos_Inf"
| "flt_add _ Pos_Inf = Pos_Inf"
| "flt_add Neg_Inf _ = Neg_Inf"
| "flt_add _ Neg_Inf = Neg_Inf"

fun flt_less :: "flt \<Rightarrow> flt \<Rightarrow> bool" where
  "flt_less (Fin a) (Fin b) \<longleftrightarrow> a < b"
| "flt_less NaN _ \<longleftrightarrow> False"
| "flt_less _ NaN \<longleftrightarrow> False"
| "flt_less Pos_Inf _ \<longleftrightarrow> False"
| "flt_less _ Neg_Inf \<longleftrightarrow> False"
| "flt_less _ _ \<longleftrightarrow> True"

definition flt_le :: "flt \<Rightarrow> flt \<Rightarrow> bool" where
  "flt_le a b \<longleftrightarrow> a \<noteq> NaN \<and> b \<noteq> NaN \<and> \<not> flt_less b a"

text \<open>\<open>min(values)\<close>: the first element that no later one is less than, as the loop finds it.\<close>

definition flt_min :: "flt \<Rightarrow> flt list \<Rightarrow> flt" where
  "flt_min x xs = foldl (\<lambda>m y. if flt_less y m then y else m) x xs"

section \<open>The circuit breaker\<close>

datatype circuit_state = Closed | Opened | Half_Open

record circuit_breaker =
  cb_failure_threshold :: int
  cb_recovery_timeout :: rat
  cb_half_open_probes :: int
  cb_failures :: int
  cb_state :: circuit_state
  cb_opened_at :: "rat option"
  cb_successes :: int

definition new_breaker :: "int \<Rightarrow> rat \<Rightarrow> int \<Rightarrow> circuit_breaker" where
  "new_breaker threshold timeout probes =
    \<lparr>cb_failure_threshold = threshold, cb_recovery_timeout = timeout, cb_half_open_probes = probes,
     cb_failures = 0, cb_state = Closed, cb_opened_at = None, cb_successes = 0\<rparr>"

definition record_success :: "circuit_breaker \<Rightarrow> circuit_breaker" where
  "record_success c = (let c1 = c\<lparr>cb_failures := 0\<rparr> in
     if cb_state c1 = Half_Open then
       (let c2 = c1\<lparr>cb_successes := cb_successes c1 + 1\<rparr> in
        if cb_half_open_probes c2 \<le> cb_successes c2
        then c2\<lparr>cb_state := Closed, cb_successes := 0\<rparr> else c2)
     else c1\<lparr>cb_state := Closed\<rparr>)"

definition record_failure :: "rat \<Rightarrow> circuit_breaker \<Rightarrow> circuit_breaker" where
  "record_failure now c = (let c1 = c\<lparr>cb_failures := cb_failures c + 1\<rparr> in
     if cb_failure_threshold c1 \<le> cb_failures c1
     then c1\<lparr>cb_state := Opened, cb_opened_at := Some now\<rparr> else c1)"

definition circuit_allow :: "rat \<Rightarrow> circuit_breaker \<Rightarrow> bool \<times> circuit_breaker" where
  "circuit_allow now c = (case cb_state c of
     Closed \<Rightarrow> (True, c)
   | Opened \<Rightarrow> (case cb_opened_at c of
       None \<Rightarrow> (False, c)
     | Some t \<Rightarrow> if cb_recovery_timeout c \<le> now - t
         then (True, c\<lparr>cb_state := Half_Open, cb_successes := 0\<rparr>) else (False, c))
   | Half_Open \<Rightarrow> (True, c))"

definition circuit_read_state :: "rat \<Rightarrow> circuit_breaker \<Rightarrow> circuit_state \<times> circuit_breaker" where
  "circuit_read_state now c =
    (let c1 = (case (cb_state c, cb_opened_at c) of
        (Opened, Some t) \<Rightarrow> if cb_recovery_timeout c \<le> now - t then c\<lparr>cb_state := Half_Open\<rparr> else c
      | _ \<Rightarrow> c)
     in (cb_state c1, c1))"

section \<open>Observations, risk and limits\<close>

record reliability_observation =
  ro_action_rate :: int
  ro_active_side_effects :: int
  ro_side_effect_count :: int
  ro_exposure_used :: int
  ro_requested_blast_radius :: int
  ro_requested_exposure :: int
  ro_cooldown_remaining :: rat
  ro_t_detect :: "flt option"
  ro_t_judge :: "flt option"
  ro_t_correct :: "flt option"
  ro_t_irreversible :: "flt option"

datatype risk_severity = Risk_None | Risk_Low | Risk_High | Risk_Critical

record reliability_risk_assessment =
  ra_severity :: risk_severity
  ra_reason_refs :: "string list"

datatype reliability_action = Rel_Allow | Rel_Require | Rel_Defer | Rel_Deny

record reliability_disposition =
  rd_action :: reliability_action
  rd_policy_ref :: string
  rd_reason :: string

record reliability_limits =
  rl_max_action_rate :: int
  rl_max_parallel_side_effects :: int
  rl_blast_radius :: int
  rl_exposure_budget :: int
  rl_side_effect_budget :: int

text \<open>
  A value of the timing dictionary: a float, an integer, a boolean, a string, or anything
  \<open>float\<close> rejects with a \<open>TypeError\<close>.  The conversion of an integer beyond the range of floats
  raises \<open>OverflowError\<close>, which is not a \<open>ValueError\<close>.
\<close>

datatype timing_value = TFloat flt | TInt int | TBool bool | TStr string | TOther

type_synonym timing = "(string \<times> timing_value) list"

definition float_overflow :: int where
  "float_overflow = 2 ^ 1024 - 2 ^ 970"

fun to_float :: "(string \<Rightarrow> flt option) \<Rightarrow> timing_value \<Rightarrow> flt result" where
  "to_float parse (TFloat x) = Inr x"
| "to_float parse (TInt i) = (if float_overflow \<le> \<bar>i\<bar> then Inl (ForeignError ''OverflowError'')
     else Inr (Fin (of_int i)))"
| "to_float parse (TBool b) = Inr (Fin (if b then 1 else 0))"
| "to_float parse (TStr s) = (case parse s of Some x \<Rightarrow> Inr x
     | None \<Rightarrow> Inl (ValueError ''could not convert string to float''))"
| "to_float parse TOther = Inl (TypeError ''float() argument'')"

definition timing_keys :: "string list" where
  "timing_keys = [''t_detect'', ''t_judge'', ''t_correct'', ''t_irreversible'']"

definition timing_floats :: "(string \<Rightarrow> flt option) \<Rightarrow> timing \<Rightarrow> flt list result" where
  "timing_floats parse tm = traverse (\<lambda>k. case map_of tm k of
       None \<Rightarrow> Inl (KeyError k) | Some v \<Rightarrow> to_float parse v) timing_keys"

definition timing_reasons :: "flt list \<Rightarrow> string list" where
  "timing_reasons vs = (case vs of
     [d, j, c, i] \<Rightarrow>
       (if flt_less (flt_min d [j, c, i]) (Fin 0) then [''recovery_timing_non_negative'']
        else if flt_le i (flt_add (flt_add d j) c) then [''recovery_window''] else [])
   | _ \<Rightarrow> [])"

definition risk_evaluate ::
    "(string \<Rightarrow> flt option) \<Rightarrow> reliability_observation \<Rightarrow> bool \<Rightarrow> bool \<Rightarrow> string option
      \<Rightarrow> timing option \<Rightarrow> reliability_risk_assessment result" where
  "risk_evaluate parse ob side_effect irreversible procedure_profile timing =
    (let shape = (if side_effect \<and> ro_requested_blast_radius ob < 1 then [''blast_radius_positive'']
                  else if side_effect \<and> ro_requested_exposure ob < 1 then [''exposure_positive''] else []);
         enhanced = (procedure_profile = Some ''enhanced'' \<or> irreversible);
         assessed = (\<lambda>rs. Inr \<lparr>ra_severity = (if rs = [] then Risk_None else Risk_High), ra_reason_refs = rs\<rparr>)
     in if shape = [] \<and> enhanced then
          (case timing of
             None \<Rightarrow> assessed [''recovery_timing_required'']
           | Some tm \<Rightarrow> (case timing_floats parse tm of
               Inr vs \<Rightarrow> assessed (timing_reasons vs)
             | Inl (ForeignError e) \<Rightarrow> Inl (ForeignError e)
             | Inl _ \<Rightarrow> assessed [''recovery_timing_incomplete'']))
        else assessed shape)"

section \<open>The policy profile\<close>

record reliability_policy =
  rp_profile_id :: string
  rp_version :: string
  rp_limits :: reliability_limits
  rp_cooldown_seconds :: rat

definition new_reliability_policy ::
    "string \<Rightarrow> string \<Rightarrow> reliability_limits option \<Rightarrow> rat \<Rightarrow> int \<Rightarrow> int \<Rightarrow> int \<Rightarrow> int \<Rightarrow> int \<Rightarrow> reliability_policy" where
  "new_reliability_policy profile_id version limits cooldown rate parallel radius exposure budget =
    \<lparr>rp_profile_id = profile_id, rp_version = version,
     rp_limits = (case limits of Some l \<Rightarrow> l
       | None \<Rightarrow> \<lparr>rl_max_action_rate = rate, rl_max_parallel_side_effects = parallel,
           rl_blast_radius = radius, rl_exposure_budget = exposure, rl_side_effect_budget = budget\<rparr>),
     rp_cooldown_seconds = cooldown\<rparr>"

definition reliability_policy_ref :: "reliability_policy \<Rightarrow> string" where
  "reliability_policy_ref p = rp_profile_id p @ ''@'' @ rp_version p"

definition limit_reason :: "reliability_limits \<Rightarrow> reliability_observation \<Rightarrow> string option" where
  "limit_reason l ob =
    (if rl_max_action_rate l \<le> ro_action_rate ob then Some ''max_action_rate''
     else if rl_blast_radius l < ro_requested_blast_radius ob then Some ''blast_radius_limit''
     else if rl_max_parallel_side_effects l \<le> ro_active_side_effects ob then Some ''parallel_side_effect_limit''
     else if rl_side_effect_budget l \<le> ro_side_effect_count ob then Some ''side_effect_budget''
     else if rl_exposure_budget l < ro_exposure_used ob + ro_requested_exposure ob then Some ''exposure_budget''
     else if 0 < ro_cooldown_remaining ob then Some ''cooldown''
     else None)"

definition reason_text :: "reliability_policy \<Rightarrow> reliability_observation \<Rightarrow> string option \<Rightarrow> string" where
  "reason_text p ob reason =
    (if reason = Some ''max_action_rate'' then ''max_action_rate exceeded''
     else if reason = Some ''blast_radius_positive'' then ''blast_radius must be positive''
     else if reason = Some ''blast_radius_limit'' then ''blast_radius ''
       @ py_str_int (ro_requested_blast_radius ob) @ '' exceeds limit '' @ py_str_int (rl_blast_radius (rp_limits p))
     else if reason = Some ''exposure_positive'' then ''exposure must be positive''
     else if reason = Some ''parallel_side_effect_limit'' then ''max_parallel_side_effects exceeded''
     else if reason = Some ''side_effect_budget'' then ''side_effect_budget exhausted''
     else if reason = Some ''exposure_budget'' then ''exposure_budget exhausted''
     else if reason = Some ''cooldown'' then ''cooldown active''
     else if reason = Some ''recovery_timing_required'' then ''enhanced side effect requires recovery timing''
     else if reason = Some ''recovery_timing_incomplete'' then ''recovery timing is incomplete''
     else if reason = Some ''recovery_timing_non_negative'' then ''recovery timing must be non-negative''
     else if reason = Some ''recovery_window'' then ''recovery loop exceeds irreversible window''
     else ''allowed'')"

definition reliability_decide ::
    "reliability_policy \<Rightarrow> reliability_observation \<Rightarrow> reliability_risk_assessment
      \<Rightarrow> reliability_limits option \<Rightarrow> reliability_disposition" where
  "reliability_decide p ob risk limits =
    (let l = (case limits of Some l \<Rightarrow> l | None \<Rightarrow> rp_limits p);
         reason = (case ra_reason_refs risk of r # _ \<Rightarrow> Some r | [] \<Rightarrow> limit_reason l ob)
     in \<lparr>rd_action = (if reason = None then Rel_Allow else Rel_Deny),
         rd_policy_ref = reliability_policy_ref p, rd_reason = reason_text p ob reason\<rparr>)"

definition reliability_evaluate ::
    "(string \<Rightarrow> flt option) \<Rightarrow> reliability_policy \<Rightarrow> reliability_observation \<Rightarrow> bool \<Rightarrow> bool \<Rightarrow> string option
      \<Rightarrow> timing option \<Rightarrow> (reliability_risk_assessment \<times> reliability_disposition) result" where
  "reliability_evaluate parse p ob side_effect irreversible procedure_profile timing =
    bindR (risk_evaluate parse ob side_effect irreversible procedure_profile timing)
      (\<lambda>risk. Inr (risk, reliability_decide p ob risk (Some (rp_limits p))))"

section \<open>The controls\<close>

record reliability_controls =
  rc_cooldown_seconds :: rat
  rc_action_timestamps :: "rat list"
  rc_side_effect_count :: int
  rc_active_side_effects :: int
  rc_exposure_used :: int
  rc_last_side_effect_at :: "rat option"
  rc_last_block_reason :: "string option"
  rc_policy :: reliability_policy
  rc_last_risk_assessment :: "reliability_risk_assessment option"
  rc_last_disposition :: "reliability_disposition option"

definition new_controls ::
    "int \<Rightarrow> int \<Rightarrow> int \<Rightarrow> rat \<Rightarrow> int \<Rightarrow> int \<Rightarrow> reliability_policy option \<Rightarrow> reliability_controls" where
  "new_controls rate parallel radius cooldown exposure budget policy =
    (let p = (case policy of Some p \<Rightarrow> p
       | None \<Rightarrow> new_reliability_policy ''personal-local-v1'' ''1'' None cooldown rate parallel radius exposure budget)
     in \<lparr>rc_cooldown_seconds = rp_cooldown_seconds p, rc_action_timestamps = [], rc_side_effect_count = 0,
         rc_active_side_effects = 0, rc_exposure_used = 0, rc_last_side_effect_at = None,
         rc_last_block_reason = None, rc_policy = p, rc_last_risk_assessment = None,
         rc_last_disposition = None\<rparr>)"

text \<open>The arguments of \<open>assess\<close>, \<open>can_execute\<close> and \<open>record_action\<close>.\<close>

record action_request =
  aq_side_effect :: bool
  aq_blast_radius :: int
  aq_exposure :: "int option"
  aq_irreversible :: bool
  aq_procedure_profile :: "string option"
  aq_timing :: "timing option"

definition requested_exposure :: "action_request \<Rightarrow> int" where
  "requested_exposure a = (case aq_exposure a of Some e \<Rightarrow> e | None \<Rightarrow> aq_blast_radius a)"

text \<open>The timings copied into the observation: numbers only.\<close>

definition observed_timing :: "timing option \<Rightarrow> string \<Rightarrow> flt option result" where
  "observed_timing tm k = (case tm of None \<Rightarrow> Inr None | Some d \<Rightarrow> (case map_of d k of
      Some (TInt i) \<Rightarrow> bindR (to_float (\<lambda>_. None) (TInt i)) (\<lambda>x. Inr (Some x))
    | Some (TBool b) \<Rightarrow> bindR (to_float (\<lambda>_. None) (TBool b)) (\<lambda>x. Inr (Some x))
    | Some (TFloat x) \<Rightarrow> Inr (Some x)
    | _ \<Rightarrow> Inr None))"

definition prune_timestamps :: "rat \<Rightarrow> reliability_controls \<Rightarrow> reliability_controls" where
  "prune_timestamps now s = s\<lparr>rc_action_timestamps := filter (\<lambda>t. now - t < 60) (rc_action_timestamps s)\<rparr>"

definition cooldown_remaining :: "rat \<Rightarrow> reliability_controls \<Rightarrow> rat" where
  "cooldown_remaining now s = (case rc_last_side_effect_at s of None \<Rightarrow> 0
     | Some t \<Rightarrow> max 0 (rc_cooldown_seconds s - (now - t)))"

definition observe :: "rat \<Rightarrow> action_request \<Rightarrow> reliability_controls \<Rightarrow> reliability_observation result" where
  "observe now a s =
    bindR (observed_timing (aq_timing a) ''t_detect'') (\<lambda>d.
    bindR (observed_timing (aq_timing a) ''t_judge'') (\<lambda>j.
    bindR (observed_timing (aq_timing a) ''t_correct'') (\<lambda>c.
    bindR (observed_timing (aq_timing a) ''t_irreversible'') (\<lambda>i. Inr
      \<lparr>ro_action_rate = int (length (rc_action_timestamps s)),
       ro_active_side_effects = rc_active_side_effects s,
       ro_side_effect_count = rc_side_effect_count s, ro_exposure_used = rc_exposure_used s,
       ro_requested_blast_radius = aq_blast_radius a, ro_requested_exposure = requested_exposure a,
       ro_cooldown_remaining = cooldown_remaining now s,
       ro_t_detect = d, ro_t_judge = j, ro_t_correct = c, ro_t_irreversible = i\<rparr>))))"

definition block :: "string \<Rightarrow> (reliability_controls, bool \<times> string) io" where
  "block reason s = (Inr (False, reason), s\<lparr>rc_last_block_reason := Some reason\<rparr>)"

definition assess ::
    "(string \<Rightarrow> flt option) \<Rightarrow> rat \<Rightarrow> action_request \<Rightarrow> (reliability_controls, bool \<times> string) io" where
  "assess parse now a s = (let s1 = prune_timestamps now s in
     case observe now a s1 of Inl e \<Rightarrow> (Inl e, s1) | Inr ob \<Rightarrow>
     (case risk_evaluate parse ob (aq_side_effect a) (aq_irreversible a) (aq_procedure_profile a) (aq_timing a) of
        Inl e \<Rightarrow> (Inl e, s1)
      | Inr risk \<Rightarrow>
         (let d = reliability_decide (rc_policy s1) ob risk (Some (rp_limits (rc_policy s1)));
              s2 = s1\<lparr>rc_last_risk_assessment := Some risk, rc_last_disposition := Some d\<rparr>
          in if rd_action d = Rel_Allow
             then (Inr (True, ''allowed''), s2\<lparr>rc_last_block_reason := None\<rparr>)
             else block (rd_reason d) s2)))"

definition can_execute ::
    "(string \<Rightarrow> flt option) \<Rightarrow> rat \<Rightarrow> action_request \<Rightarrow> (reliability_controls, bool) io" where
  "can_execute parse now a = bindI (assess parse now a) (\<lambda>r. retI (fst r))"

text \<open>The clock is read once for the rate and once for the cooldown.\<close>

definition record_action :: "rat \<Rightarrow> rat \<Rightarrow> action_request \<Rightarrow> reliability_controls \<Rightarrow> reliability_controls" where
  "record_action now1 now2 a s =
    (let s1 = s\<lparr>rc_action_timestamps := rc_action_timestamps s @ [now1]\<rparr> in
     if aq_side_effect a then
       s1\<lparr>rc_side_effect_count := rc_side_effect_count s1 + 1,
          rc_active_side_effects := rc_active_side_effects s1 + 1,
          rc_exposure_used := rc_exposure_used s1 + requested_exposure a,
          rc_last_side_effect_at := Some now2\<rparr>
     else s1)"

definition complete_action :: "bool \<Rightarrow> reliability_controls \<Rightarrow> reliability_controls" where
  "complete_action side_effect s =
    (if side_effect \<and> 0 < rc_active_side_effects s
     then s\<lparr>rc_active_side_effects := rc_active_side_effects s - 1\<rparr> else s)"

definition check_rate_compatibility :: "flt \<Rightarrow> flt \<Rightarrow> flt \<Rightarrow> flt \<Rightarrow> bool" where
  "check_rate_compatibility t_detect t_judge t_correct t_irreversible =
    flt_less (flt_add (flt_add t_detect t_judge) t_correct) t_irreversible"

end
