(* ===== verification/Reliability_Properties.thy ===== *)
theory Reliability_Properties
  imports Reliability
begin

text \<open>
  The circuit breaker against a reference on its history, the admissions the controls decide, and
  the bounds they keep over every history of assessments, executions and completions.
\<close>

section \<open>The circuit breaker\<close>

text \<open>Outcomes of calls and admissions asked for, each with the clock reading it uses.\<close>

datatype circuit_op = Succeeded | Failed rat | Asked rat

fun circuit_step :: "circuit_op \<Rightarrow> circuit_breaker \<Rightarrow> circuit_breaker" where
  "circuit_step Succeeded c = record_success c"
| "circuit_step (Failed now) c = record_failure now c"
| "circuit_step (Asked now) c = snd (circuit_allow now c)"

definition circuit_run :: "circuit_op list \<Rightarrow> circuit_breaker \<Rightarrow> circuit_breaker" where
  "circuit_run ops c = fold circuit_step ops c"

lemma circuit_run_simps [simp]:
  "circuit_run [] c = c"
  "circuit_run (ops @ [x]) c = circuit_step x (circuit_run ops c)"
  by (simp_all add: circuit_run_def)

lemma circuit_params [simp]:
  "cb_failure_threshold (circuit_step x c) = cb_failure_threshold c"
  "cb_recovery_timeout (circuit_step x c) = cb_recovery_timeout c"
  "cb_half_open_probes (circuit_step x c) = cb_half_open_probes c"
  by (cases x; auto simp: record_success_def record_failure_def circuit_allow_def Let_def
      split: circuit_state.splits option.splits)+

text \<open>The reference: how many calls in a row have failed, and when the last of them did.\<close>

fun trailing_failures :: "circuit_op list \<Rightarrow> nat" where
  "trailing_failures [] = 0"
| "trailing_failures (Succeeded # ops) = 0"
| "trailing_failures (Failed _ # ops) = Suc (trailing_failures ops)"
| "trailing_failures (Asked _ # ops) = trailing_failures ops"

fun last_failure :: "circuit_op list \<Rightarrow> rat option" where
  "last_failure [] = None"
| "last_failure (Failed t # ops) = Some t"
| "last_failure (_ # ops) = last_failure ops"

text \<open>Whether a probe has been let through since the last outcome.\<close>

fun probing :: "rat \<Rightarrow> circuit_op list \<Rightarrow> bool" where
  "probing timeout (Asked t # ops) \<longleftrightarrow> probing timeout ops
     \<or> (case last_failure ops of None \<Rightarrow> False | Some f \<Rightarrow> timeout \<le> t - f)"
| "probing timeout _ \<longleftrightarrow> False"

text \<open>Newest first.  The breaker is closed exactly below the threshold.\<close>

definition circuit_tracks :: "circuit_op list \<Rightarrow> circuit_breaker \<Rightarrow> bool" where
  "circuit_tracks hist c \<longleftrightarrow> cb_failures c = int (trailing_failures hist)
     \<and> (cb_state c = Closed \<longleftrightarrow> int (trailing_failures hist) < cb_failure_threshold c)
     \<and> (cb_state c \<noteq> Closed \<longrightarrow> cb_opened_at c = last_failure hist \<and> last_failure hist \<noteq> None
         \<and> (cb_state c = Half_Open \<longleftrightarrow> probing (cb_recovery_timeout c) hist))"

lemma trailing_last: "0 < trailing_failures hist \<Longrightarrow> last_failure hist \<noteq> None"
  by (induction hist rule: trailing_failures.induct) auto

lemma circuit_tracks_step:
  assumes "circuit_tracks hist c" "0 < cb_failure_threshold c" "cb_half_open_probes c \<le> 1" "0 \<le> cb_successes c"
  shows "circuit_tracks (x # hist) (circuit_step x c) \<and> 0 \<le> cb_successes (circuit_step x c)"
proof (cases x)
  case Succeeded
  then show ?thesis using assms
    by (cases "cb_state c") (auto simp: circuit_tracks_def record_success_def Let_def)
next
  case (Failed t)
  then show ?thesis using assms
    by (auto simp: circuit_tracks_def record_failure_def Let_def)
next
  case (Asked t)
  then show ?thesis using assms
    by (auto simp: circuit_tracks_def circuit_allow_def split: circuit_state.splits option.splits)
qed

lemma circuit_tracks_run:
  assumes "0 < threshold" "probes \<le> 1"
  shows "circuit_tracks (rev ops) (circuit_run ops (new_breaker threshold timeout probes))
    \<and> 0 \<le> cb_successes (circuit_run ops (new_breaker threshold timeout probes))
    \<and> cb_failure_threshold (circuit_run ops (new_breaker threshold timeout probes)) = threshold
    \<and> cb_recovery_timeout (circuit_run ops (new_breaker threshold timeout probes)) = timeout
    \<and> cb_half_open_probes (circuit_run ops (new_breaker threshold timeout probes)) = probes"
proof (induction ops rule: rev_induct)
  case Nil
  then show ?case using assms by (simp add: new_breaker_def circuit_tracks_def)
next
  case (snoc x ops)
  then show ?case using assms circuit_tracks_step [of "rev ops" _ x] by simp
qed

text \<open>C34: The circuit breaker, against its history.  With the default single probe, after any
  sequence of outcomes and admissions a call is let through exactly when fewer calls in a row have
  failed than the threshold, or the recovery time has passed since the last failure, or a probe was
  let through since the last outcome.\<close>

theorem circuit_admits_reference:
  assumes "0 < threshold" "probes \<le> 1"
  shows "fst (circuit_allow now (circuit_run ops (new_breaker threshold timeout probes))) \<longleftrightarrow>
    int (trailing_failures (rev ops)) < threshold
    \<or> probing timeout (rev ops)
    \<or> (\<exists>f. last_failure (rev ops) = Some f \<and> timeout \<le> now - f)"
proof -
  let ?c = "circuit_run ops (new_breaker threshold timeout probes)"
  have "circuit_tracks (rev ops) ?c" and p: "cb_failure_threshold ?c = threshold" "cb_recovery_timeout ?c = timeout"
    using circuit_tracks_run [OF assms] by auto
  then have "cb_state ?c = Closed \<longleftrightarrow> int (trailing_failures (rev ops)) < threshold"
    "cb_state ?c \<noteq> Closed \<Longrightarrow> cb_opened_at ?c = last_failure (rev ops) \<and> last_failure (rev ops) \<noteq> None
      \<and> (cb_state ?c = Half_Open \<longleftrightarrow> probing timeout (rev ops))"
    by (simp_all add: circuit_tracks_def)
  then show ?thesis
    using p by (cases "cb_state ?c") (auto simp: circuit_allow_def split: if_splits)
qed

theorem circuit_admits_reference_witness:
  "\<not> fst (circuit_allow 40 (circuit_run [Failed 1, Succeeded, Failed 12, Asked 13, Failed 15] (new_breaker 2 30 1)))"
  by (subst circuit_admits_reference) simp_all

section \<open>What an assessment decides\<close>

text \<open>The shape, timing and limit conditions under which an action is admitted.\<close>

definition timing_admits :: "(string \<Rightarrow> flt option) \<Rightarrow> timing option \<Rightarrow> bool" where
  "timing_admits parse tm = (case tm of None \<Rightarrow> False | Some d \<Rightarrow>
     (case timing_floats parse d of Inl _ \<Rightarrow> False | Inr vs \<Rightarrow> timing_reasons vs = []))"

definition within_limits :: "rat \<Rightarrow> action_request \<Rightarrow> reliability_controls \<Rightarrow> bool" where
  "within_limits now a s \<longleftrightarrow> (let l = rp_limits (rc_policy s) in
     int (length (filter (\<lambda>t. now - t < 60) (rc_action_timestamps s))) < rl_max_action_rate l
     \<and> aq_blast_radius a \<le> rl_blast_radius l
     \<and> rc_active_side_effects s < rl_max_parallel_side_effects l
     \<and> rc_side_effect_count s < rl_side_effect_budget l
     \<and> rc_exposure_used s + requested_exposure a \<le> rl_exposure_budget l
     \<and> (\<forall>t. rc_last_side_effect_at s = Some t \<longrightarrow> rc_cooldown_seconds s \<le> now - t))"

definition admissible_action :: "(string \<Rightarrow> flt option) \<Rightarrow> rat \<Rightarrow> action_request \<Rightarrow> reliability_controls \<Rightarrow> bool" where
  "admissible_action parse now a s \<longleftrightarrow>
     (aq_side_effect a \<longrightarrow> 1 \<le> aq_blast_radius a \<and> 1 \<le> requested_exposure a)
     \<and> (aq_irreversible a \<or> aq_procedure_profile a = Some ''enhanced'' \<longrightarrow> timing_admits parse (aq_timing a))
     \<and> within_limits now a s"

lemma requested_exposure_irreversible [simp]:
  "requested_exposure (a\<lparr>aq_irreversible := b\<rparr>) = requested_exposure a"
  by (simp add: requested_exposure_def split: option.split)

lemma observe_fields:
  assumes "observe now a s = Inr ob"
  shows "ro_action_rate ob = int (length (rc_action_timestamps s))"
    "ro_active_side_effects ob = rc_active_side_effects s"
    "ro_side_effect_count ob = rc_side_effect_count s" "ro_exposure_used ob = rc_exposure_used s"
    "ro_requested_blast_radius ob = aq_blast_radius a" "ro_requested_exposure ob = requested_exposure a"
    "ro_cooldown_remaining ob = cooldown_remaining now s"
  using assms by (auto simp: observe_def)

lemma limit_reason_None:
  assumes "observe now a (prune_timestamps now s) = Inr ob"
  shows "limit_reason (rp_limits (rc_policy s)) ob = None \<longleftrightarrow> within_limits now a s"
proof -
  have "cooldown_remaining now (prune_timestamps now s) = cooldown_remaining now s"
    by (simp add: cooldown_remaining_def prune_timestamps_def split: option.split)
  moreover have "0 < cooldown_remaining now s \<longleftrightarrow> \<not> (\<forall>t. rc_last_side_effect_at s = Some t \<longrightarrow> rc_cooldown_seconds s \<le> now - t)"
    by (auto simp: cooldown_remaining_def split: option.splits)
  ultimately show ?thesis
    by (auto simp: limit_reason_def within_limits_def Let_def observe_fields [OF assms] prune_timestamps_def)
qed

lemma risk_reasons:
  assumes "risk_evaluate parse ob se irr prof tm = Inr risk"
  shows "ra_reason_refs risk = [] \<longleftrightarrow>
     (se \<longrightarrow> 1 \<le> ro_requested_blast_radius ob \<and> 1 \<le> ro_requested_exposure ob)
     \<and> (irr \<or> prof = Some ''enhanced'' \<longrightarrow> timing_admits parse tm)"
  using assms
  by (auto simp: risk_evaluate_def Let_def timing_admits_def split: if_splits option.splits sum.splits py_error.splits)

lemma assess_verdict:
  assumes "assess parse now a s = (Inr (ok, reason), t)"
  shows "(ok \<longleftrightarrow> admissible_action parse now a s) \<and> (ok \<longrightarrow> reason = ''allowed'')
    \<and> rc_last_block_reason t = (if ok then None else Some reason)
    \<and> rc_side_effect_count t = rc_side_effect_count s \<and> rc_active_side_effects t = rc_active_side_effects s
    \<and> rc_exposure_used t = rc_exposure_used s \<and> rc_last_side_effect_at t = rc_last_side_effect_at s
    \<and> rc_policy t = rc_policy s \<and> rc_cooldown_seconds t = rc_cooldown_seconds s
    \<and> rc_action_timestamps t = filter (\<lambda>u. now - u < 60) (rc_action_timestamps s)"
proof -
  let ?s = "prune_timestamps now s"
  from assms obtain ob risk where ob: "observe now a ?s = Inr ob"
    and risk: "risk_evaluate parse ob (aq_side_effect a) (aq_irreversible a) (aq_procedure_profile a) (aq_timing a) = Inr risk"
    by (auto simp: assess_def Let_def split: sum.splits)
  let ?d = "reliability_decide (rc_policy ?s) ob risk (Some (rp_limits (rc_policy ?s)))"
  have "rd_action ?d = Rel_Allow \<longleftrightarrow> ra_reason_refs risk = [] \<and> limit_reason (rp_limits (rc_policy s)) ob = None"
    by (simp add: reliability_decide_def Let_def prune_timestamps_def split: list.split)
  then have "rd_action ?d = Rel_Allow \<longleftrightarrow> admissible_action parse now a s"
    unfolding limit_reason_None [OF ob] risk_reasons [OF risk] admissible_action_def observe_fields [OF ob] by blast
  with assms ob risk show ?thesis
    by (auto simp: assess_def Let_def block_def prune_timestamps_def split: if_splits)
qed

text \<open>C33: What an assessment decides.  Whenever it returns, an action is admitted exactly when its
  blast radius and exposure are positive (for a side effect), its recovery timing is complete and
  leaves a recovery window (for an enhanced or irreversible one), and the rate of the last minute,
  the blast radius, the parallelism, the budgets and the cooldown are all within the limits; it
  changes none of the accounts, and the recorded block reason is the reason returned.\<close>

theorem assess_decides:
  assumes "assess parse now a s = (Inr (ok, reason), t)"
  shows "(ok \<longleftrightarrow> admissible_action parse now a s) \<and> (ok \<longrightarrow> reason = ''allowed'')
    \<and> rc_last_block_reason t = (if ok then None else Some reason)
    \<and> rc_side_effect_count t = rc_side_effect_count s \<and> rc_active_side_effects t = rc_active_side_effects s
    \<and> rc_exposure_used t = rc_exposure_used s \<and> rc_last_side_effect_at t = rc_last_side_effect_at s
    \<and> rc_policy t = rc_policy s \<and> rc_cooldown_seconds t = rc_cooldown_seconds s
    \<and> rc_action_timestamps t = filter (\<lambda>u. now - u < 60) (rc_action_timestamps s)"
  using assess_verdict [OF assms] .

section \<open>Histories\<close>

text \<open>
  The boundary assesses an action and records it when it is admitted; a provider's completion
  releases the parallel slot.  An execution carries the three clock readings it makes, in order.
\<close>

datatype reliability_op =
    Execute action_request rat rat rat
  | Assess_Only action_request rat
  | Complete bool

fun reliability_step :: "(string \<Rightarrow> flt option) \<Rightarrow> reliability_op \<Rightarrow> reliability_controls \<Rightarrow> reliability_controls" where
  "reliability_step parse (Execute a now now1 now2) s =
    (case assess parse now a s of
       (Inr (True, _), t) \<Rightarrow> record_action now1 now2 a t
     | (_, t) \<Rightarrow> t)"
| "reliability_step parse (Assess_Only a now) s = snd (assess parse now a s)"
| "reliability_step parse (Complete se) s = complete_action se s"

definition reliability_run :: "(string \<Rightarrow> flt option) \<Rightarrow> reliability_op list \<Rightarrow> reliability_controls \<Rightarrow> reliability_controls" where
  "reliability_run parse ops s = fold (reliability_step parse) ops s"

text \<open>An assessment that raises has only forgotten timestamps.\<close>

lemma assess_frame:
  "rc_side_effect_count (snd (assess parse now a s)) = rc_side_effect_count s"
  "rc_active_side_effects (snd (assess parse now a s)) = rc_active_side_effects s"
  "rc_exposure_used (snd (assess parse now a s)) = rc_exposure_used s"
  "rc_last_side_effect_at (snd (assess parse now a s)) = rc_last_side_effect_at s"
  "rc_policy (snd (assess parse now a s)) = rc_policy s"
  "rc_cooldown_seconds (snd (assess parse now a s)) = rc_cooldown_seconds s"
  "rc_action_timestamps (snd (assess parse now a s)) = filter (\<lambda>u. now - u < 60) (rc_action_timestamps s)"
  by (simp_all add: assess_def Let_def block_def prune_timestamps_def split: sum.splits)

definition within_budgets :: "reliability_controls \<Rightarrow> bool" where
  "within_budgets s \<longleftrightarrow> (let l = rp_limits (rc_policy s) in
     int (length (rc_action_timestamps s)) \<le> rl_max_action_rate l
     \<and> 0 \<le> rc_active_side_effects s \<and> rc_active_side_effects s \<le> rl_max_parallel_side_effects l
     \<and> rc_active_side_effects s \<le> rc_side_effect_count s
     \<and> rc_side_effect_count s \<le> rl_side_effect_budget l
     \<and> rc_side_effect_count s \<le> rc_exposure_used s
     \<and> rc_exposure_used s \<le> rl_exposure_budget l)"

lemma assess_within_budgets: "within_budgets s \<Longrightarrow> within_budgets (snd (assess parse now a s))"
  using of_nat_mono [where 'a = int, OF length_filter_le [of "\<lambda>u. now - u < 60" "rc_action_timestamps s"]]
  unfolding within_budgets_def Let_def assess_frame by linarith

lemma record_within_budgets:
  assumes "within_budgets s" "assess parse now a s = (Inr (True, reason), t)"
  shows "within_budgets (record_action now1 now2 a t)"
proof -
  from assms(2) have t: "t = snd (assess parse now a s)" by simp
  have "admissible_action parse now a s" using assess_verdict [OF assms(2)] by simp
  then show ?thesis
    using assms(1) unfolding t
    by (auto simp: within_budgets_def Let_def assess_frame record_action_def admissible_action_def
        within_limits_def)
qed

lemma step_within_budgets: "within_budgets s \<Longrightarrow> within_budgets (reliability_step parse op s)"
proof (induction op)
  case (Execute a now now1 now2)
  obtain r t where rt: "assess parse now a s = (r, t)" by fastforce
  show ?case
  proof (cases "\<exists>reason. r = Inr (True, reason)")
    case True
    then show ?thesis using record_within_budgets [OF Execute] rt by auto
  next
    case False
    then have "reliability_step parse (Execute a now now1 now2) s = t"
      using rt by (auto split: sum.split prod.split bool.split)
    then show ?thesis using assess_within_budgets [OF Execute, of parse now a] rt by simp
  qed
next
  case (Assess_Only a now)
  then show ?case by (simp add: assess_within_budgets)
next
  case (Complete se)
  then show ?case by (simp add: complete_action_def within_budgets_def Let_def)
qed

lemma step_policy [simp]: "rc_policy (reliability_step parse op s) = rc_policy s"
proof (induction op)
  case (Execute a now now1 now2)
  show ?case using assess_frame(5) [of parse now a s]
    by (auto simp: record_action_def Let_def split: sum.split prod.split bool.split)
qed (simp_all add: assess_frame complete_action_def)

definition limits_nonneg :: "reliability_limits \<Rightarrow> bool" where
  "limits_nonneg l \<longleftrightarrow> 0 \<le> rl_max_action_rate l \<and> 0 \<le> rl_max_parallel_side_effects l
     \<and> 0 \<le> rl_side_effect_budget l \<and> 0 \<le> rl_exposure_budget l"

lemma budgets_facts:
  assumes "limits_nonneg (rp_limits p)"
    and "s = reliability_run parse ops (new_controls rate parallel radius cooldown exposure budget (Some p))"
  shows "int (length (rc_action_timestamps s)) \<le> rl_max_action_rate (rp_limits p)
    \<and> 0 \<le> rc_active_side_effects s
    \<and> rc_active_side_effects s \<le> rl_max_parallel_side_effects (rp_limits p)
    \<and> rc_active_side_effects s \<le> rc_side_effect_count s
    \<and> rc_side_effect_count s \<le> rl_side_effect_budget (rp_limits p)
    \<and> rc_side_effect_count s \<le> rc_exposure_used s
    \<and> rc_exposure_used s \<le> rl_exposure_budget (rp_limits p)"
proof -
  let ?new = "new_controls rate parallel radius cooldown exposure budget (Some p)"
  have init: "within_budgets ?new" "rc_policy ?new = p"
    using assms(1) by (simp_all add: new_controls_def within_budgets_def limits_nonneg_def Let_def)
  have "within_budgets (fold (reliability_step parse) ops u) \<and> rc_policy (fold (reliability_step parse) ops u) = p"
    if "within_budgets u" "rc_policy u = p" for u
    using that by (induction ops arbitrary: u) (simp_all add: step_within_budgets)
  from this [OF init] have "within_budgets s" "rc_policy s = p"
    by (simp_all add: assms(2) reliability_run_def)
  then show ?thesis by (simp add: within_budgets_def Let_def)
qed


text \<open>
  The actions executed, newest last, and the requirement that the clock does not go back.
\<close>

fun executed :: "(string \<Rightarrow> flt option) \<Rightarrow> reliability_op list \<Rightarrow> reliability_controls \<Rightarrow> rat list" where
  "executed parse [] s = []"
| "executed parse (op # ops) s =
    (case op of Execute a now now1 now2 \<Rightarrow>
        (case assess parse now a s of (Inr (True, _), _) \<Rightarrow> [now1] | _ \<Rightarrow> [])
      | _ \<Rightarrow> []) @ executed parse ops (reliability_step parse op s)"

fun clock_runs :: "rat \<Rightarrow> reliability_op list \<Rightarrow> bool" where
  "clock_runs c [] \<longleftrightarrow> True"
| "clock_runs c (Execute a now now1 now2 # ops) \<longleftrightarrow> c \<le> now \<and> now \<le> now1 \<and> now1 \<le> now2 \<and> clock_runs now2 ops"
| "clock_runs c (Assess_Only a now # ops) \<longleftrightarrow> c \<le> now \<and> clock_runs now ops"
| "clock_runs c (Complete se # ops) \<longleftrightarrow> clock_runs c ops"

text \<open>The remembered timestamps are, for every later minute, those of all actions executed.\<close>

definition remembers :: "rat \<Rightarrow> rat list \<Rightarrow> reliability_controls \<Rightarrow> bool" where
  "remembers c hist s \<longleftrightarrow> (\<forall>now. c \<le> now \<longrightarrow>
     filter (\<lambda>t. now - t < 60) hist = filter (\<lambda>t. now - t < 60) (rc_action_timestamps s))"

lemma remembers_prune:
  assumes "remembers c hist s" "c \<le> now" "rc_action_timestamps t = filter (\<lambda>u. now - u < 60) (rc_action_timestamps s)"
  shows "remembers now hist t"
  unfolding remembers_def
proof (intro allI impI)
  fix later assume "now \<le> later"
  then have "(later - u < 60 \<and> now - u < 60) = (later - u < 60)" for u by auto
  moreover have "filter (\<lambda>u. later - u < 60) hist = filter (\<lambda>u. later - u < 60) (rc_action_timestamps s)"
    using assms(1,2) \<open>now \<le> later\<close> by (simp add: remembers_def)
  ultimately show "filter (\<lambda>u. later - u < 60) hist = filter (\<lambda>u. later - u < 60) (rc_action_timestamps t)"
    by (simp add: assms(3) conj_commute)
qed

lemma remembers_later: "remembers c hist s \<Longrightarrow> c \<le> d \<Longrightarrow> remembers d hist s"
  by (auto simp: remembers_def)

lemma remembers_record:
  "remembers c hist s \<Longrightarrow> c \<le> now1 \<Longrightarrow> now1 \<le> now2 \<Longrightarrow> remembers now2 (hist @ [now1]) (record_action now1 now2 a s)"
  by (auto simp: remembers_def record_action_def Let_def)

fun clock_after :: "rat \<Rightarrow> reliability_op list \<Rightarrow> rat" where
  "clock_after c [] = c"
| "clock_after c (Execute a now now1 now2 # ops) = clock_after now2 ops"
| "clock_after c (Assess_Only a now # ops) = clock_after now ops"
| "clock_after c (Complete se # ops) = clock_after c ops"

lemma remembers_run:
  assumes "remembers c hist s" "clock_runs c ops"
  shows "remembers (clock_after c ops) (hist @ executed parse ops s) (fold (reliability_step parse) ops s)"
  using assms
proof (induction ops arbitrary: c hist s)
  case (Cons op ops)
  show ?case
  proof (cases op)
    case (Complete se)
    have "remembers c hist (complete_action se s)"
      using Cons.prems(1) by (simp add: remembers_def complete_action_def)
    then show ?thesis using Cons.IH [of c hist "complete_action se s"] Cons.prems(2) Complete by simp
  next
    case (Assess_Only a now)
    have "remembers now hist (snd (assess parse now a s))"
      by (rule remembers_prune [OF Cons.prems(1) _ assess_frame(7)]) (use Cons.prems(2) Assess_Only in simp)
    then show ?thesis
      using Cons.IH [of now hist "snd (assess parse now a s)"] Cons.prems(2) Assess_Only by simp
  next
    case (Execute a now now1 now2)
    obtain r t where rt: "assess parse now a s = (r, t)" by fastforce
    have t: "remembers now hist t"
      by (rule remembers_prune [OF Cons.prems(1)])
        (use Cons.prems(2) Execute assess_frame(7) [of parse now a s] rt in simp_all)
    have le: "now \<le> now1" "now1 \<le> now2" "clock_runs now2 ops" using Cons.prems(2) Execute by auto
    show ?thesis
    proof (cases "\<exists>reason. r = Inr (True, reason)")
      case True
      then show ?thesis
        using remembers_record [OF t le(1,2), of a] Execute rt
          Cons.IH [of now2 "hist @ [now1]" "record_action now1 now2 a t", OF _ le(3)]
        by (auto simp del: filter.simps)
    next
      case False
      then have "reliability_step parse op s = t" "executed parse (op # ops) s = executed parse ops t"
        using rt Execute by (auto split: sum.split prod.split bool.split)
      then show ?thesis
        using remembers_later [OF t order_trans [OF le(1,2)]] Execute Cons.IH [of now2 hist t, OF _ le(3)] by simp
    qed
  qed
qed simp

text \<open>No minute sees more actions than the rate allows.  As long as the clock does not go back,
  at most \<open>max_action_rate\<close> of all the actions executed since the controls were created fall within
  the last sixty seconds, whatever else was assessed or completed in between.\<close>

theorem rate_bounded_every_minute:
  assumes "limits_nonneg (rp_limits p)" "clock_runs c ops" "clock_after c ops \<le> now"
  shows "int (length (filter (\<lambda>t. now - t < 60)
      (executed parse ops (new_controls rate parallel radius cooldown exposure budget (Some p)))))
    \<le> rl_max_action_rate (rp_limits p)"
proof -
  let ?new = "new_controls rate parallel radius cooldown exposure budget (Some p)"
  let ?s = "reliability_run parse ops ?new"
  have "remembers c [] ?new" by (simp add: remembers_def new_controls_def)
  from remembers_run [OF this assms(2), of parse] assms(3)
  have "length (filter (\<lambda>t. now - t < 60) (executed parse ops ?new))
      = length (filter (\<lambda>t. now - t < 60) (rc_action_timestamps ?s))"
    by (simp add: remembers_def reliability_run_def)
  also have "\<dots> \<le> length (rc_action_timestamps ?s)" by (rule length_filter_le)
  finally have "int (length (filter (\<lambda>t. now - t < 60) (executed parse ops ?new)))
      \<le> int (length (rc_action_timestamps ?s))" by simp
  also have "\<dots> \<le> rl_max_action_rate (rp_limits p)" using budgets_facts [OF assms(1) refl] by blast
  finally show ?thesis .
qed


lemma assess_returns:
  assumes "observe now a (prune_timestamps now s) = Inr ob"
    and "risk_evaluate parse ob (aq_side_effect a) (aq_irreversible a) (aq_procedure_profile a) (aq_timing a) = Inr risk"
  shows "\<exists>ok reason t. assess parse now a s = (Inr (ok, reason), t)"
proof (cases "rd_action (reliability_decide (rc_policy (prune_timestamps now s)) ob risk
    (Some (rp_limits (rc_policy (prune_timestamps now s))))) = Rel_Allow")
  case True
  then show ?thesis using assms by (auto simp: assess_def Let_def)
next
  case False
  then show ?thesis using assms by (auto simp: assess_def Let_def block_def)
qed

text \<open>A timing that is not a number opens the recovery gate.  When every other condition holds, an
  irreversible action is admitted with four timings of which the irreversible window is NaN, which
  a request may give as the string its provider parses as NaN, although no recovery window is
  shown: the comparison that should refuse it is false for NaN.\<close>

theorem nan_window_admits_irreversible:
  assumes "within_limits now a s" "aq_side_effect a \<longrightarrow> 1 \<le> aq_blast_radius a \<and> 1 \<le> requested_exposure a"
    and "parse nan = Some NaN"
    and "aq_timing a = Some [(''t_detect'', TInt 9), (''t_judge'', TInt 9), (''t_correct'', TInt 9),
      (''t_irreversible'', TStr nan)]"
  shows "\<exists>t. assess parse now (a\<lparr>aq_irreversible := True\<rparr>) s = (Inr (True, ''allowed''), t)
    \<and> \<not> check_rate_compatibility (Fin 9) (Fin 9) (Fin 9) NaN"
proof -
  let ?a = "a\<lparr>aq_irreversible := True\<rparr>"
  have small: "\<not> float_overflow \<le> 9" by (simp add: float_overflow_def)
  have "timing_floats parse (the (aq_timing a)) = Inr [Fin 9, Fin 9, Fin 9, NaN]"
    using small assms(3) by (simp add: timing_floats_def timing_keys_def assms(4))
  moreover have "timing_reasons [Fin 9, Fin 9, Fin 9, NaN] = []"
    by (simp add: timing_reasons_def flt_min_def flt_le_def)
  ultimately have ok: "timing_admits parse (aq_timing a)"
    by (simp add: timing_admits_def assms(4))
  then have adm: "admissible_action parse now ?a s"
    using assms(1,2) by (simp add: admissible_action_def within_limits_def)
  have "\<exists>ob. observe now ?a (prune_timestamps now s) = Inr ob"
    using small by (simp add: observe_def observed_timing_def assms(4))
  then obtain ob where ob: "observe now ?a (prune_timestamps now s) = Inr ob" by blast
  have "\<exists>risk. risk_evaluate parse ob (aq_side_effect ?a) (aq_irreversible ?a) (aq_procedure_profile ?a) (aq_timing ?a)
      = Inr risk"
    using ok by (auto simp: risk_evaluate_def Let_def timing_admits_def split: option.splits sum.splits)
  then obtain ok reason t where rt: "assess parse now ?a s = (Inr (ok, reason), t)"
    using assess_returns [OF ob] by blast
  moreover have "ok \<and> reason = ''allowed''" using assess_verdict [OF rt] adm by blast
  ultimately show ?thesis by (simp add: check_rate_compatibility_def)
qed

section \<open>Witnesses\<close>

definition sample_policy :: reliability_policy where
  "sample_policy = new_reliability_policy ''local'' ''1'' None 5 2 1 5 10 3"

definition sample_action :: action_request where
  "sample_action = \<lparr>aq_side_effect = True, aq_blast_radius = 2, aq_exposure = None,
     aq_irreversible = False, aq_procedure_profile = None,
     aq_timing = Some [(''t_detect'', TInt 9), (''t_judge'', TInt 9), (''t_correct'', TInt 9),
      (''t_irreversible'', TStr ''nan'')]\<rparr>"

definition fresh_controls :: reliability_controls where
  "fresh_controls = new_controls 0 0 0 0 0 0 (Some sample_policy)"

definition parse_nan :: "string \<Rightarrow> flt option" where
  "parse_nan s = (if s = ''nan'' then Some NaN else None)"

lemma sample_limits: "limits_nonneg (rp_limits sample_policy)"
  by (simp add: sample_policy_def new_reliability_policy_def limits_nonneg_def)

lemma sample_within: "within_limits 1 sample_action fresh_controls"
  by (simp add: within_limits_def fresh_controls_def new_controls_def sample_policy_def
      new_reliability_policy_def sample_action_def requested_exposure_def Let_def)

definition sample_ops :: "reliability_op list" where
  "sample_ops = [Execute sample_action 1 1 1, Complete True, Execute sample_action 7 7 8,
     Execute sample_action 9 9 9]"


theorem rate_bounded_every_minute_witness:
  "int (length (filter (\<lambda>t. 20 - t < 60) (executed parse_nan sample_ops fresh_controls))) \<le> 2"
proof -
  have "clock_runs 0 sample_ops" "clock_after 0 sample_ops \<le> 20"
    by (simp_all add: sample_ops_def)
  from rate_bounded_every_minute [OF sample_limits this, of parse_nan 0 0 0 0 0 0]
  show ?thesis by (simp add: fresh_controls_def sample_policy_def new_reliability_policy_def)
qed

theorem nan_window_admits_irreversible_witness:
  "\<exists>t. assess parse_nan 1 (sample_action\<lparr>aq_irreversible := True\<rparr>) fresh_controls = (Inr (True, ''allowed''), t)"
proof -
  have "aq_side_effect sample_action \<longrightarrow> 1 \<le> aq_blast_radius sample_action \<and> 1 \<le> requested_exposure sample_action"
    "parse_nan ''nan'' = Some NaN"
    by (simp_all add: sample_action_def requested_exposure_def parse_nan_def)
  with nan_window_admits_irreversible [where nan = "''nan''" and a = sample_action and parse = parse_nan,
      OF sample_within] show ?thesis
    by (auto simp: sample_action_def)
qed

theorem assess_decides_witness:
  "\<exists>t. assess parse_nan 1 sample_action fresh_controls = (Inr (True, ''allowed''), t)
    \<and> admissible_action parse_nan 1 sample_action fresh_controls"
proof -
  let ?s = "prune_timestamps 1 fresh_controls"
  have "\<exists>ob. observe 1 sample_action ?s = Inr ob"
    by (simp add: observe_def observed_timing_def sample_action_def float_overflow_def)
  then obtain ob where ob: "observe 1 sample_action ?s = Inr ob" by blast
  have "\<exists>risk. risk_evaluate parse_nan ob (aq_side_effect sample_action) (aq_irreversible sample_action)
      (aq_procedure_profile sample_action) (aq_timing sample_action) = Inr risk"
    by (simp add: risk_evaluate_def Let_def sample_action_def)
  then obtain ok reason t where r: "assess parse_nan 1 sample_action fresh_controls = (Inr (ok, reason), t)"
    using assess_returns [OF ob] by blast
  moreover have "admissible_action parse_nan 1 sample_action fresh_controls"
    using sample_within by (simp add: admissible_action_def sample_action_def requested_exposure_def)
  ultimately show ?thesis using assess_decides [OF r] r by simp
qed

end
