(* ===== verification/Execution_Binding.thy ===== *)
theory Execution_Binding
  imports Core_Models Python_Values
begin

text \<open>
  The identity of a configured provider execution and the authority to repeat its reconciliation
  query (\<open>governance/provider_execution_binding.py\<close>, \<open>core/reconciliation_repeatability.py\<close>), with
  the provider descriptor of \<open>core/capabilities.py\<close>.  SHA-256 is the parameter of the environment
  that \<open>Core_Models\<close> names.
\<close>

section \<open>Provider descriptors\<close>

text \<open>
  The set of tags is the list its iteration gives in the running process: the order of a Python
  set of strings differs between processes.
\<close>

record provider_descriptor =
  de_id :: string
  de_name :: string
  de_version :: string
  de_capabilities :: "string list"
  de_enabled :: bool
  de_priority :: int
  de_tags :: "string list"
  de_constraints :: pydict
  de_metadata :: pydict
  de_effect_semantics :: string
  de_side_effect_class :: string
  de_reversibility :: string
  de_domains :: "(string \<times> string option) list"

text \<open>
  \<open>de_domains\<close> holds the nine optional domain fields under their names, in declaration order.
  \<open>extra\<close> fields are not represented.
\<close>

definition domain_names :: "string list" where
  "domain_names = [''provider_family'', ''model_family'', ''operator'', ''execution_domain'',
     ''credential_domain'', ''data_source_domain'', ''evaluation_domain'', ''network_domain'', ''trust_boundary'']"

definition descriptor_ok :: "provider_descriptor \<Rightarrow> bool" where
  "descriptor_ok d \<longleftrightarrow> map fst (de_domains d) = domain_names \<and> distinct (de_tags d)"

definition opt_str :: "string option \<Rightarrow> pyval" where
  "opt_str x = (case x of None \<Rightarrow> PNone | Some s \<Rightarrow> PStr s)"

text \<open>\<open>descriptor.model_dump(mode="json", exclude={"enabled"})\<close>.\<close>

definition descriptor_dump :: "provider_descriptor \<Rightarrow> pydict" where
  "descriptor_dump d =
    [(''id'', PStr (de_id d)), (''name'', PStr (de_name d)), (''version'', PStr (de_version d)),
     (''capabilities'', PList (map PStr (de_capabilities d))), (''priority'', PInt (de_priority d)),
     (''tags'', PList (map PStr (de_tags d))), (''constraints'', PDict (de_constraints d)),
     (''metadata'', PDict (de_metadata d)), (''effect_semantics'', PStr (de_effect_semantics d)),
     (''side_effect_class'', PStr (de_side_effect_class d)), (''reversibility'', PStr (de_reversibility d))]
    @ map (\<lambda>(k, v). (k, opt_str v)) (de_domains d)"

definition sha256_of :: "env \<Rightarrow> pyval \<Rightarrow> string" where
  "sha256_of E v = env_sha256_hex E (case v of PStr s \<Rightarrow> s | _ \<Rightarrow> json_dumps v)"

definition provider_execution_descriptor_digest :: "env \<Rightarrow> provider_descriptor \<Rightarrow> string" where
  "provider_execution_descriptor_digest E d =
    sha256_of E (PDict ((''schema'', PStr ''provider-execution-descriptor-v1'') # descriptor_dump d))"

section \<open>Execution bindings\<close>

definition binding_digest :: "env \<Rightarrow> string \<Rightarrow> string \<Rightarrow> string \<Rightarrow> string \<Rightarrow> string" where
  "binding_digest E provider_id identity configuration_ref descriptor_digest =
    sha256_of E (PDict [(''schema'', PStr ''provider-execution-binding-v1''),
      (''provider_id'', PStr provider_id), (''configured_execution_identity'', PStr identity),
      (''authoritative_configuration_ref'', PStr configuration_ref),
      (''descriptor_digest'', PStr descriptor_digest)])"

record provider_execution_binding =
  pb_id :: string
  pb_provider_id :: string
  pb_configured_execution_identity :: string
  pb_authoritative_configuration_ref :: string
  pb_descriptor_digest :: string
  pb_binding_digest :: string

text \<open>The minimum lengths of the fields, then the integrity validator.\<close>

definition validate_binding :: "env \<Rightarrow> provider_execution_binding \<Rightarrow> provider_execution_binding result" where
  "validate_binding E b =
    (let expected = binding_digest E (pb_provider_id b) (pb_configured_execution_identity b)
           (pb_authoritative_configuration_ref b) (pb_descriptor_digest b) in
     invalid_if (pb_id b = [] \<or> pb_provider_id b = [] \<or> pb_configured_execution_identity b = []
         \<or> pb_authoritative_configuration_ref b = [] \<or> pb_descriptor_digest b = [] \<or> pb_binding_digest b = [])
       ''String should have at least 1 character''
    (invalid_if (pb_binding_digest b \<noteq> expected) ''provider execution binding digest mismatch''
    (invalid_if (pb_id b \<noteq> ''provider_execution_binding_'' @ expected) ''provider execution binding identity mismatch''
    (invalid_if (pb_configured_execution_identity b = pb_provider_id b)
       ''configured execution identity must be stronger than provider id''
    (Inr b)))))"

definition build_provider_execution_binding ::
    "env \<Rightarrow> provider_descriptor \<Rightarrow> string \<Rightarrow> string \<Rightarrow> provider_execution_binding result" where
  "build_provider_execution_binding E d configured_execution_identity authoritative_configuration_ref =
    (let identity = py_strip configured_execution_identity;
         configuration_ref = py_strip authoritative_configuration_ref in
     raise_if (identity = [] \<or> configuration_ref = [])
       ''provider execution binding requires configured identity and configuration ref''
    (raise_if (identity = de_id d) ''configured execution identity must be stronger than provider id''
    (let dd = provider_execution_descriptor_digest E d;
         digest = binding_digest E (de_id d) identity configuration_ref dd in
     validate_binding E \<lparr>pb_id = ''provider_execution_binding_'' @ digest, pb_provider_id = de_id d,
       pb_configured_execution_identity = identity, pb_authoritative_configuration_ref = configuration_ref,
       pb_descriptor_digest = dd, pb_binding_digest = digest\<rparr>)))"

text \<open>The dispatch event as the decoders read it: its type, subject and payload.\<close>

record dispatch_event =
  dv_type :: string
  dv_subject_ref :: string
  dv_payload :: pyval

definition payload_dict :: "dispatch_event \<Rightarrow> pydict" where
  "payload_dict e = (case pv_dict (dv_payload e) of None \<Rightarrow> [] | Some d \<Rightarrow> d)"

text \<open>\<open>model_validate\<close> with \<open>extra="forbid"\<close> on a dictionary of string fields.\<close>

definition str_fields :: "string list \<Rightarrow> pydict \<Rightarrow> string list result" where
  "str_fields ks d =
    invalid_if (\<exists>p \<in> set d. fst p \<notin> set ks) ''Extra inputs are not permitted''
      (traverse (\<lambda>k. case map_of d k of Some (PStr s) \<Rightarrow> Inr s
         | _ \<Rightarrow> Inl (ValidationError ''Input should be a valid string'')) ks)"

definition binding_keys :: "string list" where
  "binding_keys = [''id'', ''provider_id'', ''configured_execution_identity'',
     ''authoritative_configuration_ref'', ''descriptor_digest'', ''binding_digest'']"

definition binding_dump :: "provider_execution_binding \<Rightarrow> pydict" where
  "binding_dump b = [(''id'', PStr (pb_id b)), (''provider_id'', PStr (pb_provider_id b)),
     (''configured_execution_identity'', PStr (pb_configured_execution_identity b)),
     (''authoritative_configuration_ref'', PStr (pb_authoritative_configuration_ref b)),
     (''descriptor_digest'', PStr (pb_descriptor_digest b)), (''binding_digest'', PStr (pb_binding_digest b))]"

definition binding_model_validate :: "env \<Rightarrow> pydict \<Rightarrow> provider_execution_binding result" where
  "binding_model_validate E d = bindR (str_fields binding_keys d) (\<lambda>vs. case vs of
     [i, p, c, a, dd, bd] \<Rightarrow> validate_binding E \<lparr>pb_id = i, pb_provider_id = p,
        pb_configured_execution_identity = c, pb_authoritative_configuration_ref = a,
        pb_descriptor_digest = dd, pb_binding_digest = bd\<rparr>
   | _ \<Rightarrow> Inl (ValidationError ''Field required''))"

definition provider_execution_binding_from_dispatch :: "env \<Rightarrow> dispatch_event \<Rightarrow> provider_execution_binding result" where
  "provider_execution_binding_from_dispatch E e =
    raise_if (dv_type e \<noteq> ''InvocationDispatchCommitted'')
      ''provider execution binding requires InvocationDispatchCommitted''
    (case (pd_get (payload_dict e) ''provider_execution_binding'', pd_get (payload_dict e) ''provider_execution_binding_ref'') of
       (PDict raw, PStr ref) \<Rightarrow>
         raise_if (ref = []) ''legacy dispatch has no original provider execution binding; backfill unsupported''
        (bindR (binding_model_validate E raw) (\<lambda>b.
         raise_if (pb_id b \<noteq> ref) ''dispatch provider execution binding ref mismatch''
        (raise_if (PStr (pb_provider_id b) \<noteq> pd_get (payload_dict e) ''provider_id'')
           ''dispatch provider execution binding provider mismatch''
        (Inr b))))
     | _ \<Rightarrow> Inl (ValueError ''legacy dispatch has no original provider execution binding; backfill unsupported''))"

definition reject_historical_execution_binding_backfill :: "unit result" where
  "reject_historical_execution_binding_backfill =
    Inl (ValueError ''historical provider execution binding backfill from current state is unsupported'')"

record historical_target_resolution =
  hr_status :: string
  hr_allowed :: bool
  hr_retargeted :: bool
  hr_reason :: string

definition resolve_historical_reconciliation_target ::
    "provider_execution_binding \<Rightarrow> provider_execution_binding option \<Rightarrow> historical_target_resolution" where
  "resolve_historical_reconciliation_target historical current = (case current of
     None \<Rightarrow> \<lparr>hr_status = ''unavailable'', hr_allowed = False, hr_retargeted = False,
       hr_reason = ''exact historical configured provider is unavailable''\<rparr>
   | Some c \<Rightarrow> if c \<noteq> historical
       then \<lparr>hr_status = ''mismatch'', hr_allowed = False, hr_retargeted = False,
         hr_reason = ''current configured provider does not match historical execution binding''\<rparr>
       else \<lparr>hr_status = ''resolved'', hr_allowed = True, hr_retargeted = False, hr_reason = []\<rparr>)"

definition classify_historical_target_capture :: "bool \<Rightarrow> string option \<Rightarrow> string \<times> bool" where
  "classify_historical_target_capture reality_exit_may_have_occurred durable_ref =
    (let has_ref = (durable_ref \<noteq> None \<and> durable_ref \<noteq> Some []) in
     if reality_exit_may_have_occurred \<and> \<not> has_ref then (''unknowable'', False)
     else (if has_ref then ''known'' else ''not-yet-exited'', has_ref))"

section \<open>Reconciliation repeatability\<close>

datatype repeatability_mode = Repeat_Safe | Non_Repeat_Safe | Unknown_Mode

fun mode_str :: "repeatability_mode \<Rightarrow> string" where
  "mode_str Repeat_Safe = ''repeat-safe''"
| "mode_str Non_Repeat_Safe = ''non-repeat-safe''"
| "mode_str Unknown_Mode = ''unknown''"

text \<open>The subject model is the literal \<open>"request-id"\<close> in every one of these models.\<close>

definition subject_model :: string where
  "subject_model = ''request-id''"

record repeatability_configuration =
  rg_protocol_identity :: string
  rg_protocol_version :: string
  rg_mode :: repeatability_mode
  rg_contract_version :: string

record repeatability_contract =
  rk_id :: string
  rk_binding_ref :: string
  rk_protocol_identity :: string
  rk_protocol_version :: string
  rk_mode :: repeatability_mode
  rk_contract_version :: string
  rk_contract_digest :: string

record repeatability_authority =
  rt_id :: string
  rt_contract_ref :: string
  rt_binding_ref :: string
  rt_subject_identity :: string
  rt_protocol_identity :: string
  rt_protocol_version :: string
  rt_contract_version :: string
  rt_contract_digest :: string
  rt_authority_digest :: string

definition contract_digest ::
    "env \<Rightarrow> string \<Rightarrow> string \<Rightarrow> string \<Rightarrow> repeatability_mode \<Rightarrow> string \<Rightarrow> string" where
  "contract_digest E binding_ref identity version mode contract_version =
    sha256_of E (PDict [(''schema'', PStr ''reconciliation-repeatability-contract-v1''),
      (''provider_execution_binding_ref'', PStr binding_ref), (''subject_model'', PStr subject_model),
      (''reconciliation_protocol_identity'', PStr identity),
      (''reconciliation_protocol_version'', PStr version), (''repeatability_mode'', PStr (mode_str mode)),
      (''contract_version'', PStr contract_version)])"

definition authority_digest ::
    "env \<Rightarrow> string \<Rightarrow> string \<Rightarrow> string \<Rightarrow> string \<Rightarrow> string \<Rightarrow> string \<Rightarrow> string \<Rightarrow> string" where
  "authority_digest E contract_ref binding_ref subject identity version contract_version cdigest =
    sha256_of E (PDict [(''schema'', PStr ''reconciliation-repeatability-authority-v1''),
      (''contract_ref'', PStr contract_ref), (''provider_execution_binding_ref'', PStr binding_ref),
      (''subject_model'', PStr subject_model), (''subject_identity'', PStr subject),
      (''reconciliation_protocol_identity'', PStr identity),
      (''reconciliation_protocol_version'', PStr version), (''repeatability_mode'', PStr ''repeat-safe''),
      (''contract_version'', PStr contract_version), (''contract_digest'', PStr cdigest)])"

definition validate_contract :: "env \<Rightarrow> repeatability_contract \<Rightarrow> repeatability_contract result" where
  "validate_contract E k =
    (let expected = contract_digest E (rk_binding_ref k) (rk_protocol_identity k) (rk_protocol_version k)
           (rk_mode k) (rk_contract_version k) in
     invalid_if (rk_id k = [] \<or> rk_binding_ref k = [] \<or> rk_protocol_identity k = [] \<or> rk_protocol_version k = []
         \<or> rk_contract_version k = [] \<or> rk_contract_digest k = [])
       ''String should have at least 1 character''
    (invalid_if (rk_contract_digest k \<noteq> expected) ''reconciliation repeatability contract digest mismatch''
    (invalid_if (rk_id k \<noteq> ''reconciliation_repeatability_contract_'' @ expected)
       ''reconciliation repeatability contract identity mismatch''
    (Inr k))))"

definition validate_authority :: "env \<Rightarrow> repeatability_authority \<Rightarrow> repeatability_authority result" where
  "validate_authority E t =
    (let expected = authority_digest E (rt_contract_ref t) (rt_binding_ref t) (rt_subject_identity t)
           (rt_protocol_identity t) (rt_protocol_version t) (rt_contract_version t) (rt_contract_digest t) in
     invalid_if (rt_id t = [] \<or> rt_contract_ref t = [] \<or> rt_binding_ref t = [] \<or> rt_subject_identity t = []
         \<or> rt_protocol_identity t = [] \<or> rt_protocol_version t = [] \<or> rt_contract_version t = []
         \<or> rt_contract_digest t = [] \<or> rt_authority_digest t = [])
       ''String should have at least 1 character''
    (invalid_if (rt_authority_digest t \<noteq> expected) ''reconciliation repeatability authority digest mismatch''
    (invalid_if (rt_id t \<noteq> ''reconciliation_repeatability_authority_'' @ expected)
       ''reconciliation repeatability authority identity mismatch''
    (Inr t))))"

definition build_repeatability_contract ::
    "env \<Rightarrow> provider_execution_binding \<Rightarrow> repeatability_configuration \<Rightarrow> repeatability_contract result" where
  "build_repeatability_contract E b g =
    (let digest = contract_digest E (pb_id b) (rg_protocol_identity g) (rg_protocol_version g)
           (rg_mode g) (rg_contract_version g) in
     validate_contract E \<lparr>rk_id = ''reconciliation_repeatability_contract_'' @ digest,
       rk_binding_ref = pb_id b, rk_protocol_identity = rg_protocol_identity g,
       rk_protocol_version = rg_protocol_version g, rk_mode = rg_mode g,
       rk_contract_version = rg_contract_version g, rk_contract_digest = digest\<rparr>)"

definition build_repeatability_authority ::
    "env \<Rightarrow> repeatability_contract \<Rightarrow> string \<Rightarrow> repeatability_authority result" where
  "build_repeatability_authority E k subject_identity =
    (let subject = py_strip subject_identity in
     raise_if (subject = []) ''reconciliation repeatability authority requires exact subject identity''
    (raise_if (rk_mode k \<noteq> Repeat_Safe) ''only an explicit repeat-safe contract can establish positive authority''
    (let digest = authority_digest E (rk_id k) (rk_binding_ref k) subject (rk_protocol_identity k)
           (rk_protocol_version k) (rk_contract_version k) (rk_contract_digest k) in
     validate_authority E \<lparr>rt_id = ''reconciliation_repeatability_authority_'' @ digest,
       rt_contract_ref = rk_id k, rt_binding_ref = rk_binding_ref k, rt_subject_identity = subject,
       rt_protocol_identity = rk_protocol_identity k, rt_protocol_version = rk_protocol_version k,
       rt_contract_version = rk_contract_version k, rt_contract_digest = rk_contract_digest k,
       rt_authority_digest = digest\<rparr>)))"

definition authority_keys :: "string list" where
  "authority_keys = [''id'', ''contract_ref'', ''provider_execution_binding_ref'', ''subject_model'',
     ''subject_identity'', ''reconciliation_protocol_identity'', ''reconciliation_protocol_version'',
     ''repeatability_mode'', ''contract_version'', ''contract_digest'', ''authority_digest'']"

definition authority_dump :: "repeatability_authority \<Rightarrow> pydict" where
  "authority_dump t = [(''id'', PStr (rt_id t)), (''contract_ref'', PStr (rt_contract_ref t)),
     (''provider_execution_binding_ref'', PStr (rt_binding_ref t)), (''subject_model'', PStr subject_model),
     (''subject_identity'', PStr (rt_subject_identity t)),
     (''reconciliation_protocol_identity'', PStr (rt_protocol_identity t)),
     (''reconciliation_protocol_version'', PStr (rt_protocol_version t)),
     (''repeatability_mode'', PStr ''repeat-safe''), (''contract_version'', PStr (rt_contract_version t)),
     (''contract_digest'', PStr (rt_contract_digest t)), (''authority_digest'', PStr (rt_authority_digest t))]"

text \<open>The two fields with a default may be missing; they admit one literal each.\<close>

definition authority_model_validate :: "env \<Rightarrow> pydict \<Rightarrow> repeatability_authority result" where
  "authority_model_validate E d =
    (let with_default = (\<lambda>k v m. case map_of m k of None \<Rightarrow> (k, v) # m | Some _ \<Rightarrow> m);
         full = with_default ''subject_model'' (PStr subject_model)
                  (with_default ''repeatability_mode'' (PStr ''repeat-safe'') d) in
     bindR (str_fields authority_keys full) (\<lambda>vs. case vs of
       [i, c, b, sm, s, p, v, md, cv, cd, ad] \<Rightarrow>
         invalid_if (sm \<noteq> subject_model) ''Input should be request-id''
        (invalid_if (md \<noteq> ''repeat-safe'') ''Input should be repeat-safe''
        (validate_authority E \<lparr>rt_id = i, rt_contract_ref = c, rt_binding_ref = b, rt_subject_identity = s,
            rt_protocol_identity = p, rt_protocol_version = v, rt_contract_version = cv,
            rt_contract_digest = cd, rt_authority_digest = ad\<rparr>))
     | _ \<Rightarrow> Inl (ValidationError ''Field required'')))"

definition repeatability_authority_from_dispatch :: "env \<Rightarrow> dispatch_event \<Rightarrow> repeatability_authority result" where
  "repeatability_authority_from_dispatch E e =
    raise_if (dv_type e \<noteq> ''InvocationDispatchCommitted'')
      ''reconciliation repeatability authority requires InvocationDispatchCommitted''
    (case (pd_get (payload_dict e) ''reconciliation_repeatability_authority'',
           pd_get (payload_dict e) ''reconciliation_repeatability_authority_ref'') of
       (PDict raw, PStr ref) \<Rightarrow>
         raise_if (ref = [])
           ''historical dispatch has no original reconciliation repeatability authority; backfill unsupported''
        (bindR (authority_model_validate E raw) (\<lambda>t.
         raise_if (rt_id t \<noteq> ref) ''dispatch reconciliation repeatability authority ref mismatch''
        (bindR (provider_execution_binding_from_dispatch E e) (\<lambda>b.
         raise_if (rt_binding_ref t \<noteq> pb_id b)
           ''reconciliation repeatability authority does not match historical execution binding''
        (case pd_get (payload_dict e) ''request_id'' of
           PStr rid \<Rightarrow>
             raise_if (rid = []) ''dispatch reconciliation repeatability subject is unavailable''
            (raise_if (rt_subject_identity t \<noteq> rid \<or> dv_subject_ref e \<noteq> rid)
               ''reconciliation repeatability authority subject mismatch''
            (Inr t))
         | _ \<Rightarrow> Inl (ValueError ''dispatch reconciliation repeatability subject is unavailable''))))))
     | _ \<Rightarrow> Inl (ValueError
         ''historical dispatch has no original reconciliation repeatability authority; backfill unsupported''))"

record eligibility =
  el_eligible :: bool
  el_reason :: string

definition ineligible :: "string \<Rightarrow> eligibility" where
  "ineligible r = \<lparr>el_eligible = False, el_reason = r\<rparr>"

fun error_text :: "py_error \<Rightarrow> string" where
  "error_text (ValueError m) = m"
| "error_text (ValidationError m) = m"
| "error_text (TypeError m) = m"
| "error_text (KeyError m) = m"
| "error_text (ForeignError m) = m"

definition evaluate_repeatability ::
    "env \<Rightarrow> repeatability_authority option \<Rightarrow> provider_execution_binding option
      \<Rightarrow> repeatability_contract option \<Rightarrow> string \<Rightarrow> eligibility" where
  "evaluate_repeatability E historical_authority historical_binding current_contract required_subject =
    (case historical_authority of
       None \<Rightarrow> ineligible ''historical repeatability authority is absent''
     | Some h \<Rightarrow> (case historical_binding of
       None \<Rightarrow> ineligible ''historical configured-provider execution binding is absent''
     | Some b \<Rightarrow>
       if rt_binding_ref h \<noteq> pb_id b
       then ineligible ''repeatability authority does not bind the exact historical provider execution identity''
       else if rt_subject_identity h \<noteq> required_subject
       then ineligible ''repeatability authority does not bind the exact reconciliation subject''
       else (case current_contract of
         None \<Rightarrow> ineligible ''current configured repeatability contract is absent or not repeat-safe''
       | Some k \<Rightarrow>
         if rk_binding_ref k \<noteq> pb_id b
         then ineligible ''current repeatability contract targets a different provider execution binding''
         else if rk_mode k \<noteq> Repeat_Safe
         then ineligible ''current configured reconciliation semantics are not repeat-safe''
         else (case build_repeatability_authority E k required_subject of
           Inl err \<Rightarrow> ineligible (error_text err)
         | Inr current \<Rightarrow>
           if current \<noteq> h
           then ineligible ''reconciliation protocol or repeatability contract drifted from historical authority''
           else \<lparr>el_eligible = True, el_reason =
             ''exact historical repeat-safe reconciliation query authority matches current configured contract''\<rparr>))))"

end
