(* ===== verification/Provider_Registry.thy ===== *)
theory Provider_Registry
  imports Execution_Binding Reliability
begin

text \<open>
  \<open>core/registry.py\<close>: the configured providers of a runtime, the exact execution binding of every
  live registration, its repeatability contract, and the resolution of historical bindings.

  A provider object is its address.  Its descriptor is an attribute that may change while it is
  registered, so the current descriptors are an argument \<open>D\<close> of every operation that reads one.
  The registry's lock serialises its operations, which are therefore single steps.
\<close>

type_synonym object_ref = nat

record registry =
  rg_providers :: "(string \<times> object_ref) list"
  rg_enabled :: "(string \<times> bool) list"
  rg_bindings :: "(string \<times> provider_execution_binding) list"
  rg_contracts :: "(string \<times> repeatability_contract) list"
  rg_circuits :: "(string \<times> circuit_breaker) list"
  rg_lookup :: "(string \<times> object_ref) option"
  rg_uuids :: nat

text \<open>
  \<open>rg_circuits\<close> is the boundary's \<open>_CIRCUITS\<close>, \<open>rg_lookup\<close> the context variable
  \<open>_execution_lookup\<close> of the running task, \<open>rg_uuids\<close> the number of \<open>uuid4\<close> readings made.
\<close>

definition empty_registry :: registry where
  "empty_registry = \<lparr>rg_providers = [], rg_enabled = [], rg_bindings = [], rg_contracts = [],
     rg_circuits = [], rg_lookup = None, rg_uuids = 0\<rparr>"

type_synonym descriptors = "object_ref \<Rightarrow> provider_descriptor"

definition has_provider :: "registry \<Rightarrow> string \<Rightarrow> bool" where
  "has_provider s pid \<longleftrightarrow> map_of (rg_providers s) pid \<noteq> None"

definition require_provider :: "string \<Rightarrow> registry \<Rightarrow> unit result" where
  "require_provider pid s = (if has_provider s pid then Inr () else Inl (KeyError (''unknown provider: '' @ pid)))"

text \<open>\<open>_descriptor\<close>: the provider's descriptor with the registry's own enabled flag.\<close>

definition registry_descriptor :: "descriptors \<Rightarrow> registry \<Rightarrow> string \<Rightarrow> provider_descriptor result" where
  "registry_descriptor D s pid = (case map_of (rg_providers s) pid of
     None \<Rightarrow> Inl (KeyError pid)
   | Some obj \<Rightarrow> Inr ((D obj)\<lparr>de_enabled := (case map_of (rg_enabled s) pid of None \<Rightarrow> False | Some b \<Rightarrow> b)\<rparr>))"

definition configured_identity ::
    "env \<Rightarrow> string \<Rightarrow> string option \<Rightarrow> string option \<Rightarrow> (registry, string \<times> string) io" where
  "configured_identity E pid identity configuration_ref s = (case (identity, configuration_ref) of
     (Some i, Some c) \<Rightarrow> (Inr (i, c), s)
   | (None, None) \<Rightarrow>
       (let u = env_uuid_hex E (rg_uuids s) in
        (Inr (''provider-registration:'' @ pid @ '':'' @ u, ''runtime-registration:'' @ u),
         s\<lparr>rg_uuids := rg_uuids s + 1\<rparr>))
   | _ \<Rightarrow> (Inl (ValueError
       ''stable configured-provider registration requires both execution identity and configuration ref''), s))"

text \<open>The writes of a registration whose binding and contract have been built.\<close>

definition commit_registration ::
    "descriptors \<Rightarrow> object_ref \<Rightarrow> provider_execution_binding \<Rightarrow> repeatability_contract option
      \<Rightarrow> (registry, provider_descriptor) io" where
  "commit_registration D obj b contract s =
    (let pid = de_id (D obj);
         t = s\<lparr>rg_circuits := dict_del pid (rg_circuits s),
               rg_providers := dict_set pid obj (rg_providers s),
               rg_enabled := dict_set pid (de_enabled (D obj)) (rg_enabled s),
               rg_bindings := dict_set pid b (rg_bindings s),
               rg_contracts := (case contract of None \<Rightarrow> rg_contracts s
                 | Some k \<Rightarrow> dict_set pid k (rg_contracts s))\<rparr>
     in (registry_descriptor D t pid, t))"

definition build_optional_contract ::
    "env \<Rightarrow> provider_execution_binding \<Rightarrow> repeatability_configuration option \<Rightarrow> repeatability_contract option result" where
  "build_optional_contract E b configuration = (case configuration of None \<Rightarrow> Inr None
     | Some g \<Rightarrow> bindR (build_repeatability_contract E b g) (\<lambda>k. Inr (Some k)))"

definition register_provider ::
    "env \<Rightarrow> descriptors \<Rightarrow> object_ref \<Rightarrow> string option \<Rightarrow> string option \<Rightarrow> repeatability_configuration option
      \<Rightarrow> (registry, provider_descriptor) io" where
  "register_provider E D obj identity configuration_ref repeatability =
    withI (\<lambda>s. raise_ifI (has_provider s (de_id (D obj))) (''provider already registered: '' @ de_id (D obj))
      (bindI (configured_identity E (de_id (D obj)) identity configuration_ref) (\<lambda>(i, c).
       bindI (readI (\<lambda>_. build_provider_execution_binding E (D obj) i c)) (\<lambda>b.
       bindI (readI (\<lambda>_. build_optional_contract E b repeatability)) (\<lambda>contract.
       commit_registration D obj b contract)))))"

definition unregister_provider :: "string \<Rightarrow> registry \<Rightarrow> registry" where
  "unregister_provider pid s = s\<lparr>rg_providers := dict_del pid (rg_providers s),
     rg_enabled := dict_del pid (rg_enabled s), rg_bindings := dict_del pid (rg_bindings s),
     rg_contracts := dict_del pid (rg_contracts s)\<rparr>"

definition set_enabled :: "descriptors \<Rightarrow> bool \<Rightarrow> string \<Rightarrow> (registry, provider_descriptor) io" where
  "set_enabled D flag pid = bindI (readI (require_provider pid)) (\<lambda>_.
     (\<lambda>s. let t = s\<lparr>rg_enabled := dict_set pid flag (rg_enabled s)\<rparr> in (registry_descriptor D t pid, t)))"

definition enable_provider :: "descriptors \<Rightarrow> string \<Rightarrow> (registry, provider_descriptor) io" where
  "enable_provider D = set_enabled D True"

definition disable_provider :: "descriptors \<Rightarrow> string \<Rightarrow> (registry, provider_descriptor) io" where
  "disable_provider D = set_enabled D False"

definition reload_provider :: "descriptors \<Rightarrow> string \<Rightarrow> registry \<Rightarrow> provider_descriptor result" where
  "reload_provider D pid s = bindR (require_provider pid s) (\<lambda>_. registry_descriptor D s pid)"

definition get_provider :: "string \<Rightarrow> (registry, object_ref) io" where
  "get_provider pid s = (case map_of (rg_providers s) pid of
     None \<Rightarrow> (Inl (KeyError pid), s)
   | Some obj \<Rightarrow> (Inr obj, s\<lparr>rg_lookup := Some (pid, obj)\<rparr>))"

definition consume_execution_target_lookup :: "string \<Rightarrow> registry \<Rightarrow> object_ref option \<times> registry" where
  "consume_execution_target_lookup pid s =
    ((case rg_lookup s of Some (q, obj) \<Rightarrow> if q = pid then Some obj else None | None \<Rightarrow> None),
     s\<lparr>rg_lookup := None\<rparr>)"

definition capture_execution_target ::
    "env \<Rightarrow> descriptors \<Rightarrow> string \<Rightarrow> object_ref option \<Rightarrow> registry
      \<Rightarrow> (object_ref \<times> provider_execution_binding) result" where
  "capture_execution_target E D pid expected s =
    bindR (require_provider pid s) (\<lambda>_.
    (case map_of (rg_providers s) pid of
       None \<Rightarrow> Inl (KeyError pid)
     | Some obj \<Rightarrow>
       raise_if (case expected of None \<Rightarrow> False | Some x \<Rightarrow> obj \<noteq> x)
         (''configured provider changed before dispatch: '' @ pid)
      (case map_of (rg_bindings s) pid of
         None \<Rightarrow> Inl (KeyError pid)
       | Some b \<Rightarrow>
         raise_if (pb_descriptor_digest b \<noteq> provider_execution_descriptor_digest E (D obj))
           (''configured provider descriptor drift for '' @ py_repr pid @ ''; re-register provider explicitly'')
        (raise_if (pb_provider_id b \<noteq> pid) ''provider execution binding/provider id mismatch''
        (Inr (obj, b))))))"

definition capture_reconciliation_execution_target ::
    "env \<Rightarrow> descriptors \<Rightarrow> string \<Rightarrow> string \<Rightarrow> object_ref option \<Rightarrow> registry
      \<Rightarrow> (object_ref \<times> provider_execution_binding \<times> repeatability_authority option) result" where
  "capture_reconciliation_execution_target E D pid subject expected s =
    bindR (capture_execution_target E D pid expected s) (\<lambda>(obj, b).
    (case map_of (rg_contracts s) pid of
       None \<Rightarrow> Inr (obj, b, None)
     | Some k \<Rightarrow>
       if rk_mode k \<noteq> Repeat_Safe then Inr (obj, b, None)
       else raise_if (rk_binding_ref k \<noteq> pb_id b)
          ''configured reconciliation repeatability contract does not match execution binding''
         (bindR (build_repeatability_authority E k subject) (\<lambda>t. Inr (obj, b, Some t)))))"

definition execution_binding ::
    "env \<Rightarrow> descriptors \<Rightarrow> string \<Rightarrow> object_ref option \<Rightarrow> registry \<Rightarrow> provider_execution_binding result" where
  "execution_binding E D pid expected s = bindR (capture_execution_target E D pid expected s) (\<lambda>(_, b). Inr b)"

definition reconciliation_repeatability_contract ::
    "env \<Rightarrow> descriptors \<Rightarrow> string \<Rightarrow> object_ref option \<Rightarrow> registry \<Rightarrow> repeatability_contract option result" where
  "reconciliation_repeatability_contract E D pid expected s =
    bindR (capture_execution_target E D pid expected s) (\<lambda>(_, b).
    (case map_of (rg_contracts s) pid of
       None \<Rightarrow> Inr None
     | Some k \<Rightarrow> raise_if (rk_binding_ref k \<noteq> pb_id b)
          ''configured reconciliation repeatability contract drifted from execution binding'' (Inr (Some k))))"

definition resolve_execution_binding ::
    "env \<Rightarrow> descriptors \<Rightarrow> provider_execution_binding \<Rightarrow> registry \<Rightarrow> object_ref option" where
  "resolve_execution_binding E D historical s =
    (if \<not> has_provider s (pb_provider_id historical) then None
     else (case capture_execution_target E D (pb_provider_id historical) None s of
       Inl _ \<Rightarrow> None
     | Inr (obj, current) \<Rightarrow> if current \<noteq> historical then None else Some obj))"

definition repeatability_eligibility ::
    "env \<Rightarrow> descriptors \<Rightarrow> repeatability_authority option \<Rightarrow> provider_execution_binding option \<Rightarrow> string
      \<Rightarrow> registry \<Rightarrow> eligibility" where
  "repeatability_eligibility E D authority binding subject s = (case binding of
     None \<Rightarrow> evaluate_repeatability E authority None None subject
   | Some b \<Rightarrow> (case resolve_execution_binding E D b s of
       None \<Rightarrow> ineligible ''exact historical configured-provider execution target is unavailable''
     | Some _ \<Rightarrow> evaluate_repeatability E authority (Some b) (map_of (rg_contracts s) (pb_provider_id b)) subject))"

text \<open>Listings, sorted by provider id.\<close>

definition list_descriptors :: "descriptors \<Rightarrow> registry \<Rightarrow> provider_descriptor list result" where
  "list_descriptors D s = traverse (registry_descriptor D s) (sort_key (\<lambda>k. k) (map fst (rg_providers s)))"

definition providers_for :: "descriptors \<Rightarrow> string \<Rightarrow> registry \<Rightarrow> provider_descriptor list result" where
  "providers_for D capability s = bindR (list_descriptors D s)
    (\<lambda>ds. Inr (filter (\<lambda>d. de_enabled d \<and> capability \<in> set (de_capabilities d)) ds))"

definition descriptors_for :: "descriptors \<Rightarrow> string \<Rightarrow> string list \<Rightarrow> registry \<Rightarrow> provider_descriptor list result" where
  "descriptors_for D capability excluded s = bindR (providers_for D capability s)
    (\<lambda>ds. Inr (filter (\<lambda>d. de_id d \<notin> set excluded) ds))"

text \<open>\<open>health\<close>: what the provider answers, or the text of the exception it raises, is an argument.\<close>

record provider_health =
  ph_provider_id :: string
  ph_available :: bool
  ph_detail :: string
  ph_metadata :: pydict

definition registry_health ::
    "(object_ref \<Rightarrow> string + provider_health) \<Rightarrow> string \<Rightarrow> registry \<Rightarrow> provider_health result" where
  "registry_health answer pid s = (case map_of (rg_providers s) pid of
     None \<Rightarrow> Inl (KeyError pid)
   | Some obj \<Rightarrow> (case answer obj of
       Inl text \<Rightarrow> Inr \<lparr>ph_provider_id = pid, ph_available = False, ph_detail = text, ph_metadata = []\<rparr>
     | Inr h \<Rightarrow>
       if (case map_of (rg_enabled s) pid of None \<Rightarrow> False | Some b \<Rightarrow> b) then Inr h
       else Inr (h\<lparr>ph_available := False, ph_detail := ''disabled''\<rparr>)))"

end
