(* ===== verification/Registry_Properties.thy ===== *)
theory Registry_Properties
  imports Provider_Registry
begin

text \<open>
  What the provider registry promises: bindings are self-validating and are read back from a
  dispatch event as they were written; in every history the registry is consistent; a historical
  binding never resolves to another registration; and a reconciliation may be repeated exactly
  when a new dispatch would capture the same authority.
\<close>

section \<open>Bindings and authorities\<close>

definition valid_binding :: "env \<Rightarrow> provider_execution_binding \<Rightarrow> bool" where
  "valid_binding E b \<longleftrightarrow> validate_binding E b = Inr b"

lemma validate_binding_Inr:
  "validate_binding E b = Inr c \<longleftrightarrow> c = b
    \<and> (pb_id b \<noteq> [] \<and> pb_provider_id b \<noteq> [] \<and> pb_configured_execution_identity b \<noteq> []
       \<and> pb_authoritative_configuration_ref b \<noteq> [] \<and> pb_descriptor_digest b \<noteq> [] \<and> pb_binding_digest b \<noteq> [])
    \<and> pb_binding_digest b = binding_digest E (pb_provider_id b) (pb_configured_execution_identity b)
           (pb_authoritative_configuration_ref b) (pb_descriptor_digest b)
    \<and> pb_id b = ''provider_execution_binding_'' @ pb_binding_digest b
    \<and> pb_configured_execution_identity b \<noteq> pb_provider_id b"
  by (auto simp: validate_binding_def Let_def)

lemma build_binding_Inr:
  assumes "build_provider_execution_binding E d i c = Inr b"
  shows "valid_binding E b" "pb_provider_id b = de_id d" "pb_configured_execution_identity b = py_strip i"
    "pb_authoritative_configuration_ref b = py_strip c"
    "pb_descriptor_digest b = provider_execution_descriptor_digest E d"
  using assms by (auto simp: build_provider_execution_binding_def Let_def validate_binding_Inr valid_binding_def)

text \<open>A binding's identity determines its content.  If SHA-256 does not collide, two valid bindings
  with the same identity agree in every field: provider, configured identity, configuration and
  descriptor digest.\<close>

theorem binding_identity_determines_content:
  assumes "inj (env_sha256_hex E)"
    and "validate_binding E b = Inr b" "validate_binding E c = Inr c" "pb_id b = pb_id c"
  shows "b = c"
proof -
  let ?f = "\<lambda>b. \<lambda>k. if k = ''schema'' then ''provider-execution-binding-v1''
    else if k = ''provider_id'' then pb_provider_id b
    else if k = ''configured_execution_identity'' then pb_configured_execution_identity b
    else if k = ''authoritative_configuration_ref'' then pb_authoritative_configuration_ref b
    else pb_descriptor_digest b"
  let ?ks = "[''schema'', ''provider_id'', ''configured_execution_identity'',
      ''authoritative_configuration_ref'', ''descriptor_digest'']"
  have dg: "binding_digest E (pb_provider_id b) (pb_configured_execution_identity b)
      (pb_authoritative_configuration_ref b) (pb_descriptor_digest b)
      = env_sha256_hex E (json_dumps (PDict (map (\<lambda>k. (k, PStr (?f b k))) ?ks)))" for b
    unfolding binding_digest_def sha256_of_def by simp
  have dig: "pb_binding_digest b = pb_binding_digest c"
    using assms(2-4) unfolding validate_binding_Inr by (metis same_append_eq)
  then have "env_sha256_hex E (json_dumps (PDict (map (\<lambda>k. (k, PStr (?f b k))) ?ks)))
      = env_sha256_hex E (json_dumps (PDict (map (\<lambda>k. (k, PStr (?f c k))) ?ks)))"
    using assms(2,3) unfolding validate_binding_Inr dg by simp
  then have "json_dumps (PDict (map (\<lambda>k. (k, PStr (?f b k))) ?ks)) = json_dumps (PDict (map (\<lambda>k. (k, PStr (?f c k))) ?ks))"
    by (rule injD [OF assms(1)])
  from json_string_fields_inj [OF this]
  have "pb_provider_id b = pb_provider_id c" "pb_configured_execution_identity b = pb_configured_execution_identity c"
    "pb_authoritative_configuration_ref b = pb_authoritative_configuration_ref c"
    "pb_descriptor_digest b = pb_descriptor_digest c" by simp_all
  with dig assms(4) show ?thesis by simp
qed

lemma binding_dump_validates: "valid_binding E b \<Longrightarrow> binding_model_validate E (binding_dump b) = Inr b"
  by (cases b) (simp add: binding_model_validate_def str_fields_def binding_dump_def binding_keys_def valid_binding_def)

lemma validate_authority_Inr:
  "validate_authority E t = Inr u \<longleftrightarrow> u = t
    \<and> (rt_id t \<noteq> [] \<and> rt_contract_ref t \<noteq> [] \<and> rt_binding_ref t \<noteq> [] \<and> rt_subject_identity t \<noteq> []
       \<and> rt_protocol_identity t \<noteq> [] \<and> rt_protocol_version t \<noteq> [] \<and> rt_contract_version t \<noteq> []
       \<and> rt_contract_digest t \<noteq> [] \<and> rt_authority_digest t \<noteq> [])
    \<and> rt_authority_digest t = authority_digest E (rt_contract_ref t) (rt_binding_ref t) (rt_subject_identity t)
           (rt_protocol_identity t) (rt_protocol_version t) (rt_contract_version t) (rt_contract_digest t)
    \<and> rt_id t = ''reconciliation_repeatability_authority_'' @ rt_authority_digest t"
  by (auto simp: validate_authority_def Let_def)

lemma authority_dump_validates:
  "validate_authority E t = Inr t \<Longrightarrow> authority_model_validate E (authority_dump t) = Inr t"
  by (cases t) (simp add: authority_model_validate_def str_fields_def authority_dump_def authority_keys_def subject_model_def)

text \<open>The payload fields that the dispatch commit writes for a binding and an authority.\<close>

definition dispatch_fields :: "provider_execution_binding \<Rightarrow> repeatability_authority \<Rightarrow> pydict \<Rightarrow> bool" where
  "dispatch_fields b t d \<longleftrightarrow>
     pd_get d ''provider_id'' = PStr (pb_provider_id b)
     \<and> pd_get d ''provider_execution_binding'' = PDict (binding_dump b)
     \<and> pd_get d ''provider_execution_binding_ref'' = PStr (pb_id b)
     \<and> pd_get d ''reconciliation_repeatability_authority'' = PDict (authority_dump t)
     \<and> pd_get d ''reconciliation_repeatability_authority_ref'' = PStr (rt_id t)
     \<and> pd_get d ''request_id'' = PStr (rt_subject_identity t)"


section \<open>Histories of the registry\<close>

datatype registry_op =
    Register object_ref "string option" "string option" "repeatability_configuration option"
  | Unregister string
  | Enable string
  | Disable string
  | Get string
  | Consume string

fun registry_step :: "env \<Rightarrow> descriptors \<Rightarrow> registry_op \<Rightarrow> registry \<Rightarrow> registry" where
  "registry_step E D (Register obj i c g) s = snd (register_provider E D obj i c g s)"
| "registry_step E D (Unregister pid) s = unregister_provider pid s"
| "registry_step E D (Enable pid) s = snd (enable_provider D pid s)"
| "registry_step E D (Disable pid) s = snd (disable_provider D pid s)"
| "registry_step E D (Get pid) s = snd (get_provider pid s)"
| "registry_step E D (Consume pid) s = snd (consume_execution_target_lookup pid s)"

text \<open>Every operation sees the descriptors of its own moment.\<close>

definition registry_run :: "env \<Rightarrow> (descriptors \<times> registry_op) list \<Rightarrow> registry \<Rightarrow> registry" where
  "registry_run E ops s = fold (\<lambda>(D, op). registry_step E D op) ops s"

lemma registry_run_simps [simp]:
  "registry_run E [] s = s"
  "registry_run E ((D, op) # ops) s = registry_run E ops (registry_step E D op s)"
  by (simp_all add: registry_run_def)

definition incarnation_identity :: "env \<Rightarrow> string \<Rightarrow> nat \<Rightarrow> string" where
  "incarnation_identity E pid n = ''provider-registration:'' @ pid @ '':'' @ env_uuid_hex E n"

text \<open>A registration changes nothing, draws an identity, or commits the binding it built.\<close>

definition registration_of :: "env \<Rightarrow> descriptors \<Rightarrow> object_ref \<Rightarrow> string option \<Rightarrow> registry
    \<Rightarrow> provider_execution_binding \<Rightarrow> repeatability_contract option \<Rightarrow> registry \<Rightarrow> bool" where
  "registration_of E D obj i s b k t \<longleftrightarrow> \<not> has_provider s (de_id (D obj)) \<and> valid_binding E b
     \<and> pb_provider_id b = de_id (D obj)
     \<and> pb_descriptor_digest b = provider_execution_descriptor_digest E (D obj)
     \<and> (\<forall>k'. k = Some k' \<longrightarrow> rk_binding_ref k' = pb_id b)
     \<and> (case i of
          Some x \<Rightarrow> pb_configured_execution_identity b = py_strip x \<and> t = snd (commit_registration D obj b k s)
        | None \<Rightarrow> pb_configured_execution_identity b = py_strip (incarnation_identity E (de_id (D obj)) (rg_uuids s))
            \<and> t = snd (commit_registration D obj b k (s\<lparr>rg_uuids := rg_uuids s + 1\<rparr>)))"

lemma build_contract_ref:
  "build_optional_contract E b g = Inr (Some k) \<Longrightarrow> rk_binding_ref k = pb_id b"
  by (auto simp: build_optional_contract_def build_repeatability_contract_def validate_contract_def Let_def
      split: option.splits)

lemma register_cases:
  assumes "register_provider E D obj i c g s = (r, t)"
  shows "(\<exists>e. r = Inl e \<and> (t = s \<or> t = s\<lparr>rg_uuids := rg_uuids s + 1\<rparr>))
    \<or> (\<exists>b k. registration_of E D obj i s b k t)"
proof (cases "has_provider s (de_id (D obj))")
  case True
  then show ?thesis using assms by (auto simp: register_provider_def withI_def raise_ifI_def raiseI_def)
next
  case False
  show ?thesis
  proof (cases "configured_identity E (de_id (D obj)) i c s")
    case (Pair q u)
    show ?thesis
    proof (cases q)
      case (Inl e)
      then have "r = Inl e" "t = u"
        using assms False Pair by (simp_all add: register_provider_def withI_def raise_ifI_def bindI_def)
      moreover have "u = s"
        using Pair Inl by (auto simp: configured_identity_def Let_def split: option.splits)
      ultimately show ?thesis by simp
    next
      case (Inr ic)
      obtain x y where ic: "ic = (x, y)" by (cases ic)
      have u: "u = s \<or> u = s\<lparr>rg_uuids := rg_uuids s + 1\<rparr>"
        using Pair by (auto simp: configured_identity_def Let_def split: option.splits)
      show ?thesis
      proof (cases "\<exists>b k. build_provider_execution_binding E (D obj) x y = Inr b
            \<and> build_optional_contract E b g = Inr k")
        case False
        then have "\<exists>e. r = Inl e \<and> t = u"
          using assms \<open>\<not> has_provider s (de_id (D obj))\<close> Pair Inr ic
          by (auto simp: register_provider_def withI_def raise_ifI_def bindI_def readI_def split: sum.splits)
        then show ?thesis using u by blast
      next
        case True
        then obtain b k where bk: "build_provider_execution_binding E (D obj) x y = Inr b"
          "build_optional_contract E b g = Inr k" by blast
        have t: "t = snd (commit_registration D obj b k u)"
          using assms False Pair Inr ic bk
          by (simp add: register_provider_def withI_def raise_ifI_def bindI_def readI_def)
        have "case i of Some z \<Rightarrow> x = z \<and> u = s
            | None \<Rightarrow> x = incarnation_identity E (de_id (D obj)) (rg_uuids s) \<and> u = s\<lparr>rg_uuids := rg_uuids s + 1\<rparr>"
          using Pair Inr ic by (auto simp: configured_identity_def Let_def incarnation_identity_def split: option.splits)
        then have "registration_of E D obj i s b k t"
          unfolding registration_of_def using False t build_binding_Inr [OF bk(1)] build_contract_ref bk(2)
          by (auto split: option.splits)
        then show ?thesis by blast
      qed
    qed
  qed
qed

text \<open>What every reachable registry satisfies.\<close>

definition registry_ok :: "env \<Rightarrow> registry \<Rightarrow> bool" where
  "registry_ok E s \<longleftrightarrow>
     dom (map_of (rg_providers s)) = dom (map_of (rg_bindings s))
     \<and> dom (map_of (rg_enabled s)) = dom (map_of (rg_providers s))
     \<and> (\<forall>pid b. map_of (rg_bindings s) pid = Some b \<longrightarrow> pb_provider_id b = pid \<and> valid_binding E b)
     \<and> (\<forall>pid k. map_of (rg_contracts s) pid = Some k
          \<longrightarrow> (\<exists>b. map_of (rg_bindings s) pid = Some b \<and> rk_binding_ref k = pb_id b))"

lemma registry_ok_empty: "registry_ok E empty_registry"
  by (simp add: registry_ok_def empty_registry_def)

lemma registry_ok_uuids [simp]: "registry_ok E (s\<lparr>rg_uuids := n\<rparr>) = registry_ok E s"
  by (simp add: registry_ok_def)

lemma registry_ok_commit:
  assumes "registry_ok E s" "\<not> has_provider s (de_id (D obj))" "valid_binding E b" "pb_provider_id b = de_id (D obj)"
    and "\<forall>k'. k = Some k' \<longrightarrow> rk_binding_ref k' = pb_id b"
  shows "registry_ok E (snd (commit_registration D obj b k s))"
proof -
  have "map_of (rg_bindings s) (de_id (D obj)) = None"
    using assms(1,2) by (auto simp: registry_ok_def has_provider_def domIff)
  moreover from this have "map_of (rg_contracts s) (de_id (D obj)) = None"
    using assms(1) by (auto simp: registry_ok_def) (metis not_None_eq option.distinct(1))
  ultimately show ?thesis
    using assms by (auto simp: registry_ok_def commit_registration_def Let_def split: option.splits if_splits)
qed

lemma set_enabled_snd:
  "snd (set_enabled D flag pid s) =
    (if has_provider s pid then s\<lparr>rg_enabled := dict_set pid flag (rg_enabled s)\<rparr> else s)"
  by (simp add: set_enabled_def bindI_def readI_def require_provider_def Let_def)

lemma registry_ok_set_enabled: "registry_ok E s \<Longrightarrow> registry_ok E (snd (set_enabled D flag pid s))"
  by (auto simp: set_enabled_snd registry_ok_def has_provider_def)

lemma registry_ok_step:
  assumes "registry_ok E s"
  shows "registry_ok E (registry_step E D op s)"
proof (cases op)
  case (Register obj i c g)
  obtain r t where rt: "register_provider E D obj i c g s = (r, t)" by fastforce
  consider "t = s \<or> t = s\<lparr>rg_uuids := rg_uuids s + 1\<rparr>" | b k where "registration_of E D obj i s b k t"
    using register_cases [OF rt] by blast
  then have "registry_ok E t"
  proof cases
    case 1
    then show ?thesis using assms by auto
  next
    case (2 b k)
    have "has_provider (s\<lparr>rg_uuids := n\<rparr>) = has_provider s" for n by (simp add: has_provider_def fun_eq_iff)
    with 2 show ?thesis
      using registry_ok_commit [OF assms, of D obj b k]
        registry_ok_commit [of E "s\<lparr>rg_uuids := rg_uuids s + 1\<rparr>" D obj b k] assms
      by (auto simp: registration_of_def split: option.splits)
  qed
  then show ?thesis using Register rt by simp
next
  case (Unregister pid)
  then show ?thesis using assms by (auto simp: registry_ok_def unregister_provider_def split: if_splits)
next
  case (Enable pid)
  then show ?thesis using assms by (simp add: enable_provider_def registry_ok_set_enabled)
next
  case (Disable pid)
  then show ?thesis using assms by (simp add: disable_provider_def registry_ok_set_enabled)
next
  case (Get pid)
  then show ?thesis using assms by (auto simp: get_provider_def registry_ok_def split: option.split)
next
  case (Consume pid)
  then show ?thesis using assms by (simp add: consume_execution_target_lookup_def registry_ok_def)
qed

lemma registry_ok_run: "registry_ok E s \<Longrightarrow> registry_ok E (registry_run E ops s)"
  by (induction ops arbitrary: s) (auto simp: registry_ok_step)

text \<open>The registry stays consistent.  After any history of registrations, removals, switches and
  lookups, exactly the registered providers have an enabled flag and a binding; every binding is
  filed under its own provider and passes its integrity validator; and every repeatability
  contract is for the binding its provider has now.\<close>

theorem registry_consistent:
  assumes "s = registry_run E ops empty_registry"
  shows "(map_of (rg_bindings s) pid \<noteq> None \<longleftrightarrow> has_provider s pid)
    \<and> (map_of (rg_enabled s) pid \<noteq> None \<longleftrightarrow> has_provider s pid)
    \<and> (\<forall>b. map_of (rg_bindings s) pid = Some b \<longrightarrow> pb_provider_id b = pid \<and> validate_binding E b = Inr b)
    \<and> (\<forall>k. map_of (rg_contracts s) pid = Some k
        \<longrightarrow> (\<exists>b. map_of (rg_bindings s) pid = Some b \<and> rk_binding_ref k = pb_id b))"
proof -
  have ok: "registry_ok E s"
    unfolding assms by (rule registry_ok_run [OF registry_ok_empty])
  then have "pid \<in> dom (map_of (rg_bindings s)) \<longleftrightarrow> pid \<in> dom (map_of (rg_providers s))"
    "pid \<in> dom (map_of (rg_enabled s)) \<longleftrightarrow> pid \<in> dom (map_of (rg_providers s))"
    by (simp_all only: registry_ok_def)
  then show ?thesis
    using ok by (simp add: registry_ok_def valid_binding_def has_provider_def domIff)
qed

section \<open>Historical bindings are never retargeted\<close>

lemma py_strip_id:
  assumes "x \<noteq> []" "\<not> py_isspace (hd x)" "\<not> py_isspace (last x)"
  shows "py_strip x = x"
proof -
  have l: "py_lstrip y = y" if "y \<noteq> []" "\<not> py_isspace (hd y)" for y
    using that by (cases y) (simp_all add: py_lstrip_def)
  show ?thesis using assms l [of x] l [of "rev x"] by (simp add: py_strip_def hd_rev)
qed

lemma incarnation_strip:
  assumes "uuid_ok E"
  shows "py_strip (incarnation_identity E pid n) = incarnation_identity E pid n"
proof (rule py_strip_id)
  have hex: "\<not> py_isspace c" if "is_hex_char c" for c
    using that by (auto simp: is_hex_char_def py_isspace_def)
  show "\<not> py_isspace (last (incarnation_identity E pid n))"
  proof (cases "env_uuid_hex E n")
    case Nil
    then show ?thesis by (simp add: incarnation_identity_def py_isspace_def)
  next
    case (Cons c cs)
    then have "is_hex_char (last (env_uuid_hex E n))"
      using assms unfolding uuid_ok_def list_all_iff by (metis last_in_set list.distinct(1))
    then show ?thesis using hex Cons by (simp add: incarnation_identity_def)
  qed
qed (simp_all add: incarnation_identity_def py_isspace_def)

lemma incarnation_inj:
  "uuid_ok E \<Longrightarrow> incarnation_identity E pid m = incarnation_identity E pid n \<longleftrightarrow> m = n"
  by (auto simp: incarnation_identity_def uuid_ok_def dest: injD)

definition names_identity :: "string \<Rightarrow> registry_op \<Rightarrow> bool" where
  "names_identity i op = (case op of Register obj (Some x) c g \<Rightarrow> py_strip x = i | _ \<Rightarrow> False)"

text \<open>The identity was drawn, and its binding is not the current one.\<close>

definition retired :: "env \<Rightarrow> nat \<Rightarrow> provider_execution_binding \<Rightarrow> registry \<Rightarrow> bool" where
  "retired E n b s \<longleftrightarrow> n < rg_uuids s \<and> map_of (rg_bindings s) (pb_provider_id b) \<noteq> Some b"

lemma commit_simps [simp]:
  "rg_uuids (snd (commit_registration D obj b k s)) = rg_uuids s"
  "rg_bindings (snd (commit_registration D obj b k s)) = dict_set (de_id (D obj)) b (rg_bindings s)"
  "rg_providers (snd (commit_registration D obj b k s)) = dict_set (de_id (D obj)) obj (rg_providers s)"
  by (simp_all add: commit_registration_def Let_def)

lemma step_uuids: "rg_uuids s \<le> rg_uuids (registry_step E D op s)"
proof (cases op)
  case (Register obj i c g)
  obtain r t where rt: "register_provider E D obj i c g s = (r, t)" by fastforce
  from register_cases [OF rt] have "rg_uuids s \<le> rg_uuids t"
    by (auto simp: registration_of_def split: option.splits)
  then show ?thesis using Register rt by simp
qed (auto simp: unregister_provider_def enable_provider_def disable_provider_def set_enabled_snd
    get_provider_def consume_execution_target_lookup_def split: option.split)

lemma run_uuids: "rg_uuids s \<le> rg_uuids (registry_run E ops s)"
proof (induction ops arbitrary: s)
  case (Cons x ops)
  obtain D op where "x = (D, op)" by fastforce
  then show ?case using order_trans [OF step_uuids Cons.IH] by simp
qed simp

lemma retired_step:
  assumes "uuid_ok E" "pb_configured_execution_identity b = incarnation_identity E (pb_provider_id b) n"
    and "retired E n b s" "\<not> names_identity (pb_configured_execution_identity b) op"
  shows "retired E n b (registry_step E D op s)"
proof (cases op)
  case (Register obj i c g)
  obtain r t where rt: "register_provider E D obj i c g s = (r, t)" by fastforce
  consider "t = s \<or> t = s\<lparr>rg_uuids := rg_uuids s + 1\<rparr>" | b' k where "registration_of E D obj i s b' k t"
    using register_cases [OF rt] by blast
  then have "retired E n b t"
  proof cases
    case 1
    then show ?thesis using assms(3) by (auto simp: retired_def)
  next
    case (2 b' k)
    have "b' \<noteq> b" if same: "de_id (D obj) = pb_provider_id b"
    proof (cases i)
      case None
      then have "pb_configured_execution_identity b' = incarnation_identity E (pb_provider_id b) (rg_uuids s)"
        using 2 same incarnation_strip [OF assms(1)] by (simp add: registration_of_def)
      then show ?thesis
        using assms(2,3) incarnation_inj [OF assms(1)] by (auto simp: retired_def)
    next
      case (Some x)
      then show ?thesis using 2 assms(4) Register by (auto simp: registration_of_def names_identity_def)
    qed
    then show ?thesis
      using 2 assms(3) by (auto simp: registration_of_def retired_def split: option.splits)
  qed
  then show ?thesis using Register rt by simp
qed (use assms(3) in \<open>auto simp: retired_def unregister_provider_def enable_provider_def disable_provider_def
    set_enabled_snd get_provider_def consume_execution_target_lookup_def split: option.split\<close>)

lemma retired_run:
  assumes "uuid_ok E" "pb_configured_execution_identity b = incarnation_identity E (pb_provider_id b) n"
    and "retired E n b s" "\<forall>x \<in> set ops. \<not> names_identity (pb_configured_execution_identity b) (snd x)"
  shows "retired E n b (registry_run E ops s)"
  using assms(3,4)
proof (induction ops arbitrary: s)
  case (Cons x ops)
  obtain D op where "x = (D, op)" by fastforce
  then show ?case using Cons retired_step [OF assms(1,2) Cons.prems(1)] by simp
qed simp

lemma resolve_exact:
  assumes "resolve_execution_binding E D b s = Some obj"
  shows "map_of (rg_bindings s) (pb_provider_id b) = Some b" "map_of (rg_providers s) (pb_provider_id b) = Some obj"
    "pb_descriptor_digest b = provider_execution_descriptor_digest E (D obj)"
  using assms by (auto simp: resolve_execution_binding_def capture_execution_target_def
      split: if_splits sum.splits option.splits prod.splits)


section \<open>Repeating a reconciliation\<close>

text \<open>C36: The two paths to repeatability agree.  A historical authority is found eligible for a
  repeated reconciliation exactly when it is for that very subject and a new dispatch to the
  historical provider would capture the same binding and the same authority now.\<close>

theorem eligible_iff_recapturable:
  "el_eligible (repeatability_eligibility E D (Some h) (Some b) subject s) \<longleftrightarrow>
    rt_subject_identity h = subject
    \<and> (\<exists>obj. capture_reconciliation_execution_target E D (pb_provider_id b) subject None s = Inr (obj, b, Some h))"
proof -
  have auth: "rt_binding_ref t = rk_binding_ref k" if "build_repeatability_authority E k x = Inr t" for k x t
    using that by (auto simp: build_repeatability_authority_def Let_def validate_authority_Inr)
  have res: "resolve_execution_binding E D b s = Some obj \<longleftrightarrow>
      capture_execution_target E D (pb_provider_id b) None s = Inr (obj, b)" for obj
    by (auto simp: resolve_execution_binding_def capture_execution_target_def require_provider_def
        split: sum.splits option.splits if_splits)
  show ?thesis
  proof (cases "resolve_execution_binding E D b s")
    case None
    then have "\<not> (\<exists>obj. capture_execution_target E D (pb_provider_id b) None s = Inr (obj, b))"
      using res by (metis option.distinct(1))
    then show ?thesis using None
      by (auto simp: repeatability_eligibility_def ineligible_def capture_reconciliation_execution_target_def
          split: option.splits if_splits)
  next
    case (Some obj)
    then have cap: "capture_execution_target E D (pb_provider_id b) None s = Inr (obj, b)" using res by blast
    show ?thesis
      using Some auth unfolding capture_reconciliation_execution_target_def cap
      by (cases "map_of (rg_contracts s) (pb_provider_id b)")
        (auto simp: repeatability_eligibility_def evaluate_repeatability_def ineligible_def
          split: if_splits sum.splits)
  qed
qed

section \<open>Resolution in another process\<close>

lemma keyed_list: "distinct (map fst ps) \<Longrightarrow> ps = map (\<lambda>k. (k, the (map_of ps k))) (map fst ps)"
  by (simp add: comp_def) (rule map_idI [symmetric], auto)

lemma descriptor_keys:
  assumes "descriptor_ok d"
  shows "distinct (map fst (descriptor_dump d))" "''tags'' \<in> set (map fst (descriptor_dump d))"
    "''schema'' \<notin> set (map fst (descriptor_dump d))"
proof -
  have "map fst (map (\<lambda>(k, v). (k, opt_str v)) (de_domains d)) = domain_names"
    using assms by (auto simp: descriptor_ok_def comp_def case_prod_unfold)
  then have "map fst (descriptor_dump d) = [''id'', ''name'', ''version'', ''capabilities'', ''priority'', ''tags'',
      ''constraints'', ''metadata'', ''effect_semantics'', ''side_effect_class'', ''reversibility''] @ domain_names"
    by (simp add: descriptor_dump_def)
  then show "distinct (map fst (descriptor_dump d))" "''tags'' \<in> set (map fst (descriptor_dump d))"
    "''schema'' \<notin> set (map fst (descriptor_dump d))"
    by (simp_all add: domain_names_def)
qed

lemma tag_order_digest:
  assumes "inj (env_sha256_hex E)" "descriptor_ok d" "us \<noteq> de_tags d"
  shows "provider_execution_descriptor_digest E (d\<lparr>de_tags := us\<rparr>) \<noteq> provider_execution_descriptor_digest E d"
proof
  let ?d = "d\<lparr>de_tags := us\<rparr>"
  let ?s = "(''schema'', PStr ''provider-execution-descriptor-v1'')"
  let ?ps = "\<lambda>d. ?s # descriptor_dump d"
  let ?ks = "map fst (?ps d)" and ?f = "\<lambda>d k. the (map_of (?ps d) k)"
  assume "provider_execution_descriptor_digest E ?d = provider_execution_descriptor_digest E d"
  then have eq: "json_dumps (PDict (?ps ?d)) = json_dumps (PDict (?ps d))"
    using assms(1) by (auto simp: provider_execution_descriptor_digest_def sha256_of_def dest: injD)
  have keys: "map fst (?ps ?d) = ?ks" by (simp add: descriptor_dump_def)
  have dist: "distinct ?ks" using descriptor_keys [OF assms(2)] by simp
  have other: "?f ?d j = ?f d j" if "j \<noteq> ''tags''" for j
    using that by (simp add: descriptor_dump_def)
  have k1: "map (\<lambda>k. (k, ?f ?d k)) ?ks = ?ps ?d"
    by (rule keyed_list [of "?ps ?d", unfolded keys, OF dist, symmetric])
  have k2: "map (\<lambda>k. (k, ?f d k)) ?ks = ?ps d"
    by (rule keyed_list [OF dist, symmetric])
  have dumps: "json_dumps (PDict (map (\<lambda>k. (k, ?f ?d k)) ?ks)) = json_dumps (PDict (map (\<lambda>k. (k, ?f d k)) ?ks))"
    unfolding k1 k2 by (rule eq)
  have "''tags'' \<in> set ?ks" using descriptor_keys(2) [OF assms(2)] by simp
  then have "json_dumps (?f ?d ''tags'') = json_dumps (?f d ''tags'')"
    by (rule json_one_field [where k = "''tags''" and f = "?f ?d" and g = "?f d", OF _ dist other dumps])
  moreover have "?f d ''tags'' = PList (map PStr (de_tags d))" "?f ?d ''tags'' = PList (map PStr us)"
    by (simp_all add: descriptor_dump_def)
  ultimately have "json_dumps (PList (map PStr us)) = json_dumps (PList (map PStr (de_tags d)))" by (simp only:)
  then have "py_join '','' (map json_string us) @ CHR '']'' # [] = py_join '','' (map json_string (de_tags d)) @ CHR '']'' # []"
    by (simp add: comp_def)
  from json_strings_prefix [OF this] assms(3) show False by simp
qed

text \<open>Stable registrations resolve across processes only while their tags happen to be listed in the
  same order.  A provider is registered in another process with the same stable identity, the same
  configuration and the same descriptor, whose set of tags is iterated in some order there: the
  historical binding resolves to it if the order is the one of the first process, and to nothing if
  it is another, although the configured provider is the same.\<close>

theorem stable_identity_depends_on_tag_order:
  assumes "inj (env_sha256_hex E)" "descriptor_ok d" "build_provider_execution_binding E d i c = Inr b"
    and "D obj = d\<lparr>de_tags := us\<rparr>" "mset us = mset (de_tags d)"
    and "register_provider E D obj (Some i) (Some c) None s = (Inr r, t)"
  shows "resolve_execution_binding E D b t = (if us = de_tags d then Some obj else None)"
proof -
  from assms(6) obtain b' where b': "build_provider_execution_binding E (D obj) i c = Inr b'"
    and t: "t = snd (commit_registration D obj b' None s)"
    by (auto simp: register_provider_def withI_def raise_ifI_def bindI_def readI_def configured_identity_def
        build_optional_contract_def raiseI_def split: if_splits sum.splits)
  note fb = build_binding_Inr [OF assms(3)] and fb' = build_binding_Inr [OF b']
  have pid: "pb_provider_id b = de_id (D obj)" using fb(2) assms(4) by simp
  have "resolve_execution_binding E D b t = (if b' \<noteq> b then None else Some obj)"
    by (simp add: resolve_execution_binding_def capture_execution_target_def require_provider_def has_provider_def
        t pid fb'(2,5))
  moreover have "b' = b \<longleftrightarrow> us = de_tags d"
  proof
    assume "b' = b"
    then have "provider_execution_descriptor_digest E (D obj) = provider_execution_descriptor_digest E d"
      using fb(5) fb'(5) by simp
    then show "us = de_tags d" using tag_order_digest [OF assms(1,2), of us] assms(4) by auto
  next
    assume "us = de_tags d"
    then have "D obj = d" using assms(4) by simp
    then show "b' = b" using b' assms(3) by simp
  qed
  ultimately show ?thesis by simp
qed

section \<open>Witnesses\<close>

definition marked_env :: env where
  "marked_env = \<lparr>env_clock = (\<lambda>n. int n), env_uuid_hex = (\<lambda>n. replicate n (CHR ''a'')),
     env_sha256_hex = (\<lambda>s. ''d'' @ s), env_isoformat = py_str_int\<rparr>"

lemma marked_uuid: "uuid_ok marked_env"
proof -
  have "inj (\<lambda>n. replicate n (CHR ''a''))" by (rule injI) (metis length_replicate)
  then show ?thesis by (simp add: uuid_ok_def marked_env_def list_all_iff is_hex_char_def)
qed

lemma marked_sha: "inj (env_sha256_hex marked_env)"
  by (simp add: marked_env_def inj_def)

lemma marked_digest: "sha256_of marked_env v \<noteq> []"
  by (simp add: sha256_of_def marked_env_def)

definition plain_descriptor :: "string list \<Rightarrow> provider_descriptor" where
  "plain_descriptor tags = \<lparr>de_id = ''p'', de_name = ''P'', de_version = ''1'', de_capabilities = [],
     de_enabled = True, de_priority = 0, de_tags = tags, de_constraints = [], de_metadata = [],
     de_effect_semantics = ''pure'', de_side_effect_class = ''pure'', de_reversibility = ''unknown'',
     de_domains = map (\<lambda>n. (n, None)) domain_names\<rparr>"

lemma plain_ok: "distinct tags \<Longrightarrow> descriptor_ok (plain_descriptor tags)"
  by (simp add: descriptor_ok_def plain_descriptor_def comp_def)

lemma build_returns:
  assumes "py_strip i \<noteq> []" "py_strip c \<noteq> []" "py_strip i \<noteq> ''p''"
  shows "\<exists>b. build_provider_execution_binding marked_env (plain_descriptor tags) i c = Inr b"
proof -
  have "de_id (plain_descriptor tags) = ''p''" by (simp add: plain_descriptor_def)
  then show ?thesis
    using assms marked_digest
    by (simp add: build_provider_execution_binding_def Let_def validate_binding_def binding_digest_def
        provider_execution_descriptor_digest_def)
qed

lemma stable_strip: "py_strip ''stable'' = ''stable''" "py_strip ''cfg'' = ''cfg''"
  by (simp_all add: str_eval)

lemma stable_build: "\<exists>b. build_provider_execution_binding marked_env (plain_descriptor tags) ''stable'' ''cfg'' = Inr b"
  by (rule build_returns) (simp_all add: stable_strip)

theorem binding_identity_determines_content_witness:
  "\<exists>b. build_provider_execution_binding marked_env (plain_descriptor []) ''stable'' ''cfg'' = Inr b
    \<and> (\<exists>c. validate_binding marked_env c = Inr c \<and> pb_id c = pb_id b \<and> c = b)"
proof -
  obtain b where b: "build_provider_execution_binding marked_env (plain_descriptor []) ''stable'' ''cfg'' = Inr b"
    using stable_build by blast
  then have v: "validate_binding marked_env b = Inr b"
    using build_binding_Inr(1) by (simp add: valid_binding_def)
  from binding_identity_determines_content [OF marked_sha v v refl] b v show ?thesis by blast
qed

theorem registry_consistent_witness:
  "has_provider (registry_run marked_env [(\<lambda>_. plain_descriptor [], Unregister ''p'')] empty_registry) ''p''
    \<longleftrightarrow> map_of (rg_bindings (registry_run marked_env [(\<lambda>_. plain_descriptor [], Unregister ''p'')] empty_registry)) ''p'' \<noteq> None"
  using registry_consistent [OF refl, of marked_env "[(\<lambda>_. plain_descriptor [], Unregister ''p'')]" "''p''"] by simp

lemma register_returns:
  assumes "build_provider_execution_binding E (D obj) x y = Inr b" "\<not> has_provider s (de_id (D obj))"
    and "configured_identity E (de_id (D obj)) i c s = (Inr (x, y), u)"
  shows "\<exists>r. register_provider E D obj i c None s = (Inr r, snd (commit_registration D obj b None u))"
  using assms by (simp add: register_provider_def withI_def raise_ifI_def bindI_def readI_def
      build_optional_contract_def commit_registration_def Let_def registry_descriptor_def)


theorem stable_identity_depends_on_tag_order_witness:
  "\<exists>b r t. build_provider_execution_binding marked_env (plain_descriptor [''x'', ''y'']) ''stable'' ''cfg'' = Inr b
    \<and> register_provider marked_env (\<lambda>_. plain_descriptor [''y'', ''x'']) 0 (Some ''stable'') (Some ''cfg'') None
        empty_registry = (Inr r, t)
    \<and> resolve_execution_binding marked_env (\<lambda>_. plain_descriptor [''y'', ''x'']) b t = None"
proof -
  let ?D = "\<lambda>_ :: object_ref. plain_descriptor [''y'', ''x'']"
  obtain b where b: "build_provider_execution_binding marked_env (plain_descriptor [''x'', ''y'']) ''stable'' ''cfg'' = Inr b"
    using stable_build by blast
  obtain b' where "build_provider_execution_binding marked_env (?D 0) ''stable'' ''cfg'' = Inr b'"
    using stable_build by blast
  moreover have "\<not> has_provider empty_registry (de_id (?D 0))"
    by (simp add: has_provider_def empty_registry_def)
  moreover have "configured_identity marked_env (de_id (?D 0)) (Some ''stable'') (Some ''cfg'') empty_registry
      = (Inr (''stable'', ''cfg''), empty_registry)" by (simp add: configured_identity_def)
  ultimately have "\<exists>r. register_provider marked_env ?D 0 (Some ''stable'') (Some ''cfg'') None empty_registry
      = (Inr r, snd (commit_registration ?D 0 b' None empty_registry))"
    by (rule register_returns [where D = ?D and obj = 0])
  then obtain r t where r: "register_provider marked_env ?D 0 (Some ''stable'') (Some ''cfg'') None empty_registry = (Inr r, t)"
    by blast
  have "resolve_execution_binding marked_env ?D b t = None"
    using stable_identity_depends_on_tag_order [OF marked_sha plain_ok b _ _ r, of "[''y'', ''x'']"]
    by (simp add: plain_descriptor_def)
  with b r show ?thesis by blast
qed

definition sample_configuration :: repeatability_configuration where
  "sample_configuration = \<lparr>rg_protocol_identity = ''q'', rg_protocol_version = ''1'', rg_mode = Repeat_Safe,
     rg_contract_version = ''1''\<rparr>"

lemma sample_authority:
  assumes "pb_id b \<noteq> []"
  shows "\<exists>k t. build_repeatability_contract marked_env b sample_configuration = Inr k
    \<and> build_repeatability_authority marked_env k ''req'' = Inr t \<and> rt_subject_identity t = ''req''
    \<and> rt_binding_ref t = pb_id b \<and> validate_authority marked_env t = Inr t"
proof -
  have "py_strip ''req'' = ''req''" by (simp add: str_eval)
  then show ?thesis
    using assms marked_digest
    by (simp add: build_repeatability_contract_def build_repeatability_authority_def Let_def sample_configuration_def
        validate_contract_def validate_authority_def contract_digest_def authority_digest_def)
qed


end
