(* ===== verification/Provider_Routing.thy ===== *)
theory Provider_Routing
  imports Provider_Registry
begin

text \<open>
  \<open>core/router.py\<close> and \<open>core/independence.py\<close>: the deterministic choice of a provider for a
  capability request under hard constraints, independence requirements and required failure
  domains.  The values of a request's \<open>constraints\<close> and \<open>metadata\<close> are those of \<^typ>\<open>json\<close>.
\<close>

section \<open>Equality of dynamic values\<close>

text \<open>\<open>==\<close> does not see the order of a dictionary, and compares booleans as integers.\<close>

primrec to_json :: "pyval \<Rightarrow> json" where
  "to_json PNone = JNull"
| "to_json (PBool b) = JBool b"
| "to_json (PInt i) = JInt i"
| "to_json (PStr s) = JStr s"
| "to_json (PList xs) = JList (map to_json xs)"
| "to_json (PDict ps) = JObj (fmap_of_list (map (map_prod (\<lambda>k. k) to_json) ps))"

primrec json_norm :: "json \<Rightarrow> json" where
  "json_norm JNull = JNull"
| "json_norm (JBool b) = JInt (if b then 1 else 0)"
| "json_norm (JInt i) = JInt i"
| "json_norm (JStr s) = JStr s"
| "json_norm (JList xs) = JList (map json_norm xs)"
| "json_norm (JObj m) = JObj (fmmap json_norm m)"

definition py_eq :: "json \<Rightarrow> json \<Rightarrow> bool" where
  "py_eq a b \<longleftrightarrow> json_norm a = json_norm b"

lemma py_eq_refl [simp]: "py_eq a a"
  by (simp add: py_eq_def)

lemma py_eq_sym: "py_eq a b \<Longrightarrow> py_eq b a"
  by (simp add: py_eq_def)

section \<open>Attributes of a descriptor\<close>

text \<open>
  \<open>getattr(descriptor, name, None)\<close> for the names of fields; the names of methods of the model
  are not represented.  The value of \<open>tags\<close> is a set.
\<close>

datatype attribute = AVal pyval | ASet "string list"

definition descriptor_attribute :: "provider_descriptor \<Rightarrow> string \<Rightarrow> attribute" where
  "descriptor_attribute d name =
    (if name = ''tags'' then ASet (de_tags d)
     else if name = ''enabled'' then AVal (PBool (de_enabled d))
     else AVal (pd_get (descriptor_dump d) name))"

fun attr_eq :: "attribute \<Rightarrow> attribute \<Rightarrow> bool" where
  "attr_eq (AVal a) (AVal b) \<longleftrightarrow> py_eq (to_json a) (to_json b)"
| "attr_eq (ASet a) (ASet b) \<longleftrightarrow> set a = set b"
| "attr_eq _ _ \<longleftrightarrow> False"

fun attr_repr :: "attribute \<Rightarrow> string" where
  "attr_repr (AVal v) = pv_repr v"
| "attr_repr (ASet []) = ''set()''"
| "attr_repr (ASet ts) = ''{'' @ py_join '', '' (map py_repr ts) @ ''}''"

definition attr_none :: "attribute \<Rightarrow> bool" where
  "attr_none a \<longleftrightarrow> a = AVal PNone"

section \<open>Independence\<close>

record independence_context =
  ic_reference_provider_refs :: "string list"
  ic_independent_on :: "string list"

text \<open>The first dimension and reference that fail, in the order of the loops.\<close>

fun check_references :: "string \<Rightarrow> attribute \<Rightarrow> provider_descriptor list \<Rightarrow> string option" where
  "check_references dm v [] = None"
| "check_references dm v (r # rs) =
    (if attr_none (descriptor_attribute r dm)
     then Some (''reference missing domain '' @ dm @ '' -> ineligible (fail-closed)'')
     else if attr_eq v (descriptor_attribute r dm)
     then Some (''candidate '' @ dm @ ''='' @ attr_repr v @ '' equals reference '' @ de_id r @ '' '' @ dm
            @ '' -> not independent'')
     else check_references dm v rs)"

fun independence_failure :: "string list \<Rightarrow> provider_descriptor \<Rightarrow> provider_descriptor list \<Rightarrow> string option" where
  "independence_failure [] c refs = None"
| "independence_failure (dm # dims) c refs =
    (if attr_none (descriptor_attribute c dm)
     then Some (''candidate missing required domain '' @ dm @ '' -> ineligible (fail-closed)'')
     else (case check_references dm (descriptor_attribute c dm) refs of
        Some m \<Rightarrow> Some m | None \<Rightarrow> independence_failure dims c refs))"

definition is_satisfied :: "independence_context \<Rightarrow> provider_descriptor \<Rightarrow> provider_descriptor list \<Rightarrow> bool \<times> string" where
  "is_satisfied ic c refs = (case independence_failure (ic_independent_on ic) c refs of
     None \<Rightarrow> (True, ''independent'') | Some m \<Rightarrow> (False, m))"

text \<open>
  \<open>list(v)\<close> followed by the validation of \<open>list[str]\<close>: a string is the list of its characters,
  a dictionary the list of its keys (here in sorted order).
\<close>

fun as_strings :: "json \<Rightarrow> string list result" where
  "as_strings (JList xs) = traverse (\<lambda>x. case x of JStr s \<Rightarrow> Inr s
     | _ \<Rightarrow> Inl (ValidationError ''Input should be a valid string'')) xs"
| "as_strings (JStr s) = Inr (map (\<lambda>c. [c]) s)"
| "as_strings (JObj m) = Inr (sorted_list_of_fset (fmdom m))"
| "as_strings _ = Inl (TypeError ''object is not iterable'')"

definition jget :: "(string, json) fmap \<Rightarrow> string \<Rightarrow> json" where
  "jget m k = fm_get m k JNull"

definition jor :: "json \<Rightarrow> json \<Rightarrow> json" where
  "jor a b = (if json_truthy a then a else b)"

definition make_context :: "json \<Rightarrow> json \<Rightarrow> independence_context option result" where
  "make_context refs dims = bindR (as_strings refs) (\<lambda>rs. bindR (as_strings dims) (\<lambda>ds.
     Inr (Some \<lparr>ic_reference_provider_refs = rs, ic_independent_on = ds\<rparr>)))"

definition context_from_request :: "capability_request \<Rightarrow> independence_context option result" where
  "context_from_request q =
    (let meta = cq_metadata q; cons = cq_constraints q; nil = JList [] in
     case fmlookup meta ''independence_context'' of
       Some (JObj ic) \<Rightarrow> make_context (jor (jget ic ''reference_provider_refs'') nil) (jor (jget ic ''independent_on'') nil)
     | _ \<Rightarrow>
       (case (case jget meta ''independence_constraints'' of JObj m \<Rightarrow> m | _ \<Rightarrow> fmempty) of ind \<Rightarrow>
        if ind \<noteq> fmempty then
          make_context (jor (jor (jget ind ''reference_provider_refs'') (jget ind ''independent_from_provider_ids'')) nil)
            (jor (jget ind ''independent_on'') nil)
        else
          (let refs = jor (jor (jget cons ''reference_provider_refs'') (jget cons ''independent_from_provider_ids'')) nil;
               dims = jor (jor (jget cons ''independent_on'') (jget cons ''required_independence'')) nil in
           if json_truthy refs \<or> json_truthy dims then
             (if \<not> json_truthy dims
              then make_context
                (jor refs (jor (jor (jget ind ''reference_provider_refs'') (jget ind ''independent_from_provider_ids'')) refs))
                (jor (jget ind ''independent_on'') nil)
              else make_context refs dims)
           else
             (let refs2 = jor (jget meta ''independent_from'') (jget cons ''independent_from'') in
              if json_truthy refs2
              then make_context (case refs2 of JList _ \<Rightarrow> refs2 | _ \<Rightarrow> JList [refs2])
                (jor (jget meta ''independent_on'') nil)
              else Inr None))))"

section \<open>Deterministic priority routing\<close>

text \<open>A provider named twice keeps the later index; the dictionary has one entry for it.\<close>

definition preferred_index :: "string list \<Rightarrow> (string \<times> nat) list" where
  "preferred_index ps = fold (\<lambda>(i, p) d. dict_set p i d) (enumerate 0 ps) []"

definition hard_constraint_key :: "string \<Rightarrow> bool" where
  "hard_constraint_key k \<longleftrightarrow> k \<noteq> ''required_failure_domains'' \<and> k \<noteq> ''independence_constraints''"

definition meets_hard_constraints :: "capability_request \<Rightarrow> provider_descriptor \<Rightarrow> bool" where
  "meets_hard_constraints q d \<longleftrightarrow> fmpred (\<lambda>k v. hard_constraint_key k \<longrightarrow>
     py_eq (to_json (pd_get (de_constraints d) k)) v) (cq_constraints q)"

definition routing_key :: "capability_request \<Rightarrow> provider_descriptor \<Rightarrow> nat \<times> int \<times> string" where
  "routing_key q d = (let pref = preferred_index (cq_preferred_provider_ids q) in
     ((case map_of pref (de_id d) of None \<Rightarrow> length pref | Some i \<Rightarrow> i), - de_priority d, de_id d))"

definition priority_select :: "capability_request \<Rightarrow> provider_descriptor list \<Rightarrow> provider_descriptor option" where
  "priority_select q candidates =
    (if candidates = [] then None
     else let matching = filter (meets_hard_constraints q) candidates in
       if matching = [] then None else Some (hd (sort_key (routing_key q) matching)))"

section \<open>The constraint router\<close>

definition reference_descriptors ::
    "independence_context option \<Rightarrow> provider_descriptor list option \<Rightarrow> provider_descriptor list" where
  "reference_descriptors ic registered = (case (ic, registered) of
     (Some c, Some ds) \<Rightarrow>
       if ic_reference_provider_refs c \<noteq> [] \<and> ic_independent_on c \<noteq> []
       then List.map_filter (\<lambda>pid. map_of (rev (map (\<lambda>d. (de_id d, d)) ds)) pid) (ic_reference_provider_refs c)
       else []
   | _ \<Rightarrow> [])"

definition meets_required_domains :: "capability_request \<Rightarrow> provider_descriptor \<Rightarrow> bool" where
  "meets_required_domains q d = (case fmlookup (cq_constraints q) ''required_failure_domains'' of
     Some (JObj m) \<Rightarrow> fmpred (\<lambda>k v. case descriptor_attribute d k of AVal a \<Rightarrow> py_eq (to_json a) v | ASet _ \<Rightarrow> False) m
   | _ \<Rightarrow> True)"

definition independence_admits ::
    "independence_context option \<Rightarrow> provider_descriptor list \<Rightarrow> provider_descriptor \<Rightarrow> bool" where
  "independence_admits ic refs d = (case ic of None \<Rightarrow> True | Some c \<Rightarrow>
     if ic_independent_on c \<noteq> [] \<and> refs \<noteq> [] then fst (is_satisfied c d refs)
     else if ic_independent_on c \<noteq> [] then
       list_all (\<lambda>dm. \<not> attr_none (descriptor_attribute d dm)) (ic_independent_on c)
       \<and> ic_reference_provider_refs c = []
     else True)"

text \<open>\<open>registered\<close> is the listing of the router's registry, when it has one.\<close>

definition constraint_select ::
    "provider_descriptor list option \<Rightarrow> capability_request \<Rightarrow> provider_descriptor list
      \<Rightarrow> provider_descriptor option result" where
  "constraint_select registered q candidates =
    bindR (context_from_request q) (\<lambda>ic.
      let refs = reference_descriptors ic registered in
      Inr (priority_select q
        (filter (\<lambda>d. independence_admits ic refs d \<and> meets_required_domains q d) candidates)))"

text \<open>The breaker of a provider, made on first use.\<close>

definition circuit_for :: "string \<Rightarrow> (string \<times> circuit_breaker) list \<Rightarrow> circuit_breaker \<times> (string \<times> circuit_breaker) list" where
  "circuit_for pid cs = (case map_of cs pid of
     Some c \<Rightarrow> (c, cs)
   | None \<Rightarrow> (let c = new_breaker 5 30 1 in (c, dict_set pid c cs)))"

end
