(* ===== verification/Routing_Properties.thy ===== *)
theory Routing_Properties
  imports Provider_Routing
begin

text \<open>
  What the choice of a provider promises: the constraints and the independence of the provider
  chosen, minimality in the routing order, independence of the order of the candidates, and the
  two places where the choice is weaker than its comments say.
\<close>

section \<open>Minimal elements\<close>

lemma hd_sort_key_member: "xs \<noteq> [] \<Longrightarrow> hd (sort_key k xs) \<in> set xs"
  by (metis list.set_sel(1) set_sort length_sort length_0_conv)

lemma hd_sort_key_least:
  assumes "x \<in> set xs"
  shows "k (hd (sort_key k xs)) \<le> k x"
proof -
  have "sorted (map k (sort_key k xs))" by simp
  moreover obtain y ys where "sort_key k xs = y # ys"
    using assms by (metis hd_Cons_tl length_sort length_0_conv length_pos_if_in_set less_numeral_extra(3))
  moreover have "x \<in> set (sort_key k xs)" using assms by simp
  ultimately show ?thesis by auto
qed

lemma priority_select_eq:
  "priority_select q cs = (let m = filter (meets_hard_constraints q) cs in
     if m = [] then None else Some (hd (sort_key (routing_key q) m)))"
  by (simp add: priority_select_def Let_def)

lemma priority_select_Some:
  assumes "priority_select q cs = Some d"
  shows "d \<in> set cs \<and> meets_hard_constraints q d
    \<and> (\<forall>c \<in> set cs. meets_hard_constraints q c \<longrightarrow> routing_key q d \<le> routing_key q c)"
proof -
  let ?m = "filter (meets_hard_constraints q) cs"
  from assms have ne: "?m \<noteq> []" and d: "d = hd (sort_key (routing_key q) ?m)"
    by (auto simp: priority_select_def Let_def split: if_splits)
  have "d \<in> set ?m" unfolding d by (rule hd_sort_key_member [OF ne])
  moreover have "routing_key q d \<le> routing_key q c" if "c \<in> set ?m" for c
    unfolding d by (rule hd_sort_key_least [OF that])
  ultimately show ?thesis by auto
qed

lemma priority_select_None: "priority_select q cs = None \<longleftrightarrow> (\<forall>c \<in> set cs. \<not> meets_hard_constraints q c)"
  by (auto simp: priority_select_def Let_def filter_empty_conv)

definition eligible_provider ::
    "independence_context option \<Rightarrow> provider_descriptor list option \<Rightarrow> capability_request \<Rightarrow> provider_descriptor \<Rightarrow> bool" where
  "eligible_provider ic registered q d \<longleftrightarrow>
     independence_admits ic (reference_descriptors ic registered) d
     \<and> meets_required_domains q d \<and> meets_hard_constraints q d"

text \<open>The router chooses the best eligible provider.  When the request's requirements can be
  read, the choice is a candidate that meets the independence requirement, the required failure
  domains and every hard constraint, and no eligible candidate precedes it in the order of
  preference, priority and identity; nothing is chosen only when no candidate is eligible.\<close>

theorem constraint_select_best:
  assumes "context_from_request q = Inr ic"
  shows "\<exists>r. constraint_select registered q cs = Inr r \<and>
    (case r of
       None \<Rightarrow> \<forall>c \<in> set cs. \<not> eligible_provider ic registered q c
     | Some d \<Rightarrow> d \<in> set cs \<and> eligible_provider ic registered q d
         \<and> (\<forall>c \<in> set cs. eligible_provider ic registered q c \<longrightarrow> routing_key q d \<le> routing_key q c))"
proof -
  let ?refs = "reference_descriptors ic registered"
  let ?r = "priority_select q (filter (\<lambda>d. independence_admits ic ?refs d \<and> meets_required_domains q d) cs)"
  have "constraint_select registered q cs = Inr ?r"
    using assms by (simp add: constraint_select_def Let_def)
  moreover have "case ?r of
       None \<Rightarrow> \<forall>c \<in> set cs. \<not> eligible_provider ic registered q c
     | Some d \<Rightarrow> d \<in> set cs \<and> eligible_provider ic registered q d
         \<and> (\<forall>c \<in> set cs. eligible_provider ic registered q c \<longrightarrow> routing_key q d \<le> routing_key q c)"
  proof (cases ?r)
    case None
    then have "\<forall>c \<in> set cs. \<not> eligible_provider ic registered q c"
      unfolding priority_select_None by (simp add: eligible_provider_def)
    then show ?thesis using None by simp
  next
    case (Some d)
    from priority_select_Some [OF this] Some show ?thesis by (auto simp: eligible_provider_def)
  qed
  ultimately show ?thesis by blast
qed

lemma routing_key_id: "routing_key q c = routing_key q d \<Longrightarrow> de_id c = de_id d"
  by (simp add: routing_key_def Let_def)

text \<open>The choice is deterministic: it does not depend on the order in which the registry lists
  the candidates, as long as their identities are distinct.\<close>

theorem selection_order_independent:
  assumes "mset cs = mset ds" "distinct (map de_id cs)"
  shows "constraint_select registered q cs = constraint_select registered q ds"
proof -
  have "inj_on (routing_key q) (set cs)"
  proof (rule inj_onI)
    fix x y assume "x \<in> set cs" "y \<in> set cs" "routing_key q x = routing_key q y"
    with routing_key_id [of q x y] assms(2) show "x = y" by (auto simp: distinct_map dest: inj_onD)
  qed
  then have inj: "inj_on (routing_key q) (set (filter P cs))" for P by (rule inj_on_subset) auto
  have "priority_select q (filter P cs) = priority_select q (filter P ds)" for P
  proof -
    let ?P = "\<lambda>d. P d \<and> meets_hard_constraints q d"
    have m: "mset (filter ?P cs) = mset (filter ?P ds)" using assms(1) by simp
    moreover have "sort_key (routing_key q) (filter ?P cs) = sort_key (routing_key q) (filter ?P ds)"
      by (rule sort_key_mset_eq [OF m inj])
    moreover have "filter ?P cs = [] \<longleftrightarrow> filter ?P ds = []" using m by (metis mset_zero_iff)
    ultimately show ?thesis by (simp add: priority_select_eq)
  qed
  then show ?thesis by (cases "context_from_request q") (simp_all add: constraint_select_def Let_def)
qed

section \<open>Independence\<close>

lemma check_references_None:
  "check_references dm v rs = None \<longleftrightarrow> (\<forall>r \<in> set rs. \<not> attr_none (descriptor_attribute r dm)
     \<and> \<not> attr_eq v (descriptor_attribute r dm))"
  by (induction dm v rs rule: check_references.induct) auto

lemma independence_failure_None:
  "independence_failure dims c rs = None \<longleftrightarrow> (\<forall>dm \<in> set dims. \<not> attr_none (descriptor_attribute c dm)
     \<and> (\<forall>r \<in> set rs. \<not> attr_none (descriptor_attribute r dm)
          \<and> \<not> attr_eq (descriptor_attribute c dm) (descriptor_attribute r dm)))"
  by (induction dims c rs rule: independence_failure.induct) (auto simp: check_references_None [symmetric] split: option.splits)

lemma is_satisfied_iff: "fst (is_satisfied ic c rs) \<longleftrightarrow> independence_failure (ic_independent_on ic) c rs = None"
  by (simp add: is_satisfied_def split: option.split)

lemma select_admitted:
  assumes "constraint_select registered q cs = Inr (Some d)" "context_from_request q = Inr ic"
  shows "independence_admits ic (reference_descriptors ic registered) d"
  using assms(1) priority_select_Some [of q _ d] by (fastforce simp: constraint_select_def Let_def assms(2))


text \<open>A reference provider that is not registered is forgotten.  As soon as one of the named
  references is registered, the others that are not play no part: the choice is the one made for
  the same request naming only the registered references, although nothing is known about
  independence from the others.\<close>

theorem unknown_references_ignored:
  assumes "context_from_request q = Inr (Some ic)" "context_from_request q' = Inr (Some ic')"
    and "ic' = ic\<lparr>ic_reference_provider_refs :=
      filter (\<lambda>p. p \<in> de_id ` set ds) (ic_reference_provider_refs ic)\<rparr>"
    and "ic_reference_provider_refs ic' \<noteq> []"
    and "cq_constraints q' = cq_constraints q" "cq_preferred_provider_ids q' = cq_preferred_provider_ids q"
  shows "constraint_select (Some ds) q cs = constraint_select (Some ds) q' cs"
proof -
  let ?find = "\<lambda>pid. map_of (rev (map (\<lambda>d. (de_id d, d)) ds)) pid"
  have none: "?find p = None \<longleftrightarrow> p \<notin> de_id ` set ds" for p
    by (simp add: map_of_eq_None_iff image_image)
  then have found: "?find p = Some x \<Longrightarrow> p \<in> de_id ` set ds" for p x by (metis option.distinct(1))
  have mf: "List.map_filter ?find xs = List.map_filter ?find (filter (\<lambda>p. p \<in> de_id ` set ds) xs)" for xs
    by (induction xs) (auto simp: map_filter_simps none dest: found split: option.split)
  have ne: "ic_reference_provider_refs ic \<noteq> []" using assms(3,4) by auto
  have refs: "reference_descriptors (Some ic) (Some ds) = reference_descriptors (Some ic') (Some ds)"
    using mf [of "ic_reference_provider_refs ic"] ne assms(3,4) by (simp add: reference_descriptors_def)
  have some: "reference_descriptors (Some ic') (Some ds) \<noteq> []" if "ic_independent_on ic' \<noteq> []"
  proof -
    obtain p ps where "ic_reference_provider_refs ic' = p # ps"
      using assms(4) by (cases "ic_reference_provider_refs ic'") auto
    moreover from this have "p \<in> set (filter (\<lambda>p. p \<in> de_id ` set ds) (ic_reference_provider_refs ic))"
      using assms(3) by simp
    then have "p \<in> de_id ` set ds" by simp
    ultimately show ?thesis
      using that none [of p] by (auto simp: reference_descriptors_def map_filter_simps split: option.split)
  qed
  have "independence_admits (Some ic) (reference_descriptors (Some ic) (Some ds))
      = independence_admits (Some ic') (reference_descriptors (Some ic') (Some ds))"
    using some unfolding refs by (auto simp: independence_admits_def assms(3) is_satisfied_def fun_eq_iff)
  moreover have "meets_required_domains q' = meets_required_domains q"
    "meets_hard_constraints q' = meets_hard_constraints q" "routing_key q' = routing_key q"
    by (simp_all add: fun_eq_iff meets_required_domains_def meets_hard_constraints_def routing_key_def assms(5,6))
  ultimately show ?thesis
    by (simp add: constraint_select_def assms(1,2) Let_def priority_select_eq)
qed

section \<open>Preferences\<close>

text \<open>A preference stated twice may not count.  A provider named first and again at the end of the
  preferences ranks after every other preferred provider, and when there is only one other it
  ranks no better than a provider that is not preferred at all.\<close>

theorem repeated_preference_lost:
  assumes "cq_preferred_provider_ids q = [p, r, p]" "p \<noteq> r"
    and "de_id d = p" "de_id e \<noteq> p" "de_id e \<noteq> r" "de_priority d < de_priority e"
  shows "routing_key q e < routing_key q d"
  using assms by (simp add: routing_key_def preferred_index_def Let_def less_prod_def')

section \<open>Witnesses\<close>

definition sample_provider :: "string \<Rightarrow> string \<Rightarrow> int \<Rightarrow> provider_descriptor" where
  "sample_provider pid op prio = \<lparr>de_id = pid, de_name = pid, de_version = ''1'', de_capabilities = [''verify.http''],
     de_enabled = True, de_priority = prio, de_tags = [], de_constraints = [], de_metadata = [],
     de_effect_semantics = ''pure'', de_side_effect_class = ''pure'', de_reversibility = ''unknown'',
     de_domains = map (\<lambda>n. (n, if n = ''operator'' then Some op else None)) domain_names\<rparr>"

definition sample_request :: "string list \<Rightarrow> string list \<Rightarrow> capability_request" where
  "sample_request refs preferred = \<lparr>cq_id = ''q'', cq_capability = ''verify.http'', cq_work_id = None,
     cq_run_id = None, cq_instruction = None, cq_input_artifact_refs = [], cq_parameters = fmempty,
     cq_constraints = fmempty, cq_preferred_provider_ids = preferred, cq_excluded_provider_ids = [],
     cq_metadata = fmupd ''independence_context'' (JObj (fmupd ''reference_provider_refs'' (JList (map JStr refs))
        (fmupd ''independent_on'' (JList [JStr ''operator'']) fmempty))) fmempty,
     cq_idempotency_key = None, cq_step_key = None, cq_actor_ref = None, cq_resource_ref = None,
     cq_subject_version_refs = [], cq_effect_class = Eff_Read, cq_lease_generation = 0, cq_lease_owner = None\<rparr>"

definition two_providers :: "provider_descriptor list" where
  "two_providers = [sample_provider ''a'' ''x'' 9, sample_provider ''b'' ''y'' 1]"

lemma sample_context:
  "context_from_request (sample_request [''a''] ps)
    = Inr (Some \<lparr>ic_reference_provider_refs = [''a''], ic_independent_on = [''operator'']\<rparr>)"
  "context_from_request (sample_request [''a'', ''gone''] ps)
    = Inr (Some \<lparr>ic_reference_provider_refs = [''a'', ''gone''], ic_independent_on = [''operator'']\<rparr>)"
  by (simp_all add: context_from_request_def sample_request_def make_context_def jor_def jget_def fm_get_def)

lemma sample_references:
  "reference_descriptors (Some \<lparr>ic_reference_provider_refs = [''a''], ic_independent_on = [''operator'']\<rparr>)
    (Some two_providers) = [sample_provider ''a'' ''x'' 9]"
  by (simp add: reference_descriptors_def two_providers_def map_filter_simps sample_provider_def)

lemma sample_operator: "descriptor_attribute (sample_provider i op pr) ''operator'' = AVal (PStr op)"
  by (simp add: descriptor_attribute_def descriptor_dump_def pd_get_def sample_provider_def domain_names_def opt_str_def)

lemma sample_selection:
  "constraint_select (Some two_providers) (sample_request [''a''] []) two_providers
    = Inr (Some (sample_provider ''b'' ''y'' 1))"
proof -
  have adm: "independence_admits (Some \<lparr>ic_reference_provider_refs = [''a''], ic_independent_on = [''operator'']\<rparr>)
      [sample_provider ''a'' ''x'' 9] (sample_provider i op pr) \<longleftrightarrow> op \<noteq> ''x''" for i op pr
    by (auto simp: independence_admits_def is_satisfied_def sample_operator attr_none_def py_eq_def)
  have q: "cq_constraints (sample_request [''a''] []) = fmempty" by (simp add: sample_request_def)
  have "constraint_select (Some two_providers) (sample_request [''a''] []) two_providers
      = Inr (priority_select (sample_request [''a''] []) (filter (\<lambda>d. independence_admits
          (Some \<lparr>ic_reference_provider_refs = [''a''], ic_independent_on = [''operator'']\<rparr>) [sample_provider ''a'' ''x'' 9] d
          \<and> meets_required_domains (sample_request [''a''] []) d) two_providers))"
    by (simp add: constraint_select_def sample_context sample_references Let_def)
  then show ?thesis
    by (simp add: adm two_providers_def meets_required_domains_def meets_hard_constraints_def priority_select_def q)
qed

theorem constraint_select_best_witness:
  "\<exists>d. constraint_select (Some two_providers) (sample_request [''a''] []) two_providers = Inr (Some d)
    \<and> eligible_provider (Some \<lparr>ic_reference_provider_refs = [''a''], ic_independent_on = [''operator'']\<rparr>)
        (Some two_providers) (sample_request [''a''] []) d"
  using constraint_select_best [OF sample_context(1), of "Some two_providers" "[]" two_providers]
  by (simp add: sample_selection)

theorem selection_order_independent_witness:
  "constraint_select (Some two_providers) (sample_request [''a''] []) (rev two_providers)
    = Inr (Some (sample_provider ''b'' ''y'' 1))"
proof -
  have "mset two_providers = mset (rev two_providers)" "distinct (map de_id two_providers)"
    by (simp_all add: two_providers_def sample_provider_def)
  from selection_order_independent [OF this, of "Some two_providers" "sample_request [''a''] []"]
  show ?thesis by (simp add: sample_selection)
qed


theorem unknown_references_ignored_witness:
  "constraint_select (Some two_providers) (sample_request [''a'', ''gone''] []) two_providers
    = Inr (Some (sample_provider ''b'' ''y'' 1))"
proof -
  have "constraint_select (Some two_providers) (sample_request [''a'', ''gone''] []) two_providers
      = constraint_select (Some two_providers) (sample_request [''a''] []) two_providers"
    by (rule unknown_references_ignored [OF sample_context(2) sample_context(1)])
      (simp_all add: two_providers_def sample_provider_def sample_request_def)
  then show ?thesis by (simp add: sample_selection)
qed

theorem repeated_preference_lost_witness:
  "routing_key (sample_request [] [''a'', ''c'', ''a'']) (sample_provider ''b'' ''y'' 2)
    < routing_key (sample_request [] [''a'', ''c'', ''a'']) (sample_provider ''a'' ''x'' 1)"
  by (rule repeated_preference_lost [where p = "''a''" and r = "''c''"])
    (simp_all add: sample_request_def sample_provider_def)

text \<open>Independence stated in the request's \<open>constraints\<close>, where the router reads it from, is at the same
  time a hard constraint: no provider whose own constraints do not repeat it is ever chosen.\<close>

theorem independence_in_constraints_selects_none:
  assumes "k = ''reference_provider_refs'' \<or> k = ''independent_on''"
    and "fmlookup (cq_constraints q) k = Some v" "v \<noteq> JNull"
    and "\<forall>c \<in> set cs. map_of (de_constraints c) k = None"
    and "constraint_select registered q cs = Inr r"
  shows "r = None"
proof -
  have key: "hard_constraint_key k" using assms(1) by (auto simp: hard_constraint_key_def)
  have "\<not> py_eq JNull v" using assms(3) by (cases v) (simp_all add: py_eq_def)
  moreover have "pd_get (de_constraints c) k = PNone" if "c \<in> set cs" for c
    using assms(4) that by (simp add: pd_get_def)
  ultimately have "\<not> meets_hard_constraints q c" if "c \<in> set cs" for c
    using key assms(2) that unfolding meets_hard_constraints_def fmpred_iff by (metis to_json.simps(1))
  then have none: "priority_select q (filter P cs) = None" for P by (simp add: priority_select_None)
  show ?thesis using assms(5) by (auto simp: constraint_select_def Let_def none)
qed

end
