(* ===== verification/Capability_Contract.thy ===== *)
theory Capability_Contract
  imports Authorization Reliability
begin

text \<open>
  \<open>core/capability_contract.py\<close>: impact classes and procedure profiles that can only be raised,
  the registry of effect rules and the registry of capability contracts on top of it, with exact
  and \<open>prefix.*\<close> matching.  The contract registry shares its effect registry with the caller that
  supplied it, so both are one state here.
\<close>

section \<open>Impact and procedure levels\<close>

definition impact_order :: "(string \<times> nat) list" where
  "impact_order = [(''read'', 0), (''write-local'', 1), (''write-remote'', 2), (''deploy'', 3),
     (''admin'', 4), (''irreversible'', 5)]"

definition procedure_order :: "(string \<times> nat) list" where
  "procedure_order = [(''minimal'', 0), (''standard'', 1), (''enhanced'', 2)]"

text \<open>The level of an optional name, when it has one.\<close>

definition levels_of :: "string option list \<Rightarrow> nat list" where
  "levels_of xs = List.map_filter (\<lambda>x. case x of None \<Rightarrow> None | Some s \<Rightarrow> map_of impact_order s) xs"

definition impact_named :: "nat \<Rightarrow> string \<Rightarrow> string" where
  "impact_named level dflt = (case find (\<lambda>(k, v). v = level) impact_order of Some (k, _) \<Rightarrow> k | None \<Rightarrow> dflt)"

definition level_or_zero :: "string \<Rightarrow> nat" where
  "level_or_zero s = (case map_of impact_order s of Some l \<Rightarrow> l | None \<Rightarrow> 0)"

definition compute_effective_impact :: "string \<Rightarrow> string option \<Rightarrow> string option \<Rightarrow> string" where
  "compute_effective_impact contract_minimum provider_minimum requested =
    impact_named (Max (set (level_or_zero contract_minimum # levels_of [provider_minimum, requested])))
      contract_minimum"

definition compute_effective_procedure_profile :: "string option \<Rightarrow> string option list \<Rightarrow> string result" where
  "compute_effective_procedure_profile contract_minimum requested =
    (let first = (case contract_minimum of None \<Rightarrow> ''minimal'' | Some s \<Rightarrow> if s = [] then ''minimal'' else s);
         rest = List.map_filter (\<lambda>x. x) requested in
     if list_all (\<lambda>v. map_of procedure_order v \<noteq> None) (first # rest)
     then Inr (py_max_by (\<lambda>v. the (map_of procedure_order v)) first rest)
     else Inl (ValueError ''unknown procedure profile; refusing to downgrade governance''))"

section \<open>Effect rules\<close>

record effect_rule =
  er_capability :: string
  er_impact_class :: invocation_effect
  er_authorization_required :: bool
  er_resource_required :: bool
  er_version_required :: bool
  er_blast_radius :: "int option"
  er_exposure :: "int option"
  er_recovery_timing :: "(string \<times> flt) list option"

definition make_rule :: "string \<Rightarrow> invocation_effect \<Rightarrow> bool \<Rightarrow> bool \<Rightarrow> bool \<Rightarrow> effect_rule" where
  "make_rule capability impact authorization resource version =
    \<lparr>er_capability = capability, er_impact_class = impact, er_authorization_required = authorization,
     er_resource_required = resource, er_version_required = version, er_blast_radius = None,
     er_exposure = None, er_recovery_timing = None\<rparr>"

definition subject_version_required :: "effect_rule \<Rightarrow> bool" where
  "subject_version_required r = er_version_required r"

definition builtin_effect_rules :: "effect_rule list" where
  "builtin_effect_rules =
    [make_rule ''observe.*'' Eff_Read False False False, make_rule ''verify.*'' Eff_Read False False False,
     make_rule ''reason.*'' Eff_Read False False False, make_rule ''human.*'' Eff_Read False False False,
     make_rule ''code.read'' Eff_Read False False False,
     make_rule ''code.edit'' Eff_Write_Local True True True,
     make_rule ''code.test'' Eff_Write_Local True True True,
     make_rule ''shell.exec'' Eff_Write_Local True True False,
     make_rule ''git.diff'' Eff_Read False False False,
     make_rule ''deploy.*'' Eff_Deploy True True True,
     make_rule ''test.read'' Eff_Read False False False,
     make_rule ''test.side_effect'' Eff_Write_Remote True False False,
     make_rule ''test.write_local'' Eff_Write_Local True False False,
     make_rule ''test.write_remote'' Eff_Write_Remote True False False,
     make_rule ''test.deploy'' Eff_Deploy True True True,
     make_rule ''test.admin'' Eff_Admin True True False,
     make_rule ''test.irreversible'' Eff_Irreversible True True True]"

type_synonym effect_registry = "(string \<times> effect_rule) list"

definition register_rule :: "effect_rule \<Rightarrow> effect_registry \<Rightarrow> effect_registry" where
  "register_rule r rs = dict_set (er_capability r) r rs"

definition new_effect_registry :: "effect_rule list \<Rightarrow> effect_registry" where
  "new_effect_registry rules =
    fold register_rule (if rules = [] then builtin_effect_rules else rules) []"

text \<open>The exact key first, then the first pattern in the order of registration.\<close>

definition pattern_matches :: "string \<Rightarrow> string \<Rightarrow> bool" where
  "pattern_matches capability pattern \<longleftrightarrow>
     (py_endswith pattern ''.*'' \<and> py_startswith capability (take (length pattern - 2) pattern @ ''.''))
     \<or> pattern = ''*''"

definition resolve_pattern :: "string \<Rightarrow> (string \<times> 'a) list \<Rightarrow> 'a option" where
  "resolve_pattern capability d = (case map_of d capability of
     Some x \<Rightarrow> Some x
   | None \<Rightarrow> map_option snd (find (\<lambda>(p, _). pattern_matches capability p) d))"

definition resolve_rule :: "string \<Rightarrow> effect_registry \<Rightarrow> effect_rule option" where
  "resolve_rule capability rs = resolve_pattern capability rs"

definition has_rule :: "string \<Rightarrow> effect_registry \<Rightarrow> bool" where
  "has_rule capability rs \<longleftrightarrow> resolve_rule capability rs \<noteq> None"

section \<open>Capability contracts\<close>

datatype authorization_requirement = Auth_None | Auth_Optional | Auth_Required

record capability_contract =
  cc_capability :: string
  cc_minimum_impact_class :: invocation_effect
  cc_effect_semantics :: string
  cc_reversibility :: string
  cc_authorization_requirement :: authorization_requirement
  cc_minimum_procedure_profile :: string
  cc_resource_required :: bool
  cc_subject_version_required :: bool
  cc_default_independence_requirements :: "string list"
  cc_blast_radius :: "int option"
  cc_exposure :: "int option"
  cc_recovery_timing :: "(string \<times> flt) list option"

definition contract_effective_impact :: "capability_contract \<Rightarrow> string option \<Rightarrow> string option \<Rightarrow> string" where
  "contract_effective_impact c requested provider_minimum =
    impact_named (Max (set (level_or_zero (invocation_effect_str (cc_minimum_impact_class c))
        # levels_of [requested, provider_minimum]))) (invocation_effect_str (cc_minimum_impact_class c))"

definition make_contract ::
    "string \<Rightarrow> invocation_effect \<Rightarrow> string \<Rightarrow> string \<Rightarrow> authorization_requirement \<Rightarrow> string \<Rightarrow> bool \<Rightarrow> bool
      \<Rightarrow> string list \<Rightarrow> int option \<Rightarrow> int option \<Rightarrow> capability_contract" where
  "make_contract capability impact semantics reversible auth profile resource version independence radius exposure =
    \<lparr>cc_capability = capability, cc_minimum_impact_class = impact, cc_effect_semantics = semantics,
     cc_reversibility = reversible, cc_authorization_requirement = auth, cc_minimum_procedure_profile = profile,
     cc_resource_required = resource, cc_subject_version_required = version,
     cc_default_independence_requirements = independence, cc_blast_radius = radius, cc_exposure = exposure,
     cc_recovery_timing = None\<rparr>"

text \<open>A capability that reads only, and the two kinds of deployment and of irreversible contracts.\<close>

definition read_contract :: "string \<Rightarrow> capability_contract" where
  "read_contract capability = make_contract capability Eff_Read ''pure'' ''unknown'' Auth_None ''minimal'' False False [] None None"

definition deploy_contract :: "string \<Rightarrow> capability_contract" where
  "deploy_contract capability = make_contract capability Eff_Deploy ''reconcilable'' ''compensatable'' Auth_Required
     ''standard'' True True [''credential_domain'', ''provider_family''] (Some 5) (Some 5)"

definition builtin_contracts :: "capability_contract list" where
  "builtin_contracts =
    [deploy_contract ''deploy.prod'', deploy_contract ''deploy.*'',
     make_contract ''code.edit'' Eff_Write_Local ''idempotent'' ''reversible'' Auth_Required ''standard'' True True [] (Some 1) (Some 1),
     read_contract ''code.read'',
     make_contract ''code.test'' Eff_Write_Local ''idempotent'' ''reversible'' Auth_Required ''standard'' True True [] (Some 1) (Some 1),
     make_contract ''shell.exec'' Eff_Write_Local ''reconcilable'' ''unknown'' Auth_Required ''standard'' True False [] (Some 1) (Some 1),
     read_contract ''git.diff'',
     make_contract ''test.side_effect'' Eff_Write_Remote ''reconcilable'' ''compensatable'' Auth_Required ''standard'' False False [] (Some 1) (Some 1),
     deploy_contract ''test.deploy'',
     read_contract ''test.read'',
     make_contract ''test.write_local'' Eff_Write_Local ''idempotent'' ''reversible'' Auth_Optional ''minimal'' False False [] (Some 1) (Some 1),
     make_contract ''test.write_remote'' Eff_Write_Remote ''reconcilable'' ''compensatable'' Auth_Required ''standard'' False False [] (Some 1) (Some 1),
     make_contract ''test.admin'' Eff_Admin ''irreversible-opaque'' ''irreversible'' Auth_Required ''enhanced'' True False
       [''credential_domain'', ''provider_family''] (Some 10) (Some 10),
     make_contract ''test.irreversible'' Eff_Irreversible ''irreversible-opaque'' ''irreversible'' Auth_Required ''enhanced'' True True
       [''credential_domain'', ''provider_family''] (Some 10) (Some 10),
     read_contract ''reason.generate'', read_contract ''observe.*'', read_contract ''verify.*'',
     read_contract ''human.*'', read_contract ''reason.*'']"

text \<open>\<open>_is_side_effect_capability\<close>, without a contract and with one.\<close>

definition has_any_prefix :: "string \<Rightarrow> string list \<Rightarrow> bool" where
  "has_any_prefix s ps \<longleftrightarrow> list_ex (py_startswith s) ps"

definition is_side_effect_name :: "string \<Rightarrow> bool" where
  "is_side_effect_name capability = (let lower = py_lower capability in
     if lower = ''test.read'' \<or> py_endswith lower ''.read'' then False
     else if has_any_prefix lower [''observe.'', ''verify.'', ''human.'', ''reason.''] then False
     else if py_startswith lower ''code.'' then True
     else list_ex (py_contains lower) [''deploy'', ''admin'', ''irreversible'', ''write'', ''side_effect''])"

definition is_side_effect_capability :: "capability_contract option \<Rightarrow> string \<Rightarrow> bool" where
  "is_side_effect_capability contract capability = (case contract of
     Some c \<Rightarrow> cc_minimum_impact_class c \<noteq> Eff_Read \<or> cc_effect_semantics c \<noteq> ''pure''
   | None \<Rightarrow> is_side_effect_name capability)"

section \<open>The contract registry\<close>

record contract_registry =
  cg_contracts :: "(string \<times> capability_contract) list"
  cg_rules :: effect_registry

definition full_rule :: "capability_contract \<Rightarrow> effect_rule" where
  "full_rule c = (make_rule (cc_capability c) (cc_minimum_impact_class c)
     (cc_authorization_requirement c = Auth_Required) (cc_resource_required c) (cc_subject_version_required c))
     \<lparr>er_blast_radius := cc_blast_radius c, er_exposure := cc_exposure c, er_recovery_timing := cc_recovery_timing c\<rparr>"

text \<open>\<open>register\<close> makes the rule without the reliability declarations.\<close>

definition short_rule :: "capability_contract \<Rightarrow> effect_rule" where
  "short_rule c = make_rule (cc_capability c) (cc_minimum_impact_class c)
     (cc_authorization_requirement c = Auth_Required) (cc_resource_required c) (cc_subject_version_required c)"

definition register_builtin :: "capability_contract \<Rightarrow> contract_registry \<Rightarrow> contract_registry" where
  "register_builtin c g = \<lparr>cg_contracts = dict_set (cc_capability c) c (cg_contracts g),
     cg_rules = register_rule (full_rule c) (cg_rules g)\<rparr>"

definition register_contract :: "capability_contract \<Rightarrow> contract_registry \<Rightarrow> contract_registry" where
  "register_contract c g = \<lparr>cg_contracts = dict_set (cc_capability c) c (cg_contracts g),
     cg_rules = register_rule (short_rule c) (cg_rules g)\<rparr>"

definition rule_contract :: "effect_rule \<Rightarrow> capability_contract" where
  "rule_contract r = (make_contract (er_capability r) (er_impact_class r)
     (if er_impact_class r = Eff_Read then ''pure'' else ''reconcilable'') ''unknown''
     (if er_authorization_required r then Auth_Required else Auth_None)
     (if er_authorization_required r then ''standard'' else ''minimal'')
     (er_resource_required r) (er_version_required r) [] (er_blast_radius r) (er_exposure r))
     \<lparr>cc_recovery_timing := er_recovery_timing r\<rparr>"

definition register_effect_rule :: "effect_rule \<Rightarrow> contract_registry \<Rightarrow> contract_registry" where
  "register_effect_rule r g = \<lparr>cg_contracts = dict_set (er_capability r) (rule_contract r) (cg_contracts g),
     cg_rules = register_rule r (cg_rules g)\<rparr>"

definition new_contract_registry ::
    "capability_contract list \<Rightarrow> effect_registry option \<Rightarrow> contract_registry" where
  "new_contract_registry contracts supplied =
    (let rules = (case supplied of None \<Rightarrow> [] | Some rs \<Rightarrow> map snd rs);
         start = (case supplied of None \<Rightarrow> new_effect_registry [] | Some rs \<Rightarrow> rs);
         g1 = fold register_builtin builtin_contracts \<lparr>cg_contracts = [], cg_rules = start\<rparr>;
         g2 = fold register_contract contracts g1
     in g2\<lparr>cg_rules := fold register_rule rules (cg_rules g2)\<rparr>)"

definition effect_rule_of :: "string \<Rightarrow> contract_registry \<Rightarrow> effect_rule option" where
  "effect_rule_of capability g = resolve_rule capability (cg_rules g)"

definition has_explicit_rule :: "string \<Rightarrow> contract_registry \<Rightarrow> bool" where
  "has_explicit_rule capability g = has_rule capability (cg_rules g)"

text \<open>\<open>EffectContractMissing\<close> is the only exception \<open>resolve\<close> raises.\<close>

definition resolve_contract :: "string \<Rightarrow> contract_registry \<Rightarrow> capability_contract result" where
  "resolve_contract capability g = (case resolve_pattern capability (cg_contracts g) of
     Some c \<Rightarrow> Inr c
   | None \<Rightarrow>
       if is_side_effect_capability None capability
       then Inl (ForeignError (''EffectContractMissing: no authoritative effect rule for capability '' @ py_repr capability))
       else Inr (read_contract capability))"

definition get_or_none :: "string \<Rightarrow> contract_registry \<Rightarrow> capability_contract option" where
  "get_or_none capability g = (case resolve_contract capability g of Inl _ \<Rightarrow> None | Inr c \<Rightarrow> Some c)"

definition list_contracts :: "contract_registry \<Rightarrow> capability_contract list" where
  "list_contracts g = map snd (cg_contracts g)"

end
