(* ===== verification/Capability_Properties.thy ===== *)
theory Capability_Properties
  imports Capability_Contract
begin

text \<open>
  What the capability contracts guarantee: impact classes and procedure profiles are never lowered,
  and the contract registry and the effect rules the boundary reads stay in agreement over every
  history of registrations, for exact names and for patterns.
\<close>

section \<open>Impact classes\<close>

lemma level_or_zero_le: "level_or_zero s \<le> 5"
  by (auto simp: level_or_zero_def impact_order_def)

lemma levels_of_le: "l \<in> set (levels_of xs) \<Longrightarrow> l \<le> 5"
  unfolding levels_of_def
  by (induction xs) (auto simp: List.map_filter_simps impact_order_def split: option.splits if_splits)

lemma level_or_zero_impact_named: "l \<le> 5 \<Longrightarrow> level_or_zero (impact_named l d) = l"
proof -
  assume "l \<le> 5"
  then have "l \<in> {0, 1, 2, 3, 4, 5}" by auto
  then show ?thesis by (auto simp: level_or_zero_def impact_named_def impact_order_def)
qed

lemma Max_levels_le:
  "Max (set (level_or_zero c # levels_of xs)) \<le> 5"
  using levels_of_le level_or_zero_le by (subst Max_le_iff) auto

lemma Max_levels_max:
  "Max (set (level_or_zero c # levels_of [p, q])) =
    Max {level_or_zero c, (case p of None \<Rightarrow> 0 | Some s \<Rightarrow> level_or_zero s),
         (case q of None \<Rightarrow> 0 | Some s \<Rightarrow> level_or_zero s)}"
  by (auto simp: levels_of_def List.map_filter_simps level_or_zero_def max_def split: option.splits)

text \<open>The effective impact class is the highest of the contract's minimum, the provider's minimum
  and the class requested, reading an absent or unknown class as a read: neither the provider nor
  the caller can lower what the contract demands, and the method of a contract computes the same.
\<close>

theorem effective_impact_is_highest:
  "level_or_zero (compute_effective_impact minimum provider requested) =
     Max {level_or_zero minimum, (case provider of None \<Rightarrow> 0 | Some s \<Rightarrow> level_or_zero s),
          (case requested of None \<Rightarrow> 0 | Some s \<Rightarrow> level_or_zero s)}
   \<and> contract_effective_impact c requested provider =
       compute_effective_impact (invocation_effect_str (cc_minimum_impact_class c)) provider requested"
proof
  show "level_or_zero (compute_effective_impact minimum provider requested) =
     Max {level_or_zero minimum, (case provider of None \<Rightarrow> 0 | Some s \<Rightarrow> level_or_zero s),
          (case requested of None \<Rightarrow> 0 | Some s \<Rightarrow> level_or_zero s)}"
    unfolding compute_effective_impact_def Max_levels_max [symmetric]
    by (rule level_or_zero_impact_named [OF Max_levels_le])
  have "set (levels_of [requested, provider]) = set (levels_of [provider, requested])"
    by (auto simp: levels_of_def List.map_filter_simps split: option.splits)
  then show "contract_effective_impact c requested provider =
      compute_effective_impact (invocation_effect_str (cc_minimum_impact_class c)) provider requested"
    by (simp add: contract_effective_impact_def compute_effective_impact_def)
qed

section \<open>Procedure profiles\<close>

definition profile_level :: "string \<Rightarrow> nat option" where
  "profile_level p = map_of procedure_order p"

text \<open>The effective procedure profile is one of the profiles asked for and at least as strict as
  every one of them; a single unknown profile anywhere raises instead of choosing a weaker one.
\<close>

theorem procedure_profile_never_weaker:
  "case compute_effective_procedure_profile minimum requested of
     Inr p \<Rightarrow> profile_level p \<noteq> None
       \<and> (p = ''minimal'' \<and> (minimum = None \<or> minimum = Some []) \<or> minimum = Some p \<or> Some p \<in> set requested)
       \<and> (\<forall>m. minimum = Some m \<longrightarrow> m \<noteq> [] \<longrightarrow> the (profile_level m) \<le> the (profile_level p))
       \<and> (\<forall>q. Some q \<in> set requested \<longrightarrow> the (profile_level q) \<le> the (profile_level p))
   | Inl e \<Rightarrow> (\<exists>q. (Some q \<in> set requested \<or> minimum = Some q \<and> q \<noteq> []) \<and> profile_level q = None)"
proof -
  define first where "first = (case minimum of None \<Rightarrow> ''minimal'' | Some s \<Rightarrow> if s = [] then ''minimal'' else s)"
  let ?first = first
  let ?rest = "List.map_filter (\<lambda>x. x) requested"
  let ?k = "\<lambda>v. the (map_of procedure_order v)"
  have rest: "set ?rest = {q. Some q \<in> set requested}"
    by (induction requested) (auto simp: List.map_filter_simps split: option.splits)
  have minimal: "map_of procedure_order ''minimal'' = Some 0" by (simp add: procedure_order_def)
  have first: "q = ''minimal'' \<and> (minimum = None \<or> minimum = Some []) \<or> minimum = Some q" if "q = first" for q
    using that by (simp add: first_def split: option.split_asm if_split_asm)
  have least: "first = m" if "minimum = Some m" "m \<noteq> []" for m
    using that by (simp add: first_def)
  show ?thesis
  proof (cases "list_all (\<lambda>v. map_of procedure_order v \<noteq> None) (?first # ?rest)")
    case True
    let ?p = "py_max_by ?k ?first ?rest"
    have eq: "compute_effective_procedure_profile minimum requested = Inr ?p"
      unfolding compute_effective_procedure_profile_def Let_def first_def [symmetric] using True by (rule if_P)
    have mem: "?p \<in> insert ?first (set ?rest)" by (rule py_max_by_in)
    have ge: "?k x \<le> ?k ?p" if "x \<in> insert ?first (set ?rest)" for x by (rule py_max_by_ge [OF that])
    have known: "map_of procedure_order ?p \<noteq> None" using True mem by (auto simp: list_all_iff)
    have src: "?p = ''minimal'' \<and> (minimum = None \<or> minimum = Some []) \<or> minimum = Some ?p \<or> Some ?p \<in> set requested"
      using mem first [of ?p] rest by blast
    have g1: "\<forall>m. minimum = Some m \<longrightarrow> m \<noteq> [] \<longrightarrow> ?k m \<le> ?k ?p" using ge [of ?first] least by blast
    have g2: "\<forall>q. Some q \<in> set requested \<longrightarrow> ?k q \<le> ?k ?p" using ge rest by blast
    show ?thesis unfolding eq sum.case profile_level_def using known src g1 g2 by blast
  next
    case False
    then have eq: "compute_effective_procedure_profile minimum requested =
        Inl (ValueError ''unknown procedure profile; refusing to downgrade governance'')"
      unfolding compute_effective_procedure_profile_def Let_def first_def [symmetric] by (rule if_not_P)
    obtain q where q: "q \<in> insert ?first (set ?rest)" "map_of procedure_order q = None"
      using False by (auto simp: list_all_iff)
    then have "Some q \<in> set requested \<or> minimum = Some q \<and> q \<noteq> []"
    proof (cases "q = first")
      case True
      with first [of q] q(2) minimal have "minimum = Some q" "q \<noteq> ''minimal''" by auto
      moreover from this True have "q \<noteq> []" by (auto simp: first_def)
      ultimately show ?thesis by blast
    qed (use q(1) rest in blast)
    with q(2) show ?thesis unfolding eq sum.case profile_level_def by blast
  qed
qed

section \<open>Resolution by key\<close>

definition resolve_key :: "string \<Rightarrow> string list \<Rightarrow> string option" where
  "resolve_key capability ks =
    (if capability \<in> set ks then Some capability else find (pattern_matches capability) ks)"

lemma map_option_snd_find:
  "distinct (map fst d) \<Longrightarrow>
    map_option snd (find (\<lambda>(p, _). P p) d) = Option.bind (find P (map fst d)) (map_of d)"
proof (induction d)
  case Nil
  then show ?case by simp
next
  case (Cons a d)
  have "Option.bind (find P (map fst d)) (map_of d) = Option.bind (find P (map fst d)) (map_of (a # d))"
  proof (cases "find P (map fst d)")
    case None
    then show ?thesis by simp
  next
    case (Some k)
    then have "k \<in> set (map fst d)" by (auto simp: find_Some_iff dest: nth_mem)
    then have "k \<noteq> fst a" using Cons.prems by (metis distinct.simps(2) list.simps(9))
    then show ?thesis by (simp add: Some)
  qed
  then show ?case using Cons by (cases a) (auto simp: fun_upd_def)
qed

lemma resolve_pattern_key:
  "distinct (map fst d) \<Longrightarrow>
    resolve_pattern capability d = Option.bind (resolve_key capability (map fst d)) (map_of d)"
proof -
  assume d: "distinct (map fst d)"
  have key: "capability \<in> set (map fst d) \<longleftrightarrow> map_of d capability \<noteq> None" by (simp add: map_of_eq_None_iff)
  show ?thesis
  proof (cases "map_of d capability")
    case None
    then have "resolve_key capability (map fst d) = find (pattern_matches capability) (map fst d)"
      unfolding resolve_key_def using key by auto
    then show ?thesis unfolding resolve_pattern_def None option.case map_option_snd_find [OF d] by simp
  next
    case (Some x)
    then have "resolve_key capability (map fst d) = Some capability"
      unfolding resolve_key_def using key by auto
    then show ?thesis by (simp add: resolve_pattern_def Some)
  qed
qed

lemma find_append: "find P (xs @ ys) = (case find P xs of None \<Rightarrow> find P ys | Some x \<Rightarrow> Some x)"
  by (induction xs) auto

lemma find_unique:
  assumes "set xs = set ys" and "\<And>x y. x \<in> set xs \<Longrightarrow> y \<in> set xs \<Longrightarrow> P x \<Longrightarrow> P y \<Longrightarrow> x = y"
  shows "find P xs = find P ys"
proof (cases "find P xs")
  case None
  then have "find P ys = None" using assms(1) by (simp add: find_None_iff)
  then show ?thesis using None by simp
next
  case (Some x)
  then have x: "x \<in> set xs" "P x" by (auto simp: find_Some_iff)
  obtain y where y: "find P ys = Some y" using x assms(1) by (cases "find P ys") (auto simp: find_None_iff)
  then have "y \<in> set xs" "P y" using assms(1) by (auto simp: find_Some_iff)
  then show ?thesis using Some y x assms(2) by auto
qed

section \<open>The two registries\<close>

definition states_rule :: "capability_contract \<Rightarrow> effect_rule \<Rightarrow> bool" where
  "states_rule c r \<longleftrightarrow> cc_capability c = er_capability r \<and> cc_minimum_impact_class c = er_impact_class r
     \<and> ((cc_authorization_requirement c = Auth_Required) = er_authorization_required r)
     \<and> cc_resource_required c = er_resource_required r
     \<and> cc_subject_version_required c = er_version_required r"

lemma states_rules [simp]:
  "states_rule c (full_rule c)" "states_rule c (short_rule c)" "states_rule (rule_contract r) r"
  by (simp_all add: states_rule_def full_rule_def short_rule_def rule_contract_def make_rule_def make_contract_def)

definition contract_names :: "string list" where
  "contract_names = map cc_capability builtin_contracts"

definition rule_names :: "string list" where
  "rule_names = map er_capability builtin_effect_rules @ [''deploy.prod'', ''reason.generate'']"

definition registries_agree :: "contract_registry \<Rightarrow> bool" where
  "registries_agree g \<longleftrightarrow>
     distinct (map fst (cg_contracts g)) \<and> distinct (map fst (cg_rules g))
     \<and> (\<exists>ext. map fst (cg_contracts g) = contract_names @ ext \<and> map fst (cg_rules g) = rule_names @ ext)
     \<and> (\<forall>k. rel_option states_rule (map_of (cg_contracts g) k) (map_of (cg_rules g) k))"

lemma map_fst_dict_set:
  "map fst (dict_set k v d) = (if k \<in> set (map fst d) then map fst d else map fst d @ [k])"
  by (induction k v d rule: dict_set.induct) auto

lemma set_builtin_names: "set contract_names = set rule_names"
  by code_simp

lemma registries_agree_set:
  assumes g: "registries_agree g" and cr: "states_rule c r"
  shows "registries_agree \<lparr>cg_contracts = dict_set (er_capability r) c (cg_contracts g),
    cg_rules = dict_set (er_capability r) r (cg_rules g)\<rparr>"
proof -
  let ?k = "er_capability r"
  obtain ext where ext: "map fst (cg_contracts g) = contract_names @ ext" "map fst (cg_rules g) = rule_names @ ext"
    using g by (auto simp: registries_agree_def)
  have same: "?k \<in> set (map fst (cg_contracts g)) \<longleftrightarrow> ?k \<in> set (map fst (cg_rules g))"
    unfolding ext using set_builtin_names by simp
  have "\<exists>e. map fst (dict_set ?k c (cg_contracts g)) = contract_names @ e
      \<and> map fst (dict_set ?k r (cg_rules g)) = rule_names @ e"
    unfolding map_fst_dict_set using ext same by (cases "?k \<in> set (map fst (cg_rules g))") auto
  moreover have "rel_option states_rule (map_of (dict_set ?k c (cg_contracts g)) j) (map_of (dict_set ?k r (cg_rules g)) j)" for j
    using g cr by (simp add: registries_agree_def)
  moreover have "distinct (map fst (dict_set ?k c (cg_contracts g)))" "distinct (map fst (dict_set ?k r (cg_rules g)))"
    using g by (auto intro!: distinct_dict_set simp only: registries_agree_def)
  ultimately show ?thesis
    unfolding registries_agree_def contract_registry.simps by blast
qed

lemma register_contract_agrees: "registries_agree g \<Longrightarrow> registries_agree (register_contract c g)"
proof -
  have "er_capability (short_rule c) = cc_capability c" by (simp add: short_rule_def make_rule_def)
  moreover assume "registries_agree g"
  ultimately show ?thesis
    using registries_agree_set [of g c "short_rule c"] unfolding register_contract_def register_rule_def by simp
qed

lemma register_effect_rule_agrees: "registries_agree g \<Longrightarrow> registries_agree (register_effect_rule r g)"
  using registries_agree_set [of g "rule_contract r" r]
  by (simp add: register_effect_rule_def register_rule_def)

lemma fresh_registries_agree: "registries_agree (fold register_builtin builtin_contracts
    \<lparr>cg_contracts = [], cg_rules = new_effect_registry []\<rparr>)" (is "registries_agree ?g")
proof -
  have names: "map fst (cg_contracts ?g) = contract_names" "map fst (cg_rules ?g) = rule_names"
      "distinct contract_names" "distinct rule_names"
    by code_simp+
  have "list_all (\<lambda>k. rel_option states_rule (map_of (cg_contracts ?g) k) (map_of (cg_rules ?g) k)) contract_names"
    by code_simp
  then have in_names: "\<forall>k\<in>set contract_names. rel_option states_rule (map_of (cg_contracts ?g) k) (map_of (cg_rules ?g) k)"
    by (simp add: list_all_iff)
  have "rel_option states_rule (map_of (cg_contracts ?g) k) (map_of (cg_rules ?g) k)" for k
  proof (cases "k \<in> set contract_names")
    case True
    then show ?thesis using in_names by blast
  next
    case False
    then have "k \<notin> fst ` set (cg_contracts ?g)" "k \<notin> fst ` set (cg_rules ?g)"
      using names set_builtin_names by (metis list.set_map)+
    then show ?thesis by (simp add: map_of_eq_None_iff [symmetric])
  qed
  then show ?thesis unfolding registries_agree_def using names by auto
qed

text \<open>The operations on a registry that a runtime made without a registry of its own.\<close>

datatype registration = Reg_Contract capability_contract | Reg_Rule effect_rule

fun apply_registration :: "registration \<Rightarrow> contract_registry \<Rightarrow> contract_registry" where
  "apply_registration (Reg_Contract c) g = register_contract c g"
| "apply_registration (Reg_Rule r) g = register_effect_rule r g"

definition registry_after :: "capability_contract list \<Rightarrow> registration list \<Rightarrow> contract_registry" where
  "registry_after contracts ops = fold apply_registration ops (new_contract_registry contracts None)"

lemma fold_preserves: "(\<And>x s. P s \<Longrightarrow> P (f x s)) \<Longrightarrow> P s \<Longrightarrow> P (fold f xs s)"
  by (induction xs arbitrary: s) auto

lemma registry_after_agrees: "registries_agree (registry_after contracts ops)"
proof -
  have "registries_agree (new_contract_registry contracts None)"
    using fold_preserves [where P = registries_agree and f = register_contract, OF _ fresh_registries_agree, of contracts]
      register_contract_agrees
    by (simp add: new_contract_registry_def)
  moreover have "registries_agree g \<Longrightarrow> registries_agree (apply_registration x g)" for x g
    by (cases x) (simp_all add: register_contract_agrees register_effect_rule_agrees)
  ultimately show ?thesis
    unfolding registry_after_def by (intro fold_preserves [where P = registries_agree])
qed

text \<open>No two of the built-in patterns match one name.\<close>

lemma builtin_pattern:
  assumes "p \<in> set contract_names" and "pattern_matches capability p"
  shows "p \<in> {''deploy.*'', ''observe.*'', ''verify.*'', ''human.*'', ''reason.*''} \<and> capability \<noteq> [] \<and> hd p = hd capability"
proof -
  have all: "list_all (\<lambda>p. p \<noteq> ''*'' \<and> p \<noteq> [] \<and> (py_endswith p ''.*'' \<longrightarrow>
      p \<in> set [''deploy.*'', ''observe.*'', ''verify.*'', ''human.*'', ''reason.*''])) contract_names"
    by code_simp
  then have "p \<in> {''deploy.*'', ''observe.*'', ''verify.*'', ''human.*'', ''reason.*''}"
    using assms by (auto simp: list_all_iff pattern_matches_def)
  moreover have "py_startswith capability (take (length p - 2) p @ ''.'')"
    using all assms by (auto simp: list_all_iff pattern_matches_def)
  ultimately show ?thesis by (cases capability) (elim insertE emptyE; simp add: py_startswith_def)+
qed

lemma builtin_patterns_disjoint:
  assumes "p \<in> set contract_names" "q \<in> set contract_names" "pattern_matches capability p" "pattern_matches capability q"
  shows "p = q"
proof -
  have "inj_on hd {''deploy.*'', ''observe.*'', ''verify.*'', ''human.*'', ''reason.*''}"
    by (simp add: inj_on_def)
  then show ?thesis
    by (rule inj_onD) (simp_all only: builtin_pattern [OF assms(1,3)] builtin_pattern [OF assms(2,4)])
qed

lemma same_key_chosen:
  assumes "registries_agree g"
  shows "resolve_key capability (map fst (cg_contracts g)) = resolve_key capability (map fst (cg_rules g))"
proof -
  obtain ext where ext: "map fst (cg_contracts g) = contract_names @ ext" "map fst (cg_rules g) = rule_names @ ext"
    using assms by (auto simp: registries_agree_def)
  have "find (pattern_matches capability) contract_names = find (pattern_matches capability) rule_names"
    by (rule find_unique [OF set_builtin_names]) (rule builtin_patterns_disjoint)
  then show ?thesis unfolding ext resolve_key_def find_append using set_builtin_names by simp
qed


text \<open>
  Reliability declarations are not part of the agreement: a contract that declares a blast radius,
  an exposure and recovery timing loses all three in the rule \<open>register\<close> makes, although the same
  declarations of a built-in contract reach its rule.
\<close>

theorem registered_contract_loses_reliability:
  "map_option (\<lambda>r. (er_blast_radius r, er_exposure r, er_recovery_timing r))
     (effect_rule_of (cc_capability c) (register_contract c g)) = Some (None, None, None)
   \<and> map_option (\<lambda>r. (er_blast_radius r, er_exposure r, er_recovery_timing r))
     (effect_rule_of (cc_capability c) (register_builtin c g)) =
       Some (cc_blast_radius c, cc_exposure c, cc_recovery_timing c)"
  by (simp add: effect_rule_of_def resolve_rule_def resolve_pattern_def register_contract_def
      register_builtin_def register_rule_def short_rule_def full_rule_def make_rule_def)

text \<open>An unknown name that spells no side effect resolves to a contract that needs no authorization.\<close>

theorem unknown_transfer_needs_no_authorization:
  "resolve_contract ''payments.transfer'' (new_contract_registry [] None) = Inr (read_contract ''payments.transfer'')
   \<and> cc_authorization_requirement (read_contract ''payments.transfer'') = Auth_None"
proof
  have "resolve_pattern ''payments.transfer'' (cg_contracts (new_contract_registry [] None)) = None"
    by code_simp
  moreover have "\<not> is_side_effect_name ''payments.transfer''"
    by (simp add: is_side_effect_name_def has_any_prefix_def str_eval)
  ultimately show "resolve_contract ''payments.transfer'' (new_contract_registry [] None) =
      Inr (read_contract ''payments.transfer'')"
    by (simp add: resolve_contract_def is_side_effect_capability_def)
  show "cc_authorization_requirement (read_contract ''payments.transfer'') = Auth_None"
    by (simp add: read_contract_def make_contract_def)
qed

theorem procedure_profile_never_weaker_witness:
  "\<exists>p. compute_effective_procedure_profile (Some ''standard'') [Some ''minimal'', None] = Inr p
     \<and> 1 \<le> the (profile_level p)"
proof -
  have "\<exists>p. compute_effective_procedure_profile (Some ''standard'') [Some ''minimal'', None] = Inr p"
    by (simp add: compute_effective_procedure_profile_def procedure_order_def List.map_filter_simps)
  moreover have "profile_level ''standard'' = Some 1" by (simp add: profile_level_def procedure_order_def)
  ultimately show ?thesis
    using procedure_profile_never_weaker [where minimum = "Some ''standard''" and requested = "[Some ''minimal'', None]"] by auto
qed

end
