(* ===== verification/Procedure_Gates.thy ===== *)
theory Procedure_Gates
  imports Memory_Store Provider_Routing Policy_Engine
begin

text \<open>
  \<open>workflows/procedure.py\<close>: the gates of the three procedure profiles, the typed evidence each gate
  asks for, and the assessment of a work item and its run under a profile.

  The proofs handed to a check are dynamically typed.  An element of a proof list is a plain value, an
  object with attributes, or an authorization grant; of a grant only its identity and its validity
  are read.  Work and run are the runtime's models (the code also accepts dictionaries).
\<close>

section \<open>Profiles and their gates\<close>

datatype procedure_profile = Minimal | Standard | Enhanced

definition minimal_gates :: "string list" where
  "minimal_gates = [''purpose-identified'', ''execution-boundary'', ''result-confirmation'', ''failure-stop'']"

definition standard_extra :: "string list" where
  "standard_extra = [''candidate-considered'', ''evidence'', ''authorization'', ''verification'', ''rollback'', ''review'']"

definition enhanced_extra :: "string list" where
  "enhanced_extra = [''independent-verification'', ''role-separation'', ''challenge-path'', ''exposure-limit'',
     ''takeover'', ''recovery'', ''exit'', ''reauthorization'']"

fun profile_gates :: "procedure_profile \<Rightarrow> string list" where
  "profile_gates Minimal = minimal_gates"
| "profile_gates Standard = minimal_gates @ standard_extra"
| "profile_gates Enhanced = minimal_gates @ standard_extra @ enhanced_extra"

definition parse_profile :: "string \<Rightarrow> procedure_profile result" where
  "parse_profile s =
    (if s = ''minimal'' then Inr Minimal else if s = ''standard'' then Inr Standard
     else if s = ''enhanced'' then Inr Enhanced
     else Inl (ValueError (''unknown ProcedureProfile '' @ py_repr s @ '' -> configuration error / blocked (fail-closed)'')))"

definition gates_for_profile :: "string \<Rightarrow> string list result" where
  "gates_for_profile s = bindR (parse_profile s) (\<lambda>p. Inr (profile_gates p))"

section \<open>Obligation statuses\<close>

datatype gate_status =
    Os_Required | Os_Satisfied | Os_Not_Applicable | Os_Handed_Off | Os_Waived | Os_Blocked | Os_Open
  | Os_Expired | Os_Invalidated

datatype gate_obligation = Ob_Gate string | Ob_Typed obligation

record obligation_status =
  os_obligation :: gate_obligation
  os_status :: gate_status
  os_waiver_authority_ref :: "string option"
  os_reason :: "string option"
  os_checked_at :: time

text \<open>\<open>_check_waiver\<close>: a waiver needs an authority, and a typed hard boundary cannot be waived.\<close>

definition check_waiver :: "obligation_status \<Rightarrow> obligation_status result" where
  "check_waiver os =
     invalid_if (os_status os = Os_Waived \<and> (case os_waiver_authority_ref os of None \<Rightarrow> True | Some r \<Rightarrow> r = []))
       ''waived status must carry waiver_authority_ref''
    (invalid_if (os_status os = Os_Waived \<and> (case os_obligation os of Ob_Gate _ \<Rightarrow> False | Ob_Typed ob \<Rightarrow> \<not> ob_waivable ob))
       (''obligation '' @ (case os_obligation os of Ob_Gate g \<Rightarrow> g | Ob_Typed ob \<Rightarrow> ob_kind ob)
          @ '' is not waivable (hard boundary)'')
    (Inr os))"

definition gate_result :: "time \<Rightarrow> string \<Rightarrow> gate_status \<Rightarrow> string \<Rightarrow> obligation_status" where
  "gate_result ts gate status reason =
    \<lparr>os_obligation = Ob_Gate gate, os_status = status, os_waiver_authority_ref = None,
     os_reason = Some reason, os_checked_at = ts\<rparr>"

section \<open>Work, run and proofs\<close>

record work_fields =
  wf_metadata :: "(string, json) fmap"
  wf_kind :: string
  wf_inputs :: "string list"
  wf_artifact_refs :: "string list"

record run_fields =
  rf_metadata :: "(string, json) fmap"
  rf_status :: "run_status option"

definition extract_work_fields :: "work \<Rightarrow> work_fields" where
  "extract_work_fields w = \<lparr>wf_metadata = wk_metadata w, wf_kind = wk_kind w, wf_inputs = wk_inputs w,
     wf_artifact_refs = wk_artifact_refs w\<rparr>"

definition extract_run_fields :: "run \<Rightarrow> run_fields" where
  "extract_run_fields r = \<lparr>rf_metadata = rn_metadata r, rf_status = Some (rn_status r)\<rparr>"

definition no_work_fields :: work_fields where
  "no_work_fields = \<lparr>wf_metadata = fmempty, wf_kind = [], wf_inputs = [], wf_artifact_refs = []\<rparr>"

definition no_run_fields :: run_fields where
  "no_run_fields = \<lparr>rf_metadata = fmempty, rf_status = None\<rparr>"

text \<open>\<open>{**work_meta, **run_meta}\<close>: the run's value wins.\<close>

definition combined_metadata :: "work_fields \<Rightarrow> run_fields \<Rightarrow> (string, json) fmap" where
  "combined_metadata wo rf = wf_metadata wo ++\<^sub>f rf_metadata rf"

datatype proof_item =
    Item_Value pyval
  | Item_Object pydict
  | Item_Grant authorization_grant

datatype proof_value = Pf_Value pyval | Pf_List "proof_item list"

type_synonym proofs = "(string \<times> proof_value) list"

fun pf_truthy :: "proof_value \<Rightarrow> bool" where
  "pf_truthy (Pf_Value v) = pv_truthy v"
| "pf_truthy (Pf_List xs) = (xs \<noteq> [])"

definition pf_get :: "proofs \<Rightarrow> string \<Rightarrow> proof_value" where
  "pf_get ps k = (case map_of ps k of None \<Rightarrow> Pf_Value PNone | Some v \<Rightarrow> v)"

text \<open>\<open>proofs.get(a) or proofs.get(b) or ...\<close>: the first true value, or the last one.\<close>

fun pf_first :: "proofs \<Rightarrow> string list \<Rightarrow> proof_value" where
  "pf_first ps [] = Pf_Value PNone"
| "pf_first ps [k] = pf_get ps k"
| "pf_first ps (k # ks) = (if pf_truthy (pf_get ps k) then pf_get ps k else pf_first ps ks)"

definition pf_absent :: "proof_value \<Rightarrow> bool" where
  "pf_absent v \<longleftrightarrow> v = Pf_Value PNone"

text \<open>\<open>isinstance(v, list)\<close>, and \<open>isinstance(v, list) and v\<close>.\<close>

fun pf_list :: "proof_value \<Rightarrow> proof_item list option" where
  "pf_list (Pf_List xs) = Some xs"
| "pf_list (Pf_Value (PList xs)) = Some (map Item_Value xs)"
| "pf_list _ = None"

definition pf_items :: "proof_value \<Rightarrow> proof_item list" where
  "pf_items v = (case pf_list v of None \<Rightarrow> [] | Some xs \<Rightarrow> xs)"

definition any_pool :: "proofs \<Rightarrow> string list \<Rightarrow> bool" where
  "any_pool ps ks \<longleftrightarrow> list_ex (\<lambda>k. pf_items (pf_get ps k) \<noteq> []) ks"

fun item_dict :: "proof_item \<Rightarrow> pydict option" where
  "item_dict (Item_Value (PDict d)) = Some d"
| "item_dict _ = None"

text \<open>\<open>getattr(item, name, None)\<close>.\<close>

fun item_attr :: "proof_item \<Rightarrow> string \<Rightarrow> pyval" where
  "item_attr (Item_Object m) k = pd_get m k"
| "item_attr (Item_Grant g) k = (if k = ''id'' then PStr (ag_id g) else PNone)"
| "item_attr (Item_Value _) k = PNone"

text \<open>Membership in a set needs a hashable value; lists and dictionaries are not.\<close>

definition hashable :: "pyval \<Rightarrow> unit result" where
  "hashable v = (case v of PList _ \<Rightarrow> Inl (TypeError (''unhashable type: '' @ py_repr ''list''))
     | PDict _ \<Rightarrow> Inl (TypeError (''unhashable type: '' @ py_repr ''dict'')) | _ \<Rightarrow> Inr ())"

definition in_str_set :: "pyval \<Rightarrow> string list \<Rightarrow> bool result" where
  "in_str_set v ss = bindR (hashable v) (\<lambda>_. Inr (\<exists>s\<in>set ss. v = PStr s))"

fun any_result :: "('a \<Rightarrow> bool result) \<Rightarrow> 'a list \<Rightarrow> bool result" where
  "any_result f [] = Inr False"
| "any_result f (x # xs) = bindR (f x) (\<lambda>b. if b then Inr True else any_result f xs)"

text \<open>\<open>len(set(vs))\<close>.\<close>

definition distinct_count :: "pyval list \<Rightarrow> nat result" where
  "distinct_count vs = bindR (traverse hashable vs) (\<lambda>_. Inr (card (set (map (\<lambda>v. json_norm (to_json v)) vs))))"

section \<open>The typed checks\<close>

type_synonym verdict = "bool \<times> string"

definition nonblank_str :: "json \<Rightarrow> bool" where
  "nonblank_str v = (case v of JStr s \<Rightarrow> \<not> is_blank s | _ \<Rightarrow> False)"

definition has_purpose_typed :: "work_fields \<Rightarrow> (string, json) fmap \<Rightarrow> bool" where
  "has_purpose_typed wo meta \<longleftrightarrow>
     json_truthy (jget meta ''purpose_ref'') \<or> json_truthy (jget meta ''goal_ref'')
     \<or> nonblank_str (jget meta ''purpose'') \<or> nonblank_str (jget meta ''goal'')
     \<or> nonblank_str (jget meta ''canonical_purpose'')
     \<or> wf_kind wo = ''goal'' \<or> wf_kind wo = ''purpose''"

text \<open>
  The conditional expression of the source binds weaker than its \<open>or\<close>, so that the hint of
  \<open>authorization_grant_id\<close> counts only beside a list of \<open>authorization_refs\<close>.
\<close>

definition authorization_hint :: "(string, json) fmap \<Rightarrow> json" where
  "authorization_hint meta = (case jget meta ''authorization_refs'' of
     JList refs \<Rightarrow> jor (jget meta ''authorization_grant_id'') (case refs of [] \<Rightarrow> JNull | r # _ \<Rightarrow> r)
   | _ \<Rightarrow> JNull)"

definition item_grant_valid :: "env \<Rightarrow> time \<Rightarrow> proof_item \<Rightarrow> bool" where
  "item_grant_valid E t item = (case item of Item_Grant g \<Rightarrow> is_grant_valid E g t | _ \<Rightarrow> False)"

text \<open>\<open>clock i\<close> is the clock reading of the \<open>i\<close>-th validity check.\<close>

definition has_authorization_typed :: "env \<Rightarrow> (nat \<Rightarrow> time) \<Rightarrow> (string, json) fmap \<Rightarrow> proofs \<Rightarrow> verdict" where
  "has_authorization_typed E clock meta ps =
    (let grants = pf_first ps [''grants'', ''authorization_grants'', ''authorizations''] in
     if pf_absent grants then (False, ''authorization requires valid AuthorizationGrant typed record (hint alone insufficient)'')
     else if pf_items grants = [] then (False, ''authorization requires AuthorizationGrant list non-empty'')
     else
       (let hint = authorization_hint meta;
            valid = filter (\<lambda>(i, g). item_grant_valid E (clock i) g) (enumerate 0 (pf_items grants));
            matched = list_ex (\<lambda>(i, g). json_truthy hint \<and> py_eq (to_json (item_attr g ''id'')) hint) valid in
        if json_truthy hint then
          (if matched \<and> valid \<noteq> [] then (True, ''valid AuthorizationGrant matching hint'')
           else if matched then (False, ''hinted grant not valid'')
           else (False, ''authorization hint present but no matching valid grant in proofs (hint cannot satisfy alone)''))
        else if valid \<noteq> [] then (True, ''valid AuthorizationGrant present'')
        else (False, ''no valid AuthorizationGrant'')))"

definition evidence_types :: "string list" where
  "evidence_types = [''EvidenceArtifact'', ''Observation'']"

definition evidence_relations :: "string list" where
  "evidence_relations = [''supports'', ''derived-from'', ''records'', ''measured-by'', ''validated-under'', ''depends-on'']"

definition evidence_kinds :: "string list" where
  "evidence_kinds = [''container-observation'', ''promql-observation'', ''evidence'', ''observation'']"

definition has_attr :: "proof_item \<Rightarrow> string \<Rightarrow> bool" where
  "has_attr item k \<longleftrightarrow> (case item of Item_Object m \<Rightarrow> map_of m k \<noteq> None | _ \<Rightarrow> False)"

definition has_evidence_artifact :: "proof_item list \<Rightarrow> bool result" where
  "has_evidence_artifact arts =
    bindR (any_result (\<lambda>a. in_str_set (item_attr a ''record_type'') evidence_types)
             (filter (\<lambda>a. has_attr a ''record_type'') arts)) (\<lambda>b.
    if b then Inr True
    else if list_ex (\<lambda>a. \<exists>k\<in>set evidence_kinds. item_attr a ''kind'' = PStr k) arts then Inr True
    else any_result (\<lambda>a. case item_dict a of None \<Rightarrow> Inr False
             | Some d \<Rightarrow> in_str_set (pd_get d ''record_type'') evidence_types) arts)"

definition has_evidence_typed :: "proofs \<Rightarrow> verdict result" where
  "has_evidence_typed ps =
    (let arts = pf_first ps [''evidence_artifacts'', ''evidences'', ''records''];
         rels = pf_first ps [''relations'', ''record_relations''] in
     if pf_absent arts \<or> pf_absent rels
     then Inr (False, ''evidence requires EvidenceArtifact/Observation + typed relation (metadata artifact_refs hint insufficient)'')
     else if pf_items arts = [] then Inr (False, ''evidence requires EvidenceArtifact list'')
     else if pf_items rels = [] then Inr (False, ''evidence requires typed relations'')
     else bindR (has_evidence_artifact (pf_items arts)) (\<lambda>art.
       bindR (any_result (\<lambda>r. in_str_set (item_attr r ''relation_type'') evidence_relations) (pf_items rels)) (\<lambda>rel.
       Inr (if art \<and> rel then (True, ''EvidenceArtifact/Observation + typed relation present'')
         else if \<not> art then (False, ''missing EvidenceArtifact/Observation typed record'')
         else (False, ''missing typed evidence relation'')))))"

text \<open>\<open>getattr(x, k, None) or (x.get(k) if isinstance(x, dict) else None)\<close>.\<close>

definition attr_or_key :: "proof_item \<Rightarrow> string \<Rightarrow> pyval" where
  "attr_or_key x k = pv_or (item_attr x k) (case item_dict x of None \<Rightarrow> PNone | Some d \<Rightarrow> pd_get d k)"

definition has_verification_typed :: "proofs \<Rightarrow> verdict" where
  "has_verification_typed ps =
    (let vers = pf_first ps [''verification_results'', ''verifications'', ''closed_verifications''] in
     if \<not> pf_absent vers then
       (if pf_items vers \<noteq> [] then
          (if list_ex (\<lambda>v. attr_or_key v ''result'' = PStr ''pass'') (pf_items vers)
           then (True, ''VerificationResult pass present'')
           else (False, ''verification requires at least one passing VerificationResult''))
        else (False, ''verification requires VerificationResult typed record (metadata verified hint insufficient)''))
     else if list_ex (\<lambda>r. attr_or_key r ''relation_type''
             \<in> {PStr ''validated-under'', PStr ''tests'', PStr ''evaluated-by''}) (pf_items (pf_get ps ''relations''))
     then (True, ''verification typed relation present'')
     else (False, ''verification requires VerificationResult or typed relation (metadata hint insufficient)''))"

text \<open>The message of the first proof of independence that counts.\<close>

definition independence_message :: "proof_item \<Rightarrow> string option" where
  "independence_message p = (case item_dict p of
     Some d \<Rightarrow>
       if pv_truthy (pd_get d ''proof'') \<or> pv_truthy (pd_get d ''independent'') \<or> pv_truthy (pd_get d ''failure_domain_ok'')
       then Some ''failure-domain independence proven''
       else (case (map_of d ''verifier_domain'', map_of d ''executor_domain'') of
           (Some v, Some e) \<Rightarrow> if py_eq (to_json v) (to_json e) then None
             else Some ''verifier/executor failure domains distinct''
         | _ \<Rightarrow> None)
   | None \<Rightarrow> if pv_truthy (item_attr p ''independent'') \<or> pv_truthy (item_attr p ''proof'')
       then Some ''failure-domain proof present'' else None)"

definition has_independent_verification_typed :: "proofs \<Rightarrow> verdict" where
  "has_independent_verification_typed ps =
    (let indie = pf_first ps [''independence_proofs'', ''independent_verification_proofs'', ''failure_domain_proofs''] in
     if pf_absent indie
     then (False, ''independent-verification requires failure-domain proof (metadata independent_verification hint insufficient)'')
     else if pf_items indie = [] then (False, ''independent-verification requires failure-domain proof list'')
     else (case List.map_filter independence_message (pf_items indie) of
         m # _ \<Rightarrow> (True, m)
       | [] \<Rightarrow> (False, ''no valid failure-domain independence proof'')))"

definition has_rollback_typed :: "proofs \<Rightarrow> verdict" where
  "has_rollback_typed ps =
    (if list_ex (\<lambda>v. pf_items v \<noteq> []) [pf_first ps [''checkpoints'', ''rollback_proofs''],
          pf_first ps [''compensations'', ''compensation_plans''], pf_get ps ''recovery_procedures'']
     then (True, ''Checkpoint/CompensationPlan/RecoveryProcedure present'')
     else (False, ''rollback requires Checkpoint/CompensationPlan/RecoveryProcedure typed record (metadata rollback hint insufficient)''))"

text \<open>
  Of the failure-stop and of the challenge-path proofs only the presence matters: the loops over the
  elements and the code after them return the same verdict.
\<close>

definition has_failure_stop_typed :: "proofs \<Rightarrow> verdict" where
  "has_failure_stop_typed ps =
    (if any_pool ps [''failure_stop_proofs'', ''stop_conditions'', ''failure_policies'', ''circuit_breaker_policies'',
          ''human_stop_authorities'', ''recovery_abort_paths'', ''stop_authorities'']
     then (True, ''failure-stop typed proof present'')
     else (False, ''failure-stop requires typed StopCondition/FailurePolicy/CircuitBreaker/HumanStopAuthority/RecoveryAbortPath (metadata boolean insufficient)''))"

definition three_actors :: "pyval \<Rightarrow> pyval \<Rightarrow> pyval \<Rightarrow> bool result" where
  "three_actors dec exe ver =
    (if pv_truthy dec \<and> pv_truthy exe \<and> pv_truthy ver
     then bindR (distinct_count [dec, exe, ver]) (\<lambda>n. Inr (n = 3)) else Inr False)"

definition separation_message :: "proof_item \<Rightarrow> string option result" where
  "separation_message entry = (case item_dict entry of
     Some d \<Rightarrow>
       bindR (three_actors (pv_or (pd_get d ''decision_actor'') (pd_get d ''decision''))
           (pv_or (pd_get d ''execution_actor'') (pd_get d ''execution''))
           (pv_or (pd_get d ''verification_actor'') (pd_get d ''verification''))) (\<lambda>three.
       if three then
         (let dm = pv_or (pd_get d ''dimension'') (pd_get d ''separation_dimension'') in
          Inr (Some (if pv_truthy dm then ''role-separation proven in dimension '' @ pv_str dm
            else ''role-separation three actors distinct'')))
       else (case pd_get d ''actors'' of
           PList actors \<Rightarrow>
             if 3 \<le> length actors
             then bindR (distinct_count actors) (\<lambda>n. Inr (if 3 \<le> n then Some ''role-separation actors distinct'' else None))
             else Inr None
         | _ \<Rightarrow> Inr None))
   | None \<Rightarrow>
       bindR (three_actors (item_attr entry ''decision_actor'') (item_attr entry ''execution_actor'')
           (item_attr entry ''verification_actor'')) (\<lambda>three.
       Inr (if three then Some ''role-separation three actors distinct'' else None)))"

fun first_message :: "('a \<Rightarrow> string option result) \<Rightarrow> 'a list \<Rightarrow> string option result" where
  "first_message f [] = Inr None"
| "first_message f (x # xs) = bindR (f x) (\<lambda>m. if m = None then first_message f xs else Inr m)"

definition has_role_separation_typed :: "proofs \<Rightarrow> verdict result" where
  "has_role_separation_typed ps =
    (let pools = pf_first ps [''role_proofs'', ''role_separation_proofs'', ''separation_proofs''] in
     if pf_items pools = []
     then Inr (False, ''role-separation requires typed proof with three distinct actors (decision/execution/verification) in separate dimensions'')
     else bindR (first_message separation_message (pf_items pools)) (\<lambda>m. Inr (case m of
         Some msg \<Rightarrow> (True, msg)
       | None \<Rightarrow> (False, ''role-separation requires three distinct actors (decision/execution/verification) proof''))))"

definition has_challenge_path_typed :: "proofs \<Rightarrow> verdict" where
  "has_challenge_path_typed ps =
    (if any_pool ps [''challenge_proofs'', ''challenge_capabilities'', ''escalation_routes'', ''dissent_channels'', ''challenge_paths'']
     then (True, ''challenge-path typed proof present'')
     else (False, ''challenge-path requires ChallengeCapability/EscalationRoute/DissentChannel typed proof (metadata boolean insufficient)''))"

definition has_exposure_limit_typed :: "proofs \<Rightarrow> verdict" where
  "has_exposure_limit_typed ps =
    (if pf_items (pf_first ps [''exposure_proofs'', ''blast_radius_proofs'', ''exposure_limits'']) \<noteq> []
       \<or> (case pf_first ps [''exposure_limit'', ''blast_radius''] of Pf_Value (PDict d) \<Rightarrow> d \<noteq> [] | _ \<Rightarrow> False)
     then (True, ''exposure-limit typed proof present'')
     else (False, ''exposure-limit requires typed BlastRadius/ExposureLimit proof (metadata boolean insufficient)''))"

definition has_takeover_typed :: "proofs \<Rightarrow> verdict" where
  "has_takeover_typed ps =
    (if any_pool ps [''takeover_proofs'', ''takeover_procedures'', ''recovery_authorities'', ''alternative_operators'', ''takeover_ready_proofs'']
     then (True, ''takeover typed proof present'')
     else (False, ''takeover requires TakeoverProcedure/RecoveryAuthority/AlternativeOperator typed proof (metadata boolean insufficient)''))"

definition has_exit_typed :: "proofs \<Rightarrow> verdict" where
  "has_exit_typed ps =
    (if any_pool ps [''exit_proofs'', ''stop_procedures'', ''migration_paths'', ''shutdown_capabilities'', ''orderly_exit_proofs'']
     then (True, ''exit typed proof present'')
     else (False, ''exit requires StopProcedure/MigrationPath/ShutdownCapability typed proof (metadata boolean insufficient)''))"

definition has_reauthorization_typed :: "proofs \<Rightarrow> verdict" where
  "has_reauthorization_typed ps =
    (if pf_items (pf_first ps [''reauthorization_proofs'', ''reauthorization_grants'', ''reapproved_grants'']) \<noteq> []
     then (True, ''reauthorization typed proof present'')
     else (False, ''reauthorization requires typed Reauthorization proof (metadata boolean insufficient)''))"

section \<open>One gate\<close>

definition has_boundary :: "work_fields \<Rightarrow> (string, json) fmap \<Rightarrow> bool" where
  "has_boundary wo meta \<longleftrightarrow> json_truthy (jget meta ''execution_boundary'') \<or> json_truthy (jget meta ''resource_scope'')
     \<or> wf_inputs wo \<noteq> [] \<or> wf_artifact_refs wo \<noteq> []"

definition has_result :: "run_fields \<Rightarrow> (string, json) fmap \<Rightarrow> bool" where
  "has_result rf meta \<longleftrightarrow> rf_status rf \<in> {Some Run_Succeeded, Some Run_Failed, Some Run_Blocked, Some Run_Waiting}
     \<or> json_truthy (jget meta ''result_confirmed'') \<or> json_truthy (jget meta ''outcome_refs'')"

definition has_candidate :: "(string, json) fmap \<Rightarrow> bool" where
  "has_candidate meta \<longleftrightarrow> json_truthy (jget meta ''candidate'') \<or> json_truthy (jget meta ''candidates'')
     \<or> json_truthy (jget meta ''options'')"

definition has_review :: "(string, json) fmap \<Rightarrow> bool" where
  "has_review meta \<longleftrightarrow> json_truthy (jget meta ''reviewed'') \<or> json_truthy (jget meta ''human_review'')
     \<or> json_truthy (jget meta ''decision_refs'')"

definition of_verdict :: "verdict \<Rightarrow> gate_status \<times> string" where
  "of_verdict v = ((if fst v then Os_Satisfied else Os_Open), snd v)"

definition review_verdict :: "(string, json) fmap \<Rightarrow> proofs \<Rightarrow> gate_status \<times> string" where
  "review_verdict meta ps =
    (if pf_items (pf_first ps [''decisions'', ''decision_records'']) \<noteq> [] then (Os_Satisfied, ''decision record present'')
     else if has_review meta then (Os_Open, ''review hint present but no Decision typed record'')
     else (Os_Open, ''review requires Decision typed record (metadata reviewed hint insufficient)''))"

definition check_gate ::
    "env \<Rightarrow> (nat \<Rightarrow> time) \<Rightarrow> work_fields \<Rightarrow> run_fields \<Rightarrow> proofs \<Rightarrow> string \<Rightarrow> (gate_status \<times> string) result" where
  "check_gate E clock wo rf ps gate =
    (let meta = combined_metadata wo rf in
     if gate = ''purpose-identified'' then Inr (of_verdict (if has_purpose_typed wo meta
         then (True, ''typed purpose/goal record present'')
         else (False, ''missing typed Goal/purpose record (title alone insufficient)'')))
     else if gate = ''execution-boundary'' then Inr (of_verdict (if has_boundary wo meta
         then (True, ''boundary present'') else (False, ''missing execution_boundary/resource_scope/inputs'')))
     else if gate = ''result-confirmation'' then Inr (of_verdict (if has_result rf meta
         then (True, ''result present'') else (False, ''missing result confirmation'')))
     else if gate = ''failure-stop'' then Inr (of_verdict (has_failure_stop_typed ps))
     else if gate = ''candidate-considered'' then Inr (of_verdict (if has_candidate meta
         then (True, ''candidates present'') else (False, ''missing candidates/options'')))
     else if gate = ''evidence'' then bindR (has_evidence_typed ps) (\<lambda>v. Inr (of_verdict v))
     else if gate = ''authorization'' then Inr (of_verdict (has_authorization_typed E clock meta ps))
     else if gate = ''verification'' then Inr (of_verdict (has_verification_typed ps))
     else if gate = ''rollback'' then Inr (of_verdict (has_rollback_typed ps))
     else if gate = ''review'' then Inr (review_verdict meta ps)
     else if gate = ''independent-verification'' then Inr (of_verdict (has_independent_verification_typed ps))
     else if gate = ''role-separation'' then bindR (has_role_separation_typed ps) (\<lambda>v. Inr (of_verdict v))
     else if gate = ''challenge-path'' then Inr (of_verdict (has_challenge_path_typed ps))
     else if gate = ''exposure-limit'' then Inr (of_verdict (has_exposure_limit_typed ps))
     else if gate = ''takeover'' then Inr (of_verdict (has_takeover_typed ps))
     else if gate = ''recovery'' then Inr (of_verdict (has_rollback_typed ps))
     else if gate = ''exit'' then Inr (of_verdict (has_exit_typed ps))
     else if gate = ''reauthorization'' then Inr (of_verdict (has_reauthorization_typed ps))
     else Inr (Os_Open, ''unknown gate '' @ gate))"

section \<open>The assessment of a profile\<close>

text \<open>The keyword arguments that are given replace the entries of \<open>proofs\<close>, in this order.\<close>

definition merge_proofs :: "proofs option \<Rightarrow> (string \<times> proof_value option) list \<Rightarrow> proofs \<Rightarrow> proofs" where
  "merge_proofs ps kwargs extra =
    (let start = (case ps of None \<Rightarrow> [] | Some d \<Rightarrow> d);
         named = fold (\<lambda>(k, v) d. case v of None \<Rightarrow> d | Some x \<Rightarrow> dict_set k x d) kwargs start
     in fold (\<lambda>(k, v) d. dict_set k v d) extra named)"

definition procedure_kwargs ::
    "proof_value option \<Rightarrow> proof_value option \<Rightarrow> proof_value option \<Rightarrow> proof_value option \<Rightarrow> proof_value option
      \<Rightarrow> proof_value option \<Rightarrow> (string \<times> proof_value option) list" where
  "procedure_kwargs grants evidence relations verifications independence checkpoints =
    [(''grants'', grants), (''evidence_artifacts'', evidence), (''relations'', relations),
     (''verification_results'', verifications), (''independence_proofs'', independence), (''checkpoints'', checkpoints)]"

definition json_hashable :: "json \<Rightarrow> unit result" where
  "json_hashable v = (case v of JList _ \<Rightarrow> Inl (TypeError (''unhashable type: '' @ py_repr ''list''))
     | JObj _ \<Rightarrow> Inl (TypeError (''unhashable type: '' @ py_repr ''dict'')) | _ \<Rightarrow> Inr ())"

definition invalidated_gates :: "(string, json) fmap \<Rightarrow> json list result" where
  "invalidated_gates meta = (case jget meta ''invalidated_gates'' of
     JList gs \<Rightarrow> bindR (traverse json_hashable gs) (\<lambda>_. Inr gs)
   | _ \<Rightarrow> Inr [])"

definition waived_status :: "time \<Rightarrow> string \<Rightarrow> string \<Rightarrow> obligation_status" where
  "waived_status ts gate by_whom =
    (case check_waiver ((gate_result ts gate Os_Waived ''waived per authority'')\<lparr>os_waiver_authority_ref := Some by_whom\<rparr>) of
       Inr os \<Rightarrow> os
     | Inl (ValidationError m) \<Rightarrow> gate_result ts gate Os_Blocked m
     | Inl _ \<Rightarrow> gate_result ts gate Os_Blocked [])"

definition assess_gate ::
    "env \<Rightarrow> (nat \<Rightarrow> time) \<Rightarrow> time \<Rightarrow> work_fields \<Rightarrow> run_fields \<Rightarrow> (string \<times> string) list \<Rightarrow> string set \<Rightarrow> proofs
      \<Rightarrow> json list \<Rightarrow> string \<Rightarrow> obligation_status result" where
  "assess_gate E clock ts wo rf waivers handed_off ps invalidated gate =
    (let meta = combined_metadata wo rf in
     if JStr gate \<in> set invalidated then Inr (gate_result ts gate Os_Invalidated ''gate invalidated by revalidation'')
     else if gate = ''authorization'' \<and> json_truthy (jget meta ''authorization_expired'')
       then Inr (gate_result ts gate Os_Expired ''authorization expired'')
     else (case map_of waivers gate of
         Some by_whom \<Rightarrow> Inr (waived_status ts gate by_whom)
       | None \<Rightarrow>
         if gate \<in> handed_off then Inr (gate_result ts gate Os_Handed_Off ''responsibility delegated'')
         else if json_truthy (jget meta (gate @ ''_blocked''))
           then Inr (gate_result ts gate Os_Blocked (gate @ '' blocked by policy''))
         else bindR (check_gate E clock wo rf ps gate) (\<lambda>(status, reason). Inr (gate_result ts gate status reason))))"

definition check_procedure ::
    "env \<Rightarrow> (nat \<Rightarrow> time) \<Rightarrow> time \<Rightarrow> work_fields \<Rightarrow> run_fields \<Rightarrow> string \<Rightarrow> (string \<times> string) list \<Rightarrow> string set
      \<Rightarrow> proofs \<Rightarrow> obligation_status list result" where
  "check_procedure E clock ts wo rf profile waivers handed_off ps =
    bindR (gates_for_profile profile) (\<lambda>gates.
    bindR (invalidated_gates (combined_metadata wo rf)) (\<lambda>invalidated.
    traverse (assess_gate E clock ts wo rf waivers handed_off ps invalidated) gates))"

definition is_procedure_blocked :: "obligation_status list \<Rightarrow> bool" where
  "is_procedure_blocked statuses \<longleftrightarrow>
     list_ex (\<lambda>s. os_status s \<in> {Os_Blocked, Os_Open, Os_Required}
       \<and> os_obligation s \<in> {Ob_Gate ''authorization'', Ob_Gate ''verification''}) statuses
     \<or> list_ex (\<lambda>s. os_status s = Os_Blocked) statuses"

section \<open>Requiring a gate\<close>

text \<open>
  \<open>require_context_gate\<close>: the gate is remembered in the metadata of the run, the run is saved when
  there is a store, whose refusal is ignored, and the gate is checked without proofs.
\<close>

definition remember_gate :: "string \<Rightarrow> run \<Rightarrow> run" where
  "remember_gate gate r = (let req = (case jget (rn_metadata r) ''required_gates'' of JList xs \<Rightarrow> xs | _ \<Rightarrow> []) in
     r\<lparr>rn_metadata := fmupd ''required_gates'' (JList (if JStr gate \<in> set req then req else req @ [JStr gate])) (rn_metadata r)\<rparr>)"

definition ignore_errors :: "('s, unit) io \<Rightarrow> ('s, unit) io" where
  "ignore_errors m s = (Inr (), snd (m s))"

definition require_context_gate ::
    "env \<Rightarrow> graph_check option \<Rightarrow> (nat \<Rightarrow> time) \<Rightarrow> time \<Rightarrow> work option \<Rightarrow> run option \<Rightarrow> string
      \<Rightarrow> (store, obligation_status \<times> run option) io" where
  "require_context_gate E G clock ts w r gate =
    (let r' = map_option (remember_gate gate) r in
     bindI (case (G, r') of (Some g, Some run) \<Rightarrow> ignore_errors (save_run g run) | _ \<Rightarrow> retI ()) (\<lambda>_.
     bindI (readI (\<lambda>_. check_gate E clock
        (case w of None \<Rightarrow> no_work_fields | Some v \<Rightarrow> extract_work_fields v)
        (case r' of None \<Rightarrow> no_run_fields | Some v \<Rightarrow> extract_run_fields v) [] gate)) (\<lambda>(status, reason).
     retI (gate_result ts gate (if status = Os_Open then Os_Required else status) reason, r'))))"

end
