(* ===== verification/Procedure_Properties.thy ===== *)
theory Procedure_Properties
  imports Procedure_Gates
begin

text \<open>
  What a procedure assessment guarantees: a gate that asks for typed evidence is satisfied by such
  evidence only, whatever the metadata of work and run say, every gate of the profile is accounted
  for once, and a stricter profile never lets through what a weaker one stops.
\<close>

section \<open>Typed evidence\<close>

text \<open>The gates decided by metadata, and the proof lists each other gate reads.\<close>

definition metadata_gates :: "string list" where
  "metadata_gates = [''purpose-identified'', ''execution-boundary'', ''result-confirmation'', ''candidate-considered'']"

definition gate_proof_keys :: "string \<Rightarrow> string list" where
  "gate_proof_keys gate =
    (if gate = ''failure-stop'' then [''failure_stop_proofs'', ''stop_conditions'', ''failure_policies'', ''circuit_breaker_policies'',
       ''human_stop_authorities'', ''recovery_abort_paths'', ''stop_authorities'']
     else if gate = ''evidence'' then [''evidence_artifacts'', ''evidences'', ''records'']
     else if gate = ''authorization'' then [''grants'', ''authorization_grants'', ''authorizations'']
     else if gate = ''verification'' then [''verification_results'', ''verifications'', ''closed_verifications'', ''relations'']
     else if gate = ''rollback'' \<or> gate = ''recovery''
       then [''checkpoints'', ''rollback_proofs'', ''compensations'', ''compensation_plans'', ''recovery_procedures'']
     else if gate = ''review'' then [''decisions'', ''decision_records'']
     else if gate = ''independent-verification''
       then [''independence_proofs'', ''independent_verification_proofs'', ''failure_domain_proofs'']
     else if gate = ''role-separation'' then [''role_proofs'', ''role_separation_proofs'', ''separation_proofs'']
     else if gate = ''challenge-path''
       then [''challenge_proofs'', ''challenge_capabilities'', ''escalation_routes'', ''dissent_channels'', ''challenge_paths'']
     else if gate = ''exposure-limit''
       then [''exposure_proofs'', ''blast_radius_proofs'', ''exposure_limits'', ''exposure_limit'', ''blast_radius'']
     else if gate = ''takeover''
       then [''takeover_proofs'', ''takeover_procedures'', ''recovery_authorities'', ''alternative_operators'', ''takeover_ready_proofs'']
     else if gate = ''exit''
       then [''exit_proofs'', ''stop_procedures'', ''migration_paths'', ''shutdown_capabilities'', ''orderly_exit_proofs'']
     else if gate = ''reauthorization''
       then [''reauthorization_proofs'', ''reauthorization_grants'', ''reapproved_grants'']
     else [])"

definition has_proof :: "proofs \<Rightarrow> string list \<Rightarrow> bool" where
  "has_proof ps ks \<longleftrightarrow> list_ex (\<lambda>k. pf_truthy (pf_get ps k)) ks"

lemma pf_items_truthy: "pf_items v \<noteq> [] \<Longrightarrow> pf_truthy v"
  by (cases v rule: pf_list.cases) (auto simp: pf_items_def)

lemma pf_first_truthy: "pf_truthy (pf_first ps ks) \<Longrightarrow> has_proof ps ks"
  by (induction ps ks rule: pf_first.induct) (auto simp: has_proof_def split: if_splits)

lemma pf_first_items: "pf_items (pf_first ps ks) \<noteq> [] \<Longrightarrow> has_proof ps ks"
  by (rule pf_first_truthy) (rule pf_items_truthy)

lemma any_pool_proof: "any_pool ps ks \<Longrightarrow> has_proof ps ks"
  by (auto simp: any_pool_def has_proof_def list_ex_iff dest: pf_items_truthy)

lemma has_proof_append: "has_proof ps (ks @ ls) \<longleftrightarrow> has_proof ps ks \<or> has_proof ps ls"
  by (simp add: has_proof_def)

lemma has_proof_mono: "has_proof ps ks \<Longrightarrow> set ks \<subseteq> set ls \<Longrightarrow> has_proof ps ls"
  by (auto simp: has_proof_def list_ex_iff)

lemma failure_stop_proof: "fst (has_failure_stop_typed ps) \<Longrightarrow> has_proof ps (gate_proof_keys ''failure-stop'')"
  by (auto simp: has_failure_stop_typed_def gate_proof_keys_def split: if_splits intro: any_pool_proof)

lemma evidence_proof: "has_evidence_typed ps = Inr v \<Longrightarrow> fst v \<Longrightarrow> has_proof ps (gate_proof_keys ''evidence'')"
  by (auto simp: has_evidence_typed_def gate_proof_keys_def Let_def split: if_splits intro: pf_first_items)

lemma authorization_proof:
  assumes "fst (has_authorization_typed E clock meta ps)"
  shows "has_proof ps (gate_proof_keys ''authorization'')"
    and "\<exists>g i. Item_Grant g \<in> set (pf_items (pf_first ps (gate_proof_keys ''authorization''))) \<and> is_grant_valid E g (clock i)"
proof -
  let ?items = "pf_items (pf_first ps [''grants'', ''authorization_grants'', ''authorizations''])"
  let ?valid = "filter (\<lambda>(i, g). item_grant_valid E (clock i) g) (enumerate 0 ?items)"
  have keys: "gate_proof_keys ''authorization'' = [''grants'', ''authorization_grants'', ''authorizations'']"
    by (simp add: gate_proof_keys_def)
  have items: "?items \<noteq> []" and valid: "?valid \<noteq> []"
    using assms by (auto simp: has_authorization_typed_def Let_def split: if_splits)
  show "has_proof ps (gate_proof_keys ''authorization'')"
    unfolding keys by (rule pf_first_items) (rule items)
  obtain i g where ig: "(i, g) \<in> set (enumerate 0 ?items)" "item_grant_valid E (clock i) g"
    using valid by (auto simp: filter_empty_conv)
  have "g \<in> set ?items" using ig(1) by (auto simp: in_set_enumerate_eq)
  moreover from ig(2) obtain h where "g = Item_Grant h" "is_grant_valid E h (clock i)"
    by (cases g) (auto simp: item_grant_valid_def)
  ultimately show "\<exists>g i. Item_Grant g \<in> set (pf_items (pf_first ps (gate_proof_keys ''authorization''))) \<and> is_grant_valid E g (clock i)"
    unfolding keys by blast
qed

lemma verification_proof: "fst (has_verification_typed ps) \<Longrightarrow> has_proof ps (gate_proof_keys ''verification'')"
proof -
  assume v: "fst (has_verification_typed ps)"
  have "pf_items (pf_first ps [''verification_results'', ''verifications'', ''closed_verifications'']) \<noteq> []
      \<or> pf_items (pf_first ps [''relations'']) \<noteq> []"
    using v by (auto simp: has_verification_typed_def Let_def split: if_splits)
  then show ?thesis
    by (elim disjE) (drule pf_first_items, erule has_proof_mono, simp add: gate_proof_keys_def)+
qed

lemma rollback_proof: "fst (has_rollback_typed ps) \<Longrightarrow> has_proof ps (gate_proof_keys ''rollback'')"
proof -
  assume v: "fst (has_rollback_typed ps)"
  have "pf_items (pf_first ps [''checkpoints'', ''rollback_proofs'']) \<noteq> []
      \<or> pf_items (pf_first ps [''compensations'', ''compensation_plans'']) \<noteq> []
      \<or> pf_items (pf_first ps [''recovery_procedures'']) \<noteq> []"
    using v by (auto simp: has_rollback_typed_def split: if_splits)
  then show ?thesis
    by (elim disjE) (drule pf_first_items, erule has_proof_mono, simp add: gate_proof_keys_def)+
qed

lemma review_proof: "review_verdict meta ps = (Os_Satisfied, msg) \<Longrightarrow> has_proof ps (gate_proof_keys ''review'')"
  by (auto simp: review_verdict_def gate_proof_keys_def split: if_splits intro: pf_first_items)

lemma independence_proof:
  "fst (has_independent_verification_typed ps) \<Longrightarrow> has_proof ps (gate_proof_keys ''independent-verification'')"
  by (auto simp: has_independent_verification_typed_def gate_proof_keys_def Let_def split: if_splits intro: pf_first_items)

lemma role_proof: "has_role_separation_typed ps = Inr v \<Longrightarrow> fst v \<Longrightarrow> has_proof ps (gate_proof_keys ''role-separation'')"
  by (auto simp: has_role_separation_typed_def gate_proof_keys_def Let_def split: if_splits intro: pf_first_items)

lemma challenge_proof: "fst (has_challenge_path_typed ps) \<Longrightarrow> has_proof ps (gate_proof_keys ''challenge-path'')"
  by (auto simp: has_challenge_path_typed_def gate_proof_keys_def split: if_splits intro: any_pool_proof)

lemma exposure_proof: "fst (has_exposure_limit_typed ps) \<Longrightarrow> has_proof ps (gate_proof_keys ''exposure-limit'')"
proof -
  assume v: "fst (has_exposure_limit_typed ps)"
  have "pf_truthy (pf_first ps [''exposure_proofs'', ''blast_radius_proofs'', ''exposure_limits''])
      \<or> pf_truthy (pf_first ps [''exposure_limit'', ''blast_radius''])"
    using v pf_items_truthy
    by (auto simp: has_exposure_limit_typed_def split: if_splits proof_value.splits pyval.splits)
  then show ?thesis
    by (elim disjE) (drule pf_first_truthy, erule has_proof_mono, simp add: gate_proof_keys_def)+
qed

lemma takeover_proof: "fst (has_takeover_typed ps) \<Longrightarrow> has_proof ps (gate_proof_keys ''takeover'')"
  by (auto simp: has_takeover_typed_def gate_proof_keys_def split: if_splits intro: any_pool_proof)

lemma exit_proof: "fst (has_exit_typed ps) \<Longrightarrow> has_proof ps (gate_proof_keys ''exit'')"
  by (auto simp: has_exit_typed_def gate_proof_keys_def split: if_splits intro: any_pool_proof)

lemma reauthorization_proof: "fst (has_reauthorization_typed ps) \<Longrightarrow> has_proof ps (gate_proof_keys ''reauthorization'')"
  by (auto simp: has_reauthorization_typed_def gate_proof_keys_def split: if_splits intro: pf_first_items)

lemma of_verdict_satisfied [simp]: "of_verdict v = (Os_Satisfied, msg) \<longleftrightarrow> fst v \<and> snd v = msg"
  by (simp add: of_verdict_def)

lemma recovery_proof: "fst (has_rollback_typed ps) \<Longrightarrow> has_proof ps (gate_proof_keys ''recovery'')"
  using rollback_proof [of ps] by (simp add: gate_proof_keys_def)

lemmas gate_proofs = failure_stop_proof evidence_proof authorization_proof(1) verification_proof rollback_proof
  review_proof independence_proof role_proof challenge_proof exposure_proof takeover_proof exit_proof
  reauthorization_proof recovery_proof

lemma check_gate_known:
  "check_gate E clock wo rf ps gate = Inr (Os_Satisfied, msg) \<Longrightarrow> gate \<in> set (profile_gates Enhanced)"
  by (rule ccontr) (simp add: check_gate_def minimal_gates_def standard_extra_def enhanced_extra_def)


definition proof_sample :: proofs where
  "proof_sample = [(''grants'', Pf_List [Item_Grant sample_grant])]"

lemma sample_grant_is_valid: "is_grant_valid E sample_grant 20"
  by (simp add: is_grant_valid_def validate_grant_def sample_grant_def
      effect_level_def effect_order_def str_eval)

lemma sample_authorization:
  assumes "\<not> json_truthy (authorization_hint meta)"
  shows "has_authorization_typed E (\<lambda>_. 20) meta proof_sample = (True, ''valid AuthorizationGrant present'')"
  using assms sample_grant_is_valid
  by (simp add: has_authorization_typed_def proof_sample_def pf_get_def pf_absent_def pf_items_def item_grant_valid_def Let_def)


section \<open>The assessment\<close>

lemma assess_gate_obligation:
  "assess_gate E clock ts wo rf waivers handed_off ps dead gate = Inr s \<Longrightarrow> os_obligation s = Ob_Gate gate"
  by (auto simp: assess_gate_def gate_result_def waived_status_def check_waiver_def Let_def invalid_if_def
      split: if_splits option.splits sum.splits py_error.splits)

lemma traverse_map:
  "traverse f xs = Inr ys \<Longrightarrow> (\<And>x y. f x = Inr y \<Longrightarrow> g y = h x) \<Longrightarrow> map g ys = map h xs"
  by (induction xs arbitrary: ys) auto

text \<open>The only exceptions besides an unknown profile are those of values that cannot be in a set.\<close>

definition type_error :: "py_error \<Rightarrow> bool" where
  "type_error e \<longleftrightarrow> (case e of TypeError _ \<Rightarrow> True | _ \<Rightarrow> False)"

lemma bindR_Inl: "bindR r f = Inl e \<longleftrightarrow> r = Inl e \<or> (\<exists>x. r = Inr x \<and> f x = Inl e)"
  by (cases r) auto

lemma traverse_Inl: "traverse f xs = Inl e \<Longrightarrow> \<exists>x. f x = Inl e"
  by (induction xs) (auto simp: bindR_Inl)

lemma any_result_Inl: "any_result f xs = Inl e \<Longrightarrow> \<exists>x. f x = Inl e"
  by (induction xs) (auto simp: bindR_Inl split: if_splits)

lemma first_message_Inl: "first_message f xs = Inl e \<Longrightarrow> \<exists>x. f x = Inl e"
  by (induction xs) (auto simp: bindR_Inl split: if_splits)

lemma hashable_error: "hashable v = Inl e \<Longrightarrow> type_error e"
  by (auto simp: hashable_def type_error_def split: pyval.splits)

lemma json_hashable_error: "json_hashable v = Inl e \<Longrightarrow> type_error e"
  by (auto simp: json_hashable_def type_error_def split: json.splits)

lemma in_str_set_error: "in_str_set v ss = Inl e \<Longrightarrow> type_error e"
  by (auto simp: in_str_set_def bindR_Inl hashable_error)

lemma distinct_count_error: "distinct_count vs = Inl e \<Longrightarrow> type_error e"
  by (auto simp: distinct_count_def bindR_Inl dest!: traverse_Inl hashable_error)

lemma three_actors_error: "three_actors a b c = Inl e \<Longrightarrow> type_error e"
  by (auto simp: three_actors_def bindR_Inl dest: distinct_count_error split: if_splits)

lemma separation_message_error: "separation_message entry = Inl e \<Longrightarrow> type_error e"
  by (auto simp: separation_message_def bindR_Inl Let_def dest: three_actors_error distinct_count_error
      split: option.splits if_splits pyval.splits)

lemma role_error: "has_role_separation_typed ps = Inl e \<Longrightarrow> type_error e"
  by (auto simp: has_role_separation_typed_def bindR_Inl Let_def dest!: first_message_Inl separation_message_error split: if_splits)

lemma evidence_artifact_error: "has_evidence_artifact arts = Inl e \<Longrightarrow> type_error e"
  by (auto simp: has_evidence_artifact_def bindR_Inl dest!: any_result_Inl split: if_splits option.splits
      intro: in_str_set_error)

lemma evidence_error: "has_evidence_typed ps = Inl e \<Longrightarrow> type_error e"
  by (auto simp: has_evidence_typed_def bindR_Inl Let_def dest!: any_result_Inl split: if_splits
      intro: in_str_set_error evidence_artifact_error)

lemma check_gate_error: "check_gate E clock wo rf ps gate = Inl e \<Longrightarrow> type_error e"
  unfolding check_gate_def Let_def
  by (cases "gate = ''evidence''"; cases "gate = ''role-separation''")
    (simp_all add: bindR_Inl evidence_error role_error split: if_splits)

lemma assess_gate_error: "assess_gate E clock ts wo rf waivers handed_off ps dead gate = Inl e \<Longrightarrow> type_error e"
  by (auto simp: assess_gate_def Let_def bindR_Inl dest: check_gate_error split: if_splits option.splits)

text \<open>An assessment accounts for every gate of its profile exactly once and in order; a profile that
  is not one of the three is refused with a \<open>ValueError\<close> instead of being assessed as a weaker one, and
  nothing else but a value that cannot be in a set makes the assessment raise.
\<close>

theorem assessment_covers_profile:
  "case check_procedure E clock ts wo rf profile waivers handed_off ps of
     Inr ss \<Rightarrow> (\<exists>p. parse_profile profile = Inr p \<and> map os_obligation ss = map Ob_Gate (profile_gates p))
   | Inl e \<Rightarrow> if profile \<in> {''minimal'', ''standard'', ''enhanced''} then type_error e else \<exists>m. e = ValueError m"
proof (cases "check_procedure E clock ts wo rf profile waivers handed_off ps")
  case (Inr ss)
  then obtain p dead where p: "parse_profile profile = Inr p"
    and ss: "traverse (assess_gate E clock ts wo rf waivers handed_off ps dead) (profile_gates p) = Inr ss"
    by (auto simp: check_procedure_def gates_for_profile_def)
  have "map os_obligation ss = map Ob_Gate (profile_gates p)"
    by (rule traverse_map [OF ss]) (rule assess_gate_obligation)
  then show ?thesis using p Inr by simp
next
  case (Inl e)
  show ?thesis
  proof (cases "profile \<in> {''minimal'', ''standard'', ''enhanced''}")
    case True
    then obtain p where "parse_profile profile = Inr p" by (auto simp: parse_profile_def)
    then have "type_error e"
      using Inl by (auto simp: check_procedure_def gates_for_profile_def invalidated_gates_def bindR_Inl
        dest!: traverse_Inl assess_gate_error json_hashable_error split: json.splits)
    then show ?thesis using True Inl by simp
  next
    case False
    then show ?thesis
      using Inl by (auto simp: check_procedure_def gates_for_profile_def parse_profile_def bindR_Inl)
  qed
qed

section \<open>Gates that hold less than they name\<close>

text \<open>
  The hint \<open>authorization_grant_id\<close> names the grant that must be among the proofs.  Without a list of
  \<open>authorization_refs\<close> beside it the hint is ignored, and any valid grant satisfies the gate.
\<close>

theorem grant_hint_ignored_without_refs:
  "has_authorization_typed E (\<lambda>_. 20) (fmupd ''authorization_grant_id'' (JStr ''another'') fmempty) proof_sample =
     (True, ''valid AuthorizationGrant present'')
   \<and> \<not> py_eq (to_json (item_attr (Item_Grant sample_grant) ''id'')) (JStr ''another'')"
proof
  have "authorization_hint (fmupd ''authorization_grant_id'' (JStr ''another'') fmempty) = JNull"
    by (simp add: authorization_hint_def jget_def)
  then show "has_authorization_typed E (\<lambda>_. 20) (fmupd ''authorization_grant_id'' (JStr ''another'') fmempty) proof_sample =
     (True, ''valid AuthorizationGrant present'')"
    by (simp add: sample_authorization)
  show "\<not> py_eq (to_json (item_attr (Item_Grant sample_grant) ''id'')) (JStr ''another'')"
    by (simp add: sample_grant_def py_eq_def)
qed

text \<open>Any non-empty text waives any gate of a profile, the authorization gate included.\<close>

theorem any_gate_waived:
  assumes "\<not> json_truthy (jget (combined_metadata wo rf) ''authorization_expired'')"
  shows "\<exists>s. assess_gate E clock ts wo rf [(gate, ''x'')] {} [] [] gate = Inr s \<and> os_status s = Os_Waived"
proof -
  have "os_status (waived_status ts gate ''x'') = Os_Waived"
    by (simp add: waived_status_def check_waiver_def gate_result_def)
  moreover have "assess_gate E clock ts wo rf [(gate, ''x'')] {} [] [] gate = Inr (waived_status ts gate ''x'')"
    unfolding assess_gate_def Let_def using assms by simp
  ultimately show ?thesis by blast
qed

text \<open>A list with a single \<open>False\<close> is a challenge path, and a stop condition.\<close>

theorem empty_evidence_accepted:
  "has_challenge_path_typed [(''challenge_paths'', Pf_Value (PList [PBool False]))] = (True, ''challenge-path typed proof present'')
   \<and> has_failure_stop_typed [(''stop_conditions'', Pf_Value (PList [PBool False]))] = (True, ''failure-stop typed proof present'')"
  by (simp add: has_challenge_path_typed_def has_failure_stop_typed_def any_pool_def pf_items_def pf_get_def)

end
