(* ===== verification/Boundary_Stages.thy ===== *)
theory Boundary_Stages
  imports Procedure_Gates Capability_Contract Runtime_Leases
begin

text \<open>
  What the reality boundary is built from: the fencing check (\<open>core/boundary_fencing.py\<close>), the
  execution records of the store (\<open>StepAttempt\<close> and \<open>Action\<close> of \<open>core/models.py\<close>) and the private
  stages of \<open>core/boundary_stages.py\<close>.

  The world of the boundary holds the store with its execution records, the reliability controls,
  the provider registry with its circuit breakers, the descriptors of the provider objects, and the
  contract registry.  Every \<open>await\<close> of the code hands control to other tasks: what happens there is a
  function of the world to a new world.  The clock reading of a check that is not recorded does not
  advance the counter of readings.
\<close>

section \<open>Execution records\<close>

datatype attempt_status = Att_Running | Att_Succeeded | Att_Failed | Att_Cancelled | Att_Unknown

record step_attempt =
  sa_id :: string
  sa_created_at :: time
  sa_metadata :: "(string, json) fmap"
  sa_step_id :: string
  sa_attempt_no :: int
  sa_provider_id :: "string option"
  sa_request_ref :: "string option"
  sa_idempotency_key :: "string option"
  sa_external_operation_ref :: "string option"
  sa_started_at :: "time option"
  sa_ended_at :: "time option"
  sa_status :: attempt_status
  sa_result_ref :: "string option"
  sa_error :: "json option"
  sa_lease_generation :: int

record exec_action =
  xa_id :: string
  xa_created_at :: time
  xa_metadata :: "(string, json) fmap"
  xa_work_id :: string
  xa_run_id :: string
  xa_capability :: string
  xa_provider_id :: string
  xa_request_ref :: string
  xa_status :: string

record bworld =
  bw_world :: world
  bw_attempts :: "(string \<times> step_attempt) list"
  bw_actions :: "(string \<times> exec_action) list"
  bw_controls :: reliability_controls
  bw_registry :: registry
  bw_descriptors :: descriptors
  bw_contracts :: contract_registry

abbreviation bw_store :: "bworld \<Rightarrow> store" where
  "bw_store w \<equiv> wd_store (bw_world w)"

type_synonym bgraph = "store \<Rightarrow> (string \<times> step_attempt) list \<Rightarrow> (string \<times> exec_action) list \<Rightarrow> string list"

definition on_world :: "(world, 'a) io \<Rightarrow> (bworld, 'a) io" where
  "on_world m w = (case m (bw_world w) of (r, v) \<Rightarrow> (r, w\<lparr>bw_world := v\<rparr>))"

definition state_errors :: "bgraph \<Rightarrow> bworld \<Rightarrow> store \<Rightarrow> string list" where
  "state_errors G w s = G s (bw_attempts w) (bw_actions w)"

definition save_step_b :: "bgraph \<Rightarrow> step \<Rightarrow> (bworld, unit) io" where
  "save_step_b G v w = on_world (on_store (save_step (state_errors G w) v)) w"

text \<open>\<open>_save_checked\<close> of an attempt and of an action: no terminal gate applies to them.\<close>

definition save_attempt :: "bgraph \<Rightarrow> step_attempt \<Rightarrow> (bworld, unit) io" where
  "save_attempt G v w =
    (let errors = G (bw_store w) (dict_del (sa_id v) (bw_attempts w) @ [(sa_id v, v)]) (bw_actions w)
     in raise_ifI (errors \<noteq> []) (''state graph validation failed: '' @ py_join ''; '' errors)
          (\<lambda>w. (Inr (), w\<lparr>bw_attempts := dict_set (sa_id v) v (bw_attempts w)\<rparr>)) w)"

definition save_action :: "bgraph \<Rightarrow> exec_action \<Rightarrow> (bworld, unit) io" where
  "save_action G v w =
    (let errors = G (bw_store w) (bw_attempts w) (dict_del (xa_id v) (bw_actions w) @ [(xa_id v, v)])
     in raise_ifI (errors \<noteq> []) (''state graph validation failed: '' @ py_join ''; '' errors)
          (\<lambda>w. (Inr (), w\<lparr>bw_actions := dict_set (xa_id v) v (bw_actions w)\<rparr>)) w)"

definition get_attempt :: "bworld \<Rightarrow> string \<Rightarrow> step_attempt option" where
  "get_attempt w i = map_of (bw_attempts w) i"

definition list_attempts :: "bworld \<Rightarrow> string \<Rightarrow> step_attempt list" where
  "list_attempts w step_id = filter (\<lambda>v. sa_step_id v = step_id) (newest_first sa_created_at (bw_attempts w))"

text \<open>A failed transaction restores the records.\<close>

definition transaction_b :: "(bworld, 'a) io \<Rightarrow> (bworld, 'a) io" where
  "transaction_b m w = (case m w of
     (Inl e, v) \<Rightarrow> (Inl e, v\<lparr>bw_world := (bw_world v)\<lparr>wd_store := rollback (bw_store w) (bw_store v)\<rparr>,
        bw_attempts := bw_attempts w, bw_actions := bw_actions w\<rparr>)
   | (Inr x, v) \<Rightarrow> (Inr x, v))"

definition utcnow_b :: "env \<Rightarrow> (bworld, time) io" where
  "utcnow_b E = on_world (utcnow E)"

definition new_id_b :: "env \<Rightarrow> string \<Rightarrow> (bworld, string) io" where
  "new_id_b E pre = on_world (new_id E pre)"

definition clock_now :: "env \<Rightarrow> bworld \<Rightarrow> time" where
  "clock_now E w = env_clock E (wd_tick (bw_world w))"

section \<open>Fencing\<close>

text \<open>
  The lease generation is an integer field of the request, so that the metadata are never asked for
  it; the lease owner may be missing there.
\<close>

definition extract_lease_generation :: "capability_request \<Rightarrow> int" where
  "extract_lease_generation q = cq_lease_generation q"

definition extract_lease_owner :: "capability_request \<Rightarrow> string option" where
  "extract_lease_owner q = (case cq_lease_owner q of
     Some x \<Rightarrow> Some x
   | None \<Rightarrow> (case jget (cq_metadata q) ''lease_owner'' of JStr s \<Rightarrow> Some s | _ \<Rightarrow> None))"

definition nonempty_opt :: "string option \<Rightarrow> bool" where
  "nonempty_opt x \<longleftrightarrow> (case x of None \<Rightarrow> False | Some s \<Rightarrow> s \<noteq> [])"

definition validate_fencing :: "env \<Rightarrow> capability_request \<Rightarrow> run option \<Rightarrow> time \<Rightarrow> bool \<times> string" where
  "validate_fencing E q run_record now = (case run_record of
     None \<Rightarrow> (True, ''no run fencing required'')
   | Some r \<Rightarrow>
     if cq_run_id q = None then (True, ''no run fencing required'')
     else if \<not> nonempty_opt (rn_lease_owner r) \<and> rn_lease_generation r = 0 then (True, ''unleased run'')
     else
       (let generation = extract_lease_generation q; owner = extract_lease_owner q in
        if generation \<noteq> rn_lease_generation r
          then (False, ''fencing: generation mismatch request '' @ py_str_int generation @ '' != current ''
             @ py_str_int (rn_lease_generation r))
        else if nonempty_opt (rn_lease_owner r) \<and> owner \<noteq> None \<and> owner \<noteq> rn_lease_owner r
          then (False, ''fencing: owner mismatch '' @ the owner @ '' != '' @ the (rn_lease_owner r))
        else if nonempty_opt (rn_lease_owner r) \<and> owner = None
          then (False, ''fencing: missing lease_owner, expected '' @ the (rn_lease_owner r))
        else (case rn_lease_expires_at r of
            Some t \<Rightarrow> if t \<le> now then (False, ''fencing: lease expired at '' @ env_isoformat E t)
              else (True, ''fencing ok'')
          | None \<Rightarrow> (True, ''fencing ok''))))"

section \<open>The stages\<close>

text \<open>\<open>ReliabilityStageInput\<close> is the \<^typ>\<open>action_request\<close> of the reliability controls.\<close>

record invocation_plan =
  ip_provider_id :: string
  ip_side_effect_class :: side_effect_class
  ip_effect_semantics :: side_effect_class
  ip_reversibility :: reversibility

fun parse_side_effect :: "string \<Rightarrow> side_effect_class option" where
  "parse_side_effect s =
    (if s = ''pure'' then Some Pure else if s = ''idempotent'' then Some Idempotent
     else if s = ''deduplicatable'' then Some Deduplicatable else if s = ''reconcilable'' then Some Reconcilable
     else if s = ''irreversible-opaque'' then Some Irreversible_Opaque else None)"

definition parse_reversibility :: "string \<Rightarrow> reversibility" where
  "parse_reversibility s = (if s = ''reversible'' then Reversible else if s = ''compensatable'' then Compensatable
     else if s = ''irreversible'' then Not_Reversible else Unknown_Reversibility)"

definition plan_from_descriptor :: "provider_descriptor \<Rightarrow> invocation_plan" where
  "plan_from_descriptor d =
    (let sec = (case parse_side_effect (de_side_effect_class d) of None \<Rightarrow> Irreversible_Opaque | Some c \<Rightarrow> c) in
     \<lparr>ip_provider_id = de_id d, ip_side_effect_class = sec,
      ip_effect_semantics = (case parse_side_effect (de_effect_semantics d) of None \<Rightarrow> sec | Some c \<Rightarrow> c),
      ip_reversibility = parse_reversibility (de_reversibility d)\<rparr>)"

definition stage_names :: "string list" where
  "stage_names = [''qualification'', ''governance-use'', ''policy'', ''authorization'', ''procedure'', ''reliability'',
     ''routing'', ''precommit'', ''invocation'', ''postcondition'', ''projection'']"

text \<open>The text of an exception.\<close>

fun error_text :: "py_error \<Rightarrow> string" where
  "error_text (ValueError m) = m"
| "error_text (ValidationError m) = m"
| "error_text (TypeError m) = m"
| "error_text (KeyError k) = py_repr k"
| "error_text (ForeignError m) = m"

record reliability_decision =
  rs_allowed :: bool
  rs_reason :: "string option"
  rs_error :: "py_error option"

definition evaluate_reliability_stage ::
    "(string \<Rightarrow> flt option) \<Rightarrow> rat \<Rightarrow> action_request \<Rightarrow> reliability_controls \<Rightarrow> reliability_decision \<times> reliability_controls" where
  "evaluate_reliability_stage parse now a s = (case assess parse now a s of
     (Inr (allowed, reason), t) \<Rightarrow> (\<lparr>rs_allowed = allowed, rs_reason = Some reason, rs_error = None\<rparr>, t)
   | (Inl e, t) \<Rightarrow> (\<lparr>rs_allowed = False, rs_reason = None, rs_error = Some e\<rparr>, t))"

text \<open>
  \<open>registry.health\<close> reads the registration before it asks the provider; \<open>ask\<close> is the provider's
  answer, or the text of its exception, and what happens while it is awaited.
\<close>

type_synonym ask_health = "object_ref \<Rightarrow> bworld \<Rightarrow> (string + provider_health) \<times> bworld"

definition health_available :: "ask_health \<Rightarrow> string \<Rightarrow> (bworld, bool) io" where
  "health_available ask pid w = (case map_of (rg_providers (bw_registry w)) pid of
     None \<Rightarrow> (Inl (KeyError pid), w)
   | Some obj \<Rightarrow> (case ask obj w of (answer, v) \<Rightarrow>
       (bindR (registry_health (\<lambda>_. answer) pid (bw_registry w)) (\<lambda>h. Inr (ph_available h)), v)))"

text \<open>The breaker of a provider admits the call; a breaker that is half open after its timeout changes state.\<close>

definition breaker_allows :: "rat \<Rightarrow> string \<Rightarrow> bworld \<Rightarrow> bool \<times> bworld" where
  "breaker_allows now pid w =
    (let (c, cs) = circuit_for pid (rg_circuits (bw_registry w)); (ok, c') = circuit_allow now c in
     (ok, w\<lparr>bw_registry := (bw_registry w)\<lparr>rg_circuits := dict_set pid c' cs\<rparr>\<rparr>))"

datatype selection_phase = In_Eligibility | In_Routing

datatype selection =
    Selected "provider_descriptor list" "provider_descriptor option"
  | Selection_Failed selection_phase py_error

type_synonym router = "capability_request \<Rightarrow> provider_descriptor list \<Rightarrow> (bworld, provider_descriptor option) io"

fun healthy_providers ::
    "ask_health \<Rightarrow> (bworld \<Rightarrow> rat) \<Rightarrow> provider_descriptor list \<Rightarrow> (bworld, provider_descriptor list) io" where
  "healthy_providers ask mono_clock [] w = (Inr [], w)"
| "healthy_providers ask mono_clock (d # ds) w = (case health_available ask (de_id d) w of
     (Inl e, v) \<Rightarrow> (Inl e, v)
   | (Inr available, v) \<Rightarrow>
     if \<not> available then healthy_providers ask mono_clock ds v
     else (case breaker_allows (mono_clock v) (de_id d) v of (ok, u) \<Rightarrow>
       if \<not> ok then healthy_providers ask mono_clock ds u
       else (case healthy_providers ask mono_clock ds u of
           (Inl e, t) \<Rightarrow> (Inl e, t) | (Inr hs, t) \<Rightarrow> (Inr (d # hs), t))))"

definition select_provider_stage ::
    "ask_health \<Rightarrow> (bworld \<Rightarrow> rat) \<Rightarrow> router \<Rightarrow> capability_request \<Rightarrow> provider_descriptor list
      \<Rightarrow> bworld \<Rightarrow> selection \<times> bworld" where
  "select_provider_stage ask mono_clock route q ds w = (case healthy_providers ask mono_clock ds w of
     (Inl e, v) \<Rightarrow> (Selection_Failed In_Eligibility e, v)
   | (Inr [], v) \<Rightarrow> (Selected [] None, v)
   | (Inr hs, v) \<Rightarrow> (case route q hs v of
       (Inl e, u) \<Rightarrow> (Selection_Failed In_Routing e, u)
     | (Inr chosen, u) \<Rightarrow> (Selected hs chosen, u)))"

section \<open>Precommit\<close>

record record_ids =
  ri_step :: "string option"
  ri_attempt :: "string option"
  ri_action :: "string option"

definition no_records :: record_ids where
  "no_records = \<lparr>ri_step = None, ri_attempt = None, ri_action = None\<rparr>"

text \<open>\<open>capability.split(".")[0] if "." in capability else "generic"\<close>, and \<open>a or b\<close> of two optional texts.\<close>

definition capability_kind :: "string \<Rightarrow> string" where
  "capability_kind c = (if CHR ''.'' \<in> set c then takeWhile (\<lambda>x. x \<noteq> CHR ''.'') c else ''generic'')"

definition text_or :: "string option \<Rightarrow> string \<Rightarrow> string" where
  "text_or x dflt = (case x of None \<Rightarrow> dflt | Some s \<Rightarrow> if s = [] then dflt else s)"

definition step_key_of :: "capability_request \<Rightarrow> string" where
  "step_key_of q = text_or (cq_step_key q) (cq_capability q @ '':'' @ text_or (cq_idempotency_key q) (cq_id q))"

definition find_step :: "string \<Rightarrow> string \<Rightarrow> store \<Rightarrow> step option" where
  "find_step run_id key s = find (\<lambda>v. sp_step_key v = key) (list_steps s (Some run_id))"

record precommit_input =
  pc_provider_id :: string
  pc_permit_digest :: string
  pc_lease_generation :: int
  pc_side_effect :: bool
  pc_plan :: invocation_plan

definition new_step :: "env \<Rightarrow> capability_request \<Rightarrow> precommit_input \<Rightarrow> string \<Rightarrow> (bworld, step) io" where
  "new_step E q p run_id =
    bindI (new_id_b E ''step'') (\<lambda>i.
    bindI (utcnow_b E) (\<lambda>created.
    bindI (utcnow_b E) (\<lambda>updated.
    retI \<lparr>sp_id = i, sp_created_at = created, sp_metadata = fmempty, sp_run_id = run_id,
      sp_step_key = step_key_of q, sp_kind = capability_kind (cq_capability q), sp_status = Step_Running,
      sp_input_digest = Some (pc_permit_digest p), sp_side_effect_class = ip_side_effect_class (pc_plan p),
      sp_effect_semantics = ip_effect_semantics (pc_plan p), sp_reversibility = ip_reversibility (pc_plan p),
      sp_current_attempt = 0, sp_version = 0, sp_updated_at = updated, sp_lease_owner = None,
      sp_lease_generation = pc_lease_generation p, sp_lease_expires_at = None\<rparr>)))"

definition new_attempt :: "env \<Rightarrow> capability_request \<Rightarrow> precommit_input \<Rightarrow> string \<Rightarrow> int \<Rightarrow> (bworld, step_attempt) io" where
  "new_attempt E q p step_id attempt_no =
    bindI (new_id_b E ''attempt'') (\<lambda>i.
    bindI (utcnow_b E) (\<lambda>created.
    bindI (utcnow_b E) (\<lambda>started.
    retI \<lparr>sa_id = i, sa_created_at = created, sa_metadata = fmempty, sa_step_id = step_id, sa_attempt_no = attempt_no,
      sa_provider_id = Some (pc_provider_id p), sa_request_ref = Some (cq_id q),
      sa_idempotency_key = Some (text_or (cq_idempotency_key q) (cq_id q)), sa_external_operation_ref = None,
      sa_started_at = Some started, sa_ended_at = None, sa_status = Att_Running, sa_result_ref = None,
      sa_error = None, sa_lease_generation = pc_lease_generation p\<rparr>)))"

definition make_action :: "env \<Rightarrow> capability_request \<Rightarrow> string \<Rightarrow> string \<Rightarrow> string \<Rightarrow> (string, json) fmap \<Rightarrow> (bworld, exec_action) io" where
  "make_action E q provider_id action_id status metadata =
    bindI (utcnow_b E) (\<lambda>created.
    retI \<lparr>xa_id = action_id, xa_created_at = created, xa_metadata = metadata,
      xa_work_id = (case cq_work_id q of None \<Rightarrow> [] | Some s \<Rightarrow> s),
      xa_run_id = (case cq_run_id q of None \<Rightarrow> [] | Some s \<Rightarrow> s),
      xa_capability = cq_capability q, xa_provider_id = provider_id, xa_request_ref = cq_id q, xa_status = status\<rparr>)"

text \<open>The step of an action-critical invocation: a new one, or the next version of the one with its key.\<close>

definition critical_step :: "env \<Rightarrow> capability_request \<Rightarrow> precommit_input \<Rightarrow> string \<Rightarrow> (bworld, step) io" where
  "critical_step E q p run_id = withI (\<lambda>w. case find_step run_id (step_key_of q) (bw_store w) of
     None \<Rightarrow> new_step E q p run_id
   | Some s \<Rightarrow> bindI (utcnow_b E) (\<lambda>now. retI (s\<lparr>sp_status := Step_Running, sp_updated_at := now,
       sp_input_digest := Some (pc_permit_digest p), sp_effect_semantics := ip_effect_semantics (pc_plan p),
       sp_side_effect_class := ip_side_effect_class (pc_plan p), sp_lease_generation := pc_lease_generation p,
       sp_version := sp_version s + 1\<rparr>)))"

definition next_attempt_no :: "bworld \<Rightarrow> string \<Rightarrow> int" where
  "next_attempt_no w step_id = Max (insert 0 (set (map sa_attempt_no (list_attempts w step_id)))) + 1"

definition precommit_critical :: "env \<Rightarrow> bgraph \<Rightarrow> capability_request \<Rightarrow> precommit_input \<Rightarrow> string \<Rightarrow> (bworld, record_ids) io" where
  "precommit_critical E G q p run_id =
    bindI (critical_step E q p run_id) (\<lambda>s. withI (\<lambda>w.
    let attempt_no = next_attempt_no w (sp_id s) in
    bindI (new_attempt E q p (sp_id s) attempt_no) (\<lambda>attempt.
    bindI (new_id_b E ''action'') (\<lambda>action_id.
    bindI (make_action E q (pc_provider_id p) action_id ''running'' fmempty) (\<lambda>act.
    bindI (transaction_b
        (bindI (save_step_b G s) (\<lambda>_.
         bindI (save_step_b G (s\<lparr>sp_current_attempt := attempt_no\<rparr>)) (\<lambda>_.
         bindI (save_attempt G (attempt\<lparr>sa_metadata := fmupd ''action_ref'' (JStr action_id) (sa_metadata attempt)\<rparr>)) (\<lambda>_.
         save_action G act))))) (\<lambda>_.
    retI \<lparr>ri_step = Some (sp_id s), ri_attempt = Some (sa_id attempt), ri_action = Some action_id\<rparr>))))))"

text \<open>A pure observation is recorded as far as possible: an exception leaves what was already saved.\<close>

definition precommit_observation :: "env \<Rightarrow> bgraph \<Rightarrow> capability_request \<Rightarrow> precommit_input \<Rightarrow> string \<Rightarrow> (bworld, record_ids) io" where
  "precommit_observation E G q p run_id =
    bindI (withI (\<lambda>w. case find_step run_id (step_key_of q) (bw_store w) of
        None \<Rightarrow> new_step E q p run_id
      | Some s \<Rightarrow> bindI (utcnow_b E) (\<lambda>now. retI (s\<lparr>sp_status := Step_Running, sp_updated_at := now,
          sp_input_digest := Some (pc_permit_digest p)\<rparr>)))) (\<lambda>s.
    bindI (save_step_b G s) (\<lambda>_.
    bindI (new_attempt E q p (sp_id s) 1) (\<lambda>attempt.
    bindI (save_attempt G attempt) (\<lambda>_.
    retI \<lparr>ri_step = Some (sp_id s), ri_attempt = Some (sa_id attempt), ri_action = None\<rparr>))))"

text \<open>\<open>has_store\<close> says whether the boundary has a store at all.\<close>

definition precommit_execution_records ::
    "env \<Rightarrow> bgraph \<Rightarrow> bool \<Rightarrow> capability_request \<Rightarrow> precommit_input \<Rightarrow> (bworld, record_ids) io" where
  "precommit_execution_records E G has_store q p w =
    (if pc_side_effect p then
       (if \<not> has_store \<or> \<not> nonempty_opt (cq_work_id q) \<or> \<not> nonempty_opt (cq_run_id q)
        then (Inl (ForeignError ''side-effect invocation requires durable work/run precommit''), w)
        else precommit_critical E G q p (the (cq_run_id q)) w)
     else if \<not> has_store \<or> \<not> nonempty_opt (cq_work_id q) \<or> \<not> nonempty_opt (cq_run_id q) then (Inr no_records, w)
     else (case precommit_observation E G q p (the (cq_run_id q)) w of
         (Inr ids, v) \<Rightarrow> (Inr ids, v)
       | (Inl e, v) \<Rightarrow> (Inr no_records, v)))"

section \<open>Abort and projection\<close>

definition error_payload :: "string \<Rightarrow> string \<Rightarrow> json" where
  "error_payload code reason = JObj (fmap_of_list [(''code'', JStr code), (''reason'', JStr reason),
     (''phase'', JStr ''before-reality-exit'')])"

text \<open>\<open>Inr True\<close> when the records were terminalized, \<open>Inr False\<close> when there were none.\<close>

definition abort_preinvocation_records ::
    "env \<Rightarrow> bgraph \<Rightarrow> bool \<Rightarrow> capability_request \<Rightarrow> string \<Rightarrow> record_ids \<Rightarrow> string \<Rightarrow> string \<Rightarrow> (bworld, bool) io" where
  "abort_preinvocation_records E G has_store q provider_id ids code reason =
    (if \<not> has_store \<or> ri_step ids = None then retI False
     else withI (\<lambda>w.
       case get_step (bw_store w) (the (ri_step ids)) of
         None \<Rightarrow> raiseI (ForeignError ''pre-invocation abort is missing precommitted execution records'')
       | Some s \<Rightarrow>
         let attempt = Option.bind (ri_attempt ids) (get_attempt w) in
         if ri_attempt ids \<noteq> None \<and> attempt = None
         then raiseI (ForeignError ''pre-invocation abort is missing precommitted execution records'')
         else
           bindI (utcnow_b E) (\<lambda>now1.
           bindI (case attempt of None \<Rightarrow> retI None
             | Some a \<Rightarrow> bindI (utcnow_b E) (\<lambda>now2. retI (Some (a\<lparr>sa_status := Att_Cancelled,
                 sa_ended_at := Some now2, sa_error := Some (error_payload code reason)\<rparr>)))) (\<lambda>attempt'.
           bindI (case ri_action ids of None \<Rightarrow> retI None
             | Some i \<Rightarrow> bindI (make_action E q provider_id i ''cancelled''
                 (fmap_of_list [(''preinvocation_abort'', error_payload code reason)])) (\<lambda>a. retI (Some a))) (\<lambda>act'.
           bindI (transaction_b
             (bindI (save_step_b G (s\<lparr>sp_status := Step_Cancelled, sp_updated_at := now1\<rparr>)) (\<lambda>_.
              bindI (case attempt' of None \<Rightarrow> retI () | Some a \<Rightarrow> save_attempt G a) (\<lambda>_.
              case act' of None \<Rightarrow> retI () | Some a \<Rightarrow> save_action G a)))) (\<lambda>_.
           retI True))))))"

fun projected_step :: "capability_status \<Rightarrow> step_status" where
  "projected_step Cap_Succeeded = Step_Succeeded"
| "projected_step Cap_Cancelled = Step_Cancelled"
| "projected_step Cap_Unknown = Step_Unknown"
| "projected_step _ = Step_Failed"

fun projected_attempt :: "capability_status \<Rightarrow> attempt_status" where
  "projected_attempt Cap_Succeeded = Att_Succeeded"
| "projected_attempt Cap_Cancelled = Att_Cancelled"
| "projected_attempt Cap_Unknown = Att_Unknown"
| "projected_attempt _ = Att_Failed"

fun projected_name :: "capability_status \<Rightarrow> string" where
  "projected_name Cap_Succeeded = ''succeeded''"
| "projected_name Cap_Cancelled = ''cancelled''"
| "projected_name Cap_Unknown = ''unknown''"
| "projected_name _ = ''failed''"

text \<open>\<open>None\<close> when there is nothing to project onto, the projected status otherwise.\<close>

definition commit_execution_projection ::
    "env \<Rightarrow> bgraph \<Rightarrow> bool \<Rightarrow> capability_request \<Rightarrow> capability_result \<Rightarrow> string \<Rightarrow> record_ids \<Rightarrow> (bworld, string option) io" where
  "commit_execution_projection E G has_store q r provider_id ids =
    (if \<not> has_store \<or> ri_step ids = None then retI None
     else withI (\<lambda>w.
       let attempt = (case ri_attempt ids of Some i \<Rightarrow> if i = [] then None else get_attempt w i | None \<Rightarrow> None) in
       case (get_step (bw_store w) (the (ri_step ids)), attempt) of
         (Some s, Some a) \<Rightarrow>
           bindI (utcnow_b E) (\<lambda>now1.
           bindI (utcnow_b E) (\<lambda>now2.
           bindI (case ri_action ids of Some i \<Rightarrow> if i = [] then new_id_b E ''action'' else retI i
                  | None \<Rightarrow> new_id_b E ''action'') (\<lambda>action_id.
           bindI (make_action E q provider_id action_id (projected_name (cr_status r)) fmempty) (\<lambda>act.
           bindI (transaction_b
             (bindI (save_step_b G (s\<lparr>sp_status := projected_step (cr_status r), sp_updated_at := now1\<rparr>)) (\<lambda>_.
              bindI (save_attempt G (a\<lparr>sa_status := projected_attempt (cr_status r), sa_ended_at := Some now2,
                 sa_result_ref := Some (cr_request_id r), sa_error := cr_error r\<rparr>)) (\<lambda>_.
              save_action G act)))) (\<lambda>_.
           retI (Some (projected_name (cr_status r))))))))
       | _ \<Rightarrow> raiseI (ForeignError ''execution projection missing precommitted records'')))"

end
