(* ===== verification/Reality_Boundary.thy ===== *)
theory Reality_Boundary
  imports Boundary_Stages
begin

text \<open>
  \<open>core/boundary.py\<close>: the reality boundary, the only way from a capability request to a provider.
  \<open>execute\<close> is a sequence of stages; a stage ends the call with a typed error result, raises, or hands
  on what the next stages need.

  Qualification references (\<open>core/qualification.py\<close>), governance admission (\<open>governance/use_admission.py\<close>)
  and the dispatch commit (\<open>governance/dispatch.py\<close>) are collaborators: functions of the boundary
  record, like the policy engine, the router, the health probes and the providers, which the code is
  handed as objects.
\<close>

section \<open>Collaborators\<close>

record assessment =
  as_work :: "work option"
  as_run :: "run option"
  as_proofs :: proofs
  as_digest :: string

datatype governance_status = Gov_Not_Applicable | Gov_Allowed | Gov_Blocked | Gov_Unavailable | Gov_Stale

record governance_judgment =
  gj_status :: governance_status
  gj_reason :: string
  gj_scheme_id :: "string option"
  gj_use_context :: "string option"
  gj_requirement_digest :: "string option"
  gj_snapshot_digest :: "string option"

record permit =
  pm_request :: capability_request
  pm_request_digest :: string
  pm_qualification_digest :: string
  pm_provider_id :: string
  pm_lease_generation :: int
  pm_governance_applicable :: bool
  pm_requirement_digest :: string
  pm_snapshot_digest :: string

datatype dispatch_status = Dispatch_Committed | Dispatch_Not_Applicable | Dispatch_Blocked | Dispatch_Changed | Dispatch_Unavailable | Dispatch_Stale

record dispatch_decision =
  dd_status :: dispatch_status
  dd_commit_ref :: "string option"
  dd_reason :: string

record invocation_context =
  ix_runtime_id :: string
  ix_work_id :: "string option"
  ix_run_id :: "string option"
  ix_metadata :: "(string, json) fmap"
  ix_lease_generation :: int
  ix_idempotency_key :: "string option"

text \<open>A \<open>QualificationResolutionError\<close>, or any other exception, with its text.\<close>

datatype qualification_failure = Unresolved string | Resolution_Failed string

text \<open>
  \<open>rb_snapshot_json\<close> renders a permit's request and authority as \<open>json.dumps\<close> does.  A provider answers
  with a result, or raises an exception with a type and a text.
\<close>

record boundary =
  rb_env :: env
  rb_monotonic :: "bworld \<Rightarrow> rat"
  rb_graph :: bgraph
  rb_parse_float :: "string \<Rightarrow> flt option"
  rb_has_store :: bool
  rb_has_registry :: bool
  rb_runtime_id :: string
  rb_not_applicable_digest :: string
  rb_snapshot_json :: "capability_request \<Rightarrow> json \<Rightarrow> string"
  rb_policy :: "(capability_request \<Rightarrow> (bworld, policy_decision) io) option"
  rb_qualify :: "capability_request \<Rightarrow> bworld \<Rightarrow> qualification_failure + assessment"
  rb_govern :: "capability_request \<Rightarrow> bworld \<Rightarrow> governance_judgment"
  rb_ask :: ask_health
  rb_route :: router
  rb_dispatch :: "capability_request \<Rightarrow> permit \<Rightarrow> string option \<Rightarrow> bworld \<Rightarrow> dispatch_decision \<times> bworld"
  rb_invoke :: "object_ref \<Rightarrow> capability_request \<Rightarrow> invocation_context \<Rightarrow> bworld
    \<Rightarrow> ((string \<times> string) + capability_result) \<times> bworld"

section \<open>Stages\<close>

datatype stop = Stopped capability_result | Raised py_error

type_synonym 'a stage = "bworld \<Rightarrow> (stop + 'a) \<times> bworld"

definition retS :: "'a \<Rightarrow> 'a stage" where
  "retS x w = (Inr x, w)"

definition stopS :: "capability_result \<Rightarrow> 'a stage" where
  "stopS r w = (Inl (Stopped r), w)"

definition bindS :: "'a stage \<Rightarrow> ('a \<Rightarrow> 'b stage) \<Rightarrow> 'b stage" where
  "bindS m f w = (case m w of (Inl r, v) \<Rightarrow> (Inl r, v) | (Inr x, v) \<Rightarrow> f x v)"

definition withS :: "(bworld \<Rightarrow> 'a stage) \<Rightarrow> 'a stage" where
  "withS f w = f w w"

text \<open>An exception that the code does not catch leaves the boundary.\<close>

definition uncaught :: "'a result \<Rightarrow> 'a stage" where
  "uncaught r w = (case r of Inl e \<Rightarrow> (Inl (Raised e), w) | Inr x \<Rightarrow> (Inr x, w))"

lemma retS_Inr [simp]: "retS x w = (Inr y, v) \<longleftrightarrow> y = x \<and> v = w"
  by (auto simp: retS_def)

lemma stopS_Inr [simp]: "stopS r w \<noteq> (Inr y, v)"
  by (simp add: stopS_def)

lemma bindS_Inr [simp]: "bindS m f w = (Inr y, u) \<longleftrightarrow> (\<exists>x v. m w = (Inr x, v) \<and> f x v = (Inr y, u))"
  by (auto simp: bindS_def split: prod.splits sum.splits)

lemma withS_Inr [simp]: "withS f w = (Inr y, v) \<longleftrightarrow> f w w = (Inr y, v)"
  by (simp add: withS_def)

lemma uncaught_Inr [simp]: "uncaught r w = (Inr y, v) \<longleftrightarrow> r = Inr y \<and> v = w"
  by (auto simp: uncaught_def split: sum.splits)

text \<open>\<open>_append_event\<close>: without a store, or when the journal refuses, nothing is recorded.\<close>

definition journal :: "boundary \<Rightarrow> capability_request \<Rightarrow> string \<times> (string \<times> json) list \<Rightarrow> bworld \<Rightarrow> bworld" where
  "journal B q ev w = (if \<not> rb_has_store B then w
     else snd (on_world (append_new_event (rb_env B) (fst ev) (cq_id q) (Memory_Store.PDict (fmap_of_list (snd ev)))) w))"

definition logS :: "boundary \<Rightarrow> capability_request \<Rightarrow> (string \<times> (string \<times> json) list) list \<Rightarrow> unit stage" where
  "logS B q evs w = (Inr (), fold (journal B q) evs w)"

definition error_result ::
    "capability_request \<Rightarrow> string \<Rightarrow> string \<Rightarrow> string \<Rightarrow> (string \<times> json) list \<Rightarrow> capability_result" where
  "error_result q provider_id code reason extra =
    \<lparr>cr_request_id = cq_id q, cr_provider_id = provider_id, cr_status = Cap_Unavailable, cr_output_artifact_refs = [],
     cr_evidence_refs = [], cr_message = Some reason,
     cr_error = Some (JObj (fmap_of_list [(''code'', JStr code), (''reason'', JStr reason)] ++\<^sub>f fmap_of_list extra)),
     cr_metadata = fmempty, cr_verification_result = None, cr_external_operation_ref = None, cr_reconciled = False\<rparr>"

text \<open>Events, then an error result.\<close>

definition refuse ::
    "boundary \<Rightarrow> capability_request \<Rightarrow> string \<Rightarrow> string \<Rightarrow> string \<Rightarrow> (string \<times> json) list
      \<Rightarrow> (string \<times> (string \<times> json) list) list \<Rightarrow> 'a stage" where
  "refuse B q provider_id code reason extra evs =
    bindS (logS B q evs) (\<lambda>_. stopS (error_result q provider_id code reason extra))"

definition blocked_event :: "string \<Rightarrow> string \<Rightarrow> string \<times> (string \<times> json) list" where
  "blocked_event code reason = (''InvocationBlocked'', [(''code'', JStr code), (''reason'', JStr reason)])"

definition reason_event :: "string \<Rightarrow> string \<Rightarrow> string \<times> (string \<times> json) list" where
  "reason_event code reason = (code, [(''reason'', JStr reason)])"

lemma refuse_Inr [simp]: "refuse B q p c r e evs w \<noteq> (Inr y, v)"
  by (auto simp: refuse_def logS_def)

section \<open>Reading a request\<close>

text \<open>A JSON value as Python shows it; the keys of a dictionary come in sorted order.\<close>

primrec of_json :: "json \<Rightarrow> pyval" where
  "of_json JNull = PNone"
| "of_json (JBool b) = PBool b"
| "of_json (JInt i) = PInt i"
| "of_json (JStr s) = PStr s"
| "of_json (JList xs) = PList (map of_json xs)"
| "of_json (JObj m) = (let d = fmmap of_json m in
     Python_Values.PDict (map (\<lambda>k. (k, the (fmlookup d k))) (sorted_list_of_fset (fmdom d))))"

definition json_text :: "json \<Rightarrow> string" where
  "json_text v = pv_str (of_json v)"

definition extract_actor :: "capability_request \<Rightarrow> string option" where
  "extract_actor q = (if nonempty_opt (cq_actor_ref q) then cq_actor_ref q
     else (case jget (cq_metadata q) ''actor_ref'' of JStr s \<Rightarrow> Some s | _ \<Rightarrow> None))"

definition first_str :: "json list \<Rightarrow> string option" where
  "first_str vs = (case List.map_filter (\<lambda>v. case v of JStr s \<Rightarrow> Some s | _ \<Rightarrow> None) vs of [] \<Rightarrow> None | s # _ \<Rightarrow> Some s)"

definition extract_resource :: "capability_request \<Rightarrow> string option" where
  "extract_resource q = (if nonempty_opt (cq_resource_ref q) then cq_resource_ref q
     else (let from_parameters = first_str (map (jget (cq_parameters q)) [''resource'', ''path'', ''target'']) in
       case jor (jget (cq_metadata q) ''resource_ref'') (jget (cq_metadata q) ''resource'') of
         JStr s \<Rightarrow> Some s
       | JList (x # _) \<Rightarrow> Some (json_text x)
       | _ \<Rightarrow> from_parameters))"

definition extract_versions :: "capability_request \<Rightarrow> string list" where
  "extract_versions q = (if cq_subject_version_refs q \<noteq> [] then cq_subject_version_refs q
     else (case jget (cq_metadata q) ''subject_version_refs'' of
         JStr s \<Rightarrow> [s] | JList vs \<Rightarrow> map json_text vs | _ \<Rightarrow> []))"

text \<open>\<open>int(text)\<close> in base ten: blanks around, a sign, digits with single underscores between them.\<close>

fun digits_value :: "nat \<Rightarrow> bool \<Rightarrow> string \<Rightarrow> nat option" where
  "digits_value acc digit_seen [] = (if digit_seen then Some acc else None)"
| "digits_value acc digit_seen (c # cs) = (let n = of_char c :: nat in
     if 48 \<le> n \<and> n \<le> 57 then digits_value (10 * acc + (n - 48)) True cs
     else if n = 95 \<and> digit_seen then digits_value acc False cs
     else None)"

definition parse_int :: "string \<Rightarrow> int option" where
  "parse_int s = (case py_strip s of
     c # cs \<Rightarrow> (if c = CHR ''-'' then map_option (\<lambda>n. - int n) (digits_value 0 False cs)
       else if c = CHR ''+'' then map_option int (digits_value 0 False cs)
       else map_option int (digits_value 0 False (c # cs)))
   | [] \<Rightarrow> None)"

definition int_or_none :: "json \<Rightarrow> int option" where
  "int_or_none v = (case (case v of JInt i \<Rightarrow> Some i | JStr s \<Rightarrow> parse_int s | _ \<Rightarrow> None) of
     Some i \<Rightarrow> if 1 \<le> i then Some i else None | None \<Rightarrow> None)"

definition int_opt_json :: "int option \<Rightarrow> json" where
  "int_opt_json x = (case x of None \<Rightarrow> JNull | Some i \<Rightarrow> JInt i)"

section \<open>Impact\<close>

fun effect_named :: "string \<Rightarrow> invocation_effect" where
  "effect_named s = (if s = ''write-local'' then Eff_Write_Local else if s = ''write-remote'' then Eff_Write_Remote
     else if s = ''deploy'' then Eff_Deploy else if s = ''admin'' then Eff_Admin
     else if s = ''irreversible'' then Eff_Irreversible else Eff_Read)"

text \<open>The class asked for: the request's own, or a higher one named in its metadata.\<close>

definition requested_class :: "capability_request \<Rightarrow> string" where
  "requested_class q = (let own = invocation_effect_str (cq_effect_class q) in
     case jget (cq_metadata q) ''requested_effect_class'' of
       JStr s \<Rightarrow> if map_of impact_order s \<noteq> None \<and> level_or_zero s > level_or_zero own then s else own
     | _ \<Rightarrow> own)"

definition effective_impact :: "capability_request \<Rightarrow> capability_contract \<Rightarrow> string option \<Rightarrow> string" where
  "effective_impact q c provider_minimum =
    compute_effective_impact (invocation_effect_str (cc_minimum_impact_class c)) provider_minimum (Some (requested_class q))"

definition provider_minimum_impact :: "provider_descriptor option \<Rightarrow> string" where
  "provider_minimum_impact d = (case d of None \<Rightarrow> ''read''
   | Some d \<Rightarrow> (case map_of [(''pure'', ''read''), (''idempotent'', ''write-local''), (''deduplicatable'', ''write-local''),
         (''reconcilable'', ''write-remote''), (''irreversible-opaque'', ''irreversible'')] (de_side_effect_class d) of
       Some i \<Rightarrow> i | None \<Rightarrow> ''irreversible''))"

section \<open>Authorization\<close>

definition list_authorizations :: "store \<Rightarrow> authorization_grant list" where
  "list_authorizations s = newest_first ag_created_at (st_authorization s)"

definition authorization_required :: "string \<Rightarrow> capability_contract \<Rightarrow> contract_registry \<Rightarrow> bool" where
  "authorization_required capability c g = (case effect_rule_of capability g of
     Some r \<Rightarrow> er_authorization_required r \<or> cc_authorization_requirement c = Auth_Required
   | None \<Rightarrow> cc_authorization_requirement c = Auth_Required)"

definition resource_is_required :: "string \<Rightarrow> capability_contract \<Rightarrow> contract_registry \<Rightarrow> bool" where
  "resource_is_required capability c g = (case effect_rule_of capability g of
     Some r \<Rightarrow> er_resource_required r | None \<Rightarrow> cc_resource_required c)"

definition version_is_required :: "string \<Rightarrow> capability_contract \<Rightarrow> contract_registry \<Rightarrow> bool" where
  "version_is_required capability c g = (case effect_rule_of capability g of
     Some r \<Rightarrow> er_version_required r | None \<Rightarrow> cc_subject_version_required c)"

definition authorization_action :: "capability_request \<Rightarrow> capability_contract \<Rightarrow> string option \<Rightarrow> string \<Rightarrow> canonical_request" where
  "authorization_action q c provider_minimum actor =
    \<lparr>ar_capability = cq_capability q, ar_actor_ref = actor, ar_resource_ref = extract_resource q,
     ar_subject_version_refs = extract_versions q,
     ar_effect_class = effect_named (effective_impact q c provider_minimum),
     ar_lease_generation = Some (extract_lease_generation q)\<rparr>"

text \<open>The grants of an actor among proof items, with their positions in the list.\<close>

definition grants_of :: "string \<Rightarrow> proof_item list \<Rightarrow> (nat \<times> authorization_grant) list" where
  "grants_of actor items = List.map_filter (\<lambda>(i, item). case item of
     Item_Grant g \<Rightarrow> if ag_grantee_ref g = actor then Some (i, g) else None | _ \<Rightarrow> None) (enumerate 0 items)"

definition check_authorization ::
    "boundary \<Rightarrow> capability_request \<Rightarrow> capability_contract \<Rightarrow> string option \<Rightarrow> proof_item list option \<Rightarrow> bworld \<Rightarrow> bool \<times> string" where
  "check_authorization B q c provider_minimum supplied w =
    (let g = bw_contracts w; capability = cq_capability q in
     if \<not> authorization_required capability c g then (True, ''authorization not required by contract'')
     else if supplied = None \<and> \<not> rb_has_store B then (False, ''AuthorizationUnavailable: authorization store unavailable'')
     else
       (let grants = (case supplied of Some gs \<Rightarrow> gs | None \<Rightarrow> map Item_Grant (list_authorizations (bw_store w)));
            actor = (case extract_actor q of None \<Rightarrow> [] | Some a \<Rightarrow> a) in
        if grants = [] then (False, ''AuthorizationRequired: no grants for capability requiring authorization'')
        else if actor = [] then (False, ''AuthorizationRequired: actor missing'')
        else if resource_is_required capability c g \<and> \<not> nonempty_opt (extract_resource q)
          then (False, ''ResourceRequired: resource missing but capability rule requires resource'')
        else if version_is_required capability c g \<and> extract_versions q = []
          then (False, ''SubjectVersionRequired: subject_version missing but capability rule requires version'')
        else
          (let own = grants_of actor grants;
               request = authorization_action q c provider_minimum actor in
           if list_ex (\<lambda>(i, x). is_authorized_for request x (env_clock (rb_env B) (wd_tick (bw_world w) + i))) own
             then (True, ''authorized'')
           else if own = [] then (False, ''AuthorizationDenied: no grant for actor '' @ actor)
           else (False, ''AuthorizationDenied: no valid grant authorizes '' @ capability @ '' with effective_impact ''
              @ effective_impact q c provider_minimum @ '' for actor '' @ actor))))"

definition authorization_code :: "string \<Rightarrow> string" where
  "authorization_code reason = (case find (\<lambda>code. py_startswith reason code \<or> py_contains reason (code @ '':''))
       [''EffectContractMissing'', ''EffectContractInvalid'', ''AuthorizationRequired'', ''AuthorizationUnavailable'',
        ''ResourceRequired'', ''SubjectVersionRequired'', ''AuthorizationDenied''] of
     Some code \<Rightarrow> code | None \<Rightarrow> ''AuthorizationDenied'')"

section \<open>Policy obligations\<close>

text \<open>\<open>_status_entry_satisfied\<close>: explicit proof metadata, never a true value of another shape.\<close>

definition satisfied_statuses :: "string list" where
  "satisfied_statuses = [''satisfied'', ''waived'', ''handed-off'']"

definition status_entry_satisfied :: "pyval \<Rightarrow> obligation \<Rightarrow> bool result" where
  "status_entry_satisfied v ob = (case v of
     PBool b \<Rightarrow> Inr b
   | PStr s \<Rightarrow> Inr (s \<in> set (satisfied_statuses @ [''true'', ''True'']))
   | Python_Values.PDict d \<Rightarrow>
       (let kind = pv_or (pd_get d ''kind'') (pd_get d ''obligation''); status = pd_get d ''status'' in
        if kind \<noteq> PNone \<and> pv_str kind \<noteq> ob_kind ob then Inr False
        else bindR (in_str_set status satisfied_statuses) (\<lambda>known.
          Inr (if \<not> known then pd_get d ''satisfied'' = PBool True
            else if status = PStr ''waived'' \<and> \<not> pv_truthy (pd_get d ''waiver_authority_ref'') then False
            else if status = PStr ''waived'' \<and> \<not> ob_waivable ob then False
            else if status = PStr ''handed-off''
              then pv_truthy (pd_get d ''handoff_ref'') \<or> pv_truthy (pd_get d ''authority_ref'')
            else True)))
   | _ \<Rightarrow> Inr False)"

text \<open>The first candidate of a list of proofs that satisfies the obligation; only plain values can.\<close>

fun first_satisfying :: "obligation \<Rightarrow> proof_item list \<Rightarrow> pyval option result" where
  "first_satisfying ob [] = Inr None"
| "first_satisfying ob (Item_Value v # vs) =
     bindR (status_entry_satisfied v ob) (\<lambda>ok. if ok then Inr (Some v) else first_satisfying ob vs)"
| "first_satisfying ob (_ # vs) = first_satisfying ob vs"

definition has_authorization_refs :: "assessment \<Rightarrow> bool" where
  "has_authorization_refs a \<longleftrightarrow> pf_truthy (pf_get (as_proofs a) ''grants'')"

definition supplied_grants :: "assessment option \<Rightarrow> proof_item list option" where
  "supplied_grants a = (case a of None \<Rightarrow> None
   | Some a \<Rightarrow> if has_authorization_refs a then Some (pf_items (pf_get (as_proofs a) ''grants'')) else None)"

definition obligation_proofs :: "capability_request \<Rightarrow> assessment option \<Rightarrow> proof_value" where
  "obligation_proofs q a =
    (let snapshot = (case a of None \<Rightarrow> Pf_Value PNone | Some a \<Rightarrow> pf_get (as_proofs a) ''obligation_proofs'') in
     if \<not> pf_absent snapshot then snapshot
     else Pf_Value (of_json (jor (jget (cq_metadata q) ''obligation_refs'') (jget (cq_metadata q) ''policy_obligation_refs''))))"

definition proof_of_obligation :: "proof_value \<Rightarrow> obligation \<Rightarrow> pyval result" where
  "proof_of_obligation ps ob = (case ps of
     Pf_Value (Python_Values.PDict d) \<Rightarrow> Inr (pd_get d (ob_kind ob))
   | _ \<Rightarrow> bindR (first_satisfying ob (pf_items ps)) (\<lambda>v. Inr (case v of None \<Rightarrow> PNone | Some v \<Rightarrow> v)))"

text \<open>
  One obligation: \<open>None\<close> when it is met, the reason otherwise.  An approval is also met by a grant that
  authorizes the request, where the capability requires authorization.
\<close>

definition obligation_failure ::
    "boundary \<Rightarrow> capability_request \<Rightarrow> assessment option \<Rightarrow> bworld \<Rightarrow> obligation \<Rightarrow> string option result" where
  "obligation_failure B q a w ob =
    bindR (proof_of_obligation (obligation_proofs q a) ob) (\<lambda>v.
    (let missing = Some (''ObligationUnsatisfied: required policy obligation '' @ ob_kind ob @ '' has no satisfied proof'') in
     if v = PNone \<and> ob_kind ob = ''approval'' then
       bindR (resolve_contract (cq_capability q) (bw_contracts w)) (\<lambda>c.
         if authorization_required (cq_capability q) c (bw_contracts w) then
           (case check_authorization B q c None (supplied_grants a) w of (ok, reason) \<Rightarrow>
              Inr (if ok then None else if py_startswith reason ''AuthorizationUnavailable'' then Some reason else missing))
         else Inr missing)
     else bindR (status_entry_satisfied v ob) (\<lambda>ok. Inr (if ok then None else missing))))"

definition policy_obligations_satisfied ::
    "boundary \<Rightarrow> capability_request \<Rightarrow> policy_decision \<Rightarrow> assessment option \<Rightarrow> bworld \<Rightarrow> (bool \<times> string) result" where
  "policy_obligations_satisfied B q d a w =
    (if pd_obligations d = [] then Inr (True, ''no policy obligations'')
     else bindR (first_message (obligation_failure B q a w) (pd_obligations d)) (\<lambda>m.
       Inr (case m of Some reason \<Rightarrow> (False, reason) | None \<Rightarrow> (True, ''policy obligations satisfied''))))"

section \<open>Procedure\<close>

definition unresolved_status :: "gate_status \<Rightarrow> bool" where
  "unresolved_status s \<longleftrightarrow> s \<in> {Os_Open, Os_Required, Os_Blocked, Os_Expired, Os_Invalidated}"

fun obligation_name :: "gate_obligation \<Rightarrow> string" where
  "obligation_name (Ob_Gate g) = g"
| "obligation_name (Ob_Typed ob) = ob_kind ob"

definition procedure_blocked :: "obligation_status list \<Rightarrow> bool \<times> string" where
  "procedure_blocked ss = (let bad = filter (\<lambda>s. unresolved_status (os_status s)) ss in
     if bad \<noteq> [] then (True, ''ProcedureIncomplete: unresolved procedure obligations: ''
          @ py_join '', '' (map (\<lambda>s. obligation_name (os_obligation s)) bad))
     else (False, ''procedure executable''))"

definition procedure_not_applicable :: "capability_request \<Rightarrow> string \<Rightarrow> bool" where
  "procedure_not_applicable q effective \<longleftrightarrow> effective = ''read''
     \<and> (case jget (cq_metadata q) ''procedure_applicability'' of
          JObj p \<Rightarrow> jget p ''status'' = JStr ''not-applicable'' \<and> jget p ''authority'' = JStr ''capability-effect-rule''
            \<and> jget p ''capability'' = JStr (cq_capability q) \<and> jget p ''impact_class'' = JStr ''read''
        | _ \<Rightarrow> False)"

text \<open>
  A profile named in metadata; a value that is no text is unknown, like a text that names none.
\<close>

definition named_profile :: "(string, json) fmap \<Rightarrow> string option" where
  "named_profile meta = (case jget meta ''procedure_profile'' of JNull \<Rightarrow> None | JStr s \<Rightarrow> Some s | _ \<Rightarrow> Some [])"

definition contract_profile :: "capability_request \<Rightarrow> capability_contract \<Rightarrow> contract_registry \<Rightarrow> string" where
  "contract_profile q c g = (case effect_rule_of (cq_capability q) g of
     Some r \<Rightarrow> if er_authorization_required r \<and> cc_minimum_procedure_profile c = ''minimal'' then ''standard''
       else cc_minimum_procedure_profile c
   | None \<Rightarrow> cc_minimum_procedure_profile c)"

text \<open>The proofs an assessment hands to the procedure check (\<open>AssessmentContext.procedure_proofs\<close>).\<close>

definition ref_buckets :: "string list" where
  "ref_buckets = [''grants'', ''evidence_artifacts'', ''verification_results'', ''relations'', ''checkpoints'',
     ''decisions'', ''obligation_proofs'', ''procedure_proofs'']"

definition kind_to_proof :: "(string \<times> string) list" where
  "kind_to_proof =
    [(''authorization'', ''grants''), (''authorizationgrant'', ''grants''), (''grant'', ''grants''),
     (''evidence'', ''evidence_artifacts''), (''evidenceartifact'', ''evidence_artifacts''),
     (''observation'', ''evidence_artifacts''), (''verification'', ''verification_results''),
     (''verificationresult'', ''verification_results''), (''closedverification'', ''verification_results''),
     (''relation'', ''relations''), (''recordrelation'', ''relations''), (''checkpoint'', ''checkpoints''),
     (''decision'', ''decisions''), (''decisionrecord'', ''decisions''), (''obligation'', ''obligation_proofs''),
     (''policyobligation'', ''obligation_proofs''), (''failurestop'', ''failure_stop_proofs''),
     (''stopcondition'', ''failure_stop_proofs''), (''failurepolicy'', ''failure_stop_proofs''),
     (''circuitbreaker'', ''failure_stop_proofs''), (''humanstopauthority'', ''failure_stop_proofs''),
     (''recoveryabortpath'', ''failure_stop_proofs''), (''rollback'', ''checkpoints''),
     (''recovery'', ''recovery_procedures''), (''independence'', ''independence_proofs''),
     (''independentverification'', ''independence_proofs''), (''failuredomain'', ''independence_proofs''),
     (''roleseparation'', ''role_separation_proofs''), (''role'', ''role_separation_proofs''),
     (''challenge'', ''challenge_paths''), (''challengepath'', ''challenge_paths''),
     (''exposure'', ''exposure_proofs''), (''exposurelimit'', ''exposure_proofs''),
     (''takeover'', ''takeover_proofs''), (''exit'', ''exit_proofs''), (''reauthorization'', ''reauthorization_proofs'')]"

definition normal_kind :: "string \<Rightarrow> string" where
  "normal_kind s = py_lower (filter (\<lambda>c. c \<noteq> CHR ''_'' \<and> c \<noteq> CHR ''-'') s)"

definition extend_bucket :: "string \<Rightarrow> proof_item list \<Rightarrow> proofs \<Rightarrow> proofs" where
  "extend_bucket k items ps = dict_set k (Pf_List (pf_items (pf_get ps k) @ items)) ps"

definition spread_proof :: "proof_item \<Rightarrow> proofs \<Rightarrow> proofs" where
  "spread_proof item ps = (case item_dict item of
     Some d \<Rightarrow>
       if list_ex (\<lambda>(k, _). k \<in> set ref_buckets) d
       then fold (\<lambda>(k, v) acc. case (k \<in> set ref_buckets, v) of
           (True, PList xs) \<Rightarrow> extend_bucket k (map Item_Value xs) acc | _ \<Rightarrow> acc) d ps
       else (case pd_get d ''qualification_kind'' of
           PStr kind \<Rightarrow> (case map_of kind_to_proof (normal_kind kind) of
               Some target \<Rightarrow> extend_bucket target [item] ps | None \<Rightarrow> ps)
         | _ \<Rightarrow> extend_bucket ''procedure_proofs'' [item] ps)
   | None \<Rightarrow> extend_bucket ''procedure_proofs'' [item] ps)"

definition procedure_proofs :: "assessment \<Rightarrow> proofs" where
  "procedure_proofs a = fold (\<lambda>(bucket, v) acc.
     if bucket = ''procedure_proofs'' then fold spread_proof (pf_items v) acc
     else dict_set bucket (Pf_List (pf_items v)) acc) (as_proofs a) []"

section \<open>Fencing\<close>

definition read_fencing :: "boundary \<Rightarrow> capability_request \<Rightarrow> bworld \<Rightarrow> bool \<times> string \<times> string" where
  "read_fencing B q w = (case cq_run_id q of
     None \<Rightarrow> (True, ''no run fencing required'', [])
   | Some rid \<Rightarrow>
     if \<not> rb_has_store B then (False, ''FencingUnavailable: fencing store unavailable'', ''FencingUnavailable'')
     else (case get_run (bw_store w) rid of
         None \<Rightarrow> (False, ''FencingUnavailable: run '' @ py_repr rid @ '' not found'', ''FencingUnavailable'')
       | Some r \<Rightarrow> (case validate_fencing (rb_env B) q (Some r) (clock_now (rb_env B) w) of
           (ok, reason) \<Rightarrow> if \<not> ok then (False, ''FencingRejected: '' @ reason, ''FencingRejected'')
             else (True, reason, []))))"

section \<open>Governance\<close>

definition recheck_change :: "governance_judgment \<Rightarrow> governance_judgment \<Rightarrow> bool" where
  "recheck_change reference now \<longleftrightarrow> gj_status now \<noteq> gj_status reference
     \<or> gj_requirement_digest now \<noteq> gj_requirement_digest reference
     \<or> gj_snapshot_digest now \<noteq> gj_snapshot_digest reference"

definition governance_recheck_failure :: "governance_judgment \<Rightarrow> governance_judgment \<Rightarrow> (string \<times> string) option" where
  "governance_recheck_failure reference now = (case gj_status now of
     Gov_Unavailable \<Rightarrow> Some (''GovernanceUnavailable'', gj_reason now)
   | Gov_Stale \<Rightarrow> Some (''GovernanceStale'', gj_reason now)
   | Gov_Blocked \<Rightarrow> Some (''GovernanceChanged'', ''governance use judgment changed after admission: '' @ gj_reason now)
   | _ \<Rightarrow> if recheck_change reference now
       then Some (''GovernanceChanged'', ''governance use judgment no longer matches the admitted snapshot'') else None)"

definition permit_change :: "permit \<Rightarrow> governance_judgment \<Rightarrow> bool" where
  "permit_change p now \<longleftrightarrow> pm_governance_applicable p \<noteq> (gj_status now = Gov_Allowed)
     \<or> pm_requirement_digest p = [] \<or> pm_snapshot_digest p = []
     \<or> Some (pm_requirement_digest p) \<noteq> gj_requirement_digest now
     \<or> Some (pm_snapshot_digest p) \<noteq> gj_snapshot_digest now"

definition governance_permit_failure :: "permit \<Rightarrow> governance_judgment \<Rightarrow> (string \<times> string) option" where
  "governance_permit_failure p now = (case gj_status now of
     Gov_Unavailable \<Rightarrow> Some (''GovernanceUnavailable'', gj_reason now)
   | Gov_Stale \<Rightarrow> Some (''GovernanceStale'', gj_reason now)
   | Gov_Blocked \<Rightarrow> Some (''GovernanceChanged'', ''governance use judgment changed before reality exit: '' @ gj_reason now)
   | _ \<Rightarrow> if permit_change p now
       then Some (''GovernanceChanged'', ''invocation permit governance binding does not match current admission'') else None)"

section \<open>The permit\<close>

definition str_opt_json :: "string option \<Rightarrow> json" where
  "str_opt_json x = (case x of None \<Rightarrow> JNull | Some s \<Rightarrow> JStr s)"

definition authority_payload :: "capability_request \<Rightarrow> string \<Rightarrow> int \<Rightarrow> string \<Rightarrow> bool \<Rightarrow> string \<Rightarrow> string \<Rightarrow> json" where
  "authority_payload q provider_id generation qualification applicable requirement snapshot =
    JObj (fmap_of_list
      [(''request_id'', JStr (cq_id q)), (''capability'', JStr (cq_capability q)), (''actor'', str_opt_json (cq_actor_ref q)),
       (''resource'', str_opt_json (cq_resource_ref q)),
       (''subject_version_refs'', JList (map JStr (cq_subject_version_refs q))),
       (''effect_class'', JStr (invocation_effect_str (cq_effect_class q))), (''constraints'', JObj (cq_constraints q)),
       (''provider'', JStr provider_id), (''lease_generation'', JInt generation),
       (''idempotency_key'', str_opt_json (cq_idempotency_key q)), (''qualification_digest'', JStr qualification),
       (''governance'', JObj (fmap_of_list [(''applicable'', JBool applicable),
          (''requirement_digest'', JStr requirement), (''snapshot_digest'', JStr snapshot)]))])"

definition issue_permit ::
    "boundary \<Rightarrow> capability_request \<Rightarrow> string \<Rightarrow> string \<Rightarrow> governance_judgment \<Rightarrow> permit result" where
  "issue_permit B q provider_id qualification gov =
    (let applicable = (gj_status gov = Gov_Allowed); generation = extract_lease_generation q;
         requirement = text_or (gj_requirement_digest gov) (rb_not_applicable_digest B);
         snapshot = text_or (gj_snapshot_digest gov) (rb_not_applicable_digest B) in
     raise_if (applicable \<and> (\<not> nonempty_opt (gj_requirement_digest gov) \<or> \<not> nonempty_opt (gj_snapshot_digest gov)))
       ''governed invocation permit requires governance requirement and snapshot digests''
      (Inr \<lparr>pm_request = q,
        pm_request_digest = env_sha256_hex (rb_env B) (rb_snapshot_json B q
          (authority_payload q provider_id generation qualification applicable requirement snapshot)),
        pm_qualification_digest = qualification, pm_provider_id = provider_id, pm_lease_generation = generation,
        pm_governance_applicable = applicable, pm_requirement_digest = requirement, pm_snapshot_digest = snapshot\<rparr>))"

text \<open>The provider-facing request is read back from the snapshot: it is the one the permit was issued for.\<close>

definition materialize_request :: "permit \<Rightarrow> capability_request" where
  "materialize_request p = pm_request p"

section \<open>The stages before the provider is chosen\<close>

definition contract_stage :: "boundary \<Rightarrow> capability_request \<Rightarrow> capability_contract stage" where
  "contract_stage B q = withS (\<lambda>w. case resolve_contract (cq_capability q) (bw_contracts w) of
     Inr c \<Rightarrow> retS c
   | Inl e \<Rightarrow> refuse B q [] ''EffectContractMissing'' (error_text e) []
       [(''EffectContractMissing'', [(''capability'', JStr (cq_capability q)), (''reason'', JStr (error_text e))])])"

definition discovery_stage :: "boundary \<Rightarrow> capability_request \<Rightarrow> provider_descriptor list stage" where
  "discovery_stage B q = withS (\<lambda>w.
     if \<not> rb_has_registry B then refuse B q [] ''NoEligibleProvider'' ''provider registry unavailable'' [] []
     else (case descriptors_for (bw_descriptors w) (cq_capability q) (cq_excluded_provider_ids q) (bw_registry w) of
         Inl e \<Rightarrow> refuse B q [] ''RoutingUnavailable'' (''provider discovery failed: '' @ error_text e) [] []
       | Inr ds \<Rightarrow>
         if list_ex (\<lambda>d. de_side_effect_class d \<noteq> ''pure'') ds \<and> \<not> has_explicit_rule (cq_capability q) (bw_contracts w)
         then (let reason = ''EffectContractMissing: non-pure provider exposes unregistered capability '' @ py_repr (cq_capability q) in
           refuse B q [] ''EffectContractMissing'' reason []
             [(''EffectContractMissing'', [(''capability'', JStr (cq_capability q)), (''reason'', JStr reason)])])
         else retS ds))"

text \<open>The request as the later stages see it: its effect raised to the effective one, which its metadata name.\<close>

definition with_effective :: "capability_request \<Rightarrow> capability_contract \<Rightarrow> capability_request" where
  "with_effective q c =
    (let effective = effective_impact q c None;
         m1 = fmupd ''effective_impact'' (JStr effective) (cq_metadata q);
         m2 = (if fmlookup m1 ''effect_semantics'' = None then fmupd ''effect_semantics'' (JStr (cc_effect_semantics c)) m1 else m1);
         q1 = q\<lparr>cq_metadata := m2\<rparr>
     in if level_or_zero (invocation_effect_str (cq_effect_class q)) < level_or_zero effective
        then q1\<lparr>cq_effect_class := effect_named effective\<rparr> else q1)"

definition fencing_stage :: "boundary \<Rightarrow> capability_request \<Rightarrow> unit stage" where
  "fencing_stage B q = withS (\<lambda>w. case read_fencing B q w of (ok, reason, code) \<Rightarrow>
     if ok then retS ()
     else refuse B q [] code reason []
       [(code, [(''reason'', JStr reason), (''phase'', JStr ''pre'')]),
        (''InvocationBlocked'', [(''code'', JStr code), (''reason'', JStr reason), (''phase'', JStr ''pre'')])])"

definition qualification_stage :: "boundary \<Rightarrow> capability_request \<Rightarrow> assessment option stage" where
  "qualification_stage B q = withS (\<lambda>w.
     if \<not> rb_has_store B then retS None
     else (case rb_qualify B q w of
         Inr a \<Rightarrow> retS (Some a)
       | Inl (Unresolved m) \<Rightarrow> refuse B q [] ''QualificationUnavailable'' m [] [reason_event ''QualificationUnavailable'' m]
       | Inl (Resolution_Failed m) \<Rightarrow> refuse B q [] ''QualificationUnavailable'' (''qualification resolution failed: '' @ m) []
           [reason_event ''QualificationUnavailable'' m]))"

definition governance_code :: "governance_status \<Rightarrow> string option" where
  "governance_code s = (case s of Gov_Blocked \<Rightarrow> Some ''GovernanceBlocked'' | Gov_Unavailable \<Rightarrow> Some ''GovernanceUnavailable''
     | Gov_Stale \<Rightarrow> Some ''GovernanceStale'' | _ \<Rightarrow> None)"

definition governance_details :: "governance_judgment \<Rightarrow> (string \<times> json) list" where
  "governance_details g = [(''reason'', JStr (gj_reason g)), (''scheme_id'', str_opt_json (gj_scheme_id g)),
     (''use_context'', str_opt_json (gj_use_context g))]
     @ (case gj_snapshot_digest g of None \<Rightarrow> [] | Some d \<Rightarrow> [(''snapshot_digest'', JStr d)])"

definition governance_stage :: "boundary \<Rightarrow> capability_request \<Rightarrow> governance_judgment stage" where
  "governance_stage B q = withS (\<lambda>w. let g = rb_govern B q w in
     case governance_code (gj_status g) of
       None \<Rightarrow> retS g
     | Some code \<Rightarrow> refuse B q [] code (gj_reason g)
         [(''scheme_id'', str_opt_json (gj_scheme_id g)), (''governance_snapshot_digest'', str_opt_json (gj_snapshot_digest g))]
         [(code, governance_details g), (''InvocationBlocked'', (''code'', JStr code) # governance_details g)])"

fun disposition_name :: "disposition option \<Rightarrow> json" where
  "disposition_name None = JNull"
| "disposition_name (Some Disp_Allow) = JStr ''allow''"
| "disposition_name (Some Disp_Deny) = JStr ''deny''"
| "disposition_name (Some Disp_Defer) = JStr ''defer''"
| "disposition_name (Some Disp_Require) = JStr ''require''"

fun status_name :: "policy_status option \<Rightarrow> json" where
  "status_name None = JNull"
| "status_name (Some St_Allow) = JStr ''allow''"
| "status_name (Some St_Deny) = JStr ''deny''"
| "status_name (Some St_Require_Approval) = JStr ''require_approval''"
| "status_name (Some St_Require_Verification) = JStr ''require_verification''"

definition policy_verdict_stage :: "boundary \<Rightarrow> capability_request \<Rightarrow> assessment option \<Rightarrow> policy_decision \<Rightarrow> unit stage" where
  "policy_verdict_stage B q a d =
    bindS (logS B q [(''PolicyEvaluated'', [(''disposition'', disposition_name (pd_disposition d)),
        (''status'', status_name (pd_status d)), (''obligations'', JInt (int (length (pd_obligations d))))])]) (\<lambda>_.
    if pd_disposition d = Some Disp_Deny \<or> pd_status d = Some St_Deny then
      (let reason = ''policy denied: '' @ text_or (pd_reason d) ''deny'' in
       refuse B q [] ''PolicyDenied'' reason [] [reason_event ''PolicyDenied'' reason, blocked_event ''PolicyDenied'' reason])
    else if pd_disposition d = Some Disp_Defer then
      (let reason = ''policy deferred: '' @ text_or (pd_reason d) ''defer'' in
       refuse B q [] ''PolicyDenied'' reason []
         [(''PolicyDenied'', [(''reason'', JStr reason), (''disposition'', JStr ''defer'')]), blocked_event ''PolicyDenied'' reason])
    else if pd_disposition d = Some Disp_Require then
      withS (\<lambda>w. case policy_obligations_satisfied B q d a w of
        Inl e \<Rightarrow> refuse B q [] ''PolicyUnavailable'' (''policy obligation evaluation failed: '' @ error_text e) []
          [(''PolicyUnavailable'', [(''reason'', JStr (error_text e)), (''phase'', JStr ''obligations'')])]
      | Inr (True, _) \<Rightarrow> retS ()
      | Inr (False, reason) \<Rightarrow>
          (let code = (if py_startswith reason ''AuthorizationUnavailable'' then ''AuthorizationUnavailable'' else ''ObligationUnsatisfied'') in
           refuse B q [] code reason [] [reason_event code reason, blocked_event code reason]))
    else retS ())"

definition policy_stage :: "boundary \<Rightarrow> capability_request \<Rightarrow> assessment option \<Rightarrow> unit stage" where
  "policy_stage B q a = (case rb_policy B of
     None \<Rightarrow> retS ()
   | Some engine \<Rightarrow> (\<lambda>w. case engine q w of
       (Inl e, v) \<Rightarrow> refuse B q [] ''PolicyUnavailable'' (''policy evaluation failed: '' @ error_text e) []
          [reason_event ''PolicyUnavailable'' (error_text e)] v
     | (Inr d, v) \<Rightarrow> policy_verdict_stage B q a d v))"

definition authorization_stage :: "boundary \<Rightarrow> capability_request \<Rightarrow> capability_contract \<Rightarrow> assessment option \<Rightarrow> unit stage" where
  "authorization_stage B q c a = withS (\<lambda>w. case check_authorization B q c None (supplied_grants a) w of
     (True, _) \<Rightarrow> logS B q [(''AuthorizationEvaluated'', [(''allowed'', JBool True), (''actor'', str_opt_json (extract_actor q))])]
   | (False, reason) \<Rightarrow> (let code = authorization_code reason in
       refuse B q [] code reason []
         [(code, [(''reason'', JStr reason), (''actor'', str_opt_json (extract_actor q))]),
          (''AuthorizationEvaluated'', [(''allowed'', JBool False), (''code'', JStr code), (''reason'', JStr reason)])]))"

text \<open>The assessment of the procedure of a request with work and run.\<close>

definition procedure_statuses ::
    "boundary \<Rightarrow> capability_request \<Rightarrow> capability_contract \<Rightarrow> assessment option \<Rightarrow> bworld \<Rightarrow> obligation_status list result" where
  "procedure_statuses B q c a w = (case a of
     None \<Rightarrow> Inl (ForeignError ''procedure store unavailable'')
   | Some a \<Rightarrow> (case (as_work a, as_run a) of
       (Some wk, Some rn) \<Rightarrow>
         bindR (compute_effective_procedure_profile (Some (contract_profile q c (bw_contracts w)))
             [named_profile (wk_metadata wk), named_profile (rn_metadata rn), named_profile (cq_metadata q)]) (\<lambda>profile.
         let clock = (\<lambda>i. env_clock (rb_env B) (wd_tick (bw_world w) + i));
             grants = (case supplied_grants (Some a) of Some gs \<Rightarrow> gs
               | None \<Rightarrow> map Item_Grant (list_authorizations (bw_store w))) in
         check_procedure (rb_env B) clock (clock 0) (extract_work_fields wk) (extract_run_fields rn) profile [] {}
           (merge_proofs (Some (procedure_proofs a)) (procedure_kwargs (Some (Pf_List grants)) None None None None None) []))
     | _ \<Rightarrow> Inl (ForeignError ''work/run not found for procedure assessment'')))"

definition procedure_applies :: "capability_request \<Rightarrow> capability_contract \<Rightarrow> bool" where
  "procedure_applies q c \<longleftrightarrow> nonempty_opt (cq_work_id q) \<and> nonempty_opt (cq_run_id q)
     \<and> \<not> procedure_not_applicable q (effective_impact q c None)"

definition procedure_stage ::
    "boundary \<Rightarrow> capability_request \<Rightarrow> capability_contract \<Rightarrow> assessment option \<Rightarrow> unit stage" where
  "procedure_stage B q c a = (if \<not> procedure_applies q c then retS ()
     else withS (\<lambda>w. case procedure_statuses B q c a w of
         Inl e \<Rightarrow> refuse B q [] ''ProcedureUnavailable'' (''procedure evaluation failed: '' @ error_text e) []
           [reason_event ''ProcedureUnavailable'' (error_text e)]
       | Inr ss \<Rightarrow> (case procedure_blocked ss of
           (True, reason) \<Rightarrow> refuse B q [] ''ProcedureIncomplete'' reason []
             [reason_event ''ProcedureIncomplete'' reason, reason_event ''ProcedureBlocked'' reason,
              blocked_event ''ProcedureIncomplete'' reason]
         | (False, _) \<Rightarrow> retS ())))"

section \<open>Reliability, routing and the recheck\<close>

definition first_declared :: "json list \<Rightarrow> int option" where
  "first_declared vs = (case List.map_filter int_or_none vs of [] \<Rightarrow> None | i # _ \<Rightarrow> Some i)"

text \<open>What the request declares in its metadata, else its effect rule, else its contract.\<close>

definition declared_blast_radius :: "capability_request \<Rightarrow> capability_contract \<Rightarrow> contract_registry \<Rightarrow> int option" where
  "declared_blast_radius q c g = first_declared [jget (cq_metadata q) ''blast_radius'',
     int_opt_json (Option.bind (effect_rule_of (cq_capability q) g) er_blast_radius), int_opt_json (cc_blast_radius c)]"

definition declared_exposure :: "capability_request \<Rightarrow> capability_contract \<Rightarrow> contract_registry \<Rightarrow> int option" where
  "declared_exposure q c g = first_declared [jget (cq_metadata q) ''exposure'',
     int_opt_json (Option.bind (effect_rule_of (cq_capability q) g) er_exposure), int_opt_json (cc_exposure c)]"

fun timing_of_json :: "json \<Rightarrow> timing_value" where
  "timing_of_json (JInt i) = TInt i"
| "timing_of_json (JBool b) = TBool b"
| "timing_of_json (JStr s) = TStr s"
| "timing_of_json _ = TOther"

definition float_timing :: "(string \<times> flt) list \<Rightarrow> timing" where
  "float_timing d = map (\<lambda>(k, x). (k, TFloat x)) d"

definition declared_timing :: "capability_request \<Rightarrow> capability_contract \<Rightarrow> contract_registry \<Rightarrow> timing option" where
  "declared_timing q c g = (case jget (cq_metadata q) ''recovery_timing'' of
     JObj m \<Rightarrow> Some (map (\<lambda>k. (k, timing_of_json (jget m k))) (sorted_list_of_fset (fmdom m)))
   | _ \<Rightarrow> (case Option.bind (effect_rule_of (cq_capability q) g) er_recovery_timing of
       Some (x # xs) \<Rightarrow> Some (float_timing (x # xs))
     | _ \<Rightarrow> map_option float_timing (cc_recovery_timing c)))"

definition has_side_effect :: "string \<Rightarrow> bool" where
  "has_side_effect effective \<longleftrightarrow> level_or_zero ''read'' < level_or_zero effective"

definition reliability_request ::
    "capability_request \<Rightarrow> capability_contract \<Rightarrow> contract_registry \<Rightarrow> string \<Rightarrow> action_request" where
  "reliability_request q c g profile = (let effective = effective_impact q c None in
     \<lparr>aq_side_effect = has_side_effect effective,
      aq_blast_radius = (case declared_blast_radius q c g of None \<Rightarrow> 1 | Some r \<Rightarrow> r),
      aq_exposure = declared_exposure q c g,
      aq_irreversible = (effective \<in> {''admin'', ''irreversible''}),
      aq_procedure_profile = Some profile, aq_timing = declared_timing q c g\<rparr>)"

definition reliability_refusal :: "boundary \<Rightarrow> capability_request \<Rightarrow> bool \<Rightarrow> string \<Rightarrow> 'a stage" where
  "reliability_refusal B q side_effect reason = refuse B q [] ''ReliabilityBlocked'' reason []
     [(''ReliabilityBlocked'', [(''side_effect'', JBool side_effect), (''reason'', JStr reason)]),
      blocked_event ''ReliabilityBlocked'' reason]"

definition reliability_verdict_stage ::
    "boundary \<Rightarrow> capability_request \<Rightarrow> action_request \<Rightarrow> reliability_decision \<Rightarrow> action_request stage" where
  "reliability_verdict_stage B q a d = (case rs_error d of
     Some e \<Rightarrow> refuse B q [] ''ReliabilityUnavailable'' (''reliability evaluation failed: '' @ error_text e) []
       [reason_event ''ReliabilityUnavailable'' (error_text e)]
   | None \<Rightarrow> if \<not> rs_allowed d
       then reliability_refusal B q (aq_side_effect a) (text_or (rs_reason d) ''reliability budget exhausted'')
       else retS a)"

definition reliability_stage :: "boundary \<Rightarrow> capability_request \<Rightarrow> capability_contract \<Rightarrow> action_request stage" where
  "reliability_stage B q c = withS (\<lambda>w.
    bindS (uncaught (compute_effective_procedure_profile (Some (cc_minimum_procedure_profile c)) [named_profile (cq_metadata q)])) (\<lambda>profile.
    (let g = bw_contracts w; a = reliability_request q c g profile in
     if aq_side_effect a \<and> effective_impact q c None \<in> {''deploy'', ''admin'', ''irreversible''}
       \<and> declared_blast_radius q c g = None
     then reliability_refusal B q True ''high-impact capability has no declared blast_radius''
     else (\<lambda>v. case evaluate_reliability_stage (rb_parse_float B) (rb_monotonic B v) a (bw_controls v) of (d, controls) \<Rightarrow>
       reliability_verdict_stage B q a d (v\<lparr>bw_controls := controls\<rparr>)))))"

definition failure_domain_event :: "capability_request \<Rightarrow> string \<times> (string \<times> json) list" where
  "failure_domain_event q = (''ProviderRejectedByFailureDomain'',
     [(''capability'', JStr (cq_capability q)),
      (''required_failure_domains'', jget (cq_constraints q) ''required_failure_domains''),
      (''independence_constraints'', jget (cq_constraints q) ''independence_constraints'')])"

definition constrains_failure_domain :: "capability_request \<Rightarrow> bool" where
  "constrains_failure_domain q \<longleftrightarrow> json_truthy (jget (cq_constraints q) ''required_failure_domains'')
     \<or> json_truthy (jget (cq_constraints q) ''independence_constraints'')"

definition selection_stage :: "boundary \<Rightarrow> capability_request \<Rightarrow> provider_descriptor list \<Rightarrow> provider_descriptor stage" where
  "selection_stage B q ds w = (case select_provider_stage (rb_ask B) (rb_monotonic B) (rb_route B) q ds w of
     (Selection_Failed In_Eligibility e, v) \<Rightarrow>
       refuse B q [] ''RoutingUnavailable'' (''provider eligibility evaluation failed: '' @ error_text e) [] [] v
   | (Selection_Failed In_Routing e, v) \<Rightarrow>
       refuse B q [] ''RoutingUnavailable'' (''routing evaluation failed: '' @ error_text e) []
         [reason_event ''RoutingUnavailable'' (error_text e)] v
   | (Selected healthy None, v) \<Rightarrow>
       refuse B q [] ''NoEligibleProvider'' (''no eligible provider for '' @ cq_capability q) []
         ((if healthy \<noteq> [] \<and> constrains_failure_domain q then [failure_domain_event q] else [])
          @ [(''NoEligibleProvider'', [(''capability'', JStr (cq_capability q))]),
             (''InvocationBlocked'', [(''code'', JStr ''NoEligibleProvider''), (''capability'', JStr (cq_capability q))])]) v
   | (Selected healthy (Some d), v) \<Rightarrow>
       bindS (logS B q [(''ProviderSelected'', [(''provider_id'', JStr (de_id d)), (''capability'', JStr (cq_capability q))])])
         (\<lambda>_. retS d) v)"

text \<open>Resolving the references again: \<open>None\<close> when the facts are those assessed, else the reason.\<close>

definition requalify :: "boundary \<Rightarrow> capability_request \<Rightarrow> assessment option \<Rightarrow> string \<Rightarrow> string \<Rightarrow> bworld \<Rightarrow> string option" where
  "requalify B q a changed failed w = (case a of
     None \<Rightarrow> None
   | Some a \<Rightarrow> (case rb_qualify B q w of
       Inr fresh \<Rightarrow> if as_digest fresh = as_digest a then None else Some changed
     | Inl (Unresolved m) \<Rightarrow> Some m
     | Inl (Resolution_Failed m) \<Rightarrow> Some (failed @ m)))"

text \<open>The event of a failed revalidation holds the text of the exception alone.\<close>

definition requalify_event_reason :: "boundary \<Rightarrow> capability_request \<Rightarrow> string \<Rightarrow> bworld \<Rightarrow> string" where
  "requalify_event_reason B q reason w = (case rb_qualify B q w of Inl (Resolution_Failed m) \<Rightarrow> m | _ \<Rightarrow> reason)"

definition recheck_stage ::
    "boundary \<Rightarrow> capability_request \<Rightarrow> assessment option \<Rightarrow> governance_judgment \<Rightarrow> string \<Rightarrow> governance_judgment stage" where
  "recheck_stage B q a admitted provider_id = withS (\<lambda>w.
    case requalify B q a ''authoritative qualification facts changed during assessment'' ''qualification revalidation failed: '' w of
      Some reason \<Rightarrow> refuse B q provider_id ''QualificationChanged'' reason []
        [(''QualificationChanged'', [(''reason'', JStr (requalify_event_reason B q reason w)), (''provider_id'', JStr provider_id)])]
    | None \<Rightarrow> (let now = rb_govern B q w in
        case governance_recheck_failure admitted now of
          Some (code, reason) \<Rightarrow> refuse B q provider_id code reason
            [(''governance_snapshot_digest'', str_opt_json (gj_snapshot_digest now))]
            [(code, [(''reason'', JStr reason), (''provider_id'', JStr provider_id), (''phase'', JStr ''post-routing'')]),
             (''InvocationBlocked'', [(''code'', JStr code), (''reason'', JStr reason), (''phase'', JStr ''post-routing'')])]
        | None \<Rightarrow> retS now))"

section \<open>Precommit\<close>

definition precommit_stage ::
    "boundary \<Rightarrow> capability_request \<Rightarrow> precommit_input \<Rightarrow> record_ids stage" where
  "precommit_stage B q p w = (case precommit_execution_records (rb_env B) (rb_graph B) (rb_has_store B) q p w of
     (Inl e, v) \<Rightarrow> refuse B q (pc_provider_id p) ''PrecommitFailed'' (''precommit failed: '' @ error_text e) []
       [reason_event ''PrecommitFailed'' (error_text e)] v
   | (Inr ids, v) \<Rightarrow>
       bindS (logS B q (if pc_side_effect p then [(''StepPrecommitted'', [(''step_id'', str_opt_json (ri_step ids)),
            (''attempt_id'', str_opt_json (ri_attempt ids)), (''action_id'', str_opt_json (ri_action ids)),
            (''provider_id'', JStr (pc_provider_id p))])] else []))
         (\<lambda>_. retS ids) v)"

definition on_controls :: "(reliability_controls \<Rightarrow> reliability_controls) \<Rightarrow> bworld \<Rightarrow> bworld" where
  "on_controls f w = w\<lparr>bw_controls := f (bw_controls w)\<rparr>"

definition account_stage :: "boundary \<Rightarrow> action_request \<Rightarrow> unit stage" where
  "account_stage B a w = (Inr (), on_controls (record_action (rb_monotonic B w) (rb_monotonic B w) a) w)"

text \<open>A reservation of the side-effect budget is given back where one was made.\<close>

definition release :: "bool \<Rightarrow> bworld \<Rightarrow> bworld" where
  "release started w = (if started then on_controls (complete_action True) w else w)"

definition provider_stage :: "boundary \<Rightarrow> capability_request \<Rightarrow> bool \<Rightarrow> string \<Rightarrow> object_ref stage" where
  "provider_stage B q started provider_id w = (case get_provider provider_id (bw_registry w) of
     (Inl e, r) \<Rightarrow> refuse B q provider_id ''RoutingUnavailable'' (''provider lookup failed: '' @ error_text e) [] []
       (release started (w\<lparr>bw_registry := r\<rparr>))
   | (Inr obj, r) \<Rightarrow> (Inr obj, w\<lparr>bw_registry := r\<rparr>))"

section \<open>The last checks before the provider\<close>

record exit_ticket =
  xt_permit :: permit
  xt_ids :: record_ids
  xt_started :: bool

definition abort_before_reality_exit ::
    "boundary \<Rightarrow> exit_ticket \<Rightarrow> string \<Rightarrow> string \<Rightarrow> 'a stage" where
  "abort_before_reality_exit B t code reason w =
    (let p = xt_permit t; q = pm_request p; pid = pm_provider_id p;
         details = [(''code'', JStr code), (''reason'', JStr reason), (''provider_id'', JStr pid), (''phase'', JStr ''before-reality-exit'')] in
     case abort_preinvocation_records (rb_env B) (rb_graph B) (rb_has_store B) q pid (xt_ids t) code reason (release (xt_started t) w) of
       (Inl e, v) \<Rightarrow> (let abort_reason = ''pre-invocation abort projection failed after '' @ code @ '': '' @ error_text e in
         refuse B q pid ''PrecommitFailed'' abort_reason []
           [(''PrecommitFailed'', [(''reason'', JStr abort_reason), (''provider_id'', JStr pid)])] v)
     | (Inr _, v) \<Rightarrow> refuse B q pid code reason [(''governance_snapshot_digest'', JStr (pm_snapshot_digest p))]
         [(code, details), (''InvocationAbortedBeforeRealityExit'', details), (''InvocationBlocked'', details)] v)"

definition dispatch_code :: "dispatch_status \<Rightarrow> string option" where
  "dispatch_code s = (case s of Dispatch_Committed \<Rightarrow> None | Dispatch_Not_Applicable \<Rightarrow> None
     | Dispatch_Unavailable \<Rightarrow> Some ''GovernanceUnavailable'' | Dispatch_Stale \<Rightarrow> Some ''GovernanceStale''
     | _ \<Rightarrow> Some ''GovernanceChanged'')"

definition final_check_stage :: "boundary \<Rightarrow> assessment option \<Rightarrow> exit_ticket \<Rightarrow> unit stage" where
  "final_check_stage B a t = withS (\<lambda>w. let q = pm_request (xt_permit t) in
    case requalify B q a ''authoritative qualification facts changed before reality exit''
        ''qualification final revalidation failed: '' w of
      Some reason \<Rightarrow> abort_before_reality_exit B t ''QualificationChanged'' reason
    | None \<Rightarrow> (case governance_permit_failure (xt_permit t) (rb_govern B q w) of
        Some (code, reason) \<Rightarrow> abort_before_reality_exit B t code reason
      | None \<Rightarrow> retS ()))"

definition dispatch_stage :: "boundary \<Rightarrow> exit_ticket \<Rightarrow> string option stage" where
  "dispatch_stage B t w = (case rb_dispatch B (pm_request (xt_permit t)) (xt_permit t) (ri_attempt (xt_ids t)) w of (d, v) \<Rightarrow>
     (case dispatch_code (dd_status d) of
        Some code \<Rightarrow> abort_before_reality_exit B t code (dd_reason d)
      | None \<Rightarrow> retS (dd_commit_ref d)) v)"

definition invocation_context_of :: "boundary \<Rightarrow> permit \<Rightarrow> string option \<Rightarrow> invocation_context" where
  "invocation_context_of B p commit_ref = (let q = materialize_request p in
     \<lparr>ix_runtime_id = rb_runtime_id B, ix_work_id = cq_work_id q, ix_run_id = cq_run_id q,
      ix_metadata = cq_metadata q ++\<^sub>f fmap_of_list
        [(''qualification_digest'', JStr (pm_qualification_digest p)),
         (''governance_applicable'', JBool (pm_governance_applicable p)),
         (''governance_requirement_digest'', JStr (pm_requirement_digest p)),
         (''governance_snapshot_digest'', JStr (pm_snapshot_digest p)),
         (''dispatch_commit_ref'', str_opt_json commit_ref),
         (''invocation_permit_provider'', JStr (pm_provider_id p)),
         (''invocation_permit_request'', JStr (pm_request_digest p))],
      ix_lease_generation = pm_lease_generation p, ix_idempotency_key = cq_idempotency_key q\<rparr>)"

section \<open>The provider call\<close>

definition update_breaker :: "string \<Rightarrow> (circuit_breaker \<Rightarrow> circuit_breaker) \<Rightarrow> bworld \<Rightarrow> bworld" where
  "update_breaker pid f w = (case circuit_for pid (rg_circuits (bw_registry w)) of (c, cs) \<Rightarrow>
     w\<lparr>bw_registry := (bw_registry w)\<lparr>rg_circuits := dict_set pid (f c) cs\<rparr>\<rparr>)"

definition breaker_state :: "boundary \<Rightarrow> string \<Rightarrow> bworld \<Rightarrow> circuit_state \<times> bworld" where
  "breaker_state B pid w = (fst (circuit_read_state (rb_monotonic B w) (fst (circuit_for pid (rg_circuits (bw_registry w))))),
     update_breaker pid (\<lambda>c. snd (circuit_read_state (rb_monotonic B w) c)) w)"

fun status_text :: "capability_status \<Rightarrow> string" where
  "status_text Cap_Succeeded = ''succeeded''"
| "status_text Cap_Failed = ''failed''"
| "status_text Cap_Unavailable = ''unavailable''"
| "status_text Cap_Needs_Input = ''needs-input''"
| "status_text Cap_Cancelled = ''cancelled''"
| "status_text Cap_Unknown = ''unknown''"

definition failed_result :: "capability_request \<Rightarrow> string \<Rightarrow> string \<Rightarrow> string \<Rightarrow> capability_result" where
  "failed_result q provider_id kind message =
    \<lparr>cr_request_id = cq_id q, cr_provider_id = provider_id, cr_status = Cap_Failed, cr_output_artifact_refs = [],
     cr_evidence_refs = [], cr_message = None,
     cr_error = Some (JObj (fmap_of_list [(''type'', JStr kind), (''message'', JStr message)])),
     cr_metadata = fmempty, cr_verification_result = None, cr_external_operation_ref = None, cr_reconciled = False\<rparr>"

text \<open>
  The circuit breaker learns of a failure or of a success; other results leave it as it is.  A
  provider registered anew while its call is running has a new breaker, the one that is told here.
\<close>

definition breaker_outcome :: "boundary \<Rightarrow> string \<Rightarrow> capability_status \<Rightarrow> bworld \<Rightarrow> bworld" where
  "breaker_outcome B pid s w = (case s of
     Cap_Failed \<Rightarrow> update_breaker pid (record_failure (rb_monotonic B w)) w
   | Cap_Succeeded \<Rightarrow> update_breaker pid record_success w
   | _ \<Rightarrow> w)"

definition execution_event :: "string \<Rightarrow> string \<Rightarrow> capability_request \<Rightarrow> (string \<times> json) list" where
  "execution_event pid status q = [(''provider_id'', JStr pid), (''status'', JStr status),
     (''capability'', JStr (cq_capability q)), (''semantic_level'', JStr ''execution''), (''authoritative_outcome'', JBool False)]"

definition invoke_stage :: "boundary \<Rightarrow> exit_ticket \<Rightarrow> object_ref \<Rightarrow> string option \<Rightarrow> capability_result stage" where
  "invoke_stage B t obj commit_ref w0 =
    (let p = xt_permit t; q = materialize_request p; pid = pm_provider_id p;
         w1 = journal B q (''InvocationStarted'', [(''provider_id'', JStr pid), (''capability'', JStr (cq_capability q)),
           (''dispatch_commit_ref'', str_opt_json commit_ref)]) w0;
         (state_before, w2) = breaker_state B pid w1;
         (answer, w3) = rb_invoke B obj q (invocation_context_of B p commit_ref) w2;
         r = (case answer of Inr r \<Rightarrow> r | Inl (kind, message) \<Rightarrow> failed_result q pid kind message);
         w4 = release (xt_started t) (breaker_outcome B pid (cr_status r) w3);
         (state_after, w5) = breaker_state B pid w4
     in bindS (logS B q ((if state_after = Opened \<and> state_before \<noteq> Opened
              then [(''CircuitOpened'', [(''provider_id'', JStr pid), (''capability'', JStr (cq_capability q))])] else [])
            @ [(''InvocationCompleted'', execution_event pid (status_text (cr_status r)) q)]))
          (\<lambda>_. retS r) w5)"

section \<open>After the provider call\<close>

definition with_error :: "capability_status \<Rightarrow> string \<Rightarrow> string \<Rightarrow> capability_result \<Rightarrow> capability_result" where
  "with_error s code reason r = r\<lparr>cr_status := s,
     cr_error := Some (JObj (fmap_of_list [(''code'', JStr code), (''reason'', JStr reason)]))\<rparr>"

text \<open>The records of a rejected result become unknown, as far as the store lets them.\<close>

definition mark_unknown :: "boundary \<Rightarrow> record_ids \<Rightarrow> capability_result \<Rightarrow> (bworld, unit) io" where
  "mark_unknown B ids r = (if \<not> nonempty_opt (ri_step ids) \<or> \<not> rb_has_store B then retI () else
     bindI (withI (\<lambda>w. case get_step (bw_store w) (the (ri_step ids)) of
         None \<Rightarrow> retI ()
       | Some s \<Rightarrow> bindI (utcnow_b (rb_env B)) (\<lambda>now.
           save_step_b (rb_graph B) (s\<lparr>sp_status := Step_Unknown, sp_updated_at := now\<rparr>)))) (\<lambda>_.
     withI (\<lambda>w. case (if nonempty_opt (ri_attempt ids) then get_attempt w (the (ri_attempt ids)) else None) of
         None \<Rightarrow> retI ()
       | Some a \<Rightarrow> bindI (utcnow_b (rb_env B)) (\<lambda>now.
           save_attempt (rb_graph B) (a\<lparr>sa_status := Att_Unknown, sa_ended_at := Some now, sa_error := cr_error r\<rparr>)))))"

definition post_fencing_stage :: "boundary \<Rightarrow> exit_ticket \<Rightarrow> capability_result \<Rightarrow> unit stage" where
  "post_fencing_stage B t r = (let q = pm_request (xt_permit t); pid = pm_provider_id (xt_permit t) in
     if \<not> nonempty_opt (cq_run_id q) then retS ()
     else withS (\<lambda>w. case read_fencing B q w of (ok, reason, code) \<Rightarrow>
       if ok then retS ()
       else (let r' = with_error Cap_Unknown (if code = ''FencingRejected'' then ''PostFencingRejected'' else code) reason r in
         (\<lambda>w. bindS (logS B q [(''PostFencingRejected'', [(''reason'', JStr reason), (''provider_id'', JStr pid)])])
            (\<lambda>_. stopS r') (snd (mark_unknown B (xt_ids t) r' w))))))"

definition projection_events :: "capability_request \<Rightarrow> string \<Rightarrow> string option \<Rightarrow> (string \<times> (string \<times> json) list) list" where
  "projection_events q pid projected = (case projected of None \<Rightarrow> []
   | Some s \<Rightarrow>
     [(if s = ''succeeded'' then ''ExecutionSucceeded'' else ''ExecutionCompleted'', execution_event pid s q),
      (if s = ''succeeded'' then ''CapabilitySucceeded'' else ''CapabilityCompleted'',
        execution_event pid s q @ [(''compatibility_event'', JBool True)])])"

definition projection_stage :: "boundary \<Rightarrow> exit_ticket \<Rightarrow> capability_result \<Rightarrow> capability_result stage" where
  "projection_stage B t r w = (let q = pm_request (xt_permit t); pid = pm_provider_id (xt_permit t) in
     case commit_execution_projection (rb_env B) (rb_graph B) (rb_has_store B) q r pid (xt_ids t) w of
       (Inl e, v) \<Rightarrow> (let reason = ''result commit failed: '' @ error_text e in
         bindS (logS B q [(''ResultCommitFailed'', [(''reason'', JStr reason), (''provider_id'', JStr pid)])])
           (\<lambda>_. retS (with_error Cap_Unknown ''ResultCommitFailed'' reason r)) v)
     | (Inr projected, v) \<Rightarrow> bindS (logS B q (projection_events q pid projected)) (\<lambda>_. retS r) v)"

section \<open>\<open>execute\<close> and \<open>reconcile\<close>\<close>

text \<open>What was decided about a request before anything is written for it.\<close>

record admitted =
  ad_request :: capability_request
  ad_contract :: capability_contract
  ad_assessment :: "assessment option"
  ad_governance :: governance_judgment
  ad_action :: action_request
  ad_descriptor :: provider_descriptor

definition gates :: "boundary \<Rightarrow> capability_request \<Rightarrow> admitted stage" where
  "gates B q0 =
    bindS (contract_stage B q0) (\<lambda>c.
    bindS (discovery_stage B q0) (\<lambda>ds.
    (let q = with_effective q0 c in
    bindS (fencing_stage B q) (\<lambda>_.
    bindS (qualification_stage B q) (\<lambda>a.
    bindS (governance_stage B q) (\<lambda>g.
    bindS (policy_stage B q a) (\<lambda>_.
    bindS (authorization_stage B q c a) (\<lambda>_.
    bindS (procedure_stage B q c a) (\<lambda>_.
    bindS (reliability_stage B q c) (\<lambda>act.
    bindS (selection_stage B q ds) (\<lambda>d.
    bindS (recheck_stage B q a g (de_id d)) (\<lambda>g'.
    retS \<lparr>ad_request = q, ad_contract = c, ad_assessment = a, ad_governance = g', ad_action = act, ad_descriptor = d\<rparr>))))))))))))"

text \<open>The permit, the durable records, the accounting, and the last checks.\<close>

definition permit_stage :: "boundary \<Rightarrow> admitted \<Rightarrow> permit stage" where
  "permit_stage B x = uncaught (issue_permit B (ad_request x) (de_id (ad_descriptor x))
     (case ad_assessment x of None \<Rightarrow> [] | Some a \<Rightarrow> as_digest a) (ad_governance x))"

definition reserve_exit :: "boundary \<Rightarrow> admitted \<Rightarrow> (exit_ticket \<times> object_ref) stage" where
  "reserve_exit B x =
    bindS (permit_stage B x) (\<lambda>p.
    (let q = materialize_request p; side_effect = aq_side_effect (ad_action x) in
    bindS (precommit_stage B q \<lparr>pc_provider_id = pm_provider_id p, pc_permit_digest = pm_request_digest p,
        pc_lease_generation = extract_lease_generation q, pc_side_effect = side_effect,
        pc_plan = plan_from_descriptor (ad_descriptor x)\<rparr>) (\<lambda>ids.
    bindS (account_stage B (ad_action x)) (\<lambda>_.
    bindS (provider_stage B q side_effect (pm_provider_id p)) (\<lambda>obj.
    retS (\<lparr>xt_permit = p, xt_ids = ids, xt_started = side_effect\<rparr>, obj))))))"

definition admission :: "boundary \<Rightarrow> capability_request \<Rightarrow> (exit_ticket \<times> object_ref \<times> string option) stage" where
  "admission B q0 =
    bindS (gates B q0) (\<lambda>x.
    bindS (reserve_exit B x) (\<lambda>(t, obj).
    bindS (final_check_stage B (ad_assessment x) t) (\<lambda>_.
    bindS (dispatch_stage B t) (\<lambda>commit_ref.
    retS (t, obj, commit_ref)))))"

definition reality_exit :: "boundary \<Rightarrow> exit_ticket \<times> object_ref \<times> string option \<Rightarrow> capability_result stage" where
  "reality_exit B x = (case x of (t, obj, commit_ref) \<Rightarrow>
    bindS (invoke_stage B t obj commit_ref) (\<lambda>r.
    bindS (post_fencing_stage B t r) (\<lambda>_.
    projection_stage B t r)))"

definition finish :: "capability_result stage \<Rightarrow> (bworld, capability_result) io" where
  "finish m w = (case m w of
     (Inl (Stopped r), v) \<Rightarrow> (Inr r, v) | (Inl (Raised e), v) \<Rightarrow> (Inl e, v) | (Inr r, v) \<Rightarrow> (Inr r, v))"

definition execute :: "boundary \<Rightarrow> capability_request \<Rightarrow> (bworld, capability_result) io" where
  "execute B q = finish (bindS (admission B q) (reality_exit B))"

text \<open>
  \<open>reconcile\<close>: a provider without the method answers \<open>None\<close>, as it may when it is asked.  The
  request of the error results is a fresh one with the given id.
\<close>

definition bare_request :: "string \<Rightarrow> string \<Rightarrow> capability_request" where
  "bare_request i capability =
    \<lparr>cq_id = i, cq_capability = capability, cq_work_id = None, cq_run_id = None, cq_instruction = None,
     cq_input_artifact_refs = [], cq_parameters = fmempty, cq_constraints = fmempty, cq_preferred_provider_ids = [],
     cq_excluded_provider_ids = [], cq_metadata = fmempty, cq_idempotency_key = None, cq_step_key = None,
     cq_actor_ref = None, cq_resource_ref = None, cq_subject_version_refs = [], cq_effect_class = Eff_Read,
     cq_lease_generation = 0, cq_lease_owner = None\<rparr>"

type_synonym reconciler = "object_ref \<Rightarrow> (string \<Rightarrow> bworld \<Rightarrow> (string + capability_result option) \<times> bworld) option"

definition unknown_result :: "string \<Rightarrow> string \<Rightarrow> string \<Rightarrow> capability_result" where
  "unknown_result request_id provider_id text =
    \<lparr>cr_request_id = request_id, cr_provider_id = provider_id, cr_status = Cap_Unknown, cr_output_artifact_refs = [],
     cr_evidence_refs = [], cr_message = Some (''reconciliation failed: '' @ text),
     cr_error = Some (JObj (fmap_of_list [(''code'', JStr ''ReconciliationUnavailable''), (''reason'', JStr text)])),
     cr_metadata = fmempty, cr_verification_result = None, cr_external_operation_ref = None, cr_reconciled = False\<rparr>"

definition reconcile :: "boundary \<Rightarrow> reconciler \<Rightarrow> string \<Rightarrow> string \<Rightarrow> bworld \<Rightarrow> capability_result option \<times> bworld" where
  "reconcile B rec request_id provider_id w =
    (if \<not> rb_has_registry B then (Some (error_result (bare_request request_id ''reconcile'') [] ''RoutingUnavailable''
       ''provider registry unavailable for reconciliation'' []), w)
     else (case get_provider provider_id (bw_registry w) of
       (Inl e, r) \<Rightarrow> (Some (error_result (bare_request request_id ''reconcile'') provider_id ''RoutingUnavailable''
          (''provider lookup failed during reconciliation: '' @ error_text e) []), w\<lparr>bw_registry := r\<rparr>)
     | (Inr obj, r) \<Rightarrow> (case rec obj of
         None \<Rightarrow> (None, w\<lparr>bw_registry := r\<rparr>)
       | Some ask \<Rightarrow> (case ask request_id (w\<lparr>bw_registry := r\<rparr>) of
           (Inr answer, v) \<Rightarrow> (answer, v)
         | (Inl text, v) \<Rightarrow> (Some (unknown_result request_id provider_id text), v)))))"

end
