(* ===== verification/Boundary_Calculus.thy ===== *)
theory Boundary_Calculus
  imports Reality_Boundary Capability_Properties Procedure_Properties
begin

text \<open>
  How the stages of the reality boundary compose: a calculus for how a stage stops and for what it
  changes, what each stage needs in order to pass, and that nothing before the provider call depends
  on the provider.
\<close>

section \<open>How a stage stops\<close>

definition boundary_error_codes :: "string list" where
  "boundary_error_codes =
    [''FencingRejected'', ''FencingUnavailable'', ''LeaseUnavailable'', ''PolicyDenied'', ''PolicyUnavailable'',
     ''ObligationUnsatisfied'', ''ProcedureIncomplete'', ''ProcedureUnavailable'', ''AuthorizationRequired'',
     ''AuthorizationDenied'', ''AuthorizationUnavailable'', ''ResourceRequired'', ''SubjectVersionRequired'',
     ''EffectContractInvalid'', ''EffectContractMissing'', ''ReliabilityBlocked'', ''ReliabilityUnavailable'',
     ''IndependenceUnsatisfied'', ''NoEligibleProvider'', ''RoutingUnavailable'', ''PrecommitFailed'',
     ''PostFencingRejected'', ''ResultCommitFailed'', ''StaleResult'', ''QualificationUnavailable'',
     ''QualificationChanged'', ''GovernanceBlocked'', ''GovernanceUnavailable'', ''GovernanceStale'', ''GovernanceChanged'']"

definition error_code :: "capability_result \<Rightarrow> string option" where
  "error_code r = (case cr_error r of
     Some (JObj m) \<Rightarrow> (case jget m ''code'' of JStr s \<Rightarrow> Some s | _ \<Rightarrow> None) | _ \<Rightarrow> None)"

text \<open>A typed refusal: unavailable, no artifacts, and one of the boundary's error codes.\<close>

definition is_refusal :: "capability_request \<Rightarrow> capability_result \<Rightarrow> bool" where
  "is_refusal q r \<longleftrightarrow> cr_status r = Cap_Unavailable \<and> cr_output_artifact_refs r = [] \<and> cr_evidence_refs r = []
     \<and> cr_request_id r = cq_id q \<and> (\<exists>code \<in> set boundary_error_codes. error_code r = Some code)"

definition raised_by_boundary :: "py_error list" where
  "raised_by_boundary = [ValueError ''unknown procedure profile; refusing to downgrade governance'',
     ValueError ''governed invocation permit requires governance requirement and snapshot digests'']"

definition fails_closed :: "capability_request \<Rightarrow> stop \<Rightarrow> bool" where
  "fails_closed q s = (case s of Stopped r \<Rightarrow> is_refusal q r | Raised e \<Rightarrow> e \<in> set raised_by_boundary)"

definition stops_in :: "(stop \<Rightarrow> bool) \<Rightarrow> 'a stage \<Rightarrow> bool" where
  "stops_in P m \<longleftrightarrow> (\<forall>w s v. m w = (Inl s, v) \<longrightarrow> P s)"

lemma stops_inD: "stops_in P m \<Longrightarrow> m w = (Inl s, v) \<Longrightarrow> P s"
  by (auto simp: stops_in_def)

lemma stops_in_retS: "stops_in P (retS x)"
  by (simp add: stops_in_def retS_def)

lemma stops_in_logS: "stops_in P (logS B q evs)"
  by (simp add: stops_in_def logS_def)

lemma stops_in_bindS: "stops_in P m \<Longrightarrow> (\<And>x. stops_in P (f x)) \<Longrightarrow> stops_in P (bindS m f)"
  unfolding stops_in_def bindS_def by (fastforce split: prod.splits sum.splits)

lemma stops_in_withS: "(\<And>w. stops_in P (f w)) \<Longrightarrow> stops_in P (withS f)"
  by (auto simp: stops_in_def withS_def)

lemma stops_in_uncaught: "(\<And>e. r = Inl e \<Longrightarrow> P (Raised e)) \<Longrightarrow> stops_in P (uncaught r)"
  by (auto simp: stops_in_def uncaught_def split: sum.splits)

lemma error_code_error_result:
  assumes "''code'' \<notin> fst ` set extra"
  shows "error_code (error_result q pid code reason extra) = Some code"
proof -
  have "''code'' |\<notin>| fmdom (fmap_of_list extra)"
    using assms by (force simp: fset_of_list_elem)
  then show ?thesis
    by (simp add: error_code_def error_result_def jget_def fm_get_def fmlookup_of_list)
qed

lemma stops_in_refuse:
  assumes "code \<in> set boundary_error_codes" "''code'' \<notin> fst ` set extra" "cq_id q' = cq_id q"
  shows "stops_in (fails_closed q) (refuse B q' pid code reason extra evs)"
  using assms error_code_error_result [OF assms(2)]
  by (auto simp: stops_in_def refuse_def bindS_def logS_def stopS_def fails_closed_def is_refusal_def error_result_def)

text \<open>Stages that first run something that cannot stop them.\<close>

lemma stops_in_try:
  "(\<And>e. stops_in P (g e)) \<Longrightarrow> (\<And>x. stops_in P (h x))
    \<Longrightarrow> stops_in P (\<lambda>w. case m w of (Inl e, v) \<Rightarrow> g e v | (Inr x, v) \<Rightarrow> h x v)"
  unfolding stops_in_def by (auto split: prod.splits sum.splits)

lemma stops_in_prod: "(\<And>x. stops_in P (g x)) \<Longrightarrow> stops_in P (\<lambda>w. case m w of (x, v) \<Rightarrow> g x (h x v w))"
  unfolding stops_in_def by (auto split: prod.splits)

lemma stops_in_if: "(b \<Longrightarrow> stops_in P m) \<Longrightarrow> (\<not> b \<Longrightarrow> stops_in P n) \<Longrightarrow> stops_in P (if b then m else n)"
  by simp

lemma stops_in_option:
  "(x = None \<Longrightarrow> stops_in P n) \<Longrightarrow> (\<And>y. x = Some y \<Longrightarrow> stops_in P (f y)) \<Longrightarrow> stops_in P (case_option n f x)"
  by (cases x) simp_all

lemma stops_in_sum:
  "(\<And>y. x = Inl y \<Longrightarrow> stops_in P (g y)) \<Longrightarrow> (\<And>y. x = Inr y \<Longrightarrow> stops_in P (f y)) \<Longrightarrow> stops_in P (case_sum g f x)"
  by (cases x) simp_all

lemma stops_in_pair: "(\<And>a b. x = (a, b) \<Longrightarrow> stops_in P (f a b)) \<Longrightarrow> stops_in P (case_prod f x)"
  by (cases x) simp_all

lemma stops_in_failure:
  "(\<And>m. x = Unresolved m \<Longrightarrow> stops_in P (g m)) \<Longrightarrow> (\<And>m. x = Resolution_Failed m \<Longrightarrow> stops_in P (h m))
    \<Longrightarrow> stops_in P (case_qualification_failure g h x)"
  by (cases x) simp_all

lemma stops_in_bool: "(b \<Longrightarrow> stops_in P m) \<Longrightarrow> (\<not> b \<Longrightarrow> stops_in P n) \<Longrightarrow> stops_in P (case b of True \<Rightarrow> m | False \<Rightarrow> n)"
  by (cases b) simp_all

lemmas stops_intros = stops_in_retS stops_in_logS stops_in_bindS stops_in_withS stops_in_refuse stops_in_if
  stops_in_option stops_in_sum stops_in_pair stops_in_failure stops_in_bool

section \<open>The stages fail closed\<close>

named_theorems closed

lemma contract_stage_closed [closed]: "stops_in (fails_closed q) (contract_stage B q)"
  unfolding contract_stage_def by (intro stops_intros) (simp_all add: boundary_error_codes_def)

lemma discovery_stage_closed [closed]: "stops_in (fails_closed q) (discovery_stage B q)"
  unfolding discovery_stage_def Let_def by (intro stops_intros) (simp_all add: boundary_error_codes_def)

lemma read_fencing_code:
  "read_fencing B q w = (False, reason, code) \<Longrightarrow> code \<in> {''FencingUnavailable'', ''FencingRejected''}"
  by (auto simp: read_fencing_def split: option.splits if_splits prod.splits)

lemma fencing_stage_closed [closed]: "cq_id q' = cq_id q \<Longrightarrow> stops_in (fails_closed q) (fencing_stage B q')"
  unfolding fencing_stage_def
  by (intro stops_intros) (auto simp: boundary_error_codes_def dest!: read_fencing_code)

lemma qualification_stage_closed [closed]:
  "cq_id q' = cq_id q \<Longrightarrow> stops_in (fails_closed q) (qualification_stage B q')"
  unfolding qualification_stage_def by (intro stops_intros) (simp_all add: boundary_error_codes_def)

lemma governance_code_known: "governance_code s = Some code \<Longrightarrow> code \<in> set boundary_error_codes"
  by (auto simp: governance_code_def boundary_error_codes_def split: governance_status.splits)

lemma governance_stage_closed [closed]:
  "cq_id q' = cq_id q \<Longrightarrow> stops_in (fails_closed q) (governance_stage B q')"
  unfolding governance_stage_def Let_def by (intro stops_intros) (simp_all add: governance_code_known)

lemma policy_verdict_stage_closed:
  "cq_id q' = cq_id q \<Longrightarrow> stops_in (fails_closed q) (policy_verdict_stage B q' a d)"
  unfolding policy_verdict_stage_def Let_def
  by (intro stops_intros) (simp_all add: boundary_error_codes_def)

lemma policy_stage_closed [closed]: "cq_id q' = cq_id q \<Longrightarrow> stops_in (fails_closed q) (policy_stage B q' a)"
  unfolding policy_stage_def
  by (intro stops_intros stops_in_try policy_verdict_stage_closed) (simp_all add: boundary_error_codes_def)

lemma find_set: "find P xs = Some x \<Longrightarrow> x \<in> set xs"
  by (auto simp: find_Some_iff)

lemma authorization_code_known: "authorization_code reason \<in> set boundary_error_codes"
  unfolding authorization_code_def
  by (auto simp: boundary_error_codes_def split: option.splits dest!: find_set)

lemma authorization_stage_closed [closed]:
  "cq_id q' = cq_id q \<Longrightarrow> stops_in (fails_closed q) (authorization_stage B q' c a)"
  unfolding authorization_stage_def Let_def
  by (intro stops_intros) (simp_all add: authorization_code_known)

lemma procedure_stage_closed [closed]:
  "cq_id q' = cq_id q \<Longrightarrow> stops_in (fails_closed q) (procedure_stage B q' c a)"
  unfolding procedure_stage_def by (intro stops_intros) (simp_all add: boundary_error_codes_def)

lemma profile_error:
  "compute_effective_procedure_profile m vs = Inl e
    \<Longrightarrow> e = ValueError ''unknown procedure profile; refusing to downgrade governance''"
  by (auto simp: compute_effective_procedure_profile_def Let_def split: if_splits)

lemma reliability_refusal_closed [closed]:
  "cq_id q' = cq_id q \<Longrightarrow> stops_in (fails_closed q) (reliability_refusal B q' b reason)"
  unfolding reliability_refusal_def by (intro stops_intros) (simp_all add: boundary_error_codes_def)

lemma reliability_verdict_closed [closed]:
  "cq_id q' = cq_id q \<Longrightarrow> stops_in (fails_closed q) (reliability_verdict_stage B q' a d)"
  unfolding reliability_verdict_stage_def by (intro stops_intros closed) (simp_all add: boundary_error_codes_def)

lemma reliability_stage_closed [closed]:
  "cq_id q' = cq_id q \<Longrightarrow> stops_in (fails_closed q) (reliability_stage B q' c)"
  unfolding reliability_stage_def Let_def
  by (intro stops_in_withS stops_in_bindS stops_in_if stops_in_uncaught stops_in_prod closed)
    (auto simp: fails_closed_def raised_by_boundary_def dest: profile_error)

lemma selection_stage_closed [closed]:
  assumes "cq_id q' = cq_id q"
  shows "stops_in (fails_closed q) (selection_stage B q' ds)"
proof -
  have "selection_stage B q' ds = (\<lambda>w. case select_provider_stage (rb_ask B) (rb_monotonic B) (rb_route B) q' ds w of
      (x, v) \<Rightarrow> (case x of Selection_Failed p e \<Rightarrow> (case p of
          In_Eligibility \<Rightarrow> refuse B q' [] ''RoutingUnavailable'' (''provider eligibility evaluation failed: '' @ error_text e) [] []
        | In_Routing \<Rightarrow> refuse B q' [] ''RoutingUnavailable'' (''routing evaluation failed: '' @ error_text e) []
            [reason_event ''RoutingUnavailable'' (error_text e)])
      | Selected healthy chosen \<Rightarrow> (case chosen of
          None \<Rightarrow> refuse B q' [] ''NoEligibleProvider'' (''no eligible provider for '' @ cq_capability q') []
            ((if healthy \<noteq> [] \<and> constrains_failure_domain q' then [failure_domain_event q'] else [])
             @ [(''NoEligibleProvider'', [(''capability'', JStr (cq_capability q'))]),
                (''InvocationBlocked'', [(''code'', JStr ''NoEligibleProvider''), (''capability'', JStr (cq_capability q'))])])
        | Some d \<Rightarrow> bindS (logS B q' [(''ProviderSelected'', [(''provider_id'', JStr (de_id d)), (''capability'', JStr (cq_capability q'))])])
            (\<lambda>_. retS d))) v)"
    unfolding selection_stage_def
    by (rule ext) (simp split: prod.split selection.split option.split selection_phase.split)
  then show ?thesis
    using assms
    by (auto intro!: stops_in_prod stops_in_refuse stops_in_option stops_in_bindS stops_in_logS stops_in_retS
        simp: boundary_error_codes_def split: selection.split selection_phase.split)
qed

lemma recheck_code_known:
  "governance_recheck_failure g now = Some (code, reason) \<Longrightarrow> code \<in> set boundary_error_codes"
  by (auto simp: governance_recheck_failure_def boundary_error_codes_def split: governance_status.splits if_splits)

lemma recheck_stage_closed [closed]:
  "cq_id q' = cq_id q \<Longrightarrow> stops_in (fails_closed q) (recheck_stage B q' a g pid)"
  unfolding recheck_stage_def Let_def
  by (intro stops_intros) (auto simp: recheck_code_known, simp_all add: boundary_error_codes_def)

lemma with_effective_id [simp]: "cq_id (with_effective q c) = cq_id q"
  by (simp add: with_effective_def Let_def)

lemma gates_closed: "stops_in (fails_closed q) (gates B q)"
  unfolding gates_def Let_def by (intro stops_in_bindS stops_in_retS closed) simp_all

lemma precommit_stage_closed [closed]:
  "cq_id q' = cq_id q \<Longrightarrow> stops_in (fails_closed q) (precommit_stage B q' p)"
  unfolding precommit_stage_def
  by (intro stops_in_try stops_intros) (simp_all add: boundary_error_codes_def)

lemma account_stage_closed [closed]: "stops_in P (account_stage B a)"
  by (simp add: stops_in_def account_stage_def)

lemma provider_stage_closed [closed]:
  assumes "cq_id q' = cq_id q"
  shows "stops_in (fails_closed q) (provider_stage B q' started pid)"
proof -
  have "''RoutingUnavailable'' \<in> set boundary_error_codes"
    by (simp add: boundary_error_codes_def)
  from stops_in_refuse [OF this _ assms, of "[]"] show ?thesis
    by (fastforce simp: stops_in_def provider_stage_def split: prod.splits sum.splits)
qed

lemma issue_permit_request:
  "issue_permit B q pid digest g = Inr p \<Longrightarrow> pm_request p = q \<and> pm_provider_id p = pid"
  by (auto simp: issue_permit_def Let_def)

lemma issue_permit_error: "issue_permit B q pid digest g = Inl e \<Longrightarrow> e \<in> set raised_by_boundary"
  by (auto simp: issue_permit_def Let_def raised_by_boundary_def raise_if_def split: if_splits)

lemma abort_closed [closed]:
  assumes "cq_id (pm_request (xt_permit t)) = cq_id q" "code \<in> set boundary_error_codes"
  shows "stops_in (fails_closed q) (abort_before_reality_exit B t code reason)"
proof -
  have "''PrecommitFailed'' \<in> set boundary_error_codes"
    by (simp add: boundary_error_codes_def)
  from stops_in_refuse [OF this _ assms(1), of "[]"]
    stops_in_refuse [OF assms(2) _ assms(1), of "[(''governance_snapshot_digest'', JStr (pm_snapshot_digest (xt_permit t)))]"]
  show ?thesis
    by (fastforce simp: stops_in_def abort_before_reality_exit_def Let_def split: prod.splits sum.splits)
qed

lemma permit_failure_known:
  "governance_permit_failure p now = Some (code, reason) \<Longrightarrow> code \<in> set boundary_error_codes"
  by (auto simp: governance_permit_failure_def boundary_error_codes_def split: governance_status.splits if_splits)

lemma final_check_stage_closed [closed]:
  "cq_id (pm_request (xt_permit t)) = cq_id q \<Longrightarrow> stops_in (fails_closed q) (final_check_stage B a t)"
  unfolding final_check_stage_def Let_def
  by (intro stops_intros closed) (auto simp: permit_failure_known, simp_all add: boundary_error_codes_def)

lemma dispatch_code_known: "dispatch_code s = Some code \<Longrightarrow> code \<in> set boundary_error_codes"
  by (auto simp: dispatch_code_def boundary_error_codes_def split: dispatch_status.splits)

lemma dispatch_stage_closed [closed]:
  "cq_id (pm_request (xt_permit t)) = cq_id q \<Longrightarrow> stops_in (fails_closed q) (dispatch_stage B t)"
  unfolding dispatch_stage_def by (intro stops_in_prod stops_intros closed) (simp_all add: dispatch_code_known)

text \<open>A bind whose first part fixes something of what it hands on.\<close>

lemma stops_in_bindS_Inr:
  "stops_in P m \<Longrightarrow> (\<And>x w v. m w = (Inr x, v) \<Longrightarrow> stops_in P (f x)) \<Longrightarrow> stops_in P (bindS m f)"
  unfolding stops_in_def bindS_def by (fastforce split: prod.splits sum.splits)

lemma permit_stage_closed [closed]: "stops_in (fails_closed q) (permit_stage B x)"
  unfolding permit_stage_def
  by (intro stops_in_uncaught) (auto simp: fails_closed_def dest: issue_permit_error)

lemma permit_stage_Inr:
  "permit_stage B x w = (Inr p, v) \<Longrightarrow> pm_request p = ad_request x \<and> pm_provider_id p = de_id (ad_descriptor x)"
  by (auto simp: permit_stage_def dest: issue_permit_request)

lemma reserve_closed: "cq_id (ad_request x) = cq_id q \<Longrightarrow> stops_in (fails_closed q) (reserve_exit B x)"
  unfolding reserve_exit_def Let_def
  by (intro stops_in_bindS_Inr stops_in_retS closed) (auto simp: materialize_request_def dest: permit_stage_Inr)

lemma gates_request: "gates B q w = (Inr x, v) \<Longrightarrow> ad_request x = with_effective q (ad_contract x)"
  by (auto simp: gates_def Let_def)

lemma reserve_permit: "reserve_exit B x w = (Inr (t, obj), v) \<Longrightarrow> pm_request (xt_permit t) = ad_request x"
  by (auto simp: reserve_exit_def Let_def dest: permit_stage_Inr)

lemma admission_closed: "stops_in (fails_closed q) (admission B q)"
  unfolding admission_def
  by (intro stops_in_bindS_Inr stops_in_pair gates_closed reserve_closed stops_in_retS closed)
    (auto dest!: gates_request reserve_permit)

section \<open>What a stage changes\<close>

text \<open>Until the provider is chosen only the journal grows, where the policy engine only reads.\<close>

definition journal_only :: "bworld \<Rightarrow> bworld \<Rightarrow> bool" where
  "journal_only w v \<longleftrightarrow> (\<exists>z. world_grows (bw_world w) z \<and> v = w\<lparr>bw_world := z\<rparr>)"

definition policy_reads_only :: "boundary \<Rightarrow> bool" where
  "policy_reads_only B \<longleftrightarrow> (\<forall>engine q w. rb_policy B = Some engine \<longrightarrow> snd (engine q w) = w)"

lemma journal_only_refl [simp]: "journal_only w w"
  by (auto simp: journal_only_def world_grows_def intro!: exI [of _ "bw_world w"])

lemma journal_only_trans [trans]:
  assumes "journal_only w v" "journal_only v u"
  shows "journal_only w u"
proof -
  obtain y z where "world_grows (bw_world w) y" "v = w\<lparr>bw_world := y\<rparr>" "world_grows y z" "u = w\<lparr>bw_world := z\<rparr>"
    using assms by (auto simp: journal_only_def)
  then show ?thesis
    using transpD [OF transp_world_grows] by (auto simp: journal_only_def)
qed

lemma journal_only_fields:
  assumes "journal_only w v"
  shows "bw_attempts v = bw_attempts w" "bw_actions v = bw_actions w" "bw_controls v = bw_controls w"
    "bw_registry v = bw_registry w" "bw_descriptors v = bw_descriptors w" "bw_contracts v = bw_contracts w"
    "get_run (bw_store v) i = get_run (bw_store w) i" "get_step (bw_store v) i = get_step (bw_store w) i"
    "list_authorizations (bw_store v) = list_authorizations (bw_store w)"
  using assms
  by (auto simp: journal_only_def world_grows_def journal_grows_def get_run_def get_step_def list_authorizations_def)

lemma journal_only_journal: "journal_only w (journal B q ev w)"
proof (cases "rb_has_store B")
  case True
  then show ?thesis
    using keepsD [OF keeps_append_new_event, of "rb_env B" "fst ev" "cq_id q"
        "Memory_Store.PDict (fmap_of_list (snd ev))" "bw_world w"]
    by (auto simp: journal_def on_world_def journal_only_def split: prod.splits)
qed (simp add: journal_def)

lemma journal_only_fold: "journal_only w (fold (journal B q) evs w)"
proof (induction evs arbitrary: w)
  case (Cons ev evs)
  show ?case
    using journal_only_trans [OF journal_only_journal Cons.IH] by simp
qed simp

lemma logS_Inr [simp]: "logS B q evs w = (Inr x, v) \<longleftrightarrow> v = fold (journal B q) evs w"
  by (auto simp: logS_def)

lemma contract_stage_Inr: "contract_stage B q w = (Inr c, v) \<Longrightarrow> resolve_contract (cq_capability q) (bw_contracts w) = Inr c \<and> v = w"
  by (auto simp: contract_stage_def split: sum.splits)

lemma discovery_stage_Inr: "discovery_stage B q w = (Inr ds, v) \<Longrightarrow> v = w
    \<and> descriptors_for (bw_descriptors w) (cq_capability q) (cq_excluded_provider_ids q) (bw_registry w) = Inr ds"
  by (auto simp: discovery_stage_def Let_def split: sum.splits if_splits)

lemma fencing_stage_Inr: "fencing_stage B q w = (Inr x, v) \<Longrightarrow> v = w \<and> fst (read_fencing B q w)"
  by (auto simp: fencing_stage_def split: prod.splits if_splits)

lemma qualification_stage_Inr: "qualification_stage B q w = (Inr a, v)
    \<Longrightarrow> v = w \<and> (case a of None \<Rightarrow> \<not> rb_has_store B | Some a \<Rightarrow> rb_qualify B q w = Inr a)"
  by (auto simp: qualification_stage_def split: sum.splits qualification_failure.splits if_splits)

lemma governance_stage_Inr: "governance_stage B q w = (Inr g, v)
    \<Longrightarrow> v = w \<and> g = rb_govern B q w \<and> governance_code (gj_status g) = None"
  by (auto simp: governance_stage_def Let_def split: option.splits)

lemma authorization_stage_Inr: "authorization_stage B q c a w = (Inr x, v)
    \<Longrightarrow> journal_only w v \<and> fst (check_authorization B q c None (supplied_grants a) w)"
  by (auto simp: authorization_stage_def Let_def journal_only_journal split: prod.splits bool.splits)

lemma procedure_stage_Inr: "procedure_stage B q c a w = (Inr x, v)
    \<Longrightarrow> v = w \<and> (procedure_applies q c \<longrightarrow> (\<exists>ss. procedure_statuses B q c a w = Inr ss \<and> \<not> fst (procedure_blocked ss)))"
  by (auto simp: procedure_stage_def split: if_splits sum.splits prod.splits bool.splits)

text \<open>What a policy decision demands of a request before it may pass.\<close>

definition policy_satisfied :: "boundary \<Rightarrow> capability_request \<Rightarrow> assessment option \<Rightarrow> bworld \<Rightarrow> policy_decision \<Rightarrow> bool" where
  "policy_satisfied B q a w d \<longleftrightarrow> pd_disposition d \<noteq> Some Disp_Deny \<and> pd_status d \<noteq> Some St_Deny
     \<and> pd_disposition d \<noteq> Some Disp_Defer
     \<and> (pd_disposition d = Some Disp_Require \<longrightarrow>
          (\<exists>reason. policy_obligations_satisfied B q d a w = Inr (True, reason)))"

lemma policy_verdict_stage_Inr: "policy_verdict_stage B q a d w = (Inr x, v)
    \<Longrightarrow> journal_only w v \<and> policy_satisfied B q a v d"
  by (auto simp: policy_verdict_stage_def Let_def policy_satisfied_def journal_only_journal
      split: if_splits sum.splits prod.splits bool.splits)

lemma policy_stage_Inr:
  assumes "policy_reads_only B" "policy_stage B q a w = (Inr x, v)"
  shows "journal_only w v \<and> (\<forall>engine. rb_policy B = Some engine \<longrightarrow>
      (\<exists>d. fst (engine q w) = Inr d \<and> policy_satisfied B q a v d))"
proof (cases "rb_policy B")
  case None
  with assms(2) show ?thesis by (simp add: policy_stage_def)
next
  case (Some engine)
  obtain r u where e: "engine q w = (r, u)" by fastforce
  have "snd (engine q w) = w"
    using assms(1) Some by (simp add: policy_reads_only_def)
  with e have "u = w" by simp
  with e Some assms(2) show ?thesis
    by (cases r) (auto simp: policy_stage_def dest: policy_verdict_stage_Inr)
qed

section \<open>The gates on the way to a provider\<close>

text \<open>
  What holds of a request \<open>q\<close> when every gate has passed, in the world \<open>w\<close> before it or in one that
  differs from it in the journal alone.
\<close>

definition gates_passed ::
    "boundary \<Rightarrow> capability_request \<Rightarrow> bworld \<Rightarrow> capability_contract \<Rightarrow> assessment option \<Rightarrow> bworld \<Rightarrow> bool" where
  "gates_passed B q w c a u \<longleftrightarrow>
     resolve_contract (cq_capability q) (bw_contracts w) = Inr c \<and> fst (read_fencing B q w)
     \<and> (case a of None \<Rightarrow> \<not> rb_has_store B | Some a \<Rightarrow> rb_qualify B q w = Inr a)
     \<and> governance_code (gj_status (rb_govern B q w)) = None \<and> journal_only w u
     \<and> (\<forall>engine. rb_policy B = Some engine \<longrightarrow> (\<exists>d. fst (engine q w) = Inr d \<and> policy_satisfied B q a u d))
     \<and> fst (check_authorization B q c None (supplied_grants a) u)
     \<and> (procedure_applies q c \<longrightarrow> (\<exists>t ss. journal_only w t
          \<and> procedure_statuses B q c a t = Inr ss \<and> \<not> fst (procedure_blocked ss)))"

lemma with_effective_fields [simp]:
  "cq_capability (with_effective q c) = cq_capability q" "cq_run_id (with_effective q c) = cq_run_id q"
  "cq_work_id (with_effective q c) = cq_work_id q" "cq_lease_generation (with_effective q c) = cq_lease_generation q"
  "cq_lease_owner (with_effective q c) = cq_lease_owner q" "cq_actor_ref (with_effective q c) = cq_actor_ref q"
  by (simp_all add: with_effective_def Let_def)

lemma gates_passed_when:
  assumes "policy_reads_only B" "gates B q w = (Inr x, v)"
  shows "\<exists>u. gates_passed B (ad_request x) w (ad_contract x) (ad_assessment x) u"
proof -
  obtain c ds a g u1 u2 u3 u4 y1 y2 y3 y4 where
      c: "contract_stage B q w = (Inr c, y1)" and ds: "discovery_stage B q y1 = (Inr ds, y2)"
      and f: "fencing_stage B (with_effective q c) y2 = (Inr (), y3)"
      and a: "qualification_stage B (with_effective q c) y3 = (Inr a, y4)"
      and g: "governance_stage B (with_effective q c) y4 = (Inr g, u1)"
      and p: "policy_stage B (with_effective q c) a u1 = (Inr (), u2)"
      and au: "authorization_stage B (with_effective q c) c a u2 = (Inr (), u3)"
      and pr: "procedure_stage B (with_effective q c) c a u3 = (Inr (), u4)"
      and x: "ad_request x = with_effective q c" "ad_contract x = c" "ad_assessment x = a"
    using assms(2) unfolding gates_def Let_def by auto
  have "y1 = w" "y2 = y1" "y3 = y2" "y4 = y3" "u1 = y4"
    using contract_stage_Inr [OF c] discovery_stage_Inr [OF ds] fencing_stage_Inr [OF f]
      qualification_stage_Inr [OF a] governance_stage_Inr [OF g] by simp_all
  then have w: "y1 = w" "y2 = w" "y3 = w" "y4 = w" "u1 = w"
    by simp_all
  have qual: "case a of None \<Rightarrow> \<not> rb_has_store B | Some a \<Rightarrow> rb_qualify B (with_effective q c) w = Inr a"
    using qualification_stage_Inr [OF a] unfolding w by blast
  have gov: "rb_govern B (with_effective q c) w = g" "governance_code (gj_status g) = None"
    using governance_stage_Inr [OF g] unfolding w by metis+
  have pol: "journal_only w u2" "\<forall>engine. rb_policy B = Some engine \<longrightarrow>
      (\<exists>d. fst (engine (with_effective q c) w) = Inr d \<and> policy_satisfied B (with_effective q c) a u2 d)"
    using policy_stage_Inr [OF assms(1) p] w by simp_all
  have "journal_only w u3"
    using journal_only_trans [OF pol(1)] authorization_stage_Inr [OF au] by blast
  with procedure_stage_Inr [OF pr] have proc: "procedure_applies (with_effective q c) c \<longrightarrow> (\<exists>t ss. journal_only w t
      \<and> procedure_statuses B (with_effective q c) c a t = Inr ss \<and> \<not> fst (procedure_blocked ss))"
    by blast
  show ?thesis
    unfolding gates_passed_def x
    by (intro exI [of _ u2])
      (use contract_stage_Inr [OF c] fencing_stage_Inr [OF f] qual gov pol proc authorization_stage_Inr [OF au] w in simp)
qed

lemma admission_gates:
  assumes "admission B q w = (Inr (t, obj, commit_ref), v)"
  obtains x u where "gates B q w = (Inr x, u)" "pm_request (xt_permit t) = ad_request x"
    "ad_request x = with_effective q (ad_contract x)"
proof -
  obtain x u y where x: "gates B q w = (Inr x, u)" and t: "reserve_exit B x u = (Inr (t, obj), y)"
    using assms unfolding admission_def by auto
  show thesis
    by (rule that [OF x reserve_permit [OF t] gates_request [OF x]])
qed

lemma gates_passed_contract:
  assumes "policy_reads_only B" "gates B q w = (Inr x, v)" "resolve_contract (cq_capability q) (bw_contracts w) = Inr c"
  shows "\<exists>a u. gates_passed B (with_effective q c) w c a u \<and> ad_request x = with_effective q c"
proof -
  obtain u where p: "gates_passed B (ad_request x) w (ad_contract x) (ad_assessment x) u"
    using gates_passed_when [OF assms(1,2)] by blast
  have q: "ad_request x = with_effective q (ad_contract x)" by (rule gates_request [OF assms(2)])
  with p assms(3) have "ad_contract x = c" by (simp add: gates_passed_def)
  with p q show ?thesis by auto
qed

lemma admission_passed:
  assumes "policy_reads_only B" "admission B q w = (Inr (t, obj, commit_ref), v)"
    "resolve_contract (cq_capability q) (bw_contracts w) = Inr c"
  shows "\<exists>a u. gates_passed B (with_effective q c) w c a u \<and> pm_request (xt_permit t) = with_effective q c"
  using admission_gates [OF assms(2)] gates_passed_contract [OF assms(1) _ assms(3)] by metis

lemma admission_contract:
  assumes "admission B q w = (Inr x, v)"
  obtains c where "resolve_contract (cq_capability q) (bw_contracts w) = Inr c"
  using assms unfolding admission_def gates_def Let_def by (auto dest!: contract_stage_Inr)

section \<open>Refusals never reach the provider\<close>

lemmas case_congs = if_cong option.case_cong prod.case_cong sum.case_cong bool.case_cong qualification_failure.case_cong
  selection.case_cong selection_phase.case_cong

lemma no_invoke [simp]:
  "journal (B\<lparr>rb_invoke := f\<rparr>) = journal B"
  "check_authorization (B\<lparr>rb_invoke := f\<rparr>) = check_authorization B"
  "read_fencing (B\<lparr>rb_invoke := f\<rparr>) = read_fencing B"
  "procedure_statuses (B\<lparr>rb_invoke := f\<rparr>) = procedure_statuses B"
  "issue_permit (B\<lparr>rb_invoke := f\<rparr>) = issue_permit B"
  "requalify (B\<lparr>rb_invoke := f\<rparr>) = requalify B"
  "requalify_event_reason (B\<lparr>rb_invoke := f\<rparr>) = requalify_event_reason B"
  "account_stage (B\<lparr>rb_invoke := f\<rparr>) = account_stage B"
  by (intro ext; simp add: journal_def check_authorization_def read_fencing_def procedure_statuses_def issue_permit_def requalify_def requalify_event_reason_def account_stage_def Let_def cong: case_congs)+

lemma no_invoke_log [simp]: "logS (B\<lparr>rb_invoke := f\<rparr>) = logS B"
  by (simp add: fun_eq_iff logS_def)

lemma no_invoke_refuse [simp]: "refuse (B\<lparr>rb_invoke := f\<rparr>) = (refuse B :: _ \<Rightarrow> _ \<Rightarrow> _ \<Rightarrow> _ \<Rightarrow> _ \<Rightarrow> _ \<Rightarrow> 'a stage)"
  by (intro ext) (simp add: refuse_def)

lemma no_invoke_obligation [simp]: "obligation_failure (B\<lparr>rb_invoke := f\<rparr>) = obligation_failure B"
  by (intro ext) (simp add: obligation_failure_def cong: if_cong)

lemma no_invoke_obligations [simp]:
  "policy_obligations_satisfied (B\<lparr>rb_invoke := f\<rparr>) = policy_obligations_satisfied B"
  by (intro ext) (simp add: policy_obligations_satisfied_def cong: if_cong)

lemma no_invoke_refusal [simp]: "reliability_refusal (B\<lparr>rb_invoke := f\<rparr>) = (reliability_refusal B :: _ \<Rightarrow> _ \<Rightarrow> _ \<Rightarrow> 'a stage)"
  by (intro ext) (simp add: reliability_refusal_def)

lemma no_invoke_stages [simp]:
  "contract_stage (B\<lparr>rb_invoke := f\<rparr>) = contract_stage B"
  "discovery_stage (B\<lparr>rb_invoke := f\<rparr>) = discovery_stage B"
  "fencing_stage (B\<lparr>rb_invoke := f\<rparr>) = fencing_stage B"
  "qualification_stage (B\<lparr>rb_invoke := f\<rparr>) = qualification_stage B"
  "governance_stage (B\<lparr>rb_invoke := f\<rparr>) = governance_stage B"
  "policy_verdict_stage (B\<lparr>rb_invoke := f\<rparr>) = policy_verdict_stage B"
  "authorization_stage (B\<lparr>rb_invoke := f\<rparr>) = authorization_stage B"
  "procedure_stage (B\<lparr>rb_invoke := f\<rparr>) = procedure_stage B"
  "reliability_verdict_stage (B\<lparr>rb_invoke := f\<rparr>) = reliability_verdict_stage B"
  "selection_stage (B\<lparr>rb_invoke := f\<rparr>) = selection_stage B"
  "recheck_stage (B\<lparr>rb_invoke := f\<rparr>) = recheck_stage B"
  "precommit_stage (B\<lparr>rb_invoke := f\<rparr>) = precommit_stage B"
  "provider_stage (B\<lparr>rb_invoke := f\<rparr>) = provider_stage B"
  by (intro ext; simp add: contract_stage_def discovery_stage_def fencing_stage_def qualification_stage_def governance_stage_def policy_verdict_stage_def authorization_stage_def procedure_stage_def reliability_verdict_stage_def selection_stage_def recheck_stage_def precommit_stage_def provider_stage_def Let_def cong: case_congs)+

lemma no_invoke_abort [simp]:
  "abort_before_reality_exit (B\<lparr>rb_invoke := f\<rparr>) = (abort_before_reality_exit B :: _ \<Rightarrow> _ \<Rightarrow> _ \<Rightarrow> 'a stage)"
  by (intro ext) (simp add: abort_before_reality_exit_def Let_def cong: case_congs)

lemma no_invoke_policy [simp]: "policy_stage (B\<lparr>rb_invoke := f\<rparr>) = policy_stage B"
  by (intro ext) (simp add: policy_stage_def cong: case_congs)

lemma no_invoke_reliability [simp]: "reliability_stage (B\<lparr>rb_invoke := f\<rparr>) = reliability_stage B"
  by (intro ext) (simp add: reliability_stage_def cong: case_congs)

lemma no_invoke_permit [simp]: "permit_stage (B\<lparr>rb_invoke := f\<rparr>) = permit_stage B"
  by (intro ext) (simp add: permit_stage_def cong: case_congs)

lemma no_invoke_final [simp]:
  "final_check_stage (B\<lparr>rb_invoke := f\<rparr>) = final_check_stage B" "dispatch_stage (B\<lparr>rb_invoke := f\<rparr>) = dispatch_stage B"
  by (intro ext; simp add: final_check_stage_def dispatch_stage_def cong: case_congs)+

lemma no_invoke_admission [simp]: "admission (B\<lparr>rb_invoke := f\<rparr>) = admission B"
  by (simp add: fun_eq_iff admission_def gates_def reserve_exit_def)

section \<open>What the gates guarantee\<close>

lemma jget_with_effective [simp]:
  "k \<notin> {''effective_impact'', ''effect_semantics''} \<Longrightarrow> jget (cq_metadata (with_effective q c)) k = jget (cq_metadata q) k"
  by (auto simp: with_effective_def Let_def jget_def fm_get_def)

lemma grants_of_in: "(i, g) \<in> set (grants_of actor items) \<Longrightarrow> Item_Grant g \<in> set items \<and> ag_grantee_ref g = actor"
  by (auto simp: grants_of_def List.map_filter_def in_set_enumerate_eq split: proof_item.splits if_splits)
    (metis nth_mem)

lemma check_authorization_grant:
  assumes "fst (check_authorization B q c m supplied w)" "authorization_required (cq_capability q) c (bw_contracts w)"
  shows "\<exists>g i. Item_Grant g \<in> set (case supplied of Some gs \<Rightarrow> gs | None \<Rightarrow> map Item_Grant (list_authorizations (bw_store w)))
    \<and> extract_actor q = Some (ag_grantee_ref g)
    \<and> is_authorized_for (authorization_action q c m (ag_grantee_ref g)) g (env_clock (rb_env B) i)"
proof -
  obtain actor i g where "extract_actor q = Some actor"
      "(i, g) \<in> set (grants_of actor (case supplied of Some gs \<Rightarrow> gs | None \<Rightarrow> map Item_Grant (list_authorizations (bw_store w))))"
      "is_authorized_for (authorization_action q c m actor) g (env_clock (rb_env B) (wd_tick (bw_world w) + i))"
    using assms by (auto simp: check_authorization_def Let_def list_ex_iff split: if_splits option.splits)
  then show ?thesis
    using grants_of_in by metis
qed

lemma first_message_None: "first_message f xs = Inr None \<longleftrightarrow> (\<forall>x \<in> set xs. f x = Inr None)"
  by (induction xs) auto

section \<open>Fencing\<close>

text \<open>Who may act for a run: nobody holds it yet, or the request shows its generation and its live owner.\<close>

definition may_act :: "capability_request \<Rightarrow> run \<Rightarrow> time \<Rightarrow> bool" where
  "may_act q r now \<longleftrightarrow> (\<not> nonempty_opt (rn_lease_owner r) \<and> rn_lease_generation r = 0)
     \<or> (cq_lease_generation q = rn_lease_generation r
        \<and> (nonempty_opt (rn_lease_owner r) \<longrightarrow> extract_lease_owner q = rn_lease_owner r)
        \<and> (\<forall>t. rn_lease_expires_at r = Some t \<longrightarrow> now < t))"

lemma nonempty_opt_simps [simp]: "\<not> nonempty_opt None" "nonempty_opt (Some s) \<longleftrightarrow> s \<noteq> []"
  by (simp_all add: nonempty_opt_def)

lemma validate_fencing_decides:
  "fst (validate_fencing E q run_record now) \<longleftrightarrow> (case run_record of None \<Rightarrow> True
     | Some r \<Rightarrow> cq_run_id q = None \<or> may_act q r now)"
  by (auto simp: validate_fencing_def may_act_def extract_lease_generation_def Let_def not_less split: option.splits)

lemma may_act_with_effective [simp]: "may_act (with_effective q c) r now = may_act q r now"
  by (simp add: may_act_def extract_lease_owner_def split: option.split)

lemma read_fencing_decides:
  "fst (read_fencing B q w) \<longleftrightarrow> (case cq_run_id q of None \<Rightarrow> True | Some rid \<Rightarrow> rb_has_store B
     \<and> (\<exists>r. get_run (bw_store w) rid = Some r \<and> may_act q r (clock_now (rb_env B) w)))"
  by (auto simp: read_fencing_def split_beta validate_fencing_decides split: option.splits)

lemma fencing_stage_decides: "fst (fencing_stage B q w) = Inr () \<longleftrightarrow> fst (read_fencing B q w)"
  by (auto simp: fencing_stage_def withS_def retS_def refuse_def bindS_def logS_def stopS_def split: prod.splits)

lemma admission_fenced: "admission B q w = (Inr x, v) \<Longrightarrow> \<exists>c. fst (read_fencing B (with_effective q c) w)"
  unfolding admission_def gates_def Let_def
  by (auto dest!: contract_stage_Inr discovery_stage_Inr fencing_stage_Inr)

lemma next_generation_pos: "(\<forall>l. e = Some l \<longrightarrow> 0 \<le> ls_generation l) \<Longrightarrow> 0 < next_generation e r"
  by (auto simp: next_generation_def Let_def less_max_iff_disj split: option.splits)

lemma acquired_generation:
  assumes "lease_wf rid s" "get_run s rid = Some r" "store_acquire_lease mt utc rid owner ttl s = (True, t)"
  obtains r' where "get_run t rid = Some r'" "0 < rn_lease_generation r'" "rn_lease_generation r < rn_lease_generation r'"
  using assms next_generation_pos [of "map_of (st_leases s) rid" "Some r"] next_generation_run [of "map_of (st_leases s) rid" r]
  by (auto simp: store_acquire_lease_def Let_def with_lease_def lease_wf_def get_run_def split: if_splits)

section \<open>The effect that reaches the provider\<close>

lemma level_effective_impact:
  "level_or_zero (effective_impact q c None) =
     max (level_or_zero (invocation_effect_str (cc_minimum_impact_class c))) (level_or_zero (requested_class q))"
  using effective_impact_is_highest [of "invocation_effect_str (cc_minimum_impact_class c)" None "Some (requested_class q)"]
  by (auto simp: effective_impact_def max_def)

lemma requested_class_ge: "level_or_zero (invocation_effect_str (cq_effect_class q)) \<le> level_or_zero (requested_class q)"
  by (auto simp: requested_class_def Let_def split: json.splits)

lemma impact_named_known: "l \<le> 5 \<Longrightarrow> impact_named l d \<in> set (map fst impact_order)"
  by (auto simp: impact_named_def impact_order_def numeral_eq_Suc le_Suc_eq)

lemma effect_named_known: "s \<in> set (map fst impact_order) \<Longrightarrow> invocation_effect_str (effect_named s) = s"
  by (auto simp: impact_order_def)

lemma impact_named_level: "s \<in> set (map fst impact_order) \<Longrightarrow> impact_named (level_or_zero s) d = s"
  by (auto simp: impact_named_def impact_order_def level_or_zero_def)

lemma effect_level_inj:
  assumes "s \<in> set (map fst impact_order)" "t \<in> set (map fst impact_order)" "level_or_zero s = level_or_zero t"
  shows "s = t"
  using impact_named_level [OF assms(1)] impact_named_level [OF assms(2)] assms(3) by metis

lemma invocation_effect_known: "invocation_effect_str e \<in> set (map fst impact_order)"
  by (cases e) (simp_all add: impact_order_def)

lemma effective_impact_known: "effective_impact q c m \<in> set (map fst impact_order)"
  unfolding effective_impact_def compute_effective_impact_def by (intro impact_named_known Max_levels_le)

lemma with_effective_class: "invocation_effect_str (cq_effect_class (with_effective q c)) = effective_impact q c None"
proof (cases "level_or_zero (invocation_effect_str (cq_effect_class q)) < level_or_zero (effective_impact q c None)")
  case True
  then show ?thesis
    using effect_named_known [OF effective_impact_known] by (simp add: with_effective_def Let_def)
next
  case False
  then have "level_or_zero (invocation_effect_str (cq_effect_class q)) = level_or_zero (effective_impact q c None)"
    using requested_class_ge [of q] by (simp add: level_effective_impact)
  then have "invocation_effect_str (cq_effect_class q) = effective_impact q c None"
    by (intro effect_level_inj invocation_effect_known effective_impact_known)
  with False show ?thesis
    by (simp add: with_effective_def Let_def)
qed

lemma with_effective_metadata: "jget (cq_metadata (with_effective q c)) ''effective_impact'' = JStr (effective_impact q c None)"
  by (simp add: with_effective_def Let_def jget_def fm_get_def)

text \<open>The stages compute the effect anew from the request they are given; it is the same effect.\<close>

lemma effective_impact_stable: "effective_impact (with_effective q c) c None = effective_impact q c None"
proof (rule effect_level_inj [OF effective_impact_known effective_impact_known])
  have "level_or_zero s \<le> level_or_zero (effective_impact q c None)"
    if "jget (cq_metadata q) ''requested_effect_class'' = JStr s" "map_of impact_order s \<noteq> None" for s
    using that by (auto simp: level_effective_impact requested_class_def Let_def)
  then have "requested_class (with_effective q c) = effective_impact q c None"
    by (auto simp: requested_class_def with_effective_class Let_def not_less split: json.split)
  then show "level_or_zero (effective_impact (with_effective q c) c None) = level_or_zero (effective_impact q c None)"
    by (simp add: level_effective_impact [of "with_effective q c"] level_effective_impact [of q])
qed



section \<open>After the call\<close>

lemma post_fencing_never_raises: "post_fencing_stage B t r w \<noteq> (Inl (Raised e), v)"
  by (auto simp: post_fencing_stage_def withS_def retS_def bindS_def logS_def stopS_def Let_def split: prod.splits if_splits)

end
