(* ===== verification/Boundary_Samples.thy ===== *)
theory Boundary_Samples
  imports Boundary_Calculus Registry_Properties Reliability_Properties
begin

text \<open>
  Concrete boundaries on which the witnesses of the boundary's properties run: an edit with work and
  run, which writes and needs a procedure, and a read that needs a grant.
\<close>

definition edit_contract :: capability_contract where
  "edit_contract = make_contract ''edit'' Eff_Write_Local ''idempotent'' ''reversible'' Auth_None ''minimal'' False False []
     (Some 1) (Some 1)"

definition consult_contract :: capability_contract where
  "consult_contract = make_contract ''consult'' Eff_Read ''pure'' ''unknown'' Auth_Required ''minimal'' False False [] None None"

definition small_contracts :: contract_registry where
  "small_contracts = \<lparr>cg_contracts = [(''edit'', edit_contract), (''consult'', consult_contract)],
     cg_rules = [(''edit'', make_rule ''edit'' Eff_Write_Local False False False),
       (''consult'', make_rule ''consult'' Eff_Read True False False)]\<rparr>"

definition tool_descriptor :: provider_descriptor where
  "tool_descriptor = \<lparr>de_id = ''p'', de_name = ''p'', de_version = ''1'', de_capabilities = [''edit'', ''consult''],
     de_enabled = True, de_priority = 1, de_tags = [], de_constraints = [], de_metadata = [],
     de_effect_semantics = ''pure'', de_side_effect_class = ''pure'', de_reversibility = ''unknown'', de_domains = []\<rparr>"

definition small_work :: work where
  "small_work = \<lparr>wk_id = ''w'', wk_created_at = 0, wk_metadata = fmap_of_list [(''purpose'', JStr ''fix''),
       (''result_confirmed'', JBool True)], wk_kind = ''goal'', wk_title = [], wk_description = [], wk_status = Work_Open,
     wk_priority = 0, wk_inputs = [''a''], wk_artifact_refs = [], wk_constraints = fmempty, wk_acceptance_criteria = [],
     wk_requested_capabilities = [], wk_parent_work_id = None, wk_updated_at = 0\<rparr>"

definition small_run :: run where
  "small_run = \<lparr>rn_id = ''r'', rn_created_at = 0, rn_metadata = fmempty, rn_work_id = ''w'', rn_status = Run_Running,
     rn_workflow_id = [], rn_started_at = None, rn_ended_at = None, rn_current_step = None,
     rn_provider_invocation_refs = [], rn_lease_owner = None, rn_lease_generation = 0, rn_lease_expires_at = None,
     rn_heartbeat_at = None\<rparr>"

definition small_grant :: authorization_grant where
  "small_grant = \<lparr>ag_id = ''g'', ag_created_at = 0, ag_principal_ref = ''boss'', ag_grantee_ref = ''me'',
     ag_allowed_capabilities = [''consult''], ag_resource_scope = [], ag_effect_ceiling = Some ''read'', ag_valid_from = 0,
     ag_expires_at = None, ag_conditions = [], ag_typed_conditions = [], ag_revocable = True, ag_revoked_at = None,
     ag_source_decision_ref = None, ag_subject_version_refs = [], ag_metadata = fmempty\<rparr>"

definition small_bworld :: bworld where
  "small_bworld = \<lparr>bw_world = \<lparr>wd_store = empty_store\<lparr>st_work := [(''w'', small_work)], st_run := [(''r'', small_run)],
       st_authorization := [(''g'', small_grant)]\<rparr>, wd_tick = 0\<rparr>,
     bw_attempts = [], bw_actions = [], bw_controls = fresh_controls,
     bw_registry = empty_registry\<lparr>rg_providers := [(''p'', 0)], rg_enabled := [(''p'', True)]\<rparr>,
     bw_descriptors = (\<lambda>_. tool_descriptor), bw_contracts = small_contracts\<rparr>"

definition stop_proofs :: proofs where
  "stop_proofs = [(''procedure_proofs'', Pf_List [Item_Value (Python_Values.PDict [(''qualification_kind'', PStr ''failure-stop'')])])]"

definition no_governance :: governance_judgment where
  "no_governance = \<lparr>gj_status = Gov_Not_Applicable, gj_reason = [], gj_scheme_id = None, gj_use_context = None,
     gj_requirement_digest = Some ''n'', gj_snapshot_digest = Some ''n''\<rparr>"

definition allowing :: policy_decision where
  "allowing = blank_decision\<lparr>pd_disposition := Some Disp_Allow, pd_status := Some St_Allow\<rparr>"

definition done_result :: "capability_request \<Rightarrow> capability_result" where
  "done_result q = \<lparr>cr_request_id = cq_id q, cr_provider_id = ''p'', cr_status = Cap_Succeeded, cr_output_artifact_refs = [],
     cr_evidence_refs = [], cr_message = None, cr_error = None, cr_metadata = fmempty, cr_verification_result = None,
     cr_external_operation_ref = None, cr_reconciled = False\<rparr>"

definition small_boundary :: boundary where
  "small_boundary = \<lparr>rb_env = marked_env, rb_monotonic = (\<lambda>_. 0), rb_graph = (\<lambda>_ _ _. []), rb_parse_float = parse_nan,
     rb_has_store = True, rb_has_registry = True, rb_runtime_id = ''rt'', rb_not_applicable_digest = ''n'',
     rb_snapshot_json = (\<lambda>_ _. []), rb_policy = Some (\<lambda>_ w. (Inr allowing, w)),
     rb_qualify = (\<lambda>_ _. Inr \<lparr>as_work = Some small_work, as_run = Some small_run, as_proofs = stop_proofs, as_digest = ''d''\<rparr>),
     rb_govern = (\<lambda>_ _. no_governance),
     rb_ask = (\<lambda>_ w. (Inr \<lparr>ph_provider_id = ''p'', ph_available = True, ph_detail = [], ph_metadata = []\<rparr>, w)),
     rb_route = (\<lambda>_ ds w. (Inr (case ds of [] \<Rightarrow> None | d # _ \<Rightarrow> Some d), w)),
     rb_dispatch = (\<lambda>_ _ _ w. (\<lparr>dd_status = Dispatch_Not_Applicable, dd_commit_ref = None, dd_reason = []\<rparr>, w)),
     rb_invoke = (\<lambda>_ q _ w. (Inr (done_result q), w))\<rparr>"

definition edit_request :: capability_request where
  "edit_request = (bare_request ''q'' ''edit'')\<lparr>cq_work_id := Some ''w'', cq_run_id := Some ''r''\<rparr>"

definition consult_request :: capability_request where
  "consult_request = (bare_request ''q'' ''consult'')\<lparr>cq_actor_ref := Some ''me''\<rparr>"

section \<open>The consultation is answered\<close>

lemmas small_defs = small_boundary_def consult_request_def edit_request_def bare_request_def
  edit_contract_def consult_contract_def make_contract_def make_rule_def

definition consulting :: capability_request where
  "consulting = with_effective consult_request consult_contract"

definition ready :: "bworld \<Rightarrow> bool" where
  "ready v \<longleftrightarrow> bw_contracts v = small_contracts \<and> list_authorizations (bw_store v) = [small_grant]
     \<and> bw_controls v = fresh_controls \<and> bw_registry v = bw_registry small_bworld \<and> bw_descriptors v = (\<lambda>_. tool_descriptor)"

lemma ready_small: "ready small_bworld"
  by (simp add: ready_def small_bworld_def list_authorizations_def newest_first_def)

lemma ready_journal: "ready w \<Longrightarrow> journal_only w v \<Longrightarrow> ready v"
  by (simp add: ready_def journal_only_fields)

lemma consult_contract_resolved: "resolve_contract ''consult'' small_contracts = Inr consult_contract"
  by (simp add: resolve_contract_def resolve_pattern_def small_contracts_def)

lemma consulting_class: "effective_impact consult_request consult_contract None = ''read''" "effective_impact consulting consult_contract None = ''read''"
proof -
  show "effective_impact consult_request consult_contract None = ''read''"
    by (simp add: effective_impact_def requested_class_def compute_effective_impact_def levels_of_def List.map_filter_simps
      impact_named_def impact_order_def level_or_zero_def small_defs Let_def jget_def fm_get_def)
  then show "effective_impact consulting consult_contract None = ''read''"
    by (simp add: consulting_def effective_impact_stable)
qed

lemma consulting_fields: "cq_capability consulting = ''consult''" "cq_run_id consulting = None" "cq_work_id consulting = None"
  "extract_actor consulting = Some ''me''" "cq_id consulting = ''q''" "cq_effect_class consulting = Eff_Read"
  "cq_subject_version_refs consulting = []"  "extract_versions consulting = []"
  using consulting_class(1)
  by (simp_all add: consulting_def extract_actor_def extract_versions_def jget_with_effective) 
   (simp_all add: with_effective_def Let_def small_defs level_or_zero_def impact_order_def jget_def fm_get_def)

lemma consult_discovered: "ready w \<Longrightarrow> discovery_stage small_boundary consult_request w = (Inr [tool_descriptor], w)" 
  by (simp add: ready_def discovery_stage_def withS_def retS_def descriptors_for_def providers_for_def list_descriptors_def
    registry_descriptor_def tool_descriptor_def small_defs empty_registry_def small_bworld_def)

lemma consult_contract_fields [simp]:
  "cc_minimum_impact_class consult_contract = Eff_Read" "cc_authorization_requirement consult_contract = Auth_Required"
  "cc_resource_required consult_contract = False" "cc_subject_version_required consult_contract = False"
  "cc_minimum_procedure_profile consult_contract = ''minimal''" "cc_recovery_timing consult_contract = None"
  "cc_blast_radius consult_contract = None" "cc_exposure consult_contract = None"
  by (simp_all add: consult_contract_def make_contract_def)

lemma consult_rule: "effect_rule_of ''consult'' small_contracts = Some (make_rule ''consult'' Eff_Read True False False)"
  by (simp add: effect_rule_of_def resolve_rule_def resolve_pattern_def small_contracts_def)

lemma consult_authorized: "ready w \<Longrightarrow> fst (check_authorization small_boundary consulting consult_contract None None w)"
  by (simp add: ready_def check_authorization_def authorization_required_def consult_rule resource_is_required_def
   version_is_required_def consulting_fields authorization_action_def consulting_class make_rule_def small_boundary_def
   grants_of_def List.map_filter_simps is_authorized_for_def small_grant_def conditions_satisfied_def capability_matches_def effect_allows_def
   marked_env_def Let_def is_blank_def str_eval effect_level_def effect_order_def)

definition small_assessment :: assessment where
  "small_assessment = \<lparr>as_work = Some small_work, as_run = Some small_run, as_proofs = stop_proofs, as_digest = ''d''\<rparr>"

lemma small_collaborators [simp]:
  "rb_has_store small_boundary" "rb_has_registry small_boundary" "rb_policy small_boundary = Some (\<lambda>_ w. (Inr allowing, w))"
  "rb_qualify small_boundary q w = Inr small_assessment" "rb_govern small_boundary q w = no_governance"
  "rb_dispatch small_boundary q p i w = (\<lparr>dd_status = Dispatch_Not_Applicable, dd_commit_ref = None, dd_reason = []\<rparr>, w)"
  "rb_invoke small_boundary obj q ix w = (Inr (done_result q), w)"
  "rb_graph small_boundary s a b = []" "rb_monotonic small_boundary w = 0"
  by (simp_all add: small_boundary_def small_assessment_def)

lemma no_grants_supplied [simp]: "supplied_grants (Some small_assessment) = None"
  by (simp add: supplied_grants_def has_authorization_refs_def small_assessment_def stop_proofs_def pf_get_def)

lemma small_policy_reads_only: "policy_reads_only small_boundary"
  by (simp add: policy_reads_only_def)

lemma small_policy: "\<exists>v. policy_stage small_boundary q (Some small_assessment) w = (Inr (), v) \<and> journal_only w v"
  by (simp add: policy_stage_def policy_verdict_stage_def allowing_def bindS_def logS_def retS_def journal_only_journal)

lemma consult_authorization_stage: "ready w \<Longrightarrow> \<exists>v. authorization_stage small_boundary consulting consult_contract (Some small_assessment) w = (Inr (), v) \<and> journal_only w v"
  using consult_authorized [of w]
  by (auto simp: authorization_stage_def withS_def logS_def journal_only_journal split: prod.split)

lemma consulting_metadata: "k \<notin> {''effective_impact'', ''effect_semantics''} \<Longrightarrow> jget (cq_metadata consulting) k = JNull"
  using jget_with_effective [of k consult_request consult_contract]
  by (simp add: consulting_def) (simp add: small_defs jget_def fm_get_def)

lemma consult_profile: "compute_effective_procedure_profile (Some ''minimal'') [named_profile (cq_metadata consulting)] = Inr ''minimal''"
  by (simp add: compute_effective_procedure_profile_def named_profile_def consulting_metadata procedure_order_def List.map_filter_simps)

lemma consult_action: "reliability_request consulting consult_contract small_contracts ''minimal'' =
    \<lparr>aq_side_effect = False, aq_blast_radius = 1, aq_exposure = None, aq_irreversible = False,
     aq_procedure_profile = Some ''minimal'', aq_timing = None\<rparr>"
  by (simp add: reliability_request_def consulting_class has_side_effect_def Let_def declared_blast_radius_def declared_exposure_def
      declared_timing_def consulting_metadata consulting_fields consult_rule make_rule_def first_declared_def List.map_filter_simps
      int_or_none_def int_opt_json_def)

lemma consult_assessed: "\<exists>s. evaluate_reliability_stage parse_nan 0 (reliability_request consulting consult_contract small_contracts ''minimal'') fresh_controls
    = (\<lparr>rs_allowed = True, rs_reason = Some ''allowed'', rs_error = None\<rparr>, s)"
  by (simp add: consult_action evaluate_reliability_stage_def assess_def observe_def observed_timing_def risk_evaluate_def reliability_decide_def
      prune_timestamps_def fresh_controls_def new_controls_def limit_reason_def cooldown_remaining_def sample_policy_def new_reliability_policy_def Let_def requested_exposure_def)

lemma consult_reliability: "ready w \<Longrightarrow> \<exists>a v. reliability_stage small_boundary consulting consult_contract w = (Inr a, v)
   \<and> \<not> aq_side_effect a \<and> bw_registry v = bw_registry small_bworld"
  using consult_assessed
  by (auto simp: ready_def reliability_stage_def withS_def bindS_def uncaught_def consulting_class consult_profile Let_def 
    reliability_verdict_stage_def retS_def consult_action consulting_fields small_boundary_def)

lemma small_selection: "bw_registry w = bw_registry small_bworld \<Longrightarrow> \<exists>v. selection_stage small_boundary q [tool_descriptor] w
   = (Inr tool_descriptor, v) \<and> map_of (rg_providers (bw_registry v)) ''p'' = Some 0"
  by (auto simp: selection_stage_def select_provider_stage_def health_available_def registry_health_def small_bworld_def tool_descriptor_def
     breaker_allows_def circuit_for_def new_breaker_def circuit_allow_def Let_def bindS_def logS_def retS_def small_boundary_def empty_registry_def
      journal_only_fields [OF journal_only_journal])

lemma small_recheck: "recheck_stage small_boundary q (Some small_assessment) no_governance ''p'' w = (Inr no_governance, w)"
  by (simp add: recheck_stage_def withS_def requalify_def governance_recheck_failure_def no_governance_def recheck_change_def retS_def Let_def)

lemma consult_gates:
  "\<exists>act v. gates small_boundary consult_request small_bworld = (Inr \<lparr>ad_request = consulting, ad_contract = consult_contract,
      ad_assessment = Some small_assessment, ad_governance = no_governance, ad_action = act, ad_descriptor = tool_descriptor\<rparr>, v)
     \<and> \<not> aq_side_effect act \<and> map_of (rg_providers (bw_registry v)) ''p'' = Some 0"
proof -
  have c: "contract_stage small_boundary consult_request small_bworld = (Inr consult_contract, small_bworld)"
    using consult_contract_resolved by (simp add: contract_stage_def withS_def retS_def consult_request_def bare_request_def small_bworld_def)
  have f: "fencing_stage small_boundary consulting w = (Inr (), w)" "qualification_stage small_boundary consulting w = (Inr (Some small_assessment), w)"
    "governance_stage small_boundary consulting w = (Inr no_governance, w)" "procedure_stage small_boundary consulting consult_contract a w = (Inr (), w)" for w a
    by (simp_all add: fencing_stage_def qualification_stage_def governance_stage_def procedure_stage_def procedure_applies_def withS_def retS_def
        read_fencing_def consulting_fields no_governance_def governance_code_def Let_def)
  obtain u where u: "policy_stage small_boundary consulting (Some small_assessment) small_bworld = (Inr (), u)" "journal_only small_bworld u"
    using small_policy by blast
  obtain v where v: "authorization_stage small_boundary consulting consult_contract (Some small_assessment) u = (Inr (), v)" "journal_only u v"
    using consult_authorization_stage ready_journal [OF ready_small u(2)] by blast
  have "ready v" using ready_journal [OF ready_journal [OF ready_small u(2)] v(2)] .
  then obtain act x where x: "reliability_stage small_boundary consulting consult_contract v = (Inr act, x)" "\<not> aq_side_effect act"
      "bw_registry x = bw_registry small_bworld"
    using consult_reliability by blast
  obtain y where y: "selection_stage small_boundary consulting [tool_descriptor] x = (Inr tool_descriptor, y)"
      "map_of (rg_providers (bw_registry y)) ''p'' = Some 0"
    using small_selection x(3) by blast
  show ?thesis
    using c consult_discovered [OF ready_small] f u(1) v(1) x(1,2) y small_recheck [of consulting y]
    by (simp add: gates_def bindS_def consulting_def [symmetric]) (simp add: tool_descriptor_def retS_def)
qed

lemma consult_admitted:
  "\<exists>t v. admission small_boundary consult_request small_bworld = (Inr (t, 0, None), v) \<and> pm_request (xt_permit t) = consulting
     \<and> xt_ids t = no_records"
proof -
  obtain act v where g: "gates small_boundary consult_request small_bworld = (Inr \<lparr>ad_request = consulting, ad_contract = consult_contract,
      ad_assessment = Some small_assessment, ad_governance = no_governance, ad_action = act, ad_descriptor = tool_descriptor\<rparr>, v)"
      "\<not> aq_side_effect act" "map_of (rg_providers (bw_registry v)) ''p'' = Some 0"
    using consult_gates by blast
  show ?thesis
    using g by (simp add: admission_def reserve_exit_def permit_stage_def issue_permit_def uncaught_def bindS_def precommit_stage_def
        precommit_execution_records_def consulting_fields materialize_request_def no_governance_def account_stage_def provider_stage_def
        get_provider_def final_check_stage_def withS_def requalify_def governance_permit_failure_def permit_change_def dispatch_stage_def
        dispatch_code_def retS_def logS_def on_controls_def tool_descriptor_def text_or_def nonempty_opt_def Let_def)
qed

lemma consult_succeeds: "\<exists>v. execute small_boundary consult_request small_bworld = (Inr (done_result consulting), v)"
proof -
  obtain t v where "admission small_boundary consult_request small_bworld = (Inr (t, 0, None), v)" "pm_request (xt_permit t) = consulting"
      "xt_ids t = no_records"
    using consult_admitted by blast
  then show ?thesis
    by (simp add: execute_def finish_def bindS_def reality_exit_def invoke_stage_def post_fencing_stage_def projection_stage_def Let_def
        materialize_request_def consulting_fields retS_def logS_def commit_execution_projection_def no_records_def retI_def split: prod.split)
qed

section \<open>The edit passes its gates\<close>

definition editing :: capability_request where
  "editing = with_effective edit_request edit_contract"

lemma edit_contract_fields [simp]:
  "cc_minimum_impact_class edit_contract = Eff_Write_Local" "cc_authorization_requirement edit_contract = Auth_None"
  "cc_minimum_procedure_profile edit_contract = ''minimal''" "cc_recovery_timing edit_contract = None"
  "cc_blast_radius edit_contract = Some 1" "cc_exposure edit_contract = Some 1"
  by (simp_all add: edit_contract_def make_contract_def)

lemma edit_rule: "effect_rule_of ''edit'' small_contracts = Some (make_rule ''edit'' Eff_Write_Local False False False)"
  by (simp add: effect_rule_of_def resolve_rule_def resolve_pattern_def small_contracts_def)

lemma editing_class: "effective_impact edit_request edit_contract None = ''write-local''"
  "effective_impact editing edit_contract None = ''write-local''"
proof -
  show "effective_impact edit_request edit_contract None = ''write-local''"
    by (simp add: effective_impact_def requested_class_def compute_effective_impact_def levels_of_def List.map_filter_simps
      impact_named_def impact_order_def level_or_zero_def edit_request_def bare_request_def Let_def jget_def fm_get_def)
  then show "effective_impact editing edit_contract None = ''write-local''"
    by (simp add: editing_def effective_impact_stable)
qed

lemma editing_fields: "cq_capability editing = ''edit''" "cq_run_id editing = Some ''r''" "cq_work_id editing = Some ''w''"
  by (simp_all add: editing_def edit_request_def bare_request_def)

lemma editing_metadata: "k \<notin> {''effective_impact'', ''effect_semantics''} \<Longrightarrow> jget (cq_metadata editing) k = JNull"
  using jget_with_effective [of k edit_request edit_contract]
  by (simp add: editing_def) (simp add: edit_request_def bare_request_def jget_def fm_get_def)

lemma edit_fencing: "fencing_stage small_boundary editing small_bworld = (Inr (), small_bworld)"
  by (simp add: fencing_stage_def withS_def retS_def read_fencing_def editing_fields small_bworld_def get_run_def small_run_def
      validate_fencing_def nonempty_opt_def)

lemma edit_profile: "compute_effective_procedure_profile (Some ''minimal'') vs = Inr ''minimal''"
  if "set vs \<subseteq> {None}"
proof -
  have "List.map_filter (\<lambda>x. x) vs = []" using that by (induction vs) (auto simp: List.map_filter_simps)
  then show ?thesis by (simp add: compute_effective_procedure_profile_def procedure_order_def)
qed

lemma small_metadata: "combined_metadata (extract_work_fields small_work) (extract_run_fields small_run) = wk_metadata small_work"
  by (simp add: combined_metadata_def extract_work_fields_def extract_run_fields_def small_run_def)

lemma small_purpose: "jget (wk_metadata small_work) ''result_confirmed'' = JBool True" "jget (wk_metadata small_work) ''invalidated_gates'' = JNull"
  "jget (wk_metadata small_work) ''purpose-identified_blocked'' = JNull" "jget (wk_metadata small_work) ''execution-boundary_blocked'' = JNull"
  "jget (wk_metadata small_work) ''result-confirmation_blocked'' = JNull" "jget (wk_metadata small_work) ''failure-stop_blocked'' = JNull"
  "wf_kind (extract_work_fields small_work) = ''goal''" "wf_inputs (extract_work_fields small_work) = [''a'']"
  by (simp_all add: small_work_def jget_def fm_get_def fmlookup_of_list extract_work_fields_def)

definition small_proofs :: proofs where
  "small_proofs = [(''failure_stop_proofs'', Pf_List [Item_Value (Python_Values.PDict [(''qualification_kind'', PStr ''failure-stop'')])])]"

lemma small_procedure_proofs: "procedure_proofs small_assessment = small_proofs"
proof -
  have "normal_kind ''failure-stop'' = ''failurestop''" "map_of kind_to_proof ''failurestop'' = Some ''failure_stop_proofs''"
      "''qualification_kind'' \<notin> set ref_buckets"
    by (simp add: normal_kind_def str_eval, simp add: kind_to_proof_def, simp add: ref_buckets_def)
  then show ?thesis
    by (simp add: procedure_proofs_def small_assessment_def stop_proofs_def spread_proof_def small_proofs_def
        pd_get_def extend_bucket_def pf_get_def pf_items_def)
qed

lemma small_gate:
  assumes "g \<in> set minimal_gates" "pf_get ps ''failure_stop_proofs'' = pf_get small_proofs ''failure_stop_proofs''"
  shows "\<exists>s. assess_gate E clock ts (extract_work_fields small_work) (extract_run_fields small_run) [] {} ps [] g = Inr s
    \<and> os_status s = Os_Satisfied"
proof -
  have "has_purpose_typed (extract_work_fields small_work) (wk_metadata small_work)"
      "has_boundary (extract_work_fields small_work) (wk_metadata small_work)"
      "has_result (extract_run_fields small_run) (wk_metadata small_work)"
    by (simp_all add: has_purpose_typed_def has_boundary_def has_result_def small_purpose)
  moreover have "fst (has_failure_stop_typed ps)"
    using assms(2) by (simp add: has_failure_stop_typed_def any_pool_def) (simp add: small_proofs_def pf_get_def pf_items_def)
  ultimately have "\<exists>reason. check_gate E clock (extract_work_fields small_work) (extract_run_fields small_run) ps g = Inr (Os_Satisfied, reason)"
      and "jget (wk_metadata small_work) (g @ ''_blocked'') = JNull" and "g \<noteq> ''authorization''"
    using assms(1) unfolding minimal_gates_def list.set insert_iff empty_iff
    by (elim disjE; simp add: check_gate_def small_metadata of_verdict_def small_purpose Let_def)+
  then show ?thesis
    by (auto simp: assess_gate_def small_metadata gate_result_def Let_def)
qed

lemma traverse_statuses:
  "\<forall>g \<in> set gs. \<exists>s. f g = Inr s \<and> os_status s = st \<Longrightarrow> \<exists>ss. traverse f gs = Inr ss \<and> (\<forall>s \<in> set ss. os_status s = st)"
proof (induction gs)
  case (Cons g gs)
  then obtain s ss where "f g = Inr s" "os_status s = st" "traverse f gs = Inr ss" "\<forall>s \<in> set ss. os_status s = st"
    by auto
  then show ?case by simp
qed simp

lemma edit_procedure:
  assumes "ready w"
  shows "\<exists>ss. procedure_statuses small_boundary editing edit_contract (Some small_assessment) w = Inr ss
    \<and> (\<forall>s \<in> set ss. os_status s = Os_Satisfied)"
proof -
  have "named_profile (cq_metadata editing) = None" "named_profile (wk_metadata small_work) = None" "named_profile (rn_metadata small_run) = None"
    by (simp_all add: named_profile_def editing_metadata) (simp_all add: small_work_def small_run_def jget_def fm_get_def fmlookup_of_list)
  then have p: "compute_effective_procedure_profile (Some (contract_profile editing edit_contract (bw_contracts w)))
      [named_profile (wk_metadata small_work), named_profile (rn_metadata small_run), named_profile (cq_metadata editing)] = Inr ''minimal''"
    using assms by (simp add: contract_profile_def ready_def editing_fields edit_rule make_rule_def edit_profile)
  let ?ps = "merge_proofs (Some small_proofs) (procedure_kwargs (Some (Pf_List (map Item_Grant (list_authorizations (bw_store w))))) None None None None None) []"
  have "pf_get ?ps ''failure_stop_proofs'' = pf_get small_proofs ''failure_stop_proofs''"
    by (simp add: merge_proofs_def procedure_kwargs_def pf_get_def)
  from small_gate [OF _ this]
  have "\<forall>g \<in> set minimal_gates. \<exists>s. assess_gate E clock ts (extract_work_fields small_work) (extract_run_fields small_run) [] {} ?ps [] g = Inr s
      \<and> os_status s = Os_Satisfied" for E clock ts
    by blast
  note t = traverse_statuses [OF this]
  have a: "as_work small_assessment = Some small_work" "as_run small_assessment = Some small_run"
    by (simp_all add: small_assessment_def)
  show ?thesis
    using t by (simp add: procedure_statuses_def a p small_procedure_proofs check_procedure_def gates_for_profile_def parse_profile_def
        small_metadata invalidated_gates_def small_purpose Let_def)
qed

lemma edit_authorization_stage: "ready w \<Longrightarrow> \<exists>v. authorization_stage small_boundary editing edit_contract (Some small_assessment) w = (Inr (), v) \<and> journal_only w v"
  by (auto simp: authorization_stage_def withS_def logS_def journal_only_journal check_authorization_def authorization_required_def
      ready_def editing_fields edit_rule make_rule_def)

lemma edit_action: "reliability_request editing edit_contract small_contracts ''minimal'' =
    \<lparr>aq_side_effect = True, aq_blast_radius = 1, aq_exposure = Some 1, aq_irreversible = False,
     aq_procedure_profile = Some ''minimal'', aq_timing = None\<rparr>"
  by (simp add: reliability_request_def editing_class has_side_effect_def Let_def declared_blast_radius_def declared_exposure_def
      declared_timing_def editing_metadata editing_fields edit_rule make_rule_def first_declared_def List.map_filter_simps
      int_or_none_def int_opt_json_def level_or_zero_def impact_order_def)

lemma edit_assessed: "\<exists>s. evaluate_reliability_stage parse_nan 0 (reliability_request editing edit_contract small_contracts ''minimal'') fresh_controls
    = (\<lparr>rs_allowed = True, rs_reason = Some ''allowed'', rs_error = None\<rparr>, s)"
  by (simp add: edit_action evaluate_reliability_stage_def assess_def observe_def observed_timing_def risk_evaluate_def reliability_decide_def
      prune_timestamps_def fresh_controls_def new_controls_def limit_reason_def cooldown_remaining_def sample_policy_def new_reliability_policy_def Let_def requested_exposure_def)

lemma edit_reliability: "ready w \<Longrightarrow> \<exists>a v. reliability_stage small_boundary editing edit_contract w = (Inr a, v)
   \<and> bw_registry v = bw_registry small_bworld"
proof -
  have "compute_effective_procedure_profile (Some ''minimal'') [named_profile (cq_metadata editing)] = Inr ''minimal''"
    by (rule edit_profile) (simp add: named_profile_def editing_metadata)
  then show "ready w \<Longrightarrow> ?thesis"
    using edit_assessed
    by (auto simp: ready_def reliability_stage_def withS_def bindS_def uncaught_def editing_class Let_def
      reliability_verdict_stage_def retS_def edit_action editing_fields small_boundary_def)
qed

lemma edit_gates: "\<exists>x v. gates small_boundary edit_request small_bworld = (Inr x, v)"
proof -
  have c: "contract_stage small_boundary edit_request small_bworld = (Inr edit_contract, small_bworld)"
    by (simp add: contract_stage_def withS_def retS_def edit_request_def bare_request_def small_bworld_def
        resolve_contract_def resolve_pattern_def small_contracts_def)
  have d: "discovery_stage small_boundary edit_request small_bworld = (Inr [tool_descriptor], small_bworld)"
    by (simp add: discovery_stage_def withS_def retS_def descriptors_for_def providers_for_def list_descriptors_def
      registry_descriptor_def tool_descriptor_def edit_request_def bare_request_def empty_registry_def small_bworld_def)
  have f: "qualification_stage small_boundary editing w = (Inr (Some small_assessment), w)"
    "governance_stage small_boundary editing w = (Inr no_governance, w)" for w
    by (simp_all add: qualification_stage_def governance_stage_def withS_def retS_def no_governance_def governance_code_def Let_def)
  obtain u where u: "policy_stage small_boundary editing (Some small_assessment) small_bworld = (Inr (), u)" "journal_only small_bworld u"
    using small_policy by blast
  obtain v where v: "authorization_stage small_boundary editing edit_contract (Some small_assessment) u = (Inr (), v)" "journal_only u v"
    using edit_authorization_stage ready_journal [OF ready_small u(2)] by blast
  have r: "ready v" using ready_journal [OF ready_journal [OF ready_small u(2)] v(2)] .
  obtain ss where ss: "procedure_statuses small_boundary editing edit_contract (Some small_assessment) v = Inr ss"
      "\<forall>s \<in> set ss. os_status s = Os_Satisfied"
    using edit_procedure [OF r] by blast
  then have "\<not> fst (procedure_blocked ss)"
    by (auto simp: procedure_blocked_def unresolved_status_def filter_empty_conv)
  with ss have p: "procedure_stage small_boundary editing edit_contract (Some small_assessment) v = (Inr (), v)"
    by (auto simp: procedure_stage_def withS_def retS_def split: prod.split)
  obtain act x where x: "reliability_stage small_boundary editing edit_contract v = (Inr act, x)" "bw_registry x = bw_registry small_bworld"
    using edit_reliability [OF r] by blast
  obtain y where y: "selection_stage small_boundary editing [tool_descriptor] x = (Inr tool_descriptor, y)"
    using small_selection x(2) by blast
  show ?thesis
    using c d edit_fencing f u(1) v(1) p x(1) y small_recheck [of editing y]
    by (simp add: gates_def bindS_def editing_def [symmetric]) (simp add: tool_descriptor_def retS_def)
qed

end
