(* ===== verification/Boundary_Records.thy ===== *)
theory Boundary_Records
  imports Reality_Boundary
begin

text \<open>
  The durable records of an invocation and the accounting of its side effect: precommit is all or
  nothing, and a side effect that was counted as running is given back on every path.
\<close>

section \<open>Precommit\<close>

definition same_records :: "bworld \<Rightarrow> bworld \<Rightarrow> bool" where
  "same_records w v \<longleftrightarrow> bw_store v = bw_store w \<and> bw_attempts v = bw_attempts w \<and> bw_actions v = bw_actions w"

definition steps_change :: "bworld \<Rightarrow> bworld \<Rightarrow> bool" where
  "steps_change w v \<longleftrightarrow> (\<exists>p. bw_store v = (bw_store w)\<lparr>st_step := p\<rparr>)"

lemma same_records_pre [simp, intro]: "reflp same_records" "transp same_records"
  by (auto simp: same_records_def intro!: reflpI transpI)

lemma steps_change_refl [simp]: "steps_change w w"
  by (auto simp: steps_change_def intro!: exI [of _ "st_step (bw_store w)"])

lemma steps_change_other [simp]: "steps_change w (w\<lparr>bw_attempts := x\<rparr>)" "steps_change w (w\<lparr>bw_actions := y\<rparr>)"
  using steps_change_refl [of w] unfolding steps_change_def by simp_all

lemma steps_change_pre [simp, intro]: "reflp steps_change" "transp steps_change"
proof -
  show "reflp steps_change" by (simp add: reflp_def)
  show "transp steps_change"
  proof (rule transpI)
    fix x y z assume "steps_change x y" "steps_change y z"
    then obtain p p' where "bw_store y = (bw_store x)\<lparr>st_step := p\<rparr>" "bw_store z = (bw_store y)\<lparr>st_step := p'\<rparr>"
      by (auto simp: steps_change_def)
    then have "bw_store z = (bw_store x)\<lparr>st_step := p'\<rparr>" by simp
    then show "steps_change x z" unfolding steps_change_def by (rule exI)
  qed
qed

lemma on_world_Inr [simp]: "on_world m w = (Inr x, v) \<longleftrightarrow> (\<exists>z. m (bw_world w) = (Inr x, z) \<and> v = w\<lparr>bw_world := z\<rparr>)"
  by (auto simp: on_world_def split: prod.splits)

lemma save_step_b_Inr [simp]:
  "save_step_b G s w = (Inr u, v) \<longleftrightarrow> G (candidate_state (RStep s) (bw_store w)) (bw_attempts w) (bw_actions w) = []
     \<and> v = w\<lparr>bw_world := (bw_world w)\<lparr>wd_store := store_put (RStep s) (bw_store w)\<rparr>\<rparr>"
  by (auto simp: save_step_b_def save_step_def state_errors_def)

lemma save_step_b_Inl: "save_step_b G s w = (Inl e, v) \<Longrightarrow> v = w"
  by (auto simp: save_step_b_def on_world_def save_step_def on_store_def split: prod.splits dest!: save_checked_Inl)

lemma save_attempt_Inr [simp]:
  "save_attempt G a w = (Inr u, v) \<longleftrightarrow>
     G (bw_store w) (dict_del (sa_id a) (bw_attempts w) @ [(sa_id a, a)]) (bw_actions w) = []
     \<and> v = w\<lparr>bw_attempts := dict_set (sa_id a) a (bw_attempts w)\<rparr>"
  by (auto simp: save_attempt_def Let_def)

lemma save_action_Inr [simp]:
  "save_action G a w = (Inr u, v) \<longleftrightarrow>
     G (bw_store w) (bw_attempts w) (dict_del (xa_id a) (bw_actions w) @ [(xa_id a, a)]) = []
     \<and> v = w\<lparr>bw_actions := dict_set (xa_id a) a (bw_actions w)\<rparr>"
  by (auto simp: save_action_def Let_def)

lemma save_attempt_Inl: "save_attempt G a w = (Inl e, v) \<Longrightarrow> v = w"
  by (auto simp: save_attempt_def Let_def raise_ifI_Inl)

lemma save_action_Inl: "save_action G a w = (Inl e, v) \<Longrightarrow> v = w"
  by (auto simp: save_action_def Let_def raise_ifI_Inl)

lemma transaction_b_Inr [simp]: "transaction_b m w = (Inr x, v) \<longleftrightarrow> m w = (Inr x, v)"
  by (auto simp: transaction_b_def split: prod.splits sum.splits)

lemma transaction_b_Inl:
  assumes "keeps steps_change m" "transaction_b m w = (Inl e, v)"
  shows "same_records w v"
proof -
  obtain u where u: "m w = (Inl e, u)" "v = u\<lparr>bw_world := (bw_world u)\<lparr>wd_store := rollback (bw_store w) (bw_store u)\<rparr>,
      bw_attempts := bw_attempts w, bw_actions := bw_actions w\<rparr>"
    using assms(2) by (auto simp: transaction_b_def split: prod.splits sum.splits)
  with keepsD [OF assms(1) u(1)] show ?thesis
    by (auto simp: steps_change_def same_records_def rollback_def)
qed

lemma utcnow_b_Inr [simp]: "utcnow_b E w = (Inr t, v) \<longleftrightarrow> t = env_clock E (wd_tick (bw_world w))
    \<and> v = w\<lparr>bw_world := (bw_world w)\<lparr>wd_tick := wd_tick (bw_world w) + 1\<rparr>\<rparr>"
  by (auto simp: utcnow_b_def on_world_def utcnow_def)

lemma new_id_b_Inr [simp]: "new_id_b E pre w = (Inr i, v) \<longleftrightarrow> i = new_id_at E (wd_tick (bw_world w)) pre
    \<and> v = w\<lparr>bw_world := (bw_world w)\<lparr>wd_tick := wd_tick (bw_world w) + 1\<rparr>\<rparr>"
  by (auto simp: new_id_b_def on_world_def new_id_def)

text \<open>An operation that raises leaves the records as they were.\<close>

definition undone :: "(bworld, 'a) io \<Rightarrow> bool" where
  "undone m \<longleftrightarrow> (\<forall>w e v. m w = (Inl e, v) \<longrightarrow> same_records w v)"

lemma undone_keeps: "keeps same_records m \<Longrightarrow> undone m"
  by (auto simp: undone_def dest: keepsD)

lemma undone_transaction: "keeps steps_change m \<Longrightarrow> undone (transaction_b m)"
  by (auto simp: undone_def dest: transaction_b_Inl)

lemma undone_retI: "undone (retI x)"
  by (simp add: undone_def retI_def)

lemma undone_withI: "(\<And>w. undone (f w)) \<Longrightarrow> undone (withI f)"
  by (auto simp: undone_def withI_def)

lemma undone_bindI:
  assumes "keeps same_records m" "\<And>x. undone (f x)"
  shows "undone (bindI m f)"
  unfolding undone_def
proof (intro allI impI)
  fix w e v assume "bindI m f w = (Inl e, v)"
  then consider "m w = (Inl e, v)" | x u where "m w = (Inr x, u)" "f x u = (Inl e, v)"
    by (auto simp: bindI_def split: prod.splits sum.splits)
  then show "same_records w v"
  proof cases
    case 1
    then show ?thesis by (rule keepsD [OF assms(1)])
  next
    case (2 x u)
    then have "same_records w u" "same_records u v"
      using keepsD [OF assms(1)] assms(2) [of x] by (auto simp: undone_def)
    then show ?thesis by (rule transpD [OF same_records_pre(2)])
  qed
qed

lemma undone_last: "undone m \<Longrightarrow> undone (bindI m (\<lambda>_. retI x))"
  by (auto simp: undone_def bindI_def retI_def split: prod.splits sum.splits)

lemma keeps_same_records:
  "keeps same_records (utcnow_b E)" "keeps same_records (new_id_b E pre)"
  by (simp_all add: keeps_def utcnow_b_def new_id_b_def on_world_def utcnow_def new_id_def same_records_def)

lemma keeps_make_action: "keeps same_records (make_action E q pid i status meta)"
  unfolding make_action_def by (intro keeps_intros keeps_same_records same_records_pre)

lemma keeps_new_attempt: "keeps same_records (new_attempt E q p i n)"
  unfolding new_attempt_def by (intro keeps_intros keeps_same_records same_records_pre)

lemma keeps_critical_step: "keeps same_records (critical_step E q p rid)"
  unfolding critical_step_def new_step_def by (intro keeps_intros keeps_same_records same_records_pre)

lemma keeps_steps_change:
  "keeps steps_change (save_step_b G s)" "keeps steps_change (save_attempt G a)" "keeps steps_change (save_action G x)"
proof -
  have *: "steps_change w v" if "save_step_b G s w = (r, v)" for w r v
  proof (cases r)
    case (Inl e)
    with that show ?thesis using save_step_b_Inl [of G s w e v] by simp
  next
    case (Inr u)
    with that have "bw_store v = (bw_store w)\<lparr>st_step := dict_set (sp_id s) s (st_step (bw_store w))\<rparr>"
      by auto
    then show ?thesis unfolding steps_change_def by (rule exI)
  qed
  show "keeps steps_change (save_step_b G s)"
    using * by (auto simp: keeps_def) (metis prod.collapse)
  show "keeps steps_change (save_attempt G a)"
    by (auto simp: keeps_def save_attempt_def Let_def raise_ifI_def raiseI_def)
  show "keeps steps_change (save_action G x)"
    by (auto simp: keeps_def save_action_def Let_def raise_ifI_def raiseI_def)
qed

lemma undone_precommit: "undone (precommit_critical E G q p rid)"
  unfolding precommit_critical_def Let_def
  by (intro undone_bindI undone_withI undone_last undone_transaction keeps_intros steps_change_pre
      keeps_critical_step keeps_new_attempt keeps_make_action keeps_same_records keeps_steps_change)

lemma new_attempt_Inr:
  "new_attempt E q p i n w = (Inr a, v) \<Longrightarrow> sa_step_id a = i \<and> sa_attempt_no a = n \<and> sa_status a = Att_Running
     \<and> sa_request_ref a = Some (cq_id q) \<and> sa_lease_generation a = pc_lease_generation p"
  by (auto simp: new_attempt_def)

lemma make_action_Inr:
  "make_action E q pid i status meta w = (Inr x, v) \<Longrightarrow> xa_id x = i \<and> xa_request_ref x = cq_id q \<and> xa_status x = status"
  by (auto simp: make_action_def)

lemma next_attempt_no_greater: "a \<in> set (list_attempts w i) \<Longrightarrow> sa_attempt_no a < next_attempt_no w i"
  unfolding next_attempt_no_def
  by (rule le_less_trans [OF Max_ge [of "insert 0 (set (map sa_attempt_no (list_attempts w i)))"]]) auto

section \<open>The count of running side effects\<close>

abbreviation active :: "bworld \<Rightarrow> int" where
  "active w \<equiv> rc_active_side_effects (bw_controls w)"

definition same_active :: "bworld \<Rightarrow> bworld \<Rightarrow> bool" where
  "same_active w v \<longleftrightarrow> active v = active w"

lemma same_active_pre [simp, intro]: "reflp same_active" "transp same_active"
  by (auto simp: same_active_def intro!: reflpI transpI)

text \<open>No other side effect starts or ends while the boundary awaits its collaborators.\<close>

definition quiet :: "boundary \<Rightarrow> bool" where
  "quiet B \<longleftrightarrow> (\<forall>engine q. rb_policy B = Some engine \<longrightarrow> keeps same_active (engine q))
     \<and> (\<forall>obj w. same_active w (snd (rb_ask B obj w))) \<and> (\<forall>q ds. keeps same_active (rb_route B q ds))
     \<and> (\<forall>q p i w. same_active w (snd (rb_dispatch B q p i w)))
     \<and> (\<forall>obj q ix w. same_active w (snd (rb_invoke B obj q ix w)))"

text \<open>A stage that leaves the count alone, however it ends.\<close>

definition calm :: "'a stage \<Rightarrow> bool" where
  "calm m \<longleftrightarrow> (\<forall>w. same_active w (snd (m w)))"

lemma calmD: "calm m \<Longrightarrow> m w = (r, v) \<Longrightarrow> active v = active w"
  by (auto simp: calm_def same_active_def dest: spec [of _ w])

lemma calmI: "(\<And>w r v. m w = (r, v) \<Longrightarrow> active v = active w) \<Longrightarrow> calm m"
  by (auto simp: calm_def same_active_def) (metis prod.collapse)

lemma active_journal [simp]: "active (journal B q ev w) = active w"
  by (simp add: journal_def on_world_def split: prod.splits)

lemma active_fold_journal [simp]: "active (fold (journal B q) evs w) = active w"
  by (induction evs arbitrary: w) simp_all

lemma calm_simple: "calm (retS x)" "calm (stopS r)" "calm (logS B q evs)" "calm (uncaught e)"
  by (auto simp: calm_def same_active_def retS_def stopS_def logS_def uncaught_def split: sum.splits)

lemma calm_bindS:
  assumes "calm m" "\<And>x. calm (f x)"
  shows "calm (bindS m f)"
  by (rule calmI) (auto simp: bindS_def split: prod.splits sum.splits dest!: calmD [OF assms(1)] calmD [OF assms(2)])

lemma calm_withS: "(\<And>w. calm (f w)) \<Longrightarrow> calm (withS f)"
  by (simp add: calm_def withS_def)

lemma calm_refuse: "calm (refuse B q pid code reason extra evs)"
  unfolding refuse_def by (intro calm_bindS calm_simple)

lemma calm_if: "calm m \<Longrightarrow> calm n \<Longrightarrow> calm (if b then m else n)"
  by simp

lemma calm_option: "calm n \<Longrightarrow> (\<And>y. calm (f y)) \<Longrightarrow> calm (case_option n f x)"
  by (cases x) simp_all

lemma calm_sum: "(\<And>y. calm (g y)) \<Longrightarrow> (\<And>y. calm (f y)) \<Longrightarrow> calm (case_sum g f x)"
  by (cases x) simp_all

lemma calm_pair: "(\<And>a b. calm (f a b)) \<Longrightarrow> calm (case_prod f x)"
  by (cases x) simp_all

lemma calm_failure: "(\<And>m. calm (g m)) \<Longrightarrow> (\<And>m. calm (h m)) \<Longrightarrow> calm (case_qualification_failure g h x)"
  by (cases x) simp_all

lemma calm_bool: "calm m \<Longrightarrow> calm n \<Longrightarrow> calm (case b of True \<Rightarrow> m | False \<Rightarrow> n)"
  by (cases b) simp_all

lemma calm_try:
  assumes "keeps same_active m" "\<And>e. calm (g e)" "\<And>x. calm (h x)"
  shows "calm (\<lambda>w. case m w of (Inl e, v) \<Rightarrow> g e v | (Inr x, v) \<Rightarrow> h x v)"
  by (rule calmI) (auto simp: same_active_def split: prod.splits sum.splits
      dest!: keepsD [OF assms(1)] calmD [OF assms(2)] calmD [OF assms(3)])

lemma calm_prod:
  assumes "\<And>w x v. m w = (x, v) \<Longrightarrow> same_active w (h x v w)" "\<And>x. calm (g x)"
  shows "calm (\<lambda>w. case m w of (x, v) \<Rightarrow> g x (h x v w))"
  by (rule calmI) (auto simp: same_active_def split: prod.splits dest!: assms(1) calmD [OF assms(2)])

lemmas calm_intros = calm_simple calm_bindS calm_withS calm_refuse calm_if calm_option calm_sum calm_pair calm_failure calm_bool

lemma calm_early:
  "calm (contract_stage B q)" "calm (discovery_stage B q)" "calm (fencing_stage B q)" "calm (qualification_stage B q)"
  "calm (governance_stage B q)" "calm (authorization_stage B q c a)" "calm (procedure_stage B q c a)"
  "calm (recheck_stage B q a g pid)" "calm (reliability_verdict_stage B q act d)" "calm (policy_verdict_stage B q a pd)"
  unfolding contract_stage_def discovery_stage_def fencing_stage_def qualification_stage_def governance_stage_def
    authorization_stage_def procedure_stage_def recheck_stage_def reliability_verdict_stage_def reliability_refusal_def
    policy_verdict_stage_def Let_def
  by (intro calm_intros; simp?)+

lemma calm_policy: "quiet B \<Longrightarrow> calm (policy_stage B q a)"
  unfolding policy_stage_def
  by (auto simp: quiet_def split: option.split intro!: calm_try calm_intros calm_early)

lemma active_assess [simp]: "rc_active_side_effects (snd (assess parse now a s)) = rc_active_side_effects s"
  by (simp add: assess_def Let_def prune_timestamps_def block_def split: sum.split)

lemma active_evaluate [simp]:
  "rc_active_side_effects (snd (evaluate_reliability_stage parse now a s)) = rc_active_side_effects s"
  using active_assess [of parse now a s]
  by (cases "assess parse now a s"; cases "fst (assess parse now a s)") (auto simp: evaluate_reliability_stage_def)

lemma calm_reliability: "calm (reliability_stage B q c)"
  unfolding reliability_stage_def Let_def reliability_refusal_def
  by (intro calm_withS calm_bindS calm_if calm_refuse calm_simple calm_prod calm_early)
    (use active_evaluate in \<open>simp add: same_active_def, metis snd_conv\<close>)

lemma active_health: "quiet B \<Longrightarrow> health_available (rb_ask B) pid w = (r, v) \<Longrightarrow> active v = active w"
  by (auto simp: health_available_def quiet_def same_active_def split: option.splits prod.splits) (metis snd_conv)

lemma active_breaker [simp]: "breaker_allows now pid w = (ok, v) \<Longrightarrow> active v = active w"
  by (auto simp: breaker_allows_def Let_def split: prod.splits)

lemma active_healthy:
  "quiet B \<Longrightarrow> healthy_providers (rb_ask B) mono_clock ds w = (r, v) \<Longrightarrow> active v = active w"
proof (induction ds arbitrary: w r v)
  case (Cons d ds)
  obtain a u where a: "health_available (rb_ask B) (de_id d) w = (a, u)" by fastforce
  obtain ok y where b: "breaker_allows (mono_clock u) (de_id d) u = (ok, y)" by fastforce
  have *: "active u = active w" "active y = active u"
    using active_health [OF Cons.prems(1) a] active_breaker [OF b] by simp_all
  show ?case
    using Cons.prems(2) a b * Cons.IH [OF Cons.prems(1)]
    by (auto split: sum.splits prod.splits if_splits) 
qed simp

lemma calm_selection:
  assumes "quiet B"
  shows "calm (selection_stage B q ds)"
proof (rule calmI)
  have route: "keeps same_active (rb_route B q hs)" for hs
    using assms by (simp add: quiet_def)
  fix w r v assume "selection_stage B q ds w = (r, v)"
  moreover obtain c u where c: "select_provider_stage (rb_ask B) (rb_monotonic B) (rb_route B) q ds w = (c, u)" by fastforce
  moreover have "active u = active w"
    using c by (auto simp: select_provider_stage_def same_active_def split: prod.splits sum.splits list.splits
        dest!: active_healthy [OF assms] keepsD [OF route])
  ultimately show "active v = active w"
    by (auto simp: selection_stage_def bindS_def logS_def retS_def dest!: calmD [OF calm_refuse]
        split: selection.splits option.splits selection_phase.splits)
qed

lemma calm_gates: "quiet B \<Longrightarrow> calm (gates B q)"
  unfolding gates_def Let_def
  by (intro calm_bindS calm_early calm_policy calm_reliability calm_selection calm_simple)

lemma keeps_same_active_world:
  "keeps same_active (utcnow_b E)" "keeps same_active (new_id_b E pre)" "keeps same_active (save_step_b G s)"
  "keeps same_active (save_attempt G a)" "keeps same_active (save_action G x)"
  by (auto simp: keeps_def same_active_def utcnow_b_def new_id_b_def save_step_b_def on_world_def save_attempt_def
      save_action_def Let_def raise_ifI_def raiseI_def split: prod.splits)

lemma keeps_same_active_transaction: "keeps same_active m \<Longrightarrow> keeps same_active (transaction_b m)"
  unfolding keeps_def transaction_b_def
  by (auto simp: same_active_def split: prod.splits sum.splits) (metis snd_conv)+

lemmas keeps_active = keeps_intros same_active_pre keeps_same_active_world keeps_same_active_transaction

lemma keeps_active_precommit: "keeps same_active (precommit_execution_records E G has_store q p)"
proof -
  have "keeps same_active (precommit_critical E G q p rid)" "keeps same_active (precommit_observation E G q p rid)" for rid
    unfolding precommit_critical_def precommit_observation_def critical_step_def new_step_def new_attempt_def make_action_def Let_def
    by (intro keeps_active)+
  then show ?thesis
    unfolding keeps_def precommit_execution_records_def
    by (auto simp: same_active_def split: prod.splits sum.splits) (metis snd_conv)+
qed

lemma keeps_active_abort: "keeps same_active (abort_preinvocation_records E G has_store q pid ids code reason)"
  unfolding abort_preinvocation_records_def make_action_def Let_def by (intro keeps_active)

lemma keeps_active_projection: "keeps same_active (commit_execution_projection E G has_store q r pid ids)"
  unfolding commit_execution_projection_def make_action_def Let_def by (intro keeps_active)

lemma calm_precommit: "calm (precommit_stage B q p)"
  unfolding precommit_stage_def by (intro calm_try keeps_active_precommit calm_intros)

lemma active_release: "active (release b w) = (if b \<and> 0 < active w then active w - 1 else active w)"
  by (simp add: release_def on_controls_def complete_action_def)

text \<open>A stage after the accounting: when it stops, it gives back what was counted.\<close>

definition settles :: "bool \<Rightarrow> 'a stage \<Rightarrow> bool" where
  "settles started m \<longleftrightarrow> (\<forall>w r v. m w = (r, v) \<longrightarrow> active v = (case r of Inl _ \<Rightarrow> active (release started w) | Inr _ \<Rightarrow> active w))"

lemma settles_abort: "settles (xt_started t) (abort_before_reality_exit B t code reason)"
proof -
  have "refuse B q pid c m ex evs u = (r, v) \<Longrightarrow> active v = active u \<and> (\<exists>s. r = Inl s)" for q pid c m ex evs u and r :: "stop + 'a" and v
    using calmD [OF calm_refuse] by (auto simp: refuse_def bindS_def logS_def stopS_def)
  then show ?thesis
    by (auto simp: settles_def abort_before_reality_exit_def Let_def same_active_def split: prod.splits sum.splits
        dest!: keepsD [OF keeps_active_abort])
qed

lemma settles_retS: "settles started (retS x)"
  by (simp add: settles_def retS_def)

lemma settles_withS: "(\<And>w. settles started (f w)) \<Longrightarrow> settles started (withS f)"
  by (simp add: settles_def withS_def)

lemma settles_bindS:
  assumes "settles started m" "\<And>x. settles started (f x)"
  shows "settles started (bindS m f)"
  unfolding settles_def
proof (intro allI impI)
  fix w r v assume b: "bindS m f w = (r, v)"
  obtain a u where m: "m w = (a, u)" by fastforce
  show "active v = (case r of Inl _ \<Rightarrow> active (release started w) | Inr _ \<Rightarrow> active w)"
  proof (cases a)
    case (Inl s)
    with m b assms(1) show ?thesis by (auto simp: bindS_def settles_def)
  next
    case (Inr x)
    with m assms(1) have u: "active u = active w" by (auto simp: settles_def)
    have "f x u = (r, v)" using m b Inr by (simp add: bindS_def)
    with assms(2) u show ?thesis by (auto simp: settles_def active_release split: sum.splits)
  qed
qed

lemma settles_option: "settles b n \<Longrightarrow> (\<And>y. settles b (f y)) \<Longrightarrow> settles b (case_option n f x)"
  by (cases x) simp_all

lemma settles_pair: "(\<And>a c. settles b (f a c)) \<Longrightarrow> settles b (case_prod f x)"
  by (cases x) simp_all

lemma settles_final: "settles (xt_started t) (final_check_stage B a t)"
  unfolding final_check_stage_def Let_def
  by (intro settles_withS settles_option settles_pair settles_abort settles_retS)

lemma settles_dispatch:
  assumes "quiet B"
  shows "settles (xt_started t) (dispatch_stage B t)"
  unfolding settles_def
proof (intro allI impI)
  fix w r v assume d: "dispatch_stage B t w = (r, v)"
  obtain x u where x: "rb_dispatch B (pm_request (xt_permit t)) (xt_permit t) (ri_attempt (xt_ids t)) w = (x, u)" by fastforce
  have u: "active u = active w"
    using assms x by (auto simp: quiet_def same_active_def) (metis snd_conv)
  have "settles (xt_started t) (case dispatch_code (dd_status x) of
      Some code \<Rightarrow> abort_before_reality_exit B t code (dd_reason x) | None \<Rightarrow> retS (dd_commit_ref x))"
    by (intro settles_option settles_abort settles_retS)
  with d x u show "active v = (case r of Inl _ \<Rightarrow> active (release (xt_started t) w) | Inr _ \<Rightarrow> active w)"
    by (auto simp: dispatch_stage_def settles_def active_release split: sum.splits)
qed

text \<open>What has been counted once the provider may be called, and nothing when it may not.\<close>

lemma active_reserve:
  assumes "0 \<le> active w" "reserve_exit B x w = (r, v)"
  shows "active v = (case r of Inl _ \<Rightarrow> active w | Inr (t, obj) \<Rightarrow> active w + (if xt_started t then 1 else 0))"
proof -
  have permit: "permit_stage B x w = (a, u) \<Longrightarrow> active u = active w" for a u
    unfolding permit_stage_def using calmD [OF calm_simple(4)] by metis
  have refuse: "refuse B q pid c m ex evs u = (a, y) \<Longrightarrow> active y = active u \<and> (\<exists>s. a = Inl s)"
    for q pid c m ex evs u y and a :: "stop + object_ref"
    using calmD [OF calm_refuse] by (auto simp: refuse_def bindS_def logS_def stopS_def)
  show ?thesis
    using assms(2)
    by (auto simp: reserve_exit_def Let_def bindS_def account_stage_def provider_stage_def retS_def on_controls_def record_action_def
        release_def complete_action_def split: prod.splits sum.splits if_splits
        dest!: permit calmD [OF calm_precommit] refuse) (use assms(1) in auto)
qed

lemma active_admission:
  assumes "quiet B" "0 \<le> active w" "admission B q w = (r, v)"
  shows "active v = (case r of Inl _ \<Rightarrow> active w | Inr (t, obj, ref) \<Rightarrow> active w + (if xt_started t then 1 else 0))"
proof -
  obtain x u where g: "gates B q w = (x, u)" by fastforce
  have u: "active u = active w" by (rule calmD [OF calm_gates [OF assms(1)] g])
  show ?thesis
  proof (cases x)
    case (Inl s)
    with g u assms(3) show ?thesis by (auto simp: admission_def bindS_def)
  next
    case (Inr x)
    obtain a y where a: "reserve_exit B x u = (a, y)" by fastforce
    note ra = active_reserve [OF _ a]
    show ?thesis
    proof (cases a)
      case (Inl s)
      with g u a ra assms(2,3) \<open>_ = Inr x\<close> show ?thesis by (auto simp: admission_def bindS_def)
    next
      case tr: (Inr p)
      obtain t obj where p: "p = (t, obj)" by fastforce
      have y: "active y = active w + (if xt_started t then 1 else 0)"
        using ra tr p u assms(2) by simp
      have rest: "bindS (final_check_stage B (ad_assessment x) t) (\<lambda>_. bindS (dispatch_stage B t) (\<lambda>ref. retS (t, obj, ref))) y = (r, v)"
        using assms(3) g Inr a tr p by (simp add: admission_def bindS_def)
      have "settles (xt_started t) (bindS (final_check_stage B (ad_assessment x) t)
          (\<lambda>_. bindS (dispatch_stage B t) (\<lambda>ref. retS (t, obj, ref))))"
        by (intro settles_bindS settles_final settles_dispatch assms settles_retS)
      with rest have "active v = (case r of Inl _ \<Rightarrow> active (release (xt_started t) y) | Inr _ \<Rightarrow> active y)"
        by (simp add: settles_def)
      moreover have "r = Inr z \<Longrightarrow> fst z = t" for z
        using rest by (auto simp: bindS_def retS_def split: prod.splits sum.splits)
      ultimately show ?thesis
        using y assms(2) by (auto simp: active_release split: sum.splits prod.splits)
    qed
  qed
qed

lemma active_update_breaker [simp]: "active (update_breaker pid f w) = active w"
  by (simp add: update_breaker_def split: prod.split)

lemma active_breaker_state [simp]: "breaker_state B pid w = (st, v) \<Longrightarrow> active v = active w"
  by (auto simp: breaker_state_def)

lemma active_breaker_outcome [simp]: "active (breaker_outcome B pid s w) = active w"
  by (simp add: breaker_outcome_def split: capability_status.split)

lemma active_invoke:
  assumes "quiet B" "invoke_stage B t obj ref w = (r, v)"
  shows "active v = active (release (xt_started t) w)"
proof -
  have "rb_invoke B obj q ix u = (a, y) \<Longrightarrow> active y = active u" for q ix u a y
    using assms(1) by (auto simp: quiet_def same_active_def) (metis snd_conv)
  with assms(2) show ?thesis
    by (auto simp: invoke_stage_def Let_def bindS_def logS_def retS_def active_release split: prod.splits)
qed

lemma keeps_active_mark_unknown: "keeps same_active (mark_unknown B ids r)"
  unfolding mark_unknown_def by (intro keeps_active)

lemma calm_post: "calm (post_fencing_stage B t r)"
proof (rule calmI)
  fix w a v assume "post_fencing_stage B t r w = (a, v)"
  then show "active v = active w"
    using keeps_active_mark_unknown
    by (auto simp: post_fencing_stage_def Let_def withS_def retS_def stopS_def bindS_def logS_def keeps_def same_active_def
        split: if_splits prod.splits)
qed

lemma calm_projection: "calm (projection_stage B t r)"
proof (rule calmI)
  fix w a v assume "projection_stage B t r w = (a, v)"
  then show "active v = active w"
    by (auto simp: projection_stage_def Let_def bindS_def logS_def retS_def same_active_def
        split: prod.splits sum.splits dest!: keepsD [OF keeps_active_projection])
qed

lemma active_finish: "calm m \<Longrightarrow> finish m w = (r, v) \<Longrightarrow> active v = active w"
  by (cases "m w") (auto simp: finish_def split: sum.splits stop.splits dest: calmD)

end
