(* ===== verification/Boundary_Properties.thy ===== *)
theory Boundary_Properties
  imports Boundary_Samples Boundary_Records
begin

text \<open>
  What the reality boundary guarantees: every way to stop short of the provider is a typed refusal
  that does not depend on the provider, the provider is reached only through every gate, success
  needs the fence to hold afterwards, action-critical records are durable or not there at all, and
  the count of running side effects is given back on every path.
\<close>

section \<open>Inputs of the witnesses\<close>

lemma consult_request_facts:
  "resolve_contract (cq_capability consult_request) (bw_contracts small_bworld) = Inr consult_contract"
  "cq_capability consult_request = ''consult''" "bw_contracts small_bworld = small_contracts"
  using consult_contract_resolved by (simp_all add: consult_request_def bare_request_def small_bworld_def)

text \<open>A side-effect capability without a contract.\<close>

lemma deploy_refused: "\<exists>r v. admission small_boundary (bare_request ''q'' ''deploy'') small_bworld = (Inl (Stopped r), v)"
proof -
  have "resolve_contract ''deploy'' small_contracts = Inl (ForeignError (''EffectContractMissing: no authoritative effect rule for capability '' @ py_repr ''deploy''))"
    by (simp add: resolve_contract_def resolve_pattern_def small_contracts_def pattern_matches_def is_side_effect_capability_def
        is_side_effect_name_def has_any_prefix_def py_startswith_def py_endswith_def Let_def str_eval)
  then show ?thesis
    by (simp add: admission_def gates_def bindS_def contract_stage_def withS_def refuse_def logS_def stopS_def bare_request_def small_bworld_def)
qed

text \<open>A read whose metadata name a procedure profile that does not exist.\<close>

definition odd_request :: capability_request where
  "odd_request = (bare_request ''q'' ''look'')\<lparr>cq_metadata := fmap_of_list [(''procedure_profile'', JStr ''lax'')]\<rparr>"

definition looking :: capability_request where
  "looking = with_effective odd_request (read_contract ''look'')"

lemma odd_raises: "\<exists>v. execute small_boundary odd_request small_bworld
    = (Inl (ValueError ''unknown procedure profile; refusing to downgrade governance''), v)"
proof -
  have rc: "resolve_contract ''look'' small_contracts = Inr (read_contract ''look'')"
    by (simp add: resolve_contract_def resolve_pattern_def small_contracts_def pattern_matches_def is_side_effect_capability_def
        is_side_effect_name_def has_any_prefix_def py_startswith_def py_endswith_def Let_def str_eval)
  have rule: "effect_rule_of ''look'' small_contracts = None"
    by (simp add: effect_rule_of_def resolve_rule_def resolve_pattern_def small_contracts_def pattern_matches_def py_endswith_def)
  have c: "contract_stage small_boundary odd_request small_bworld = (Inr (read_contract ''look''), small_bworld)"
    using rc by (simp add: contract_stage_def withS_def retS_def odd_request_def bare_request_def small_bworld_def)
  have d: "discovery_stage small_boundary odd_request small_bworld = (Inr [], small_bworld)"
    by (simp add: discovery_stage_def withS_def retS_def descriptors_for_def providers_for_def list_descriptors_def
      registry_descriptor_def tool_descriptor_def odd_request_def bare_request_def empty_registry_def small_bworld_def)
  have l: "cq_run_id looking = None" "cq_work_id looking = None" "cq_capability looking = ''look''"
    by (simp_all add: looking_def odd_request_def bare_request_def)
  have f: "fencing_stage small_boundary looking w = (Inr (), w)" "qualification_stage small_boundary looking w = (Inr (Some small_assessment), w)"
    "governance_stage small_boundary looking w = (Inr no_governance, w)" "procedure_stage small_boundary looking c a w = (Inr (), w)" for w a c
    by (simp_all add: fencing_stage_def qualification_stage_def governance_stage_def procedure_stage_def procedure_applies_def withS_def retS_def
        read_fencing_def l no_governance_def governance_code_def Let_def)
  obtain u where u: "policy_stage small_boundary looking (Some small_assessment) small_bworld = (Inr (), u)" "journal_only small_bworld u"
    using small_policy by blast
  have ru: "ready u" by (rule ready_journal [OF ready_small u(2)])
  obtain v where v: "authorization_stage small_boundary looking (read_contract ''look'') (Some small_assessment) u = (Inr (), v)"
    using ru by (auto simp: authorization_stage_def withS_def logS_def check_authorization_def authorization_required_def
        ready_def l rule read_contract_def make_contract_def)
  have "named_profile (cq_metadata looking) = Some ''lax''"
    by (simp add: looking_def named_profile_def) (simp add: odd_request_def jget_def fm_get_def fmlookup_of_list)
  then have "reliability_stage small_boundary looking (read_contract ''look'') v
      = (Inl (Raised (ValueError ''unknown procedure profile; refusing to downgrade governance'')), v)"
    by (simp add: reliability_stage_def withS_def bindS_def uncaught_def compute_effective_procedure_profile_def
        procedure_order_def List.map_filter_simps)
  with c d f u v show ?thesis
    by (simp add: execute_def finish_def admission_def gates_def bindS_def looking_def [symmetric])
qed

definition edit_precommit :: precommit_input where
  "edit_precommit = \<lparr>pc_provider_id = ''p'', pc_permit_digest = ''d'', pc_lease_generation = 0, pc_side_effect = True,
     pc_plan = plan_from_descriptor tool_descriptor\<rparr>"

lemma edit_precommitted:
  "\<exists>ids v. precommit_execution_records marked_env (\<lambda>_ _ _. []) True edit_request edit_precommit small_bworld = (Inr ids, v)"
  by (simp add: precommit_execution_records_def edit_precommit_def edit_request_def precommit_critical_def critical_step_def
      find_step_def list_steps_def newest_first_def small_bworld_def empty_store_def new_step_def new_attempt_def make_action_def Let_def)

section \<open>Properties\<close>

text \<open>C2: A refusal is typed and does not depend on what the provider would do.\<close>

theorem refused_before_provider:
  assumes "admission B q w = (Inl (Stopped r), v)"
  shows "is_refusal q r \<and> execute (B\<lparr>rb_invoke := f\<rparr>) q w = (Inr r, v)"
  using stops_inD [OF admission_closed assms] assms
  by (simp_all add: fails_closed_def execute_def finish_def bindS_def)

theorem refused_before_provider_witness:
  "\<exists>r. is_refusal (bare_request ''q'' ''deploy'') r
     \<and> (\<forall>f. fst (execute (small_boundary\<lparr>rb_invoke := f\<rparr>) (bare_request ''q'' ''deploy'') small_bworld) = Inr r)"
proof -
  obtain r v where "admission small_boundary (bare_request ''q'' ''deploy'') small_bworld = (Inl (Stopped r), v)"
    using deploy_refused by blast
  from refused_before_provider [OF this] show ?thesis by (metis fst_conv)
qed





text \<open>C9: No provider is chosen for work and run without an executable procedure, or an accepted proof that none applies.\<close>

theorem provider_needs_procedure:
  assumes "policy_reads_only B" "gates B q w = (Inr x, v)"
    and "resolve_contract (cq_capability q) (bw_contracts w) = Inr c"
    and "nonempty_opt (cq_work_id q)" "nonempty_opt (cq_run_id q)"
  shows "procedure_not_applicable (with_effective q c) (effective_impact (with_effective q c) c None)
    \<or> (\<exists>a u ss. rb_qualify B (with_effective q c) w = Inr a \<and> journal_only w u
        \<and> procedure_statuses B (with_effective q c) c (Some a) u = Inr ss
        \<and> (\<forall>s \<in> set ss. os_status s \<notin> {Os_Open, Os_Required, Os_Blocked, Os_Expired, Os_Invalidated}))"
proof -
  obtain a u where "gates_passed B (with_effective q c) w c a u"
    using gates_passed_contract [OF assms(1-3)] by blast
  moreover have "\<not> fst (procedure_blocked ss) \<Longrightarrow> \<forall>s \<in> set ss. \<not> unresolved_status (os_status s)" for ss
    by (auto simp: procedure_blocked_def Let_def filter_empty_conv split: if_splits)
  ultimately show ?thesis
    using assms(4,5)
    by (cases a) (auto simp: gates_passed_def procedure_applies_def procedure_statuses_def unresolved_status_def)
qed

theorem provider_needs_procedure_witness:
  "\<exists>u ss. procedure_statuses small_boundary editing edit_contract (Some small_assessment) u = Inr ss
    \<and> (\<forall>s \<in> set ss. os_status s \<notin> {Os_Open, Os_Required, Os_Blocked, Os_Expired, Os_Invalidated})"
proof -
  obtain x v where g: "gates small_boundary edit_request small_bworld = (Inr x, v)"
    using edit_gates by blast
  have c: "resolve_contract (cq_capability edit_request) (bw_contracts small_bworld) = Inr edit_contract"
    by (simp add: edit_request_def bare_request_def small_bworld_def resolve_contract_def resolve_pattern_def small_contracts_def)
  have "nonempty_opt (cq_work_id edit_request)" "nonempty_opt (cq_run_id edit_request)"
    by (simp_all add: edit_request_def)
  from provider_needs_procedure [OF small_policy_reads_only g c this] show ?thesis
    by (auto simp: editing_def [symmetric] editing_class procedure_not_applicable_def)
qed



text \<open>The fence admits a request for a run exactly when the request may act for the stored run now.\<close>

theorem fencing_decides:
  "fst (fencing_stage B q w) = Inr () \<longleftrightarrow> (case cq_run_id q of None \<Rightarrow> True | Some rid \<Rightarrow> rb_has_store B
     \<and> (\<exists>r. get_run (bw_store w) rid = Some r \<and> may_act q r (clock_now (rb_env B) w)))"
  by (simp only: fencing_stage_decides read_fencing_decides)

text \<open>C4: Once a lease has been acquired anew, a request with an earlier generation never reaches a provider.\<close>

theorem superseded_generation_refused:
  assumes "lease_wf rid s" "get_run s rid = Some r" "store_acquire_lease mt utc rid owner ttl s = (True, bw_store w)"
    and "cq_run_id q = Some rid" "cq_lease_generation q \<le> rn_lease_generation r"
  shows "admission B q w \<noteq> (Inr x, v)"
proof
  assume "admission B q w = (Inr x, v)"
  then obtain c where f: "fst (read_fencing B (with_effective q c) w)"
    using admission_fenced by blast
  obtain r' where r': "get_run (bw_store w) rid = Some r'" "0 < rn_lease_generation r'"
      "rn_lease_generation r < rn_lease_generation r'"
    by (rule acquired_generation [OF assms(1-3)])
  with f assms(4,5) show False
    by (simp add: read_fencing_decides) (auto simp: may_act_def)
qed

theorem superseded_generation_refused_witness:
  "\<exists>s. store_acquire_lease 0 0 ''r'' ''other'' 5 (bw_store small_bworld) = (True, s)
     \<and> (\<forall>x v. admission small_boundary edit_request (small_bworld\<lparr>bw_world := \<lparr>wd_store = s, wd_tick = 0\<rparr>\<rparr>) \<noteq> (Inr x, v))"
proof -
  obtain s where s: "store_acquire_lease 0 0 ''r'' ''other'' 5 (bw_store small_bworld) = (True, s)"
    by (simp add: store_acquire_lease_def small_bworld_def empty_store_def Let_def get_run_def)
  have wf: "lease_wf ''r'' (bw_store small_bworld)" and r: "get_run (bw_store small_bworld) ''r'' = Some small_run"
    by (simp_all add: lease_wf_def small_bworld_def empty_store_def get_run_def)
  let ?w = "small_bworld\<lparr>bw_world := \<lparr>wd_store = s, wd_tick = 0\<rparr>\<rparr>"
  have t: "store_acquire_lease 0 0 ''r'' ''other'' 5 (bw_store small_bworld) = (True, bw_store ?w)"
    using s by simp
  have q: "cq_run_id edit_request = Some ''r''" "cq_lease_generation edit_request \<le> rn_lease_generation small_run"
    by (simp_all add: edit_request_def bare_request_def small_run_def)
  have "admission small_boundary edit_request ?w \<noteq> (Inr x, v)" for x v
    by (rule superseded_generation_refused [OF wf r t q])
  with s show ?thesis by blast
qed



text \<open>C1: A reported success is the provider's own, the fence still holds after the call, and the result is on record.\<close>

theorem success_needs_fence_and_record:
  assumes "execute B q w = (Inr r, v)" "cr_status r = Cap_Succeeded"
  shows "\<exists>t obj commit_ref w1 w2 w3 projected.
     admission B q w = (Inr (t, obj, commit_ref), w1) \<and> invoke_stage B t obj commit_ref w1 = (Inr r, w2)
   \<and> (nonempty_opt (cq_run_id (pm_request (xt_permit t))) \<longrightarrow> fst (read_fencing B (pm_request (xt_permit t)) w2))
   \<and> commit_execution_projection (rb_env B) (rb_graph B) (rb_has_store B) (pm_request (xt_permit t)) r
       (pm_provider_id (xt_permit t)) (xt_ids t) w2 = (Inr projected, w3)"
proof (cases "admission B q w")
  case (Pair a w1)
  show ?thesis
  proof (cases a)
    case (Inl s)
    with Pair stops_inD [OF admission_closed] have "fails_closed q s" by blast
    with Inl Pair assms show ?thesis
      by (cases s) (auto simp: execute_def finish_def bindS_def fails_closed_def is_refusal_def)
  next
    case (Inr x)
    obtain t obj ref where x: "x = (t, obj, ref)" by (cases x)
    obtain a2 w2 where i: "invoke_stage B t obj ref w1 = (a2, w2)" by fastforce
    then obtain r0 where r0: "a2 = Inr r0"
      by (auto simp: invoke_stage_def bindS_def logS_def retS_def Let_def split: prod.splits)
    have run: "execute B q w = finish (bindS (post_fencing_stage B t r0) (\<lambda>_. projection_stage B t r0)) w2"
      using Pair Inr x i r0 by (simp add: execute_def finish_def bindS_def reality_exit_def)
    have f: "post_fencing_stage B t r0 w2 = (Inr (), w2)"
    proof (rule ccontr)
      assume "post_fencing_stage B t r0 w2 \<noteq> (Inr (), w2)"
      then obtain code reason y where "post_fencing_stage B t r0 w2 = (Inl (Stopped (with_error Cap_Unknown code reason r0)), y)"
        by (auto simp: post_fencing_stage_def withS_def retS_def bindS_def logS_def stopS_def Let_def split: prod.splits if_splits)
      with run assms show False
        by (auto simp: finish_def bindS_def with_error_def)
    qed
    obtain p w3 where p: "commit_execution_projection (rb_env B) (rb_graph B) (rb_has_store B) (pm_request (xt_permit t)) r0
        (pm_provider_id (xt_permit t)) (xt_ids t) w2 = (p, w3)" by fastforce
    with run f assms obtain projected where "p = Inr projected" "r0 = r"
      by (cases p) (auto simp: finish_def bindS_def projection_stage_def logS_def retS_def Let_def with_error_def)
    moreover have "nonempty_opt (cq_run_id (pm_request (xt_permit t))) \<Longrightarrow> fst (read_fencing B (pm_request (xt_permit t)) w2)"
      using f by (auto simp: post_fencing_stage_def Let_def split: prod.splits if_splits)
    ultimately show ?thesis
      using Pair Inr x i r0 p by blast
  qed
qed

theorem success_needs_fence_and_record_witness:
  "\<exists>t obj commit_ref w1. admission small_boundary consult_request small_bworld = (Inr (t, obj, commit_ref), w1)
     \<and> fst (invoke_stage small_boundary t obj commit_ref w1) = Inr (done_result consulting)"
proof -
  obtain v where e: "execute small_boundary consult_request small_bworld = (Inr (done_result consulting), v)"
    using consult_succeeds by blast
  have "cr_status (done_result consulting) = Cap_Succeeded" by (simp add: done_result_def)
  from success_needs_fence_and_record [OF e this] show ?thesis by (metis fst_conv)
qed

text \<open>C6: The precommit of an action-critical invocation leaves no record at all when it fails, and a
  running step, its new latest attempt and a running action, linked to one another and to the permit, when it succeeds.
\<close>

theorem precommit_atomic:
  assumes "pc_side_effect p" "precommit_execution_records E G has_store q p w = (r, v)"
  shows "case r of
      Inl e \<Rightarrow> bw_store v = bw_store w \<and> bw_attempts v = bw_attempts w \<and> bw_actions v = bw_actions w
    | Inr ids \<Rightarrow> (\<exists>s a x. ids = \<lparr>ri_step = Some (sp_id s), ri_attempt = Some (sa_id a), ri_action = Some (xa_id x)\<rparr>
        \<and> get_step (bw_store v) (sp_id s) = Some s \<and> get_attempt v (sa_id a) = Some a
        \<and> map_of (bw_actions v) (xa_id x) = Some x
        \<and> sp_status s = Step_Running \<and> sp_input_digest s = Some (pc_permit_digest p)
        \<and> sp_lease_generation s = pc_lease_generation p \<and> sp_current_attempt s = sa_attempt_no a
        \<and> sa_step_id a = sp_id s \<and> sa_status a = Att_Running \<and> sa_request_ref a = Some (cq_id q)
        \<and> (\<forall>b \<in> set (list_attempts w (sp_id s)). sa_attempt_no b < sa_attempt_no a)
        \<and> xa_request_ref x = cq_id q \<and> xa_status x = ''running'')"
proof (cases r)
  case (Inl e)
  with assms undone_precommit [of E G q p "the (cq_run_id q)"] show ?thesis
    by (auto simp: precommit_execution_records_def undone_def same_records_def split: if_splits)
next
  case (Inr ids)
  have m: "precommit_critical E G q p (the (cq_run_id q)) w = (Inr ids, v)"
    using assms Inr by (auto simp: precommit_execution_records_def split: if_splits)
  obtain s u where s: "critical_step E q p (the (cq_run_id q)) w = (Inr s, u)"
    using m unfolding precommit_critical_def by auto
  have u: "same_records w u"
    by (rule keepsD [OF keeps_critical_step s])
  have s': "sp_status s = Step_Running" "sp_input_digest s = Some (pc_permit_digest p)" "sp_lease_generation s = pc_lease_generation p"
    using s by (auto simp: critical_step_def new_step_def split: option.splits)
  let ?n = "next_attempt_no u (sp_id s)"
  have n: "b \<in> set (list_attempts w (sp_id s)) \<Longrightarrow> sa_attempt_no b < ?n" for b
    using next_attempt_no_greater [of b u "sp_id s"] u by (simp add: list_attempts_def same_records_def)
  obtain a u1 i u2 x u3 where a: "new_attempt E q p (sp_id s) ?n u = (Inr a, u1)"
      and x: "make_action E q (precommit_input.pc_provider_id p) i ''running'' fmempty u2 = (Inr x, u3)"
      and v: "ids = \<lparr>ri_step = Some (sp_id s), ri_attempt = Some (sa_id a), ri_action = Some i\<rparr>"
        "st_step (bw_store v) = dict_set (sp_id s) (s\<lparr>sp_current_attempt := ?n\<rparr>) (dict_set (sp_id s) s (st_step (bw_store u3)))"
        "bw_attempts v = dict_set (sa_id a) (a\<lparr>sa_metadata := fmupd ''action_ref'' (JStr i) (sa_metadata a)\<rparr>) (bw_attempts u3)"
        "bw_actions v = dict_set (xa_id x) x (bw_actions u3)"
    using m s unfolding precommit_critical_def Let_def by auto
  show ?thesis
    unfolding Inr sum.case
    by (rule exI [of _ "s\<lparr>sp_current_attempt := ?n\<rparr>"],
        rule exI [of _ "a\<lparr>sa_metadata := fmupd ''action_ref'' (JStr i) (sa_metadata a)\<rparr>"], rule exI [of _ x])
      (use new_attempt_Inr [OF a] make_action_Inr [OF x] v s' n in \<open>simp add: get_step_def get_attempt_def\<close>)
qed

theorem precommit_atomic_witness:
  "\<exists>s v. get_step (bw_store v) (sp_id s) = Some s \<and> sp_status s = Step_Running \<and> sp_input_digest s = Some ''d''
     \<and> snd (precommit_execution_records marked_env (\<lambda>_ _ _. []) True edit_request edit_precommit small_bworld) = v"
proof -
  obtain ids v where p: "precommit_execution_records marked_env (\<lambda>_ _ _. []) True edit_request edit_precommit small_bworld = (Inr ids, v)"
    using edit_precommitted by blast
  have "pc_side_effect edit_precommit" by (simp add: edit_precommit_def)
  from precommit_atomic [OF this p] p show ?thesis by (auto simp: edit_precommit_def)
qed

text \<open>C5: However an invocation ends - refused, raised, failed, unknown or succeeded - the side effect it
  was counted for no longer counts as running.
\<close>

theorem side_effects_balanced:
  assumes "quiet B" "0 \<le> rc_active_side_effects (bw_controls w)" "execute B q w = (r, v)"
  shows "rc_active_side_effects (bw_controls v) = rc_active_side_effects (bw_controls w)"
proof -
  obtain a u where a: "admission B q w = (a, u)" by fastforce
  note act = active_admission [OF assms(1,2) a]
  show ?thesis
  proof (cases a)
    case (Inl s)
    with a act assms(3) show ?thesis
      by (cases s) (auto simp: execute_def finish_def bindS_def)
  next
    case (Inr x)
    obtain t obj ref where x: "x = (t, obj, ref)" by (cases x)
    obtain b y where b: "invoke_stage B t obj ref u = (b, y)" by fastforce
    have y: "active y = active w"
      using active_invoke [OF assms(1) b] act Inr x assms(2) by (simp add: active_release split: if_splits)
    have c: "calm (bindS (post_fencing_stage B t r0) (\<lambda>_. projection_stage B t r0))" for r0
      by (intro calm_bindS calm_post calm_projection)
    show ?thesis
    proof (cases b)
      case (Inl s)
      with a Inr x b y assms(3) show ?thesis
        by (cases s) (simp_all add: execute_def finish_def reality_exit_def bindS_def)
    next
      case r0: (Inr r0)
      have "execute B q w = finish (bindS (post_fencing_stage B t r0) (\<lambda>_. projection_stage B t r0)) y"
        using a Inr x b r0 by (simp add: execute_def finish_def reality_exit_def bindS_def)
      with assms(3) y active_finish [OF c] show ?thesis by metis
    qed
  qed
qed

theorem side_effects_balanced_witness:
  "rc_active_side_effects (bw_controls (snd (execute small_boundary edit_request small_bworld))) = 0"
proof -
  have q: "quiet small_boundary"
    by (simp add: quiet_def small_boundary_def same_active_def keeps_def split: list.split)
  have z: "rc_active_side_effects (bw_controls small_bworld) = 0"
    by (simp add: small_bworld_def fresh_controls_def new_controls_def)
  show ?thesis
    using side_effects_balanced [OF q _ prod.collapse [symmetric], of small_bworld edit_request] z by simp
qed

end
