(* ===== verification/Distinction_Governance.thy ===== *)
theory Distinction_Governance
  imports Memory_Store
begin

text \<open>
  \<open>governance/distinction.py\<close>: distinctions whose qualification and activation change only by
  recorded and authorized decisions, the review obligations that block their use, and the operations
  on a configuration of both.  Every class is frozen and every operation a function that returns the
  new configuration, or \<open>None\<close> when it is not admissible.

  A \<open>frozenset\<close> of strings is a finite set, a mapping an insertion-ordered dictionary.  The fields
  that Python annotates as literals are strings, as no validator restricts them.
\<close>

section \<open>Data\<close>

record distinction_state =
  dst_qualification :: string
  dst_activation :: string
  dst_scope :: "string fset"
  dst_partition :: "string fset list"
  dst_version :: int

record use_context =
  uctx_name :: string
  uctx_requested_scope :: "string fset"

record blocking_condition =
  bcond_context_names :: "string fset"
  bcond_scope_any :: "string fset"
  bcond_scope_all :: "string fset"

record authority_target =
  gtar_kind :: string
  gtar_scheme_id :: string
  gtar_resource_ref :: string
  gtar_scope :: "string fset option"
  gtar_partition :: "string fset list option"
  gtar_operational_anchor :: "string option"

record authority_request =
  areq_actor :: string
  areq_operation :: string
  areq_target :: authority_target
  areq_context :: string

type_synonym authority_check = "authority_request \<Rightarrow> bool"

type_synonym freshness_lookup = "string \<Rightarrow> string option"

record dependency =
  dep_dependent :: string
  dep_basis :: string
  dep_kind :: string
  dep_context :: string

record review_obligation =
  rob_id :: string
  rob_target :: string
  rob_trigger_ref :: string
  rob_basis_refs :: "string list"
  rob_context :: string
  rob_blocking :: bool
  rob_blocking_condition :: "blocking_condition option"
  rob_closure_requirements :: "string fset"
  rob_invalidates_decisions :: "string fset"

record governance_decision =
  gdec_id :: string
  gdec_actor :: string
  gdec_operation :: string
  gdec_target :: string
  gdec_context :: string
  gdec_review_refs :: "string list"
  gdec_disposition :: string
  gdec_expected_state_anchor :: string
  gdec_basis_anchors :: "(string \<times> string) list"
  gdec_scope_snapshot :: "string fset"
  gdec_partition_snapshot :: "string fset list"
  gdec_closure_facts :: "string fset"
  gdec_required_qualification :: "string option"
  gdec_required_activation :: "string option"
  gdec_superseded :: bool

record governed_application =
  gapp_id :: string
  gapp_actor :: string
  gapp_operation :: string
  gapp_scheme_id :: string
  gapp_target :: string
  gapp_decision_ref :: string
  gapp_context :: string
  gapp_new_qualification :: "string option"
  gapp_new_activation :: "string option"
  gapp_review_obligation_id :: "string option"

record application_receipt =
  rcpt_application :: governed_application
  rcpt_effect_kind :: string
  rcpt_pre_anchor :: string
  rcpt_post_anchor :: string

datatype granted_target = Target authority_target | Legacy_Target string

record authority_grant =
  agr_actor :: string
  agr_operation :: string
  agr_target :: granted_target
  agr_context :: string

record governance_runtime =
  grt_obligations :: "(string \<times> review_obligation) list"
  grt_decisions :: "(string \<times> governance_decision) list"
  grt_applications :: "(string \<times> application_receipt) list"

record governance_configuration =
  gcfg_states :: "(string \<times> distinction_state) list"
  gcfg_runtime :: governance_runtime

definition state_of :: "governance_configuration \<Rightarrow> string \<Rightarrow> distinction_state option" where
  "state_of g i = map_of (gcfg_states g) i"

definition obligation_of :: "governance_configuration \<Rightarrow> string \<Rightarrow> review_obligation option" where
  "obligation_of g i = map_of (grt_obligations (gcfg_runtime g)) i"

definition decision_of :: "governance_configuration \<Rightarrow> string \<Rightarrow> governance_decision option" where
  "decision_of g i = map_of (grt_decisions (gcfg_runtime g)) i"

definition receipt_of :: "governance_configuration \<Rightarrow> string \<Rightarrow> application_receipt option" where
  "receipt_of g i = map_of (grt_applications (gcfg_runtime g)) i"

section \<open>Anchors\<close>

text \<open>\<open>repr\<close> of a tuple, from the renderings of its elements.\<close>

definition tuple_repr :: "string list \<Rightarrow> string" where
  "tuple_repr xs = (case xs of [x] \<Rightarrow> ''('' @ x @ '',)'' | _ \<Rightarrow> ''('' @ py_join '', '' xs @ '')'')"

definition canonical_partition :: "string fset list \<Rightarrow> string list list" where
  "canonical_partition p = sort (map sorted_list_of_fset p)"

definition partition_repr :: "string list list \<Rightarrow> string" where
  "partition_repr p = tuple_repr (map (\<lambda>cell. tuple_repr (map py_repr cell)) p)"

definition state_anchor :: "distinction_state \<Rightarrow> string" where
  "state_anchor s = ''v='' @ py_str_int (dst_version s) @ ''|q='' @ dst_qualification s @ ''|a='' @ dst_activation s
     @ ''|scope='' @ py_join '','' (sorted_list_of_fset (dst_scope s))
     @ ''|partition='' @ partition_repr (canonical_partition (dst_partition s))"

definition obligations_anchor :: "(string \<times> review_obligation) list \<Rightarrow> string" where
  "obligations_anchor obs = py_join ''|'' (sort (map fst obs))"

section \<open>Authority\<close>

definition projection_authority_target :: "string \<Rightarrow> string fset \<Rightarrow> string fset list \<Rightarrow> string \<Rightarrow> authority_target" where
  "projection_authority_target scheme_id sc p anchor = \<lparr>gtar_kind = ''distinction_projection'',
     gtar_scheme_id = scheme_id, gtar_resource_ref = ''distinction:'' @ scheme_id, gtar_scope = Some sc,
     gtar_partition = Some p, gtar_operational_anchor = Some anchor\<rparr>"

definition decision_target :: "governance_decision \<Rightarrow> authority_target" where
  "decision_target d = projection_authority_target (gdec_target d) (gdec_scope_snapshot d) (gdec_partition_snapshot d)
     (gdec_expected_state_anchor d)"

definition decision_authority_request :: "governance_decision \<Rightarrow> authority_request" where
  "decision_authority_request d = \<lparr>areq_actor = gdec_actor d, areq_operation = gdec_operation d,
     areq_target = decision_target d, areq_context = gdec_context d\<rparr>"

definition application_authority_request :: "governed_application \<Rightarrow> governance_decision \<Rightarrow> authority_request" where
  "application_authority_request a d = \<lparr>areq_actor = gapp_actor a, areq_operation = gapp_operation a,
     areq_target = decision_target d, areq_context = gapp_context a\<rparr>"

definition state_target :: "string \<Rightarrow> string \<Rightarrow> string \<Rightarrow> distinction_state \<Rightarrow> authority_target" where
  "state_target kind scheme_id resource s = \<lparr>gtar_kind = kind, gtar_scheme_id = scheme_id, gtar_resource_ref = resource,
     gtar_scope = Some (dst_scope s), gtar_partition = Some (dst_partition s),
     gtar_operational_anchor = Some (state_anchor s)\<rparr>"

definition review_discharge_authority_request ::
    "governed_application \<Rightarrow> review_obligation \<Rightarrow> distinction_state \<Rightarrow> authority_request" where
  "review_discharge_authority_request a ob s = \<lparr>areq_actor = gapp_actor a, areq_operation = gapp_operation a,
     areq_target = state_target ''review_obligation'' (rob_target ob) (''review_obligation:'' @ rob_id ob) s,
     areq_context = gapp_context a\<rparr>"

definition assignment_authority_request ::
    "string \<Rightarrow> string \<Rightarrow> string \<Rightarrow> string \<Rightarrow> string \<Rightarrow> string \<Rightarrow> distinction_state \<Rightarrow> authority_request" where
  "assignment_authority_request actor operation scheme_id item mode ctx s = \<lparr>areq_actor = actor,
     areq_operation = operation,
     areq_target = state_target ''assignment'' scheme_id (''assignment:'' @ scheme_id @ '':'' @ item @ '':'' @ mode) s,
     areq_context = ctx\<rparr>"

definition authority_target_covers :: "authority_target \<Rightarrow> authority_target \<Rightarrow> bool" where
  "authority_target_covers granted requested =
     (if gtar_kind granted \<noteq> gtar_kind requested \<or> gtar_scheme_id granted \<noteq> gtar_scheme_id requested
         \<or> gtar_resource_ref granted \<noteq> gtar_resource_ref requested then False
      else if gtar_scope granted \<noteq> None \<and> gtar_scope granted \<noteq> gtar_scope requested then False
      else if (case gtar_partition granted of None \<Rightarrow> False
          | Some p \<Rightarrow> canonical_partition p
              \<noteq> canonical_partition (case gtar_partition requested of None \<Rightarrow> [] | Some p' \<Rightarrow> p')) then False
      else gtar_operational_anchor granted = None
         \<or> gtar_operational_anchor granted = gtar_operational_anchor requested)"

definition legacy_target_covers :: "string \<Rightarrow> authority_target \<Rightarrow> bool" where
  "legacy_target_covers granted requested \<longleftrightarrow> granted \<in> {gtar_scheme_id requested, gtar_resource_ref requested}"

fun grant_authority :: "authority_grant list \<Rightarrow> authority_check" where
  "grant_authority [] q = False"
| "grant_authority (g # gs) q =
    (if agr_actor g \<noteq> areq_actor q \<or> agr_operation g \<noteq> areq_operation q \<or> agr_context g \<noteq> areq_context q
     then grant_authority gs q
     else (case agr_target g of
         Target t \<Rightarrow> if authority_target_covers t (areq_target q) then True else grant_authority gs q
       | Legacy_Target t \<Rightarrow> if legacy_target_covers t (areq_target q) then True else grant_authority gs q))"

section \<open>Admissible states\<close>

text \<open>The loop over the cells: the union so far, or \<open>None\<close> when a cell is empty or overlaps.\<close>

fun union_of_cells :: "string fset \<Rightarrow> string fset list \<Rightarrow> string fset option" where
  "union_of_cells u [] = Some u"
| "union_of_cells u (cell # cells) =
    (if cell = {||} \<or> u |\<inter>| cell \<noteq> {||} then None else union_of_cells (u |\<union>| cell) cells)"

definition partition_matches_scope :: "string fset list \<Rightarrow> string fset \<Rightarrow> bool" where
  "partition_matches_scope p sc =
     (if sc = {||} then p = [] else if p = [] then False else union_of_cells {||} p = Some sc)"

definition state_admissible :: "distinction_state \<Rightarrow> bool" where
  "state_admissible s =
     (if dst_qualification s \<notin> {''candidate'', ''qualified'', ''disqualified''}
         \<or> dst_activation s \<notin> {''active'', ''suspended''} then False
      else if \<not> partition_matches_scope (dst_partition s) (dst_scope s) then False
      else if dst_activation s = ''active'' \<and> (dst_qualification s \<noteq> ''qualified'' \<or> dst_scope s = {||}) then False
      else if dst_qualification s = ''disqualified'' \<and> dst_activation s \<noteq> ''suspended'' then False
      else dst_scope s \<noteq> {||} \<or> dst_activation s = ''suspended'')"

definition state_admissible_for :: "string \<Rightarrow> distinction_state \<Rightarrow> bool" where
  "state_admissible_for scheme_id s \<longleftrightarrow> scheme_id \<noteq> [] \<and> state_admissible s"

definition global_state_admissible :: "governance_configuration \<Rightarrow> bool" where
  "global_state_admissible g \<longleftrightarrow> list_all (\<lambda>(i, s). state_admissible_for i s) (gcfg_states g)"

section \<open>Reviews and use\<close>

definition scope_matches :: "string fset \<Rightarrow> use_context \<Rightarrow> bool" where
  "scope_matches sc use \<longleftrightarrow> sc \<noteq> {||} \<and> (uctx_requested_scope use = {||} \<or> uctx_requested_scope use |\<subseteq>| sc)"

definition blocking_condition_matches :: "blocking_condition \<Rightarrow> use_context \<Rightarrow> string fset \<Rightarrow> bool" where
  "blocking_condition_matches c use state_scope =
     (if bcond_context_names c \<noteq> {||} \<and> uctx_name use |\<notin>| bcond_context_names c then False
      else (let effective = (if uctx_requested_scope use \<noteq> {||} then uctx_requested_scope use else state_scope) in
        if bcond_scope_any c \<noteq> {||} \<and> bcond_scope_any c |\<inter>| effective = {||} then False
        else \<not> (bcond_scope_all c \<noteq> {||} \<and> \<not> bcond_scope_all c |\<subseteq>| effective)))"

definition review_key :: "review_obligation \<Rightarrow> string \<times> string \<times> string list \<times> string" where
  "review_key ob = (rob_target ob, rob_trigger_ref ob, sorted_list_of_fset (fset_of_list (rob_basis_refs ob)), rob_context ob)"

definition open_obligation :: "governance_runtime \<Rightarrow> review_obligation \<Rightarrow> governance_runtime option" where
  "open_obligation rt ob =
     (if list_ex (\<lambda>(_, existing). review_key existing = review_key ob) (grt_obligations rt) then None
      else Some (rt\<lparr>grt_obligations := dict_set (rob_id ob) ob (grt_obligations rt)\<rparr>))"

definition open_all :: "governance_runtime \<Rightarrow> review_obligation list \<Rightarrow> governance_runtime" where
  "open_all rt obs = foldl (\<lambda>rt ob. case open_obligation rt ob of None \<Rightarrow> rt | Some rt' \<Rightarrow> rt') rt obs"

definition commit_event_opening ::
    "governance_configuration \<Rightarrow> review_obligation list \<Rightarrow> string \<Rightarrow> string fset
      \<Rightarrow> (governance_configuration \<times> string fset) option" where
  "commit_event_opening g obs event_key processed =
     (if event_key |\<in>| processed then None
      else if list_ex (\<lambda>ob. rob_trigger_ref ob \<noteq> event_key) obs then None
      else Some (g\<lparr>gcfg_runtime := open_all (gcfg_runtime g) obs\<rparr>, finsert event_key processed))"

definition direct_review_targets :: "dependency list \<Rightarrow> string \<Rightarrow> string \<Rightarrow> string fset" where
  "direct_review_targets ds changed_basis ctx =
     fset_of_list (map dep_dependent (filter (\<lambda>d. dep_basis d = changed_basis \<and> dep_context d = ctx) ds))"

definition obligation_blocks :: "review_obligation \<Rightarrow> use_context \<Rightarrow> string fset \<Rightarrow> bool" where
  "obligation_blocks ob use state_scope =
     (if \<not> rob_blocking ob then False
      else (case rob_blocking_condition ob of
          Some c \<Rightarrow> blocking_condition_matches c use state_scope
        | None \<Rightarrow> rob_context ob = uctx_name use))"

definition blocking_review_open :: "governance_configuration \<Rightarrow> string \<Rightarrow> use_context \<Rightarrow> bool" where
  "blocking_review_open g scheme_id use = (case state_of g scheme_id of
     None \<Rightarrow> False
   | Some s \<Rightarrow> list_ex (\<lambda>(_, ob). rob_target ob = scheme_id \<and> obligation_blocks ob use (dst_scope s))
       (grt_obligations (gcfg_runtime g)))"

definition usable :: "governance_configuration \<Rightarrow> string \<Rightarrow> use_context \<Rightarrow> bool" where
  "usable g scheme_id use = (case state_of g scheme_id of
     None \<Rightarrow> False
   | Some s \<Rightarrow> dst_qualification s = ''qualified'' \<and> dst_activation s = ''active''
       \<and> scope_matches (dst_scope s) use \<and> \<not> blocking_review_open g scheme_id use)"

section \<open>Decisions\<close>

definition decision_recorded :: "governance_decision \<Rightarrow> governance_configuration \<Rightarrow> bool" where
  "decision_recorded d g \<longleftrightarrow> decision_of g (gdec_id d) = Some d"

definition application_committed :: "governed_application \<Rightarrow> governance_configuration \<Rightarrow> bool" where
  "application_committed a g = (case receipt_of g (gapp_id a) of None \<Rightarrow> False | Some r \<Rightarrow> rcpt_application r = a)"

definition relevant_basis_unchanged :: "governance_decision \<Rightarrow> freshness_lookup \<Rightarrow> bool" where
  "relevant_basis_unchanged d fresh \<longleftrightarrow> list_all (\<lambda>(basis, anchor). fresh basis = Some anchor) (gdec_basis_anchors d)"

definition no_invalidating_review :: "governance_decision \<Rightarrow> governance_configuration \<Rightarrow> bool" where
  "no_invalidating_review d g \<longleftrightarrow>
     \<not> list_ex (\<lambda>(_, ob). gdec_id d |\<in>| rob_invalidates_decisions ob) (grt_obligations (gcfg_runtime g))"

definition common_decision_freshness :: "governance_decision \<Rightarrow> governance_configuration \<Rightarrow> freshness_lookup \<Rightarrow> bool" where
  "common_decision_freshness d g fresh \<longleftrightarrow> decision_recorded d g \<and> \<not> gdec_superseded d
     \<and> relevant_basis_unchanged d fresh \<and> no_invalidating_review d g"

text \<open>The scope and the partition a decision was made for are the current ones.\<close>

definition snapshot_current :: "governance_decision \<Rightarrow> distinction_state \<Rightarrow> bool" where
  "snapshot_current d s \<longleftrightarrow> dst_scope s = gdec_scope_snapshot d
     \<and> canonical_partition (dst_partition s) = canonical_partition (gdec_partition_snapshot d)"

definition decision_fresh_for_application ::
    "governance_decision \<Rightarrow> governance_configuration \<Rightarrow> freshness_lookup \<Rightarrow> bool" where
  "decision_fresh_for_application d g fresh = (case state_of g (gdec_target d) of
     None \<Rightarrow> False
   | Some s \<Rightarrow> common_decision_freshness d g fresh \<and> state_anchor s = gdec_expected_state_anchor d \<and> snapshot_current d s)"

definition review_decision_input_matches :: "governance_decision \<Rightarrow> governance_configuration \<Rightarrow> bool" where
  "review_decision_input_matches d g =
     (if gdec_review_refs d = [] then False
      else list_all (\<lambda>i. case obligation_of g i of
            None \<Rightarrow> False
          | Some ob \<Rightarrow> rob_target ob = gdec_target d \<and> rob_context ob = gdec_context d
              \<and> set (rob_basis_refs ob) \<subseteq> set (map fst (gdec_basis_anchors d))) (gdec_review_refs d))"

definition decision_record_admissible :: "governance_configuration \<Rightarrow> governance_decision \<Rightarrow> authority_check \<Rightarrow> bool" where
  "decision_record_admissible g d auth = (case decision_of g (gdec_id d) of
     Some existing \<Rightarrow> existing = d
   | None \<Rightarrow> state_of g (gdec_target d) \<noteq> None \<and> auth (decision_authority_request d)
       \<and> review_decision_input_matches d g)"

definition put_decision :: "governance_decision \<Rightarrow> governance_configuration \<Rightarrow> governance_configuration" where
  "put_decision d g = g\<lparr>gcfg_runtime := (gcfg_runtime g)\<lparr>grt_decisions :=
     dict_set (gdec_id d) d (grt_decisions (gcfg_runtime g))\<rparr>\<rparr>"

definition governance_record_decision ::
    "governance_configuration \<Rightarrow> governance_decision \<Rightarrow> authority_check \<Rightarrow> governance_configuration option" where
  "governance_record_decision g d auth =
     (if \<not> decision_record_admissible g d auth then None
      else if decision_of g (gdec_id d) \<noteq> None then Some g
      else Some (put_decision d g))"

section \<open>Applications\<close>

definition precondition :: "governed_application \<Rightarrow> governance_configuration \<Rightarrow> bool" where
  "precondition a g =
     (if gapp_id a = [] \<or> gapp_operation a = [] \<or> gapp_target a = [] \<or> gapp_scheme_id a = [] then False
      else if receipt_of g (gapp_id a) \<noteq> None \<or> state_of g (gapp_scheme_id a) = None then False
      else gapp_operation a \<noteq> ''apply_review_discharge''
         \<or> gapp_review_obligation_id a \<noteq> None \<and> gapp_review_obligation_id a \<noteq> Some [])"

definition candidate_state_effect :: "governed_application \<Rightarrow> distinction_state \<Rightarrow> distinction_state" where
  "candidate_state_effect a s = s\<lparr>
     dst_qualification := (case gapp_new_qualification a of Some q \<Rightarrow> q | None \<Rightarrow> dst_qualification s),
     dst_activation := (case gapp_new_activation a of Some x \<Rightarrow> x | None \<Rightarrow> dst_activation s),
     dst_version := dst_version s + 1\<rparr>"

definition candidate_discharge_effect :: "string \<Rightarrow> governance_runtime \<Rightarrow> (string \<times> review_obligation) list" where
  "candidate_discharge_effect i rt = dict_del i (grt_obligations rt)"

definition linked :: "governed_application \<Rightarrow> governance_decision \<Rightarrow> bool" where
  "linked a d =
     (if gapp_decision_ref a \<noteq> gdec_id d \<or> gapp_scheme_id a \<noteq> gdec_target d then False
      else if gapp_operation a = ''apply_review_discharge'' then gdec_disposition d \<in> {''no_change'', ''transition_required''}
      else map_of [(''decide_qualification'', ''apply_qualification_transition''),
             (''decide_activation'', ''apply_activation_transition'')] (gdec_operation d) = Some (gapp_operation a))"

definition effect_matches_decision :: "governance_decision \<Rightarrow> distinction_state \<Rightarrow> bool" where
  "effect_matches_decision d s \<longleftrightarrow>
     (gdec_required_qualification d = None \<or> gdec_required_qualification d = Some (dst_qualification s))
   \<and> (gdec_required_activation d = None \<or> gdec_required_activation d = Some (dst_activation s))"

definition closure_admissible ::
    "governance_decision \<Rightarrow> review_obligation \<Rightarrow> governance_configuration \<Rightarrow> freshness_lookup \<Rightarrow> bool" where
  "closure_admissible d ob g fresh =
     (if \<not> decision_recorded d g then False
      else if obligation_of g (rob_id ob) \<noteq> Some ob \<or> rob_id ob \<notin> set (gdec_review_refs d) then False
      else if gdec_target d \<noteq> rob_target ob \<or> gdec_context d \<noteq> rob_context ob then False
      else if gdec_disposition d \<notin> {''no_change'', ''transition_required''} then False
      else (case state_of g (gdec_target d) of
          None \<Rightarrow> False
        | Some s \<Rightarrow> snapshot_current d s \<and> relevant_basis_unchanged d fresh
            \<and> rob_closure_requirements ob |\<subseteq>| gdec_closure_facts d))"

definition application_admissible ::
    "governance_configuration \<Rightarrow> governed_application \<Rightarrow> authority_check \<Rightarrow> freshness_lookup \<Rightarrow> bool" where
  "application_admissible g a auth fresh =
     (if gapp_operation a \<notin> {''apply_qualification_transition'', ''apply_activation_transition''}
         \<or> gapp_target a \<noteq> gapp_scheme_id a then False
      else (case decision_of g (gapp_decision_ref a) of
          None \<Rightarrow> False
        | Some d \<Rightarrow>
            if \<not> auth (application_authority_request a d) then False
            else if \<not> linked a d \<or> \<not> decision_fresh_for_application d g fresh then False
            else if \<not> precondition a g then False
            else (case state_of g (gapp_scheme_id a) of
                None \<Rightarrow> False
              | Some s \<Rightarrow> (let candidate = candidate_state_effect a s in
                  state_admissible_for (gapp_scheme_id a) candidate
                  \<and> gdec_disposition d = ''transition_required'' \<and> effect_matches_decision d candidate))))"

definition put_receipt :: "application_receipt \<Rightarrow> governance_runtime \<Rightarrow> governance_runtime" where
  "put_receipt r rt = rt\<lparr>grt_applications := dict_set (gapp_id (rcpt_application r)) r (grt_applications rt)\<rparr>"

definition state_receipt :: "governed_application \<Rightarrow> distinction_state \<Rightarrow> application_receipt" where
  "state_receipt a s = \<lparr>rcpt_application = a, rcpt_effect_kind = ''state'', rcpt_pre_anchor = state_anchor s,
     rcpt_post_anchor = state_anchor (candidate_state_effect a s)\<rparr>"

definition apply_state_transition ::
    "governance_configuration \<Rightarrow> governed_application \<Rightarrow> authority_check \<Rightarrow> freshness_lookup
      \<Rightarrow> governance_configuration option" where
  "apply_state_transition g a auth fresh =
     (if \<not> application_admissible g a auth fresh then None
      else (let s = the (state_of g (gapp_scheme_id a)) in
        Some (g\<lparr>gcfg_states := dict_set (gapp_scheme_id a) (candidate_state_effect a s) (gcfg_states g),
                gcfg_runtime := put_receipt (state_receipt a s) (gcfg_runtime g)\<rparr>)))"

definition required_transition_realized ::
    "governance_decision \<Rightarrow> governed_application \<Rightarrow> governance_configuration \<Rightarrow> bool" where
  "required_transition_realized d a g = (case (state_of g (gdec_target d), receipt_of g (gapp_id a)) of
     (Some s, Some r) \<Rightarrow> gdec_disposition d = ''transition_required'' \<and> rcpt_application r = a
       \<and> gapp_decision_ref a = gdec_id d \<and> linked a d \<and> rcpt_effect_kind r = ''state''
       \<and> rcpt_pre_anchor r = gdec_expected_state_anchor d \<and> rcpt_post_anchor r = state_anchor s
       \<and> effect_matches_decision d s \<and> state_admissible_for (gdec_target d) s
   | _ \<Rightarrow> False)"

definition decision_fresh_for_discharge ::
    "governance_decision \<Rightarrow> governance_configuration \<Rightarrow> freshness_lookup \<Rightarrow> governed_application option \<Rightarrow> bool" where
  "decision_fresh_for_discharge d g fresh sa = (case state_of g (gdec_target d) of
     None \<Rightarrow> False
   | Some s \<Rightarrow>
       if \<not> common_decision_freshness d g fresh then False
       else if gdec_disposition d = ''no_change''
         then state_anchor s = gdec_expected_state_anchor d \<and> snapshot_current d s
       else (case sa of None \<Rightarrow> False
         | Some a \<Rightarrow> gdec_disposition d = ''transition_required'' \<and> required_transition_realized d a g))"

definition discharge_admissible ::
    "governance_configuration \<Rightarrow> governed_application \<Rightarrow> authority_check \<Rightarrow> freshness_lookup
      \<Rightarrow> governed_application option \<Rightarrow> bool" where
  "discharge_admissible g a auth fresh sa =
     (if gapp_operation a \<noteq> ''apply_review_discharge'' then False
      else (case (decision_of g (gapp_decision_ref a), gapp_review_obligation_id a) of
          (Some d, Some oid) \<Rightarrow>
            (case obligation_of g oid of
               None \<Rightarrow> False
             | Some ob \<Rightarrow>
                 if gapp_target a \<noteq> ''review_obligation:'' @ rob_id ob then False
                 else (case state_of g (gdec_target d) of
                     None \<Rightarrow> False
                   | Some s \<Rightarrow>
                       if \<not> auth (review_discharge_authority_request a ob s) then False
                       else if \<not> precondition a g \<or> \<not> linked a d then False
                       else if \<not> closure_admissible d ob g fresh then False
                       else if \<not> decision_fresh_for_discharge d g fresh sa then False
                       else if gdec_disposition d = ''no_change'' then sa = None
                       else gdec_disposition d = ''transition_required'' \<and> sa \<noteq> None))
        | _ \<Rightarrow> False))"

definition discharge_receipt :: "governed_application \<Rightarrow> governance_runtime \<Rightarrow> string \<Rightarrow> application_receipt" where
  "discharge_receipt a rt oid = \<lparr>rcpt_application = a, rcpt_effect_kind = ''review_discharge'',
     rcpt_pre_anchor = obligations_anchor (grt_obligations rt),
     rcpt_post_anchor = obligations_anchor (candidate_discharge_effect oid rt)\<rparr>"

definition apply_review_discharge ::
    "governance_configuration \<Rightarrow> governed_application \<Rightarrow> authority_check \<Rightarrow> freshness_lookup
      \<Rightarrow> governed_application option \<Rightarrow> governance_configuration option" where
  "apply_review_discharge g a auth fresh sa =
     (if \<not> discharge_admissible g a auth fresh sa then None
      else (case gapp_review_obligation_id a of
          None \<Rightarrow> None
        | Some oid \<Rightarrow> (let rt = gcfg_runtime g in
            Some (g\<lparr>gcfg_runtime := put_receipt (discharge_receipt a rt oid)
               (rt\<lparr>grt_obligations := candidate_discharge_effect oid rt\<rparr>)\<rparr>))))"

definition transition_admissible ::
    "governance_configuration \<Rightarrow> governed_application \<Rightarrow> authority_check \<Rightarrow> freshness_lookup
      \<Rightarrow> governed_application option \<Rightarrow> bool" where
  "transition_admissible g a auth fresh sa =
     (if gapp_operation a = ''apply_review_discharge'' then discharge_admissible g a auth fresh sa
      else application_admissible g a auth fresh)"

definition resolve_allowed ::
    "governance_configuration \<Rightarrow> authority_check \<Rightarrow> string \<Rightarrow> string \<Rightarrow> string \<Rightarrow> string fset \<Rightarrow> string \<Rightarrow> use_context \<Rightarrow> bool" where
  "resolve_allowed g auth actor scheme_id item cell mode use = (case state_of g scheme_id of
     None \<Rightarrow> False
   | Some s \<Rightarrow> usable g scheme_id use \<and> item |\<in>| dst_scope s \<and> cell \<in> set (dst_partition s) \<and> item |\<in>| cell
       \<and> auth (assignment_authority_request actor ''resolve_assignment'' scheme_id item mode (uctx_name use) s))"

end
