(* ===== verification/Governance_History.thy ===== *)
theory Governance_History
  imports Distinction_Governance Reality_Boundary
begin

text \<open>
  The durable history of governance: the canonical events of distinctions, reviews, decisions and
  applications with their reconstruction (\<open>governance/canonical.py\<close>), the materialized projection that
  is kept beside the event journal (\<open>governance/persistence.py\<close>, in memory), and the epochs of a history
  (\<open>governance/history_epoch.py\<close>).

  The payload of an event is a JSON document, and what is read back from it goes through \<open>str\<close>, \<open>int\<close>
  and \<open>bool\<close> as in the code; the \<open>str\<close> of a dictionary shows its keys in sorted order.  The creation
  times of the projection's envelopes, which only order the rows of a database, are not represented.
\<close>

section \<open>Reading JSON\<close>

text \<open>\<open>payload[k]\<close>, and the items of \<open>payload.get(k, [])\<close>.\<close>

definition jreq :: "(string, json) fmap \<Rightarrow> string \<Rightarrow> json result" where
  "jreq m k = (case fmlookup m k of None \<Rightarrow> Inl (KeyError (py_repr k)) | Some v \<Rightarrow> Inr v)"

definition jreq_text :: "(string, json) fmap \<Rightarrow> string \<Rightarrow> string result" where
  "jreq_text m k = bindR (jreq m k) (\<lambda>v. Inr (json_text v))"

fun json_iter :: "json \<Rightarrow> json list result" where
  "json_iter (JList xs) = Inr xs"
| "json_iter (JStr s) = Inr (map (\<lambda>c. JStr [c]) s)"
| "json_iter (JObj m) = Inr (map JStr (sorted_list_of_fset (fmdom m)))"
| "json_iter _ = Inl (TypeError ''object is not iterable'')"

definition jitems :: "(string, json) fmap \<Rightarrow> string \<Rightarrow> json list result" where
  "jitems m k = json_iter (fm_get m k (JList []))"

definition jstrings :: "(string, json) fmap \<Rightarrow> string \<Rightarrow> string list result" where
  "jstrings m k = bindR (jitems m k) (\<lambda>xs. Inr (map json_text xs))"

definition jstring_set :: "(string, json) fmap \<Rightarrow> string \<Rightarrow> string fset result" where
  "jstring_set m k = bindR (jstrings m k) (\<lambda>xs. Inr (fset_of_list xs))"

definition jcells :: "(string, json) fmap \<Rightarrow> string \<Rightarrow> string fset list result" where
  "jcells m k = bindR (jitems m k) (traverse (\<lambda>cell. bindR (json_iter cell) (\<lambda>xs. Inr (fset_of_list (map json_text xs)))))"

definition joptional :: "(string, json) fmap \<Rightarrow> string \<Rightarrow> string option" where
  "joptional m k = (case jget m k of JNull \<Rightarrow> None | v \<Rightarrow> Some (json_text v))"

fun json_int :: "json \<Rightarrow> int result" where
  "json_int (JInt i) = Inr i"
| "json_int (JBool b) = Inr (if b then 1 else 0)"
| "json_int (JStr s) = (case parse_int s of Some i \<Rightarrow> Inr i
     | None \<Rightarrow> Inl (ValueError (''invalid literal for int() with base 10: '' @ py_repr s)))"
| "json_int _ = Inl (TypeError ''int() argument must be a string or a real number'')"

text \<open>\<open>item[0]\<close> and \<open>item[1]\<close> of a basis anchor.\<close>

fun json_pair :: "json \<Rightarrow> (string \<times> string) result" where
  "json_pair (JList (x # y # _)) = Inr (json_text x, json_text y)"
| "json_pair (JStr (c # d # _)) = Inr ([c], [d])"
| "json_pair (JList _) = Inl (ForeignError ''list index out of range'')"
| "json_pair (JStr _) = Inl (ForeignError ''string index out of range'')"
| "json_pair (JObj _) = Inl (KeyError ''0'')"
| "json_pair _ = Inl (TypeError ''object is not subscriptable'')"

definition jset :: "string fset \<Rightarrow> json" where
  "jset s = JList (map JStr (sorted_list_of_fset s))"

definition jcell_list :: "string fset list \<Rightarrow> json" where
  "jcell_list p = JList (map jset p)"

section \<open>Payloads\<close>

definition blocking_payload :: "blocking_condition option \<Rightarrow> json" where
  "blocking_payload c = (case c of None \<Rightarrow> JNull | Some c \<Rightarrow> JObj (fmap_of_list
     [(''context_names'', jset (bcond_context_names c)), (''scope_any'', jset (bcond_scope_any c)),
      (''scope_all'', jset (bcond_scope_all c))]))"

definition restore_blocking :: "json \<Rightarrow> blocking_condition option result" where
  "restore_blocking v = (case v of
     JObj m \<Rightarrow> bindR (jstring_set m ''context_names'') (\<lambda>names. bindR (jstring_set m ''scope_any'') (\<lambda>any.
       bindR (jstring_set m ''scope_all'') (\<lambda>all.
       Inr (Some \<lparr>bcond_context_names = names, bcond_scope_any = any, bcond_scope_all = all\<rparr>))))
   | _ \<Rightarrow> Inr None)"

definition state_payload :: "string \<Rightarrow> distinction_state \<Rightarrow> json" where
  "state_payload i s = JObj (fmap_of_list
     [(''scheme_id'', JStr i), (''qualification'', JStr (dst_qualification s)), (''activation'', JStr (dst_activation s)),
      (''scope'', jset (dst_scope s)), (''partition'', jcell_list (dst_partition s)), (''version'', JInt (dst_version s))])"

definition restore_state :: "(string, json) fmap \<Rightarrow> (string \<times> distinction_state) result" where
  "restore_state m =
    bindR (jreq_text m ''scheme_id'') (\<lambda>i. bindR (jreq_text m ''qualification'') (\<lambda>q.
    bindR (jreq_text m ''activation'') (\<lambda>a. bindR (jstring_set m ''scope'') (\<lambda>sc.
    bindR (jcells m ''partition'') (\<lambda>p. bindR (json_int (fm_get m ''version'' (JInt 0))) (\<lambda>v.
    let s = \<lparr>dst_qualification = q, dst_activation = a, dst_scope = sc, dst_partition = p, dst_version = v\<rparr> in
    if \<not> state_admissible_for i s then Inl (ValueError ''canonical governance history contains inadmissible state'')
    else Inr (i, s)))))))"

definition obligation_payload :: "review_obligation \<Rightarrow> json" where
  "obligation_payload ob = JObj (fmap_of_list
     [(''id'', JStr (rob_id ob)), (''target'', JStr (rob_target ob)), (''trigger_ref'', JStr (rob_trigger_ref ob)),
      (''basis_refs'', JList (map JStr (rob_basis_refs ob))), (''context'', JStr (rob_context ob)),
      (''blocking'', JBool (rob_blocking ob)), (''blocking_condition'', blocking_payload (rob_blocking_condition ob)),
      (''closure_requirements'', jset (rob_closure_requirements ob)),
      (''invalidates_decisions'', jset (rob_invalidates_decisions ob))])"

definition restore_obligation :: "(string, json) fmap \<Rightarrow> review_obligation result" where
  "restore_obligation m =
    bindR (jreq_text m ''id'') (\<lambda>i. bindR (jreq_text m ''target'') (\<lambda>t.
    bindR (jreq_text m ''trigger_ref'') (\<lambda>tr. bindR (jstrings m ''basis_refs'') (\<lambda>bs.
    bindR (jreq_text m ''context'') (\<lambda>c. bindR (restore_blocking (jget m ''blocking_condition'')) (\<lambda>bc.
    bindR (jstring_set m ''closure_requirements'') (\<lambda>cr. bindR (jstring_set m ''invalidates_decisions'') (\<lambda>inv.
    Inr \<lparr>rob_id = i, rob_target = t, rob_trigger_ref = tr, rob_basis_refs = bs, rob_context = c,
      rob_blocking = json_truthy (fm_get m ''blocking'' (JBool True)), rob_blocking_condition = bc,
      rob_closure_requirements = cr, rob_invalidates_decisions = inv\<rparr>))))))))"

definition decision_payload :: "governance_decision \<Rightarrow> json" where
  "decision_payload d = JObj (fmap_of_list
     [(''id'', JStr (gdec_id d)), (''actor'', JStr (gdec_actor d)), (''operation'', JStr (gdec_operation d)),
      (''target'', JStr (gdec_target d)), (''context'', JStr (gdec_context d)),
      (''review_refs'', JList (map JStr (gdec_review_refs d))), (''disposition'', JStr (gdec_disposition d)),
      (''expected_state_anchor'', JStr (gdec_expected_state_anchor d)),
      (''basis_anchors'', JList (map (\<lambda>(k, a). JList [JStr k, JStr a]) (gdec_basis_anchors d))),
      (''scope_snapshot'', jset (gdec_scope_snapshot d)), (''partition_snapshot'', jcell_list (gdec_partition_snapshot d)),
      (''closure_facts'', jset (gdec_closure_facts d)),
      (''required_qualification'', str_opt_json (gdec_required_qualification d)),
      (''required_activation'', str_opt_json (gdec_required_activation d)), (''superseded'', JBool (gdec_superseded d))])"

definition restore_decision :: "(string, json) fmap \<Rightarrow> governance_decision result" where
  "restore_decision m =
    bindR (jreq_text m ''id'') (\<lambda>i. bindR (jreq_text m ''actor'') (\<lambda>a.
    bindR (jreq_text m ''operation'') (\<lambda>op. bindR (jreq_text m ''target'') (\<lambda>t.
    bindR (jreq_text m ''context'') (\<lambda>c. bindR (jstrings m ''review_refs'') (\<lambda>rs.
    bindR (jreq_text m ''disposition'') (\<lambda>dp. bindR (jreq_text m ''expected_state_anchor'') (\<lambda>an.
    bindR (bindR (jitems m ''basis_anchors'') (traverse json_pair)) (\<lambda>bs.
    bindR (jstring_set m ''scope_snapshot'') (\<lambda>sc. bindR (jcells m ''partition_snapshot'') (\<lambda>p.
    bindR (jstring_set m ''closure_facts'') (\<lambda>fs.
    Inr \<lparr>gdec_id = i, gdec_actor = a, gdec_operation = op, gdec_target = t, gdec_context = c, gdec_review_refs = rs,
      gdec_disposition = dp, gdec_expected_state_anchor = an, gdec_basis_anchors = bs, gdec_scope_snapshot = sc,
      gdec_partition_snapshot = p, gdec_closure_facts = fs,
      gdec_required_qualification = joptional m ''required_qualification'',
      gdec_required_activation = joptional m ''required_activation'',
      gdec_superseded = json_truthy (fm_get m ''superseded'' (JBool False))\<rparr>))))))))))))"

definition application_payload :: "application_receipt \<Rightarrow> json" where
  "application_payload r = (let a = rcpt_application r in JObj (fmap_of_list
     [(''application'', JObj (fmap_of_list
        [(''id'', JStr (gapp_id a)), (''actor'', JStr (gapp_actor a)), (''operation'', JStr (gapp_operation a)),
         (''scheme_id'', JStr (gapp_scheme_id a)), (''target'', JStr (gapp_target a)),
         (''decision_ref'', JStr (gapp_decision_ref a)), (''context'', JStr (gapp_context a)),
         (''new_qualification'', str_opt_json (gapp_new_qualification a)),
         (''new_activation'', str_opt_json (gapp_new_activation a)),
         (''review_obligation_id'', str_opt_json (gapp_review_obligation_id a))])),
      (''effect_kind'', JStr (rcpt_effect_kind r)), (''pre_anchor'', JStr (rcpt_pre_anchor r)),
      (''post_anchor'', JStr (rcpt_post_anchor r))]))"

definition restore_application :: "(string, json) fmap \<Rightarrow> application_receipt result" where
  "restore_application m = (case jget m ''application'' of
     JObj raw \<Rightarrow>
      bindR (jreq_text raw ''id'') (\<lambda>i. bindR (jreq_text raw ''actor'') (\<lambda>a.
      bindR (jreq_text raw ''operation'') (\<lambda>op. bindR (jreq_text raw ''scheme_id'') (\<lambda>sid.
      bindR (jreq_text raw ''target'') (\<lambda>t. bindR (jreq_text raw ''decision_ref'') (\<lambda>d.
      bindR (jreq_text raw ''context'') (\<lambda>c.
      bindR (jreq_text m ''effect_kind'') (\<lambda>kind. bindR (jreq_text m ''pre_anchor'') (\<lambda>pre.
      bindR (jreq_text m ''post_anchor'') (\<lambda>post.
      Inr \<lparr>rcpt_application = \<lparr>gapp_id = i, gapp_actor = a, gapp_operation = op, gapp_scheme_id = sid, gapp_target = t,
          gapp_decision_ref = d, gapp_context = c, gapp_new_qualification = joptional raw ''new_qualification'',
          gapp_new_activation = joptional raw ''new_activation'',
          gapp_review_obligation_id = joptional raw ''review_obligation_id''\<rparr>,
        rcpt_effect_kind = kind, rcpt_pre_anchor = pre, rcpt_post_anchor = post\<rparr>))))))))))
   | _ \<Rightarrow> Inl (ValueError ''canonical governance application payload is malformed''))"

section \<open>Events\<close>

definition state_seeded :: string where "state_seeded = ''governance.distinction.state.seeded''"
definition review_opened :: string where "review_opened = ''governance.distinction.review.opened''"
definition decision_recorded_type :: string where "decision_recorded_type = ''governance.distinction.decision.recorded''"
definition application_committed_type :: string where "application_committed_type = ''governance.distinction.application.committed''"
definition event_processed :: string where "event_processed = ''governance.distinction.event.processed''"

lemmas history_types = state_seeded_def review_opened_def decision_recorded_type_def application_committed_type_def event_processed_def

definition governance_history_event_types :: "string list" where
  "governance_history_event_types =
     [state_seeded, review_opened, decision_recorded_type, application_committed_type, event_processed]"

definition governance_event_id :: "env \<Rightarrow> string \<Rightarrow> string \<Rightarrow> string" where
  "governance_event_id E pre identity = ''gov_'' @ pre @ ''_'' @ take 24 (env_sha256_hex E identity)"

definition history_payload :: "(string \<times> json) list \<Rightarrow> payload" where
  "history_payload values = Memory_Store.PDict (fmap_of_list
     ([(''schema_version'', JStr ''distinction-governance-history-v1''),
       (''contract_version'', JStr ''distinction-governance-1.0'')] @ values))"

text \<open>The events, with the time they are created at.\<close>

definition state_seed_event :: "env \<Rightarrow> string \<Rightarrow> distinction_state \<Rightarrow> time \<Rightarrow> event" where
  "state_seed_event E i s t = make_event (governance_event_id E ''state'' i) t state_seeded i
     (history_payload [(''state'', state_payload i s)])"

definition review_opened_event :: "env \<Rightarrow> review_obligation \<Rightarrow> time \<Rightarrow> event" where
  "review_opened_event E ob t = make_event (governance_event_id E ''review'' (rob_id ob)) t review_opened (rob_target ob)
     (history_payload [(''obligation'', obligation_payload ob)])"

definition decision_recorded_event :: "env \<Rightarrow> governance_decision \<Rightarrow> time \<Rightarrow> event" where
  "decision_recorded_event E d t = make_event (governance_event_id E ''decision'' (gdec_id d)) t decision_recorded_type
     (gdec_target d) (history_payload [(''decision'', decision_payload d)])"

definition application_committed_event :: "env \<Rightarrow> application_receipt \<Rightarrow> distinction_state option \<Rightarrow> time \<Rightarrow> event" where
  "application_committed_event E r next_state t = (let a = rcpt_application r in
     make_event (governance_event_id E ''application'' (gapp_id a)) t application_committed_type (gapp_scheme_id a)
       (history_payload ([(''receipt'', application_payload r)]
          @ (case next_state of None \<Rightarrow> [] | Some s \<Rightarrow> [(''next_state'', state_payload (gapp_scheme_id a) s)]))))"

definition processed_event :: "env \<Rightarrow> string \<Rightarrow> string list \<Rightarrow> time \<Rightarrow> event" where
  "processed_event E ref ids t = make_event (governance_event_id E ''processed'' ref) t event_processed ref
     (history_payload [(''event_instance_key'', JStr ref), (''obligation_ids'', JList (map JStr ids))])"

text \<open>Any document that is not a plain dictionary has neither of the two version keys.\<close>

definition event_dict :: "event \<Rightarrow> (string, json) fmap" where
  "event_dict e = (case ev_payload e of Memory_Store.PDict m \<Rightarrow> m | _ \<Rightarrow> fmempty)"

definition is_history_event :: "event \<Rightarrow> bool" where
  "is_history_event e \<longleftrightarrow> ev_type e \<in> set governance_history_event_types"

definition json_repr :: "json \<Rightarrow> string" where
  "json_repr v = pv_repr (of_json v)"

definition validate_governance_history_event :: "event \<Rightarrow> unit result" where
  "validate_governance_history_event e =
    (if \<not> is_history_event e then Inr ()
     else (let schema = jget (event_dict e) ''schema_version''; contract = jget (event_dict e) ''contract_version'' in
       if schema \<noteq> JStr ''distinction-governance-history-v1''
         then Inl (ValueError (''unsupported governance history schema '' @ json_repr schema
           @ ''; expected '' @ py_repr ''distinction-governance-history-v1''))
       else if contract \<noteq> JStr ''distinction-governance-1.0''
         then Inl (ValueError (''unsupported governance contract version '' @ json_repr contract
           @ ''; expected '' @ py_repr ''distinction-governance-1.0''))
       else Inr ()))"

section \<open>Reconstruction\<close>

record history =
  hi_states :: "(string \<times> distinction_state) list"
  hi_obligations :: "(string \<times> review_obligation) list"
  hi_decisions :: "(string \<times> governance_decision) list"
  hi_applications :: "(string \<times> application_receipt) list"
  hi_discharged :: "string list"
  hi_processed :: "(string \<times> string list) list"

definition empty_history :: history where
  "empty_history = \<lparr>hi_states = [], hi_obligations = [], hi_decisions = [], hi_applications = [],
     hi_discharged = [], hi_processed = []\<rparr>"

definition later_state :: "(string \<times> distinction_state) \<Rightarrow> history \<Rightarrow> history" where
  "later_state p h = (case p of (i, s) \<Rightarrow>
     (case map_of (hi_states h) i of
        Some current \<Rightarrow> if dst_version current < dst_version s then h\<lparr>hi_states := dict_set i s (hi_states h)\<rparr> else h
      | None \<Rightarrow> h\<lparr>hi_states := dict_set i s (hi_states h)\<rparr>))"

definition bind_once :: "string \<Rightarrow> 'v \<Rightarrow> (string \<times> 'v) list \<Rightarrow> string \<Rightarrow> (string \<times> 'v) list result" where
  "bind_once k v d message =
    (if map_of d k \<noteq> None \<and> map_of d k \<noteq> Some v then Inl (ValueError message) else Inr (dict_set k v d))"

definition replay_review :: "review_obligation \<Rightarrow> history \<Rightarrow> history result" where
  "replay_review ob h =
    bindR (bind_once (rob_id ob) ob (hi_obligations h) ''canonical history rebinds review obligation identity'')
      (\<lambda>d. Inr (h\<lparr>hi_obligations := d\<rparr>))"

definition replay_decision :: "governance_decision \<Rightarrow> history \<Rightarrow> history result" where
  "replay_decision d h =
    bindR (bind_once (gdec_id d) d (hi_decisions h) ''canonical history rebinds governance decision identity'')
      (\<lambda>ds. Inr (h\<lparr>hi_decisions := ds\<rparr>))"

definition replay_receipt :: "application_receipt \<Rightarrow> history \<Rightarrow> history result" where
  "replay_receipt r h =
    bindR (bind_once (gapp_id (rcpt_application r)) r (hi_applications h)
        ''canonical history rebinds governed application identity'')
      (\<lambda>as. Inr (h\<lparr>hi_applications := as,
         hi_discharged := (if rcpt_effect_kind r = ''review_discharge''
             \<and> nonempty_opt (gapp_review_obligation_id (rcpt_application r))
           then the (gapp_review_obligation_id (rcpt_application r)) # hi_discharged h else hi_discharged h)\<rparr>))"

definition replay_processed :: "string \<Rightarrow> string list \<Rightarrow> history \<Rightarrow> history result" where
  "replay_processed k ids h =
    bindR (bind_once k ids (hi_processed h) ''canonical history rebinds processed event identity'')
      (\<lambda>d. Inr (h\<lparr>hi_processed := d\<rparr>))"

text \<open>The body of the loop, for a governance event.\<close>

definition replay_event :: "event \<Rightarrow> history \<Rightarrow> history result" where
  "replay_event e h = bindR (validate_governance_history_event e) (\<lambda>_. (let m = event_dict e in
     if ev_type e = state_seeded then
       (case jget m ''state'' of JObj raw \<Rightarrow> bindR (restore_state raw) (\<lambda>p. Inr (later_state p h)) | _ \<Rightarrow> Inr h)
     else if ev_type e = review_opened then
       (case jget m ''obligation'' of JObj raw \<Rightarrow> bindR (restore_obligation raw) (\<lambda>ob. replay_review ob h) | _ \<Rightarrow> Inr h)
     else if ev_type e = decision_recorded_type then
       (case jget m ''decision'' of JObj raw \<Rightarrow> bindR (restore_decision raw) (\<lambda>d. replay_decision d h) | _ \<Rightarrow> Inr h)
     else if ev_type e = application_committed_type then
       (case jget m ''receipt'' of
          JObj raw \<Rightarrow> bindR (restore_application raw) (\<lambda>r. bindR (replay_receipt r h) (\<lambda>h.
            case jget m ''next_state'' of
              JObj s \<Rightarrow> bindR (restore_state s) (\<lambda>p. Inr (later_state p h))
            | _ \<Rightarrow> Inr h))
        | _ \<Rightarrow> Inr h)
     else
       (let key = jor (jget m ''event_instance_key'') (JStr (ev_subject_ref e)) in
        bindR (jstrings m ''obligation_ids'') (\<lambda>ids. replay_processed (json_text key) ids h))))"

fun replay_events :: "event list \<Rightarrow> history \<Rightarrow> history result" where
  "replay_events [] h = Inr h"
| "replay_events (e # es) h =
    (if \<not> is_history_event e then replay_events es h else bindR (replay_event e h) (replay_events es))"

definition history_configuration :: "history \<Rightarrow> governance_configuration" where
  "history_configuration h = \<lparr>gcfg_states = hi_states h,
     gcfg_runtime = \<lparr>grt_obligations = filter (\<lambda>(i, _). i \<notin> set (hi_discharged h)) (hi_obligations h),
       grt_decisions = hi_decisions h, grt_applications = hi_applications h\<rparr>\<rparr>"

definition reconstruct_governance_history ::
    "event list \<Rightarrow> (governance_configuration \<times> (string \<times> string list) list) result" where
  "reconstruct_governance_history es = bindR (replay_events es empty_history) (\<lambda>h.
     if \<not> global_state_admissible (history_configuration h)
       then Inl (ValueError ''canonical governance history reconstructs inadmissible state'')
     else Inr (history_configuration h, hi_processed h))"

section \<open>The materialized projection\<close>

record gworld =
  gw_world :: world
  gw_config :: governance_configuration

abbreviation gw_store :: "gworld \<Rightarrow> store" where
  "gw_store w \<equiv> wd_store (gw_world w)"

definition on_gworld :: "(world, 'a) io \<Rightarrow> (gworld, 'a) io" where
  "on_gworld m w = (case m (gw_world w) of (r, v) \<Rightarrow> (r, w\<lparr>gw_world := v\<rparr>))"

text \<open>\<open>_transaction\<close>: an exception restores the projection and the store.\<close>

definition gov_transaction :: "(gworld, 'a) io \<Rightarrow> (gworld, 'a) io" where
  "gov_transaction m w = (case m w of
     (Inl e, v) \<Rightarrow> (Inl e, v\<lparr>gw_world := (gw_world v)\<lparr>wd_store := rollback (gw_store w) (gw_store v)\<rparr>,
        gw_config := gw_config w\<rparr>)
   | (Inr x, v) \<Rightarrow> (Inr x, v))"

definition append_history_event :: "env \<Rightarrow> (time \<Rightarrow> event) \<Rightarrow> (gworld, unit) io" where
  "append_history_event E ev = on_gworld (bindI (utcnow E) (\<lambda>t. on_store (append_event (ev t))))"

definition history_events :: "store \<Rightarrow> event list" where
  "history_events s = filter is_history_event (list_events s None)"

definition update_config :: "(governance_configuration \<Rightarrow> governance_configuration) \<Rightarrow> (gworld, unit) io" where
  "update_config f w = (Inr (), w\<lparr>gw_config := f (gw_config w)\<rparr>)"

definition put_state :: "string \<Rightarrow> distinction_state \<Rightarrow> governance_configuration \<Rightarrow> governance_configuration" where
  "put_state i s g = g\<lparr>gcfg_states := dict_set i s (gcfg_states g)\<rparr>"

definition put_obligation :: "review_obligation \<Rightarrow> governance_configuration \<Rightarrow> governance_configuration" where
  "put_obligation ob g = g\<lparr>gcfg_runtime := (gcfg_runtime g)\<lparr>grt_obligations :=
     dict_set (rob_id ob) ob (grt_obligations (gcfg_runtime g))\<rparr>\<rparr>"

definition delete_obligation :: "string \<Rightarrow> governance_configuration \<Rightarrow> governance_configuration" where
  "delete_obligation i g = g\<lparr>gcfg_runtime := (gcfg_runtime g)\<lparr>grt_obligations :=
     dict_del i (grt_obligations (gcfg_runtime g))\<rparr>\<rparr>"

definition put_application :: "application_receipt \<Rightarrow> governance_configuration \<Rightarrow> governance_configuration" where
  "put_application r g = g\<lparr>gcfg_runtime := put_receipt r (gcfg_runtime g)\<rparr>"

definition with_config :: "(governance_configuration \<Rightarrow> (gworld, 'a) io) \<Rightarrow> (gworld, 'a) io" where
  "with_config f w = f (gw_config w) w"

definition seed_state :: "env \<Rightarrow> string \<Rightarrow> distinction_state \<Rightarrow> (gworld, unit) io" where
  "seed_state E i s = raise_ifI (\<not> state_admissible_for i s) ''cannot seed an inadmissible distinction state''
    (gov_transaction (with_config (\<lambda>g. case state_of g i of
       Some existing \<Rightarrow> if existing = s then retI ()
         else raiseI (ValueError (''distinction state '' @ py_repr i
           @ '' already exists; governed transitions require an application receipt''))
     | None \<Rightarrow> bindI (update_config (put_state i s)) (\<lambda>_. append_history_event E (state_seed_event E i s)))))"

text \<open>Whether the obligation is new; an exception when its identity or its key is already taken.\<close>

definition validate_new_obligation :: "review_obligation \<Rightarrow> governance_configuration \<Rightarrow> bool result" where
  "validate_new_obligation ob g = (case obligation_of g (rob_id ob) of
     Some existing \<Rightarrow> if existing = ob then Inr False
       else Inl (ValueError (''review obligation '' @ py_repr (rob_id ob) @ '' cannot be rebound''))
   | None \<Rightarrow> if list_ex (\<lambda>(_, o'). review_key o' = review_key ob) (grt_obligations (gcfg_runtime g))
       then Inl (ValueError ''equivalent review obligation is already open for this event instance'')
       else Inr True)"

definition materialize_obligation :: "env \<Rightarrow> review_obligation \<Rightarrow> (gworld, unit) io" where
  "materialize_obligation E ob =
    bindI (update_config (put_obligation ob)) (\<lambda>_. append_history_event E (review_opened_event E ob))"

definition persist_open_obligation :: "env \<Rightarrow> review_obligation \<Rightarrow> (gworld, unit) io" where
  "persist_open_obligation E ob = gov_transaction (with_config (\<lambda>g. case validate_new_obligation ob g of
     Inl e \<Rightarrow> raiseI e
   | Inr fresh \<Rightarrow> if \<not> fresh then retI () else materialize_obligation E ob))"

definition processed_event_obligation_ids :: "env \<Rightarrow> store \<Rightarrow> string \<Rightarrow> string list option result" where
  "processed_event_obligation_ids E s ref = (case get_event s (governance_event_id E ''processed'' ref) of
     None \<Rightarrow> Inr None
   | Some e \<Rightarrow>
     if ev_type e \<noteq> event_processed then Inr None
     else if json_text (jor (jget (event_dict e) ''event_instance_key'') (JStr [])) \<noteq> ref
       then Inl (ValueError ''processed event marker identity is inconsistent'')
     else bindR (jstrings (event_dict e) ''obligation_ids'') (\<lambda>ids. Inr (Some ids)))"

text \<open>The loop that validates the obligations of one event, with the keys requested so far.\<close>

fun validate_requested ::
    "governance_configuration \<Rightarrow> (string \<times> string \<times> string list \<times> string) list \<Rightarrow> review_obligation list \<Rightarrow> unit result" where
  "validate_requested g keys [] = Inr ()"
| "validate_requested g keys (ob # obs) =
    (if review_key ob \<in> set keys then Inl (ValueError ''event projects duplicate review responsibility'')
     else bindR (validate_new_obligation ob g) (\<lambda>fresh.
       if \<not> fresh then Inl (ValueError ''unprocessed event references an already-materialized obligation'')
       else validate_requested g (review_key ob # keys) obs))"

fun materialize_all :: "env \<Rightarrow> review_obligation list \<Rightarrow> (gworld, unit) io" where
  "materialize_all E [] = retI ()"
| "materialize_all E (ob # obs) = bindI (materialize_obligation E ob) (\<lambda>_. materialize_all E obs)"

definition commit_event_obligations :: "env \<Rightarrow> string \<Rightarrow> review_obligation list \<Rightarrow> (gworld, string list) io" where
  "commit_event_obligations E ref obs =
    raise_ifI (ref = []) ''event instance key must be non-empty''
    (raise_ifI (list_ex (\<lambda>ob. rob_trigger_ref ob \<noteq> ref) obs) ''review obligation trigger does not match event instance''
    (gov_transaction (\<lambda>w. case processed_event_obligation_ids E (gw_store w) ref of
       Inl e \<Rightarrow> raiseI e w
     | Inr (Some existing) \<Rightarrow> retI existing w
     | Inr None \<Rightarrow> (case validate_requested (gw_config w) [] obs of
         Inl e \<Rightarrow> raiseI e w
       | Inr _ \<Rightarrow> bindI (materialize_all E obs) (\<lambda>_. let ids = map rob_id obs in
           bindI (append_history_event E (processed_event E ref ids)) (\<lambda>_. retI ids)) w))))"

definition persist_decision :: "env \<Rightarrow> governance_decision \<Rightarrow> (gworld, unit) io" where
  "persist_decision E d = gov_transaction (with_config (\<lambda>g. case decision_of g (gdec_id d) of
     Some existing \<Rightarrow> if existing = d then retI ()
       else raiseI (ValueError (''governance decision '' @ py_repr (gdec_id d) @ '' cannot be rebound''))
   | None \<Rightarrow>
     if state_of g (gdec_target d) = None then raiseI (ValueError ''governance decision references unknown target state'')
     else if \<not> review_decision_input_matches d g
       then raiseI (ValueError ''governance decision does not match its open review inputs'')
     else bindI (update_config (put_decision d)) (\<lambda>_. append_history_event E (decision_recorded_event E d))))"

text \<open>The checks of a state application, in the order of the code: the first that fails, or none.\<close>

definition state_application_error ::
    "string \<Rightarrow> distinction_state \<Rightarrow> application_receipt \<Rightarrow> freshness_lookup option \<Rightarrow> governance_configuration \<Rightarrow> string option" where
  "state_application_error i next_state r fresh g = (let a = rcpt_application r in
     if receipt_of g (gapp_id a) \<noteq> None
       then Some (''governed application '' @ py_repr (gapp_id a) @ '' is immutable and cannot be replayed or rebound'')
     else (case state_of g i of
         None \<Rightarrow> Some ''state application references unknown distinction state''
       | Some current \<Rightarrow> (case decision_of g (gapp_decision_ref a) of
           None \<Rightarrow> Some ''state application references unknown governance decision''
         | Some d \<Rightarrow>
           if fresh \<noteq> None \<and> \<not> relevant_basis_unchanged d (the fresh)
             then Some ''governance decision basis changed before durable commit''
           else if \<not> (rcpt_effect_kind r = ''state'' \<and> gapp_scheme_id a = i \<and> gapp_target a = i \<and> gdec_target d = i \<and> linked a d)
             then Some ''state application responsibility linkage is invalid''
           else if rcpt_pre_anchor r \<noteq> state_anchor current
             then Some ''state application pre-anchor does not match persisted state''
           else if rcpt_pre_anchor r \<noteq> gdec_expected_state_anchor d
             then Some ''state application does not start from the decision basis state''
           else if candidate_state_effect a current \<noteq> next_state
             then Some ''state application next state is not its declared candidate effect''
           else if \<not> (state_admissible_for i next_state \<and> effect_matches_decision d next_state)
             then Some ''state application candidate violates governed state invariants''
           else if rcpt_post_anchor r \<noteq> state_anchor next_state
             then Some ''state application post-anchor does not match next state''
           else None)))"

definition commit_state_application ::
    "env \<Rightarrow> string \<Rightarrow> distinction_state \<Rightarrow> application_receipt \<Rightarrow> freshness_lookup option \<Rightarrow> (gworld, unit) io" where
  "commit_state_application E i next_state r fresh = gov_transaction (with_config (\<lambda>g.
     case state_application_error i next_state r fresh g of
       Some message \<Rightarrow> raiseI (ValueError message)
     | None \<Rightarrow> bindI (update_config (\<lambda>g. put_application r (put_state i next_state g)))
         (\<lambda>_. append_history_event E (application_committed_event E r (Some next_state)))))"

definition discharge_error ::
    "string \<Rightarrow> application_receipt \<Rightarrow> freshness_lookup option \<Rightarrow> governance_configuration \<Rightarrow> string option" where
  "discharge_error oid r fresh g = (let a = rcpt_application r; current = grt_obligations (gcfg_runtime g) in
     if receipt_of g (gapp_id a) \<noteq> None
       then Some (''governed application '' @ py_repr (gapp_id a) @ '' is immutable and cannot be replayed or rebound'')
     else (case obligation_of g oid of
         None \<Rightarrow> Some ''review discharge references unknown obligation''
       | Some ob \<Rightarrow> (case decision_of g (gapp_decision_ref a) of
           None \<Rightarrow> Some ''review discharge references unknown governance decision''
         | Some d \<Rightarrow>
           if fresh \<noteq> None \<and> \<not> relevant_basis_unchanged d (the fresh)
             then Some ''governance decision basis changed before durable commit''
           else if \<not> (rcpt_effect_kind r = ''review_discharge'' \<and> gapp_operation a = ''apply_review_discharge''
               \<and> gapp_review_obligation_id a = Some oid \<and> gapp_target a = ''review_obligation:'' @ oid
               \<and> gapp_scheme_id a = gdec_target d \<and> oid \<in> set (gdec_review_refs d)
               \<and> rob_target ob = gdec_target d \<and> rob_context ob = gdec_context d \<and> linked a d)
             then Some ''review discharge responsibility linkage is invalid''
           else if rcpt_pre_anchor r \<noteq> obligations_anchor current
             then Some ''review discharge pre-anchor does not match open obligations''
           else if rcpt_post_anchor r \<noteq> obligations_anchor (dict_del oid current)
             then Some ''review discharge post-anchor does not match remaining obligations''
           else None)))"

definition commit_review_discharge ::
    "env \<Rightarrow> string \<Rightarrow> application_receipt \<Rightarrow> freshness_lookup option \<Rightarrow> (gworld, unit) io" where
  "commit_review_discharge E oid r fresh = gov_transaction (with_config (\<lambda>g.
     case discharge_error oid r fresh g of
       Some message \<Rightarrow> raiseI (ValueError message)
     | None \<Rightarrow> bindI (update_config (\<lambda>g. put_application r (delete_obligation oid g)))
         (\<lambda>_. append_history_event E (application_committed_event E r None))))"

definition rebuild_projection :: "(gworld, governance_configuration) io" where
  "rebuild_projection w = (case reconstruct_governance_history (history_events (gw_store w)) of
     Inl e \<Rightarrow> (Inl e, w)
   | Inr (g, _) \<Rightarrow> (Inr g, w\<lparr>gw_config := g\<rparr>))"

section \<open>Epochs\<close>

datatype history_epoch = Epoch_Empty | Epoch_Canonical | Epoch_Legacy_Provable | Epoch_Legacy_Incomplete

record epoch_status =
  es_epoch :: history_epoch
  es_canonical_event_count :: nat
  es_sidecar_record_count :: nat
  es_reason :: string

definition sidecar_count :: "governance_configuration \<Rightarrow> nat" where
  "sidecar_count g = length (gcfg_states g) + length (grt_obligations (gcfg_runtime g))
     + length (grt_decisions (gcfg_runtime g)) + length (grt_applications (gcfg_runtime g))"

fun legacy_receipt_problem :: "governance_configuration \<Rightarrow> application_receipt list \<Rightarrow> string option" where
  "legacy_receipt_problem g [] = None"
| "legacy_receipt_problem g (r # rs) = (let a = rcpt_application r in
     if rcpt_effect_kind r = ''review_discharge'' \<or> gapp_review_obligation_id a \<noteq> None
       then Some ''legacy discharged review lost the original EventInstance provenance''
     else if decision_of g (gapp_decision_ref a) = None
       then Some ''legacy application references a missing governance decision''
     else legacy_receipt_problem g rs)"

definition legacy_configuration_provable :: "governance_configuration \<Rightarrow> bool \<times> string" where
  "legacy_configuration_provable g = (let rt = gcfg_runtime g in
     if list_ex (\<lambda>(_, ob). rob_trigger_ref ob = []) (grt_obligations rt)
       then (False, ''open legacy review obligation is missing its EventInstance provenance'')
     else if list_ex (\<lambda>(_, d). \<not> set (gdec_review_refs d) \<subseteq> set (map fst (grt_obligations rt))) (grt_decisions rt)
       then (False, ''legacy decision references review responsibility no longer represented in sidecar'')
     else (case legacy_receipt_problem g (map snd (grt_applications rt)) of
         Some reason \<Rightarrow> (False, reason)
       | None \<Rightarrow> (True, ''current legacy governance configuration has deterministic surviving provenance'')))"

definition detect_governance_history_epoch :: "gworld \<Rightarrow> epoch_status result" where
  "detect_governance_history_epoch w = (let es = history_events (gw_store w); n = sidecar_count (gw_config w) in
     if es \<noteq> [] then bindR (traverse validate_governance_history_event es) (\<lambda>_.
       Inr \<lparr>es_epoch = Epoch_Canonical, es_canonical_event_count = length es, es_sidecar_record_count = n,
         es_reason = ''supported canonical governance history is present''\<rparr>)
     else if n = 0 then
       Inr \<lparr>es_epoch = Epoch_Empty, es_canonical_event_count = 0, es_sidecar_record_count = 0,
         es_reason = ''no governance sidecar and no canonical governance history''\<rparr>
     else (case legacy_configuration_provable (gw_config w) of (provable, reason) \<Rightarrow>
       Inr \<lparr>es_epoch = (if provable then Epoch_Legacy_Provable else Epoch_Legacy_Incomplete),
         es_canonical_event_count = 0, es_sidecar_record_count = n, es_reason = reason\<rparr>))"

end
