(* ===== verification/Governance_Replay.thy ===== *)
theory Governance_Replay
  imports Governance_History "HOL-Library.Multiset"
begin

text \<open>
  Reading the canonical history of governance back: every payload is restored as it was written, and the
  reconstruction depends only on which facts a history records, not on their order.
\<close>

section \<open>Round trips\<close>

lemma json_text_JStr [simp]: "json_text (JStr s) = s"
  by (simp add: json_text_def)

lemma jget_upd [simp]: "jget (fmupd k v m) k' = (if k = k' then v else jget m k')"
  by (simp add: jget_def)

lemma jget_empty [simp]: "jget fmempty k = JNull"
  by (simp add: jget_def)

lemma jreq_upd [simp]: "jreq (fmupd k v m) k' = (if k = k' then Inr v else jreq m k')"
  by (simp add: jreq_def)

lemma set_items [simp]: "fset_of_list (sorted_list_of_fset s) = s"
  by (metis fset_of_list.rep_eq fset_inject sorted_list_of_fset.rep_eq set_sorted_list_of_set finite_fset)

lemma text_of_JStr [simp]: "json_text \<circ> JStr = id"
  by (simp add: comp_def fun_eq_iff)

lemma json_iter_jset [simp]: "json_iter (jset s) = Inr (map JStr (sorted_list_of_fset s))"
  by (simp add: jset_def)

lemma traverse_cells [simp]:
  "traverse (\<lambda>cell. bindR (json_iter cell) (\<lambda>xs. Inr (json_text |`| fset_of_list xs))) (map jset p) = Inr p"
  by (induction p) simp_all

lemma traverse_pairs [simp]: "traverse json_pair (map (\<lambda>(k, a). JList [JStr k, JStr a]) ps) = Inr ps"
  by (induction ps) auto

lemma joptional_upd [simp]: "joptional (fmupd k v m) k' = (if k = k' then (case v of JNull \<Rightarrow> None | v \<Rightarrow> Some (json_text v)) else joptional m k')"
  by (simp add: joptional_def)

lemma str_opt_json_text [simp]: "(case str_opt_json v of JNull \<Rightarrow> None | v \<Rightarrow> Some (json_text v)) = v"
  by (cases v) (simp_all add: str_opt_json_def)

lemmas reading = jreq_text_def jitems_def jstrings_def jstring_set_def jcells_def

lemma restore_state_payload:
  assumes "state_admissible_for i s"
  obtains m where "state_payload i s = JObj m" "restore_state m = Inr (i, s)"
  using assms by (cases s) (simp add: state_payload_def restore_state_def reading jcell_list_def Let_def)

lemma restore_blocking_payload [simp]: "restore_blocking (blocking_payload c) = Inr c"
  by (cases c) (simp_all add: blocking_payload_def restore_blocking_def reading)

lemma restore_obligation_payload:
  obtains m where "obligation_payload ob = JObj m" "restore_obligation m = Inr ob"
  by (simp add: obligation_payload_def restore_obligation_def reading)

lemma restore_decision_payload:
  obtains m where "decision_payload d = JObj m" "restore_decision m = Inr d"
  by (simp add: decision_payload_def restore_decision_def reading jcell_list_def)

lemma restore_application_payload:
  obtains m where "application_payload r = JObj m" "restore_application m = Inr r"
  by (simp add: application_payload_def restore_application_def reading Let_def)

section \<open>Facts\<close>

text \<open>What one governance event records.\<close>

datatype fact =
    F_State string distinction_state
  | F_Review review_obligation
  | F_Decision governance_decision
  | F_Receipt application_receipt "distinction_state option"
  | F_Processed string "string list"

fun fact_event :: "env \<Rightarrow> fact \<Rightarrow> time \<Rightarrow> event" where
  "fact_event E (F_State i s) = state_seed_event E i s"
| "fact_event E (F_Review ob) = review_opened_event E ob"
| "fact_event E (F_Decision d) = decision_recorded_event E d"
| "fact_event E (F_Receipt r n) = application_committed_event E r n"
| "fact_event E (F_Processed k ids) = processed_event E k ids"

fun fact_ok :: "fact \<Rightarrow> bool" where
  "fact_ok (F_State i s) = state_admissible_for i s"
| "fact_ok (F_Receipt r (Some s)) = state_admissible_for (gapp_scheme_id (rcpt_application r)) s"
| "fact_ok (F_Processed k ids) = (k \<noteq> [])"
| "fact_ok _ = True"

fun replay_fact :: "fact \<Rightarrow> history \<Rightarrow> history result" where
  "replay_fact (F_State i s) h = Inr (later_state (i, s) h)"
| "replay_fact (F_Review ob) h = replay_review ob h"
| "replay_fact (F_Decision d) h = replay_decision d h"
| "replay_fact (F_Receipt r None) h = replay_receipt r h"
| "replay_fact (F_Receipt r (Some s)) h =
     bindR (replay_receipt r h) (\<lambda>h. Inr (later_state (gapp_scheme_id (rcpt_application r), s) h))"
| "replay_fact (F_Processed k ids) h = replay_processed k ids h"

lemma fact_event_history: "is_history_event (fact_event E f t)"
  by (cases f) (simp_all add: is_history_event_def governance_history_event_types_def state_seed_event_def
      review_opened_event_def decision_recorded_event_def application_committed_event_def processed_event_def
      make_event_def Let_def)

lemmas fact_event_defs = state_seed_event_def review_opened_event_def decision_recorded_event_def
  application_committed_event_def processed_event_def make_event_def event_dict_def history_payload_def

lemma fact_event_valid: "validate_governance_history_event (fact_event E f t) = Inr ()"
  by (cases f) (simp_all add: validate_governance_history_event_def fact_event_defs Let_def)

lemma jor_text: "k \<noteq> [] \<Longrightarrow> jor (JStr k) v = JStr k"
  by (simp add: jor_def)

lemma replay_fact_event:
  assumes "fact_ok f"
  shows "replay_event (fact_event E f t) h = replay_fact f h"
proof (cases f)
  case (F_State i s)
  with assms obtain m where "state_payload i s = JObj m" "restore_state m = Inr (i, s)"
    by (auto elim: restore_state_payload)
  then show ?thesis
    using fact_event_valid [of E f t] F_State by (simp add: replay_event_def fact_event_defs history_types Let_def)
next
  case (F_Review ob)
  obtain m where "obligation_payload ob = JObj m" "restore_obligation m = Inr ob" by (rule restore_obligation_payload)
  then show ?thesis
    using fact_event_valid [of E f t] F_Review by (simp add: replay_event_def fact_event_defs history_types Let_def)
next
  case (F_Decision d)
  obtain m where "decision_payload d = JObj m" "restore_decision m = Inr d" by (rule restore_decision_payload)
  then show ?thesis
    using fact_event_valid [of E f t] F_Decision by (simp add: replay_event_def fact_event_defs history_types Let_def)
next
  case (F_Receipt r n)
  obtain m where m: "application_payload r = JObj m" "restore_application m = Inr r" by (rule restore_application_payload)
  show ?thesis
  proof (cases n)
    case None
    with m F_Receipt show ?thesis
      using fact_event_valid [of E f t]
      by (simp add: replay_event_def fact_event_defs history_types Let_def bindR_def split: sum.split)
  next
    case (Some s)
    with assms F_Receipt obtain m' where "state_payload (gapp_scheme_id (rcpt_application r)) s = JObj m'"
        "restore_state m' = Inr (gapp_scheme_id (rcpt_application r), s)"
      by (auto elim: restore_state_payload)
    with m F_Receipt Some show ?thesis
      using fact_event_valid [of E f t] by (simp add: replay_event_def fact_event_defs history_types Let_def)
  qed
next
  case (F_Processed k ids)
  then show ?thesis
    using fact_event_valid [of E f t] assms
    by (simp add: replay_event_def fact_event_defs history_types Let_def jor_text reading)
qed

section \<open>What a set of facts says\<close>

definition states_in :: "fact set \<Rightarrow> string \<Rightarrow> distinction_state set" where
  "states_in F i = {s. F_State i s \<in> F \<or> (\<exists>r. F_Receipt r (Some s) \<in> F \<and> gapp_scheme_id (rcpt_application r) = i)}"

definition reviews_in :: "fact set \<Rightarrow> string \<Rightarrow> review_obligation set" where
  "reviews_in F i = {ob. F_Review ob \<in> F \<and> rob_id ob = i}"

definition decisions_in :: "fact set \<Rightarrow> string \<Rightarrow> governance_decision set" where
  "decisions_in F i = {d. F_Decision d \<in> F \<and> gdec_id d = i}"

definition receipts_in :: "fact set \<Rightarrow> string \<Rightarrow> application_receipt set" where
  "receipts_in F i = {r. (\<exists>n. F_Receipt r n \<in> F) \<and> gapp_id (rcpt_application r) = i}"

definition processed_in :: "fact set \<Rightarrow> string \<Rightarrow> string list set" where
  "processed_in F k = {ids. F_Processed k ids \<in> F}"

definition discharge_of :: "application_receipt \<Rightarrow> string set" where
  "discharge_of r = (if rcpt_effect_kind r = ''review_discharge'' \<and> nonempty_opt (gapp_review_obligation_id (rcpt_application r))
     then {the (gapp_review_obligation_id (rcpt_application r))} else {})"

definition discharged_in :: "fact set \<Rightarrow> string set" where
  "discharged_in F = (\<Union>r \<in> {r. \<exists>n. F_Receipt r n \<in> F}. discharge_of r)"

lemmas facts_in_defs = states_in_def reviews_in_def decisions_in_def receipts_in_def processed_in_def discharged_in_def

text \<open>A dictionary of the latest states, and of values that are bound once.\<close>

definition latest_of :: "(string \<Rightarrow> distinction_state option) \<Rightarrow> (string \<Rightarrow> distinction_state set) \<Rightarrow> bool" where
  "latest_of m S \<longleftrightarrow> (\<forall>i. case m i of None \<Rightarrow> S i = {} | Some s \<Rightarrow> s \<in> S i \<and> (\<forall>t \<in> S i. dst_version t \<le> dst_version s))"

definition binds :: "(string \<Rightarrow> 'v option) \<Rightarrow> (string \<Rightarrow> 'v set) \<Rightarrow> bool" where
  "binds m V \<longleftrightarrow> (\<forall>i. V i = set_option (m i))"

definition single :: "(string \<Rightarrow> 'v set) \<Rightarrow> bool" where
  "single V \<longleftrightarrow> (\<forall>i. \<forall>x \<in> V i. \<forall>y \<in> V i. x = y)"

definition coherent :: "fact set \<Rightarrow> bool" where
  "coherent F \<longleftrightarrow> single (reviews_in F) \<and> single (decisions_in F) \<and> single (receipts_in F) \<and> single (processed_in F)"

lemma single_mono: "single V \<Longrightarrow> (\<And>i. U i \<subseteq> V i) \<Longrightarrow> single U"
  unfolding single_def by blast

lemma coherent_subset: "coherent G \<Longrightarrow> F \<subseteq> G \<Longrightarrow> coherent F"
  unfolding coherent_def
  by (elim conjE, intro conjI; erule single_mono) (auto simp: facts_in_defs)

definition represents :: "history \<Rightarrow> fact set \<Rightarrow> bool" where
  "represents h F \<longleftrightarrow> latest_of (map_of (hi_states h)) (states_in F)
     \<and> binds (map_of (hi_obligations h)) (reviews_in F) \<and> binds (map_of (hi_decisions h)) (decisions_in F)
     \<and> binds (map_of (hi_applications h)) (receipts_in F) \<and> binds (map_of (hi_processed h)) (processed_in F)
     \<and> set (hi_discharged h) = discharged_in F"

lemma represents_empty: "represents empty_history {}"
  by (simp add: represents_def empty_history_def latest_of_def binds_def facts_in_defs)

text \<open>Binding one more value.\<close>

lemma bind_once_binds:
  assumes "binds (map_of d) V" "single (V(k := insert v (V k)))"
  shows "bind_once k v d message = Inr (dict_set k v d)" "binds (map_of (dict_set k v d)) (V(k := insert v (V k)))"
proof -
  have "map_of d k = None \<or> map_of d k = Some v"
  proof (cases "map_of d k")
    case (Some a)
    then have "V k = {a}" using assms(1) by (simp add: binds_def)
    have "\<forall>x \<in> (V(k := insert v (V k))) k. \<forall>y \<in> (V(k := insert v (V k))) k. x = y"
      using assms(2) unfolding single_def by (rule spec)
    from bspec [OF bspec [OF this, of a], of v] \<open>V k = {a}\<close> have "a = v" by simp
    with Some show ?thesis by simp
  qed simp
  moreover from this have "V k \<subseteq> {v}" using assms(1) by (auto simp: binds_def)
  ultimately show "bind_once k v d message = Inr (dict_set k v d)"
      "binds (map_of (dict_set k v d)) (V(k := insert v (V k)))"
    using assms(1) by (auto simp: bind_once_def binds_def)
qed

lemma later_state_latest:
  assumes "latest_of (map_of (hi_states h)) S"
  shows "latest_of (map_of (hi_states (later_state (i, s) h))) (S(i := insert s (S i)))"
proof -
  have "case map_of (hi_states h) j of None \<Rightarrow> S j = {} | Some s \<Rightarrow> s \<in> S j \<and> (\<forall>t \<in> S j. dst_version t \<le> dst_version s)" for j
    using assms by (simp add: latest_of_def)
  note at = this
  have "case map_of (hi_states (later_state (i, s) h)) j of None \<Rightarrow> (S(i := insert s (S i))) j = {}
      | Some u \<Rightarrow> u \<in> (S(i := insert s (S i))) j \<and> (\<forall>t \<in> (S(i := insert s (S i))) j. dst_version t \<le> dst_version u)" for j
  proof (cases "j = i")
    case True
    then show ?thesis using at [of i] by (cases "map_of (hi_states h) i") (auto simp: later_state_def)
  next
    case False
    then have "map_of (hi_states (later_state (i, s) h)) j = map_of (hi_states h) j"
      by (cases "map_of (hi_states h) i") (simp_all add: later_state_def)
    with False at [of j] show ?thesis by (simp cong: option.case_cong)
  qed
  then show ?thesis by (simp add: latest_of_def)
qed

lemma later_state_rest [simp]:
  "hi_obligations (later_state p h) = hi_obligations h" "hi_decisions (later_state p h) = hi_decisions h"
  "hi_applications (later_state p h) = hi_applications h" "hi_processed (later_state p h) = hi_processed h"
  "hi_discharged (later_state p h) = hi_discharged h"
  by (auto simp: later_state_def split: prod.splits option.splits)

text \<open>What one more fact adds.\<close>

lemma facts_in_insert:
  "states_in (insert (F_State i s) F) = (states_in F)(i := insert s (states_in F i))"
  "reviews_in (insert (F_State i s) F) = reviews_in F" "decisions_in (insert (F_State i s) F) = decisions_in F"
  "receipts_in (insert (F_State i s) F) = receipts_in F" "processed_in (insert (F_State i s) F) = processed_in F"
  "discharged_in (insert (F_State i s) F) = discharged_in F"
  "states_in (insert (F_Review ob) F) = states_in F"
  "reviews_in (insert (F_Review ob) F) = (reviews_in F)(rob_id ob := insert ob (reviews_in F (rob_id ob)))"
  "decisions_in (insert (F_Review ob) F) = decisions_in F" "receipts_in (insert (F_Review ob) F) = receipts_in F"
  "processed_in (insert (F_Review ob) F) = processed_in F" "discharged_in (insert (F_Review ob) F) = discharged_in F"
  "states_in (insert (F_Decision d) F) = states_in F" "reviews_in (insert (F_Decision d) F) = reviews_in F"
  "decisions_in (insert (F_Decision d) F) = (decisions_in F)(gdec_id d := insert d (decisions_in F (gdec_id d)))"
  "receipts_in (insert (F_Decision d) F) = receipts_in F" "processed_in (insert (F_Decision d) F) = processed_in F"
  "discharged_in (insert (F_Decision d) F) = discharged_in F"
  "states_in (insert (F_Processed k ids) F) = states_in F" "reviews_in (insert (F_Processed k ids) F) = reviews_in F"
  "decisions_in (insert (F_Processed k ids) F) = decisions_in F" "receipts_in (insert (F_Processed k ids) F) = receipts_in F"
  "processed_in (insert (F_Processed k ids) F) = (processed_in F)(k := insert ids (processed_in F k))"
  "discharged_in (insert (F_Processed k ids) F) = discharged_in F"
  by (auto simp: facts_in_defs fun_eq_iff)

lemma facts_in_insert_receipt:
  "states_in (insert (F_Receipt r n) F) = (case n of None \<Rightarrow> states_in F
     | Some s \<Rightarrow> (states_in F)(gapp_scheme_id (rcpt_application r) := insert s (states_in F (gapp_scheme_id (rcpt_application r)))))"
  "reviews_in (insert (F_Receipt r n) F) = reviews_in F" "decisions_in (insert (F_Receipt r n) F) = decisions_in F"
  "receipts_in (insert (F_Receipt r n) F) = (receipts_in F)(gapp_id (rcpt_application r) := insert r (receipts_in F (gapp_id (rcpt_application r))))"
  "processed_in (insert (F_Receipt r n) F) = processed_in F"
  "discharged_in (insert (F_Receipt r n) F) = discharge_of r \<union> discharged_in F"
  by (auto simp: facts_in_defs fun_eq_iff split: option.split)

lemma replay_fact_represents:
  assumes h: "represents h F" and c: "coherent (insert f F)"
  obtains h' where "replay_fact f h = Inr h'" "represents h' (insert f F)"
proof (cases f)
  case (F_State i s)
  with h later_state_latest show ?thesis
    by (intro that [of "later_state (i, s) h"]) (auto simp: represents_def facts_in_insert)
next
  case (F_Review ob)
  have "binds (map_of (hi_obligations h)) (reviews_in F)"
      "single ((reviews_in F)(rob_id ob := insert ob (reviews_in F (rob_id ob))))"
    using h c F_Review by (simp_all add: represents_def coherent_def facts_in_insert)
  from bind_once_binds [OF this] h show ?thesis
    by (intro that) (auto simp: F_Review represents_def facts_in_insert replay_review_def)
next
  case (F_Decision d)
  have "binds (map_of (hi_decisions h)) (decisions_in F)"
      "single ((decisions_in F)(gdec_id d := insert d (decisions_in F (gdec_id d))))"
    using h c F_Decision by (simp_all add: represents_def coherent_def facts_in_insert)
  from bind_once_binds [OF this] h show ?thesis
    by (intro that) (auto simp: F_Decision represents_def facts_in_insert replay_decision_def)
next
  case (F_Processed k ids)
  have "binds (map_of (hi_processed h)) (processed_in F)" "single ((processed_in F)(k := insert ids (processed_in F k)))"
    using h c F_Processed by (simp_all add: represents_def coherent_def facts_in_insert)
  from bind_once_binds [OF this] h show ?thesis
    by (intro that) (auto simp: F_Processed represents_def facts_in_insert replay_processed_def)
next
  case (F_Receipt r n)
  let ?k = "gapp_id (rcpt_application r)"
  have b: "binds (map_of (hi_applications h)) (receipts_in F)"
      "single ((receipts_in F)(?k := insert r (receipts_in F ?k)))"
    using h c F_Receipt by (simp_all add: represents_def coherent_def facts_in_insert_receipt)
  obtain h1 where h1: "replay_receipt r h = Inr h1" "represents h1 (insert (F_Receipt r None) F)"
    using bind_once_binds [OF b] h
    by (auto simp: replay_receipt_def represents_def facts_in_insert_receipt discharge_of_def)
  show ?thesis
  proof (cases n)
    case None
    with h1 F_Receipt show ?thesis by (intro that) auto
  next
    case (Some s)
    with h1 F_Receipt later_state_latest show ?thesis
      by (intro that [of "later_state (gapp_scheme_id (rcpt_application r), s) h1"])
        (auto simp: represents_def facts_in_insert_receipt)
  qed
qed

text \<open>The reconstruction of a coherent set of facts, in whatever order and at whatever times they were recorded.\<close>

lemma replay_facts:
  assumes "represents h F" "coherent (F \<union> fst ` set fts)" "\<And>f. f \<in> fst ` set fts \<Longrightarrow> fact_ok f"
  shows "\<exists>h'. replay_events (map (\<lambda>(f, t). fact_event E f t) fts) h = Inr h' \<and> represents h' (F \<union> fst ` set fts)"
  using assms
proof (induction fts arbitrary: h F)
  case Nil
  then show ?case by simp
next
  case (Cons p fts)
  obtain f t where p: "p = (f, t)" by (cases p)
  have "coherent (insert f F)" using Cons.prems(2) p by (auto intro: coherent_subset)
  then obtain h1 where h1: "replay_fact f h = Inr h1" "represents h1 (insert f F)"
    using replay_fact_represents [OF Cons.prems(1)] by blast
  have "replay_event (fact_event E f t) h = Inr h1"
    using replay_fact_event [of f E t h] Cons.prems(3) h1(1) p by auto
  moreover have "coherent (insert f F \<union> fst ` set fts)" using Cons.prems(2) p by simp
  then obtain h' where "replay_events (map (\<lambda>(f, t). fact_event E f t) fts) h1 = Inr h'" "represents h' (insert f F \<union> fst ` set fts)"
    using Cons.IH [OF h1(2)] Cons.prems(3) by auto
  ultimately show ?case
    using p fact_event_history [of E f t] by auto
qed

lemma permuted_preimage:
  assumes "mset xs = image_mset f (mset ys)"
  obtains zs where "xs = map f zs" "mset zs = mset ys"
proof -
  have "\<exists>zs. xs = map f zs \<and> mset zs = mset ys"
    using assms
  proof (induction xs arbitrary: ys)
    case Nil
    then show ?case by simp
  next
    case (Cons x xs)
    then have "x \<in># image_mset f (mset ys)" by (metis list.set_intros(1) set_mset_mset)
    then obtain y where y: "y \<in> set ys" "x = f y" by auto
    then have ys: "mset ys = add_mset y (mset (remove1 y ys))" by simp
    have "add_mset x (mset xs) = image_mset f (add_mset y (mset (remove1 y ys)))"
      unfolding ys [symmetric] using Cons.prems by simp
    with y(2) have "mset xs = image_mset f (mset (remove1 y ys))" by simp
    with Cons.IH obtain zs where "xs = map f zs" "mset zs = mset (remove1 y ys)" by blast
    with y(2) ys show ?case by (intro exI [of _ "y # zs"]) simp
  qed
  with that show thesis by blast
qed

end
