(* ===== verification/Revalidation.thy ===== *)
theory Revalidation
  imports Governance_History
begin

text \<open>
  Revalidation after a change: the typed dependency impacts of a change on the records that depend on
  it, with the risk and the action a policy profile derives (\<open>records/revalidation.py\<close>), and the
  lifecycle that turns them into governance reviews, decisions, applications and discharges
  (\<open>governance/revalidation.py\<close>).
\<close>

section \<open>Impacts, risks and dispositions\<close>

text \<open>The part of \<open>RecordRelation\<close> (\<open>records/relations.py\<close>) that is read here.\<close>

record record_relation =
  rel_id :: string
  rel_relation_type :: string
  rel_subject_ref :: string
  rel_object_ref :: string

record revalidation_profile =
  rp_profile_id :: string
  rp_risk_rules :: "(string \<times> string \<times> string \<times> string) list"
  rp_required_action_rules :: "(string \<times> (string \<times> string) list) list"

definition default_revalidation_profile :: revalidation_profile where
  "default_revalidation_profile = \<lparr>rp_profile_id = ''default-revalidation-policy'',
     rp_risk_rules =
      [(''evaluator'', ''high'', ''urgent'', ''wide''), (''model'', ''high'', ''urgent'', ''wide''),
       (''code'', ''medium'', ''elevated'', ''bounded''), (''dataset'', ''medium'', ''elevated'', ''bounded''),
       (''permission'', ''high'', ''urgent'', ''wide''), (''classification'', ''medium'', ''elevated'', ''bounded''),
       (''state_space'', ''critical'', ''immediate'', ''systemic''), (''environment'', ''high'', ''urgent'', ''wide'')],
     rp_required_action_rules =
      [(''evaluator'', [(''validated-under'', ''block-next-use''), (''evaluated-by'', ''block-next-use''),
          (''depends-on'', ''background-revalidate'')]),
       (''model'', [(''validated-under'', ''block-next-use''), (''evaluated-by'', ''block-next-use''),
          (''depends-on'', ''background-revalidate'')]),
       (''code'', [(''executed-with'', ''block-next-use''), (''validated-under'', ''block-next-use''),
          (''depends-on'', ''background-revalidate'')]),
       (''dataset'', [(''measured-by'', ''block-next-use''), (''depends-on'', ''background-revalidate'')]),
       (''permission'', [(''authorized-under'', ''require-human-review''), (''depends-on'', ''background-revalidate'')]),
       (''classification'', [(''scoped-to'', ''require-human-review''), (''depends-on'', ''background-revalidate'')]),
       (''state_space'', [(''scoped-to'', ''reopen''), (''depends-on'', ''background-revalidate''),
          (''validated-under'', ''block-next-use'')]),
       (''environment'', [(''validated-under'', ''block-next-use''), (''executed-with'', ''background-revalidate''),
          (''measured-by'', ''background-revalidate''), (''depends-on'', ''warn'')])]\<rparr>"

definition change_kind :: "string \<Rightarrow> string" where
  "change_kind change_type = py_lower (py_strip change_type)"

definition risk_for :: "revalidation_profile \<Rightarrow> string \<Rightarrow> string \<times> string \<times> string" where
  "risk_for p change_type = (case map_of (rp_risk_rules p) (change_kind change_type) of
     Some r \<Rightarrow> r | None \<Rightarrow> (''medium'', ''elevated'', ''bounded''))"

definition action_for :: "revalidation_profile \<Rightarrow> string \<Rightarrow> string \<Rightarrow> string" where
  "action_for p change_type relation_type =
    (let per_type = (case map_of (rp_required_action_rules p) (change_kind change_type) of Some d \<Rightarrow> d | None \<Rightarrow> []) in
     case map_of per_type relation_type of
       Some a \<Rightarrow> a
     | None \<Rightarrow>
       if relation_type \<in> {''validated-under'', ''evaluated-by''} then ''block-next-use''
       else if relation_type \<in> {''authorized-under'', ''scoped-to''} then ''require-human-review''
       else if relation_type \<in> {''executed-with'', ''measured-by''} then ''background-revalidate''
       else ''background-revalidate'')"

record dependency_impact =
  di_change_ref :: string
  di_affected_ref :: string
  di_relation_type :: string
  di_impact_type :: string
  di_reason_refs :: "string list"

record risk_assessment =
  ra_change_ref :: string
  ra_affected_ref :: string
  ra_severity :: string
  ra_urgency :: string
  ra_blast_radius :: string
  ra_rationale_refs :: "string list"

record revalidation_disposition =
  rd_action :: string
  rd_policy_ref :: string
  rd_rationale_refs :: "string list"

record affected_assessment =
  aa_id :: string
  aa_change_ref :: string
  aa_affected_ref :: string
  aa_impact_type :: string
  aa_severity :: string
  aa_required_action :: string
  aa_reason_refs :: "string list"
  aa_created_at :: time
  aa_dependency_impact :: "dependency_impact option"
  aa_risk_assessment :: "risk_assessment option"
  aa_revalidation_disposition :: "revalidation_disposition option"
  aa_metadata :: "(string, json) fmap"

text \<open>The validator \<open>_sync_layers\<close>, one layer after the other.\<close>

definition sync_impact :: "affected_assessment \<Rightarrow> affected_assessment" where
  "sync_impact a = (case aa_dependency_impact a of
     None \<Rightarrow> a\<lparr>aa_dependency_impact := Some \<lparr>di_change_ref = aa_change_ref a, di_affected_ref = aa_affected_ref a,
        di_relation_type = json_text (fm_get (aa_metadata a) ''relation_type'' (JStr ''depends-on'')),
        di_impact_type = aa_impact_type a, di_reason_refs = aa_reason_refs a\<rparr>\<rparr>
   | Some i \<Rightarrow> a\<lparr>aa_impact_type := (if aa_impact_type a = ''warn'' \<and> di_impact_type i \<noteq> ''warn'' then di_impact_type i
          else aa_impact_type a),
        aa_reason_refs := di_reason_refs i\<rparr>)"

definition sync_risk :: "affected_assessment \<Rightarrow> affected_assessment" where
  "sync_risk a = (case aa_risk_assessment a of
     None \<Rightarrow> a\<lparr>aa_risk_assessment := Some \<lparr>ra_change_ref = aa_change_ref a, ra_affected_ref = aa_affected_ref a,
        ra_severity = aa_severity a, ra_urgency = ''elevated'', ra_blast_radius = ''bounded'',
        ra_rationale_refs = aa_reason_refs a\<rparr>\<rparr>
   | Some r \<Rightarrow> a\<lparr>aa_severity := ra_severity r,
        aa_reason_refs := (if ra_rationale_refs r \<noteq> [] then ra_rationale_refs r else aa_reason_refs a)\<rparr>)"

definition sync_action :: "affected_assessment \<Rightarrow> affected_assessment" where
  "sync_action a = (case aa_revalidation_disposition a of
     None \<Rightarrow> a\<lparr>aa_revalidation_disposition := Some \<lparr>rd_action = aa_required_action a,
        rd_policy_ref = ''default-revalidation-policy'', rd_rationale_refs = aa_reason_refs a\<rparr>\<rparr>
   | Some d \<Rightarrow> a\<lparr>aa_required_action := rd_action d\<rparr>)"

definition sync_layers :: "affected_assessment \<Rightarrow> affected_assessment" where
  "sync_layers a = sync_action (sync_risk (sync_impact a))"

definition typed_dependency_rules :: "(string \<times> string list) list" where
  "typed_dependency_rules =
     [(''evaluator'', [''validated-under'', ''evaluated-by'']),
      (''model'', [''validated-under'', ''evaluated-by'', ''depends-on'']),
      (''code'', [''executed-with'', ''validated-under'', ''depends-on'']),
      (''dataset'', [''measured-by'', ''depends-on'']),
      (''permission'', [''authorized-under'', ''depends-on'']),
      (''classification'', [''scoped-to'', ''depends-on'']),
      (''state_space'', [''scoped-to'', ''depends-on'', ''validated-under'']),
      (''environment'', [''validated-under'', ''executed-with'', ''measured-by'', ''depends-on''])]"

definition watched :: "string \<Rightarrow> string list" where
  "watched kind = (case map_of typed_dependency_rules kind of Some ts \<Rightarrow> ts | None \<Rightarrow> [''depends-on'', ''validated-under''])"

text \<open>The loop over the relations, with the subjects seen so far.\<close>

fun impacts_of :: "string \<Rightarrow> string list \<Rightarrow> string list \<Rightarrow> record_relation list \<Rightarrow> dependency_impact list" where
  "impacts_of change_ref watch seen [] = []"
| "impacts_of change_ref watch seen (r # rs) =
    (if rel_relation_type r \<notin> set watch \<or> rel_object_ref r \<noteq> change_ref \<or> rel_subject_ref r = [] \<or> rel_subject_ref r \<in> set seen
     then impacts_of change_ref watch seen rs
     else \<lparr>di_change_ref = change_ref, di_affected_ref = rel_subject_ref r, di_relation_type = rel_relation_type r,
         di_impact_type = ''warn'', di_reason_refs = (if rel_id r \<noteq> [] then [rel_id r] else [])\<rparr>
       # impacts_of change_ref watch (rel_subject_ref r # seen) rs)"

definition detect_dependency_impacts :: "string \<Rightarrow> string \<Rightarrow> record_relation list \<Rightarrow> dependency_impact list result" where
  "detect_dependency_impacts change_ref change_type rs =
    (if change_ref = [] then Inl (ValueError ''change_ref must be non-empty'')
     else Inr (impacts_of change_ref (watched (change_kind change_type)) [] rs))"

definition derive_risk_assessment :: "revalidation_profile \<Rightarrow> string \<Rightarrow> dependency_impact \<Rightarrow> risk_assessment" where
  "derive_risk_assessment p change_type i = (case risk_for p change_type of (severity, urgency, radius) \<Rightarrow>
     \<lparr>ra_change_ref = di_change_ref i, ra_affected_ref = di_affected_ref i, ra_severity = severity, ra_urgency = urgency,
       ra_blast_radius = radius, ra_rationale_refs = di_reason_refs i\<rparr>)"

definition derive_revalidation_disposition :: "revalidation_profile \<Rightarrow> string \<Rightarrow> dependency_impact \<Rightarrow> revalidation_disposition" where
  "derive_revalidation_disposition p change_type i =
     \<lparr>rd_action = action_for p change_type (di_relation_type i), rd_policy_ref = rp_profile_id p,
       rd_rationale_refs = di_reason_refs i\<rparr>"

definition assessment_of :: "revalidation_profile \<Rightarrow> string \<Rightarrow> string \<Rightarrow> time \<Rightarrow> dependency_impact \<Rightarrow> affected_assessment" where
  "assessment_of p kind i t impact = (let risk = derive_risk_assessment p kind impact;
       disposition = derive_revalidation_disposition p kind impact in
     sync_layers \<lparr>aa_id = i, aa_change_ref = di_change_ref impact, aa_affected_ref = di_affected_ref impact,
       aa_impact_type = di_impact_type impact, aa_severity = ra_severity risk, aa_required_action = rd_action disposition,
       aa_reason_refs = di_reason_refs impact, aa_created_at = t, aa_dependency_impact = Some impact,
       aa_risk_assessment = Some risk, aa_revalidation_disposition = Some disposition,
       aa_metadata = fmap_of_list [(''relation_type'', JStr (di_relation_type impact))]\<rparr>)"

fun assess_all :: "env \<Rightarrow> revalidation_profile \<Rightarrow> string \<Rightarrow> dependency_impact list \<Rightarrow> (world, affected_assessment list) io" where
  "assess_all E p kind [] = retI []"
| "assess_all E p kind (impact # is) =
    bindI (new_id E ''affected'') (\<lambda>i. bindI (utcnow E) (\<lambda>t.
    bindI (assess_all E p kind is) (\<lambda>as. retI (assessment_of p kind i t impact # as))))"

definition assess_revalidation ::
    "env \<Rightarrow> revalidation_profile \<Rightarrow> string \<Rightarrow> string \<Rightarrow> record_relation list \<Rightarrow> (world, affected_assessment list) io" where
  "assess_revalidation E p change_ref change_type rs =
    (case detect_dependency_impacts change_ref (change_kind change_type) rs of
       Inl e \<Rightarrow> raiseI e
     | Inr is \<Rightarrow> assess_all E p (change_kind change_type) is)"

definition should_block :: "affected_assessment \<Rightarrow> bool" where
  "should_block a = ((case aa_revalidation_disposition a of Some d \<Rightarrow> rd_action d | None \<Rightarrow> aa_required_action a)
     \<in> {''block-next-use'', ''require-human-review'', ''reopen''})"

section \<open>Projection into reviews\<close>

definition review_actions :: "string list" where
  "review_actions = [''background-revalidate'', ''block-next-use'', ''require-human-review'', ''reopen'']"

definition blocking_actions :: "string list" where
  "blocking_actions = [''block-next-use'', ''require-human-review'', ''reopen'']"

datatype projection_status = Proj_Not_Required | Proj_Ready | Proj_Unavailable

record review_projection =
  pj_status :: projection_status
  pj_action :: string
  pj_target :: string
  pj_blocking :: bool
  pj_obligation :: "review_obligation option"

record revalidation_result =
  rg_assessments :: "affected_assessment list"
  rg_opened_obligations :: "review_obligation list"
  rg_already_processed :: "string list"
  rg_projection_unavailable :: "review_projection list"

definition disposition_action :: "affected_assessment \<Rightarrow> string" where
  "disposition_action a = (case aa_revalidation_disposition a of Some d \<Rightarrow> rd_action d | None \<Rightarrow> aa_required_action a)"

definition unit_separator :: string where
  "unit_separator = [char_of (31 :: nat)]"

definition review_identity :: "env \<Rightarrow> string \<Rightarrow> string \<Rightarrow> string \<Rightarrow> string" where
  "review_identity E event_ref target ctx =
     ''review_'' @ take 24 (env_sha256_hex E (py_join unit_separator [event_ref, target, ctx]))"

definition closure_requirements :: "string \<Rightarrow> string fset" where
  "closure_requirements action = finsert ''basis_checked''
     ((if action = ''require-human-review'' then {|''human_reviewed''|} else {||})
       |\<union>| (if action = ''reopen'' then {|''reopen_resolved''|} else {||}))"

definition distinct_in_order :: "string list \<Rightarrow> string list" where
  "distinct_in_order xs = rev (remdups (rev xs))"

definition project_review_obligation_from_disposition ::
    "env \<Rightarrow> string \<Rightarrow> string \<Rightarrow> string \<Rightarrow> revalidation_disposition \<Rightarrow> string list \<Rightarrow> governance_configuration
      \<Rightarrow> review_projection result" where
  "project_review_obligation_from_disposition E trigger target ctx d basis_refs g =
    (let action = rd_action d; blocking = action \<in> set blocking_actions;
         basis = distinct_in_order (filter (\<lambda>r. r \<noteq> []) basis_refs) in
     if basis = [] then Inl (ValueError ''review projection requires explicit basis refs'')
     else if action \<notin> set review_actions then
       Inr \<lparr>pj_status = Proj_Not_Required, pj_action = action, pj_target = target, pj_blocking = False, pj_obligation = None\<rparr>
     else if state_of g target = None then
       Inr \<lparr>pj_status = Proj_Unavailable, pj_action = action, pj_target = target, pj_blocking = blocking, pj_obligation = None\<rparr>
     else Inr \<lparr>pj_status = Proj_Ready, pj_action = action, pj_target = target, pj_blocking = blocking,
       pj_obligation = Some \<lparr>rob_id = review_identity E trigger target ctx, rob_target = target, rob_trigger_ref = trigger,
         rob_basis_refs = basis, rob_context = ctx, rob_blocking = blocking,
         rob_blocking_condition = (if blocking then Some \<lparr>bcond_context_names = {|ctx|}, bcond_scope_any = {||},
            bcond_scope_all = {||}\<rparr> else None),
         rob_closure_requirements = closure_requirements action,
         rob_invalidates_decisions = fset_of_list (map gdec_id (filter (\<lambda>x. gdec_target x = target \<and> gdec_context x = ctx)
            (map snd (grt_decisions (gcfg_runtime g)))))\<rparr>\<rparr>)"

definition project_review_obligation ::
    "env \<Rightarrow> affected_assessment \<Rightarrow> string \<Rightarrow> string \<Rightarrow> governance_configuration \<Rightarrow> review_projection result" where
  "project_review_obligation E a event_ref ctx g =
    (let d = (case aa_revalidation_disposition a of Some d \<Rightarrow> d
        | None \<Rightarrow> \<lparr>rd_action = disposition_action a, rd_policy_ref = ''default-revalidation-policy'',
            rd_rationale_refs = aa_reason_refs a\<rparr>) in
     project_review_obligation_from_disposition E event_ref (aa_affected_ref a) ctx d [aa_change_ref a] g)"

section \<open>The lifecycle\<close>

text \<open>The loop of \<open>observe_change\<close>: the obligations that are ready and the projections that are unavailable.\<close>

fun project_all ::
    "env \<Rightarrow> string \<Rightarrow> string \<Rightarrow> governance_configuration \<Rightarrow> affected_assessment list
      \<Rightarrow> (review_obligation list \<times> review_projection list) result" where
  "project_all E event_ref ctx g [] = Inr ([], [])"
| "project_all E event_ref ctx g (a # as) =
    bindR (project_review_obligation E a event_ref ctx g) (\<lambda>pj.
      case pj_status pj of
        Proj_Not_Required \<Rightarrow> project_all E event_ref ctx g as
      | Proj_Unavailable \<Rightarrow>
          if pj_blocking pj then Inl (ValueError (''governance projection unavailable for '' @ py_repr (pj_target pj)
            @ '' under '' @ py_repr (pj_action pj) @ '' disposition''))
          else bindR (project_all E event_ref ctx g as) (\<lambda>(obs, pjs). Inr (obs, pj # pjs))
      | Proj_Ready \<Rightarrow> (case pj_obligation pj of
            None \<Rightarrow> Inl (ValueError ''ready governance projection requires an obligation'')
          | Some ob \<Rightarrow> bindR (project_all E event_ref ctx g as) (\<lambda>(obs, pjs). Inr (ob # obs, pjs))))"

definition observe_change ::
    "env \<Rightarrow> revalidation_profile \<Rightarrow> string \<Rightarrow> string \<Rightarrow> string \<Rightarrow> record_relation list \<Rightarrow> string
      \<Rightarrow> (gworld, revalidation_result) io" where
  "observe_change E p event_ref change_ref change_type rs ctx =
    raise_ifI (event_ref = []) ''event_ref must be non-empty''
    (\<lambda>w. case processed_event_obligation_ids E (gw_store w) event_ref of
       Inl e \<Rightarrow> raiseI e w
     | Inr (Some ids) \<Rightarrow> retI \<lparr>rg_assessments = [], rg_opened_obligations = [], rg_already_processed = ids,
         rg_projection_unavailable = []\<rparr> w
     | Inr None \<Rightarrow>
         bindI (on_gworld (assess_revalidation E p change_ref change_type rs)) (\<lambda>as. with_config (\<lambda>g.
         case project_all E event_ref ctx g as of
           Inl e \<Rightarrow> raiseI e
         | Inr (ready, unavailable) \<Rightarrow>
             if unavailable \<noteq> [] then
               retI \<lparr>rg_assessments = as, rg_opened_obligations = [], rg_already_processed = [],
                 rg_projection_unavailable = unavailable\<rparr>
             else bindI (commit_event_obligations E event_ref ready) (\<lambda>ids.
               retI \<lparr>rg_assessments = as, rg_opened_obligations = filter (\<lambda>ob. rob_id ob \<in> set ids) ready,
                 rg_already_processed = [], rg_projection_unavailable = []\<rparr>))) w)"

definition is_usable :: "gworld \<Rightarrow> string \<Rightarrow> use_context \<Rightarrow> bool" where
  "is_usable w = usable (gw_config w)"

definition lifecycle_record_decision :: "env \<Rightarrow> authority_check \<Rightarrow> governance_decision \<Rightarrow> (gworld, unit) io" where
  "lifecycle_record_decision E auth d = with_config (\<lambda>g. case governance_record_decision g d auth of
     None \<Rightarrow> raiseI (ValueError ''governance decision is not admissible under the current review snapshot'')
   | Some _ \<Rightarrow> persist_decision E d)"

definition apply_state :: "env \<Rightarrow> authority_check \<Rightarrow> freshness_lookup \<Rightarrow> governed_application \<Rightarrow> (gworld, application_receipt) io" where
  "apply_state E auth fresh a = with_config (\<lambda>g. case apply_state_transition g a auth fresh of
     None \<Rightarrow> raiseI (ValueError ''governed state application is not admissible under the current snapshot'')
   | Some g' \<Rightarrow> (let r = the (receipt_of g' (gapp_id a)); s = the (state_of g' (gapp_scheme_id a)) in
       bindI (commit_state_application E (gapp_scheme_id a) s r (Some fresh)) (\<lambda>_. retI r)))"

definition discharge ::
    "env \<Rightarrow> authority_check \<Rightarrow> freshness_lookup \<Rightarrow> governed_application \<Rightarrow> governed_application option
      \<Rightarrow> (gworld, application_receipt) io" where
  "discharge E auth fresh a sa = with_config (\<lambda>g. case apply_review_discharge g a auth fresh sa of
     None \<Rightarrow> raiseI (ValueError ''review discharge is not admissible under the current snapshot'')
   | Some g' \<Rightarrow> (let r = the (receipt_of g' (gapp_id a)) in
       case gapp_review_obligation_id a of
         None \<Rightarrow> raiseI (ValueError ''review discharge requires an explicit obligation reference'')
       | Some oid \<Rightarrow> bindI (commit_review_discharge E oid r (Some fresh)) (\<lambda>_. retI r)))"

end
