(* ===== verification/Distinction_Properties.thy ===== *)
theory Distinction_Properties
  imports Distinction_Governance "HOL-Library.Disjoint_Sets"
begin

text \<open>
  What the governance of distinctions guarantees over every history of its operations: states stay
  admissible and keep what they distinguish, a decision is applied once, and a distinction becomes
  usable only through authority over what was decided.
\<close>

section \<open>Anchors tell versions apart\<close>

definition decimal_value :: "string \<Rightarrow> nat" where
  "decimal_value ds = foldl (\<lambda>n c. 10 * n + (of_char c - 48)) 0 ds"

lemma of_digit_char: "d < 10 \<Longrightarrow> of_char (digit_char d) = (48 + d :: nat)"
  by (simp add: digit_char_def)

lemma decimal_value_nat_digits: "decimal_value (nat_digits n) = n"
proof (induction n rule: nat_digits.induct)
  case (1 n)
  then show ?case
    by (subst nat_digits.simps) (auto simp: decimal_value_def of_digit_char)
qed

lemma nat_digits_chars: "c \<in> set (nat_digits n) \<Longrightarrow> \<exists>d < 10. c = digit_char d"
proof (induction n rule: nat_digits.induct)
  case (1 n)
  show ?case
  proof (cases "n < 10")
    case True
    with "1.prems" show ?thesis by (subst (asm) nat_digits.simps) auto
  next
    case False
    with "1.prems" have "c \<in> set (nat_digits (n div 10)) \<or> c = digit_char (n mod 10)"
      by (subst (asm) nat_digits.simps) auto
    with "1.IH" [OF False] show ?thesis by force
  qed
qed

lemma digit_char_neq: "d < 10 \<Longrightarrow> digit_char d \<noteq> CHR ''|''" "d < 10 \<Longrightarrow> digit_char d \<noteq> CHR ''-''"
proof -
  have "of_char (digit_char d) \<noteq> (of_char (CHR ''|'') :: nat)" "of_char (digit_char d) \<noteq> (of_char (CHR ''-'') :: nat)"
    if "d < 10" using that by (simp_all add: of_digit_char)
  then show "d < 10 \<Longrightarrow> digit_char d \<noteq> CHR ''|''" "d < 10 \<Longrightarrow> digit_char d \<noteq> CHR ''-''" by auto
qed

lemma py_str_int_no_bar: "CHR ''|'' \<notin> set (py_str_int i)"
  by (auto simp: py_str_int_def dest!: nat_digits_chars dest: digit_char_neq(1) [THEN not_sym] split: if_splits)

lemma nat_digits_no_minus: "nat_digits n \<noteq> CHR ''-'' # ds"
  using nat_digits_chars [of "CHR ''-''" n] digit_char_neq(2) by (auto simp: eq_commute)

lemma nat_digits_inj: "nat_digits m = nat_digits n \<longleftrightarrow> m = n"
  using decimal_value_nat_digits by metis

lemma py_str_int_inj: "py_str_int i = py_str_int j \<longleftrightarrow> i = j"
  using nat_digits_no_minus nat_digits_no_minus [THEN not_sym]
  by (auto simp: py_str_int_def nat_digits_inj)

lemma until_bar:
  assumes "xs @ CHR ''|'' # us = ys @ CHR ''|'' # vs" "CHR ''|'' \<notin> set xs" "CHR ''|'' \<notin> set ys"
  shows "xs = ys"
proof -
  have "takeWhile (\<lambda>c. c \<noteq> CHR ''|'') (xs @ CHR ''|'' # us) = takeWhile (\<lambda>c. c \<noteq> CHR ''|'') (ys @ CHR ''|'' # vs)"
    using assms(1) by simp
  moreover have "takeWhile (\<lambda>c. c \<noteq> CHR ''|'') (zs @ CHR ''|'' # ws) = zs" if "CHR ''|'' \<notin> set zs" for zs ws
    using that by (induction zs) auto
  ultimately show ?thesis using assms(2,3) by simp
qed

lemma state_anchor_version: "state_anchor s = state_anchor t \<Longrightarrow> dst_version s = dst_version t"
  using until_bar [OF _ py_str_int_no_bar py_str_int_no_bar] by (auto simp: state_anchor_def py_str_int_inj)

section \<open>Partitions\<close>

lemma union_of_cells:
  "union_of_cells u p = Some v \<longleftrightarrow>
     {||} \<notin> set p \<and> (\<forall>c \<in> set p. fset u \<inter> fset c = {}) \<and> distinct p \<and> disjoint (fset ` set p)
     \<and> fset v = fset u \<union> \<Union> (fset ` set p)"
proof (induction p arbitrary: u)
  case Nil
  then show ?case by (auto simp: disjoint_def fset_inject)
next
  case (Cons c p)
  have empty: "u |\<inter>| c = {||} \<longleftrightarrow> fset u \<inter> fset c = {}" by (metis bot_fset.rep_eq fset_inject inf_fset.rep_eq)
  show ?case
  proof (cases "c = {||} \<or> fset u \<inter> fset c \<noteq> {}")
    case True
    then show ?thesis by (auto simp: empty)
  next
    case False
    then have c: "fset c \<noteq> {}" by (metis bot_fset.rep_eq fset_inject)
    have "distinct (c # p) \<and> disjoint (fset ` set (c # p)) \<longleftrightarrow>
        distinct p \<and> disjoint (fset ` set p) \<and> (\<forall>d \<in> set p. fset c \<inter> fset d = {})" (is "?l \<longleftrightarrow> ?r")
    proof
      assume l: ?l
      have "fset c \<inter> fset d = {}" if "d \<in> set p" for d
      proof -
        from l that have "fset c \<noteq> fset d" by (auto simp: fset_inject)
        with l that show ?thesis unfolding disjoint_def by (metis image_eqI list.set_intros)
      qed
      with l show ?r by (auto intro: disjoint_image_subset simp: disjoint_def)
    next
      assume r: ?r
      with c have "c \<notin> set p" by auto
      with r show ?l by (auto simp: disjoint_def)
    qed
    note cell = this
    have apart: "(\<forall>d \<in> set p. fset (u |\<union>| c) \<inter> fset d = {}) \<longleftrightarrow>
        (\<forall>d \<in> set p. fset u \<inter> fset d = {}) \<and> (\<forall>d \<in> set p. fset c \<inter> fset d = {})"
      by (auto simp: Int_Un_distrib2)
    have union: "fset (u |\<union>| c) \<union> \<Union> (fset ` set p) = fset u \<union> \<Union> (fset ` set (c # p))" by auto
    have "{||} \<notin> set (c # p) \<longleftrightarrow> {||} \<notin> set p" "union_of_cells u (c # p) = union_of_cells (u |\<union>| c) p"
        "(\<forall>d \<in> set (c # p). fset u \<inter> fset d = {}) \<longleftrightarrow> (\<forall>d \<in> set p. fset u \<inter> fset d = {})"
      using False by (auto simp: empty)
    then show ?thesis
      by (simp only: Cons.IH [of "u |\<union>| c"] apart union) (use cell in argo)
  qed
qed

lemma fset_empty_mem: "{} \<in> fset ` A \<longleftrightarrow> {||} \<in> A"
  by (metis (no_types, lifting) bot_fset.rep_eq fset_inject imageE imageI)

text \<open>A partition matches a scope exactly when its cells are listed once and partition the scope.\<close>

theorem partition_reference:
  "partition_matches_scope p sc \<longleftrightarrow> distinct p \<and> partition_on (fset sc) (set (map fset p))"
proof -
  have empty: "fset sc = {} \<longleftrightarrow> sc = {||}" by (metis bot_fset.rep_eq fset_inject)
  have cells: "\<Union> (fset ` set p) = {} \<Longrightarrow> p \<noteq> [] \<Longrightarrow> {||} \<in> set p"
    by (cases p) (auto simp flip: fset_empty_mem)
  show ?thesis
  proof (cases "sc = {||} \<or> p = []")
    case True
    then show ?thesis
      using empty cells by (auto simp: partition_matches_scope_def partition_on_def fset_empty_mem disjoint_def)
  next
    case False
    then show ?thesis
      by (auto simp: partition_matches_scope_def partition_on_def union_of_cells fset_empty_mem)
  qed
qed

section \<open>Histories\<close>

text \<open>One operation on the configuration and the processed events, under an authority and a freshness lookup.\<close>

inductive governance_step ::
    "authority_check \<Rightarrow> freshness_lookup \<Rightarrow> governance_configuration \<times> string fset
      \<Rightarrow> governance_configuration \<times> string fset \<Rightarrow> bool"
  for auth fresh where
  opens: "commit_event_opening g obs k p = Some (g', p') \<Longrightarrow> governance_step auth fresh (g, p) (g', p')"
| decides: "governance_record_decision g d auth = Some g' \<Longrightarrow> governance_step auth fresh (g, p) (g', p)"
| applies: "apply_state_transition g a auth fresh = Some g' \<Longrightarrow> governance_step auth fresh (g, p) (g', p)"
| discharges: "apply_review_discharge g a auth fresh sa = Some g' \<Longrightarrow> governance_step auth fresh (g, p) (g', p)"

inductive_cases governance_stepE: "governance_step auth fresh (g, p) (g', p')"

text \<open>Authority and facts may differ from one operation to the next.\<close>

definition governance_history :: "governance_configuration \<times> string fset \<Rightarrow> governance_configuration \<times> string fset \<Rightarrow> bool" where
  "governance_history = (\<lambda>x y. \<exists>auth fresh. governance_step auth fresh x y)\<^sup>*\<^sup>*"

lemma history_refl: "governance_history x x"
  by (simp add: governance_history_def)

lemma history_step: "governance_history x y \<Longrightarrow> governance_step auth fresh y z \<Longrightarrow> governance_history x z"
  unfolding governance_history_def by (rule rtranclp.rtrancl_into_rtrancl) blast+

section \<open>What each operation changes\<close>

lemmas lookup_defs = state_of_def obligation_of_def decision_of_def receipt_of_def

lemma opening_effect:
  assumes "commit_event_opening g obs k p = Some (g', p')"
  shows "gcfg_states g' = gcfg_states g" "grt_decisions (gcfg_runtime g') = grt_decisions (gcfg_runtime g)"
    "grt_applications (gcfg_runtime g') = grt_applications (gcfg_runtime g)"
proof -
  have "grt_decisions (open_all rt obs) = grt_decisions rt \<and> grt_applications (open_all rt obs) = grt_applications rt" for rt
    by (induction obs arbitrary: rt) (auto simp: open_all_def open_obligation_def split: option.splits)
  with assms show "gcfg_states g' = gcfg_states g" "grt_decisions (gcfg_runtime g') = grt_decisions (gcfg_runtime g)"
    "grt_applications (gcfg_runtime g') = grt_applications (gcfg_runtime g)"
    by (auto simp: commit_event_opening_def split: if_splits)
qed

lemma deciding_effect:
  assumes "governance_record_decision g d auth = Some g'"
  shows "g' = g \<or> decision_of g (gdec_id d) = None \<and> g' = put_decision d g"
    "decision_of g' (gdec_id d) = Some d"
  using assms
  by (auto simp: governance_record_decision_def decision_record_admissible_def put_decision_def lookup_defs
      split: if_splits option.splits)

lemma application_admissibleE:
  assumes "application_admissible g a auth fresh"
  obtains s d where "state_of g (gapp_scheme_id a) = Some s" "decision_of g (gapp_decision_ref a) = Some d"
    "gdec_target d = gapp_scheme_id a" "auth (application_authority_request a d)"
    "decision_fresh_for_application d g fresh" "receipt_of g (gapp_id a) = None"
    "state_admissible_for (gapp_scheme_id a) (candidate_state_effect a s)"
    "gdec_disposition d = ''transition_required''" "effect_matches_decision d (candidate_state_effect a s)"
    "linked a d"
proof -
  from assms obtain d where d: "decision_of g (gapp_decision_ref a) = Some d"
    by (simp add: application_admissible_def split: if_split_asm option.split_asm)
  with assms obtain s where s: "state_of g (gapp_scheme_id a) = Some s"
    by (simp add: application_admissible_def split: if_split_asm option.split_asm)
  have "auth (application_authority_request a d)" "linked a d" "decision_fresh_for_application d g fresh" "precondition a g"
      "state_admissible_for (gapp_scheme_id a) (candidate_state_effect a s)"
      "gdec_disposition d = ''transition_required''" "effect_matches_decision d (candidate_state_effect a s)"
    using assms by (simp_all add: application_admissible_def d s Let_def split: if_split_asm)
  moreover from this have "receipt_of g (gapp_id a) = None" "gdec_target d = gapp_scheme_id a"
    by (simp_all add: precondition_def linked_def split: if_split_asm)
  ultimately show thesis using that s d by blast
qed

definition applied :: "governance_configuration \<Rightarrow> governed_application \<Rightarrow> distinction_state \<Rightarrow> governance_configuration" where
  "applied g a s = g\<lparr>gcfg_states := dict_set (gapp_scheme_id a) (candidate_state_effect a s) (gcfg_states g),
     gcfg_runtime := put_receipt (state_receipt a s) (gcfg_runtime g)\<rparr>"

lemma applying_effect:
  assumes "apply_state_transition g a auth fresh = Some g'"
  shows "application_admissible g a auth fresh"
    "state_of g (gapp_scheme_id a) = Some s \<Longrightarrow> g' = applied g a s"
  using assms
  by (auto simp: apply_state_transition_def applied_def Let_def split: if_split_asm)

lemma discharge_admissibleE:
  assumes "discharge_admissible g a auth fresh sa"
  obtains oid ob d s where "gapp_review_obligation_id a = Some oid" "obligation_of g oid = Some ob"
    "decision_of g (gapp_decision_ref a) = Some d" "state_of g (gdec_target d) = Some s"
    "auth (review_discharge_authority_request a ob s)" "closure_admissible d ob g fresh"
    "decision_fresh_for_discharge d g fresh sa" "receipt_of g (gapp_id a) = None"
proof -
  from assms obtain oid ob d where 1: "gapp_review_obligation_id a = Some oid" "obligation_of g oid = Some ob"
      "decision_of g (gapp_decision_ref a) = Some d"
    by (simp add: discharge_admissible_def split: if_split_asm option.split_asm)
  with assms obtain s where 2: "state_of g (gdec_target d) = Some s"
    by (simp add: discharge_admissible_def split: if_split_asm option.split_asm)
  have "auth (review_discharge_authority_request a ob s)" "precondition a g" "closure_admissible d ob g fresh"
      "decision_fresh_for_discharge d g fresh sa"
    using assms by (simp_all add: discharge_admissible_def 1 2 split: if_split_asm)
  moreover from this(2) have "receipt_of g (gapp_id a) = None"
    by (simp add: precondition_def split: if_split_asm)
  ultimately show thesis using that 1 2 by blast
qed

definition discharged :: "governance_configuration \<Rightarrow> governed_application \<Rightarrow> string \<Rightarrow> governance_configuration" where
  "discharged g a oid = g\<lparr>gcfg_runtime := put_receipt (discharge_receipt a (gcfg_runtime g) oid)
     ((gcfg_runtime g)\<lparr>grt_obligations := candidate_discharge_effect oid (gcfg_runtime g)\<rparr>)\<rparr>"

lemma discharging_effect:
  assumes "apply_review_discharge g a auth fresh sa = Some g'"
  shows "discharge_admissible g a auth fresh sa"
    "gapp_review_obligation_id a = Some oid \<Longrightarrow> g' = discharged g a oid"
  using assms
  by (auto simp: apply_review_discharge_def discharged_def Let_def split: if_split_asm option.split_asm)

lemma state_of_put [simp]:
  "state_of (g\<lparr>gcfg_states := ss, gcfg_runtime := rt\<rparr>) i = map_of ss i"
  "state_of (g\<lparr>gcfg_runtime := rt\<rparr>) i = state_of g i"
  "state_of (put_decision d g) i = state_of g i"
  by (simp_all add: state_of_def put_decision_def)

lemma decision_of_put [simp]:
  "decision_of (g\<lparr>gcfg_states := ss, gcfg_runtime := rt\<rparr>) j = map_of (grt_decisions rt) j"
  "decision_of (g\<lparr>gcfg_runtime := rt\<rparr>) j = map_of (grt_decisions rt) j"
  "decision_of (put_decision d g) j = (if j = gdec_id d then Some d else decision_of g j)"
  by (simp_all add: decision_of_def put_decision_def)

lemma receipt_of_put [simp]:
  "receipt_of (g\<lparr>gcfg_states := ss, gcfg_runtime := rt\<rparr>) j = map_of (grt_applications rt) j"
  "receipt_of (g\<lparr>gcfg_runtime := rt\<rparr>) j = map_of (grt_applications rt) j"
  "receipt_of (put_decision d g) j = receipt_of g j"
  by (simp_all add: receipt_of_def put_decision_def)

lemma put_receipt_simps [simp]:
  "grt_applications (put_receipt r rt) = dict_set (gapp_id (rcpt_application r)) r (grt_applications rt)"
  "grt_decisions (put_receipt r rt) = grt_decisions rt"
  "grt_obligations (put_receipt r rt) = grt_obligations rt"
  by (simp_all add: put_receipt_def)

lemma applied_simps [simp]:
  "gcfg_states (applied g a s) = dict_set (gapp_scheme_id a) (candidate_state_effect a s) (gcfg_states g)"
  "state_of (applied g a s) i = (if i = gapp_scheme_id a then Some (candidate_state_effect a s) else state_of g i)"
  "decision_of (applied g a s) j = decision_of g j"
  "receipt_of (applied g a s) j = (if j = gapp_id a then Some (state_receipt a s) else receipt_of g j)"
  "grt_obligations (gcfg_runtime (applied g a s)) = grt_obligations (gcfg_runtime g)"
  by (simp_all add: applied_def lookup_defs state_receipt_def)

lemma discharged_simps [simp]:
  "gcfg_states (discharged g a k) = gcfg_states g"
  "state_of (discharged g a k) i = state_of g i"
  "decision_of (discharged g a k) j = decision_of g j"
  "receipt_of (discharged g a k) j = (if j = gapp_id a then Some (discharge_receipt a (gcfg_runtime g) k) else receipt_of g j)"
  "grt_obligations (gcfg_runtime (discharged g a k)) = dict_del k (grt_obligations (gcfg_runtime g))"
  by (simp_all add: discharged_def lookup_defs discharge_receipt_def candidate_discharge_effect_def)

lemma candidate_state_effect_simps [simp]:
  "dst_version (candidate_state_effect a s) = dst_version s + 1"
  "dst_scope (candidate_state_effect a s) = dst_scope s"
  "dst_partition (candidate_state_effect a s) = dst_partition s"
  by (simp_all add: candidate_state_effect_def)

text \<open>The four ways a step goes, over the lookups.\<close>

lemma governance_step_cases [consumes 1, case_names opens decides applies discharges]:
  assumes "governance_step auth fresh (g, p) (g', p')"
  obtains (opens) obs k where "commit_event_opening g obs k p = Some (g', p')"
      "\<And>i. state_of g' i = state_of g i" "gcfg_states g' = gcfg_states g"
      "\<And>i. decision_of g' i = decision_of g i" "\<And>i. receipt_of g' i = receipt_of g i"
  | (decides) d where "g' = put_decision d g" "decision_of g (gdec_id d) = None \<or> g' = g"
      "governance_record_decision g d auth = Some g'"
  | (applies) a d s where "g' = applied g a s" "apply_state_transition g a auth fresh = Some g'"
      "state_of g (gapp_scheme_id a) = Some s" "decision_of g (gapp_decision_ref a) = Some d"
      "gdec_target d = gapp_scheme_id a" "auth (application_authority_request a d)"
      "decision_fresh_for_application d g fresh" "receipt_of g (gapp_id a) = None"
      "state_admissible_for (gapp_scheme_id a) (candidate_state_effect a s)"
  | (discharges) a d ob k s sa where "g' = discharged g a k" "gapp_review_obligation_id a = Some k"
      "obligation_of g k = Some ob" "decision_of g (gapp_decision_ref a) = Some d"
      "state_of g (gdec_target d) = Some s" "auth (review_discharge_authority_request a ob s)"
      "closure_admissible d ob g fresh" "decision_fresh_for_discharge d g fresh sa" "receipt_of g (gapp_id a) = None"
proof -
  have unchanged: "put_decision d g = g" if "decision_of g (gdec_id d) = Some d" for d
  proof -
    have "dict_set k v ps = ps" if "map_of ps k = Some v" for k v and ps :: "(string \<times> governance_decision) list"
      using that by (induction k v ps rule: dict_set.induct) (auto split: if_splits)
    with that show ?thesis by (simp add: put_decision_def decision_of_def)
  qed
  from assms consider
      (o) obs k where "commit_event_opening g obs k p = Some (g', p')"
    | (d) d where "governance_record_decision g d auth = Some g'"
    | (a) a where "apply_state_transition g a auth fresh = Some g'"
    | (r) a sa where "apply_review_discharge g a auth fresh sa = Some g'"
    by (erule governance_stepE) blast+
  then show thesis
  proof cases
    case o
    with opening_effect [OF o] show ?thesis by (intro opens) (simp_all add: lookup_defs)
  next
    case d
    with deciding_effect [OF d] unchanged show ?thesis by (intro decides [of d]) auto
  next
    case a
    from applying_effect(1) [OF a] show ?thesis
      by (rule application_admissibleE) (use a applying_effect(2) [OF a] applies in blast)
  next
    case r
    from discharging_effect(1) [OF r] show ?thesis
      by (rule discharge_admissibleE) (use r discharging_effect(2) [OF r] discharges in blast)
  qed
qed

section \<open>States\<close>

definition same_distinction :: "distinction_state \<Rightarrow> distinction_state \<Rightarrow> bool" where
  "same_distinction s s' \<longleftrightarrow> dst_scope s' = dst_scope s \<and> dst_partition s' = dst_partition s
     \<and> dst_version s \<le> dst_version s'"

definition keeps_distinction :: "governance_configuration \<Rightarrow> governance_configuration \<Rightarrow> bool" where
  "keeps_distinction g g' \<longleftrightarrow> (\<forall>i. rel_option same_distinction (state_of g i) (state_of g' i))"

lemma same_distinction_refl: "same_distinction s s"
  by (simp add: same_distinction_def)

lemma keeps_distinction_refl: "keeps_distinction g g"
  by (simp add: keeps_distinction_def option.rel_refl same_distinction_refl)

lemma keeps_distinction_trans:
  assumes "keeps_distinction f g" "keeps_distinction g h"
  shows "keeps_distinction f h"
  unfolding keeps_distinction_def
proof
  fix i
  have "rel_option same_distinction (state_of f i) (state_of g i)" "rel_option same_distinction (state_of g i) (state_of h i)"
    using assms by (simp_all add: keeps_distinction_def)
  then show "rel_option same_distinction (state_of f i) (state_of h i)"
    by (cases "state_of f i"; cases "state_of g i"; cases "state_of h i") (auto simp: same_distinction_def)
qed

lemma step_keeps_distinction:
  assumes "governance_step auth fresh (g, p) (g', p')"
  shows "keeps_distinction g g'"
  using assms
proof (cases rule: governance_step_cases)
  case (opens obs k)
  then show ?thesis by (simp add: keeps_distinction_def option.rel_refl same_distinction_refl)
next
  case (applies a d s)
  then show ?thesis
    unfolding applies(1) by (simp add: keeps_distinction_def option.rel_refl same_distinction_def)
next
  case (decides d)
  show ?thesis unfolding decides(1) by (simp add: keeps_distinction_def option.rel_refl same_distinction_refl)
next
  case (discharges a d ob k s sa)
  show ?thesis unfolding discharges(1) by (simp add: keeps_distinction_def option.rel_refl same_distinction_refl)
qed

lemma set_dict_set: "set (dict_set k v ps) \<subseteq> insert (k, v) (set ps)"
  by (induction k v ps rule: dict_set.induct) auto

lemma step_keeps_admissible:
  assumes "governance_step auth fresh (g, p) (g', p')" "global_state_admissible g"
  shows "global_state_admissible g'"
  using assms(1)
proof (cases rule: governance_step_cases)
  case (applies a d s)
  with assms(2) show ?thesis
    using set_dict_set [of "gapp_scheme_id a" "candidate_state_effect a s" "gcfg_states g"]
    by (force simp: global_state_admissible_def list_all_iff)
next
  case (decides d)
  with assms(2) show ?thesis by (simp add: global_state_admissible_def put_decision_def)
qed (use assms(2) in \<open>simp_all add: global_state_admissible_def\<close>)

lemma governance_history_induct [consumes 1, case_names start step]:
  assumes "governance_history (g0, p0) (g, p)" and "P g0"
    and "\<And>auth fresh g p g' p'. P g \<Longrightarrow> governance_step auth fresh (g, p) (g', p') \<Longrightarrow> P g'"
  shows "P g"
proof -
  have "P (fst y)" if "(\<lambda>x y. \<exists>auth fresh. governance_step auth fresh x y)\<^sup>*\<^sup>* (g0, p0) y" for y
    using that
  proof induction
    case base
    then show ?case using assms(2) by simp
  next
    case (step y z)
    then show ?case using assms(3) by (metis surj_pair fst_conv)
  qed
  with assms(1) show ?thesis by (fastforce simp: governance_history_def)
qed

text \<open>C14: Over every history of openings, decisions, applications and discharges the states of all distinctions
  stay admissible, no distinction appears or disappears, and each keeps its scope and its partition while
  its version never decreases.
\<close>

theorem distinctions_stay_admissible:
  assumes "governance_history (g0, p0) (g, p)" "global_state_admissible g0"
  shows "global_state_admissible g \<and> keeps_distinction g0 g"
  using assms(1)
proof (induction rule: governance_history_induct)
  case start
  then show ?case using assms(2) keeps_distinction_refl by blast
next
  case (step auth fresh g p g' p')
  then show ?case using step_keeps_admissible step_keeps_distinction keeps_distinction_trans by blast
qed

section \<open>A decision is applied once\<close>

text \<open>A decision is spent when the state it was made for has been left.\<close>

definition spent :: "governance_configuration \<Rightarrow> governance_decision \<Rightarrow> bool" where
  "spent g d \<longleftrightarrow> (\<exists>s0 s. state_anchor s0 = gdec_expected_state_anchor d \<and> state_of g (gdec_target d) = Some s
     \<and> dst_version s0 < dst_version s)"

lemma spent_not_fresh:
  assumes "spent g d"
  shows "\<not> decision_fresh_for_application d g fresh"
proof
  assume f: "decision_fresh_for_application d g fresh"
  obtain s0 s where s: "state_anchor s0 = gdec_expected_state_anchor d" "state_of g (gdec_target d) = Some s"
      "dst_version s0 < dst_version s"
    using assms by (auto simp: spent_def)
  with f have "state_anchor s0 = state_anchor s" by (simp add: decision_fresh_for_application_def)
  with s(3) show False by (auto dest: state_anchor_version)
qed

lemma spent_kept:
  assumes "spent g d" "keeps_distinction g g'"
  shows "spent g' d"
proof -
  obtain s0 s where s: "state_anchor s0 = gdec_expected_state_anchor d" "state_of g (gdec_target d) = Some s"
      "dst_version s0 < dst_version s"
    using assms(1) by (auto simp: spent_def)
  have "rel_option same_distinction (state_of g (gdec_target d)) (state_of g' (gdec_target d))"
    using assms(2) by (simp add: keeps_distinction_def)
  then obtain s' where "state_of g' (gdec_target d) = Some s'" "dst_version s \<le> dst_version s'"
    unfolding s(2) by (auto simp: option_rel_Some1 same_distinction_def)
  with s show ?thesis unfolding spent_def by force
qed

lemma fresh_spent: "decision_fresh_for_application d g fresh \<Longrightarrow> gdec_target d = gapp_scheme_id a \<Longrightarrow>
    state_of g (gapp_scheme_id a) = Some s \<Longrightarrow> spent (applied g a s) d"
  by (auto simp: spent_def decision_fresh_for_application_def)

definition is_state_receipt :: "governance_configuration \<Rightarrow> string \<Rightarrow> application_receipt \<Rightarrow> bool" where
  "is_state_receipt g x r \<longleftrightarrow> receipt_of g x = Some r \<and> rcpt_effect_kind r = ''state''"

abbreviation decided_by :: "application_receipt \<Rightarrow> string" where
  "decided_by r \<equiv> gapp_decision_ref (rcpt_application r)"

definition applied_once :: "governance_configuration \<Rightarrow> bool" where
  "applied_once g \<longleftrightarrow> (\<forall>x r. is_state_receipt g x r \<longrightarrow> (\<exists>d. decision_of g (decided_by r) = Some d \<and> spent g d))
     \<and> (\<forall>x y r r'. is_state_receipt g x r \<longrightarrow> is_state_receipt g y r' \<longrightarrow> decided_by r = decided_by r' \<longrightarrow> x = y)"

lemma applied_once_same:
  assumes "applied_once g" "\<And>x r. is_state_receipt g' x r \<Longrightarrow> is_state_receipt g x r" "keeps_distinction g g'"
    and "\<And>i d. decision_of g i = Some d \<Longrightarrow> decision_of g' i = Some d"
  shows "applied_once g'"
  using assms unfolding applied_once_def by (meson spent_kept)

lemma step_applied_once:
  assumes "applied_once g" and st: "governance_step auth fresh (g, p) (g', p')"
  shows "applied_once g'"
  using st
proof (cases rule: governance_step_cases)
  case (opens obs k)
  then show ?thesis
    using applied_once_same [OF assms(1) _ step_keeps_distinction [OF st]] by (simp add: is_state_receipt_def)
next
  case (decides d)
  have "receipt_of g' x = receipt_of g x" for x using decides(1) by simp
  moreover have "decision_of g i = Some e \<Longrightarrow> decision_of g' i = Some e" for i e
    using decides(2)
  proof
    assume "decision_of g i = Some e" "decision_of g (gdec_id d) = None"
    then show ?thesis unfolding decides(1) by auto
  qed simp
  ultimately show ?thesis
    using applied_once_same [OF assms(1) _ step_keeps_distinction [OF st]] by (simp add: is_state_receipt_def)
next
  case (discharges a d ob k s sa)
  then have "is_state_receipt g' x r \<Longrightarrow> is_state_receipt g x r" for x r
    by (auto simp: is_state_receipt_def discharge_receipt_def split: if_splits)
  with discharges(1) show ?thesis
    using applied_once_same [OF assms(1) _ step_keeps_distinction [OF st]] by simp
next
  case (applies a d s)
  have old: "is_state_receipt g' x r \<longleftrightarrow> (if x = gapp_id a then r = state_receipt a s else is_state_receipt g x r)" for x r
    using applies(1) by (auto simp: is_state_receipt_def state_receipt_def)
  have none: "decided_by r \<noteq> gapp_decision_ref a" if "is_state_receipt g x r" for x r
  proof
    assume "decided_by r = gapp_decision_ref a"
    with that assms(1) applies(4) have "spent g d" by (metis applied_once_def option.inject)
    with applies(7) spent_not_fresh show False by blast
  qed
  have "spent g' d" using fresh_spent applies by blast
  have "\<exists>e. decision_of g' (decided_by r) = Some e \<and> spent g' e" if r: "is_state_receipt g' x r" for x r
  proof (cases "x = gapp_id a")
    case True
    with r old applies(4) \<open>spent g' d\<close> show ?thesis by (auto simp: applies(1) state_receipt_def)
  next
    case False
    with r old have "is_state_receipt g x r" by simp
    with assms(1) obtain e where "decision_of g (decided_by r) = Some e" "spent g e"
      by (metis applied_once_def)
    with spent_kept [OF _ step_keeps_distinction [OF st]] show ?thesis by (auto simp: applies(1))
  qed
  moreover have "x = y" if "is_state_receipt g' x r" "is_state_receipt g' y r'" "decided_by r = decided_by r'" for x y r r'
  proof (rule ccontr)
    assume "x \<noteq> y"
    with that old none [of x r] none [of y r'] assms(1) show False
      by (auto simp: applied_once_def state_receipt_def split: if_splits)
  qed
  ultimately show ?thesis by (auto simp: applied_once_def)
qed

text \<open>C15: No decision backs two state transitions: over every history that starts without receipts, two recorded
  state applications that refer to the same decision are the same application.
\<close>

theorem decision_applied_once:
  assumes "governance_history (g0, p0) (g, p)" "grt_applications (gcfg_runtime g0) = []"
    and "is_state_receipt g x r" "is_state_receipt g y r'" "decided_by r = decided_by r'"
  shows "x = y"
proof -
  from assms(1) have "applied_once g"
  proof (induction rule: governance_history_induct)
    case start
    then show ?case using assms(2) by (simp add: applied_once_def is_state_receipt_def receipt_of_def)
  next
    case (step auth fresh g p g' p')
    then show ?case using step_applied_once by blast
  qed
  with assms(3-5) show ?thesis by (auto simp: applied_once_def)
qed

section \<open>Authority behind use\<close>

text \<open>The grants decide as the declarative condition on one of them says.\<close>

definition grant_allows :: "authority_grant \<Rightarrow> authority_request \<Rightarrow> bool" where
  "grant_allows g q \<longleftrightarrow> agr_actor g = areq_actor q \<and> agr_operation g = areq_operation q \<and> agr_context g = areq_context q
     \<and> (case agr_target g of Target t \<Rightarrow> authority_target_covers t (areq_target q)
        | Legacy_Target t \<Rightarrow> legacy_target_covers t (areq_target q))"

lemma grant_authority_step: "grant_authority (g # gs) q \<longleftrightarrow> grant_allows g q \<or> grant_authority gs q"
  by (cases "agr_target g") (auto simp: grant_allows_def)

lemma grant_authority_iff: "grant_authority gs q \<longleftrightarrow> (\<exists>g \<in> set gs. grant_allows g q)"
  by (induction gs) (simp_all add: grant_authority_step del: grant_authority.simps(2))

lemma blocking_review_iff:
  "blocking_review_open g i use \<longleftrightarrow> (\<exists>s k ob. state_of g i = Some s \<and> (k, ob) \<in> set (grt_obligations (gcfg_runtime g))
     \<and> rob_target ob = i \<and> obligation_blocks ob use (dst_scope s))"
  by (auto simp: blocking_review_open_def list_ex_iff split: option.splits)

text \<open>An opening keeps the entry of every open review, or puts another review with that identity in its place.\<close>

definition review_rebound :: "governance_configuration \<Rightarrow> governance_configuration \<Rightarrow> bool" where
  "review_rebound g g' \<longleftrightarrow> (\<exists>ob old. (rob_id ob, old) \<in> set (grt_obligations (gcfg_runtime g))
     \<and> (rob_id ob, ob) \<in> set (grt_obligations (gcfg_runtime g')) \<and> ob \<noteq> old)"

lemma dict_set_entry: "(k, v) \<in> set ps \<Longrightarrow> (k, v) \<in> set (dict_set l u ps) \<or> k = l \<and> (l, u) \<in> set (dict_set l u ps)"
  by (induction l u ps rule: dict_set.induct) (auto split: if_splits)

lemma open_all_entry:
  "(k, v) \<in> set (grt_obligations rt) \<Longrightarrow> \<exists>v'. (k, v') \<in> set (grt_obligations (open_all rt obs)) \<and> (v' = v \<or> rob_id v' = k)"
proof (induction obs arbitrary: rt v)
  case Nil
  then show ?case by (auto simp: open_all_def)
next
  case (Cons ob obs)
  let ?rt = "case open_obligation rt ob of None \<Rightarrow> rt | Some rt' \<Rightarrow> rt'"
  have step: "open_all rt (ob # obs) = open_all ?rt obs" by (simp add: open_all_def)
  have "(k, v) \<in> set (grt_obligations ?rt) \<or> k = rob_id ob \<and> (k, ob) \<in> set (grt_obligations ?rt)"
    using Cons.prems dict_set_entry [of k v "grt_obligations rt" "rob_id ob" ob]
    by (auto simp: open_obligation_def split: option.splits)
  with Cons.IH [of v ?rt] Cons.IH [of ob ?rt] show ?case unfolding step by blast
qed

lemma opening_unblocks:
  assumes "commit_event_opening g obs k p = Some (g', p')" "blocking_review_open g i use" "\<not> blocking_review_open g' i use"
  shows "review_rebound g g'"
proof -
  obtain s l ob where ob: "state_of g i = Some s" "(l, ob) \<in> set (grt_obligations (gcfg_runtime g))"
      "rob_target ob = i" "obligation_blocks ob use (dst_scope s)"
    using assms(2) by (auto simp: blocking_review_iff)
  have g': "grt_obligations (gcfg_runtime g') = grt_obligations (open_all (gcfg_runtime g) obs)" "state_of g' i = Some s"
    using assms(1) ob(1) by (auto simp: commit_event_opening_def state_of_def split: if_splits)
  obtain v where "(l, v) \<in> set (grt_obligations (gcfg_runtime g'))" "v = ob \<or> rob_id v = l"
    using open_all_entry [OF ob(2)] g'(1) by metis
  moreover from this(1) have "v \<noteq> ob" using assms(3) ob(3,4) g'(2) unfolding blocking_review_iff by blast
  ultimately show ?thesis using ob(2) by (auto simp: review_rebound_def)
qed


text \<open>In an admissible configuration an item is used through one cell only: whoever may resolve an assignment of
  the item, in whatever mode and context, resolves it to the same cell of the partition.
\<close>

theorem assignment_unique:
  assumes "global_state_admissible g" "resolve_allowed g auth actor i item c mode use"
    "resolve_allowed g auth' actor' i item c' mode' use'"
  shows "c = c'"
proof -
  obtain s where s: "state_of g i = Some s" "c \<in> set (dst_partition s)" "c' \<in> set (dst_partition s)" "item |\<in>| c" "item |\<in>| c'"
    using assms(2,3) by (auto simp: resolve_allowed_def split: option.splits)
  then have "state_admissible s"
    using assms(1) by (auto simp: global_state_admissible_def list_all_iff state_of_def state_admissible_for_def dest: map_of_SomeD)
  then have "partition_on (fset (dst_scope s)) (set (map fset (dst_partition s)))"
    by (simp add: state_admissible_def partition_reference split: if_splits)
  then have "disjoint (fset ` set (dst_partition s))" by (simp add: partition_on_def)
  then have "fset c \<inter> fset c' = {}" if "fset c \<noteq> fset c'"
    using s(2,3) that by (intro disjointD) blast+
  with s(4,5) show ?thesis by (auto simp flip: fset_inject)
qed

section \<open>A concrete history\<close>

text \<open>
  A candidate distinction with one open review that blocks its use in one context; the decision to
  qualify it, its application, and the discharge of the review it realizes.
\<close>

definition sample_candidate :: distinction_state where
  "sample_candidate = \<lparr>dst_qualification = ''candidate'', dst_activation = ''suspended'', dst_scope = {|''a'', ''b''|},
     dst_partition = [{|''b''|}, {|''a''|}], dst_version = 0\<rparr>"

definition sample_review :: review_obligation where
  "sample_review = \<lparr>rob_id = ''r'', rob_target = ''s'', rob_trigger_ref = ''e'', rob_basis_refs = [''x''],
     rob_context = ''c'', rob_blocking = True, rob_blocking_condition = None,
     rob_closure_requirements = {|''basis_checked''|}, rob_invalidates_decisions = {||}\<rparr>"

definition sample_decision :: governance_decision where
  "sample_decision = \<lparr>gdec_id = ''d'', gdec_actor = ''ann'', gdec_operation = ''decide_qualification'', gdec_target = ''s'',
     gdec_context = ''c'', gdec_review_refs = [''r''], gdec_disposition = ''transition_required'',
     gdec_expected_state_anchor = state_anchor sample_candidate, gdec_basis_anchors = [(''x'', ''1'')],
     gdec_scope_snapshot = {|''a'', ''b''|}, gdec_partition_snapshot = [{|''a''|}, {|''b''|}],
     gdec_closure_facts = {|''basis_checked''|}, gdec_required_qualification = Some ''qualified'',
     gdec_required_activation = None, gdec_superseded = False\<rparr>"

definition sample_application :: governed_application where
  "sample_application = \<lparr>gapp_id = ''p'', gapp_actor = ''ann'', gapp_operation = ''apply_qualification_transition'',
     gapp_scheme_id = ''s'', gapp_target = ''s'', gapp_decision_ref = ''d'', gapp_context = ''c'',
     gapp_new_qualification = Some ''qualified'', gapp_new_activation = None, gapp_review_obligation_id = None\<rparr>"

definition sample_discharge :: governed_application where
  "sample_discharge = \<lparr>gapp_id = ''q'', gapp_actor = ''ann'', gapp_operation = ''apply_review_discharge'',
     gapp_scheme_id = ''s'', gapp_target = ''review_obligation:r'', gapp_decision_ref = ''d'', gapp_context = ''c'',
     gapp_new_qualification = None, gapp_new_activation = None, gapp_review_obligation_id = Some ''r''\<rparr>"

definition sample_governance :: "distinction_state \<Rightarrow> governance_configuration" where
  "sample_governance s = \<lparr>gcfg_states = [(''s'', s)],
     gcfg_runtime = \<lparr>grt_obligations = [], grt_decisions = [], grt_applications = []\<rparr>\<rparr>"

definition sample_grants :: "authority_grant list" where
  "sample_grants = map (\<lambda>op. \<lparr>agr_actor = ''ann'', agr_operation = op, agr_target = Legacy_Target ''s'', agr_context = ''c''\<rparr>)
     [''decide_qualification'', ''apply_qualification_transition'', ''apply_review_discharge'']"

abbreviation sample_authority :: authority_check where
  "sample_authority \<equiv> grant_authority sample_grants"

definition sample_fresh :: freshness_lookup where
  "sample_fresh x = (if x = ''x'' then Some ''1'' else None)"

definition opened :: governance_configuration where
  "opened = (sample_governance sample_candidate)\<lparr>gcfg_runtime := \<lparr>grt_obligations = [(''r'', sample_review)],
     grt_decisions = [], grt_applications = []\<rparr>\<rparr>"

abbreviation "decided \<equiv> put_decision sample_decision opened"
abbreviation "qualified \<equiv> applied decided sample_application sample_candidate"

lemmas sample_defs = sample_candidate_def sample_review_def sample_decision_def sample_application_def sample_discharge_def
  sample_governance_def sample_grants_def sample_fresh_def opened_def

lemmas governance_eval = commit_event_opening_def open_all_def open_obligation_def governance_record_decision_def
  decision_record_admissible_def review_decision_input_matches_def put_decision_def apply_state_transition_def
  application_admissible_def apply_review_discharge_def discharge_admissible_def closure_admissible_def
  decision_fresh_for_discharge_def required_transition_realized_def state_receipt_def discharge_receipt_def
  candidate_discharge_effect_def dict_del_def put_receipt_def precondition_def linked_def common_decision_freshness_def
  decision_recorded_def relevant_basis_unchanged_def no_invalidating_review_def decision_fresh_for_application_def
  snapshot_current_def effect_matches_decision_def candidate_state_effect_def state_admissible_for_def state_admissible_def
  partition_matches_scope_def global_state_admissible_def review_key_def legacy_target_covers_def
  decision_authority_request_def application_authority_request_def review_discharge_authority_request_def state_target_def
  decision_target_def projection_authority_target_def lookup_defs applied_def discharged_def

lemma sample_partition: "canonical_partition [{|''b''|}, {|''a''|}] = canonical_partition [{|''a''|}, {|''b''|}]"
  by code_simp

lemma sample_runs:
  "commit_event_opening (sample_governance sample_candidate) [sample_review] ''e'' {||} = Some (opened, {|''e''|})"
  "governance_record_decision opened sample_decision sample_authority = Some decided"
  "apply_state_transition decided sample_application sample_authority sample_fresh = Some qualified"
  "apply_review_discharge qualified sample_discharge sample_authority sample_fresh (Some sample_application)
    = Some (discharged qualified sample_discharge ''r'')"
  "global_state_admissible (sample_governance sample_candidate)"
  by (simp_all add: governance_eval sample_defs sample_partition Let_def)

lemma sample_history:
  "governance_history (sample_governance sample_candidate, {||}) (qualified, {|''e''|})"
  by (rule history_step [OF history_step [OF history_step [OF history_refl
        governance_step.opens [OF sample_runs(1)]] governance_step.decides [OF sample_runs(2)]]
        governance_step.applies [OF sample_runs(3)]])

theorem distinctions_stay_admissible_witness:
  "global_state_admissible qualified \<and> keeps_distinction (sample_governance sample_candidate) qualified"
  by (rule distinctions_stay_admissible [OF sample_history sample_runs(5)])

lemma sample_receipt: "is_state_receipt qualified ''p'' (state_receipt sample_application sample_candidate)"
  by (simp add: is_state_receipt_def state_receipt_def sample_application_def)

theorem decision_applied_once_witness:
  "\<not> is_state_receipt qualified ''p2'' (state_receipt sample_application sample_candidate)"
  using decision_applied_once [OF sample_history _ sample_receipt, of "''p2''"] by (auto simp: sample_governance_def)

text \<open>Activating a qualified distinction, and using it.\<close>

definition sample_qualified :: distinction_state where
  "sample_qualified = sample_candidate\<lparr>dst_qualification := ''qualified''\<rparr>"

definition sample_activation :: governance_decision where
  "sample_activation = sample_decision\<lparr>gdec_id := ''d2'', gdec_operation := ''decide_activation'',
     gdec_expected_state_anchor := state_anchor sample_qualified, gdec_required_qualification := None,
     gdec_required_activation := Some ''active''\<rparr>"

definition sample_activate :: governed_application where
  "sample_activate = sample_application\<lparr>gapp_operation := ''apply_activation_transition'', gapp_decision_ref := ''d2'',
     gapp_new_qualification := None, gapp_new_activation := Some ''active''\<rparr>"

definition broad_authority :: authority_check where
  "broad_authority = grant_authority [\<lparr>agr_actor = ''ann'', agr_operation = ''apply_activation_transition'',
       agr_target = Target (decision_target sample_activation), agr_context = ''c''\<rparr>,
     \<lparr>agr_actor = ''ann'', agr_operation = ''resolve_assignment'', agr_target = Legacy_Target ''s'', agr_context = ''c''\<rparr>]"

abbreviation "inactive \<equiv> put_decision sample_activation (sample_governance sample_qualified)"
abbreviation "activated \<equiv> applied inactive sample_activate sample_qualified"
abbreviation "sample_use \<equiv> \<lparr>uctx_name = ''c'', uctx_requested_scope = {||}\<rparr>"

abbreviation "blocked_use \<equiv> activated\<lparr>gcfg_runtime := (gcfg_runtime activated)\<lparr>grt_obligations := [(''r'', sample_review)]\<rparr>\<rparr>"
abbreviation "other_review \<equiv> sample_review\<lparr>rob_trigger_ref := ''e2'', rob_blocking := False\<rparr>"
abbreviation "rebound_use \<equiv> blocked_use\<lparr>gcfg_runtime := (gcfg_runtime blocked_use)\<lparr>grt_obligations := [(''r'', other_review)]\<rparr>\<rparr>"

lemmas activation_defs = sample_qualified_def sample_activation_def sample_activate_def

lemmas use_eval = usable_def scope_matches_def blocking_review_open_def obligation_blocks_def

lemma sample_activates: "apply_state_transition inactive sample_activate broad_authority sample_fresh = Some activated"
  by (simp add: governance_eval activation_defs sample_defs sample_partition broad_authority_def authority_target_covers_def Let_def)

lemma sample_usable: "\<not> usable inactive ''s'' sample_use" "usable activated ''s'' sample_use"
  "distinct (map fst (grt_obligations (gcfg_runtime inactive)))"
  by (simp_all add: governance_eval use_eval activation_defs sample_defs)


lemma sample_resolves: "global_state_admissible activated"
  "resolve_allowed activated broad_authority ''ann'' ''s'' ''a'' {|''a''|} ''m'' sample_use"
  by (simp_all add: governance_eval use_eval activation_defs sample_defs broad_authority_def resolve_allowed_def
      assignment_authority_request_def)

theorem assignment_unique_witness:
  "\<not> resolve_allowed activated broad_authority ''ann'' ''s'' ''a'' {|''b''|} ''m'' sample_use"
  using assignment_unique [OF sample_resolves] by fastforce

text \<open>The identity of an open review is not protected: another review that carries it takes its place.\<close>

theorem rebound_review_unblocks:
  "\<exists>g ob g' p'. \<not> usable g ''s'' sample_use \<and> commit_event_opening g [ob] ''e2'' {|''e''|} = Some (g', p') \<and> usable g' ''s'' sample_use"
proof -
  have "\<not> usable blocked_use ''s'' sample_use" "usable rebound_use ''s'' sample_use"
    by (simp_all add: governance_eval use_eval activation_defs sample_defs)
  moreover have "commit_event_opening blocked_use [other_review] ''e2'' {|''e''|} = Some (rebound_use, {|''e2'', ''e''|})"
    by (simp add: governance_eval activation_defs sample_defs)
  ultimately show ?thesis by blast
qed

end
