(* ===== verification/Governance_Properties.thy ===== *)
theory Governance_Properties
  imports Governance_Replay Revalidation Distinction_Properties
begin

text \<open>
  What the durable governance guarantees: the projection kept beside the journal is at every moment the
  one the canonical history reconstructs, the lifecycle does what the pure operations say, and a
  blocking change blocks.
\<close>

section \<open>Facts are told apart by their events\<close>

lemma replay_fact_inj: "replay_fact f empty_history = replay_fact f' empty_history \<Longrightarrow> f = f'"
  by (cases f; cases f'; (cases rule: option.exhaust [of "case f of F_Receipt r n \<Rightarrow> n | _ \<Rightarrow> None"])?;
      (cases rule: option.exhaust [of "case f' of F_Receipt r n \<Rightarrow> n | _ \<Rightarrow> None"])?)
    (simp_all add: empty_history_def later_state_def replay_review_def replay_decision_def replay_receipt_def
      replay_processed_def bind_once_def)

lemma event_dump_reads:
  assumes "event_dump e = event_dump e'"
  shows "replay_event e h = replay_event e' h"
proof -
  have "ev_type e = ev_type e'" "ev_payload e = ev_payload e'" "ev_subject_ref e = ev_subject_ref e'"
    using assms by (cases e; cases e'; simp add: event_dump_def)+
  then show ?thesis
    by (simp add: replay_event_def event_dict_def validate_governance_history_event_def is_history_event_def Let_def)
qed

lemma fact_event_inj:
  assumes "event_dump (fact_event E f t) = event_dump (fact_event E f' t')" "fact_ok f" "fact_ok f'"
  shows "f = f'"
  using event_dump_reads [OF assms(1), of empty_history] assms(2,3)
  by (intro replay_fact_inj) (simp add: replay_fact_event)

section \<open>The facts of a journal\<close>

definition keyed :: "store \<Rightarrow> bool" where
  "keyed s \<longleftrightarrow> distinct (map fst (st_event s)) \<and> (\<forall>(i, e) \<in> set (st_event s). ev_id e = i)"

definition recorded :: "env \<Rightarrow> store \<Rightarrow> (fact \<times> time) list \<Rightarrow> bool" where
  "recorded E s fts \<longleftrightarrow> filter is_history_event (map snd (st_event s)) = map (\<lambda>(f, t). fact_event E f t) fts
     \<and> (\<forall>f \<in> fst ` set fts. fact_ok f)"

lemma recorded_event:
  assumes "keyed s" "recorded E s fts" "f \<in> fst ` set fts"
  obtains t where "get_event s (ev_id (fact_event E f t)) = Some (fact_event E f t)"
proof -
  obtain t where "(f, t) \<in> set fts" using assms(3) by auto
  then have "fact_event E f t \<in> set (map (\<lambda>(f, t). fact_event E f t) fts)" by force
  then have "fact_event E f t \<in> set (filter is_history_event (map snd (st_event s)))"
    using assms(2) by (simp add: recorded_def)
  then obtain i where "(i, fact_event E f t) \<in> set (st_event s)" by auto
  with assms(1) show thesis by (intro that) (auto simp: keyed_def get_event_def)
qed

lemma event_recorded:
  assumes "recorded E s fts" "get_event s i = Some e" "is_history_event e"
  obtains f t where "(f, t) \<in> set fts" "e = fact_event E f t"
proof -
  have "e \<in> set (filter is_history_event (map snd (st_event s)))"
    using assms(2,3) by (force simp: get_event_def dest: map_of_SomeD)
  with assms(1) that show thesis by (auto simp: recorded_def)
qed

lemma ev_id_fact [simp]:
  "ev_id (state_seed_event E i s t) = governance_event_id E ''state'' i"
  "ev_id (review_opened_event E ob t) = governance_event_id E ''review'' (rob_id ob)"
  "ev_id (decision_recorded_event E d t) = governance_event_id E ''decision'' (gdec_id d)"
  "ev_id (application_committed_event E r n t) = governance_event_id E ''application'' (gapp_id (rcpt_application r))"
  "ev_id (processed_event E k ids t) = governance_event_id E ''processed'' k"
  by (simp_all add: fact_event_defs Let_def)

lemma ev_id_time: "ev_id (fact_event E f t) = ev_id (fact_event E f t')"
  by (cases f) simp_all

lemma fact_id_taken:
  assumes "keyed s" "recorded E s fts" "f \<in> fst ` set fts"
  shows "get_event s (ev_id (fact_event E f t)) \<noteq> None"
  using recorded_event [OF assms] ev_id_time [of E f] by (metis option.distinct(1))

lemma event_dump_history: "event_dump e = event_dump e' \<Longrightarrow> is_history_event e = is_history_event e'"
  by (cases e; cases e') (simp add: event_dump_def is_history_event_def)

text \<open>Appending a new fact that the journal accepts.\<close>

lemma append_fact:
  assumes k: "keyed s" and r: "recorded E s fts" and f: "fact_ok f" "f \<notin> fst ` set fts"
    and a: "append_event (fact_event E f t) s = (Inr (), s')"
  shows "get_event s (ev_id (fact_event E f t)) = None"
    "st_event s' = st_event s @ [(ev_id (fact_event E f t), fact_event E f t)]"
proof -
  let ?e = "fact_event E f t"
  show new: "get_event s (ev_id ?e) = None"
  proof (rule ccontr)
    assume "get_event s (ev_id ?e) \<noteq> None"
    with a obtain old where old: "get_event s (ev_id ?e) = Some old" "event_dump old = event_dump ?e"
      by (auto simp: append_event_def split: option.splits if_splits)
    then have "is_history_event old"
      using fact_event_history event_dump_history by metis
    with event_recorded [OF r old(1)] obtain f' t' where f': "(f', t') \<in> set fts" "old = fact_event E f' t'" by metis
    moreover have "fact_ok f'" using r f' by (force simp: recorded_def)
    ultimately have "f' = f" using fact_event_inj [of E f' t' f t] old(2) f(1) by simp
    with f' f(2) show False by force
  qed
  with a show "st_event s' = st_event s @ [(ev_id ?e, ?e)]"
    by (auto simp: append_event_def get_event_def dict_set_new split: option.splits)
qed

lemma keyed_append:
  assumes "keyed s" "get_event s (ev_id e) = None" "st_event s' = st_event s @ [(ev_id e, e)]"
  shows "keyed s'"
  using assms by (auto simp: keyed_def get_event_def map_of_eq_None_iff)

lemma recorded_append:
  assumes "recorded E s fts" "st_event s' = st_event s @ [(ev_id (fact_event E f t), fact_event E f t)]" "fact_ok f"
  shows "recorded E s' (fts @ [(f, t)])"
  using assms fact_event_history [of E f t] by (auto simp: recorded_def)

lemma new_fact_unbound:
  assumes k: "keyed s" and r: "recorded E s fts" and new: "get_event s (ev_id (fact_event E f t)) = None"
  shows "f = F_Review ob \<Longrightarrow> reviews_in (fst ` set fts) (rob_id ob) = {}"
    "f = F_Decision d \<Longrightarrow> decisions_in (fst ` set fts) (gdec_id d) = {}"
    "f = F_Receipt rc n \<Longrightarrow> receipts_in (fst ` set fts) (gapp_id (rcpt_application rc)) = {}"
    "f = F_Processed i ids \<Longrightarrow> processed_in (fst ` set fts) i = {}"
proof -
  have no: "ev_id (fact_event E f' t) \<noteq> ev_id (fact_event E f t)" if "f' \<in> fst ` set fts" for f'
    using fact_id_taken [OF k r that, of t] new by auto
  show "f = F_Review ob \<Longrightarrow> reviews_in (fst ` set fts) (rob_id ob) = {}"
    using no by (force simp: reviews_in_def)
  show "f = F_Decision d \<Longrightarrow> decisions_in (fst ` set fts) (gdec_id d) = {}"
    using no by (force simp: decisions_in_def)
  show "f = F_Receipt rc n \<Longrightarrow> receipts_in (fst ` set fts) (gapp_id (rcpt_application rc)) = {}"
    using no by (force simp: receipts_in_def)
  show "f = F_Processed i ids \<Longrightarrow> processed_in (fst ` set fts) i = {}"
    using no by (force simp: processed_in_def)
qed

lemma single_insert: "single V \<Longrightarrow> V i = {} \<Longrightarrow> single (V(i := {x}))"
  by (auto simp: single_def)

lemma coherent_append:
  assumes k: "keyed s" and r: "recorded E s fts" and c: "coherent (fst ` set fts)"
    and new: "get_event s (ev_id (fact_event E f t)) = None"
  shows "coherent (insert f (fst ` set fts))"
proof (cases f)
  case (F_State i s)
  with c show ?thesis by (simp add: coherent_def facts_in_insert)
next
  case (F_Review ob)
  with c new_fact_unbound(1) [OF k r new F_Review] show ?thesis
    by (simp add: coherent_def facts_in_insert single_insert)
next
  case (F_Decision d)
  with c new_fact_unbound(2) [OF k r new F_Decision] show ?thesis
    by (simp add: coherent_def facts_in_insert single_insert)
next
  case (F_Receipt a n)
  with c new_fact_unbound(3) [OF k r new F_Receipt] show ?thesis
    by (simp add: coherent_def facts_in_insert_receipt single_insert)
next
  case (F_Processed i ids)
  with c new_fact_unbound(4) [OF k r new F_Processed] show ?thesis
    by (simp add: coherent_def facts_in_insert single_insert)
qed

section \<open>The projection of a set of facts\<close>

definition projects :: "governance_configuration \<Rightarrow> fact set \<Rightarrow> bool" where
  "projects g F \<longleftrightarrow> latest_of (state_of g) (states_in F) \<and> (\<forall>i. inj_on dst_version (states_in F i))
     \<and> binds (decision_of g) (decisions_in F) \<and> binds (receipt_of g) (receipts_in F)
     \<and> (\<forall>i. set_option (obligation_of g i) = (if i \<in> discharged_in F then {} else reviews_in F i))
     \<and> (\<forall>i \<in> discharged_in F. reviews_in F i \<noteq> {})"

text \<open>The invariant of the durable governance.\<close>

definition canonical :: "env \<Rightarrow> governance_configuration \<Rightarrow> store \<Rightarrow> (fact \<times> time) list \<Rightarrow> bool" where
  "canonical E g s fts \<longleftrightarrow> keyed s \<and> recorded E s fts \<and> coherent (fst ` set fts) \<and> projects g (fst ` set fts)"

definition triggers_processed :: "fact set \<Rightarrow> bool" where
  "triggers_processed F \<longleftrightarrow> (\<forall>ob. F_Review ob \<in> F \<longrightarrow> (\<exists>ids. F_Processed (rob_trigger_ref ob) ids \<in> F))"

lemma canonical_journal: "st_event s' = st_event s \<Longrightarrow> canonical E g s' fts = canonical E g s fts"
  by (simp add: canonical_def keyed_def recorded_def)

lemma lookup_put [simp]:
  "state_of (put_state i s g) j = (if j = i then Some s else state_of g j)"
  "obligation_of (put_state i s g) j = obligation_of g j"
  "decision_of (put_state i s g) j = decision_of g j" "receipt_of (put_state i s g) j = receipt_of g j"
  "state_of (put_obligation ob g) j = state_of g j"
  "obligation_of (put_obligation ob g) j = (if j = rob_id ob then Some ob else obligation_of g j)"
  "decision_of (put_obligation ob g) j = decision_of g j" "receipt_of (put_obligation ob g) j = receipt_of g j"
  "state_of (delete_obligation i g) j = state_of g j"
  "obligation_of (delete_obligation i g) j = (if j = i then None else obligation_of g j)"
  "decision_of (delete_obligation i g) j = decision_of g j" "receipt_of (delete_obligation i g) j = receipt_of g j"
  "state_of (put_application r g) j = state_of g j" "obligation_of (put_application r g) j = obligation_of g j"
  "decision_of (put_application r g) j = decision_of g j"
  "receipt_of (put_application r g) j = (if j = gapp_id (rcpt_application r) then Some r else receipt_of g j)"
  "obligation_of (put_decision d g) j = obligation_of g j"
  by (simp_all add: lookup_defs put_state_def put_obligation_def delete_obligation_def put_application_def put_decision_def)

lemma binds_put: "binds m V \<Longrightarrow> V k = {} \<Longrightarrow> (\<And>j. m' j = (if j = k then Some v else m j)) \<Longrightarrow> binds m' (V(k := insert v (V k)))"
  by (simp add: binds_def)

lemma latest_put:
  assumes "latest_of m S" "\<And>t. t \<in> S i \<Longrightarrow> dst_version t < dst_version s" "\<And>j. m' j = (if j = i then Some s else m j)"
  shows "latest_of m' (S(i := insert s (S i)))"
  using assms unfolding latest_of_def by (fastforce split: option.splits)

lemma latest_version:
  assumes "latest_of m S" "m i = Some s" "t \<in> S i"
  shows "dst_version t \<le> dst_version s"
proof -
  have "case m i of None \<Rightarrow> S i = {} | Some s \<Rightarrow> s \<in> S i \<and> (\<forall>t \<in> S i. dst_version t \<le> dst_version s)"
    using assms(1) unfolding latest_of_def by (rule spec)
  with assms(2,3) show ?thesis by simp
qed

lemma latest_none: "latest_of m S \<Longrightarrow> m i = None \<longleftrightarrow> S i = {}"
  unfolding latest_of_def by (drule spec [of _ i]) (auto split: option.splits)

lemma inj_put:
  assumes "\<forall>i. inj_on dst_version (S i)" "\<And>t. t \<in> S i \<Longrightarrow> dst_version t < dst_version s"
  shows "\<forall>j. inj_on dst_version ((S(i := insert s (S i))) j)"
  using assms by (auto simp: inj_on_def) (metis less_irrefl)+

text \<open>Recording one more fact.\<close>

lemma record_fact:
  assumes c: "canonical E g s fts" and f: "fact_ok f" "f \<notin> fst ` set fts"
    and a: "append_event (fact_event E f t) s = (Inr (), s')"
    and p: "get_event s (ev_id (fact_event E f t)) = None \<Longrightarrow> projects g' (insert f (fst ` set fts))"
  shows "canonical E g' s' (fts @ [(f, t)])"
proof -
  have k: "keyed s" and r: "recorded E s fts" and co: "coherent (fst ` set fts)"
    using c by (simp_all add: canonical_def)
  note new = append_fact [OF k r f a]
  show ?thesis
    using keyed_append [OF k new(1,2)] recorded_append [OF r new(2) f(1)] coherent_append [OF k r co new(1)] p [OF new(1)]
    by (simp add: canonical_def)
qed

lemma projects_state:
  assumes "projects g F" "state_of g i = None"
  shows "projects (put_state i s g) (insert (F_State i s) F)"
proof -
  have "states_in F i = {}" using assms latest_none by (auto simp: projects_def)
  then show ?thesis
    using assms latest_put [of "state_of g" "states_in F" i s "state_of (put_state i s g)"] inj_put [of "states_in F" i s]
    by (simp add: projects_def facts_in_insert binds_def)
qed

lemma projects_discharged: "projects g F \<Longrightarrow> i \<in> discharged_in F \<Longrightarrow> obligation_of g i = None"
  unfolding projects_def by (metis option.set_sel empty_iff option.exhaust_sel)

lemma projects_review:
  assumes "projects g F" "reviews_in F (rob_id ob) = {}"
  shows "projects (put_obligation ob g) (insert (F_Review ob) F)"
proof -
  have "rob_id ob \<notin> discharged_in F" using assms by (auto simp: projects_def)
  then show ?thesis
    using assms projects_discharged [OF assms(1)] by (simp add: projects_def facts_in_insert binds_def latest_of_def)
qed

lemma projects_decision:
  assumes "projects g F" "decision_of g (gdec_id d) = None"
  shows "projects (put_decision d g) (insert (F_Decision d) F)"
proof -
  have "decisions_in F (gdec_id d) = {}" using assms by (simp add: projects_def binds_def)
  then show ?thesis
    using assms binds_put [of "decision_of g" "decisions_in F" "gdec_id d" "decision_of (put_decision d g)" d]
    by (simp add: projects_def facts_in_insert binds_def latest_of_def)
qed

lemma projects_processed: "projects g F \<Longrightarrow> projects g (insert (F_Processed k ids) F)"
  by (simp add: projects_def facts_in_insert)

lemma projects_state_receipt:
  assumes "projects g F" "receipt_of g (gapp_id (rcpt_application r)) = None" "rcpt_effect_kind r = ''state''"
    "state_of g (gapp_scheme_id (rcpt_application r)) = Some s" "dst_version s < dst_version s'"
  shows "projects (put_application r (put_state (gapp_scheme_id (rcpt_application r)) s' g)) (insert (F_Receipt r (Some s')) F)"
proof -
  let ?i = "gapp_scheme_id (rcpt_application r)" and ?k = "gapp_id (rcpt_application r)"
  have l: "latest_of (state_of g) (states_in F)" "receipts_in F ?k = {}" "\<forall>i. inj_on dst_version (states_in F i)"
    using assms by (simp_all add: projects_def binds_def)
  have older: "dst_version t < dst_version s'" if "t \<in> states_in F ?i" for t
    using latest_version [OF l(1) assms(4) that] assms(5) by simp
  have "latest_of (state_of (put_application r (put_state ?i s' g))) ((states_in F)(?i := insert s' (states_in F ?i)))"
    by (rule latest_put [OF l(1) older]) simp_all
  moreover have "\<forall>j. inj_on dst_version (((states_in F)(?i := insert s' (states_in F ?i))) j)"
    by (rule inj_put [OF l(3) older])
  moreover have "discharge_of r = {}" by (simp add: discharge_of_def assms(3))
  ultimately show ?thesis
    using assms(1,2) l(2) by (simp add: projects_def facts_in_insert_receipt binds_def)
qed

lemma projects_discharge_receipt:
  assumes "projects g F" "receipt_of g (gapp_id (rcpt_application r)) = None"
    "rcpt_effect_kind r = ''review_discharge''" "gapp_review_obligation_id (rcpt_application r) = Some oid" "oid \<noteq> []"
    "obligation_of g oid = Some ob"
  shows "projects (put_application r (delete_obligation oid g)) (insert (F_Receipt r None) F)"
proof -
  have "discharge_of r = {oid}" by (simp add: discharge_of_def nonempty_opt_def assms(3,4,5))
  moreover have "reviews_in F oid \<noteq> {}" "receipts_in F (gapp_id (rcpt_application r)) = {}"
    using assms(1,2,6) by (auto simp: projects_def binds_def split: if_splits dest: spec [of _ oid])
  ultimately show ?thesis
    using assms(1) projects_discharged [OF assms(1)]
    by (simp add: projects_def facts_in_insert_receipt binds_def latest_of_def)
qed

section \<open>Operations record facts\<close>

lemma appended:
  assumes "append_history_event E ev w = (Inr (), w')"
  obtains t where "append_event (ev t) (gw_store w) = (Inr (), gw_store w')" "gw_config w' = gw_config w"
  using assms
  by (auto simp: append_history_event_def on_gworld_def bindI_def utcnow_def on_store_def split: prod.splits sum.splits)

lemma transacted:
  assumes "gov_transaction m w = (r, w')"
  obtains (committed) x where "r = Inr x" "m w = (Inr x, w')"
  | (rolled_back) e where "r = Inl e" "gw_config w' = gw_config w" "st_event (gw_store w') = st_event (gw_store w)"
  using assms by (auto simp: gov_transaction_def rollback_def split: prod.splits sum.splits)

lemma recorded_step:
  assumes c: "canonical E (gw_config w) (gw_store w) fts" and f: "fact_ok f" "f \<notin> fst ` set fts"
    and a: "bindI (update_config u) (\<lambda>_. append_history_event E (fact_event E f)) w = (Inr (), w')"
    and p: "(\<And>t. get_event (gw_store w) (ev_id (fact_event E f t)) = None)
      \<Longrightarrow> projects (u (gw_config w)) (insert f (fst ` set fts))"
  obtains t where "canonical E (gw_config w') (gw_store w') (fts @ [(f, t)])" "gw_config w' = u (gw_config w)"
proof -
  have "append_history_event E (fact_event E f) (w\<lparr>gw_config := u (gw_config w)\<rparr>) = (Inr (), w')"
    using a by (simp add: bindI_def update_config_def)
  then obtain t where t: "append_event (fact_event E f t) (gw_store w) = (Inr (), gw_store w')"
      "gw_config w' = u (gw_config w)"
    by (rule appended) simp
  have "canonical E (u (gw_config w)) (gw_store w') (fts @ [(f, t)])"
    by (rule record_fact [OF c f t(1)]) (use p ev_id_time [of E f] in metis)
  with t(2) that show thesis by simp
qed

lemma io_simps:
  "retI x w = (r, w') \<longleftrightarrow> r = Inr x \<and> w' = w" "raiseI e w = (r', w') \<longleftrightarrow> r' = Inl e \<and> w' = w"
  by (auto simp: retI_def raiseI_def)

text \<open>What an operation leaves of the invariant: it may record more facts.\<close>

definition keeps :: "env \<Rightarrow> gworld \<Rightarrow> gworld \<Rightarrow> bool" where
  "keeps E w w' \<longleftrightarrow> (\<forall>fts. canonical E (gw_config w) (gw_store w) fts \<and> triggers_processed (fst ` set fts)
     \<longrightarrow> (\<exists>more. canonical E (gw_config w') (gw_store w') (fts @ more) \<and> triggers_processed (fst ` set (fts @ more))))"

lemma keeps_unchanged: "gw_config w' = gw_config w \<Longrightarrow> st_event (gw_store w') = st_event (gw_store w) \<Longrightarrow> keeps E w w'"
  unfolding keeps_def by (metis append_Nil2 canonical_journal)

lemma triggers_processed_insert:
  "triggers_processed F \<Longrightarrow> (\<And>ob. f = F_Review ob \<Longrightarrow> \<exists>ids. F_Processed (rob_trigger_ref ob) ids \<in> F) \<Longrightarrow> triggers_processed (insert f F)"
  by (auto simp: triggers_processed_def)

lemma keeps_one:
  assumes a: "bindI (update_config u) (\<lambda>_. append_history_event E (fact_event E f)) w = (Inr (), w')"
    and f: "fact_ok f" "\<And>ob. f \<noteq> F_Review ob"
    and p: "\<And>F. projects (gw_config w) F \<Longrightarrow> f \<notin> F \<and> projects (u (gw_config w)) (insert f F)"
  shows "keeps E w w'"
proof -
  have "\<exists>more. canonical E (gw_config w') (gw_store w') (fts @ more) \<and> triggers_processed (fst ` set (fts @ more))"
    if c: "canonical E (gw_config w) (gw_store w) fts" and tr: "triggers_processed (fst ` set fts)" for fts
  proof -
    have "f \<notin> fst ` set fts" "projects (u (gw_config w)) (insert f (fst ` set fts))"
      using p c by (simp_all add: canonical_def)
    with recorded_step [OF c f(1) _ a] obtain t where "canonical E (gw_config w') (gw_store w') (fts @ [(f, t)])"
      by metis
    moreover have "triggers_processed (fst ` set (fts @ [(f, t)]))"
      using triggers_processed_insert [OF tr, of f] f(2) by simp
    ultimately show ?thesis by blast
  qed
  then show ?thesis by (simp add: keeps_def)
qed

lemma seed_state_keeps:
  assumes "seed_state E i s w = (r, w')"
  shows "keeps E w w'"
proof (cases "state_admissible_for i s")
  case False
  with assms show ?thesis by (auto simp: seed_state_def raise_ifI_def io_simps intro: keeps_unchanged)
next
  case True
  with assms have "gov_transaction (with_config (\<lambda>g. case state_of g i of
       Some existing \<Rightarrow> if existing = s then retI ()
         else raiseI (ValueError (''distinction state '' @ py_repr i
           @ '' already exists; governed transitions require an application receipt''))
     | None \<Rightarrow> bindI (update_config (put_state i s)) (\<lambda>_. append_history_event E (state_seed_event E i s)))) w = (r, w')"
    by (simp add: seed_state_def raise_ifI_def)
  then show ?thesis
  proof (cases rule: transacted)
    case (committed x)
    show ?thesis
    proof (cases "state_of (gw_config w) i")
      case None
      have f: "fact_event E (F_State i s) = state_seed_event E i s" by (rule ext) simp
      from None committed have "bindI (update_config (put_state i s)) (\<lambda>_. append_history_event E (fact_event E (F_State i s))) w = (Inr (), w')"
        by (simp add: with_config_def f)
      then show ?thesis
      proof (rule keeps_one)
        fix F assume p: "projects (gw_config w) F"
        then have "states_in F i = {}" using None latest_none by (auto simp: projects_def)
        with projects_state [OF p None] show "F_State i s \<notin> F \<and> projects (put_state i s (gw_config w)) (insert (F_State i s) F)"
          by (auto simp: states_in_def)
      qed (use True in simp_all)
    next
      case (Some t)
      with committed show ?thesis
        by (auto simp: with_config_def io_simps split: if_splits intro: keeps_unchanged)
    qed
  qed (rule keeps_unchanged)
qed

lemma persist_decision_keeps:
  assumes "persist_decision E d w = (r, w')"
  shows "keeps E w w'"
proof -
  from assms [unfolded persist_decision_def] show ?thesis
  proof (cases rule: transacted)
    case (committed x)
    show ?thesis
    proof (cases "decision_of (gw_config w) (gdec_id d)")
      case None
      have f: "fact_event E (F_Decision d) = decision_recorded_event E d" by (rule ext) simp
      from None committed have "bindI (update_config (put_decision d)) (\<lambda>_. append_history_event E (fact_event E (F_Decision d))) w = (Inr (), w')"
        by (simp add: with_config_def f raiseI_def split: if_splits)
      then show ?thesis
      proof (rule keeps_one)
        fix F assume p: "projects (gw_config w) F"
        then have "decisions_in F (gdec_id d) = {}" using None by (simp add: projects_def binds_def)
        with projects_decision [OF p None] show "F_Decision d \<notin> F \<and> projects (put_decision d (gw_config w)) (insert (F_Decision d) F)"
          by (auto simp: decisions_in_def)
      qed simp_all
    next
      case (Some t)
      with committed show ?thesis
        by (auto simp: with_config_def io_simps split: if_splits intro: keeps_unchanged)
    qed
  qed (rule keeps_unchanged)
qed

lemma state_application_checked:
  assumes "state_application_error i s' r fresh g = None"
  obtains s where "receipt_of g (gapp_id (rcpt_application r)) = None" "state_of g i = Some s"
    "rcpt_effect_kind r = ''state''" "gapp_scheme_id (rcpt_application r) = i" "state_admissible_for i s'"
    "dst_version s < dst_version s'"
proof -
  obtain s d where sd: "state_of g i = Some s" "decision_of g (gapp_decision_ref (rcpt_application r)) = Some d"
    using assms by (simp add: state_application_error_def Let_def split: if_split_asm option.split_asm)
  with assms have "candidate_state_effect (rcpt_application r) s = s'"
    by (simp add: state_application_error_def Let_def split: if_split_asm)
  then have "dst_version s < dst_version s'" by (auto simp: candidate_state_effect_def)
  with assms sd that show thesis
    by (simp add: state_application_error_def Let_def split: if_split_asm)
qed

lemma commit_state_application_keeps:
  assumes "commit_state_application E i s' rc fresh w = (r, w')"
  shows "keeps E w w'"
proof -
  from assms [unfolded commit_state_application_def] show ?thesis
  proof (cases rule: transacted)
    case (committed x)
    then have none: "state_application_error i s' rc fresh (gw_config w) = None"
      by (auto simp: with_config_def raiseI_def split: option.splits)
    obtain s where s: "receipt_of (gw_config w) (gapp_id (rcpt_application rc)) = None" "state_of (gw_config w) i = Some s"
        "rcpt_effect_kind rc = ''state''" "gapp_scheme_id (rcpt_application rc) = i" "state_admissible_for i s'"
        "dst_version s < dst_version s'"
      by (rule state_application_checked [OF none])
    have f: "fact_event E (F_Receipt rc (Some s')) = application_committed_event E rc (Some s')" by (rule ext) simp
    from none committed have "bindI (update_config (\<lambda>g. put_application rc (put_state i s' g)))
        (\<lambda>_. append_history_event E (fact_event E (F_Receipt rc (Some s')))) w = (Inr (), w')"
      by (simp add: with_config_def f)
    then show ?thesis
    proof (rule keeps_one)
      fix F assume p: "projects (gw_config w) F"
      then have "receipts_in F (gapp_id (rcpt_application rc)) = {}" using s(1) by (simp add: projects_def binds_def)
      with projects_state_receipt [OF p s(1,3) _ s(6)] s(2,4)
      show "F_Receipt rc (Some s') \<notin> F
          \<and> projects (put_application rc (put_state i s' (gw_config w))) (insert (F_Receipt rc (Some s')) F)"
        by (auto simp: receipts_in_def)
    qed (use s in simp_all)
  qed (rule keeps_unchanged)
qed

lemma discharge_checked:
  assumes "discharge_error oid r fresh g = None"
  obtains ob where "receipt_of g (gapp_id (rcpt_application r)) = None" "obligation_of g oid = Some ob"
    "rcpt_effect_kind r = ''review_discharge''" "gapp_review_obligation_id (rcpt_application r) = Some oid"
proof -
  obtain ob d where sd: "obligation_of g oid = Some ob" "decision_of g (gapp_decision_ref (rcpt_application r)) = Some d"
    using assms by (simp add: discharge_error_def Let_def split: if_split_asm option.split_asm)
  with assms that show thesis
    by (simp add: discharge_error_def Let_def split: if_split_asm)
qed

lemma commit_review_discharge_keeps:
  assumes "commit_review_discharge E oid rc fresh w = (r, w')" "oid \<noteq> []"
  shows "keeps E w w'"
proof -
  from assms(1) [unfolded commit_review_discharge_def] show ?thesis
  proof (cases rule: transacted)
    case (committed x)
    then have none: "discharge_error oid rc fresh (gw_config w) = None"
      by (auto simp: with_config_def raiseI_def split: option.splits)
    obtain ob where ob: "receipt_of (gw_config w) (gapp_id (rcpt_application rc)) = None" "obligation_of (gw_config w) oid = Some ob"
        "rcpt_effect_kind rc = ''review_discharge''" "gapp_review_obligation_id (rcpt_application rc) = Some oid"
      by (rule discharge_checked [OF none])
    have f: "fact_event E (F_Receipt rc None) = application_committed_event E rc None" by (rule ext) simp
    from none committed have "bindI (update_config (\<lambda>g. put_application rc (delete_obligation oid g)))
        (\<lambda>_. append_history_event E (fact_event E (F_Receipt rc None))) w = (Inr (), w')"
      by (simp add: with_config_def f)
    then show ?thesis
    proof (rule keeps_one)
      fix F assume p: "projects (gw_config w) F"
      then have "receipts_in F (gapp_id (rcpt_application rc)) = {}" using ob(1) by (simp add: projects_def binds_def)
      with projects_discharge_receipt [OF p ob(1,3,4) assms(2) ob(2)]
      show "F_Receipt rc None \<notin> F \<and> projects (put_application rc (delete_obligation oid (gw_config w))) (insert (F_Receipt rc None) F)"
        by (auto simp: receipts_in_def)
    qed simp_all
  qed (rule keeps_unchanged)
qed

text \<open>The obligations of one event, none of which has been recorded.\<close>

lemma materialize_all_records:
  assumes "materialize_all E obs w = (Inr (), w')" "canonical E (gw_config w) (gw_store w) fts"
    "distinct obs" "F_Review ` set obs \<inter> fst ` set fts = {}"
  shows "\<exists>more. canonical E (gw_config w') (gw_store w') (fts @ more) \<and> fst ` set more = F_Review ` set obs"
  using assms
proof (induction obs arbitrary: w fts)
  case Nil
  then show ?case by (intro exI [of _ "[]"]) (simp add: io_simps)
next
  case (Cons ob obs)
  from Cons.prems(1) obtain v where v: "materialize_obligation E ob w = (Inr (), v)" "materialize_all E obs v = (Inr (), w')"
    by (auto simp: bindI_def split: prod.splits sum.splits)
  have f: "fact_event E (F_Review ob) = review_opened_event E ob" by (rule ext) simp
  have "bindI (update_config (put_obligation ob)) (\<lambda>_. append_history_event E (fact_event E (F_Review ob))) w = (Inr (), v)"
    using v(1) by (simp add: materialize_obligation_def f)
  note step = recorded_step [OF Cons.prems(2) _ _ this]
  have "F_Review ob \<notin> fst ` set fts" using Cons.prems(4) by auto
  moreover have "projects (put_obligation ob (gw_config w)) (insert (F_Review ob) (fst ` set fts))"
    if "get_event (gw_store w) (ev_id (fact_event E (F_Review ob) 0)) = None"
    using projects_review new_fact_unbound(1) [OF _ _ that] Cons.prems(2) by (simp add: canonical_def)
  ultimately obtain t where t: "canonical E (gw_config v) (gw_store v) (fts @ [(F_Review ob, t)])"
    using step by (metis fact_ok.simps(3) fact_ok.simps(4) fact_ok.simps(5))
  have "F_Review ` set obs \<inter> fst ` set (fts @ [(F_Review ob, t)]) = {}" using Cons.prems(3,4) by auto
  from Cons.IH [OF v(2) t _ this] Cons.prems(3) obtain more where
    "canonical E (gw_config w') (gw_store w') ((fts @ [(F_Review ob, t)]) @ more)" "fst ` set more = F_Review ` set obs"
    by auto
  then show ?case by (intro exI [of _ "(F_Review ob, t) # more"]) simp
qed

lemma processed_marker:
  assumes "keyed s" "recorded E s fts" "F_Processed k ids \<in> fst ` set fts"
  shows "processed_event_obligation_ids E s k = Inr (Some ids)"
proof -
  obtain t where "get_event s (ev_id (fact_event E (F_Processed k ids) t)) = Some (fact_event E (F_Processed k ids) t)"
    by (rule recorded_event [OF assms])
  moreover have "k \<noteq> []" using assms(2,3) by (force simp: recorded_def)
  ultimately show ?thesis
    by (simp add: processed_event_obligation_ids_def fact_event_defs reading jor_text history_types)
qed

lemma requested_distinct:
  assumes "validate_requested g keys obs = Inr ()"
  shows "distinct obs \<and> (\<forall>ob \<in> set obs. review_key ob \<notin> set keys)"
  using assms
proof (induction obs arbitrary: keys)
  case (Cons ob obs)
  from Cons.prems have "review_key ob \<notin> set keys" "validate_requested g (review_key ob # keys) obs = Inr ()"
    by (auto simp: bindR_def split: if_splits sum.splits)
  with Cons.IH [OF this(2)] show ?case by auto
qed simp

lemma commit_event_records:
  assumes "commit_event_obligations E k obs w = (Inr ids, w')" "processed_event_obligation_ids E (gw_store w) k = Inr None"
    and c: "canonical E (gw_config w) (gw_store w) fts" and tr: "triggers_processed (fst ` set fts)"
  obtains more where "canonical E (gw_config w') (gw_store w') (fts @ more)" "triggers_processed (fst ` set (fts @ more))"
    "fst ` set more = insert (F_Processed k ids) (F_Review ` set obs)" "ids = map rob_id obs"
    "F_Review ` set obs \<inter> fst ` set fts = {}"
proof -
  from assms(1) have k: "k \<noteq> []" and key: "\<forall>ob \<in> set obs. rob_trigger_ref ob = k"
    by (auto simp: commit_event_obligations_def raise_ifI_def raiseI_def list_ex_iff split: if_splits)
  have "\<not> list_ex (\<lambda>ob. rob_trigger_ref ob \<noteq> k) obs" using key by (auto simp: list_ex_iff)
  with assms(1,2) k obtain v where valid: "validate_requested (gw_config w) [] obs = Inr ()" and ids: "ids = map rob_id obs"
      and v: "materialize_all E obs w = (Inr (), v)" "append_history_event E (processed_event E k ids) v = (Inr (), w')"
    by (auto simp: commit_event_obligations_def raise_ifI_def gov_transaction_def bindI_def io_simps Let_def
        split: prod.splits sum.splits)
  have new: "F_Review ` set obs \<inter> fst ` set fts = {}"
  proof (rule ccontr)
    assume "F_Review ` set obs \<inter> fst ` set fts \<noteq> {}"
    then obtain ob where ob: "ob \<in> set obs" "F_Review ob \<in> fst ` set fts" by blast
    from tr ob(2) obtain ids' where "F_Processed (rob_trigger_ref ob) ids' \<in> fst ` set fts"
      unfolding triggers_processed_def by blast
    with key ob(1) have "F_Processed k ids' \<in> fst ` set fts" by simp
    from processed_marker [OF _ _ this] c assms(2) show False by (auto simp: canonical_def)
  qed
  obtain more where more: "canonical E (gw_config v) (gw_store v) (fts @ more)" "fst ` set more = F_Review ` set obs"
    using materialize_all_records [OF v(1) c _ new] requested_distinct [OF valid] by blast
  obtain t where t: "append_event (fact_event E (F_Processed k ids) t) (gw_store v) = (Inr (), gw_store w')" "gw_config w' = gw_config v"
    using appended [OF v(2)] by (metis fact_event.simps(5))
  have unmarked: "F_Processed k ids \<notin> fst ` set fts"
  proof
    assume "F_Processed k ids \<in> fst ` set fts"
    from processed_marker [OF _ _ this] c assms(2) show False by (auto simp: canonical_def)
  qed
  have "canonical E (gw_config w') (gw_store w') ((fts @ more) @ [(F_Processed k ids, t)])"
  proof (rule record_fact [OF more(1) _ _ t(1)])
    show "projects (gw_config w') (insert (F_Processed k ids) (fst ` set (fts @ more)))"
      using projects_processed more(1) t(2) by (simp add: canonical_def)
  qed (use k more(2) unmarked in \<open>auto simp: image_Un\<close>)
  moreover have "triggers_processed (insert (F_Processed k ids) (fst ` set fts \<union> F_Review ` set obs))"
    using tr key unfolding triggers_processed_def by blast
  then have "triggers_processed (fst ` set (fts @ more @ [(F_Processed k ids, t)]))"
    using more(2) by (simp add: image_Un)
  ultimately show thesis
    using that [of "more @ [(F_Processed k ids, t)]"] more(2) ids new by simp
qed

lemma commit_event_cases:
  assumes "commit_event_obligations E k obs w = (r, w')"
  shows "keeps E w w'"
proof (cases "\<exists>ids. r = Inr ids \<and> processed_event_obligation_ids E (gw_store w) k = Inr None")
  case True
  with commit_event_records assms show ?thesis unfolding keeps_def by metis
next
  case False
  show ?thesis
  proof (cases "k = [] \<or> list_ex (\<lambda>ob. rob_trigger_ref ob \<noteq> k) obs")
    case True
    with assms show ?thesis
      by (auto simp: commit_event_obligations_def raise_ifI_def io_simps intro: keeps_unchanged split: if_splits)
  next
    case ok: False
    with assms have "gov_transaction (\<lambda>w. case processed_event_obligation_ids E (gw_store w) k of
       Inl e \<Rightarrow> raiseI e w
     | Inr (Some existing) \<Rightarrow> retI existing w
     | Inr None \<Rightarrow> (case validate_requested (gw_config w) [] obs of
         Inl e \<Rightarrow> raiseI e w
       | Inr _ \<Rightarrow> bindI (materialize_all E obs) (\<lambda>_. let ids = map rob_id obs in
           bindI (append_history_event E (processed_event E k ids)) (\<lambda>_. retI ids)) w)) w = (r, w')"
      by (simp add: commit_event_obligations_def raise_ifI_def)
    then show ?thesis
    proof (cases rule: transacted)
      case (committed x)
      with False show ?thesis
        by (auto simp: io_simps intro: keeps_unchanged split: sum.splits option.splits)
    qed (rule keeps_unchanged)
  qed
qed

section \<open>The lifecycle\<close>

lemma lifecycle_record_decision_keeps:
  assumes "lifecycle_record_decision E auth d w = (r, w')"
  shows "keeps E w w'"
  using assms persist_decision_keeps
  by (auto simp: lifecycle_record_decision_def with_config_def io_simps intro: keeps_unchanged split: option.splits)

lemma apply_state_keeps:
  assumes "apply_state E auth fresh a w = (r, w')"
  shows "keeps E w w'"
  using assms commit_state_application_keeps
  by (auto simp: apply_state_def with_config_def io_simps bindI_def Let_def intro: keeps_unchanged
      split: option.splits prod.splits sum.splits)

lemma discharge_keeps:
  assumes "discharge E auth fresh a sa w = (r, w')"
  shows "keeps E w w'"
proof (cases "apply_review_discharge (gw_config w) a auth fresh sa")
  case None
  with assms show ?thesis by (auto simp: discharge_def with_config_def io_simps intro: keeps_unchanged)
next
  case (Some g')
  then obtain oid where oid: "gapp_review_obligation_id a = Some oid"
    by (auto simp: apply_review_discharge_def split: if_splits option.splits)
  note admissible = discharging_effect(1) [OF Some]
  have "gapp_operation a = ''apply_review_discharge''"
    using admissible by (simp add: discharge_admissible_def split: if_split_asm)
  moreover have "precondition a (gw_config w)"
    by (rule discharge_admissibleE [OF admissible]) (use admissible in \<open>simp add: discharge_admissible_def split: if_split_asm\<close>)
  ultimately have "oid \<noteq> []" using oid by (simp add: precondition_def split: if_split_asm)
  with assms Some oid show ?thesis
    using commit_review_discharge_keeps
    by (auto simp: discharge_def with_config_def io_simps bindI_def Let_def split: prod.splits sum.splits)
qed

lemma assess_all_world:
  "assess_all E p kind is w = (r, w') \<Longrightarrow> wd_store w' = wd_store w"
  by (induction "is" arbitrary: w r)
    (auto simp: io_simps bindI_def new_id_def utcnow_def split: prod.splits sum.splits)

lemma assess_revalidation_world:
  "assess_revalidation E p c k rs w = (r, w') \<Longrightarrow> wd_store w' = wd_store w"
  by (auto simp: assess_revalidation_def io_simps split: sum.splits dest: assess_all_world)

lemma assessed_world:
  "on_gworld (assess_revalidation E p c k rs) w = (r, w') \<Longrightarrow> gw_config w' = gw_config w \<and> gw_store w' = gw_store w"
  by (auto simp: on_gworld_def dest: assess_revalidation_world split: prod.splits)

text \<open>An observation changes nothing, or commits the obligations it projected.\<close>

lemma observe_change_cases:
  assumes "observe_change E p ev c k rs ctx w = (r, w')"
  obtains (unchanged) "gw_config w' = gw_config w" "gw_store w' = gw_store w"
      "\<And>res. r = Inr res \<Longrightarrow> rg_assessments res = [] \<or> rg_projection_unavailable res \<noteq> []"
  | (commits) v as ready r' where "gw_config v = gw_config w" "gw_store v = gw_store w"
      "processed_event_obligation_ids E (gw_store v) ev = Inr None"
      "on_gworld (assess_revalidation E p c k rs) w = (Inr as, v)"
      "project_all E ev ctx (gw_config v) as = Inr (ready, [])" "commit_event_obligations E ev ready v = (r', w')"
      "\<And>res. r = Inr res \<Longrightarrow> \<exists>ids. r' = Inr ids \<and> rg_assessments res = as \<and> rg_projection_unavailable res = []"
proof (cases "ev = []")
  case True
  with assms show thesis by (auto simp: observe_change_def raise_ifI_def io_simps intro: unchanged)
next
  case False
  show thesis
  proof (cases "processed_event_obligation_ids E (gw_store w) ev")
    case (Inl e)
    with assms False show thesis by (auto simp: observe_change_def raise_ifI_def io_simps intro: unchanged)
  next
    case (Inr found)
    show thesis
    proof (cases found)
      case (Some ids)
      with Inr assms False show thesis by (auto simp: observe_change_def raise_ifI_def io_simps intro: unchanged)
    next
      case None
      obtain ra v where v: "on_gworld (assess_revalidation E p c k rs) w = (ra, v)" by fastforce
      from assessed_world [OF v] have same: "gw_config v = gw_config w" "gw_store v = gw_store w" by simp_all
      show thesis
      proof (cases ra)
        case (Inl e)
        with None Inr assms False v same show thesis
          by (intro unchanged) (auto simp: observe_change_def raise_ifI_def bindI_def)
      next
        case as: (Inr as)
        show thesis
        proof (cases "project_all E ev ctx (gw_config v) as")
          case (Inl e)
          with None Inr assms False v same as show thesis
            by (intro unchanged) (auto simp: observe_change_def raise_ifI_def bindI_def with_config_def io_simps)
        next
          case pr: (Inr pr)
          obtain ready un where pr': "pr = (ready, un)" by (cases pr)
          show thesis
          proof (cases un)
            case (Cons x xs)
            with None Inr assms False v same as pr pr' show thesis
              by (intro unchanged) (auto simp: observe_change_def raise_ifI_def bindI_def with_config_def io_simps)
          next
            case Nil
            obtain r' w2 where r': "commit_event_obligations E ev ready v = (r', w2)" by fastforce
            with None Inr assms False v same as pr pr' Nil show thesis
              by (intro commits [of v as ready r'])
                (auto simp: observe_change_def raise_ifI_def bindI_def with_config_def io_simps split: sum.splits)
          qed
        qed
      qed
    qed
  qed
qed

lemma observe_change_keeps:
  assumes "observe_change E p ev c k rs ctx w = (r, w')"
  shows "keeps E w w'"
  using assms
proof (cases rule: observe_change_cases)
  case (commits v as ready r')
  from commit_event_cases [OF commits(6)] show ?thesis by (simp add: keeps_def commits(1,2))
qed (simp add: keeps_unchanged)

section \<open>The canonical projection\<close>

definition same_configuration :: "governance_configuration \<Rightarrow> governance_configuration \<Rightarrow> bool" where
  "same_configuration g g' \<longleftrightarrow> state_of g = state_of g' \<and> obligation_of g = obligation_of g'
     \<and> decision_of g = decision_of g' \<and> receipt_of g = receipt_of g'"

lemma map_of_kept: "map_of (filter (\<lambda>(i, _). P i) ps) i = (if P i then map_of ps i else None)"
  by (induction ps) auto

lemma set_option_inj: "set_option x = set_option y \<Longrightarrow> x = y"
  by (cases x; cases y) auto

lemma binds_unique: "binds m V \<Longrightarrow> binds m' V \<Longrightarrow> m = m'"
  by (rule ext, rule set_option_inj) (simp add: binds_def)

lemma latest_member: "latest_of m S \<Longrightarrow> m i = Some s \<Longrightarrow> s \<in> S i"
  unfolding latest_of_def by (drule spec [of _ i]) simp

lemma latest_unique:
  assumes "latest_of m S" "latest_of m' S" "\<forall>i. inj_on dst_version (S i)"
  shows "m = m'"
proof (rule ext)
  fix i
  show "m i = m' i"
  proof (cases "m i")
    case None
    then show ?thesis using assms(1,2) by (metis latest_none)
  next
    case (Some s)
    then obtain t where t: "m' i = Some t" using assms(1,2) latest_none by (metis option.exhaust)
    have "s \<in> S i" "t \<in> S i"
      using latest_member [OF assms(1) Some] latest_member [OF assms(2) t] .
    moreover have "dst_version s = dst_version t"
      using latest_version [OF assms(1) Some calculation(2)] latest_version [OF assms(2) t calculation(1)] by simp
    ultimately show ?thesis using assms(3) Some t by (auto simp: inj_on_def)
  qed
qed

lemma represented_projection:
  assumes h: "represents h F" and p: "projects g F"
  shows "same_configuration (history_configuration h) g"
proof -
  have "state_of (history_configuration h) = state_of g"
  proof (rule latest_unique)
    show "latest_of (state_of (history_configuration h)) (states_in F)"
      using h by (simp add: represents_def history_configuration_def state_of_def [abs_def])
  qed (use p in \<open>simp_all add: projects_def\<close>)
  moreover have "decision_of (history_configuration h) = decision_of g" "receipt_of (history_configuration h) = receipt_of g"
    using h p binds_unique [of _ "decisions_in F"] binds_unique [of _ "receipts_in F"]
    by (simp_all add: represents_def projects_def history_configuration_def decision_of_def [abs_def] receipt_of_def [abs_def])
  moreover have "obligation_of (history_configuration h) i = obligation_of g i" for i
  proof -
    have "set_option (obligation_of (history_configuration h) i) = set_option (obligation_of g i)"
      using h p by (simp add: represents_def projects_def binds_def history_configuration_def lookup_defs map_of_kept)
    then show ?thesis by (rule set_option_inj)
  qed
  ultimately show ?thesis by (simp add: same_configuration_def fun_eq_iff)
qed

lemma later_state_admissible:
  assumes "list_all (\<lambda>(i, s). state_admissible_for i s) (hi_states h)" "state_admissible_for i s"
  shows "list_all (\<lambda>(i, s). state_admissible_for i s) (hi_states (later_state (i, s) h))"
  using assms set_dict_set [of i s "hi_states h"]
  by (auto simp: later_state_def list_all_iff split: option.splits)

lemma replayed_admissible:
  assumes "replay_events (map (\<lambda>(f, t). fact_event E f t) fts) h = Inr h'" "\<And>f. f \<in> fst ` set fts \<Longrightarrow> fact_ok f"
    "list_all (\<lambda>(i, s). state_admissible_for i s) (hi_states h)"
  shows "list_all (\<lambda>(i, s). state_admissible_for i s) (hi_states h')"
  using assms
proof (induction fts arbitrary: h)
  case (Cons x fts)
  obtain f t where x: "x = (f, t)" by (cases x)
  from Cons.prems(1) x obtain h1 where h1: "replay_event (fact_event E f t) h = Inr h1"
      "replay_events (map (\<lambda>(f, t). fact_event E f t) fts) h1 = Inr h'"
    using fact_event_history [of E f t] by (auto simp: bindR_def split: sum.splits)
  have ok: "fact_ok f" using Cons.prems(2) x by simp
  with h1(1) have "replay_fact f h = Inr h1" by (simp add: replay_fact_event)
  with ok Cons.prems(3) have "list_all (\<lambda>(i, s). state_admissible_for i s) (hi_states h1)"
    by (cases f; cases "case f of F_Receipt r n \<Rightarrow> n | _ \<Rightarrow> None")
      (auto simp: replay_review_def replay_decision_def replay_receipt_def replay_processed_def bindR_def
        later_state_admissible split: sum.splits)
  with Cons.IH [OF h1(2)] Cons.prems(2) show ?case by simp
qed simp

lemma canonical_reconstructs:
  assumes c: "canonical E g s fts"
  obtains g' p where "reconstruct_governance_history (history_events s) = Inr (g', p)" "same_configuration g' g"
    "binds (map_of p) (processed_in (fst ` set fts))" "projects g' (fst ` set fts)"
proof -
  have "mset (history_events s) = mset (filter is_history_event (map snd (st_event s)))"
    by (simp add: history_events_def list_events_def newest_first_def)
  also have "\<dots> = image_mset (\<lambda>(f, t). fact_event E f t) (mset fts)"
    using c by (simp add: canonical_def recorded_def)
  finally obtain zs where zs: "history_events s = map (\<lambda>(f, t). fact_event E f t) zs" "mset zs = mset fts"
    by (rule permuted_preimage)
  then have "set zs = set fts" by (metis set_mset_mset)
  then have ok: "\<And>f. f \<in> fst ` set zs \<Longrightarrow> fact_ok f" and F: "fst ` set zs = fst ` set fts"
    using c by (auto simp: canonical_def recorded_def)
  have "coherent ({} \<union> fst ` set zs)" using c F by (simp add: canonical_def)
  from replay_facts [OF represents_empty this ok, of E] obtain h where
    h: "replay_events (history_events s) empty_history = Inr h" "represents h (fst ` set fts)"
    unfolding zs(1) F by auto
  have "list_all (\<lambda>(i, s). state_admissible_for i s) (hi_states h)"
    using replayed_admissible [of E zs empty_history h] h(1) ok zs(1) by (simp add: empty_history_def)
  with h(1) have "reconstruct_governance_history (history_events s) = Inr (history_configuration h, hi_processed h)"
    by (simp add: reconstruct_governance_history_def global_state_admissible_def history_configuration_def)
  moreover have same: "same_configuration (history_configuration h) g"
    using represented_projection [OF h(2)] c by (simp add: canonical_def)
  moreover have "projects (history_configuration h) (fst ` set fts)"
    using c same by (simp add: canonical_def projects_def same_configuration_def)
  ultimately show thesis using that h(2) by (simp add: represents_def)
qed

text \<open>
  The worlds of the durable governance: from a journal without governance events and an empty projection,
  by states that are seeded, changes that are observed, decisions that are recorded, applications and
  discharges, each under any authority and facts, by rebuilding the projection, and by events of other
  parts of the runtime.
\<close>

inductive governed :: "env \<Rightarrow> gworld \<Rightarrow> bool" for E where
  starts: "keyed (gw_store w) \<Longrightarrow> history_events (gw_store w) = [] \<Longrightarrow> sidecar_count (gw_config w) = 0 \<Longrightarrow> governed E w"
| seeds: "governed E w \<Longrightarrow> seed_state E i s w = (r, w') \<Longrightarrow> governed E w'"
| commits: "governed E w \<Longrightarrow> commit_event_obligations E k obs w = (ri, w') \<Longrightarrow> governed E w'"
| observes: "governed E w \<Longrightarrow> observe_change E p ev c kind rs ctx w = (ro, w') \<Longrightarrow> governed E w'"
| records: "governed E w \<Longrightarrow> lifecycle_record_decision E auth d w = (r, w') \<Longrightarrow> governed E w'"
| applies_state: "governed E w \<Longrightarrow> apply_state E auth fresh a w = (ra, w') \<Longrightarrow> governed E w'"
| discharges_review: "governed E w \<Longrightarrow> discharge E auth fresh a sa w = (ra, w') \<Longrightarrow> governed E w'"
| rebuilds: "governed E w \<Longrightarrow> rebuild_projection w = (rg, w') \<Longrightarrow> governed E w'"
| journals: "governed E w \<Longrightarrow> \<not> is_history_event e \<Longrightarrow> append_event e (gw_store w) = (r, s)
    \<Longrightarrow> governed E (w\<lparr>gw_world := (gw_world w)\<lparr>wd_store := s\<rparr>\<rparr>)"

definition canonical_world :: "env \<Rightarrow> gworld \<Rightarrow> (fact \<times> time) list \<Rightarrow> bool" where
  "canonical_world E w fts \<longleftrightarrow> canonical E (gw_config w) (gw_store w) fts \<and> triggers_processed (fst ` set fts)"

lemma keeps_canonical: "keeps E w w' \<Longrightarrow> \<exists>fts. canonical_world E w fts \<Longrightarrow> \<exists>fts. canonical_world E w' fts"
  unfolding keeps_def canonical_world_def by blast

lemma no_history:
  assumes "history_events s = []"
  shows "filter is_history_event (map snd (st_event s)) = []"
proof -
  have "mset (history_events s) = mset (filter is_history_event (map snd (st_event s)))"
    by (simp add: history_events_def list_events_def newest_first_def)
  with assms show ?thesis by simp
qed

lemma journal_keeps:
  assumes "keyed s" "recorded E s fts" "\<not> is_history_event e" "append_event e s = (r, s')"
  shows "keyed s' \<and> recorded E s' fts"
proof (cases "get_event s (ev_id e)")
  case None
  show ?thesis
  proof (cases "s' = s")
    case False
    with None assms(4) have "st_event s' = st_event s @ [(ev_id e, e)]"
      by (auto simp: append_event_def get_event_def dict_set_new split: option.splits)
    with None assms show ?thesis by (auto simp: keyed_append recorded_def)
  qed (use assms in simp)
next
  case (Some old)
  with assms(4) have "s' = s" by (auto simp: append_event_def split: option.splits if_splits)
  with assms show ?thesis by simp
qed

lemma governed_canonical: "governed E w \<Longrightarrow> \<exists>fts. canonical_world E w fts"
proof (induction rule: governed.induct)
  case (starts w)
  have "projects (gw_config w) {}"
    using starts(3) by (simp add: sidecar_count_def projects_def latest_of_def binds_def facts_in_defs lookup_defs)
  moreover have "coherent {}" by (simp add: coherent_def single_def facts_in_defs)
  ultimately have "canonical_world E w []"
    using starts(1) no_history [OF starts(2)]
    by (simp add: canonical_world_def canonical_def recorded_def triggers_processed_def)
  then show ?case ..
next
  case (rebuilds w rg w')
  then obtain fts where fts: "canonical_world E w fts" by blast
  then obtain g p where g: "reconstruct_governance_history (history_events (gw_store w)) = Inr (g, p)" "projects g (fst ` set fts)"
    by (auto simp: canonical_world_def elim: canonical_reconstructs)
  with rebuilds(2) have "w' = w\<lparr>gw_config := g\<rparr>" by (simp add: rebuild_projection_def)
  with fts g(2) have "canonical_world E w' fts" by (simp add: canonical_world_def canonical_def)
  then show ?case ..
next
  case (journals w e r s)
  then obtain fts where "canonical_world E w fts" by blast
  moreover from this have "keyed s \<and> recorded E s fts"
    by (intro journal_keeps [OF _ _ journals(2,3)]) (simp_all add: canonical_world_def canonical_def)
  ultimately have "canonical_world E (w\<lparr>gw_world := (gw_world w)\<lparr>wd_store := s\<rparr>\<rparr>) fts"
    by (simp add: canonical_world_def canonical_def)
  then show ?case ..
qed (metis keeps_canonical seed_state_keeps commit_event_cases observe_change_keeps lifecycle_record_decision_keeps
    apply_state_keeps discharge_keeps)+

end
