(* ===== verification/Governance_Lifecycle.thy ===== *)
theory Governance_Lifecycle
  imports Governance_Properties
begin

text \<open>
  The lifecycle of revalidation does durably what the pure operations of
  \<open>governance/distinction.py\<close> say, and an observed change blocks what depends on it.
\<close>

section \<open>The projection and the canonical history\<close>


section \<open>The durable operations and the pure ones\<close>

text \<open>
  An operation that succeeds leaves the configuration the pure operation returns.  One that fails leaves
  configuration and journal as they were, and fails only if the pure operation refuses or the journal
  has an event under the identity of the new one.
\<close>

definition follows ::
    "gworld \<Rightarrow> py_error + 'a \<Rightarrow> gworld \<Rightarrow> governance_configuration option \<Rightarrow> string \<Rightarrow> bool" where
  "follows w r w' g identity \<longleftrightarrow> (case r of
     Inl e \<Rightarrow> gw_config w' = gw_config w \<and> st_event (gw_store w') = st_event (gw_store w)
        \<and> (g = None \<or> get_event (gw_store w) identity \<noteq> None)
   | Inr x \<Rightarrow> g = Some (gw_config w'))"

lemma fact_event_gate: "event_gate (fact_event E f t) s = None"
  by (cases f) (simp_all add: event_gate_def fact_event_defs history_types Let_def
      outcome_impact_authority_event_types_def dispatch_has_provider_execution_binding_authority_def)

lemma append_accepted:
  assumes "get_event (gw_store w) (ev_id (fact_event E f 0)) = None"
  obtains w' where "append_history_event E (fact_event E f) w = (Inr (), w')" "gw_config w' = gw_config w"
proof -
  have "get_event (gw_store w) (ev_id (fact_event E f (env_clock E (wd_tick (gw_world w))))) = None"
    using assms ev_id_time by metis
  then show thesis
    using that fact_event_gate [of E f]
    by (simp add: append_history_event_def on_gworld_def bindI_def utcnow_def on_store_def append_event_def)
qed

lemma appended_config:
  assumes "bindI (update_config u) (\<lambda>_. append_history_event E ev) w = (Inr x, w')"
  shows "gw_config w' = u (gw_config w)"
  using assms appended [of E ev "w\<lparr>gw_config := u (gw_config w)\<rparr>" w']
  by (simp add: bindI_def update_config_def) metis

lemma update_accepted:
  assumes "get_event (gw_store w) (ev_id (fact_event E f 0)) = None"
  shows "\<exists>w'. bindI (update_config u) (\<lambda>_. append_history_event E (fact_event E f)) w = (Inr (), w')"
proof -
  have "get_event (gw_store (w\<lparr>gw_config := u (gw_config w)\<rparr>)) (ev_id (fact_event E f 0)) = None" using assms by simp
  then obtain w' where "append_history_event E (fact_event E f) (w\<lparr>gw_config := u (gw_config w)\<rparr>) = (Inr (), w')"
    by (rule append_accepted)
  then show ?thesis by (simp add: bindI_def update_config_def)
qed

text \<open>A transaction that checks the configuration and records a fact.\<close>

lemma checked_follows:
  assumes run: "gov_transaction (with_config (\<lambda>g. case problem g of Some m \<Rightarrow> raiseI (ValueError m)
      | None \<Rightarrow> bindI (update_config u) (\<lambda>_. append_history_event E (fact_event E f)))) w = (r, w')"
    and pure: "\<And>g'. g = Some g' \<Longrightarrow> problem (gw_config w) = None"
    and result: "problem (gw_config w) = None \<Longrightarrow> g = Some (u (gw_config w))"
  shows "follows w r w' g (ev_id (fact_event E f 0))"
  using run
proof (cases rule: transacted)
  case (committed x)
  then have none: "problem (gw_config w) = None" by (auto simp: with_config_def raiseI_def split: option.splits)
  with committed have "bindI (update_config u) (\<lambda>_. append_history_event E (fact_event E f)) w = (Inr x, w')"
    by (simp add: with_config_def)
  with appended_config result [OF none] committed(1) show ?thesis by (simp add: follows_def)
next
  case (rolled_back e)
  have "get_event (gw_store w) (ev_id (fact_event E f 0)) \<noteq> None" if "g = Some g'" for g'
  proof
    assume "get_event (gw_store w) (ev_id (fact_event E f 0)) = None"
    with update_accepted obtain v where "bindI (update_config u) (\<lambda>_. append_history_event E (fact_event E f)) w = (Inr (), v)"
      by blast
    with pure [OF that] run rolled_back(1) show False by (simp add: gov_transaction_def with_config_def)
  qed
  with rolled_back show ?thesis by (cases g) (simp_all add: follows_def)
qed

lemma decision_follows:
  assumes "lifecycle_record_decision E auth d w = (r, w')"
  shows "follows w r w' (governance_record_decision (gw_config w) d auth) (governance_event_id E ''decision'' (gdec_id d))"
proof (cases "governance_record_decision (gw_config w) d auth")
  case None
  with assms show ?thesis by (auto simp: lifecycle_record_decision_def with_config_def io_simps follows_def)
next
  case (Some g')
  then have p: "persist_decision E d w = (r, w')" using assms by (simp add: lifecycle_record_decision_def with_config_def)
  show ?thesis
  proof (cases "decision_of (gw_config w) (gdec_id d)")
    case None
    with Some have g': "g' = put_decision d (gw_config w)" "state_of (gw_config w) (gdec_target d) \<noteq> None"
        "review_decision_input_matches d (gw_config w)"
      by (auto simp: governance_record_decision_def decision_record_admissible_def split: if_splits)
    have f: "decision_recorded_event E d = fact_event E (F_Decision d)" by (rule ext) simp
    from p None g'(2,3) have "gov_transaction (with_config (\<lambda>g. case (\<lambda>_. None) g of Some m \<Rightarrow> raiseI (ValueError m)
        | None \<Rightarrow> bindI (update_config (put_decision d)) (\<lambda>_. append_history_event E (decision_recorded_event E d)))) w = (r, w')"
      by (simp add: persist_decision_def with_config_def gov_transaction_def)
    from checked_follows [OF this [unfolded f], of "Some g'"] g'(1) show ?thesis by (simp add: Some)
  next
    case known: (Some d')
    with Some have "d' = d" "g' = gw_config w"
      by (auto simp: governance_record_decision_def decision_record_admissible_def split: if_splits)
    with p known have "w' = w" "r = Inr ()"
      by (auto simp: persist_decision_def with_config_def gov_transaction_def retI_def)
    with \<open>g' = gw_config w\<close> show ?thesis by (simp add: follows_def Some)
  qed
qed

lemma put_applied:
  "put_application (state_receipt a s) (put_state (gapp_scheme_id a) (candidate_state_effect a s) g) = applied g a s"
  by (simp add: put_application_def put_state_def applied_def)

lemma put_discharged:
  "put_application (discharge_receipt a (gcfg_runtime g) oid) (delete_obligation oid g) = discharged g a oid"
  by (simp add: put_application_def delete_obligation_def discharged_def candidate_discharge_effect_def)

lemma state_application_accepted:
  assumes "application_admissible g a auth fresh" "state_of g (gapp_scheme_id a) = Some s"
  shows "state_application_error (gapp_scheme_id a) (candidate_state_effect a s) (state_receipt a s) (Some fresh) g = None"
proof (rule application_admissibleE [OF assms(1)])
  fix s' d
  assume d: "state_of g (gapp_scheme_id a) = Some s'" "decision_of g (gapp_decision_ref a) = Some d" "gdec_target d = gapp_scheme_id a"
    "decision_fresh_for_application d g fresh" "receipt_of g (gapp_id a) = None"
    "state_admissible_for (gapp_scheme_id a) (candidate_state_effect a s')"
    "effect_matches_decision d (candidate_state_effect a s')" "linked a d"
  moreover have "gapp_target a = gapp_scheme_id a"
    using assms(1) by (simp add: application_admissible_def split: if_split_asm)
  moreover have "s' = s" using d(1) assms(2) by simp
  moreover have "relevant_basis_unchanged d fresh" "state_anchor s = gdec_expected_state_anchor d"
    using d(1,3,4) assms(2) by (simp_all add: decision_fresh_for_application_def common_decision_freshness_def)
  ultimately show ?thesis
    by (simp add: state_application_error_def state_receipt_def)
qed

lemma application_follows:
  assumes "apply_state E auth fresh a w = (r, w')"
  shows "follows w r w' (apply_state_transition (gw_config w) a auth fresh) (governance_event_id E ''application'' (gapp_id a))"
proof (cases "apply_state_transition (gw_config w) a auth fresh")
  case None
  with assms show ?thesis by (auto simp: apply_state_def with_config_def io_simps follows_def)
next
  case (Some g')
  note adm = applying_effect(1) [OF Some]
  obtain s where s: "state_of (gw_config w) (gapp_scheme_id a) = Some s" by (rule application_admissibleE [OF adm])
  have g': "g' = applied (gw_config w) a s" by (rule applying_effect(2) [OF Some s])
  obtain r1 where c: "commit_state_application E (gapp_scheme_id a) (candidate_state_effect a s) (state_receipt a s) (Some fresh) w = (r1, w')"
      "r = (case r1 of Inl e \<Rightarrow> Inl e | Inr _ \<Rightarrow> Inr (state_receipt a s))"
    using assms by (auto simp: apply_state_def with_config_def Some g' bindI_def retI_def Let_def split: prod.splits sum.splits)
  have f: "application_committed_event E (state_receipt a s) (Some (candidate_state_effect a s))
      = fact_event E (F_Receipt (state_receipt a s) (Some (candidate_state_effect a s)))" by (rule ext) simp
  have "follows w r1 w' (Some g') (ev_id (fact_event E (F_Receipt (state_receipt a s) (Some (candidate_state_effect a s))) 0))"
    by (rule checked_follows [OF c(1) [unfolded commit_state_application_def f]])
      (simp_all add: state_application_accepted [OF adm s] g' put_applied)
  then show ?thesis using c(2) Some by (cases r1) (simp_all add: follows_def state_receipt_def)
qed

lemma governed_obligation_id:
  assumes "governed E w" "obligation_of (gw_config w) i = Some ob"
  shows "rob_id ob = i"
proof -
  obtain fts where "canonical_world E w fts" using governed_canonical [OF assms(1)] ..
  then have "projects (gw_config w) (fst ` set fts)" by (simp add: canonical_world_def canonical_def)
  then have "set_option (obligation_of (gw_config w) i) \<subseteq> reviews_in (fst ` set fts) i"
    by (simp add: projects_def)
  with assms(2) show ?thesis by (simp add: reviews_in_def)
qed

lemma discharge_accepted:
  assumes "discharge_admissible g a auth fresh sa" "gapp_review_obligation_id a = Some oid"
    "\<And>ob. obligation_of g oid = Some ob \<Longrightarrow> rob_id ob = oid"
  shows "discharge_error oid (discharge_receipt a (gcfg_runtime g) oid) (Some fresh) g = None"
proof (rule discharge_admissibleE [OF assms(1)])
  fix oid' ob d s
  assume d: "gapp_review_obligation_id a = Some oid'" "obligation_of g oid' = Some ob"
    "decision_of g (gapp_decision_ref a) = Some d" "state_of g (gdec_target d) = Some s"
    "closure_admissible d ob g fresh" "receipt_of g (gapp_id a) = None"
  have oid: "oid' = oid" "rob_id ob = oid" using d(1,2) assms(2,3) by simp_all
  have adm: "gapp_operation a = ''apply_review_discharge''" "gapp_target a = ''review_obligation:'' @ oid" "linked a d"
    using assms(1) d oid by (simp_all add: discharge_admissible_def split: if_split_asm)
  moreover have "gapp_scheme_id a = gdec_target d" using adm(3) by (simp add: linked_def split: if_split_asm)
  moreover have "oid \<in> set (gdec_review_refs d)" "rob_target ob = gdec_target d" "rob_context ob = gdec_context d"
      "relevant_basis_unchanged d fresh"
    using d(4,5) oid(2) by (simp_all add: closure_admissible_def split: if_split_asm)
  ultimately show ?thesis
    using d oid by (simp add: discharge_error_def discharge_receipt_def candidate_discharge_effect_def Let_def)
qed

lemma discharge_follows:
  assumes "discharge E auth fresh a sa w = (r, w')" "governed E w"
  shows "follows w r w' (apply_review_discharge (gw_config w) a auth fresh sa) (governance_event_id E ''application'' (gapp_id a))"
proof (cases "apply_review_discharge (gw_config w) a auth fresh sa")
  case None
  with assms(1) show ?thesis by (auto simp: discharge_def with_config_def io_simps follows_def)
next
  case (Some g')
  note adm = discharging_effect(1) [OF Some]
  obtain oid where oid: "gapp_review_obligation_id a = Some oid" by (rule discharge_admissibleE [OF adm])
  let ?rc = "discharge_receipt a (gcfg_runtime (gw_config w)) oid"
  have g': "g' = discharged (gw_config w) a oid" by (rule discharging_effect(2) [OF Some oid])
  obtain r1 where c: "commit_review_discharge E oid ?rc (Some fresh) w = (r1, w')"
      "r = (case r1 of Inl e \<Rightarrow> Inl e | Inr _ \<Rightarrow> Inr ?rc)"
    using assms(1) by (auto simp: discharge_def with_config_def Some oid g' bindI_def retI_def Let_def split: prod.splits sum.splits)
  have f: "application_committed_event E ?rc None = fact_event E (F_Receipt ?rc None)" by (rule ext) simp
  have "follows w r1 w' (Some g') (ev_id (fact_event E (F_Receipt ?rc None) 0))"
    by (rule checked_follows [OF c(1) [unfolded commit_review_discharge_def f]])
      (simp_all add: discharge_accepted [OF adm oid governed_obligation_id [OF assms(2)]] g' put_discharged)
  then show ?thesis using c(2) Some by (cases r1) (simp_all add: follows_def discharge_receipt_def)
qed


section \<open>An observed change blocks\<close>

lemma should_block_action: "should_block a \<longleftrightarrow> disposition_action a \<in> set blocking_actions"
  by (simp add: should_block_def disposition_action_def blocking_actions_def split: option.split)

lemma projected_obligation:
  assumes "project_review_obligation E a ev ctx g = Inr pj" "should_block a" "pj_status pj \<noteq> Proj_Unavailable"
  obtains ob where "pj_status pj = Proj_Ready" "pj_obligation pj = Some ob" "rob_target ob = aa_affected_ref a" "rob_blocking ob"
    "rob_blocking_condition ob = Some \<lparr>bcond_context_names = {|ctx|}, bcond_scope_any = {||}, bcond_scope_all = {||}\<rparr>"
proof -
  let ?d = "case aa_revalidation_disposition a of Some d \<Rightarrow> d
        | None \<Rightarrow> \<lparr>rd_action = disposition_action a, rd_policy_ref = ''default-revalidation-policy'',
            rd_rationale_refs = aa_reason_refs a\<rparr>"
  have "rd_action ?d \<in> set blocking_actions"
    using assms(2) by (auto simp: should_block_action disposition_action_def split: option.splits)
  moreover from this have "rd_action ?d \<in> set review_actions" by (auto simp: blocking_actions_def review_actions_def)
  ultimately show thesis
    using assms(1,3) that
    by (auto simp: project_review_obligation_def project_review_obligation_from_disposition_def Let_def split: if_splits)
qed

lemma projected_all:
  assumes "project_all E ev ctx g as = Inr (ready, [])" "a \<in> set as" "should_block a"
  obtains ob where "ob \<in> set ready" "rob_target ob = aa_affected_ref a" "rob_blocking ob"
    "rob_blocking_condition ob = Some \<lparr>bcond_context_names = {|ctx|}, bcond_scope_any = {||}, bcond_scope_all = {||}\<rparr>"
proof -
  have "\<exists>ob \<in> set ready. rob_target ob = aa_affected_ref a \<and> rob_blocking ob
      \<and> rob_blocking_condition ob = Some \<lparr>bcond_context_names = {|ctx|}, bcond_scope_any = {||}, bcond_scope_all = {||}\<rparr>"
    using assms
  proof (induction as arbitrary: ready)
    case (Cons b bs)
    obtain pj where pj: "project_review_obligation E b ev ctx g = Inr pj"
      using Cons.prems(1) by (auto simp: bindR_def split: sum.splits)
    have available: "pj_status pj \<noteq> Proj_Unavailable"
      using Cons.prems(1) pj by (auto simp: bindR_def split: sum.splits if_splits)
    show ?case
    proof (cases "a = b")
      case True
      obtain ob where "pj_status pj = Proj_Ready" "pj_obligation pj = Some ob" and ob: "rob_target ob = aa_affected_ref a" "rob_blocking ob"
          "rob_blocking_condition ob = Some \<lparr>bcond_context_names = {|ctx|}, bcond_scope_any = {||}, bcond_scope_all = {||}\<rparr>"
        using projected_obligation [OF pj _ available] Cons.prems(3) True by metis
      with Cons.prems(1) pj have "ob \<in> set ready" by (auto simp: bindR_def split: sum.splits)
      with ob show ?thesis by blast
    next
      case False
      with Cons.prems(2) have "a \<in> set bs" by simp
      moreover have "\<exists>rest. project_all E ev ctx g bs = Inr (rest, []) \<and> (\<forall>x \<in> set rest. x \<in> set ready)"
        using Cons.prems(1) pj available
        by (cases "pj_status pj") (auto simp: bindR_def split: sum.splits option.splits)
      ultimately show ?thesis using Cons.IH Cons.prems(3) by blast
    qed
  qed simp
  with that show thesis by blast
qed

text \<open>C13: Once an observed change has been projected completely, every target it is assessed to affect with a blocking
  disposition (block, human review, reopen) is unusable in the context of the observation, for every requested scope.\<close>

theorem observed_change_blocks:
  assumes "governed E w" "observe_change E p ev c kind rs ctx w = (Inr res, w')" "rg_projection_unavailable res = []"
    "a \<in> set (rg_assessments res)" "should_block a"
  shows "\<not> is_usable w' (aa_affected_ref a) \<lparr>uctx_name = ctx, uctx_requested_scope = requested\<rparr>"
  using assms(2)
proof (cases rule: observe_change_cases)
  case unchanged
  with assms(3,4) show ?thesis by auto
next
  case (commits v as ready r')
  obtain ids where ids: "r' = Inr ids" "rg_assessments res = as" using commits(7) by blast
  obtain fts where fts: "canonical E (gw_config v) (gw_store v) fts" "triggers_processed (fst ` set fts)"
    using governed_canonical [OF assms(1)] commits(1,2) by (auto simp: canonical_world_def)
  obtain more where more: "canonical E (gw_config w') (gw_store w') (fts @ more)"
      "fst ` set more = insert (F_Processed ev ids) (F_Review ` set ready)" "F_Review ` set ready \<inter> fst ` set fts = {}"
    by (rule commit_event_records [OF commits(6) [unfolded ids(1)] commits(3) fts])
  obtain ob where ob: "ob \<in> set ready" "rob_target ob = aa_affected_ref a" "rob_blocking ob"
      "rob_blocking_condition ob = Some \<lparr>bcond_context_names = {|ctx|}, bcond_scope_any = {||}, bcond_scope_all = {||}\<rparr>"
    using projected_all [OF commits(5)] assms(4,5) ids(2) by metis
  let ?F = "fst ` set fts" and ?F' = "fst ` set (fts @ more)" and ?g = "gw_config w'"
  have F': "F_Review ob \<in> ?F'" "discharged_in ?F' = discharged_in ?F" "reviews_in ?F i \<subseteq> reviews_in ?F' i" for i
    using more(2) ob(1) by (auto simp: image_Un discharged_in_def reviews_in_def)
  have p: "coherent ?F'" "projects ?g ?F'" "projects (gw_config v) ?F"
    using more(1) fts(1) by (simp_all add: canonical_def)
  have "rob_id ob \<notin> discharged_in ?F"
  proof
    assume "rob_id ob \<in> discharged_in ?F"
    with p(3) have "reviews_in ?F (rob_id ob) \<noteq> {}" by (simp add: projects_def)
    then obtain ob' where ob': "ob' \<in> reviews_in ?F (rob_id ob)" by blast
    moreover have "ob \<in> reviews_in ?F' (rob_id ob)" using F'(1) by (simp add: reviews_in_def)
    ultimately have "ob' = ob" using p(1) F'(3) unfolding coherent_def single_def by blast
    with ob' more(3) ob(1) show False by (auto simp: reviews_in_def)
  qed
  then have "set_option (obligation_of ?g (rob_id ob)) = reviews_in ?F' (rob_id ob)"
    using p(2) F'(2) by (simp add: projects_def)
  then have "ob \<in> set_option (obligation_of ?g (rob_id ob))" using F'(1) by (simp add: reviews_in_def)
  then have entry: "(rob_id ob, ob) \<in> set (grt_obligations (gcfg_runtime ?g))"
    by (auto simp: obligation_of_def dest: map_of_SomeD)
  have "blocking_review_open ?g (aa_affected_ref a) \<lparr>uctx_name = ctx, uctx_requested_scope = requested\<rparr>"
    if "state_of ?g (aa_affected_ref a) = Some s" for s
    using entry ob(2-4) that
    by (auto simp: blocking_review_open_def list_ex_iff obligation_blocks_def blocking_condition_matches_def Let_def
        intro!: bexI [OF _ entry])
  then show ?thesis by (auto simp: is_usable_def usable_def split: option.splits)
qed

section \<open>A concrete run\<close>

text \<open>
  An active distinction is seeded, a model it was validated under changes, and it is blocked; a decision
  closes the review without a transition, and it is usable again.
\<close>

definition governance_env :: env where
  "governance_env = \<lparr>env_clock = int, env_uuid_hex = (\<lambda>n. replicate n CHR ''a''),
     env_sha256_hex = (\<lambda>s. s), env_isoformat = py_str_int\<rparr>"

definition sample_start :: gworld where
  "sample_start = \<lparr>gw_world = \<lparr>wd_store = empty_store, wd_tick = 0\<rparr>,
     gw_config = \<lparr>gcfg_states = [], gcfg_runtime = \<lparr>grt_obligations = [], grt_decisions = [], grt_applications = []\<rparr>\<rparr>\<rparr>"

definition sample_active :: distinction_state where
  "sample_active = sample_candidate\<lparr>dst_qualification := ''qualified'', dst_activation := ''active''\<rparr>"

definition seeded :: gworld where
  "seeded = snd (seed_state governance_env ''s'' sample_active sample_start)"

definition sample_relations :: "record_relation list" where
  "sample_relations = [\<lparr>rel_id = ''l'', rel_relation_type = ''validated-under'', rel_subject_ref = ''s'', rel_object_ref = ''m''\<rparr>]"

definition observe_sample :: "(gworld, revalidation_result) io" where
  "observe_sample = observe_change governance_env default_revalidation_profile ''e'' ''m'' ''Model '' sample_relations ''c''"

definition observed :: gworld where
  "observed = snd (observe_sample seeded)"

lemma sample_governed: "governed governance_env seeded" "governed governance_env observed"
proof -
  have "governed governance_env sample_start"
    by (rule starts) (simp_all add: sample_start_def empty_store_def keyed_def history_events_def list_events_def
        newest_first_def sidecar_count_def)
  then show s: "governed governance_env seeded"
    by (rule seeds [of _ _ "''s''" sample_active "fst (seed_state governance_env ''s'' sample_active sample_start)"])
      (simp add: seeded_def)
  show "governed governance_env observed"
    by (rule observes [OF s, of default_revalidation_profile "''e''" "''m''" "''Model ''" sample_relations "''c''" "fst (observe_sample seeded)"])
      (simp add: observed_def observe_sample_def)
qed

text \<open>The review is closed without a transition.\<close>

definition closing_decision :: governance_decision where
  "closing_decision = sample_decision\<lparr>gdec_id := ''d3'', gdec_operation := ''decide_review_disposition'',
     gdec_review_refs := [review_identity governance_env ''e'' ''s'' ''c''], gdec_disposition := ''no_change'',
     gdec_expected_state_anchor := state_anchor sample_active, gdec_basis_anchors := [(''m'', ''1'')],
     gdec_required_qualification := None\<rparr>"

definition closing_application :: governed_application where
  "closing_application = sample_discharge\<lparr>gapp_target := ''review_obligation:'' @ review_identity governance_env ''e'' ''s'' ''c'',
     gapp_decision_ref := ''d3'', gapp_review_obligation_id := Some (review_identity governance_env ''e'' ''s'' ''c'')\<rparr>"

definition m_fresh :: freshness_lookup where
  "m_fresh x = (if x = ''m'' then Some ''1'' else None)"

definition closing_decided :: gworld where
  "closing_decided = snd (lifecycle_record_decision governance_env (\<lambda>_. True) closing_decision observed)"

definition closed :: gworld where
  "closed = snd (discharge governance_env (\<lambda>_. True) m_fresh closing_application None closing_decided)"

abbreviation "sample_review_id \<equiv> review_identity governance_env ''e'' ''s'' ''c''"

definition reopened :: gworld where
  "reopened = snd (persist_open_obligation governance_env (the (obligation_of (gw_config observed) sample_review_id)) closed)"

definition weak_relation :: "string \<Rightarrow> record_relation" where
  "weak_relation i = \<lparr>rel_id = ''k'', rel_relation_type = ''depends-on'', rel_subject_ref = i, rel_object_ref = ''m''\<rparr>"

definition observe_relations :: "record_relation list \<Rightarrow> (gworld, revalidation_result) io" where
  "observe_relations rs = observe_change governance_env default_revalidation_profile ''e'' ''m'' ''model'' rs ''c''"

text \<open>The whole run, evaluated once.\<close>

lemma sample_run:
  "let v = seeded; observation = observe_sample v; w1 = snd observation;
       decision = lifecycle_record_decision governance_env (\<lambda>_. True) closing_decision w1; w2 = snd decision;
       discharging = discharge governance_env (\<lambda>_. True) m_fresh closing_application None w2; w3 = snd discharging;
       w4 = snd (persist_open_obligation governance_env (the (obligation_of (gw_config w1) sample_review_id)) w3)
   in (case fst observation of
      Inl _ \<Rightarrow> False
    | Inr res \<Rightarrow> rg_projection_unavailable res = [] \<and> map aa_affected_ref (rg_assessments res) = [''s'']
        \<and> list_all should_block (rg_assessments res))
    \<and> is_usable v ''s'' sample_use
    \<and> \<not> isl (fst decision) \<and> \<not> isl (fst discharging) \<and> is_usable w3 ''s'' sample_use
    \<and> \<not> is_usable w4 ''s'' sample_use \<and> is_usable (snd (rebuild_projection w4)) ''s'' sample_use"
  by code_simp

lemma sample_relations_run:
  "let v = seeded in
    \<not> is_usable (snd (observe_relations (sample_relations @ [weak_relation ''s'']) v)) ''s'' sample_use
    \<and> is_usable (snd (observe_relations (weak_relation ''s'' # sample_relations) v)) ''s'' sample_use
    \<and> is_usable (snd (observe_relations (sample_relations @ [weak_relation ''t'']) v)) ''s'' sample_use"
  by code_simp

lemmas sample_facts = sample_run [unfolded Let_def, folded observed_def, folded closing_decided_def, folded closed_def,
  folded reopened_def]

lemma sample_observes:
  "case fst (observe_sample seeded) of
      Inl _ \<Rightarrow> False
    | Inr res \<Rightarrow> rg_projection_unavailable res = [] \<and> map aa_affected_ref (rg_assessments res) = [''s'']
        \<and> list_all should_block (rg_assessments res)"
  using sample_facts by blast

lemma sample_closes:
  "\<not> isl (fst (discharge governance_env (\<lambda>_. True) m_fresh closing_application None closing_decided))"
  "is_usable closed ''s'' sample_use"
  using sample_facts by blast+

lemma closing_governed: "governed governance_env closing_decided" "governed governance_env closed"
proof -
  show d: "governed governance_env closing_decided"
    by (rule records [OF sample_governed(2), of "\<lambda>_. True" closing_decision
          "fst (lifecycle_record_decision governance_env (\<lambda>_. True) closing_decision observed)"])
      (simp add: closing_decided_def)
  show "governed governance_env closed"
    by (rule discharges_review [OF d, of "\<lambda>_. True" m_fresh closing_application None
          "fst (discharge governance_env (\<lambda>_. True) m_fresh closing_application None closing_decided)"])
      (simp add: closed_def)
qed

theorem observed_change_blocks_witness:
  "\<not> is_usable observed ''s'' sample_use"
proof -
  obtain res where res: "observe_sample seeded = (Inr res, observed)" "rg_projection_unavailable res = []"
      "map aa_affected_ref (rg_assessments res) = [''s'']" "list_all should_block (rg_assessments res)"
    using sample_observes by (cases "observe_sample seeded") (auto simp: observed_def split: sum.splits)
  then obtain a where "a \<in> set (rg_assessments res)" "aa_affected_ref a = ''s''" "should_block a"
    by (auto simp: map_eq_Cons_conv)
  with observed_change_blocks [OF sample_governed(1) res(1) [unfolded observe_sample_def] res(2), of a "{||}"]
  show ?thesis by simp
qed



section \<open>Where the code surprises\<close>

text \<open>
  A discharged review that is opened again with the same content appears in the projection, but the
  journal accepts its event as one it already has: rebuilding the projection loses the review.
\<close>

theorem reopened_review_lost_by_rebuild:
  "\<exists>w ob. governed governance_env w \<and> is_usable w ''s'' sample_use
     \<and> \<not> is_usable (snd (persist_open_obligation governance_env ob w)) ''s'' sample_use
     \<and> is_usable (snd (rebuild_projection (snd (persist_open_obligation governance_env ob w)))) ''s'' sample_use"
  using closing_governed(2) sample_facts unfolding reopened_def by blast

text \<open>Of two relations of one subject only the one listed first counts, although the second one blocks.\<close>

theorem first_relation_decides:
  "\<not> is_usable (snd (observe_relations (sample_relations @ [weak_relation ''s'']) seeded)) ''s'' sample_use
   \<and> is_usable (snd (observe_relations (weak_relation ''s'' # sample_relations) seeded)) ''s'' sample_use"
  using sample_relations_run unfolding Let_def by blast

text \<open>One target without a distinction, affected only in the background, keeps every other target from being blocked.\<close>

theorem unavailable_projection_unblocks:
  "is_usable (snd (observe_relations (sample_relations @ [weak_relation ''t'']) seeded)) ''s'' sample_use"
  using sample_relations_run unfolding Let_def by blast

end
