(* ===== verification/Spec2Isabelle.thy ===== *)
theory Spec2Isabelle
  imports Runtime_Leases Responsibility_Invariants Controller_Properties Policy_Properties
    Reliability_Properties Registry_Properties Routing_Properties Capability_Properties Procedure_Properties Boundary_Properties
    Governance_Lifecycle
begin

text \<open>
  A verification development for the portable runtime (\<open>src/src/portable_runtime\<close>, whose paths are
  used below).  The runtime lets autonomous workers propose and do work while everything that touches
  the world passes one boundary and everything that is decided is an event of one append-only journal.


  \<^bold>\<open>The parts and how they interact.\<close>

  The \<^emph>\<open>store\<close> (\<open>stores/memory.py\<close>) keeps the records of the runtime and the event journal.  On it
  stand the components that keep their own history as events: \<^emph>\<open>responsibilities\<close>
  (\<open>responsibility/\<close>), which own resources, commitments and work; the \<^emph>\<open>cognitive controller\<close>
  (\<open>controller/\<close>), which explores and closes before it proposes work; and the \<^emph>\<open>governance of
  distinctions\<close> (\<open>governance/\<close>), which decides what may be used.  The \<^emph>\<open>reality boundary\<close>
  (\<open>core/boundary.py\<close>) is the only way from a request to a provider: it asks the capability
  contracts, the policy engine, the authorization grants, the procedure gates, the reliability
  controls, the registry, the router and the fence of the run's lease, makes its records durable, calls the
  provider and checks the fence again before it reports success.

  An operation that changes state is a function from the world to an error or a value and the new
  world, which an exception leaves as the code leaves it (type \<open>('s, 'a) io\<close> of \<open>Prelude\<close>): what
  was changed before an exception stays changed unless a transaction undoes it.  Pure code returns
  \<open>py_error + 'a\<close> where it can raise.  A Pydantic model or data class is a record, its validator a
  function that returns the value or the error of the first check that fails.


  \<^bold>\<open>The theories.\<close>

  \<^item> \<open>Prelude\<close>, \<open>Python_Values\<close>: results, state transformers with exceptions, the string functions of
    Python that the code calls, dictionaries, and dynamically typed values with \<open>str\<close>, \<open>repr\<close>
    and truth as in Python.
  \<^item> \<open>Core_Models\<close>, \<open>Memory_Store\<close>, \<open>Runtime_Leases\<close>: \<open>Work\<close>, \<open>Run\<close>, \<open>Step\<close>, \<open>Event\<close> and the environment
    (\<open>core/models.py\<close>, \<open>core/capabilities.py\<close>); the store with its journal, checked
    writes, compare-and-swap, transactions and leases (\<open>stores/memory.py\<close>); the operations of
    \<open>core/runtime.py\<close> on runs and leases.  Shown: an event keeps its content for ever, fencing
    generations increase, a lease excludes other owners, terminal states need a completion commit.
  \<^item> \<open>Authorization\<close>: grants, their uses and the matching of requests (\<open>records/authorization.py\<close>).
    Shown: the check with its early returns decides exactly its declarative reading.
  \<^item> \<open>Responsibility_Models\<close>, \<open>Responsibility_Journal\<close>, \<open>Responsibility_Kernel\<close>, \<open>Responsibility_Resources\<close>,
    \<open>Responsibility_Continuity\<close>: \<open>responsibility/models.py\<close>, \<open>persistence.py\<close>, \<open>domain.py\<close> and \<open>service.py\<close>.
    \<open>Responsibility_Histories\<close> and \<open>Responsibility_Invariants\<close> show what each operation records, that
    revisions are optimistic transactions, that no history overcommits a pool, and what stands behind
    a commitment; \<open>Responsibility_Samples\<close> holds the concrete journal of the witnesses.
  \<^item> \<open>Controller_Models\<close>, \<open>Cognitive_Controller\<close>: \<open>controller/handoff.py\<close>, \<open>closure.py\<close>, \<open>revision.py\<close>,
    \<open>models.py\<close>, \<open>service.py\<close>, \<open>policy.py\<close> and \<open>plugins.py\<close>.  \<open>Controller_Histories\<close> states the
    abstract phases of cognitive work; \<open>Controller_Properties\<close> shows that the controller refines them,
    that its history stays well formed and that work stays within the closure; \<open>Controller_Samples\<close>
    holds concrete controllers.
  \<^item> \<open>Policy_Engine\<close>, \<open>Policy_Properties\<close>: \<open>core/policies.py\<close>.  Shown: the verdict is the join of the verdicts,
    with the exception for clashing requirements.
  \<^item> \<open>Reliability\<close>, \<open>Reliability_Properties\<close>: \<open>core/reliability.py\<close>.  Shown: budgets over every history, what an
    assessment decides, and the circuit breaker against its reference.
  \<^item> \<open>Execution_Binding\<close>, \<open>Provider_Registry\<close>, \<open>Registry_Properties\<close>:
    \<open>governance/provider_execution_binding.py\<close>, \<open>core/reconciliation_repeatability.py\<close> and
    \<open>core/registry.py\<close>.  Shown: a removed registration never resolves, when a reconciliation may be
    repeated, and that bindings and authorities are read back from a dispatch event as written.
  \<^item> \<open>Provider_Routing\<close>, \<open>Routing_Properties\<close>: \<open>core/router.py\<close> and \<open>core/independence.py\<close>.  Shown: the chosen
    provider is the least eligible one and is independent where independence is required.
  \<^item> \<open>Capability_Contract\<close>, \<open>Capability_Properties\<close>: \<open>core/capability_contract.py\<close>.  Shown: contracts and
    effect rules agree over every history of registrations.
  \<^item> \<open>Procedure_Gates\<close>, \<open>Procedure_Properties\<close>: \<open>workflows/procedure.py\<close>.  Shown: a gate that asks for typed
    evidence is satisfied by nothing else.
  \<^item> \<open>Boundary_Stages\<close>, \<open>Reality_Boundary\<close>: \<open>core/boundary_fencing.py\<close>, \<open>core/boundary_stages.py\<close>,
    \<open>core/boundary.py\<close>, and the permit and proofs of \<open>core/qualification.py\<close>.  \<open>Boundary_Calculus\<close> is a calculus
    of how stages stop and what they change, \<open>Boundary_Records\<close> is about the durable records,
    \<open>Boundary_Properties\<close> composes them: what a success, a refusal and a call of the provider each
    imply; \<open>Boundary_Samples\<close> holds concrete boundaries.
  \<^item> \<open>Distinction_Governance\<close>, \<open>Distinction_Properties\<close>: \<open>governance/distinction.py\<close>.  Shown: states stay
    admissible, a decision is applied once, use needs authority, assignment is unique.
  \<^item> \<open>Governance_History\<close>: \<open>governance/canonical.py\<close>, \<open>persistence.py\<close> and \<open>history_epoch.py\<close>.
    \<open>Governance_Replay\<close> shows that every payload is read back as written and that the
    reconstruction does not depend on the order of the events, which the store lists newest first.
  \<^item> \<open>Revalidation\<close>: \<open>records/revalidation.py\<close> and \<open>governance/revalidation.py\<close>.  \<open>Governance_Properties\<close> shows
    that every durable operation records exactly the facts it adds to the projection;
    \<open>Governance_Lifecycle\<close> concludes that the projection is the one of the canonical history, that
    the lifecycle does what the pure operations say, and that an observed change blocks.


  \<^bold>\<open>Interfaces.\<close>

  The locale \<open>append_only_log\<close> states what the journal promises to every component that keeps its
  history in it, \<open>object_log\<close> what saving a responsibility object promises, \<open>authority\<close> what
  matching a grant against a request promises.  Each is interpreted on the operations of the code in
  the theory that models them.


  \<^bold>\<open>Bounds, loops and termination.\<close>

  Every loop of the modelled code runs over a finite list and is a structural recursion or a fold: there
  is no fuel, and every definition is total.  Python integers are unbounded integers.  Times and
  durations are integers (instants) or exact rationals (\<open>core/reliability.py\<close>), without the rounding of
  floating point numbers; recovery timings, which may be infinite or NaN, keep these values.
  A Python string is a list of code points up to 255.


  \<^bold>\<open>Parameters.\<close>

  The record \<open>env\<close> holds what the code takes from outside: the clock, \<open>uuid4\<close>, SHA-256 and the ISO
  rendering of instants, with documented behaviour (no repeated \<open>uuid4\<close>, no colliding digests) as a
  hypothesis where a property needs it.  Further parameters are the graph validator
  \<open>validate_state_graph\<close> (\<open>protocol/validation.py\<close>), the parsing of \<open>float()\<close>, the policy of a
  controller and the invocation it makes, installed policies, and, for the boundary, the
  resolution of qualification references, the governance admission and the dispatch commit, health
  probes and providers.  Each may change the world, as other tasks may at every \<open>await\<close>.


  \<^bold>\<open>Not modelled.\<close>

  \<^item> Input and output: \<open>api/\<close>, \<open>providers/\<close>, \<open>stores/sqlite.py\<close> and the other durable stores and
    bundles, the SQLite projection of \<open>governance/persistence.py\<close>, \<open>core/process.py\<close>, \<open>metrics.py\<close>, \<open>paths.py\<close>,
    \<open>core/knowledge.py\<close>, \<open>artifacts.py\<close>, triggers, plugin discovery, deployment, and the packages in
    TypeScript.  \<open>public_contracts/\<close> and \<open>protocol/messages.py\<close> are serialization schemas.
  \<^item> The rules of \<open>protocol/validation.py\<close> behind the graph validator: no modelled property depends on
    what they reject.
  \<^item> Resolving the references of a request in \<open>core/qualification.py\<close>, \<open>governance/use_admission.py\<close>,
    \<open>governance/dispatch.py\<close> and the outcome impact judgment, which the boundary takes as parameters.
  \<^item> \<open>experience/\<close>, \<open>observation/\<close>, \<open>workflows/\<close> beyond the procedure gates, the remaining record
    services of \<open>records/\<close>, and the bundled workflow plugins: applications of the parts above that
    this development does not reach.
  \<^item> Dead or purely compatible code: the body of \<open>_execute_legacy\<close> after its first return, the legacy
    decoder of grants, legacy adapters.
  \<^item> Cancellation of tasks, extra fields of Pydantic models, floats inside JSON documents, and a
    provider that is registered anew while it is being called.
\<close>

end
